(* ===== verification/Prelude.thy ===== *)
theory Prelude
  imports
    Complex_Main
    "HOL-Library.AList"
    "HOL-Library.Char_ord"
    "HOL-Library.List_Lexorder"
    "HOL-Library.Product_Lexorder"
    "HOL-Library.Multiset"
begin

text \<open>
  Shared vocabulary of the development.

  \<^item> the identifier and time types of \<^verbatim>\<open>src/utils/include/utils/types.hpp\<close>;
  \<^item> \<open>umap\<close>, the model of \<^verbatim>\<open>std::unordered_map\<close>: an association list in the
    container's iteration order (\<open>map_of\<close> is \<^verbatim>\<open>find\<close>, \<open>AList.update\<close> is
    \<^verbatim>\<open>m[k] = v\<close>, \<open>AList.delete\<close> is \<^verbatim>\<open>erase\<close>, \<open>umap_emplace\<close> is
    \<^verbatim>\<open>emplace\<close>); theorems quantify over all such lists, hence over all iteration orders;
  \<^item> \<open>sort_by\<close>, the model of \<^verbatim>\<open>std::ranges::sort\<close> with a comparator, and the locale
    \<open>strict_weak_order\<close> that states what the C++ standard demands of the comparator;
  \<^item> the collections of simplification rules and the generic list lemmas that the
    component theories use.

  Signed machine integers (\<^verbatim>\<open>int64_t\<close>, \<^verbatim>\<open>int32_t\<close>, \<^verbatim>\<open>int\<close>) are modelled as
  mathematical integers: overflow of a signed integer is undefined behaviour in C++, so
  the model is exact on every execution that has a meaning. Unsigned counters that wrap
  around are words in the theories that need them.
\<close>

named_theorems record_defs \<open>definitions of record-valued helpers unfolded by component proofs\<close>
named_theorems umap_simps \<open>lookup equations of unordered maps\<close>

subsection \<open>Identifiers, times, availability windows\<close>

type_synonym workflow_id = string
type_synonym phase_id = string
type_synonym process_id = string
type_synonym sub_process_id = string
type_synonym task_id = string
type_synonym actor_id = string
type_synonym time = int
type_synonym duration = int
type_synonym priority = int

record availability_window =
  win_start :: time
  win_end :: time

definition window_contains :: "availability_window \<Rightarrow> time \<Rightarrow> bool" where
  "window_contains w t \<longleftrightarrow> t \<ge> win_start w \<and> t < win_end w"

definition window_overlaps :: "availability_window \<Rightarrow> time \<Rightarrow> time \<Rightarrow> bool" where
  "window_overlaps w range_start range_end \<longleftrightarrow> range_start < win_end w \<and> range_end > win_start w"

subsection \<open>Unordered maps\<close>

type_synonym ('k, 'v) umap = "('k \<times> 'v) list"

definition umap_emplace :: "'k \<Rightarrow> 'v \<Rightarrow> ('k, 'v) umap \<Rightarrow> ('k, 'v) umap" where
  "umap_emplace k v m = (case map_of m k of None \<Rightarrow> m @ [(k, v)] | Some _ \<Rightarrow> m)"

definition umap_contains :: "('k, 'v) umap \<Rightarrow> 'k \<Rightarrow> bool" where
  "umap_contains m k \<longleftrightarrow> map_of m k \<noteq> None"

definition umap_at_or :: "('k, 'v) umap \<Rightarrow> 'k \<Rightarrow> 'v \<Rightarrow> 'v" where
  "umap_at_or m k d = (case map_of m k of None \<Rightarrow> d | Some v \<Rightarrow> v)"

lemma map_of_update [umap_simps, simp]:
  "map_of (AList.update k v m) k' = (if k' = k then Some v else map_of m k')"
  by (simp add: AList.update_conv')

lemma map_of_delete [umap_simps, simp]:
  "map_of (AList.delete k m) k' = (if k' = k then None else map_of m k')"
  by (simp add: AList.delete_conv')

lemma map_of_emplace [umap_simps, simp]:
  "map_of (umap_emplace k v m) k' =
     (case map_of m k' of None \<Rightarrow> (if k' = k then Some v else None) | Some x \<Rightarrow> Some x)"
  by (auto simp: umap_emplace_def map_add_def split: option.splits)

lemma distinct_keys_update [simp]:
  "distinct (map fst m) \<Longrightarrow> distinct (map fst (AList.update k v m))"
  by (rule AList.distinct_update)

lemma distinct_keys_delete [simp]:
  "distinct (map fst m) \<Longrightarrow> distinct (map fst (AList.delete k m))"
  by (rule AList.distinct_delete)

lemma keys_update [simp]: "fst ` set (AList.update k v m) = insert k (fst ` set m)"
  by (simp add: AList.dom_update)

lemma keys_delete [simp]: "fst ` set (AList.delete k m) = fst ` set m - {k}"
  by (auto simp: AList.delete_keys AList.delete_eq)

lemma keys_emplace [simp]: "fst ` set (umap_emplace k v m) = insert k (fst ` set m)"
  by (force simp: umap_emplace_def map_of_eq_None_iff split: option.splits dest: map_of_SomeD)

lemma map_of_None_iff_keys: "map_of m k = None \<longleftrightarrow> k \<notin> fst ` set m"
  by (simp add: map_of_eq_None_iff)

lemma umap_contains_keys: "umap_contains m k \<longleftrightarrow> k \<in> fst ` set m"
  by (simp add: umap_contains_def map_of_eq_None_iff)

subsection \<open>Vectors used as sets\<close>

text \<open>
  \<open>erase_value\<close> is the remove-erase idiom on a vector; \<open>push_unique\<close> is the
  find-then-push idiom; both occur throughout the orchestrator.
\<close>

abbreviation erase_value :: "'a list \<Rightarrow> 'a \<Rightarrow> 'a list" where
  "erase_value xs v \<equiv> removeAll v xs"

definition push_unique :: "'a list \<Rightarrow> 'a \<Rightarrow> 'a list" where
  "push_unique xs v = (if v \<in> set xs then xs else xs @ [v])"

lemma set_push_unique [simp]: "set (push_unique xs v) = insert v (set xs)"
  by (auto simp: push_unique_def)

lemma distinct_push_unique [simp]: "distinct xs \<Longrightarrow> distinct (push_unique xs v)"
  by (auto simp: push_unique_def)

lemma length_push_unique: "length (push_unique xs v) = (if v \<in> set xs then length xs else Suc (length xs))"
  by (auto simp: push_unique_def)

subsection \<open>Sorting with a comparator\<close>

text \<open>
  \<^verbatim>\<open>std::ranges::sort(v, less)\<close> returns a permutation of \<open>v\<close> in which no element is
  \<open>less\<close> than an earlier one, provided \<open>less\<close> is a strict weak order. \<open>sort_by\<close> is
  the stable insertion sort: one of the results the library may return.
\<close>

fun insort_by :: "('a \<Rightarrow> 'a \<Rightarrow> bool) \<Rightarrow> 'a \<Rightarrow> 'a list \<Rightarrow> 'a list" where
  "insort_by lt x [] = [x]"
| "insort_by lt x (y # ys) = (if lt y x then y # insort_by lt x ys else x # y # ys)"

fun sort_by :: "('a \<Rightarrow> 'a \<Rightarrow> bool) \<Rightarrow> 'a list \<Rightarrow> 'a list" where
  "sort_by lt [] = []"
| "sort_by lt (x # xs) = insort_by lt x (sort_by lt xs)"

definition sorted_by :: "('a \<Rightarrow> 'a \<Rightarrow> bool) \<Rightarrow> 'a list \<Rightarrow> bool" where
  "sorted_by lt xs \<longleftrightarrow> sorted_wrt (\<lambda>x y. \<not> lt y x) xs"

lemma mset_insort_by [simp]: "mset (insort_by lt x xs) = add_mset x (mset xs)"
  by (induction xs) auto

lemma mset_sort_by [simp]: "mset (sort_by lt xs) = mset xs"
  by (induction xs) auto

lemma set_insort_by [simp]: "set (insort_by lt x xs) = insert x (set xs)"
  by (induction xs) auto

lemma set_sort_by [simp]: "set (sort_by lt xs) = set xs"
  by (induction xs) auto

lemma length_sort_by [simp]: "length (sort_by lt xs) = length xs"
  by (metis mset_sort_by size_mset)

lemma distinct_sort_by [simp]: "distinct (sort_by lt xs) = distinct xs"
  by (metis mset_sort_by mset_eq_imp_distinct_iff)

text \<open>
  The requirement of the C++ standard on a comparator: irreflexive, transitive, and
  incomparability is transitive (equivalently: if neither \<open>y < x\<close> nor \<open>z < y\<close> then not
  \<open>z < x\<close>).
\<close>

locale strict_weak_order =
  fixes lt :: "'a \<Rightarrow> 'a \<Rightarrow> bool"
  assumes lt_irrefl: "\<not> lt x x"
    and lt_trans: "lt x y \<Longrightarrow> lt y z \<Longrightarrow> lt x z"
    and not_lt_trans: "\<not> lt y x \<Longrightarrow> \<not> lt z y \<Longrightarrow> \<not> lt z x"
begin

lemma lt_asym: "lt x y \<Longrightarrow> \<not> lt y x"
  using lt_irrefl lt_trans by blast

lemma sorted_insort_by: "sorted_by lt xs \<Longrightarrow> sorted_by lt (insort_by lt x xs)"
proof (induction xs)
  case Nil
  then show ?case by (simp add: sorted_by_def)
next
  case (Cons y ys)
  then show ?case
    by (auto simp: sorted_by_def dest: lt_asym not_lt_trans)
qed

lemma sorted_sort_by: "sorted_by lt (sort_by lt xs)"
proof (induction xs)
  case Nil
  then show ?case by (simp add: sorted_by_def)
next
  case (Cons x xs)
  then show ?case by (simp add: sorted_insort_by)
qed

text \<open>
  Where the comparator separates the elements, the sorted permutation is unique: every
  conforming sort returns what \<open>sort_by\<close> returns, whatever the order of the input.
\<close>

lemma sorted_by_unique:
  assumes "sorted_by lt xs" and "sorted_by lt ys" and "mset xs = mset ys"
    and total: "\<And>x y. x \<in> set xs \<Longrightarrow> y \<in> set xs \<Longrightarrow> x \<noteq> y \<Longrightarrow> lt x y \<or> lt y x"
  shows "xs = ys"
  using assms
proof (induction xs arbitrary: ys)
  case Nil
  then show ?case by simp
next
  case (Cons x xs)
  from Cons.prems(3) have set_eq: "set ys = insert x (set xs)"
    by (metis list.set(2) set_mset_mset)
  then obtain y zs where ys: "ys = y # zs" by (cases ys) auto
  have "x = y"
  proof (rule ccontr)
    assume "x \<noteq> y"
    with set_eq ys have "y \<in> set xs" by auto
    with Cons.prems(1) have 1: "\<not> lt y x" by (auto simp: sorted_by_def)
    from \<open>x \<noteq> y\<close> set_eq ys have "x \<in> set zs" by auto
    with Cons.prems(2) ys have "\<not> lt x y" by (auto simp: sorted_by_def)
    with 1 \<open>x \<noteq> y\<close> \<open>y \<in> set xs\<close> Cons.prems(4) [of x y] show False by auto
  qed
  moreover have "xs = zs"
  proof (rule Cons.IH)
    show "sorted_by lt xs" using Cons.prems(1) by (simp add: sorted_by_def)
    show "sorted_by lt zs" using Cons.prems(2) ys by (simp add: sorted_by_def)
    show "mset xs = mset zs" using Cons.prems(3) ys \<open>x = y\<close> by simp
    show "\<And>u v. u \<in> set xs \<Longrightarrow> v \<in> set xs \<Longrightarrow> u \<noteq> v \<Longrightarrow> lt u v \<or> lt v u"
      using Cons.prems(4) by simp
  qed
  ultimately show ?case using ys by simp
qed

lemma sort_by_perm:
  assumes "mset xs = mset ys"
    and "\<And>x y. x \<in> set xs \<Longrightarrow> y \<in> set xs \<Longrightarrow> x \<noteq> y \<Longrightarrow> lt x y \<or> lt y x"
  shows "sort_by lt xs = sort_by lt ys"
  by (rule sorted_by_unique) (use assms in \<open>auto simp: sorted_sort_by\<close>)

end

text \<open>Comparison of keys in a linear order is a strict weak order; so are tuple comparisons.\<close>

lemma strict_weak_order_key:
  "strict_weak_order (\<lambda>x y. (f x :: 'b :: linorder) < f y)"
  by unfold_locales auto

subsection \<open>Generic list lemmas\<close>

lemma find_Some_set: "find P xs = Some x \<Longrightarrow> x \<in> set xs \<and> P x"
  by (metis find_Some_iff nth_mem)

lemma mem_map_filter: "y \<in> set (List.map_filter f xs) \<longleftrightarrow> (\<exists>x\<in>set xs. f x = Some y)"
  by (induction xs) (auto simp: List.map_filter_simps split: option.splits)

lemma mset_map_filter:
  "mset xs = mset ys \<Longrightarrow> mset (List.map_filter f xs) = mset (List.map_filter f ys)"
  unfolding List.map_filter_def by (metis (no_types, lifting) mset_filter mset_map)

lemma distinct_map_filter:
  "distinct xs \<Longrightarrow> (\<And>x y. f x = Some y \<Longrightarrow> g y = x) \<Longrightarrow> distinct (map g (List.map_filter f xs))"
  by (induction xs) (auto simp: List.map_filter_simps mem_map_filter split: option.splits)

lemma map_of_map_key: "map_of (map (\<lambda>x. (f x, x)) xs) k = find (\<lambda>x. f x = k) xs"
  by (induction xs) auto

lemma map_of_Some_key:
  "map_of (map (\<lambda>x. (f x, x)) xs) k = Some x \<Longrightarrow> x \<in> set xs \<and> f x = k"
  by (auto simp: map_of_map_key dest: find_Some_set)

lemma foldl_invariant:
  assumes "P a" and "\<And>a x. x \<in> set xs \<Longrightarrow> P a \<Longrightarrow> P (f a x)"
  shows "P (foldl f a xs)"
  using assms by (induction xs arbitrary: a) auto

lemma fold_invariant_list:
  assumes "P a" and "\<And>a x. x \<in> set xs \<Longrightarrow> P a \<Longrightarrow> P (f x a)"
  shows "P (fold f xs a)"
  using assms by (induction xs arbitrary: a) auto

end
