(* ===== verification/Workflow.thy ===== *)
theory Workflow
  imports Prelude
begin

text \<open>
  The workflow data model: \<^verbatim>\<open>data/process.hpp\<close>, \<^verbatim>\<open>data/phase.hpp\<close>,
  \<^verbatim>\<open>core/workflow.hpp\<close> and their \<^verbatim>\<open>.cpp\<close> files. A workflow owns phases (a
  dependency graph) and processes; a process and its sub-processes are the schedulable
  tasks. The two \<^verbatim>\<open>std::unordered_map\<close> members are association lists in iteration order.
\<close>

subsection \<open>Processes, phases and workflows\<close>

record process =
  p_id :: process_id
  p_phase_id :: phase_id
  sub_process_ids :: "sub_process_id list"
  estimated_duration :: duration
  p_priority :: priority
  p_deadline :: "time option"
  p_release_time :: time
  p_latest_start_time :: "time option"
  p_demand :: int
  p_mandatory :: bool
  p_preemptible :: bool
  p_allowed_actor_types :: "string list"
  p_allowed_actor_ids :: "actor_id list"
  p_preferred_actor_ids :: "actor_id list"
  p_required_capabilities :: "string list"
  p_dependency_task_ids :: "task_id list"
  p_mutually_exclusive_task_ids :: "task_id list"
  p_actor_distances :: "(actor_id, time) umap"
  p_tardiness_cost_per_unit :: rat
  p_early_start_bonus :: rat

text \<open>The member initialisers of \<^verbatim>\<open>struct Process\<close>.\<close>

definition default_process :: process where
  "default_process = \<lparr>p_id = [], p_phase_id = [], sub_process_ids = [], estimated_duration = 0,
     p_priority = 0, p_deadline = None, p_release_time = 0, p_latest_start_time = None,
     p_demand = 1, p_mandatory = True, p_preemptible = False, p_allowed_actor_types = [],
     p_allowed_actor_ids = [], p_preferred_actor_ids = [], p_required_capabilities = [],
     p_dependency_task_ids = [], p_mutually_exclusive_task_ids = [], p_actor_distances = [],
     p_tardiness_cost_per_unit = 0, p_early_start_bonus = 0\<rparr>"

definition task_ids :: "process \<Rightarrow> task_id list" where
  "task_ids p = p_id p # sub_process_ids p"

record phase =
  ph_id :: phase_id
  ph_name :: string
  ph_process_ids :: "process_id list"
  dependency_phase_ids :: "phase_id list"

record workflow =
  wf_id :: workflow_id
  phases :: "(phase_id, phase) umap"
  processes :: "(process_id, process) umap"

definition empty_workflow :: "workflow_id \<Rightarrow> workflow" where
  "empty_workflow i = \<lparr>wf_id = i, phases = [], processes = []\<rparr>"

definition set_id :: "workflow \<Rightarrow> workflow_id \<Rightarrow> workflow" where
  "set_id w i = w\<lparr>wf_id := i\<rparr>"

definition add_phase :: "workflow \<Rightarrow> phase \<Rightarrow> workflow" where
  "add_phase w p = w\<lparr>phases := AList.update (ph_id p) p (phases w)\<rparr>"

definition add_process :: "workflow \<Rightarrow> process \<Rightarrow> workflow" where
  "add_process w p = w\<lparr>processes := AList.update (p_id p) p (processes w)\<rparr>"

definition workflow_phase :: "workflow \<Rightarrow> phase_id \<Rightarrow> phase option" where
  "workflow_phase w i = map_of (phases w) i"

definition workflow_process :: "workflow \<Rightarrow> process_id \<Rightarrow> process option" where
  "workflow_process w i = map_of (processes w) i"

definition phase_ids :: "workflow \<Rightarrow> phase_id list" where
  "phase_ids w = map fst (phases w)"

definition process_ids :: "workflow \<Rightarrow> process_id list" where
  "process_ids w = map fst (processes w)"

fun root_phases_from :: "(phase_id, phase) umap \<Rightarrow> phase_id list" where
  "root_phases_from [] = []"
| "root_phases_from ((i, p) # rest) =
     (if dependency_phase_ids p = [] then i # root_phases_from rest else root_phases_from rest)"

definition root_phases :: "workflow \<Rightarrow> phase_id list" where
  "root_phases w = root_phases_from (phases w)"

fun ready_phases_from :: "phase_id list \<Rightarrow> (phase_id, phase) umap \<Rightarrow> phase_id list" where
  "ready_phases_from completed [] = []"
| "ready_phases_from completed ((i, p) # rest) =
     (if i \<in> set completed then ready_phases_from completed rest
      else if list_all (\<lambda>dep. dep \<in> set completed) (dependency_phase_ids p)
      then i # ready_phases_from completed rest
      else ready_phases_from completed rest)"

definition ready_phases :: "workflow \<Rightarrow> phase_id list \<Rightarrow> phase_id list" where
  "ready_phases w completed_phase_ids = ready_phases_from completed_phase_ids (phases w)"

fun task_ids_of_processes :: "workflow \<Rightarrow> process_id list \<Rightarrow> task_id list" where
  "task_ids_of_processes w [] = []"
| "task_ids_of_processes w (pid # pids) =
     (case workflow_process w pid of
        None \<Rightarrow> task_ids_of_processes w pids
      | Some p \<Rightarrow> task_ids p @ task_ids_of_processes w pids)"

definition task_ids_for_phase :: "workflow \<Rightarrow> phase_id \<Rightarrow> task_id list" where
  "task_ids_for_phase w i =
     (case workflow_phase w i of
        None \<Rightarrow> []
      | Some ph \<Rightarrow> task_ids_of_processes w (ph_process_ids ph))"

definition process_for_task :: "workflow \<Rightarrow> task_id \<Rightarrow> process option" where
  "process_for_task w t =
     (case workflow_process w t of
        Some p \<Rightarrow> Some p
      | None \<Rightarrow> map_option snd (find (\<lambda>(_, p). t \<in> set (sub_process_ids p)) (processes w)))"

lemmas workflow_ops = set_id_def add_phase_def add_process_def workflow_phase_def workflow_process_def
  phase_ids_def process_ids_def

subsection \<open>Well-formedness and its preservation\<close>

text \<open>What every workflow built by \<^verbatim>\<open>add_phase\<close> and \<^verbatim>\<open>add_process\<close> satisfies.\<close>

definition workflow_wf :: "workflow \<Rightarrow> bool" where
  "workflow_wf w \<longleftrightarrow>
     distinct (phase_ids w) \<and> distinct (process_ids w)
     \<and> (\<forall>(i, p) \<in> set (phases w). ph_id p = i) \<and> (\<forall>(i, p) \<in> set (processes w). p_id p = i)"

lemma update_entries:
  "(i, x) \<in> set (AList.update k v m) \<Longrightarrow> (i = k \<and> x = v) \<or> (i, x) \<in> set m"
  by (induction m) (auto split: if_splits)

lemma workflow_wf_empty: "workflow_wf (empty_workflow i)"
  by (simp add: workflow_wf_def empty_workflow_def workflow_ops)

lemma workflow_wf_add_phase: "workflow_wf w \<Longrightarrow> workflow_wf (add_phase w p)"
  by (auto simp: workflow_wf_def workflow_ops dest!: update_entries)

lemma workflow_wf_add_process: "workflow_wf w \<Longrightarrow> workflow_wf (add_process w p)"
  by (auto simp: workflow_wf_def workflow_ops dest!: update_entries)

lemma workflow_process_id: "workflow_wf w \<Longrightarrow> workflow_process w i = Some p \<Longrightarrow> p_id p = i"
  by (auto simp: workflow_wf_def workflow_ops dest!: map_of_SomeD)

subsection \<open>Lookup after insertion\<close>

lemma phase_after_add_phase:
  "workflow_phase (add_phase w p) i = (if i = ph_id p then Some p else workflow_phase w i)"
  by (simp add: workflow_ops)

lemma process_after_add_process:
  "workflow_process (add_process w p) i = (if i = p_id p then Some p else workflow_process w i)"
  by (simp add: workflow_ops)

lemma process_for_task_owner:
  assumes "process_for_task w t = Some p"
  shows "t \<in> set (task_ids p) \<or> workflow_process w t = Some p"
  using assms
  by (auto simp: process_for_task_def task_ids_def split: option.splits dest!: find_Some_set)

lemma process_for_task_wf:
  assumes "workflow_wf w" and "process_for_task w t = Some p"
  shows "t \<in> set (task_ids p)"
  using process_for_task_owner [OF assms(2)] workflow_process_id [OF assms(1)]
  by (auto simp: task_ids_def)

subsection \<open>Ready phases\<close>

definition phase_ready :: "workflow \<Rightarrow> phase_id list \<Rightarrow> phase_id \<Rightarrow> bool" where
  "phase_ready w completed i \<longleftrightarrow>
     i \<notin> set completed
     \<and> (\<exists>p. workflow_phase w i = Some p \<and> set (dependency_phase_ids p) \<subseteq> set completed)"

lemma set_ready_phases_from:
  "set (ready_phases_from c m) =
     {i. i \<notin> set c \<and> (\<exists>p. (i, p) \<in> set m \<and> set (dependency_phase_ids p) \<subseteq> set c)}"
  by (induction c m rule: ready_phases_from.induct) (auto simp: list_all_iff)

lemma set_root_phases_from:
  "set (root_phases_from m) = {i. \<exists>p. (i, p) \<in> set m \<and> dependency_phase_ids p = []}"
  by (induction m rule: root_phases_from.induct) auto

lemma ready_phases_iff:
  assumes "workflow_wf w"
  shows "i \<in> set (ready_phases w c) \<longleftrightarrow> phase_ready w c i"
  using assms
  by (auto simp: ready_phases_def set_ready_phases_from phase_ready_def workflow_wf_def workflow_ops)

lemma ready_phases_from_subseq:
  "distinct (map fst m) \<Longrightarrow> distinct (ready_phases_from c m)"
  by (induction c m rule: ready_phases_from.induct) (auto simp: set_ready_phases_from image_iff)

lemma root_phases_are_initially_ready: "set (root_phases w) = set (ready_phases w [])"
  by (auto simp: root_phases_def ready_phases_def set_root_phases_from set_ready_phases_from)

text \<open>
  The dependency graph of the phases: an edge from each predecessor to its successor.
\<close>

definition phase_edges :: "workflow \<Rightarrow> (phase_id \<times> phase_id) set" where
  "phase_edges w =
     {(d, i). \<exists>p. workflow_phase w i = Some p \<and> d \<in> set (dependency_phase_ids p)}"

lemma finite_phase_edges: "finite (phase_edges w)"
proof -
  have "phase_edges w \<subseteq>
      (\<Union>(i, p) \<in> set (phases w). (\<lambda>d. (d, i)) ` set (dependency_phase_ids p))"
    by (force simp: phase_edges_def workflow_ops dest: map_of_SomeD)
  then show ?thesis by (rule finite_subset) auto
qed

lemma ready_phase_exists:
  assumes "workflow_wf w" and acyclic: "acyclic (phase_edges w)"
    and closed: "\<And>d i. (d, i) \<in> phase_edges w \<Longrightarrow> d \<in> set (phase_ids w)"
    and "x \<in> set (phase_ids w)" and "x \<notin> set c"
  shows "\<exists>i. i \<in> set (ready_phases w c)"
proof -
  have "wf (phase_edges w)"
    by (rule finite_acyclic_wf [OF finite_phase_edges acyclic])
  moreover have "x \<in> set (phase_ids w) - set c" using assms(4,5) by simp
  ultimately obtain z where z: "z \<in> set (phase_ids w) - set c"
    and min: "\<And>y. (y, z) \<in> phase_edges w \<Longrightarrow> y \<notin> set (phase_ids w) - set c"
    by (rule wfE_min) blast
  from z obtain p where p: "workflow_phase w z = Some p"
    by (auto simp: workflow_ops dest: weak_map_of_SomeI)
  have "set (dependency_phase_ids p) \<subseteq> set c"
  proof
    fix d assume "d \<in> set (dependency_phase_ids p)"
    with p have e: "(d, z) \<in> phase_edges w" by (auto simp: phase_edges_def)
    from min [OF e] closed [OF e] show "d \<in> set c" by auto
  qed
  with z p have "phase_ready w c z" by (auto simp: phase_ready_def)
  with ready_phases_iff [OF assms(1)] show ?thesis by blast
qed

end
