(* ===== verification/Actor.thy ===== *)
theory Actor
  imports Prelude
begin

text \<open>
  \<^verbatim>\<open>core/actor.hpp\<close> and \<^verbatim>\<open>core/actor.cpp\<close>: an actor with a capacity, availability
  windows and a current load, and its two availability queries. The lemmas say exactly when
  the queries are right: the start returned by \<open>next_available_start\<close> always fits a window,
  and is at or after the requested time when no window ends before it.
\<close>

record actor =
  a_id :: actor_id
  a_type :: string
  a_capacity :: int
  a_windows :: "availability_window list"
  a_capabilities :: "string list"
  a_execution_cost_per_unit :: rat
  current_load :: int

definition default_actor :: actor where
  "default_actor = \<lparr>a_id = [], a_type = [], a_capacity = 1, a_windows = [], a_capabilities = [],
     a_execution_cost_per_unit = 0, current_load = 0\<rparr>"

definition can_accept_at :: "actor \<Rightarrow> time \<Rightarrow> duration \<Rightarrow> bool" where
  "can_accept_at a t d =
     (if current_load a \<ge> a_capacity a then False
      else list_ex (\<lambda>w. window_contains w t \<and> t + d \<le> win_end w) (a_windows a))"

fun next_start_in :: "time \<Rightarrow> duration \<Rightarrow> availability_window list \<Rightarrow> time option" where
  "next_start_in candidate d [] = None"
| "next_start_in candidate d (w # ws) =
     (let candidate = max candidate (win_start w)
      in if candidate + d \<le> win_end w then Some candidate
         else next_start_in (win_end w) d ws)"

definition next_available_start :: "actor \<Rightarrow> time \<Rightarrow> duration \<Rightarrow> time option" where
  "next_available_start a t d =
     (if current_load a \<ge> a_capacity a then None
      else next_start_in t d (sort_key win_start (a_windows a)))"

subsection \<open>What the queries guarantee\<close>

definition fits_window :: "availability_window \<Rightarrow> time \<Rightarrow> duration \<Rightarrow> bool" where
  "fits_window w s d \<longleftrightarrow> win_start w \<le> s \<and> s + d \<le> win_end w"

lemma next_start_in_fits:
  "next_start_in c d ws = Some s \<Longrightarrow> \<exists>w \<in> set ws. fits_window w s d"
  by (induction c d ws rule: next_start_in.induct)
    (auto simp: Let_def fits_window_def split: if_splits)

lemma next_start_in_lower:
  assumes "next_start_in c d ws = Some s" and "t \<le> c" and "\<And>w. w \<in> set ws \<Longrightarrow> t \<le> win_end w"
  shows "t \<le> s"
  using assms
  by (induction c d ws rule: next_start_in.induct) (force simp: Let_def split: if_splits)+

lemma can_accept_at_iff:
  "can_accept_at a t d \<longleftrightarrow>
     current_load a < a_capacity a
     \<and> (\<exists>w \<in> set (a_windows a). window_contains w t \<and> t + d \<le> win_end w)"
  by (auto simp: can_accept_at_def list_ex_iff)

lemma next_available_start_accepts:
  assumes "next_available_start a t d = Some s" and "0 < d"
  shows "can_accept_at a s d"
proof -
  from assms(1) have load: "current_load a < a_capacity a"
    and "next_start_in t d (sort_key win_start (a_windows a)) = Some s"
    by (auto simp: next_available_start_def split: if_splits)
  from next_start_in_fits [OF this(2)] obtain w where "w \<in> set (a_windows a)" "fits_window w s d"
    by auto
  with load assms(2) show ?thesis
    by (auto simp: can_accept_at_iff fits_window_def window_contains_def intro!: bexI [of _ w])
qed

lemma next_available_start_not_before:
  assumes "next_available_start a t d = Some s"
    and "\<And>w. w \<in> set (a_windows a) \<Longrightarrow> t \<le> win_end w"
  shows "t \<le> s"
  using assms next_start_in_lower [of t d "sort_key win_start (a_windows a)" s t]
  by (auto simp: next_available_start_def split: if_splits)

end
