(* ===== verification/Strategy.thy ===== *)
theory Strategy
  imports Prelude
begin

text \<open>
  The pluggable scheduling strategies of \<^verbatim>\<open>strategy/*.hpp\<close>: one comparator and one
  \<open>order_tasks\<close> per class, the interface \<^verbatim>\<open>SchedulingStrategy\<close> as the locale
  \<open>scheduling_strategy\<close>, and an interpretation of it for each class.
\<close>

record task_info =
  ti_id :: task_id
  ti_phase_id :: phase_id
  ti_duration :: duration
  ti_priority :: priority
  ti_release_time :: time
  ti_deadline :: "time option"
  ti_latest_start_time :: "time option"
  ti_demand :: int
  ti_dependency_count :: nat

type_synonym strategy = "task_info list \<Rightarrow> task_info list"

subsection \<open>The four comparators\<close>

definition edf_less :: "task_info \<Rightarrow> task_info \<Rightarrow> bool" where
  "edf_less a b =
     (if ti_priority a \<noteq> ti_priority b then ti_priority a > ti_priority b
      else if (ti_deadline a \<noteq> None) \<noteq> (ti_deadline b \<noteq> None) then ti_deadline a \<noteq> None
      else (case (ti_deadline a, ti_deadline b) of
              (Some x, Some y) \<Rightarrow> x < y
            | _ \<Rightarrow> False))"

definition fifo_less :: "task_info \<Rightarrow> task_info \<Rightarrow> bool" where
  "fifo_less a b =
     (if ti_phase_id a \<noteq> ti_phase_id b then ti_phase_id a < ti_phase_id b else ti_id a < ti_id b)"

definition priority_only_less :: "task_info \<Rightarrow> task_info \<Rightarrow> bool" where
  "priority_only_less a b =
     (if ti_priority a \<noteq> ti_priority b then ti_priority a > ti_priority b else ti_id a < ti_id b)"

definition sjf_less :: "task_info \<Rightarrow> task_info \<Rightarrow> bool" where
  "sjf_less a b =
     (if ti_duration a \<noteq> ti_duration b then ti_duration a < ti_duration b
      else if ti_priority a \<noteq> ti_priority b then ti_priority a > ti_priority b
      else ti_id a < ti_id b)"

definition edf_order_tasks :: strategy where
  "edf_order_tasks ts = sort_by edf_less ts"

definition fifo_order_tasks :: strategy where
  "fifo_order_tasks ts = sort_by fifo_less ts"

definition priority_only_order_tasks :: strategy where
  "priority_only_order_tasks ts = sort_by priority_only_less ts"

definition sjf_order_tasks :: strategy where
  "sjf_order_tasks ts = sort_by sjf_less ts"

lemmas strategy_defs = edf_order_tasks_def fifo_order_tasks_def priority_only_order_tasks_def
  sjf_order_tasks_def

subsection \<open>The comparators meet the requirement of the sort\<close>

interpretation edf: strict_weak_order edf_less
  by unfold_locales (auto simp: edf_less_def split: if_splits option.splits)

interpretation fifo: strict_weak_order fifo_less
  by unfold_locales (auto simp: fifo_less_def split: if_splits)

interpretation prio: strict_weak_order priority_only_less
  by unfold_locales (auto simp: priority_only_less_def split: if_splits)

interpretation sjf: strict_weak_order sjf_less
  by unfold_locales (auto simp: sjf_less_def split: if_splits)

subsection \<open>The strategy interface\<close>

text \<open>
  What the scheduler relies on: a strategy reorders the tasks, neither losing nor
  inventing one.
\<close>

locale scheduling_strategy =
  fixes order_tasks :: strategy
  assumes mset_order_tasks [simp]: "mset (order_tasks ts) = mset ts"
begin

lemma set_order_tasks [simp]: "set (order_tasks ts) = set ts"
  by (metis mset_order_tasks set_mset_mset)

lemma length_order_tasks [simp]: "length (order_tasks ts) = length ts"
  by (metis mset_order_tasks size_mset)

lemma distinct_order_tasks:
  "distinct (map f ts) \<Longrightarrow> distinct (map f (order_tasks ts))"
  by (metis mset_order_tasks mset_map mset_eq_imp_distinct_iff)

end

interpretation edf_strategy: scheduling_strategy edf_order_tasks
  by unfold_locales (simp add: strategy_defs)

interpretation fifo_strategy: scheduling_strategy fifo_order_tasks
  by unfold_locales (simp add: strategy_defs)

interpretation prio_strategy: scheduling_strategy priority_only_order_tasks
  by unfold_locales (simp add: strategy_defs)

interpretation sjf_strategy: scheduling_strategy sjf_order_tasks
  by unfold_locales (simp add: strategy_defs)

subsection \<open>Determinism\<close>

text \<open>
  SJF, FIFO and priority-only break every tie by the task id, so on tasks with distinct
  ids the result depends neither on the input order nor on the sort algorithm.
\<close>

lemma ids_separate:
  "distinct (map ti_id ts) \<Longrightarrow> a \<in> set ts \<Longrightarrow> b \<in> set ts \<Longrightarrow> a \<noteq> b \<Longrightarrow> ti_id a \<noteq> ti_id b"
  by (metis distinct_map inj_on_def)

locale deterministic_strategy = scheduling_strategy +
  assumes order_unique: "distinct (map ti_id ts) \<Longrightarrow> mset us = mset ts \<Longrightarrow> order_tasks us = order_tasks ts"

lemma sort_by_ids_unique:
  assumes "strict_weak_order lt" and "distinct (map ti_id ts)" and "mset us = mset ts"
    and "\<And>a b. ti_id a \<noteq> ti_id b \<Longrightarrow> lt a b \<or> lt b a"
  shows "sort_by lt us = sort_by lt ts"
proof (rule strict_weak_order.sort_by_perm [OF assms(1,3)])
  fix a b assume "a \<in> set us" "b \<in> set us" "a \<noteq> b"
  moreover from assms(3) have "set us = set ts" by (metis set_mset_mset)
  ultimately show "lt a b \<or> lt b a" using ids_separate [OF assms(2)] assms(4) by blast
qed

interpretation fifo_det: deterministic_strategy fifo_order_tasks
  by unfold_locales
     (auto simp: fifo_order_tasks_def fifo_less_def intro!: sort_by_ids_unique fifo.strict_weak_order_axioms)

interpretation prio_det: deterministic_strategy priority_only_order_tasks
  by unfold_locales
     (auto simp: priority_only_order_tasks_def priority_only_less_def
       intro!: sort_by_ids_unique prio.strict_weak_order_axioms)

interpretation sjf_det: deterministic_strategy sjf_order_tasks
  by unfold_locales
     (auto simp: sjf_order_tasks_def sjf_less_def intro!: sort_by_ids_unique sjf.strict_weak_order_axioms)

end
