(* ===== verification/Scheduler.thy ===== *)
theory Scheduler
  imports Workflow Actor Strategy
begin

text \<open>
  \<^verbatim>\<open>core/scheduler.hpp\<close> and \<^verbatim>\<open>core/scheduler.cpp\<close>: the actor registry, the workflow
  state, and the greedy non-preemptive list scheduler \<open>plan\<close> with its timed reservations.

  Two things the C++ standard leaves open are parameters, collected in \<open>runtime_env\<close>: the
  iteration order of a \<^verbatim>\<open>std::unordered_set\<close> after the given insertions, and the rounding
  of a floating-point result. A finite \<^verbatim>\<open>double\<close> is a rational number, and an operation
  on doubles is the exact operation followed by \<open>fp_round\<close>.
\<close>

subsection \<open>Data\<close>

datatype actor_ranking_criterion = EarliestFeasibleStart | EarliestFeasibleCompletion
  | DistanceToWork | ExecutionCost | UptimeUtilisation | LeastLoaded | PreferredActor

type_synonym ranking_profile = "actor_ranking_criterion list"

definition default_ranking_profile :: ranking_profile where
  "default_ranking_profile = [EarliestFeasibleCompletion, PreferredActor, DistanceToWork, LeastLoaded]"

record assignment =
  as_task_id :: task_id
  as_actor_id :: actor_id
  as_start_time :: time

record workflow_state =
  completed_phases :: "phase_id list"
  assigned_tasks :: "task_id list"
  completed_tasks :: "task_id list"
  actor_load :: "(actor_id, int) umap"
  unavailable_actors :: "actor_id list"
  resumable_tasks :: "task_id list"
  unresumable_tasks :: "task_id list"
  task_actor_distance :: "(task_id, (actor_id, time) umap) umap"
  task_release_time :: "(task_id, time) umap"
  task_allowed_actors :: "(task_id, actor_id list) umap"
  task_preferred_actors :: "(task_id, actor_id list) umap"
  task_actor :: "(task_id, actor_id) umap"
  task_planned_start_time :: "(task_id, time) umap"
  task_planned_end_time :: "(task_id, time) umap"
  task_actual_completion_time :: "(task_id, time) umap"

definition empty_workflow_state :: workflow_state where
  "empty_workflow_state = \<lparr>completed_phases = [], assigned_tasks = [], completed_tasks = [],
     actor_load = [], unavailable_actors = [], resumable_tasks = [], unresumable_tasks = [],
     task_actor_distance = [], task_release_time = [], task_allowed_actors = [],
     task_preferred_actors = [], task_actor = [], task_planned_start_time = [],
     task_planned_end_time = [], task_actual_completion_time = []\<rparr>"

record schedule_result =
  sr_ok :: bool
  sr_assignments :: "assignment list"
  sr_reasons :: "(task_id, nat) umap"
  sr_error_message :: string

definition empty_schedule_result :: schedule_result where
  "empty_schedule_result = \<lparr>sr_ok = False, sr_assignments = [], sr_reasons = [], sr_error_message = []\<rparr>"

record runtime_env =
  iter_order :: "task_id list \<Rightarrow> task_id list"
  fp_round :: "rat \<Rightarrow> rat"

text \<open>An unordered set iterates over each of its elements once.\<close>

definition env_ok :: "runtime_env \<Rightarrow> bool" where
  "env_ok env \<longleftrightarrow> (\<forall>xs. distinct (iter_order env xs) \<and> set (iter_order env xs) = set xs)"

subsection \<open>The actor registry\<close>

type_synonym actor_registry = "(actor_id, actor) umap"

definition registry_add :: "actor_registry \<Rightarrow> actor \<Rightarrow> actor_registry" where
  "registry_add r a = AList.update (a_id a) a r"

definition registry_get :: "actor_registry \<Rightarrow> actor_id \<Rightarrow> actor option" where
  "registry_get r i = map_of r i"

definition actor_ids :: "actor_registry \<Rightarrow> actor_id list" where
  "actor_ids r = sort (map fst r)"

text \<open>A write through the pointer returned by \<^verbatim>\<open>get_mutable\<close>.\<close>

definition registry_modify :: "actor_registry \<Rightarrow> actor_id \<Rightarrow> (actor \<Rightarrow> actor) \<Rightarrow> actor_registry" where
  "registry_modify r i f = (case map_of r i of None \<Rightarrow> r | Some a \<Rightarrow> AList.update i (f a) r)"

subsection \<open>Pending tasks\<close>

definition kLargeRankingTime :: time where "kLargeRankingTime = (2 ^ 63 - 1) div 4"
definition kOpaqueReservationEnd :: time where "kOpaqueReservationEnd = (2 ^ 63 - 1) div 4"
definition kUnknownDistancePadding :: time where "kUnknownDistancePadding = 1"
definition kDefaultTaskDuration :: duration where "kDefaultTaskDuration = 1"
definition kDefaultTaskDemand :: int where "kDefaultTaskDemand = 1"

record pending_task =
  pt_info :: task_info
  pt_process :: "process option"

record scheduled_interval =
  iv_start :: time
  iv_end :: time
  iv_demand :: int

record ranked_actor_candidate =
  rc_actor_id :: actor_id
  rc_start_time :: time
  rc_finish_time :: time
  rc_distance_to_work :: time
  rc_execution_cost :: rat
  rc_uptime_utilization :: rat
  rc_actor_load :: int
  rc_preferred_actor :: bool

record candidate_selection =
  cs_candidate :: ranked_actor_candidate
  cs_ranking_reason_index :: nat

type_synonym reservation_table = "(actor_id, scheduled_interval list) umap"
type_synonym completion_table = "(task_id, time) umap"

abbreviation pt_id :: "pending_task \<Rightarrow> task_id" where
  "pt_id p \<equiv> ti_id (pt_info p)"

definition fallback_distance :: "(actor_id, time) umap \<Rightarrow> time" where
  "fallback_distance m =
     (case m of
        [] \<Rightarrow> 0
      | (_, d) # rest \<Rightarrow> foldl max d (map snd rest) + kUnknownDistancePadding)"

definition make_pending :: "workflow \<Rightarrow> phase_id \<Rightarrow> task_id \<Rightarrow> pending_task" where
  "make_pending w ph t =
     (let p = process_for_task w t in
      \<lparr>pt_info =
         \<lparr>ti_id = t, ti_phase_id = ph,
          ti_duration = (case p of Some p \<Rightarrow> estimated_duration p | None \<Rightarrow> kDefaultTaskDuration),
          ti_priority = (case p of Some p \<Rightarrow> p_priority p | None \<Rightarrow> 0),
          ti_release_time = (case p of Some p \<Rightarrow> p_release_time p | None \<Rightarrow> 0),
          ti_deadline = (case p of Some p \<Rightarrow> p_deadline p | None \<Rightarrow> None),
          ti_latest_start_time = (case p of Some p \<Rightarrow> p_latest_start_time p | None \<Rightarrow> None),
          ti_demand = (case p of Some p \<Rightarrow> p_demand p | None \<Rightarrow> kDefaultTaskDemand),
          ti_dependency_count = (case p of Some p \<Rightarrow> length (p_dependency_task_ids p) | None \<Rightarrow> 0)\<rparr>,
       pt_process = p\<rparr>)"

definition collect_pending_tasks :: "workflow \<Rightarrow> workflow_state \<Rightarrow> pending_task list" where
  "collect_pending_tasks w st =
     (let assigned = filter (\<lambda>t. t \<notin> set (resumable_tasks st)) (assigned_tasks st);
          completed = completed_tasks st;
          blocked = unresumable_tasks st
      in concat (map (\<lambda>ph. map (make_pending w ph)
              (filter (\<lambda>t. t \<notin> set assigned \<and> t \<notin> set completed \<and> t \<notin> set blocked)
                 (task_ids_for_phase w ph)))
            (ready_phases w (completed_phases st))))"

definition apply_strategy :: "strategy option \<Rightarrow> strategy" where
  "apply_strategy s pending = (case s of Some f \<Rightarrow> f pending | None \<Rightarrow> edf_order_tasks pending)"

definition effective_ranking_profile :: "ranking_profile option \<Rightarrow> ranking_profile" where
  "effective_ranking_profile p = (case p of Some p \<Rightarrow> p | None \<Rightarrow> default_ranking_profile)"

definition is_preemptible :: "pending_task \<Rightarrow> bool" where
  "is_preemptible p = (case pt_process p of Some pr \<Rightarrow> p_preemptible pr | None \<Rightarrow> False)"

definition validate_supported_tasks :: "pending_task list \<Rightarrow> string option" where
  "validate_supported_tasks ps =
     (case find is_preemptible ps of
        None \<Rightarrow> None
      | Some p \<Rightarrow> Some (''Preemptible tasks are not yet supported by the runtime scheduler: '' @ pt_id p))"

subsection \<open>Eligibility\<close>

definition effective_allowed_actors :: "pending_task \<Rightarrow> workflow_state \<Rightarrow> actor_id list option" where
  "effective_allowed_actors p st =
     (case map_of (task_allowed_actors st) (pt_id p) of
        Some xs \<Rightarrow> Some xs
      | None \<Rightarrow> (case pt_process p of
                  None \<Rightarrow> None
                | Some pr \<Rightarrow> if p_allowed_actor_ids pr = [] then None else Some (p_allowed_actor_ids pr)))"

definition effective_preferred_actors :: "pending_task \<Rightarrow> workflow_state \<Rightarrow> actor_id list option" where
  "effective_preferred_actors p st =
     (case map_of (task_preferred_actors st) (pt_id p) of
        Some xs \<Rightarrow> Some xs
      | None \<Rightarrow> (case pt_process p of
                  None \<Rightarrow> None
                | Some pr \<Rightarrow> if p_preferred_actor_ids pr = [] then None else Some (p_preferred_actor_ids pr)))"

definition effective_release_time :: "pending_task \<Rightarrow> workflow_state \<Rightarrow> time" where
  "effective_release_time p st =
     (case map_of (task_release_time st) (pt_id p) of
        Some r \<Rightarrow> r | None \<Rightarrow> ti_release_time (pt_info p))"

definition effective_latest_start_time :: "pending_task \<Rightarrow> time option" where
  "effective_latest_start_time p = ti_latest_start_time (pt_info p)"

definition actor_matches_type_constraints :: "pending_task \<Rightarrow> actor \<Rightarrow> bool" where
  "actor_matches_type_constraints p a =
     (case pt_process p of
        None \<Rightarrow> True
      | Some pr \<Rightarrow> p_allowed_actor_types pr = [] \<or> a_type a \<in> set (p_allowed_actor_types pr))"

definition actor_supports_required_capabilities :: "pending_task \<Rightarrow> actor \<Rightarrow> bool" where
  "actor_supports_required_capabilities p a =
     (case pt_process p of
        None \<Rightarrow> True
      | Some pr \<Rightarrow> list_all (\<lambda>c. c \<in> set (a_capabilities a)) (p_required_capabilities pr))"

definition actor_is_allowed :: "pending_task \<Rightarrow> actor \<Rightarrow> workflow_state \<Rightarrow> bool" where
  "actor_is_allowed p a st =
     (if (case effective_allowed_actors p st of
            None \<Rightarrow> False
          | Some xs \<Rightarrow> xs \<noteq> [] \<and> a_id a \<notin> set xs) then False
      else if \<not> actor_matches_type_constraints p a then False
      else if \<not> actor_supports_required_capabilities p a then False
      else ti_demand (pt_info p) \<le> a_capacity a)"

subsection \<open>Capacity over time\<close>

fun concurrent_demand_at :: "scheduled_interval list \<Rightarrow> time \<Rightarrow> int" where
  "concurrent_demand_at rs t =
     foldl (\<lambda>running r. if iv_start r \<le> t \<and> t < iv_end r then running + iv_demand r else running) 0 rs"

function has_capacity_for_interval ::
  "scheduled_interval list \<Rightarrow> int \<Rightarrow> time \<Rightarrow> time \<Rightarrow> int \<Rightarrow> bool" where
  "has_capacity_for_interval rs capacity instant end_time demand =
     (if instant < end_time
      then (if concurrent_demand_at rs instant + demand > capacity then False
            else has_capacity_for_interval rs capacity (instant + 1) end_time demand)
      else True)"
  by pat_completeness auto
termination
  by (relation "measure (\<lambda>(rs, c, i, e, d). nat (e - i))") auto

function first_candidate ::
  "scheduled_interval list \<Rightarrow> int \<Rightarrow> time \<Rightarrow> time \<Rightarrow> duration \<Rightarrow> int \<Rightarrow> time option" where
  "first_candidate rs capacity candidate latest_start duration demand =
     (if candidate \<le> latest_start
      then (if has_capacity_for_interval rs capacity candidate (candidate + duration) demand
            then Some candidate
            else first_candidate rs capacity (candidate + 1) latest_start duration demand)
      else None)"
  by pat_completeness auto
termination
  by (relation "measure (\<lambda>(rs, c, i, l, d, m). nat (l + 1 - i))") auto

declare has_capacity_for_interval.simps [simp del] first_candidate.simps [simp del]

fun earliest_in_windows ::
  "availability_window list \<Rightarrow> scheduled_interval list \<Rightarrow> int \<Rightarrow> time \<Rightarrow> duration \<Rightarrow> int \<Rightarrow> time option" where
  "earliest_in_windows [] rs capacity release_time duration demand = None"
| "earliest_in_windows (w # ws) rs capacity release_time duration demand =
     (let window_start = max (win_start w) release_time;
          latest_start = win_end w - duration
      in if window_start > latest_start
         then earliest_in_windows ws rs capacity release_time duration demand
         else (case first_candidate rs capacity window_start latest_start duration demand of
                 Some c \<Rightarrow> Some c
               | None \<Rightarrow> earliest_in_windows ws rs capacity release_time duration demand))"

definition earliest_start ::
  "actor \<Rightarrow> scheduled_interval list \<Rightarrow> time \<Rightarrow> duration \<Rightarrow> int \<Rightarrow> time option" where
  "earliest_start a rs release_time duration demand =
     (if duration \<le> 0 then Some release_time
      else earliest_in_windows (sort_key win_start (a_windows a)) rs (a_capacity a)
             release_time duration demand)"

subsection \<open>Ranking\<close>

definition effective_distance_to_work :: "pending_task \<Rightarrow> actor_id \<Rightarrow> workflow_state \<Rightarrow> time" where
  "effective_distance_to_work p a st =
     (case map_of (task_actor_distance st) (pt_id p) of
        Some m \<Rightarrow> (case map_of m a of Some d \<Rightarrow> d | None \<Rightarrow> fallback_distance m)
      | None \<Rightarrow>
          (case pt_process p of
             None \<Rightarrow> 0
           | Some pr \<Rightarrow>
               (case map_of (p_actor_distances pr) a of
                  Some d \<Rightarrow> d
                | None \<Rightarrow> fallback_distance (p_actor_distances pr))))"

definition preferred_actor_for_task :: "pending_task \<Rightarrow> actor_id \<Rightarrow> workflow_state \<Rightarrow> bool" where
  "preferred_actor_for_task p a st =
     (case effective_preferred_actors p st of None \<Rightarrow> False | Some xs \<Rightarrow> a \<in> set xs)"

definition three_way :: "'a :: linorder \<Rightarrow> 'a \<Rightarrow> int option" where
  "three_way x y = (if x \<noteq> y then Some (if x < y then -1 else 1) else None)"

fun compare_criterion ::
  "actor_ranking_criterion \<Rightarrow> ranked_actor_candidate \<Rightarrow> ranked_actor_candidate \<Rightarrow> int option" where
  "compare_criterion EarliestFeasibleStart l r = three_way (rc_start_time l) (rc_start_time r)"
| "compare_criterion EarliestFeasibleCompletion l r = three_way (rc_finish_time l) (rc_finish_time r)"
| "compare_criterion DistanceToWork l r = three_way (rc_distance_to_work l) (rc_distance_to_work r)"
| "compare_criterion ExecutionCost l r = three_way (rc_execution_cost l) (rc_execution_cost r)"
| "compare_criterion UptimeUtilisation l r =
     (if rc_uptime_utilization l \<noteq> rc_uptime_utilization r
      then Some (if rc_uptime_utilization l > rc_uptime_utilization r then -1 else 1) else None)"
| "compare_criterion LeastLoaded l r = three_way (rc_actor_load l) (rc_actor_load r)"
| "compare_criterion PreferredActor l r =
     (if rc_preferred_actor l \<noteq> rc_preferred_actor r
      then Some (if rc_preferred_actor l then -1 else 1) else None)"

fun compare_loop ::
  "ranking_profile \<Rightarrow> nat \<Rightarrow> nat \<Rightarrow> ranked_actor_candidate \<Rightarrow> ranked_actor_candidate \<Rightarrow> int \<times> nat" where
  "compare_loop [] idx n l r =
     (if rc_actor_id l \<noteq> rc_actor_id r
      then (if rc_actor_id l < rc_actor_id r then -1 else 1, n) else (0, n))"
| "compare_loop (c # cs) idx n l r =
     (case compare_criterion c l r of
        Some v \<Rightarrow> (v, idx)
      | None \<Rightarrow> compare_loop cs (Suc idx) n l r)"

definition compare_candidates ::
  "ranked_actor_candidate \<Rightarrow> ranked_actor_candidate \<Rightarrow> ranking_profile \<Rightarrow> int \<times> nat" where
  "compare_candidates l r profile = compare_loop profile 0 (length profile) l r"

definition build_candidate ::
  "runtime_env \<Rightarrow> pending_task \<Rightarrow> actor \<Rightarrow> time \<Rightarrow> workflow_state \<Rightarrow> scheduled_interval list
     \<Rightarrow> ranked_actor_candidate" where
  "build_candidate env p a start_time st rs =
     (let load = concurrent_demand_at rs start_time;
          effective_capacity = max (a_capacity a) 1
      in \<lparr>rc_actor_id = a_id a,
          rc_start_time = start_time,
          rc_finish_time = start_time + ti_duration (pt_info p),
          rc_distance_to_work = effective_distance_to_work p (a_id a) st,
          rc_execution_cost =
            fp_round env (a_execution_cost_per_unit a * fp_round env (of_int (ti_duration (pt_info p)))),
          rc_uptime_utilization = fp_round env (of_int load / of_int effective_capacity),
          rc_actor_load = load,
          rc_preferred_actor = preferred_actor_for_task p (a_id a) st\<rparr>)"

subsection \<open>Reservations and completion times at the start of a planning pass\<close>

definition push_reservation :: "actor_id \<Rightarrow> scheduled_interval \<Rightarrow> reservation_table \<Rightarrow> reservation_table" where
  "push_reservation a iv m = AList.update a (umap_at_or m a [] @ [iv]) m"

definition duration_of_task :: "workflow \<Rightarrow> task_id \<Rightarrow> duration" where
  "duration_of_task w t =
     (case process_for_task w t of Some p \<Rightarrow> estimated_duration p | None \<Rightarrow> kDefaultTaskDuration)"

definition demand_of_task :: "workflow \<Rightarrow> task_id \<Rightarrow> int" where
  "demand_of_task w t =
     (case process_for_task w t of Some p \<Rightarrow> p_demand p | None \<Rightarrow> kDefaultTaskDemand)"

definition reserve_assigned_task ::
  "workflow \<Rightarrow> workflow_state \<Rightarrow> time \<Rightarrow> task_id \<Rightarrow> reservation_table \<Rightarrow> reservation_table" where
  "reserve_assigned_task w st now t m =
     (case map_of (task_actor st) t of
        None \<Rightarrow> m
      | Some a \<Rightarrow>
          (let start_time = umap_at_or (task_planned_start_time st) t now;
               end_time = umap_at_or (task_planned_end_time st) t
                            (max start_time now + duration_of_task w t)
           in if end_time \<le> start_time then m
              else push_reservation a
                     \<lparr>iv_start = start_time, iv_end = end_time, iv_demand = demand_of_task w t\<rparr> m))"

definition reserve_opaque_load ::
  "actor_registry \<Rightarrow> workflow_state \<Rightarrow> time \<Rightarrow> actor_id \<Rightarrow> reservation_table \<Rightarrow> reservation_table" where
  "reserve_opaque_load reg st now a m =
     (let baseline_load =
            (case map_of (actor_load st) a of
               Some l \<Rightarrow> l
             | None \<Rightarrow> (case registry_get reg a of Some act \<Rightarrow> current_load act | None \<Rightarrow> 0));
          known_current_demand = concurrent_demand_at (umap_at_or m a []) now;
          opaque_demand = max 0 (baseline_load - known_current_demand)
      in if opaque_demand > 0
         then push_reservation a
                \<lparr>iv_start = now, iv_end = kOpaqueReservationEnd, iv_demand = opaque_demand\<rparr> m
         else m)"

definition initialize_actor_reservations ::
  "workflow \<Rightarrow> actor_registry \<Rightarrow> actor_id list \<Rightarrow> workflow_state \<Rightarrow> time \<Rightarrow> reservation_table" where
  "initialize_actor_reservations w reg sorted_ids st now =
     fold (reserve_opaque_load reg st now) sorted_ids
       (fold (reserve_assigned_task w st now) (assigned_tasks st)
          (fold (\<lambda>a. umap_emplace a []) sorted_ids []))"

definition completion_of_completed :: "workflow_state \<Rightarrow> time \<Rightarrow> task_id \<Rightarrow> time" where
  "completion_of_completed st now t =
     (case map_of (task_actual_completion_time st) t of
        Some c \<Rightarrow> c
      | None \<Rightarrow> umap_at_or (task_planned_end_time st) t now)"

definition completion_of_assigned :: "workflow \<Rightarrow> workflow_state \<Rightarrow> time \<Rightarrow> task_id \<Rightarrow> time" where
  "completion_of_assigned w st now t =
     umap_at_or (task_planned_end_time st) t (now + duration_of_task w t)"

definition initialize_completion_times ::
  "workflow \<Rightarrow> workflow_state \<Rightarrow> time \<Rightarrow> completion_table" where
  "initialize_completion_times w st now =
     fold (\<lambda>t. AList.update t (completion_of_assigned w st now t)) (assigned_tasks st)
       (fold (\<lambda>t. AList.update t (completion_of_completed st now t)) (completed_tasks st) [])"

subsection \<open>Ready tasks and candidate selection\<close>

fun latest_completion :: "completion_table \<Rightarrow> time \<Rightarrow> task_id list \<Rightarrow> time option" where
  "latest_completion ct ready_time [] = Some ready_time"
| "latest_completion ct ready_time (d # ds) =
     (case map_of ct d of
        None \<Rightarrow> None
      | Some c \<Rightarrow> latest_completion ct (max ready_time c) ds)"

definition dependency_ready_time :: "pending_task \<Rightarrow> completion_table \<Rightarrow> time option" where
  "dependency_ready_time p ct =
     (case pt_process p of
        None \<Rightarrow> Some 0
      | Some pr \<Rightarrow> latest_completion ct 0 (p_dependency_task_ids pr))"

definition mutex_conflict :: "pending_task \<Rightarrow> task_id list \<Rightarrow> bool" where
  "mutex_conflict p blocked =
     (case pt_process p of
        None \<Rightarrow> False
      | Some pr \<Rightarrow> list_ex (\<lambda>t. t \<in> set blocked) (p_mutually_exclusive_task_ids pr))"

text \<open>
  \<^verbatim>\<open>order_by_task_id.at\<close> cannot fail: a strategy returns the tasks it was given
  (\<open>scheduling_strategy.mset_order_tasks\<close>), see \<open>task_rank_defined\<close>.
\<close>

definition rank_table :: "task_info list \<Rightarrow> (task_id, nat) umap" where
  "rank_table infos = fold (\<lambda>(i, info). umap_emplace (ti_id info) i) (enumerate 0 infos) []"

definition order_ready_tasks :: "strategy option \<Rightarrow> pending_task list \<Rightarrow> pending_task list" where
  "order_ready_tasks strategy ready =
     (let order_by_task_id = rank_table (apply_strategy strategy (map pt_info ready))
      in sort_key (\<lambda>p. (umap_at_or order_by_task_id (pt_id p) 0, pt_id p)) ready)"

definition task_is_ready :: "completion_table \<Rightarrow> task_id list \<Rightarrow> pending_task \<Rightarrow> bool" where
  "task_is_ready ct blocked p \<longleftrightarrow> \<not> mutex_conflict p blocked \<and> dependency_ready_time p ct \<noteq> None"

definition collect_ready_tasks ::
  "task_id list \<Rightarrow> (task_id, pending_task) umap \<Rightarrow> completion_table \<Rightarrow> task_id list
     \<Rightarrow> strategy option \<Rightarrow> pending_task list" where
  "collect_ready_tasks remaining pending_by_id ct blocked strategy =
     order_ready_tasks strategy
       (filter (task_is_ready ct blocked) (List.map_filter (map_of pending_by_id) remaining))"

record plan_ctx =
  pc_env :: runtime_env
  pc_state :: workflow_state
  pc_registry :: actor_registry
  pc_actor_ids :: "actor_id list"
  pc_unavailable :: "actor_id list"
  pc_now :: time
  pc_strategy :: "strategy option"
  pc_profile :: ranking_profile
  pc_pending :: "(task_id, pending_task) umap"

definition earliest_release :: "plan_ctx \<Rightarrow> pending_task \<Rightarrow> time \<Rightarrow> time" where
  "earliest_release ctx p dependency_ready =
     max (max (pc_now ctx) (effective_release_time p (pc_state ctx))) dependency_ready"

text \<open>One iteration of the actor loop: the candidate this actor offers, if any.\<close>

definition candidate_for_actor ::
  "plan_ctx \<Rightarrow> pending_task \<Rightarrow> reservation_table \<Rightarrow> time \<Rightarrow> actor_id \<Rightarrow> ranked_actor_candidate option" where
  "candidate_for_actor ctx p reservations release a =
     (if a \<in> set (pc_unavailable ctx) then None
      else case registry_get (pc_registry ctx) a of
        None \<Rightarrow> None
      | Some act \<Rightarrow>
          if \<not> actor_is_allowed p act (pc_state ctx) then None
          else
            (let rs = umap_at_or reservations a [] in
             case earliest_start act rs release (ti_duration (pt_info p)) (ti_demand (pt_info p)) of
               None \<Rightarrow> None
             | Some s \<Rightarrow>
                 if (case effective_latest_start_time p of None \<Rightarrow> False | Some l \<Rightarrow> s > l) then None
                 else if (case ti_deadline (pt_info p) of
                            None \<Rightarrow> False | Some d \<Rightarrow> s + ti_duration (pt_info p) > d) then None
                 else Some (build_candidate (pc_env ctx) p act s (pc_state ctx) rs)))"

definition consider_actor ::
  "plan_ctx \<Rightarrow> pending_task \<Rightarrow> reservation_table \<Rightarrow> time \<Rightarrow> actor_id
     \<Rightarrow> candidate_selection option \<Rightarrow> candidate_selection option" where
  "consider_actor ctx p reservations release a best =
     (case candidate_for_actor ctx p reservations release a of
        None \<Rightarrow> best
      | Some cand \<Rightarrow>
          (case best of
             None \<Rightarrow> Some \<lparr>cs_candidate = cand, cs_ranking_reason_index = 0\<rparr>
           | Some b \<Rightarrow>
               (let (result, reason) = compare_candidates cand (cs_candidate b) (pc_profile ctx)
                in if result < 0
                   then Some \<lparr>cs_candidate = cand, cs_ranking_reason_index = reason\<rparr>
                   else Some b)))"

definition select_best_candidate ::
  "plan_ctx \<Rightarrow> pending_task \<Rightarrow> reservation_table \<Rightarrow> completion_table \<Rightarrow> candidate_selection option" where
  "select_best_candidate ctx p reservations ct =
     (case dependency_ready_time p ct of
        None \<Rightarrow> None
      | Some dependency_ready \<Rightarrow>
          fold (consider_actor ctx p reservations (earliest_release ctx p dependency_ready))
            (pc_actor_ids ctx) None)"

subsection \<open>The planning loop\<close>

record plan_state =
  ps_assignments :: "assignment list"
  ps_reasons :: "(task_id, nat) umap"
  ps_reservations :: reservation_table
  ps_completion :: completion_table
  ps_blocked :: "task_id list"
  ps_remaining :: "task_id list"

definition commit_selection :: "pending_task \<Rightarrow> candidate_selection \<Rightarrow> plan_state \<Rightarrow> plan_state" where
  "commit_selection p sel ps =
     (let c = cs_candidate sel in
      ps\<lparr>ps_assignments := ps_assignments ps @
           [\<lparr>as_task_id = pt_id p, as_actor_id = rc_actor_id c, as_start_time = rc_start_time c\<rparr>],
         ps_reasons := AList.update (pt_id p) (cs_ranking_reason_index sel) (ps_reasons ps),
         ps_reservations := push_reservation (rc_actor_id c)
           \<lparr>iv_start = rc_start_time c, iv_end = rc_finish_time c, iv_demand = ti_demand (pt_info p)\<rparr>
           (ps_reservations ps),
         ps_completion := AList.update (pt_id p) (rc_finish_time c) (ps_completion ps),
         ps_blocked := push_unique (ps_blocked ps) (pt_id p),
         ps_remaining := erase_value (ps_remaining ps) (pt_id p)\<rparr>)"

definition plan_ready_task :: "plan_ctx \<Rightarrow> pending_task \<Rightarrow> plan_state \<times> bool \<Rightarrow> plan_state \<times> bool" where
  "plan_ready_task ctx p = (\<lambda>(ps, progress).
     if pt_id p \<notin> set (ps_remaining ps) then (ps, progress)
     else if mutex_conflict p (ps_blocked ps)
     then (ps\<lparr>ps_remaining := erase_value (ps_remaining ps) (pt_id p)\<rparr>, progress)
     else case select_best_candidate ctx p (ps_reservations ps) (ps_completion ps) of
            None \<Rightarrow> (ps\<lparr>ps_remaining := erase_value (ps_remaining ps) (pt_id p)\<rparr>, progress)
          | Some sel \<Rightarrow> (commit_selection p sel ps, True))"

definition plan_round :: "plan_ctx \<Rightarrow> pending_task list \<Rightarrow> plan_state \<Rightarrow> plan_state \<times> bool" where
  "plan_round ctx ready ps = fold (plan_ready_task ctx) ready (ps, False)"

lemma plan_ready_task_remaining:
  assumes "plan_ready_task ctx p (ps, pr) = (ps', pr')"
  shows "length (ps_remaining ps') \<le> length (ps_remaining ps)
     \<and> (pr' \<and> \<not> pr \<longrightarrow> length (ps_remaining ps') < length (ps_remaining ps)) \<and> (pr \<longrightarrow> pr')"
  using assms
  by (auto simp: plan_ready_task_def commit_selection_def Let_def length_removeAll_less
      split: if_splits option.splits intro: length_removeAll_less_eq)

lemma plan_round_remaining:
  "fold (plan_ready_task ctx) ready (ps, pr) = (ps', pr') \<Longrightarrow>
     length (ps_remaining ps') \<le> length (ps_remaining ps)
     \<and> (pr' \<and> \<not> pr \<longrightarrow> length (ps_remaining ps') < length (ps_remaining ps))"
proof (induction ready arbitrary: ps pr)
  case Nil
  then show ?case by auto
next
  case (Cons p ready)
  obtain ps1 pr1 where step: "plan_ready_task ctx p (ps, pr) = (ps1, pr1)" by force
  with Cons.prems have "fold (plan_ready_task ctx) ready (ps1, pr1) = (ps', pr')" by simp
  from Cons.IH [OF this] plan_ready_task_remaining [OF step] show ?case by (cases pr1) auto
qed

function plan_loop :: "plan_ctx \<Rightarrow> plan_state \<Rightarrow> plan_state" where
  "plan_loop ctx ps =
     (if ps_remaining ps = [] then ps
      else
        (let ready = collect_ready_tasks (ps_remaining ps) (pc_pending ctx) (ps_completion ps)
                       (ps_blocked ps) (pc_strategy ctx)
         in if ready = [] then ps
            else (case plan_round ctx ready ps of
                    (ps', progress) \<Rightarrow> if \<not> progress then ps' else plan_loop ctx ps')))"
  by pat_completeness auto
termination
proof (relation "measure (\<lambda>(ctx, ps). length (ps_remaining ps))", goal_cases)
  case 1
  then show ?case by simp
next
  case prems: (2 ctx ps ready ps' progress)
  then have "plan_round ctx ready ps = (ps', True)" by simp
  then show ?case
    using plan_round_remaining [of ctx ready ps False ps' True] by (simp add: plan_round_def)
qed

declare plan_loop.simps [simp del]

definition initial_plan_ctx ::
  "runtime_env \<Rightarrow> workflow_state \<Rightarrow> actor_registry \<Rightarrow> time \<Rightarrow> strategy option
     \<Rightarrow> ranking_profile option \<Rightarrow> pending_task list \<Rightarrow> plan_ctx" where
  "initial_plan_ctx env st reg now strategy profile pending =
     \<lparr>pc_env = env, pc_state = st, pc_registry = reg, pc_actor_ids = actor_ids reg,
      pc_unavailable = unavailable_actors st, pc_now = now, pc_strategy = strategy,
      pc_profile = effective_ranking_profile profile,
      pc_pending = fold (\<lambda>p. umap_emplace (pt_id p) p) pending []\<rparr>"

definition initial_plan_state ::
  "runtime_env \<Rightarrow> workflow \<Rightarrow> workflow_state \<Rightarrow> actor_registry \<Rightarrow> time \<Rightarrow> pending_task list \<Rightarrow> plan_state" where
  "initial_plan_state env w st reg now pending =
     \<lparr>ps_assignments = [], ps_reasons = [],
      ps_reservations = initialize_actor_reservations w reg (actor_ids reg) st now,
      ps_completion = initialize_completion_times w st now,
      ps_blocked = remdups (completed_tasks st @ assigned_tasks st),
      ps_remaining = iter_order env (map pt_id pending)\<rparr>"

definition plan ::
  "runtime_env \<Rightarrow> workflow \<Rightarrow> workflow_state \<Rightarrow> actor_registry \<Rightarrow> time \<Rightarrow> strategy option
     \<Rightarrow> ranking_profile option \<Rightarrow> schedule_result" where
  "plan env w st reg now strategy profile =
     (let pending = collect_pending_tasks w st in
      if pending = [] then empty_schedule_result\<lparr>sr_ok := True\<rparr>
      else case validate_supported_tasks pending of
        Some e \<Rightarrow> empty_schedule_result\<lparr>sr_ok := False, sr_error_message := e\<rparr>
      | None \<Rightarrow>
          (let ps = plan_loop (initial_plan_ctx env st reg now strategy profile pending)
                      (initial_plan_state env w st reg now pending)
           in \<lparr>sr_ok = True,
               sr_assignments =
                 sort_key (\<lambda>a. (as_start_time a, as_task_id a, as_actor_id a)) (ps_assignments ps),
               sr_reasons = ps_reasons ps, sr_error_message = []\<rparr>))"

text \<open>The lazy variant yields the same assignments one by one.\<close>

definition plan_lazy ::
  "runtime_env \<Rightarrow> workflow \<Rightarrow> workflow_state \<Rightarrow> actor_registry \<Rightarrow> time \<Rightarrow> strategy option
     \<Rightarrow> ranking_profile option \<Rightarrow> assignment list" where
  "plan_lazy env w st reg now strategy profile = sr_assignments (plan env w st reg now strategy profile)"

end
