(* ===== verification/Scheduler_Correct.thy ===== *)
theory Scheduler_Correct
  imports Scheduler
begin

text \<open>
  Correctness of the runtime scheduler: the timed-capacity search finds the least feasible
  start, the ranking comparison is a strict weak order and the selected actor is minimal for
  it, and the planning loop keeps the invariants from which the guarantees of a plan follow
  (eligibility, windows, deadlines, capacity, dependencies, exclusion, maximality). The
  locale \<open>plan_invariant\<close> states once what a predicate on the planning state must satisfy to
  survive the loop; each guarantee is an interpretation of it.
\<close>

subsection \<open>Capacity over time\<close>

definition covers :: "scheduled_interval \<Rightarrow> time \<Rightarrow> bool" where
  "covers r t \<longleftrightarrow> iv_start r \<le> t \<and> t < iv_end r"

lemma concurrent_demand_foldl:
  "foldl (\<lambda>running r. if iv_start r \<le> t \<and> t < iv_end r then running + iv_demand r else running) acc rs
     = acc + sum_list (map iv_demand (filter (\<lambda>r. covers r t) rs))"
  by (induction rs arbitrary: acc) (auto simp: covers_def)

lemma concurrent_demand_at_sum:
  "concurrent_demand_at rs t = sum_list (map iv_demand (filter (\<lambda>r. covers r t) rs))"
  by (simp add: concurrent_demand_foldl)

lemma concurrent_demand_at_append [simp]:
  "concurrent_demand_at (rs @ [iv]) t =
     concurrent_demand_at rs t + (if covers iv t then iv_demand iv else 0)"
  by (simp add: concurrent_demand_at_sum del: concurrent_demand_at.simps)

lemma concurrent_demand_at_Nil [simp]: "concurrent_demand_at [] t = 0"
  by simp

declare concurrent_demand_at.simps [simp del]

definition fits_capacity :: "scheduled_interval list \<Rightarrow> int \<Rightarrow> time \<Rightarrow> time \<Rightarrow> int \<Rightarrow> bool" where
  "fits_capacity rs capacity s e demand \<longleftrightarrow>
     (\<forall>t. s \<le> t \<and> t < e \<longrightarrow> concurrent_demand_at rs t + demand \<le> capacity)"

lemma has_capacity_for_interval_iff:
  "has_capacity_for_interval rs capacity s e demand \<longleftrightarrow> fits_capacity rs capacity s e demand"
proof (induction rs capacity s e demand rule: has_capacity_for_interval.induct)
  case (1 rs capacity s e demand)
  have "fits_capacity rs capacity s e demand \<longleftrightarrow>
      (concurrent_demand_at rs s + demand \<le> capacity \<and> fits_capacity rs capacity (s + 1) e demand)"
    if "s < e"
    using that unfolding fits_capacity_def by (metis add1_zle_eq order_le_less zle_add1_eq_le order_refl)
  with 1 show ?case
    by (subst has_capacity_for_interval.simps) (auto simp: fits_capacity_def)
qed


lemma first_candidate_None:
  "first_candidate rs capacity c l dur demand = None \<longleftrightarrow>
     (\<forall>s. c \<le> s \<and> s \<le> l \<longrightarrow> \<not> fits_capacity rs capacity s (s + dur) demand)"
proof (induction rs capacity c l dur demand rule: first_candidate.induct)
  case (1 rs capacity c l dur demand)
  have split: "(\<forall>s. c \<le> s \<and> s \<le> l \<longrightarrow> P s) \<longleftrightarrow> P c \<and> (\<forall>s. c + 1 \<le> s \<and> s \<le> l \<longrightarrow> P s)"
    if "c \<le> l" for P
    using that by (metis add1_zle_eq order_le_less order_refl)
  from 1 show ?case
    by (subst first_candidate.simps) (auto simp: has_capacity_for_interval_iff split)
qed

lemma first_candidate_Some:
  "first_candidate rs capacity c l dur demand = Some s \<Longrightarrow>
     c \<le> s \<and> s \<le> l \<and> fits_capacity rs capacity s (s + dur) demand \<and>
     (\<forall>s'. c \<le> s' \<and> s' < s \<longrightarrow> \<not> fits_capacity rs capacity s' (s' + dur) demand)"
proof (induction rs capacity c l dur demand rule: first_candidate.induct)
  case (1 rs capacity c l dur demand)
  show ?case
  proof (cases "c \<le> l \<and> has_capacity_for_interval rs capacity c (c + dur) demand")
    case True
    with "1.prems" have "s = c" by (simp add: first_candidate.simps [of rs])
    with True show ?thesis by (auto simp: has_capacity_for_interval_iff)
  next
    case False
    with "1.prems" have "c \<le> l" and nc: "\<not> fits_capacity rs capacity c (c + dur) demand"
      and "first_candidate rs capacity (c + 1) l dur demand = Some s"
      by (auto simp: first_candidate.simps [of rs capacity c] has_capacity_for_interval_iff split: if_splits)
    with "1.IH" False have ih: "c + 1 \<le> s" "s \<le> l" "fits_capacity rs capacity s (s + dur) demand"
      "\<forall>s'. c + 1 \<le> s' \<and> s' < s \<longrightarrow> \<not> fits_capacity rs capacity s' (s' + dur) demand" by auto
    have "\<not> fits_capacity rs capacity s' (s' + dur) demand" if "c \<le> s'" "s' < s" for s'
      using that nc ih(4) by (cases "s' = c") auto
    with ih show ?thesis by auto
  qed
qed

text \<open>A start is feasible when the whole execution lies in one window and fits the capacity.\<close>

definition feasible_start ::
  "availability_window list \<Rightarrow> scheduled_interval list \<Rightarrow> int \<Rightarrow> time \<Rightarrow> duration \<Rightarrow> int \<Rightarrow> time \<Rightarrow> bool" where
  "feasible_start ws rs capacity release_time dur demand s \<longleftrightarrow>
     release_time \<le> s \<and> (\<exists>w\<in>set ws. win_start w \<le> s \<and> s + dur \<le> win_end w) \<and>
     fits_capacity rs capacity s (s + dur) demand"

lemma feasible_start_Cons:
  "feasible_start (w # ws) rs capacity rel dur demand s \<longleftrightarrow>
     (max (win_start w) rel \<le> s \<and> s \<le> win_end w - dur \<and> fits_capacity rs capacity s (s + dur) demand)
     \<or> feasible_start ws rs capacity rel dur demand s"
  by (auto simp: feasible_start_def)

lemma earliest_in_windows_None:
  "earliest_in_windows ws rs capacity rel dur demand = None \<longleftrightarrow>
     (\<forall>s. \<not> feasible_start ws rs capacity rel dur demand s)"
proof (induction ws)
  case Nil
  then show ?case by (simp add: feasible_start_def)
next
  case (Cons w ws)
  show ?case
  proof (cases "first_candidate rs capacity (max (win_start w) rel) (win_end w - dur) dur demand")
    case None
    then have "\<not> (max (win_start w) rel \<le> s \<and> s \<le> win_end w - dur \<and>
        fits_capacity rs capacity s (s + dur) demand)" for s
      by (simp only: first_candidate_None) blast
    then have "feasible_start (w # ws) rs capacity rel dur demand s
        \<longleftrightarrow> feasible_start ws rs capacity rel dur demand s" for s
      by (auto simp: feasible_start_Cons)
    with None Cons.IH show ?thesis by (simp add: Let_def)
  next
    case (Some c)
    from first_candidate_Some [OF this] have "feasible_start (w # ws) rs capacity rel dur demand c"
      and "max (win_start w) rel \<le> win_end w - dur"
      by (auto simp: feasible_start_Cons)
    with Some show ?thesis by (auto simp: Let_def)
  qed
qed

lemma earliest_in_windows_least:
  assumes "sorted (map win_start ws)" and "earliest_in_windows ws rs capacity rel dur demand = Some s"
  shows "feasible_start ws rs capacity rel dur demand s \<and>
    (\<forall>s'. feasible_start ws rs capacity rel dur demand s' \<longrightarrow> s \<le> s')"
  using assms
proof (induction ws)
  case Nil
  then show ?case by simp
next
  case (Cons w ws)
  let ?c = "max (win_start w) rel" and ?l = "win_end w - dur"
  have later: "?c \<le> s'" if "feasible_start ws rs capacity rel dur demand s'" for s'
    using that Cons.prems(1) by (fastforce simp: feasible_start_def)
  show ?case
  proof (cases "first_candidate rs capacity ?c ?l dur demand")
    case None
    then have none: "\<not> (?c \<le> s' \<and> s' \<le> ?l \<and> fits_capacity rs capacity s' (s' + dur) demand)" for s'
      by (auto simp: first_candidate_None)
    with None Cons.prems have "earliest_in_windows ws rs capacity rel dur demand = Some s"
      by (auto simp: Let_def split: if_splits)
    with Cons.IH Cons.prems(1) none show ?thesis by (auto simp: feasible_start_Cons)
  next
    case (Some c)
    note f = first_candidate_Some [OF Some]
    with Some Cons.prems have "s = c" by (auto simp: Let_def split: if_splits)
    moreover have "c \<le> s'" if "feasible_start (w # ws) rs capacity rel dur demand s'" for s'
    proof (rule ccontr)
      assume "\<not> c \<le> s'"
      with f that later [of s'] show False
        unfolding feasible_start_Cons by (smt (verit) feasible_start_def)
    qed
    ultimately show ?thesis using f by (auto simp: feasible_start_Cons)
  qed
qed

lemma earliest_start_Some:
  assumes "0 < dur"
  shows "earliest_start a rs rel dur demand = Some s \<longleftrightarrow>
     feasible_start (a_windows a) rs (a_capacity a) rel dur demand s \<and>
     (\<forall>s'. feasible_start (a_windows a) rs (a_capacity a) rel dur demand s' \<longrightarrow> s \<le> s')"
proof -
  let ?ws = "sort_key win_start (a_windows a)"
  have same: "feasible_start ?ws = feasible_start (a_windows a)"
    by (intro ext) (simp add: feasible_start_def)
  have es: "earliest_start a rs rel dur demand = earliest_in_windows ?ws rs (a_capacity a) rel dur demand"
    using assms by (simp add: earliest_start_def)
  show ?thesis (is "?L \<longleftrightarrow> ?R")
  proof
    assume ?L
    then show ?R using earliest_in_windows_least [of ?ws] by (simp add: es same)
  next
    assume r: ?R
    then obtain s0 where s0: "earliest_in_windows ?ws rs (a_capacity a) rel dur demand = Some s0"
      using earliest_in_windows_None [of ?ws rs "a_capacity a" rel dur demand]
      by (auto simp: same)
    with earliest_in_windows_least [of ?ws, OF _ s0] r have "s0 = s"
      by (auto simp: same intro: order_antisym)
    with s0 show ?L by (simp add: es)
  qed
qed

lemma earliest_start_None:
  "0 < dur \<Longrightarrow> earliest_start a rs rel dur demand = None \<longleftrightarrow>
     (\<forall>s. \<not> feasible_start (a_windows a) rs (a_capacity a) rel dur demand s)"
  by (simp add: earliest_start_def earliest_in_windows_None feasible_start_def)

lemma earliest_start_not_before: "earliest_start a rs rel dur demand = Some s \<Longrightarrow> rel \<le> s"
  using earliest_start_Some [of dur a rs rel demand s]
  by (cases "0 < dur") (auto simp: feasible_start_def earliest_start_def [of a rs rel dur])

lemma earliest_start_fits:
  "earliest_start a rs rel dur demand = Some s \<Longrightarrow> fits_capacity rs (a_capacity a) s (s + dur) demand"
  by (cases "0 < dur") (auto simp: earliest_start_Some feasible_start_def fits_capacity_def)

subsection \<open>Ranking\<close>

text \<open>
  Every criterion compares a numeric key; the profile compares the keys lexicographically and
  breaks ties by the actor id.
\<close>

fun criterion_key :: "actor_ranking_criterion \<Rightarrow> ranked_actor_candidate \<Rightarrow> rat" where
  "criterion_key EarliestFeasibleStart c = of_int (rc_start_time c)"
| "criterion_key EarliestFeasibleCompletion c = of_int (rc_finish_time c)"
| "criterion_key DistanceToWork c = of_int (rc_distance_to_work c)"
| "criterion_key ExecutionCost c = rc_execution_cost c"
| "criterion_key UptimeUtilisation c = - rc_uptime_utilization c"
| "criterion_key LeastLoaded c = of_int (rc_actor_load c)"
| "criterion_key PreferredActor c = (if rc_preferred_actor c then 0 else 1)"

definition rank_key :: "ranking_profile \<Rightarrow> ranked_actor_candidate \<Rightarrow> rat list \<times> actor_id" where
  "rank_key profile c = (map (\<lambda>k. criterion_key k c) profile, rc_actor_id c)"

lemma compare_criterion_key:
  "compare_criterion k l r = three_way (criterion_key k l) (criterion_key k r)"
  by (cases k) (auto simp: three_way_def)

lemma fst_compare_loop:
  "fst (compare_loop profile i n l r) =
     (if rank_key profile l < rank_key profile r then -1
      else if rank_key profile l = rank_key profile r then 0 else 1)"
  by (induction profile i n l r rule: compare_loop.induct)
     (auto simp: rank_key_def compare_criterion_key three_way_def less_prod_def' split: option.splits)

lemma compare_candidates_key:
  "fst (compare_candidates l r profile) < 0 \<longleftrightarrow> rank_key profile l < rank_key profile r"
  by (simp add: compare_candidates_def fst_compare_loop)

lemma consider_actor_cases:
  "consider_actor ctx p rs rel a best =
     (case candidate_for_actor ctx p rs rel a of
        None \<Rightarrow> best
      | Some c \<Rightarrow>
         (case best of
            None \<Rightarrow> Some \<lparr>cs_candidate = c, cs_ranking_reason_index = 0\<rparr>
          | Some b \<Rightarrow>
              if rank_key (pc_profile ctx) c < rank_key (pc_profile ctx) (cs_candidate b)
              then Some \<lparr>cs_candidate = c,
                cs_ranking_reason_index = snd (compare_candidates c (cs_candidate b) (pc_profile ctx))\<rparr>
              else Some b))"
  by (auto simp: consider_actor_def compare_candidates_key [symmetric] case_prod_beta
      split: option.splits)

definition best_of ::
  "ranking_profile \<Rightarrow> ranked_actor_candidate set \<Rightarrow> candidate_selection option \<Rightarrow> bool" where
  "best_of profile C best =
     (case best of
        None \<Rightarrow> C = {}
      | Some b \<Rightarrow> cs_candidate b \<in> C \<and> (\<forall>c\<in>C. rank_key profile (cs_candidate b) \<le> rank_key profile c))"

lemma best_of_consider_actor:
  assumes "best_of (pc_profile ctx) C best"
  shows "best_of (pc_profile ctx) (C \<union> set_option (candidate_for_actor ctx p rs rel a))
           (consider_actor ctx p rs rel a best)"
  using assms by (auto simp: best_of_def consider_actor_cases split: option.splits)

lemma best_of_fold:
  "best_of (pc_profile ctx) C best \<Longrightarrow>
     best_of (pc_profile ctx) (C \<union> (\<Union>a\<in>set as. set_option (candidate_for_actor ctx p rs rel a)))
       (fold (consider_actor ctx p rs rel) as best)"
proof (induction as arbitrary: C best)
  case Nil
  then show ?case by simp
next
  case (Cons a as)
  from Cons.IH [OF best_of_consider_actor [OF Cons.prems]] show ?case
    by (simp add: Un_assoc)
qed

lemma select_best_candidate_best:
  assumes "dependency_ready_time p ct = Some rt"
  shows "best_of (pc_profile ctx)
    (\<Union>a\<in>set (pc_actor_ids ctx). set_option (candidate_for_actor ctx p rs (earliest_release ctx p rt) a))
    (select_best_candidate ctx p rs ct)"
  using best_of_fold [of ctx "{}" None] assms by (simp add: select_best_candidate_def best_of_def)

lemma select_best_candidate_Some:
  assumes "select_best_candidate ctx p rs ct = Some sel"
  obtains a rt where "a \<in> set (pc_actor_ids ctx)" and "dependency_ready_time p ct = Some rt"
    and "candidate_for_actor ctx p rs (earliest_release ctx p rt) a = Some (cs_candidate sel)"
proof -
  obtain rt where rt: "dependency_ready_time p ct = Some rt"
    using assms by (auto simp: select_best_candidate_def split: option.splits)
  from select_best_candidate_best [OF this, of ctx rs] assms that rt show thesis
    by (auto simp: best_of_def)
qed

lemma select_best_candidate_None:
  assumes "select_best_candidate ctx p rs ct = None" and "dependency_ready_time p ct = Some rt"
    and "a \<in> set (pc_actor_ids ctx)"
  shows "candidate_for_actor ctx p rs (earliest_release ctx p rt) a = None"
  using select_best_candidate_best [OF assms(2), of ctx rs] assms(1,3)
  by (auto simp: best_of_def)

subsection \<open>What a candidate satisfies\<close>

text \<open>The registry is keyed by the actors' own ids.\<close>

definition registry_wf :: "actor_registry \<Rightarrow> bool" where
  "registry_wf r \<longleftrightarrow> (\<forall>i a. map_of r i = Some a \<longrightarrow> a_id a = i) \<and> distinct (map fst r)"

lemma registry_wf_empty: "registry_wf []"
  by (simp add: registry_wf_def)

lemma registry_wf_add: "registry_wf r \<Longrightarrow> registry_wf (registry_add r a)"
  by (auto simp: registry_wf_def registry_add_def)

lemma registry_wf_modify:
  "registry_wf r \<Longrightarrow> (\<And>a. a_id (f a) = a_id a) \<Longrightarrow> registry_wf (registry_modify r i f)"
  by (auto simp: registry_wf_def registry_modify_def simp del: map_of_eq_Some_iff
      split: option.splits)

lemma set_actor_ids [simp]: "set (actor_ids r) = dom (map_of r)"
  by (simp add: actor_ids_def dom_map_of_conv_image_fst)

definition eligible_at :: "plan_ctx \<Rightarrow> pending_task \<Rightarrow> actor \<Rightarrow> time \<Rightarrow> bool" where
  "eligible_at ctx p act s \<longleftrightarrow>
     registry_get (pc_registry ctx) (a_id act) = Some act \<and> a_id act \<notin> set (pc_unavailable ctx) \<and>
     actor_is_allowed p act (pc_state ctx) \<and>
     pc_now ctx \<le> s \<and> effective_release_time p (pc_state ctx) \<le> s \<and>
     (\<forall>l. effective_latest_start_time p = Some l \<longrightarrow> s \<le> l) \<and>
     (\<forall>d. ti_deadline (pt_info p) = Some d \<longrightarrow> s + ti_duration (pt_info p) \<le> d) \<and>
     (0 < ti_duration (pt_info p) \<longrightarrow>
        (\<exists>w\<in>set (a_windows act). win_start w \<le> s \<and> s + ti_duration (pt_info p) \<le> win_end w))"

lemma candidate_for_actor_Some:
  assumes "registry_wf (pc_registry ctx)"
    and "candidate_for_actor ctx p rs (earliest_release ctx p rt) a = Some c"
  obtains act where "rc_actor_id c = a_id act" and "a = a_id act"
    and "eligible_at ctx p act (rc_start_time c)"
    and "rt \<le> rc_start_time c" and "rc_finish_time c = rc_start_time c + ti_duration (pt_info p)"
    and "fits_capacity (umap_at_or rs a []) (a_capacity act) (rc_start_time c) (rc_finish_time c)
           (ti_demand (pt_info p))"
proof -
  from assms(2) obtain act s where act: "registry_get (pc_registry ctx) a = Some act"
    and es: "earliest_start act (umap_at_or rs a []) (earliest_release ctx p rt)
          (ti_duration (pt_info p)) (ti_demand (pt_info p)) = Some s"
    and c: "c = build_candidate (pc_env ctx) p act s (pc_state ctx) (umap_at_or rs a [])"
    and guards: "a \<notin> set (pc_unavailable ctx)" "actor_is_allowed p act (pc_state ctx)"
      "\<And>l. effective_latest_start_time p = Some l \<Longrightarrow> s \<le> l"
      "\<And>d. ti_deadline (pt_info p) = Some d \<Longrightarrow> s + ti_duration (pt_info p) \<le> d"
    by (auto simp: candidate_for_actor_def Let_def split: if_splits option.splits)
  from act assms(1) have a: "a = a_id act" by (auto simp: registry_get_def registry_wf_def)
  have window: "\<exists>w\<in>set (a_windows act). win_start w \<le> s \<and> s + ti_duration (pt_info p) \<le> win_end w"
    if "0 < ti_duration (pt_info p)"
    using es that by (auto simp: earliest_start_Some feasible_start_def)
  from earliest_start_not_before [OF es]
  have "pc_now ctx \<le> s" "effective_release_time p (pc_state ctx) \<le> s" "rt \<le> s"
    by (auto simp: earliest_release_def)
  with that [of act] earliest_start_fits [OF es] c act a guards window show thesis
    by (simp add: build_candidate_def Let_def eligible_at_def)
qed

subsection \<open>Invariants of the planning loop\<close>

text \<open>
  The contract of a predicate that survives the loop: it is kept when a ready task is
  committed to the selected candidate and when a task is dropped from the remaining set.
\<close>

lemma latest_completion_defined:
  "latest_completion ct r ds \<noteq> None \<longleftrightarrow> (\<forall>d\<in>set ds. map_of ct d \<noteq> None)"
  by (induction ct r ds rule: latest_completion.induct) (auto split: option.splits)

lemma dependency_ready_commit:
  "dependency_ready_time p (ps_completion ps) \<noteq> None \<Longrightarrow>
     dependency_ready_time p (ps_completion (commit_selection q sel ps)) \<noteq> None"
  by (auto simp: dependency_ready_time_def commit_selection_def Let_def latest_completion_defined
      simp del: not_None_eq split: option.splits)

locale plan_invariant =
  fixes ctx :: plan_ctx and I :: "plan_state \<Rightarrow> bool"
  assumes inv_commit:
    "I ps \<Longrightarrow> map_of (pc_pending ctx) t = Some p \<Longrightarrow> pt_id p \<in> set (ps_remaining ps) \<Longrightarrow>
     \<not> mutex_conflict p (ps_blocked ps) \<Longrightarrow>
     select_best_candidate ctx p (ps_reservations ps) (ps_completion ps) = Some sel \<Longrightarrow>
     I (commit_selection p sel ps)"
    and inv_drop:
    "I ps \<Longrightarrow> map_of (pc_pending ctx) t = Some p \<Longrightarrow> pt_id p \<in> set (ps_remaining ps) \<Longrightarrow>
     dependency_ready_time p (ps_completion ps) \<noteq> None \<Longrightarrow>
     mutex_conflict p (ps_blocked ps) \<or>
       select_best_candidate ctx p (ps_reservations ps) (ps_completion ps) = None \<Longrightarrow>
     I (ps\<lparr>ps_remaining := erase_value (ps_remaining ps) (pt_id p)\<rparr>)"
begin

lemma inv_plan_ready_task:
  assumes "I (fst x)" and "map_of (pc_pending ctx) t = Some p"
    and "dependency_ready_time p (ps_completion (fst x)) \<noteq> None"
  shows "I (fst (plan_ready_task ctx p x))"
  using assms inv_commit [of "fst x"] inv_drop [of "fst x"]
  by (auto simp: plan_ready_task_def split: prod.splits option.splits if_splits)

lemma plan_ready_task_keeps_ready:
  fixes x :: "plan_state \<times> bool"
  shows "dependency_ready_time q (ps_completion (fst x)) \<noteq> None \<Longrightarrow>
     dependency_ready_time q (ps_completion (fst (plan_ready_task ctx p x))) \<noteq> None"
  using dependency_ready_commit [of q "fst x" p]
  by (simp add: plan_ready_task_def case_prod_beta split: option.splits)

lemma ready_task_pending:
  "p \<in> set (collect_ready_tasks rem (pc_pending ctx) ct blocked strategy) \<Longrightarrow>
     (\<exists>t. map_of (pc_pending ctx) t = Some p) \<and> dependency_ready_time p ct \<noteq> None"
  by (auto simp: collect_ready_tasks_def order_ready_tasks_def Let_def map_filter_def
      task_is_ready_def)

lemma inv_plan_round:
  assumes "I ps"
  shows "I (fst (plan_round ctx
    (collect_ready_tasks rem (pc_pending ctx) (ps_completion ps) blocked strategy) ps))"
proof -
  let ?ready = "collect_ready_tasks rem (pc_pending ctx) (ps_completion ps) blocked strategy"
  let ?P = "\<lambda>x :: plan_state \<times> bool. I (fst x) \<and> (\<forall>p\<in>set ?ready. dependency_ready_time p (ps_completion (fst x)) \<noteq> None)"
  have "?P (fold (plan_ready_task ctx) ?ready (ps, False))"
  proof (rule fold_invariant_list [where P = ?P])
    show "?P (ps, False)" using assms ready_task_pending by auto
    fix x p assume p: "p \<in> set ?ready" and x: "?P x"
    moreover obtain t where "map_of (pc_pending ctx) t = Some p"
      using ready_task_pending [OF p] by blast
    ultimately show "?P (plan_ready_task ctx p x)"
      using inv_plan_ready_task plan_ready_task_keeps_ready by blast
  qed
  then show ?thesis by (simp add: plan_round_def)
qed

lemma inv_plan_loop: "I ps \<Longrightarrow> I (plan_loop ctx ps)"
proof (induction ctx\<equiv>ctx ps rule: plan_loop.induct)
  case (1 ps)
  let ?ready = "collect_ready_tasks (ps_remaining ps) (pc_pending ctx) (ps_completion ps)
    (ps_blocked ps) (pc_strategy ctx)"
  obtain ps' progress where round: "plan_round ctx ?ready ps = (ps', progress)" by force
  with inv_plan_round [OF "1.prems"] have "I ps'" by (metis fst_conv)
  with 1 round show ?case
    by (subst plan_loop.simps) (auto simp: Let_def)
qed

end

text \<open>The pending table holds, for each task id, what \<open>make_pending\<close> built for it.\<close>

definition ctx_wf :: "workflow \<Rightarrow> plan_ctx \<Rightarrow> bool" where
  "ctx_wf w ctx \<longleftrightarrow> registry_wf (pc_registry ctx) \<and>
     (\<forall>t p. map_of (pc_pending ctx) t = Some p \<longrightarrow> (\<exists>ph. p = make_pending w ph t))"

definition task_deps :: "workflow \<Rightarrow> task_id \<Rightarrow> task_id list" where
  "task_deps w t = (case process_for_task w t of None \<Rightarrow> [] | Some p \<Rightarrow> p_dependency_task_ids p)"

definition task_exclusions :: "workflow \<Rightarrow> task_id \<Rightarrow> task_id list" where
  "task_exclusions w t =
     (case process_for_task w t of None \<Rightarrow> [] | Some p \<Rightarrow> p_mutually_exclusive_task_ids p)"

lemma make_pending_simps [simp]:
  "pt_id (make_pending w ph t) = t"
  "pt_process (make_pending w ph t) = process_for_task w t"
  "ti_duration (pt_info (make_pending w ph t)) = duration_of_task w t"
  "ti_demand (pt_info (make_pending w ph t)) = demand_of_task w t"
  by (simp_all add: make_pending_def Let_def duration_of_task_def demand_of_task_def)

lemma mutex_conflict_make_pending:
  "mutex_conflict (make_pending w ph t) blocked \<longleftrightarrow> (\<exists>u\<in>set (task_exclusions w t). u \<in> set blocked)"
  by (auto simp: mutex_conflict_def task_exclusions_def list_ex_iff split: option.splits)

lemma latest_completion_Some:
  "latest_completion ct r ds = Some rt \<Longrightarrow>
     r \<le> rt \<and> (\<forall>d\<in>set ds. \<exists>c. map_of ct d = Some c \<and> c \<le> rt)"
  by (induction ct r ds rule: latest_completion.induct) (fastforce split: option.splits)+

lemma dependency_ready_time_Some:
  "dependency_ready_time (make_pending w ph t) ct = Some rt \<Longrightarrow> d \<in> set (task_deps w t) \<Longrightarrow>
     \<exists>c. map_of ct d = Some c \<and> c \<le> rt"
  by (auto simp: dependency_ready_time_def task_deps_def split: option.splits
      dest!: latest_completion_Some)

lemma collect_pending_tasks_mem:
  "p \<in> set (collect_pending_tasks w st) \<Longrightarrow>
     \<exists>ph t. p = make_pending w ph t \<and> ph \<in> set (ready_phases w (completed_phases st)) \<and>
       t \<in> set (task_ids_for_phase w ph) \<and> t \<notin> set (completed_tasks st) \<and>
       t \<notin> set (unresumable_tasks st) \<and>
       (t \<in> set (assigned_tasks st) \<longrightarrow> t \<in> set (resumable_tasks st))"
  by (auto simp: collect_pending_tasks_def Let_def)

lemma pending_table_mem:
  "map_of (fold (\<lambda>p. umap_emplace (pt_id p) p) ps m) t = Some p \<Longrightarrow>
     (p \<in> set ps \<and> pt_id p = t) \<or> map_of m t = Some p"
  by (induction ps arbitrary: m) (fastforce split: option.splits if_splits)+

lemma pending_table_dom:
  "dom (map_of (fold (\<lambda>p. umap_emplace (pt_id p) p) ps m)) = pt_id ` set ps \<union> dom (map_of m)"
  by (induction ps arbitrary: m) (auto simp: dom_def split: option.splits if_splits)

lemma ctx_wf_initial:
  "registry_wf reg \<Longrightarrow>
     ctx_wf w (initial_plan_ctx env st reg now strategy profile (collect_pending_tasks w st))"
  by (fastforce simp: ctx_wf_def initial_plan_ctx_def dest!: pending_table_mem
      collect_pending_tasks_mem)

subsubsection \<open>The effect of one commit\<close>

text \<open>What is known when a ready task is committed, in the terms of the workflow.\<close>

lemma commit_cases:
  assumes "ctx_wf w ctx" and "map_of (pc_pending ctx) t = Some p"
    and "select_best_candidate ctx p rs ct = Some sel"
  obtains act ph rt where "p = make_pending w ph t" and "rc_actor_id (cs_candidate sel) = a_id act"
    and "eligible_at ctx p act (rc_start_time (cs_candidate sel))"
    and "dependency_ready_time p ct = Some rt" and "rt \<le> rc_start_time (cs_candidate sel)"
    and "rc_finish_time (cs_candidate sel) = rc_start_time (cs_candidate sel) + duration_of_task w t"
    and "fits_capacity (umap_at_or rs (a_id act) []) (a_capacity act)
           (rc_start_time (cs_candidate sel)) (rc_finish_time (cs_candidate sel)) (demand_of_task w t)"
proof -
  obtain ph where ph: "p = make_pending w ph t" using assms by (auto simp: ctx_wf_def)
  have reg: "registry_wf (pc_registry ctx)" using assms by (simp add: ctx_wf_def)
  obtain a rt where rt: "dependency_ready_time p ct = Some rt"
    and cand: "candidate_for_actor ctx p rs (earliest_release ctx p rt) a = Some (cs_candidate sel)"
    by (rule select_best_candidate_Some [OF assms(3)])
  show thesis
    using candidate_for_actor_Some [OF reg cand] that ph rt by (metis make_pending_simps(3,4))
qed

subsubsection \<open>Tasks are planned once, on an eligible actor\<close>

definition plan_tasks_inv :: "workflow \<Rightarrow> plan_ctx \<Rightarrow> plan_state \<Rightarrow> bool" where
  "plan_tasks_inv w ctx ps \<longleftrightarrow> ctx_wf w ctx \<and>
     distinct (map as_task_id (ps_assignments ps)) \<and>
     (\<forall>x\<in>set (ps_assignments ps). as_task_id x \<notin> set (ps_remaining ps) \<and>
        (\<exists>p act. map_of (pc_pending ctx) (as_task_id x) = Some p \<and> as_actor_id x = a_id act \<and>
           eligible_at ctx p act (as_start_time x)))"

interpretation tasks_inv: plan_invariant ctx "plan_tasks_inv w ctx" for w ctx
proof (unfold_locales, goal_cases)
  case (1 ps t p sel)
  then have "ctx_wf w ctx" by (simp add: plan_tasks_inv_def)
  from commit_cases [OF this 1(2,5)] obtain act ph where "p = make_pending w ph t"
    "rc_actor_id (cs_candidate sel) = a_id act" "eligible_at ctx p act (rc_start_time (cs_candidate sel))"
    by metis
  with 1 show ?case
    by (auto simp: plan_tasks_inv_def commit_selection_def Let_def)
next
  case (2 ps t p)
  then show ?case by (auto simp: plan_tasks_inv_def)
qed

subsubsection \<open>Dependencies\<close>

text \<open>\<open>finishes w xs d c\<close>: one of the planned assignments \<open>xs\<close> is task \<open>d\<close>, completing at \<open>c\<close>.\<close>

definition finishes :: "workflow \<Rightarrow> assignment list \<Rightarrow> task_id \<Rightarrow> time \<Rightarrow> bool" where
  "finishes w xs d c \<longleftrightarrow> (\<exists>x\<in>set xs. as_task_id x = d \<and> c = as_start_time x + duration_of_task w d)"

lemma finishes_append: "finishes w xs d c \<Longrightarrow> finishes w (xs @ ys) d c"
  by (auto simp: finishes_def)

definition plan_deps_inv :: "workflow \<Rightarrow> plan_ctx \<Rightarrow> completion_table \<Rightarrow> plan_state \<Rightarrow> bool" where
  "plan_deps_inv w ctx ct0 ps \<longleftrightarrow> ctx_wf w ctx \<and>
     (\<forall>d c. map_of (ps_completion ps) d = Some c \<longrightarrow>
        map_of ct0 d = Some c \<or> finishes w (ps_assignments ps) d c) \<and>
     (\<forall>x\<in>set (ps_assignments ps). \<forall>d\<in>set (task_deps w (as_task_id x)). \<exists>c. c \<le> as_start_time x \<and>
        (map_of ct0 d = Some c \<or> finishes w (ps_assignments ps) d c))"

interpretation deps_inv: plan_invariant ctx "plan_deps_inv w ctx ct0" for w ctx ct0
proof (unfold_locales, goal_cases)
  case (1 ps t p sel)
  then have wf: "ctx_wf w ctx" by (simp add: plan_deps_inv_def)
  let ?s = "rc_start_time (cs_candidate sel)"
  from commit_cases [OF wf 1(2,5)] obtain ph rt where p: "p = make_pending w ph t"
    and rt: "dependency_ready_time p (ps_completion ps) = Some rt" "rt \<le> ?s"
    and fin: "rc_finish_time (cs_candidate sel) = ?s + duration_of_task w t" by metis
  let ?ps = "commit_selection p sel ps"
  have old: "finishes w (ps_assignments ps) d c \<Longrightarrow> finishes w (ps_assignments ?ps) d c" for d c
    by (simp add: commit_selection_def Let_def finishes_append)
  have new: "\<exists>c. c \<le> ?s \<and> (map_of ct0 d = Some c \<or> finishes w (ps_assignments ps) d c)"
    if "d \<in> set (task_deps w t)" for d
  proof -
    from dependency_ready_time_Some [OF rt(1) [unfolded p] that]
    obtain c where "map_of (ps_completion ps) d = Some c" "c \<le> rt" by blast
    with 1(1) rt(2) show ?thesis by (auto simp: plan_deps_inv_def intro!: exI [of _ c])
  qed
  have fin_new: "finishes w (ps_assignments ?ps) t (rc_finish_time (cs_candidate sel))"
    using fin p by (auto simp: finishes_def commit_selection_def Let_def)
  show ?case
    unfolding plan_deps_inv_def
  proof (intro conjI ballI allI impI)
    fix d c assume "map_of (ps_completion ?ps) d = Some c"
    then show "map_of ct0 d = Some c \<or> finishes w (ps_assignments ?ps) d c"
      using 1(1) old fin_new p
      by (auto simp: commit_selection_def Let_def plan_deps_inv_def split: if_splits)
  next
    fix x d assume "x \<in> set (ps_assignments ?ps)" and d: "d \<in> set (task_deps w (as_task_id x))"
    then consider "x \<in> set (ps_assignments ps)" | "as_task_id x = t" "as_start_time x = ?s"
      using p by (auto simp: commit_selection_def Let_def)
    then show "\<exists>c\<le>as_start_time x. map_of ct0 d = Some c \<or> finishes w (ps_assignments ?ps) d c"
      using 1(1) d new old by cases (fastforce simp: plan_deps_inv_def)+
  qed (fact wf)
next
  case (2 ps t p)
  then show ?case by (simp add: plan_deps_inv_def)
qed

subsubsection \<open>Capacity\<close>

definition runs_at :: "workflow \<Rightarrow> assignment \<Rightarrow> actor_id \<Rightarrow> time \<Rightarrow> bool" where
  "runs_at w x a t \<longleftrightarrow> as_actor_id x = a \<and> as_start_time x \<le> t \<and>
     t < as_start_time x + duration_of_task w (as_task_id x)"

definition planned_demand :: "workflow \<Rightarrow> assignment list \<Rightarrow> actor_id \<Rightarrow> time \<Rightarrow> int" where
  "planned_demand w xs a t =
     sum_list (map (\<lambda>x. demand_of_task w (as_task_id x)) (filter (\<lambda>x. runs_at w x a t) xs))"

definition reserved_demand :: "reservation_table \<Rightarrow> actor_id \<Rightarrow> time \<Rightarrow> int" where
  "reserved_demand m a t = concurrent_demand_at (umap_at_or m a []) t"

lemma reserved_demand_push:
  "reserved_demand (push_reservation a iv m) a' t =
     reserved_demand m a' t + (if a' = a \<and> covers iv t then iv_demand iv else 0)"
  by (simp add: reserved_demand_def push_reservation_def umap_at_or_def)

lemma planned_demand_append [simp]:
  "planned_demand w (xs @ [x]) a t =
     planned_demand w xs a t + (if runs_at w x a t then demand_of_task w (as_task_id x) else 0)"
  by (simp add: planned_demand_def)

lemma planned_demand_mset:
  "planned_demand w xs a t =
     sum_mset (image_mset (\<lambda>x. demand_of_task w (as_task_id x)) (filter_mset (\<lambda>x. runs_at w x a t) (mset xs)))"
  by (simp add: planned_demand_def sum_mset_sum_list flip: mset_filter mset_map)

definition plan_capacity_inv :: "workflow \<Rightarrow> plan_ctx \<Rightarrow> reservation_table \<Rightarrow> plan_state \<Rightarrow> bool" where
  "plan_capacity_inv w ctx m0 ps \<longleftrightarrow> ctx_wf w ctx \<and>
     (\<forall>a t. reserved_demand (ps_reservations ps) a t =
        reserved_demand m0 a t + planned_demand w (ps_assignments ps) a t) \<and>
     (\<forall>x\<in>set (ps_assignments ps). \<forall>a t act. runs_at w x a t \<longrightarrow>
        registry_get (pc_registry ctx) a = Some act \<longrightarrow>
        reserved_demand (ps_reservations ps) a t \<le> a_capacity act)"

lemma plan_capacity_invD:
  assumes "plan_capacity_inv w ctx m0 ps"
  shows "reserved_demand (ps_reservations ps) a t =
      reserved_demand m0 a t + planned_demand w (ps_assignments ps) a t"
    and "x \<in> set (ps_assignments ps) \<Longrightarrow> runs_at w x a t \<Longrightarrow>
      registry_get (pc_registry ctx) a = Some act \<Longrightarrow>
      reserved_demand (ps_reservations ps) a t \<le> a_capacity act"
  using assms unfolding plan_capacity_inv_def by blast+

lemma plan_capacity_inv_remaining:
  "plan_capacity_inv w ctx m0 (ps\<lparr>ps_remaining := r\<rparr>) = plan_capacity_inv w ctx m0 ps"
  by (simp add: plan_capacity_inv_def)

interpretation capacity_inv: plan_invariant ctx "plan_capacity_inv w ctx m0" for w ctx m0
proof (unfold_locales, goal_cases)
  case (1 ps t p sel)
  then have wf: "ctx_wf w ctx" by (simp add: plan_capacity_inv_def)
  let ?c = "cs_candidate sel" and ?ps = "commit_selection p sel ps"
  let ?x = "\<lparr>as_task_id = t, as_actor_id = rc_actor_id ?c, as_start_time = rc_start_time ?c\<rparr>"
  from commit_cases [OF wf 1(2,5)] obtain act ph where p: "p = make_pending w ph t"
    and act: "rc_actor_id ?c = a_id act" and el: "eligible_at ctx p act (rc_start_time ?c)"
    and fin: "rc_finish_time ?c = rc_start_time ?c + duration_of_task w t"
    and fits: "fits_capacity (umap_at_or (ps_reservations ps) (a_id act) []) (a_capacity act)
       (rc_start_time ?c) (rc_finish_time ?c) (demand_of_task w t)" by metis
  have asg: "ps_assignments ?ps = ps_assignments ps @ [?x]"
    using p by (simp add: commit_selection_def Let_def)
  have res: "reserved_demand (ps_reservations ?ps) a u =
      reserved_demand (ps_reservations ps) a u + (if runs_at w ?x a u then demand_of_task w t else 0)" for a u
    using p fin by (auto simp: commit_selection_def Let_def reserved_demand_push covers_def runs_at_def)
  have cap: "reserved_demand (ps_reservations ?ps) a u \<le> a_capacity act'"
    if "runs_at w ?x a u" "registry_get (pc_registry ctx) a = Some act'" for a u act'
  proof -
    from that act el have "act' = act" "a = a_id act" by (auto simp: runs_at_def eligible_at_def)
    with that fits fin res [of a u] show ?thesis
      by (auto simp: fits_capacity_def runs_at_def reserved_demand_def)
  qed
  show ?case
    unfolding plan_capacity_inv_def
  proof (intro conjI allI ballI impI)
    show "reserved_demand (ps_reservations ?ps) a u =
        reserved_demand m0 a u + planned_demand w (ps_assignments ?ps) a u" for a u
      using 1(1) by (simp add: res asg plan_capacity_inv_def)
  next
    fix x a u act'
    assume x: "x \<in> set (ps_assignments ?ps)" "runs_at w x a u" "registry_get (pc_registry ctx) a = Some act'"
    show "reserved_demand (ps_reservations ?ps) a u \<le> a_capacity act'"
    proof (cases "runs_at w ?x a u")
      case True
      with cap x(3) show ?thesis by blast
    next
      case False
      with x asg have "x \<in> set (ps_assignments ps)" by auto
      with x(2,3) 1(1) have "reserved_demand (ps_reservations ps) a u \<le> a_capacity act'"
        unfolding plan_capacity_inv_def by blast
      with False show ?thesis by (simp add: res)
    qed
  qed (fact wf)
next
  case (2 ps t p)
  then show ?case by (simp only: plan_capacity_inv_remaining)
qed

subsubsection \<open>Mutual exclusion\<close>

definition plan_mutex_inv :: "workflow \<Rightarrow> plan_ctx \<Rightarrow> task_id set \<Rightarrow> plan_state \<Rightarrow> bool" where
  "plan_mutex_inv w ctx B ps \<longleftrightarrow> ctx_wf w ctx \<and>
     set (ps_blocked ps) = B \<union> as_task_id ` set (ps_assignments ps) \<and>
     (\<forall>x\<in>set (ps_assignments ps). set (task_exclusions w (as_task_id x)) \<inter> B = {}) \<and>
     sorted_wrt (\<lambda>x y. as_task_id x \<notin> set (task_exclusions w (as_task_id y))) (ps_assignments ps)"

interpretation mutex_inv: plan_invariant ctx "plan_mutex_inv w ctx B" for w ctx B
proof (unfold_locales, goal_cases)
  case (1 ps t p sel)
  then have "ctx_wf w ctx" by (simp add: plan_mutex_inv_def)
  with 1(2) obtain ph where "p = make_pending w ph t" by (auto simp: ctx_wf_def)
  with 1(1,4) show ?case
    by (auto simp: plan_mutex_inv_def commit_selection_def Let_def mutex_conflict_make_pending
        sorted_wrt_append)
next
  case (2 ps t p)
  then show ?case by (simp add: plan_mutex_inv_def)
qed

subsubsection \<open>Maximality\<close>

text \<open>
  A task left out of the plan stays impossible: reservations only grow, so an actor that could
  not host it when it was tried cannot host it against the final reservations either.
\<close>

definition more_reserved :: "reservation_table \<Rightarrow> reservation_table \<Rightarrow> bool" where
  "more_reserved m m' \<longleftrightarrow> (\<forall>a t. reserved_demand m a t \<le> reserved_demand m' a t)"

lemma feasible_start_mono:
  assumes "feasible_start ws (umap_at_or m' a []) cap rel dur demand s" and "more_reserved m m'"
  shows "feasible_start ws (umap_at_or m a []) cap rel dur demand s"
proof -
  have "concurrent_demand_at (umap_at_or m a []) t \<le> concurrent_demand_at (umap_at_or m' a []) t" for t
    using assms(2) by (simp add: more_reserved_def reserved_demand_def)
  with assms(1) show ?thesis
    unfolding feasible_start_def fits_capacity_def by (meson add_right_mono order_trans)
qed

lemma earliest_start_mono:
  assumes "earliest_start act (umap_at_or m' a []) rel dur demand = Some s'" and "more_reserved m m'"
  shows "\<exists>s. earliest_start act (umap_at_or m a []) rel dur demand = Some s \<and> s \<le> s'"
proof (cases "0 < dur")
  case True
  with assms have f: "feasible_start (a_windows act) (umap_at_or m a []) (a_capacity act) rel dur demand s'"
    using feasible_start_mono by (auto simp: earliest_start_Some)
  with True obtain s where s: "earliest_start act (umap_at_or m a []) rel dur demand = Some s"
    by (metis earliest_start_None option.exhaust)
  with f True show ?thesis by (auto simp: earliest_start_Some)
next
  case False
  with assms(1) show ?thesis by (simp add: earliest_start_def)
qed

lemma candidate_for_actor_mono:
  assumes "candidate_for_actor ctx p m rel a = None" and "more_reserved m m'"
  shows "candidate_for_actor ctx p m' rel a = None"
proof (rule ccontr)
  assume "candidate_for_actor ctx p m' rel a \<noteq> None"
  then obtain act s' where act: "a \<notin> set (pc_unavailable ctx)" "registry_get (pc_registry ctx) a = Some act"
      "actor_is_allowed p act (pc_state ctx)"
    and s': "earliest_start act (umap_at_or m' a []) rel (ti_duration (pt_info p)) (ti_demand (pt_info p)) = Some s'"
    and g: "\<And>l. effective_latest_start_time p = Some l \<Longrightarrow> s' \<le> l"
      "\<And>d. ti_deadline (pt_info p) = Some d \<Longrightarrow> s' + ti_duration (pt_info p) \<le> d"
    by (auto simp: candidate_for_actor_def Let_def split: if_splits option.splits)
  from earliest_start_mono [OF s' assms(2)] obtain s where
    "earliest_start act (umap_at_or m a []) rel (ti_duration (pt_info p)) (ti_demand (pt_info p)) = Some s"
    "s \<le> s'" by blast
  with act g assms(1) show False
    by (fastforce simp: candidate_for_actor_def Let_def split: option.splits if_splits)
qed

definition unplaceable :: "plan_ctx \<Rightarrow> pending_task \<Rightarrow> plan_state \<Rightarrow> bool" where
  "unplaceable ctx p ps \<longleftrightarrow> mutex_conflict p (ps_blocked ps) \<or>
     (\<exists>rt. dependency_ready_time p (ps_completion ps) = Some rt \<and>
        (\<forall>a\<in>set (pc_actor_ids ctx).
           candidate_for_actor ctx p (ps_reservations ps) (earliest_release ctx p rt) a = None))"

lemma latest_completion_update:
  "latest_completion ct r ds = Some rt \<Longrightarrow> map_of ct t = None \<Longrightarrow>
     latest_completion (AList.update t c ct) r ds = Some rt"
  by (induction ct r ds rule: latest_completion.induct) (auto split: option.splits)

lemma unplaceable_commit:
  assumes "unplaceable ctx p ps" and "map_of (ps_completion ps) (pt_id q) = None"
    and "0 \<le> ti_demand (pt_info q)"
  shows "unplaceable ctx p (commit_selection q sel ps)"
proof -
  let ?ps = "commit_selection q sel ps"
  have grow: "more_reserved (ps_reservations ps) (ps_reservations ?ps)"
    using assms(3) by (simp add: more_reserved_def commit_selection_def Let_def reserved_demand_push)
  have "mutex_conflict p (ps_blocked ps) \<Longrightarrow> mutex_conflict p (ps_blocked ?ps)"
    by (auto simp: mutex_conflict_def commit_selection_def Let_def list_ex_iff split: option.splits)
  moreover have "dependency_ready_time p (ps_completion ps) = Some rt \<Longrightarrow>
      dependency_ready_time p (ps_completion ?ps) = Some rt" for rt
    using assms(2) by (auto simp: dependency_ready_time_def commit_selection_def Let_def
        latest_completion_update split: option.splits)
  ultimately show ?thesis
    using assms(1) candidate_for_actor_mono [OF _ grow] unfolding unplaceable_def by blast
qed

definition plan_maximal_inv :: "workflow \<Rightarrow> plan_ctx \<Rightarrow> plan_state \<Rightarrow> bool" where
  "plan_maximal_inv w ctx ps \<longleftrightarrow> ctx_wf w ctx \<and> (\<forall>t. 0 \<le> demand_of_task w t) \<and>
     (\<forall>t\<in>set (ps_remaining ps). map_of (ps_completion ps) t = None) \<and>
     (\<forall>t p. map_of (pc_pending ctx) t = Some p \<longrightarrow>
        t \<in> set (ps_remaining ps) \<or> t \<in> as_task_id ` set (ps_assignments ps) \<or> unplaceable ctx p ps)"

lemma unplaceable_remaining [simp]:
  "unplaceable ctx p (ps\<lparr>ps_remaining := r\<rparr>) = unplaceable ctx p ps"
  by (simp add: unplaceable_def)

interpretation maximal_inv: plan_invariant ctx "plan_maximal_inv w ctx" for w ctx
proof (unfold_locales, goal_cases)
  case (1 ps t p sel)
  then have wf: "ctx_wf w ctx" and dem: "\<And>t. 0 \<le> demand_of_task w t"
    by (simp_all add: plan_maximal_inv_def)
  from wf 1(2) obtain ph where p: "p = make_pending w ph t" by (auto simp: ctx_wf_def)
  from 1(1,3) have "map_of (ps_completion ps) (pt_id p) = None" by (simp add: plan_maximal_inv_def)
  with dem have keep: "unplaceable ctx q ps \<Longrightarrow> unplaceable ctx q (commit_selection p sel ps)" for q
    using p by (auto intro: unplaceable_commit)
  have sets: "set (ps_remaining (commit_selection p sel ps)) = set (ps_remaining ps) - {t}"
    "as_task_id ` set (ps_assignments (commit_selection p sel ps)) =
       insert t (as_task_id ` set (ps_assignments ps))"
    "ps_completion (commit_selection p sel ps) =
       AList.update t (rc_finish_time (cs_candidate sel)) (ps_completion ps)"
    using p by (simp_all add: commit_selection_def Let_def)
  show ?case
    using 1(1) keep unfolding plan_maximal_inv_def sets by simp blast
next
  case (2 ps t p)
  then have wf: "ctx_wf w ctx" by (simp add: plan_maximal_inv_def)
  with 2(2) obtain ph where p: "p = make_pending w ph t" by (auto simp: ctx_wf_def)
  from 2(4,5) have "unplaceable ctx p ps"
    using select_best_candidate_None [of ctx p] unfolding unplaceable_def by blast
  with 2(1,2) p show ?case by (auto simp: plan_maximal_inv_def)
qed

subsection \<open>Guarantees of a plan\<close>

definition plan_run ::
  "runtime_env \<Rightarrow> workflow \<Rightarrow> workflow_state \<Rightarrow> actor_registry \<Rightarrow> time \<Rightarrow> strategy option
     \<Rightarrow> ranking_profile option \<Rightarrow> plan_state" where
  "plan_run env w st reg now strategy profile =
     plan_loop (initial_plan_ctx env st reg now strategy profile (collect_pending_tasks w st))
       (initial_plan_state env w st reg now (collect_pending_tasks w st))"

lemma plan_assignments_run:
  "sr_assignments (plan env w st reg now strategy profile) \<noteq> [] \<Longrightarrow>
     mset (sr_assignments (plan env w st reg now strategy profile)) =
       mset (ps_assignments (plan_run env w st reg now strategy profile))"
  by (auto simp: plan_def plan_run_def Let_def empty_schedule_result_def split: option.splits if_splits)

lemma set_plan_assignments:
  "x \<in> set (sr_assignments (plan env w st reg now strategy profile)) \<Longrightarrow>
     set (sr_assignments (plan env w st reg now strategy profile)) =
       set (ps_assignments (plan_run env w st reg now strategy profile))"
  by (metis plan_assignments_run empty_iff empty_set set_mset_mset)

lemmas initial_plan_defs = initial_plan_ctx_def initial_plan_state_def

lemma plan_run_tasks:
  assumes "registry_wf reg"
  shows "plan_tasks_inv w (initial_plan_ctx env st reg now strategy profile (collect_pending_tasks w st))
    (plan_run env w st reg now strategy profile)"
  unfolding plan_run_def
  by (rule tasks_inv.inv_plan_loop)
     (use ctx_wf_initial [OF assms] in \<open>simp add: plan_tasks_inv_def initial_plan_state_def\<close>)

lemma plan_run_deps:
  assumes "registry_wf reg"
  shows "plan_deps_inv w (initial_plan_ctx env st reg now strategy profile (collect_pending_tasks w st))
    (initialize_completion_times w st now) (plan_run env w st reg now strategy profile)"
  unfolding plan_run_def
  by (rule deps_inv.inv_plan_loop)
     (use ctx_wf_initial [OF assms] in \<open>simp add: plan_deps_inv_def initial_plan_state_def\<close>)

lemma plan_run_capacity:
  assumes "registry_wf reg"
  shows "plan_capacity_inv w (initial_plan_ctx env st reg now strategy profile (collect_pending_tasks w st))
    (initialize_actor_reservations w reg (actor_ids reg) st now)
    (plan_run env w st reg now strategy profile)"
  unfolding plan_run_def
  by (rule capacity_inv.inv_plan_loop)
     (use ctx_wf_initial [OF assms] in
       \<open>simp add: plan_capacity_inv_def initial_plan_state_def planned_demand_def\<close>)

lemma plan_run_mutex:
  assumes "registry_wf reg"
  shows "plan_mutex_inv w (initial_plan_ctx env st reg now strategy profile (collect_pending_tasks w st))
    (set (completed_tasks st) \<union> set (assigned_tasks st)) (plan_run env w st reg now strategy profile)"
  unfolding plan_run_def
  by (rule mutex_inv.inv_plan_loop)
     (use ctx_wf_initial [OF assms] in \<open>simp add: plan_mutex_inv_def initial_plan_state_def\<close>)

lemma pending_of_table:
  "map_of (pc_pending (initial_plan_ctx env st reg now strategy profile (collect_pending_tasks w st))) t
     = Some p \<Longrightarrow> p \<in> set (collect_pending_tasks w st) \<and> pt_id p = t"
  by (auto simp: initial_plan_ctx_def dest!: pending_table_mem)

lemma plan_assignment_pending:
  assumes "registry_wf reg" and "x \<in> set (sr_assignments (plan env w st reg now strategy profile))"
  obtains p act where "p \<in> set (collect_pending_tasks w st)" and "pt_id p = as_task_id x"
    and "as_actor_id x = a_id act"
    and "eligible_at (initial_plan_ctx env st reg now strategy profile (collect_pending_tasks w st))
           p act (as_start_time x)"
proof -
  from plan_run_tasks [OF assms(1)] set_plan_assignments [OF assms(2)] assms(2)
  obtain p act where "map_of (pc_pending (initial_plan_ctx env st reg now strategy profile
        (collect_pending_tasks w st))) (as_task_id x) = Some p" and "as_actor_id x = a_id act"
    and "eligible_at (initial_plan_ctx env st reg now strategy profile (collect_pending_tasks w st))
           p act (as_start_time x)"
    unfolding plan_tasks_inv_def by metis
  then show thesis using pending_of_table that by metis
qed

text \<open>
  The start time the scheduler picks on an actor is the least feasible one: the execution lies
  inside one availability window, starts no earlier than the release time, and at every instant
  of it the concurrent demand plus the task's demand stays within the actor's capacity; and no
  start is picked only when none is feasible. The windows may be given in any order.
\<close>

theorem earliest_start_is_least:
  assumes "0 < dur"
  shows "case earliest_start a rs rel dur demand of
      Some s \<Rightarrow> feasible_start (a_windows a) rs (a_capacity a) rel dur demand s \<and>
        (\<forall>s'. feasible_start (a_windows a) rs (a_capacity a) rel dur demand s' \<longrightarrow> s \<le> s')
    | None \<Rightarrow> (\<forall>s. \<not> feasible_start (a_windows a) rs (a_capacity a) rel dur demand s)"
  using earliest_start_Some [OF assms] earliest_start_None [OF assms]
  by (simp split: option.split)

text \<open>
  The chosen actor is the best one: among the candidates of all registered actors the selected
  one has the least ranking key (the profile's criteria in order, then the actor id), and
  nothing is selected only when no actor offers a candidate.
\<close>

theorem select_best_candidate_minimal:
  assumes "dependency_ready_time p ct = Some rt"
  shows "case select_best_candidate ctx p rs ct of
      Some sel \<Rightarrow> \<forall>a\<in>set (pc_actor_ids ctx). \<forall>c.
        candidate_for_actor ctx p rs (earliest_release ctx p rt) a = Some c \<longrightarrow>
        rank_key (pc_profile ctx) (cs_candidate sel) \<le> rank_key (pc_profile ctx) c
    | None \<Rightarrow> \<forall>a\<in>set (pc_actor_ids ctx).
        candidate_for_actor ctx p rs (earliest_release ctx p rt) a = None"
  using select_best_candidate_best [OF assms, of ctx rs]
  by (auto simp: best_of_def split: option.splits)

text \<open>What a task demands of its actor: allowed ids and types, required capabilities, capacity.\<close>

definition actor_suits :: "pending_task \<Rightarrow> actor \<Rightarrow> workflow_state \<Rightarrow> bool" where
  "actor_suits p act st \<longleftrightarrow>
     (\<forall>xs. effective_allowed_actors p st = Some xs \<longrightarrow> xs = [] \<or> a_id act \<in> set xs) \<and>
     (\<forall>pr. pt_process p = Some pr \<longrightarrow> (p_allowed_actor_types pr = [] \<or> a_type act \<in> set (p_allowed_actor_types pr)) \<and>
        set (p_required_capabilities pr) \<subseteq> set (a_capabilities act)) \<and>
     ti_demand (pt_info p) \<le> a_capacity act"

lemma allowed_actor_suits: "actor_is_allowed p act st \<Longrightarrow> actor_suits p act st"
  by (auto simp: actor_suits_def actor_is_allowed_def actor_matches_type_constraints_def
      actor_supports_required_capabilities_def list_all_iff split: option.splits if_splits)

definition assignment_sound ::
  "workflow \<Rightarrow> workflow_state \<Rightarrow> actor_registry \<Rightarrow> time \<Rightarrow> assignment \<Rightarrow> bool" where
  "assignment_sound w st reg now x \<longleftrightarrow>
     (\<exists>p act. p \<in> set (collect_pending_tasks w st) \<and> pt_id p = as_task_id x \<and>
        registry_get reg (as_actor_id x) = Some act \<and>
        as_actor_id x \<notin> set (unavailable_actors st) \<and> actor_suits p act st \<and>
        now \<le> as_start_time x \<and> effective_release_time p st \<le> as_start_time x \<and>
        (\<forall>l. effective_latest_start_time p = Some l \<longrightarrow> as_start_time x \<le> l) \<and>
        (\<forall>d. ti_deadline (pt_info p) = Some d \<longrightarrow> as_start_time x + ti_duration (pt_info p) \<le> d) \<and>
        (0 < ti_duration (pt_info p) \<longrightarrow>
           (\<exists>v\<in>set (a_windows act). win_start v \<le> as_start_time x \<and>
              as_start_time x + ti_duration (pt_info p) \<le> win_end v)))"

text \<open>
  C2. Every planned assignment is sound: the task belongs to a ready phase, is not completed, not
  blocked and not already assigned (unless resumable), no task is planned twice, the actor is
  registered, available and suits the task (allowed id and type, capabilities, capacity), and the start respects the clock, the release
  time, the latest start, the deadline and (for a positive duration) an availability window.
\<close>

theorem plan_assignments_sound:
  assumes "registry_wf reg"
  shows "distinct (map as_task_id (sr_assignments (plan env w st reg now strategy profile))) \<and>
    (\<forall>x\<in>set (sr_assignments (plan env w st reg now strategy profile)). assignment_sound w st reg now x)"
proof
  let ?xs = "sr_assignments (plan env w st reg now strategy profile)"
  show "distinct (map as_task_id ?xs)"
  proof (cases "?xs = []")
    case False
    from plan_assignments_run [OF this] plan_run_tasks [OF assms] show ?thesis
      unfolding plan_tasks_inv_def by (metis mset_map mset_eq_imp_distinct_iff)
  qed simp
  show "\<forall>x\<in>set ?xs. assignment_sound w st reg now x"
  proof
    fix x assume "x \<in> set ?xs"
    from plan_assignment_pending [OF assms this] show "assignment_sound w st reg now x"
      by (simp add: assignment_sound_def eligible_at_def initial_plan_ctx_def) (metis allowed_actor_suits)
  qed
qed

text \<open>
  C1. Capacity is never exceeded: while a planned task runs on an actor, the demand of the
  reservations the planning pass started from plus the demand of all planned tasks that run
  there at that instant is at most the actor's capacity.
\<close>

theorem plan_respects_capacity:
  assumes "registry_wf reg" and "registry_get reg a = Some act"
    and "x \<in> set (sr_assignments (plan env w st reg now strategy profile))" and "runs_at w x a t"
  shows "reserved_demand (initialize_actor_reservations w reg (actor_ids reg) st now) a t +
     planned_demand w (sr_assignments (plan env w st reg now strategy profile)) a t \<le> a_capacity act"
proof -
  let ?xs = "sr_assignments (plan env w st reg now strategy profile)"
  let ?ps = "plan_run env w st reg now strategy profile"
  note inv = plan_run_capacity [OF assms(1), of w env st now strategy profile]
  have ms: "mset ?xs = mset (ps_assignments ?ps)"
    using assms(3) by (intro plan_assignments_run) auto
  then have x: "x \<in> set (ps_assignments ?ps)" using assms(3) by (metis set_mset_mset)
  have "planned_demand w ?xs a t = planned_demand w (ps_assignments ?ps) a t"
    by (simp only: planned_demand_mset ms)
  with plan_capacity_invD(2) [OF inv x assms(4)] plan_capacity_invD(1) [OF inv, of a t] assms(2)
  show ?thesis by (simp add: initial_plan_ctx_def)
qed

text \<open>
  C3. Dependencies are respected: a planned task starts no earlier than the completion of each of
  its dependencies, which is either planned in the same pass (completing at its start plus its
  duration) or was completed or assigned before the pass (completing at the time the pass
  started from).
\<close>

theorem plan_respects_dependencies:
  assumes "registry_wf reg" and "x \<in> set (sr_assignments (plan env w st reg now strategy profile))"
    and "d \<in> set (task_deps w (as_task_id x))"
  shows "\<exists>c. c \<le> as_start_time x \<and>
     (map_of (initialize_completion_times w st now) d = Some c \<or>
      finishes w (sr_assignments (plan env w st reg now strategy profile)) d c)"
proof -
  note inv = plan_run_deps [OF assms(1), of w env st now strategy profile, unfolded plan_deps_inv_def]
  note sets = set_plan_assignments [OF assms(2)]
  have fin: "finishes w (sr_assignments (plan env w st reg now strategy profile)) =
      finishes w (ps_assignments (plan_run env w st reg now strategy profile))"
    by (intro ext) (simp only: finishes_def sets)
  have "x \<in> set (ps_assignments (plan_run env w st reg now strategy profile))"
    using assms(2) sets by simp
  from bspec [OF bspec [OF conjunct2 [OF conjunct2 [OF inv]] this] assms(3)]
  show ?thesis unfolding fin .
qed

text \<open>
  C5. Mutual exclusion: no planned task excludes a task that is completed or assigned, and of two
  planned tasks that exclude each other only one is planned.
\<close>

theorem plan_respects_exclusion:
  assumes "registry_wf reg" and "x \<in> set (sr_assignments (plan env w st reg now strategy profile))"
  shows "set (task_exclusions w (as_task_id x)) \<inter> (set (completed_tasks st) \<union> set (assigned_tasks st)) = {}
    \<and> (\<forall>y\<in>set (sr_assignments (plan env w st reg now strategy profile)).
         as_task_id y \<in> set (task_exclusions w (as_task_id x)) \<longrightarrow>
         as_task_id x \<in> set (task_exclusions w (as_task_id y)) \<longrightarrow> x = y)"
proof -
  let ?ps = "plan_run env w st reg now strategy profile"
  note inv = plan_run_mutex [OF assms(1), of w env st now strategy profile, unfolded plan_mutex_inv_def]
  note sets = set_plan_assignments [OF assms(2)]
  have pairs: "u = v \<or> as_task_id u \<notin> set (task_exclusions w (as_task_id v))
      \<or> as_task_id v \<notin> set (task_exclusions w (as_task_id u))"
    if "u \<in> set xs" "v \<in> set xs"
      "sorted_wrt (\<lambda>x y. as_task_id x \<notin> set (task_exclusions w (as_task_id y))) xs" for u v xs
    using that by (induction xs) auto
  from inv have srt: "sorted_wrt (\<lambda>x y. as_task_id x \<notin> set (task_exclusions w (as_task_id y)))
      (ps_assignments ?ps)"
    and old: "\<forall>x\<in>set (ps_assignments ?ps). set (task_exclusions w (as_task_id x)) \<inter>
      (set (completed_tasks st) \<union> set (assigned_tasks st)) = {}" by blast+
  have x: "x \<in> set (ps_assignments ?ps)" using assms(2) sets by simp
  show ?thesis
    unfolding sets using old x pairs [OF x _ srt] by (intro conjI ballI impI) metis+
qed

end
