(* ===== verification/Scheduler_Loop.thy ===== *)
theory Scheduler_Loop
  imports Scheduler_Correct
begin

text \<open>
  Properties of whole planning runs: the loop stops only when no remaining task is ready, so
  a plan is maximal; the rank table is total on the ready tasks; a plan does not depend on the
  iteration order of the unordered sets when the strategy separates tasks; the error path.
\<close>

subsection \<open>The loop stops only when no remaining task is ready\<close>

lemma plan_ready_task_no_progress:
  "plan_ready_task ctx p (ps, pr) = (ps', False) \<Longrightarrow>
     \<not> pr \<and> ps_completion ps' = ps_completion ps \<and> ps_blocked ps' = ps_blocked ps \<and>
     set (ps_remaining ps') = set (ps_remaining ps) - {pt_id p}"
  by (auto simp: plan_ready_task_def split: if_splits option.splits)

lemma plan_round_no_progress:
  "fold (plan_ready_task ctx) ready (ps, pr) = (ps', False) \<Longrightarrow>
     \<not> pr \<and> ps_completion ps' = ps_completion ps \<and> ps_blocked ps' = ps_blocked ps \<and>
     set (ps_remaining ps') = set (ps_remaining ps) - pt_id ` set ready"
proof (induction ready arbitrary: ps pr)
  case Nil
  then show ?case by simp
next
  case (Cons p ready)
  obtain ps1 pr1 where step: "plan_ready_task ctx p (ps, pr) = (ps1, pr1)" by force
  with Cons.prems have "fold (plan_ready_task ctx) ready (ps1, pr1) = (ps', False)" by simp
  from Cons.IH [OF this] plan_ready_task_no_progress [of ctx p ps pr ps1] step show ?case
    by (cases pr1) auto
qed

lemma set_collect_ready_tasks:
  "p \<in> set (collect_ready_tasks rem pending ct blocked strategy) \<longleftrightarrow>
     (\<exists>t\<in>set rem. map_of pending t = Some p) \<and> task_is_ready ct blocked p"
  by (auto simp: collect_ready_tasks_def order_ready_tasks_def Let_def mem_map_filter)

definition exhausted :: "plan_ctx \<Rightarrow> plan_state \<Rightarrow> bool" where
  "exhausted ctx ps \<longleftrightarrow> (\<forall>t p. t \<in> set (ps_remaining ps) \<longrightarrow> map_of (pc_pending ctx) t = Some p \<longrightarrow>
     \<not> task_is_ready (ps_completion ps) (ps_blocked ps) p)"

lemma plan_loop_unfold:
  assumes "ready = collect_ready_tasks (ps_remaining ps) (pc_pending ctx) (ps_completion ps)
      (ps_blocked ps) (pc_strategy ctx)"
    and "plan_round ctx ready ps = (ps', progress)"
  shows "plan_loop ctx ps =
    (if ps_remaining ps = [] \<or> ready = [] then ps else if progress then plan_loop ctx ps' else ps')"
  using assms(2) by (subst plan_loop.simps) (simp add: Let_def flip: assms(1))

lemma plan_loop_exhausted:
  assumes "ctx_wf w ctx"
  shows "exhausted ctx (plan_loop ctx ps)"
  using assms
proof (induction ctx ps rule: plan_loop.induct)
  case (1 ctx ps)
  define ready where "ready = collect_ready_tasks (ps_remaining ps) (pc_pending ctx) (ps_completion ps)
    (ps_blocked ps) (pc_strategy ctx)"
  obtain ps' progress where round: "plan_round ctx ready ps = (ps', progress)" by force
  have key: "pt_id p = t" if "map_of (pc_pending ctx) t = Some p" for t p
    using "1.prems" that unfolding ctx_wf_def by (metis make_pending_simps(1))
  have mem: "p \<in> set ready" if "t \<in> set (ps_remaining ps)" "map_of (pc_pending ctx) t = Some p"
    "task_is_ready (ps_completion ps) (ps_blocked ps) p" for t p
    using that unfolding ready_def set_collect_ready_tasks by blast
  consider "ps_remaining ps = [] \<or> ready = []" | "ps_remaining ps \<noteq> []" "ready \<noteq> []" "progress"
    | "ps_remaining ps \<noteq> []" "ready \<noteq> []" "\<not> progress" by blast
  then show ?case
  proof cases
    case 1
    with mem have "exhausted ctx ps" unfolding exhausted_def by (metis empty_iff empty_set)
    then show ?thesis using 1 by (simp add: plan_loop_unfold [OF ready_def round])
  next
    case 2
    with "1.IH" [OF 2(1) ready_def 2(2) round [symmetric]] "1.prems" show ?thesis
      by (simp add: plan_loop_unfold [OF ready_def round])
  next
    case 3
    from plan_round_no_progress [of ctx ready ps False ps'] round 3(3)
    have "ps_completion ps' = ps_completion ps" "ps_blocked ps' = ps_blocked ps"
      "set (ps_remaining ps') = set (ps_remaining ps) - pt_id ` set ready"
      by (simp_all add: plan_round_def)
    then have "exhausted ctx ps'"
      using mem key unfolding exhausted_def by (metis DiffE imageI)
    then show ?thesis using 3 by (simp add: plan_loop_unfold [OF ready_def round])
  qed
qed

lemma plan_run_maximal:
  assumes "registry_wf reg" and "env_ok env" and "\<And>t. 0 \<le> demand_of_task w t"
    and "set (resumable_tasks st) \<inter> set (assigned_tasks st) = {}"
  shows "plan_maximal_inv w (initial_plan_ctx env st reg now strategy profile (collect_pending_tasks w st))
    (plan_run env w st reg now strategy profile)"
  unfolding plan_run_def
proof (rule maximal_inv.inv_plan_loop)
  let ?ps = "initial_plan_state env w st reg now (collect_pending_tasks w st)"
  let ?ctx = "initial_plan_ctx env st reg now strategy profile (collect_pending_tasks w st)"
  have rem: "set (ps_remaining ?ps) = pt_id ` set (collect_pending_tasks w st)"
    using assms(2) by (simp add: initial_plan_state_def env_ok_def)
  have "map_of (ps_completion ?ps) t = None" if "t \<in> set (ps_remaining ?ps)" for t
  proof -
    from that rem have "t \<notin> set (completed_tasks st) \<and> t \<notin> set (assigned_tasks st)"
      using assms(4) by (auto dest!: collect_pending_tasks_mem)
    moreover have "map_of (fold (\<lambda>t. AList.update t (f t)) ts m) t = map_of m t"
      if "t \<notin> set ts" for f :: "task_id \<Rightarrow> time" and ts m
      using that by (induction ts arbitrary: m) auto
    ultimately show ?thesis
      by (simp add: initial_plan_state_def initialize_completion_times_def)
  qed
  moreover have "t \<in> set (ps_remaining ?ps)" if "map_of (pc_pending ?ctx) t = Some p" for t p
    using that rem by (auto dest!: pending_of_table)
  ultimately show "plan_maximal_inv w ?ctx ?ps"
    using ctx_wf_initial [OF assms(1)] assms(3) unfolding plan_maximal_inv_def by blast
qed

text \<open>
  C4. Plans are maximal: a pending task that the pass leaves unplanned excludes a blocked task, or
  waits for a dependency that is neither complete nor planned, or no registered actor can host
  it within its windows, deadlines and capacity against the final reservations.
\<close>

theorem plan_is_maximal:
  assumes "registry_wf reg" and "env_ok env" and "\<And>t. 0 \<le> demand_of_task w t"
    and "set (resumable_tasks st) \<inter> set (assigned_tasks st) = {}"
    and "validate_supported_tasks (collect_pending_tasks w st) = None"
    and "p \<in> set (collect_pending_tasks w st)"
    and "pt_id p \<notin> as_task_id ` set (sr_assignments (plan env w st reg now strategy profile))"
  defines "ctx \<equiv> initial_plan_ctx env st reg now strategy profile (collect_pending_tasks w st)"
    and "fin \<equiv> plan_run env w st reg now strategy profile"
  shows "\<exists>q. pt_id q = pt_id p \<and> q \<in> set (collect_pending_tasks w st) \<and>
    (mutex_conflict q (ps_blocked fin) \<or> dependency_ready_time q (ps_completion fin) = None \<or>
     (\<exists>rt. dependency_ready_time q (ps_completion fin) = Some rt \<and>
        (\<forall>a\<in>dom (map_of reg). candidate_for_actor ctx q (ps_reservations fin)
           (earliest_release ctx q rt) a = None)))"
proof -
  have wf: "ctx_wf w ctx" using assms(1) by (simp add: ctx_def ctx_wf_initial)
  have "pt_id p \<in> dom (map_of (pc_pending ctx))"
    using assms(6) by (simp add: ctx_def initial_plan_ctx_def pending_table_dom)
  then obtain q where q: "map_of (pc_pending ctx) (pt_id p) = Some q" by blast
  have "sr_assignments (plan env w st reg now strategy profile) =
      sort_key (\<lambda>a. (as_start_time a, as_task_id a, as_actor_id a)) (ps_assignments fin)"
    using assms(5,6) by (auto simp: plan_def Let_def fin_def plan_run_def)
  then have not_planned: "pt_id p \<notin> as_task_id ` set (ps_assignments fin)"
    using assms(7) by simp
  have "\<not> task_is_ready (ps_completion fin) (ps_blocked fin) q \<or> unplaceable ctx q fin"
    using plan_loop_exhausted [OF wf] plan_run_maximal [OF assms(1-4), of now strategy profile]
      q not_planned
    unfolding plan_maximal_inv_def exhausted_def fin_def plan_run_def ctx_def by blast
  moreover have "set (pc_actor_ids ctx) = dom (map_of reg)"
    by (simp add: ctx_def initial_plan_ctx_def)
  ultimately show ?thesis
    using pending_of_table q unfolding unplaceable_def task_is_ready_def ctx_def by metis
qed

subsection \<open>The rank table\<close>

text \<open>
  \<^verbatim>\<open>order_by_task_id.at\<close> does not throw: a strategy returns exactly the tasks it was given, so
  every ready task has a rank.
\<close>

lemma rank_table_dom: "fst ` set (rank_table infos) = ti_id ` set infos"
proof -
  have "fst ` set (fold (\<lambda>(i, info). umap_emplace (ti_id info) i) ys m) =
      fst ` set m \<union> ti_id ` snd ` set ys" for ys :: "(nat \<times> task_info) list" and m :: "(task_id, nat) umap"
    by (induction ys arbitrary: m) (simp_all add: case_prod_beta)
  moreover have "snd ` set (enumerate 0 infos) = set infos"
    by (metis list.set_map map_snd_enumerate)
  ultimately show ?thesis by (simp add: rank_table_def)
qed

lemma task_rank_defined:
  assumes "scheduling_strategy f" and "p \<in> set ready"
  shows "umap_contains (rank_table (f (map pt_info ready))) (pt_id p)"
  using assms by (simp add: umap_contains_keys rank_table_dom scheduling_strategy.set_order_tasks)

subsection \<open>Independence of the iteration order\<close>

lemma order_ready_tasks_perm:
  assumes "deterministic_strategy f" and "mset xs = mset ys" and "distinct (map pt_id xs)"
  shows "order_ready_tasks (Some f) xs = order_ready_tasks (Some f) ys"
proof -
  have "distinct (map pt_id ys)"
    using assms(2,3) by (metis mset_map mset_eq_imp_distinct_iff)
  then have "f (map pt_info xs) = f (map pt_info ys)"
    using assms(2) by (intro deterministic_strategy.order_unique [OF assms(1)]) (simp_all add: o_def)
  then have rank: "apply_strategy (Some f) (map pt_info xs) = apply_strategy (Some f) (map pt_info ys)"
    by (simp add: apply_strategy_def)
  have inj: "inj_on (\<lambda>p. (umap_at_or m (pt_id p) 0, pt_id p)) (set xs)" for m :: "(task_id, nat) umap"
    using assms(3) by (auto simp: distinct_map inj_on_def)
  have "sort_key k xs = sort_key k ys" if "inj_on k (set xs)"
    for k :: "pending_task \<Rightarrow> nat \<times> task_id"
    by (rule sort_key_inj_key_eq) (use assms(2) that in simp_all)
  from this [OF inj] show ?thesis unfolding order_ready_tasks_def Let_def rank .
qed

lemma collect_ready_tasks_perm:
  assumes "deterministic_strategy f" and "ctx_wf w ctx" and "mset r = mset r'" and "distinct r"
  shows "collect_ready_tasks r (pc_pending ctx) ct blocked (Some f) =
    collect_ready_tasks r' (pc_pending ctx) ct blocked (Some f)"
  unfolding collect_ready_tasks_def
proof (rule order_ready_tasks_perm [OF assms(1)])
  show "mset (filter (task_is_ready ct blocked) (List.map_filter (map_of (pc_pending ctx)) r)) =
      mset (filter (task_is_ready ct blocked) (List.map_filter (map_of (pc_pending ctx)) r'))"
    by (simp add: mset_map_filter [OF assms(3), of "map_of (pc_pending ctx)"])
  have key: "pt_id p = t" if "map_of (pc_pending ctx) t = Some p" for t p
    using assms(2) that unfolding ctx_wf_def by (metis make_pending_simps(1))
  have "distinct (map pt_id (List.map_filter (map_of (pc_pending ctx)) r))"
    using assms(4) key by (rule distinct_map_filter)
  then show "distinct (map pt_id (filter (task_is_ready ct blocked)
      (List.map_filter (map_of (pc_pending ctx)) r)))"
    by (simp add: distinct_map_filter distinct_map inj_on_def)
qed

text \<open>Planning states that differ only in the iteration order of the remaining set.\<close>

definition ps_similar :: "plan_state \<Rightarrow> plan_state \<Rightarrow> bool" where
  "ps_similar ps ps' \<longleftrightarrow> (\<exists>r'. ps' = ps\<lparr>ps_remaining := r'\<rparr> \<and> distinct (ps_remaining ps) \<and>
     mset (ps_remaining ps) = mset r')"

lemma mset_removeAll: "mset (removeAll x xs) = filter_mset (\<lambda>y. y \<noteq> x) (mset xs)"
  by (induction xs) auto

lemma commit_selection_remaining:
  "commit_selection p sel (ps\<lparr>ps_remaining := r\<rparr>) =
     (commit_selection p sel ps)\<lparr>ps_remaining := erase_value r (pt_id p)\<rparr>"
  by (simp add: commit_selection_def Let_def)

lemma plan_ready_task_similar:
  assumes "ps_similar ps ps'"
  shows "ps_similar (fst (plan_ready_task ctx p (ps, pr))) (fst (plan_ready_task ctx p (ps', pr))) \<and>
    snd (plan_ready_task ctx p (ps, pr)) = snd (plan_ready_task ctx p (ps', pr))"
proof -
  from assms obtain r' where ps': "ps' = ps\<lparr>ps_remaining := r'\<rparr>" and d: "distinct (ps_remaining ps)"
    and m: "mset (ps_remaining ps) = mset r'" by (auto simp: ps_similar_def)
  have set: "set r' = set (ps_remaining ps)" using m by (metis set_mset_mset)
  have er: "mset (erase_value (ps_remaining ps) v) = mset (erase_value r' v)" for v
    by (simp add: mset_removeAll m)
  have rem: "ps_remaining (commit_selection p sel ps) = erase_value (ps_remaining ps) (pt_id p)" for sel
    by (simp add: commit_selection_def Let_def)
  consider "pt_id p \<notin> set r'" | "pt_id p \<in> set r'" "mutex_conflict p (ps_blocked ps) \<or>
      select_best_candidate ctx p (ps_reservations ps) (ps_completion ps) = None"
    | sel where "pt_id p \<in> set r'" "\<not> mutex_conflict p (ps_blocked ps)"
      "select_best_candidate ctx p (ps_reservations ps) (ps_completion ps) = Some sel"
    by (cases "select_best_candidate ctx p (ps_reservations ps) (ps_completion ps)") auto
  then show ?thesis
  proof cases
    case 1
    then show ?thesis using assms by (simp add: plan_ready_task_def ps' set)
  next
    case 2
    then show ?thesis
      using d er by (auto simp: plan_ready_task_def ps' set ps_similar_def distinct_removeAll)
  next
    case (3 sel)
    then show ?thesis
      using d er by (simp add: plan_ready_task_def ps' set ps_similar_def distinct_removeAll
          commit_selection_remaining rem) metis
  qed
qed

lemma plan_round_similar:
  "ps_similar ps ps' \<Longrightarrow>
   ps_similar (fst (fold (plan_ready_task ctx) ready (ps, pr))) (fst (fold (plan_ready_task ctx) ready (ps', pr))) \<and>
    snd (fold (plan_ready_task ctx) ready (ps, pr)) = snd (fold (plan_ready_task ctx) ready (ps', pr))"
proof (induction ready arbitrary: ps ps' pr)
  case Nil
  then show ?case by simp
next
  case (Cons p ready)
  obtain q s where q: "plan_ready_task ctx p (ps, pr) = (q, s)" by force
  obtain q' s' where q': "plan_ready_task ctx p (ps', pr) = (q', s')" by force
  from plan_ready_task_similar [OF Cons.prems, of ctx p pr] q q' have "ps_similar q q'" "s = s'" by auto
  with Cons.IH q q' show ?case by simp
qed

lemma plan_loop_similar:
  assumes "deterministic_strategy f" and "ctx_wf w ctx" and "pc_strategy ctx = Some f"
    and "ps_similar ps ps'"
  shows "ps_similar (plan_loop ctx ps) (plan_loop ctx ps')"
  using assms(2-4)
proof (induction ctx ps arbitrary: ps' rule: plan_loop.induct)
  case (1 ctx ps ps')
  obtain r' where ps': "ps' = ps\<lparr>ps_remaining := r'\<rparr>" and sim: "distinct (ps_remaining ps)"
    "mset (ps_remaining ps) = mset r'" using "1.prems"(3) by (auto simp: ps_similar_def)
  let ?ready = "collect_ready_tasks (ps_remaining ps) (pc_pending ctx) (ps_completion ps)
    (ps_blocked ps) (pc_strategy ctx)"
  have ready: "collect_ready_tasks (ps_remaining ps') (pc_pending ctx) (ps_completion ps')
      (ps_blocked ps') (pc_strategy ctx) = ?ready"
    using collect_ready_tasks_perm [OF assms(1) "1.prems"(1) sim(2,1)] "1.prems"(2) ps' by simp
  obtain q progress where r: "plan_round ctx ?ready ps = (q, progress)" by force
  obtain q' progress' where r'': "plan_round ctx ?ready ps' = (q', progress')" by force
  from plan_round_similar [OF "1.prems"(3), of ctx ?ready False] r r''
  have "progress' = progress" "ps_similar q q'" by (simp_all add: plan_round_def)
  with r'' have r': "plan_round ctx ?ready ps' = (q', progress)" and "ps_similar q q'" by simp_all
  then have step: "ps_similar (if \<not> progress then q else plan_loop ctx q)
      (if \<not> progress then q' else plan_loop ctx q')"
    if "ps_remaining ps \<noteq> []" "?ready \<noteq> []"
    using "1.IH" [OF that(1) refl that(2) r [symmetric]] "1.prems"(1,2) by simp
  have empty: "ps_remaining ps = [] \<longleftrightarrow> ps_remaining ps' = []" using sim(2) ps' by auto
  show ?case
    using step "1.prems"(3) empty
    by (subst plan_loop.simps, subst plan_loop.simps [of ctx ps']) (simp add: Let_def ready r r')
qed

text \<open>Of the environment, planning after the initial state reads the rounding only.\<close>

lemma candidate_for_actor_env:
  assumes "fp_round e = fp_round (pc_env ctx)"
  shows "candidate_for_actor (ctx\<lparr>pc_env := e\<rparr>) = candidate_for_actor ctx"
proof -
  have "build_candidate e = build_candidate (pc_env ctx)"
    by (intro ext) (simp add: build_candidate_def assms)
  then show ?thesis by (intro ext) (simp add: candidate_for_actor_def Let_def split: option.split)
qed

lemma plan_ready_task_env:
  assumes "fp_round e = fp_round (pc_env ctx)"
  shows "plan_ready_task (ctx\<lparr>pc_env := e\<rparr>) = plan_ready_task ctx"
proof -
  have "consider_actor (ctx\<lparr>pc_env := e\<rparr>) = consider_actor ctx"
    by (intro ext) (simp add: consider_actor_def candidate_for_actor_env [OF assms] split: option.split)
  then have "select_best_candidate (ctx\<lparr>pc_env := e\<rparr>) = select_best_candidate ctx"
    by (intro ext) (simp add: select_best_candidate_def earliest_release_def split: option.split)
  then show ?thesis by (intro ext) (simp add: plan_ready_task_def split: prod.split)
qed

lemma plan_loop_env:
  "fp_round e = fp_round (pc_env ctx) \<Longrightarrow> plan_loop (ctx\<lparr>pc_env := e\<rparr>) ps = plan_loop ctx ps"
proof (induction ctx ps rule: plan_loop.induct)
  case (1 ctx ps)
  let ?ready = "collect_ready_tasks (ps_remaining ps) (pc_pending ctx) (ps_completion ps)
    (ps_blocked ps) (pc_strategy ctx)"
  obtain q progress where r: "plan_round ctx ?ready ps = (q, progress)" by force
  then have r': "plan_round (ctx\<lparr>pc_env := e\<rparr>) ?ready ps = (q, progress)"
    by (simp add: plan_round_def plan_ready_task_env [OF "1.prems"])
  have "plan_loop (ctx\<lparr>pc_env := e\<rparr>) q = plan_loop ctx q"
    if "ps_remaining ps \<noteq> []" "?ready \<noteq> []" progress
    using "1.IH" [OF that(1) refl that(2) r [symmetric]] that(3) "1.prems" by simp
  then show ?case
    by (subst plan_loop.simps, subst plan_loop.simps [of ctx]) (simp add: Let_def r r')
qed

text \<open>
  Determinism: under a strategy that separates tasks by id (shortest job first, FIFO,
  priority only) the plan depends neither on the iteration order of the unordered sets nor on
  the order in which equal elements leave the sort.
\<close>

theorem plan_deterministic:
  assumes "f = sjf_order_tasks \<or> f = fifo_order_tasks \<or> f = priority_only_order_tasks"
    and "registry_wf reg" and "env_ok env" and "env_ok env'" and "fp_round env = fp_round env'"
  shows "plan env w st reg now (Some f) profile = plan env' w st reg now (Some f) profile"
proof -
  have f: "deterministic_strategy f"
    using assms(1) sjf_det.deterministic_strategy_axioms fifo_det.deterministic_strategy_axioms
      prio_det.deterministic_strategy_axioms by blast
  let ?p = "collect_pending_tasks w st"
  let ?ctx = "initial_plan_ctx env st reg now (Some f) profile ?p"
  have ctx': "initial_plan_ctx env' st reg now (Some f) profile ?p = ?ctx\<lparr>pc_env := env'\<rparr>"
    and env: "pc_env ?ctx = env" and strat: "pc_strategy ?ctx = Some f"
    by (simp_all add: initial_plan_ctx_def)
  have wf: "ctx_wf w ?ctx" by (rule ctx_wf_initial [OF assms(2)])
  have "ps_similar (initial_plan_state env w st reg now ?p) (initial_plan_state env' w st reg now ?p)"
    using assms(3,4) by (auto simp: ps_similar_def initial_plan_state_def env_ok_def
        set_eq_iff_mset_eq_distinct [symmetric])
  from plan_loop_similar [OF f wf strat this]
  have sim: "ps_similar (plan_loop ?ctx (initial_plan_state env w st reg now ?p))
     (plan_loop (initial_plan_ctx env' st reg now (Some f) profile ?p) (initial_plan_state env' w st reg now ?p))"
    unfolding ctx' by (simp add: plan_loop_env env assms(5))
  then show ?thesis
    by (auto simp: plan_def Let_def ps_similar_def split: option.splits)
qed

subsection \<open>The error path\<close>

lemma validate_supported_tasks_None:
  "validate_supported_tasks ps = None \<longleftrightarrow> \<not> list_ex is_preemptible ps"
  by (auto simp: validate_supported_tasks_def find_None_iff list_ex_iff split: option.splits
      dest: find_Some_set)

text \<open>
  The scheduler fails closed: a planning pass reports success exactly when no pending task is
  preemptible, and a pass that fails plans nothing.
\<close>

theorem plan_fails_closed:
  "sr_ok (plan env w st reg now strategy profile) = (\<not> list_ex is_preemptible (collect_pending_tasks w st))
   \<and> (sr_ok (plan env w st reg now strategy profile) \<or> sr_assignments (plan env w st reg now strategy profile) = [])"
  using validate_supported_tasks_None [of "collect_pending_tasks w st"]
  by (auto simp: plan_def Let_def empty_schedule_result_def split: option.splits)

lemma demand_of_task_nonneg:
  assumes "list_all (\<lambda>(_, p). 0 \<le> p_demand p) (processes w)"
  shows "0 \<le> demand_of_task w t"
proof -
  have "0 \<le> p_demand p" if "process_for_task w t = Some p" for p
  proof -
    from that have "\<exists>i. (i, p) \<in> set (processes w)"
      by (auto simp: process_for_task_def workflow_process_def split: option.splits
          dest: map_of_SomeD find_Some_set)
    with assms show ?thesis by (auto simp: list_all_iff)
  qed
  then show ?thesis by (auto simp: demand_of_task_def kDefaultTaskDemand_def split: option.split)
qed

end
