(* ===== verification/Scheduler_Examples.thy ===== *)
theory Scheduler_Examples
  imports Scheduler_Loop
begin

text \<open>
  A small workflow on which the guarantees of the scheduler are exercised: task \<open>a\<close> and task
  \<open>c\<close> exclude each other, task \<open>b\<close> depends on \<open>a\<close>, and one actor \<open>x\<close> of capacity 1 is
  available in \<open>[0, 100)\<close>. The last section evaluates the scheduler on two inputs where its
  behaviour depends on the order of iteration or on which side declares an exclusion.
\<close>

definition demo_env :: runtime_env where
  "demo_env = \<lparr>iter_order = remdups, fp_round = (\<lambda>x. x)\<rparr>"

definition demo_env_rev :: runtime_env where
  "demo_env_rev = \<lparr>iter_order = (\<lambda>xs. rev (remdups xs)), fp_round = (\<lambda>x. x)\<rparr>"

definition demo_task :: "task_id \<Rightarrow> duration \<Rightarrow> task_id list \<Rightarrow> task_id list \<Rightarrow> process" where
  "demo_task t dur deps excl = default_process\<lparr>p_id := t, p_phase_id := ''ph'',
     estimated_duration := dur, p_dependency_task_ids := deps, p_mutually_exclusive_task_ids := excl\<rparr>"

definition demo_flow :: "process list \<Rightarrow> workflow" where
  "demo_flow ps = foldl add_process
     (add_phase (empty_workflow ''w'')
        \<lparr>ph_id = ''ph'', ph_name = ''main'', ph_process_ids = map p_id ps, dependency_phase_ids = []\<rparr>) ps"

definition demo_workflow :: workflow where
  "demo_workflow = demo_flow
     [demo_task ''a'' 3 [] [''c''], demo_task ''b'' 2 [''a''] [], demo_task ''c'' 2 [] [''a'']]"

definition demo_actor :: actor where
  "demo_actor = default_actor\<lparr>a_id := ''x'', a_capacity := 1,
     a_windows := [\<lparr>win_start = 0, win_end = 100\<rparr>]\<rparr>"

definition demo_registry :: actor_registry where
  "demo_registry = registry_add [] demo_actor"

definition demo_plan :: schedule_result where
  "demo_plan = plan demo_env demo_workflow empty_workflow_state demo_registry 0 (Some sjf_order_tasks) None"

lemma demo_registry_wf: "registry_wf demo_registry"
  by (simp add: demo_registry_def registry_wf_add registry_wf_empty)

lemma demo_env_ok: "env_ok demo_env" "env_ok demo_env_rev"
  by (simp_all add: env_ok_def demo_env_def demo_env_rev_def)

lemma demo_plan_value:
  "plan demo_env demo_workflow empty_workflow_state demo_registry 0 (Some sjf_order_tasks) None =
    \<lparr>sr_ok = True, sr_assignments = [\<lparr>as_task_id = ''c'', as_actor_id = ''x'', as_start_time = 0\<rparr>],
     sr_reasons = [(''c'', 0)], sr_error_message = []\<rparr>"
  by code_simp

lemma demo_plan_edf:
  "plan demo_env demo_workflow empty_workflow_state demo_registry 0 None None =
    \<lparr>sr_ok = True, sr_assignments = [\<lparr>as_task_id = ''a'', as_actor_id = ''x'', as_start_time = 0\<rparr>,
        \<lparr>as_task_id = ''b'', as_actor_id = ''x'', as_start_time = 3\<rparr>],
     sr_reasons = [(''a'', 0), (''b'', 0)], sr_error_message = []\<rparr>"
  by code_simp

theorem earliest_start_is_least_witness:
  "earliest_start demo_actor [\<lparr>iv_start = 0, iv_end = 4, iv_demand = 1\<rparr>] 0 3 1 = Some 4 \<and>
   feasible_start (a_windows demo_actor) [\<lparr>iv_start = 0, iv_end = 4, iv_demand = 1\<rparr>]
     (a_capacity demo_actor) 0 3 1 4"
proof -
  have "earliest_start demo_actor [\<lparr>iv_start = 0, iv_end = 4, iv_demand = 1\<rparr>] 0 3 1 = Some 4"
    by code_simp
  then show ?thesis
    using earliest_start_is_least [of 3 demo_actor "[\<lparr>iv_start = 0, iv_end = 4, iv_demand = 1\<rparr>]" 0 1] by simp
qed

theorem plan_assignments_sound_witness:
  "assignment_sound demo_workflow empty_workflow_state demo_registry 0
     \<lparr>as_task_id = ''a'', as_actor_id = ''x'', as_start_time = 0\<rparr>"
  using plan_assignments_sound [OF demo_registry_wf, of demo_env demo_workflow empty_workflow_state 0 None None]
    demo_plan_edf by simp

theorem plan_respects_capacity_witness:
  "reserved_demand (initialize_actor_reservations demo_workflow demo_registry (actor_ids demo_registry)
      empty_workflow_state 0) ''x'' 1 +
   planned_demand demo_workflow
     (sr_assignments (plan demo_env demo_workflow empty_workflow_state demo_registry 0 None None)) ''x'' 1
   \<le> a_capacity demo_actor"
proof (rule plan_respects_capacity [OF demo_registry_wf])
  show "registry_get demo_registry ''x'' = Some demo_actor"
    by code_simp
  show "\<lparr>as_task_id = ''a'', as_actor_id = ''x'', as_start_time = 0\<rparr> \<in>
      set (sr_assignments (plan demo_env demo_workflow empty_workflow_state demo_registry 0 None None))"
    by (simp add: demo_plan_edf)
  show "runs_at demo_workflow \<lparr>as_task_id = ''a'', as_actor_id = ''x'', as_start_time = 0\<rparr> ''x'' 1"
    by code_simp
qed

theorem plan_respects_dependencies_witness:
  "\<exists>c. c \<le> (3 :: int) \<and>
     (map_of (initialize_completion_times demo_workflow empty_workflow_state 0) ''a'' = Some c \<or>
      finishes demo_workflow
        (sr_assignments (plan demo_env demo_workflow empty_workflow_state demo_registry 0 None None)) ''a'' c)"
proof -
  have "\<lparr>as_task_id = ''b'', as_actor_id = ''x'', as_start_time = 3\<rparr> \<in>
      set (sr_assignments (plan demo_env demo_workflow empty_workflow_state demo_registry 0 None None))"
    by (simp add: demo_plan_edf)
  moreover have "''a'' \<in> set (task_deps demo_workflow ''b'')" by code_simp
  ultimately show ?thesis
    using plan_respects_dependencies [OF demo_registry_wf] by fastforce
qed

theorem plan_respects_exclusion_witness:
  "set (task_exclusions demo_workflow ''c'') \<inter>
     (set (completed_tasks empty_workflow_state) \<union> set (assigned_tasks empty_workflow_state)) = {} \<and>
   ''c'' \<in> set (task_exclusions demo_workflow ''a'')"
proof
  have "\<lparr>as_task_id = ''c'', as_actor_id = ''x'', as_start_time = 0\<rparr> \<in> set (sr_assignments
      (plan demo_env demo_workflow empty_workflow_state demo_registry 0 (Some sjf_order_tasks) None))"
    by (simp add: demo_plan_value)
  from conjunct1 [OF plan_respects_exclusion [OF demo_registry_wf this]]
  show "set (task_exclusions demo_workflow ''c'') \<inter>
     (set (completed_tasks empty_workflow_state) \<union> set (assigned_tasks empty_workflow_state)) = {}"
    by simp
  show "''c'' \<in> set (task_exclusions demo_workflow ''a'')" by code_simp
qed

abbreviation demo_pending :: "task_id \<Rightarrow> pending_task" where
  "demo_pending t \<equiv> make_pending demo_workflow ''ph'' t"

abbreviation demo_ctx :: plan_ctx where
  "demo_ctx \<equiv> initial_plan_ctx demo_env empty_workflow_state demo_registry 0 (Some sjf_order_tasks) None
     (collect_pending_tasks demo_workflow empty_workflow_state)"

theorem select_best_candidate_minimal_witness:
  "\<exists>sel c. select_best_candidate demo_ctx (demo_pending ''b'') [] [(''a'', 3)] = Some sel \<and>
     candidate_for_actor demo_ctx (demo_pending ''b'') []
       (earliest_release demo_ctx (demo_pending ''b'') 3) ''x'' = Some c \<and>
     rank_key (pc_profile demo_ctx) (cs_candidate sel) \<le> rank_key (pc_profile demo_ctx) c"
proof -
  have ready: "dependency_ready_time (demo_pending ''b'') [(''a'', 3)] = Some 3" by code_simp
  have "map_option cs_ranking_reason_index
      (select_best_candidate demo_ctx (demo_pending ''b'') [] [(''a'', 3)]) = Some 0" by code_simp
  then obtain sel where sel: "select_best_candidate demo_ctx (demo_pending ''b'') [] [(''a'', 3)] = Some sel"
    by auto
  have "map_option rc_start_time (candidate_for_actor demo_ctx (demo_pending ''b'') []
      (earliest_release demo_ctx (demo_pending ''b'') 3) ''x'') = Some 3" by code_simp
  then obtain c where c: "candidate_for_actor demo_ctx (demo_pending ''b'') []
      (earliest_release demo_ctx (demo_pending ''b'') 3) ''x'' = Some c" by auto
  have "''x'' \<in> set (pc_actor_ids demo_ctx)" by code_simp
  with select_best_candidate_minimal [OF ready, of demo_ctx "[]"] sel c show ?thesis by auto
qed

theorem plan_is_maximal_witness:
  "\<exists>q. pt_id q = ''a'' \<and>
    (let fin = plan_run demo_env demo_workflow empty_workflow_state demo_registry 0 (Some sjf_order_tasks) None in
     mutex_conflict q (ps_blocked fin) \<or> dependency_ready_time q (ps_completion fin) = None \<or>
     (\<exists>rt. dependency_ready_time q (ps_completion fin) = Some rt \<and>
        candidate_for_actor demo_ctx q (ps_reservations fin) (earliest_release demo_ctx q rt) ''x'' = None))"
proof -
  have dem: "0 \<le> demand_of_task demo_workflow t" for t
    by (rule demand_of_task_nonneg) code_simp
  have res: "set (resumable_tasks empty_workflow_state) \<inter> set (assigned_tasks empty_workflow_state) = {}"
    by (simp add: empty_workflow_state_def)
  have val: "validate_supported_tasks (collect_pending_tasks demo_workflow empty_workflow_state) = None"
    by code_simp
  have mem: "demo_pending ''a'' \<in> set (collect_pending_tasks demo_workflow empty_workflow_state)"
    by code_simp
  have out: "pt_id (demo_pending ''a'') \<notin> as_task_id ` set (sr_assignments
      (plan demo_env demo_workflow empty_workflow_state demo_registry 0 (Some sjf_order_tasks) None))"
    by (simp add: demo_plan_value)
  have x: "''x'' \<in> dom (map_of demo_registry)"
    by (simp add: demo_registry_def demo_actor_def registry_add_def)
  from plan_is_maximal [OF demo_registry_wf demo_env_ok(1) dem res val mem out] x
  show ?thesis by (simp add: Let_def) blast
qed

theorem plan_deterministic_witness:
  "plan demo_env demo_workflow empty_workflow_state demo_registry 0 (Some sjf_order_tasks) None =
   plan demo_env_rev demo_workflow empty_workflow_state demo_registry 0 (Some sjf_order_tasks) None"
  by (rule plan_deterministic)
     (use demo_registry_wf demo_env_ok in \<open>simp_all add: demo_env_def demo_env_rev_def\<close>)

subsection \<open>Where the result depends on more than the input\<close>

definition tie_workflow :: workflow where
  "tie_workflow = demo_flow [demo_task ''a'' 3 [] [], demo_task ''b'' 2 [] []]"

text \<open>
  The default strategy (earliest deadline first) does not separate two tasks of the same
  priority without deadlines: which of them runs first follows the iteration order of an
  unordered set.
\<close>

theorem edf_plan_depends_on_iteration_order:
  "plan demo_env tie_workflow empty_workflow_state demo_registry 0 None None \<noteq>
   plan demo_env_rev tie_workflow empty_workflow_state demo_registry 0 None None"
  by code_simp

definition one_sided_workflow :: workflow where
  "one_sided_workflow = demo_flow [demo_task ''a'' 1 [] [''b''], demo_task ''b'' 2 [] []]"

text \<open>
  An exclusion that only one of the two tasks declares is enforced only when the declaring task
  comes second: here \<open>a\<close> excludes \<open>b\<close>, is planned first, and \<open>b\<close> is planned as well.
\<close>

theorem one_sided_exclusion_not_enforced:
  "''b'' \<in> set (task_exclusions one_sided_workflow ''a'') \<and>
   map as_task_id (sr_assignments (plan demo_env one_sided_workflow empty_workflow_state demo_registry 0
     (Some sjf_order_tasks) None)) = [''a'', ''b'']"
  by code_simp

end
