(* ===== verification/Planner_Fsm.thy ===== *)
theory Planner_Fsm
  imports Prelude
begin

text \<open>
  \<^verbatim>\<open>core/planner_fsm.hpp\<close> and \<^verbatim>\<open>core/planner_fsm.cpp\<close>: the planner state machine, a
  wrapper around a Boost.MSM back-end. The transition table is the source's; the back-end
  itself is library code and is the parameter \<open>msm\<close> of the wrapper's operations, with its
  documented behaviour (a row whose source and event match is taken) as the hypothesis
  \<open>msm_follows_table\<close>. The wrapper keeps its own copy of the state and guards every event;
  the lemmas show that the copy and the back-end never disagree and that the guards forward
  exactly the events for which the table has a row.
\<close>

datatype planner_state = Idle | Planning | Dispatching | Running | Completing

datatype planner_event = StartPlanning | ScheduleReady | DispatchComplete | PhaseComplete
  | AllPhasesComplete | Tick

datatype msm_state = IdleS | PlanningS | DispatchingS | RunningS

definition transition_table :: "(msm_state \<times> planner_event \<times> msm_state) list" where
  "transition_table =
     [(IdleS, StartPlanning, PlanningS),
      (RunningS, StartPlanning, PlanningS),
      (DispatchingS, StartPlanning, PlanningS),
      (PlanningS, StartPlanning, PlanningS),
      (PlanningS, ScheduleReady, DispatchingS),
      (DispatchingS, DispatchComplete, RunningS),
      (RunningS, PhaseComplete, RunningS),
      (RunningS, AllPhasesComplete, IdleS),
      (PlanningS, PhaseComplete, RunningS),
      (DispatchingS, PhaseComplete, RunningS),
      (PlanningS, Tick, PlanningS),
      (IdleS, Tick, IdleS),
      (RunningS, Tick, RunningS)]"

type_synonym msm_backend = "msm_state \<Rightarrow> planner_event \<Rightarrow> msm_state"

definition msm_follows_table :: "msm_backend \<Rightarrow> bool" where
  "msm_follows_table msm \<longleftrightarrow> (\<forall>(s, e, t) \<in> set transition_table. msm s e = t)"

fun first_row :: "(msm_state \<times> planner_event \<times> msm_state) list \<Rightarrow> msm_backend" where
  "first_row [] s e = s"
| "first_row ((s', e', t) # rows) s e = (if s' = s \<and> e' = e then t else first_row rows s e)"

record planner_fsm =
  fsm_backend :: msm_state
  fsm_callback :: bool
  last_known_state :: planner_state
  state_changes :: "(planner_state \<times> planner_state) list"

definition new_planner_fsm :: planner_fsm where
  "new_planner_fsm = \<lparr>fsm_backend = IdleS, fsm_callback = False, last_known_state = Idle, state_changes = []\<rparr>"

definition current_state :: "planner_fsm \<Rightarrow> planner_state" where
  "current_state f = last_known_state f"

fun planner_state_name :: "planner_state \<Rightarrow> string" where
  "planner_state_name Idle = ''Idle''"
| "planner_state_name Planning = ''Planning''"
| "planner_state_name Dispatching = ''Dispatching''"
| "planner_state_name Running = ''Running''"
| "planner_state_name Completing = ''Completing''"

definition current_state_name :: "planner_fsm \<Rightarrow> string" where
  "current_state_name f = planner_state_name (last_known_state f)"

definition set_state_change_callback :: "planner_fsm \<Rightarrow> bool \<Rightarrow> planner_fsm" where
  "set_state_change_callback f present = f\<lparr>fsm_callback := present\<rparr>"

definition update_state :: "planner_fsm \<Rightarrow> planner_state \<Rightarrow> planner_fsm" where
  "update_state f next_state =
     (if next_state \<noteq> last_known_state f
      then f\<lparr>state_changes :=
               (if fsm_callback f then state_changes f @ [(next_state, last_known_state f)] else state_changes f),
             last_known_state := next_state\<rparr>
      else f)"

definition forward :: "msm_backend \<Rightarrow> planner_fsm \<Rightarrow> planner_event \<Rightarrow> planner_fsm" where
  "forward msm f e = f\<lparr>fsm_backend := msm (fsm_backend f) e\<rparr>"

fun process_event :: "msm_backend \<Rightarrow> planner_fsm \<Rightarrow> planner_event \<Rightarrow> planner_fsm" where
  "process_event msm f StartPlanning =
     (if last_known_state f \<noteq> Idle \<and> last_known_state f \<noteq> Planning
         \<and> last_known_state f \<noteq> Dispatching \<and> last_known_state f \<noteq> Running
      then f else update_state (forward msm f StartPlanning) Planning)"
| "process_event msm f ScheduleReady =
     (if last_known_state f \<noteq> Planning then f
      else update_state (forward msm f ScheduleReady) Dispatching)"
| "process_event msm f DispatchComplete =
     (if last_known_state f \<noteq> Dispatching then f
      else update_state (forward msm f DispatchComplete) Running)"
| "process_event msm f PhaseComplete =
     (if last_known_state f \<noteq> Planning \<and> last_known_state f \<noteq> Dispatching
         \<and> last_known_state f \<noteq> Running
      then f else update_state (forward msm f PhaseComplete) Running)"
| "process_event msm f AllPhasesComplete =
     (if last_known_state f \<noteq> Running then f
      else update_state (forward msm f AllPhasesComplete) Idle)"
| "process_event msm f Tick =
     (if last_known_state f \<noteq> Idle \<and> last_known_state f \<noteq> Planning \<and> last_known_state f \<noteq> Running
      then f else forward msm f Tick)"

lemmas fsm_defs = update_state_def forward_def current_state_def new_planner_fsm_def

subsection \<open>The specification: the planner's step relation\<close>

fun state_of :: "msm_state \<Rightarrow> planner_state" where
  "state_of IdleS = Idle"
| "state_of PlanningS = Planning"
| "state_of DispatchingS = Dispatching"
| "state_of RunningS = Running"

inductive planner_step :: "planner_state \<Rightarrow> planner_event \<Rightarrow> planner_state \<Rightarrow> bool" where
  row: "(s, e, t) \<in> set transition_table \<Longrightarrow> planner_step (state_of s) e (state_of t)"

inductive_cases planner_stepE: "planner_step s e t"

lemma state_of_inject [simp]: "state_of s = state_of t \<longleftrightarrow> s = t"
  by (cases s; cases t) auto

lemma planner_step_iff:
  "planner_step s e t \<longleftrightarrow>
     list_ex (\<lambda>(s', e', t'). s = state_of s' \<and> e = e' \<and> t = state_of t') transition_table"
  by (auto simp: list_ex_iff elim!: planner_stepE intro: row)

lemma planner_step_table [simp]:
  "planner_step s StartPlanning t \<longleftrightarrow> s \<noteq> Completing \<and> t = Planning"
  "planner_step s ScheduleReady t \<longleftrightarrow> s = Planning \<and> t = Dispatching"
  "planner_step s DispatchComplete t \<longleftrightarrow> s = Dispatching \<and> t = Running"
  "planner_step s PhaseComplete t \<longleftrightarrow> s \<in> {Planning, Dispatching, Running} \<and> t = Running"
  "planner_step s AllPhasesComplete t \<longleftrightarrow> s = Running \<and> t = Idle"
  "planner_step s Tick t \<longleftrightarrow> s \<in> {Idle, Planning, Running} \<and> t = s"
  by (cases s; cases t; simp add: planner_step_iff transition_table_def)+

lemma planner_step_deterministic: "planner_step s e t \<Longrightarrow> planner_step s e t' \<Longrightarrow> t = t'"
  by (cases e) auto

subsection \<open>The wrapper agrees with the back-end\<close>

definition fsm_synced :: "planner_fsm \<Rightarrow> bool" where
  "fsm_synced f \<longleftrightarrow> state_of (fsm_backend f) = last_known_state f"

lemma fsm_synced_new: "fsm_synced new_planner_fsm"
  by (simp add: fsm_synced_def new_planner_fsm_def)

lemma fsm_synced_not_completing: "fsm_synced f \<Longrightarrow> last_known_state f \<noteq> Completing"
  by (cases "fsm_backend f") (auto simp: fsm_synced_def)

lemma process_event_cases:
  "(if \<exists>t. planner_step (last_known_state f) e t
    then planner_step (last_known_state f) e (last_known_state (process_event msm f e))
         \<and> fsm_backend (process_event msm f e) = msm (fsm_backend f) e
    else process_event msm f e = f)"
  by (cases e; cases "last_known_state f") (auto simp: fsm_defs)

lemma msm_step:
  "msm_follows_table msm \<Longrightarrow> planner_step (state_of s) e t \<Longrightarrow> state_of (msm s e) = t"
  by (fastforce simp: msm_follows_table_def elim: planner_stepE)

lemma process_event_synced:
  assumes "msm_follows_table msm" and "fsm_synced f"
  shows "fsm_synced (process_event msm f e)"
proof (cases "\<exists>t. planner_step (last_known_state f) e t")
  case True
  with process_event_cases [of f e msm]
  have step: "planner_step (last_known_state f) e (last_known_state (process_event msm f e))"
    and backend: "fsm_backend (process_event msm f e) = msm (fsm_backend f) e" by auto
  from step assms(2) have "planner_step (state_of (fsm_backend f)) e (last_known_state (process_event msm f e))"
    by (simp add: fsm_synced_def)
  from msm_step [OF assms(1) this] backend show ?thesis by (simp add: fsm_synced_def)
next
  case False
  with process_event_cases [of f e msm] assms(2) show ?thesis by auto
qed

lemma run_events_synced:
  "msm_follows_table msm \<Longrightarrow> fsm_synced f \<Longrightarrow> fsm_synced (foldl (process_event msm) f es)"
  by (induction es arbitrary: f) (auto intro: process_event_synced)

lemma first_row_follows_table: "msm_follows_table (first_row transition_table)"
  by (simp add: msm_follows_table_def transition_table_def)

text \<open>The callback is told of every change, with the state left as its second argument.\<close>

fun changes_chain :: "planner_state \<Rightarrow> (planner_state \<times> planner_state) list \<Rightarrow> planner_state \<Rightarrow> bool" where
  "changes_chain s [] t \<longleftrightarrow> s = t"
| "changes_chain s ((n, p) # cs) t \<longleftrightarrow> p = s \<and> n \<noteq> p \<and> changes_chain n cs t"

lemma changes_chain_append:
  "changes_chain s (cs @ [(n, p)]) t \<longleftrightarrow> changes_chain s cs p \<and> n \<noteq> p \<and> n = t"
  by (induction cs arbitrary: s) auto

lemma process_event_changes:
  assumes "fsm_callback f" and "changes_chain s (state_changes f) (last_known_state f)"
  shows "changes_chain s (state_changes (process_event msm f e)) (last_known_state (process_event msm f e))
    \<and> fsm_callback (process_event msm f e)"
  using assms by (cases e) (auto simp: fsm_defs changes_chain_append)

end
