(* ===== verification/Core_Props.thy ===== *)
theory Core_Props
  imports Scheduler_Examples Planner_Fsm
begin

text \<open>
  Properties of the small core components (workflow, actor, strategies, planner state machine),
  each stated over the component's own definitions and proved from its theory's lemmas.
\<close>

text \<open>
  Progress of the phase graph: in a well-formed workflow whose phase dependencies are acyclic
  and name existing phases, as long as some phase is not completed there is a phase that is
  ready to run.
\<close>

theorem phase_progress:
  assumes "workflow_wf w" and "acyclic (phase_edges w)"
    and "\<And>d i. (d, i) \<in> phase_edges w \<Longrightarrow> d \<in> set (phase_ids w)"
    and "x \<in> set (phase_ids w)" and "x \<notin> set completed"
  shows "\<exists>i. i \<in> set (ready_phases w completed) \<and> phase_ready w completed i"
proof -
  obtain i where "i \<in> set (ready_phases w completed)"
    using ready_phase_exists [of w x completed] assms by blast
  with ready_phases_iff [OF assms(1)] show ?thesis by blast
qed

lemma demo_flow_wf: "workflow_wf (demo_flow ps)"
proof -
  have "workflow_wf (foldl add_process w ps)" if "workflow_wf w" for w
    using that by (rule foldl_invariant) (rule workflow_wf_add_process)
  then show ?thesis
    by (simp add: demo_flow_def workflow_wf_add_phase workflow_wf_empty)
qed

lemma demo_flow_phases:
  "phases (demo_flow ps) = [(''ph'', \<lparr>ph_id = ''ph'', ph_name = ''main'', ph_process_ids = map p_id ps,
     dependency_phase_ids = []\<rparr>)]"
proof -
  have "phases (foldl add_process w ps) = phases w" for w
    by (induction ps arbitrary: w) (simp_all add: add_process_def)
  then show ?thesis by (simp add: demo_flow_def add_phase_def empty_workflow_def)
qed

theorem phase_progress_witness:
  "\<exists>i. i \<in> set (ready_phases demo_workflow []) \<and> phase_ready demo_workflow [] i"
proof -
  have none: "phase_edges demo_workflow = {}"
    by (auto simp: phase_edges_def demo_workflow_def workflow_phase_def demo_flow_phases split: if_splits)
  show ?thesis
    by (rule phase_progress [where x = "''ph''"])
       (simp_all add: none acyclic_def, simp_all add: demo_workflow_def demo_flow_wf phase_ids_def demo_flow_phases)
qed

text \<open>
  The start that \<open>next_available_start\<close> proposes is one at which the actor accepts the task,
  and when no window ends before the requested time it is not before that time.
\<close>

theorem next_available_start_sound:
  assumes "next_available_start a t d = Some s" and "0 < d"
    and "\<And>w. w \<in> set (a_windows a) \<Longrightarrow> t \<le> win_end w"
  shows "can_accept_at a s d \<and> t \<le> s"
  using next_available_start_accepts [OF assms(1,2)] next_available_start_not_before [OF assms(1,3)]
  by blast

theorem next_available_start_sound_witness: "can_accept_at demo_actor 5 10 \<and> (5 :: int) \<le> 5"
proof (rule next_available_start_sound)
  show "next_available_start demo_actor 5 10 = Some 5" by code_simp
  show "(5 :: int) \<le> win_end w" if "w \<in> set (a_windows demo_actor)" for w
    using that by (simp add: demo_actor_def)
qed simp

text \<open>
  Without that condition the start can lie before the requested time: a window that has already
  ended moves the candidate back to its end.
\<close>

theorem next_available_start_before_request:
  "next_available_start
     (default_actor\<lparr>a_windows := [\<lparr>win_start = 0, win_end = 10\<rparr>, \<lparr>win_start = 20, win_end = 150\<rparr>]\<rparr>) 100 5
   = Some 20"
  by code_simp

text \<open>
  The planner state machine follows its transition table: for every sequence of events the
  wrapper's state agrees with the back-end's, and each event either takes the table's unique row
  for the current state or, when the table has none, leaves the machine unchanged.
\<close>

theorem planner_follows_table:
  fixes events :: "planner_event list"
  assumes "msm_follows_table msm"
  defines "f \<equiv> foldl (process_event msm) new_planner_fsm events"
  shows "fsm_synced f \<and>
    (if \<exists>t. planner_step (current_state f) e t
     then planner_step (current_state f) e (current_state (process_event msm f e))
     else process_event msm f e = f)"
proof
  show "fsm_synced f" unfolding f_def by (rule run_events_synced [OF assms(1) fsm_synced_new])
  show "if \<exists>t. planner_step (current_state f) e t
     then planner_step (current_state f) e (current_state (process_event msm f e))
     else process_event msm f e = f"
    using process_event_cases [of f e msm] by (simp add: current_state_def split: if_splits)
qed

theorem planner_follows_table_witness:
  "fsm_synced (foldl (process_event (first_row transition_table)) new_planner_fsm
     [StartPlanning, ScheduleReady, DispatchComplete, AllPhasesComplete])"
  using planner_follows_table [OF first_row_follows_table] by blast

text \<open>
  Each scheduling strategy returns the given tasks in the order its comparator demands: a
  permutation of the input in which no task precedes one that should come before it.
\<close>

theorem strategies_sort:
  "mset (edf_order_tasks ts) = mset ts \<and> sorted_by edf_less (edf_order_tasks ts) \<and>
   mset (fifo_order_tasks ts) = mset ts \<and> sorted_by fifo_less (fifo_order_tasks ts) \<and>
   mset (priority_only_order_tasks ts) = mset ts \<and> sorted_by priority_only_less (priority_only_order_tasks ts) \<and>
   mset (sjf_order_tasks ts) = mset ts \<and> sorted_by sjf_less (sjf_order_tasks ts)"
  by (simp add: strategy_defs edf.sorted_sort_by fifo.sorted_sort_by prio.sorted_sort_by sjf.sorted_sort_by)

end
