(* ===== verification/Orchestrator.thy ===== *)
theory Orchestrator
  imports Scheduler_Loop Planner_Fsm
begin

text \<open>
  \<^verbatim>\<open>core/orchestrator.cpp\<close>: the orchestrator owns a workflow, an actor registry, a strategy, a
  ranking profile, the planner state machine, the workflow state and the latest schedule. Its
  public operations are functions on the record \<open>orchestrator\<close>; \<open>orch_step\<close> is the relation
  they generate and \<open>orch_reachable\<close> its closure from a new orchestrator. The two parameters
  \<open>env\<close> and \<open>msm\<close> are those of the scheduler and of the planner state machine.
\<close>

record orchestrator =
  o_workflow :: workflow
  o_registry :: actor_registry
  o_strategy :: strategy
  o_profile :: ranking_profile
  o_fsm :: planner_fsm
  o_state :: workflow_state
  o_schedule :: schedule_result
  o_started :: bool
  o_replan :: bool

definition new_orchestrator :: orchestrator where
  "new_orchestrator =
     \<lparr>o_workflow = empty_workflow [], o_registry = [], o_strategy = edf_order_tasks,
      o_profile = default_ranking_profile, o_fsm = set_state_change_callback new_planner_fsm True,
      o_state = empty_workflow_state, o_schedule = empty_schedule_result,
      o_started = False, o_replan = False\<rparr>"

subsection \<open>Planning and dispatch\<close>

definition orch_event :: "msm_backend \<Rightarrow> planner_event \<Rightarrow> orchestrator \<Rightarrow> orchestrator" where
  "orch_event msm e ob = ob\<lparr>o_fsm := process_event msm (o_fsm ob) e\<rparr>"

definition run_planning :: "runtime_env \<Rightarrow> msm_backend \<Rightarrow> time \<Rightarrow> orchestrator \<Rightarrow> orchestrator" where
  "run_planning env msm now ob =
     (let sched = plan env (o_workflow ob) (o_state ob) (o_registry ob) now
                    (Some (o_strategy ob)) (Some (o_profile ob));
          ob = ob\<lparr>o_schedule := sched\<rparr>
      in if sr_ok sched \<and> sr_assignments sched \<noteq> [] then orch_event msm ScheduleReady ob else ob)"

definition request_replan :: "orchestrator \<Rightarrow> orchestrator" where
  "request_replan ob = ob\<lparr>o_replan := True\<rparr>"

definition task_is_blocked_for_dispatch :: "workflow_state \<Rightarrow> task_id \<Rightarrow> bool" where
  "task_is_blocked_for_dispatch st t \<longleftrightarrow> t \<in> set (unresumable_tasks st)"

definition task_duration :: "orchestrator \<Rightarrow> task_id \<Rightarrow> duration" where
  "task_duration ob t =
     (case process_for_task (o_workflow ob) t of Some p \<Rightarrow> estimated_duration p | None \<Rightarrow> 1)"

definition task_demand :: "orchestrator \<Rightarrow> task_id \<Rightarrow> int" where
  "task_demand ob t =
     (case process_for_task (o_workflow ob) t of Some p \<Rightarrow> p_demand p | None \<Rightarrow> 1)"

definition task_dependencies_completed :: "orchestrator \<Rightarrow> task_id \<Rightarrow> bool" where
  "task_dependencies_completed ob t =
     (case process_for_task (o_workflow ob) t of
        None \<Rightarrow> True
      | Some p \<Rightarrow> list_all (\<lambda>d. d \<in> set (completed_tasks (o_state ob))) (p_dependency_task_ids p))"

definition may_dispatch :: "time \<Rightarrow> orchestrator \<Rightarrow> assignment \<Rightarrow> bool" where
  "may_dispatch now ob x =
     (if as_start_time x > now then False
      else if \<not> task_dependencies_completed ob (as_task_id x) then False
      else if as_task_id x \<in> set (completed_tasks (o_state ob)) then False
      else if as_task_id x \<in> set (assigned_tasks (o_state ob)) then False
      else \<not> task_is_blocked_for_dispatch (o_state ob) (as_task_id x))"

definition dispatch_one :: "assignment \<Rightarrow> orchestrator \<Rightarrow> orchestrator" where
  "dispatch_one x ob =
     (let t = as_task_id x; a = as_actor_id x; st = o_state ob;
          reg = registry_modify (o_registry ob) a
                  (\<lambda>act. act\<lparr>current_load := current_load act + task_demand ob t\<rparr>)
      in ob\<lparr>o_registry := reg,
            o_state := st\<lparr>assigned_tasks := assigned_tasks st @ [t],
              resumable_tasks := erase_value (resumable_tasks st) t,
              unresumable_tasks := erase_value (unresumable_tasks st) t,
              task_actor := AList.update t a (task_actor st),
              actor_load := AList.update a
                (case registry_get reg a of Some act \<Rightarrow> current_load act | None \<Rightarrow> 0) (actor_load st),
              task_planned_start_time := AList.update t (as_start_time x) (task_planned_start_time st),
              task_planned_end_time :=
                AList.update t (as_start_time x + task_duration ob t) (task_planned_end_time st)\<rparr>\<rparr>)"

definition dispatch_assignment :: "time \<Rightarrow> assignment \<Rightarrow> orchestrator \<Rightarrow> orchestrator" where
  "dispatch_assignment now x ob = (if may_dispatch now ob x then dispatch_one x ob else ob)"

definition apply_dispatch :: "msm_backend \<Rightarrow> time \<Rightarrow> orchestrator \<Rightarrow> orchestrator" where
  "apply_dispatch msm now ob =
     (let ob = fold (dispatch_assignment now) (sr_assignments (o_schedule ob)) ob
      in if current_state (o_fsm ob) = Dispatching then orch_event msm DispatchComplete ob else ob)"

subsection \<open>Public operations\<close>

definition set_workflow :: "workflow \<Rightarrow> orchestrator \<Rightarrow> orchestrator" where
  "set_workflow w ob = ob\<lparr>o_workflow := w, o_state := empty_workflow_state\<rparr>"

definition register_actor :: "actor \<Rightarrow> orchestrator \<Rightarrow> orchestrator" where
  "register_actor a ob = ob\<lparr>o_registry := registry_add (o_registry ob) a\<rparr>"

definition set_scheduling_strategy :: "strategy option \<Rightarrow> orchestrator \<Rightarrow> orchestrator" where
  "set_scheduling_strategy s ob = (case s of None \<Rightarrow> ob | Some f \<Rightarrow> ob\<lparr>o_strategy := f\<rparr>)"

definition set_actor_ranking_profile :: "ranking_profile \<Rightarrow> orchestrator \<Rightarrow> orchestrator" where
  "set_actor_ranking_profile p ob = ob\<lparr>o_profile := p\<rparr>"

definition orch_start :: "runtime_env \<Rightarrow> msm_backend \<Rightarrow> orchestrator \<Rightarrow> orchestrator" where
  "orch_start env msm ob =
     run_planning env msm 0 (orch_event msm StartPlanning (ob\<lparr>o_started := True\<rparr>))"

definition orch_tick :: "runtime_env \<Rightarrow> msm_backend \<Rightarrow> time \<Rightarrow> orchestrator \<Rightarrow> orchestrator" where
  "orch_tick env msm now ob =
     (if \<not> o_started ob then ob
      else
        (let s = current_state (o_fsm ob) in
         if o_replan ob \<and> s \<noteq> Planning
         then run_planning env msm now ((orch_event msm StartPlanning ob)\<lparr>o_replan := False\<rparr>)
         else if s = Idle
         then run_planning env msm now ((orch_event msm StartPlanning ob)\<lparr>o_replan := False\<rparr>)
         else if s = Planning then run_planning env msm now (ob\<lparr>o_replan := False\<rparr>)
         else if s = Dispatching then apply_dispatch msm now ob
         else if s = Running then orch_event msm Tick (apply_dispatch msm now ob)
         else ob))"

definition set_actor_unavailable :: "actor_id \<Rightarrow> bool \<Rightarrow> orchestrator \<Rightarrow> orchestrator" where
  "set_actor_unavailable a unavailable ob =
     (let st = o_state ob; xs = unavailable_actors st in
      if unavailable
      then (if a \<notin> set xs
            then request_replan (ob\<lparr>o_state := st\<lparr>unavailable_actors := xs @ [a]\<rparr>\<rparr>) else ob)
      else if a \<in> set xs
      then request_replan (ob\<lparr>o_state := st\<lparr>unavailable_actors := remove1 a xs\<rparr>\<rparr>)
      else ob)"

text \<open>
  The part shared by \<^verbatim>\<open>notify_task_failed\<close> and \<^verbatim>\<open>notify_task_completed\<close>: give the task's
  demand back to its owner and forget the owner.
\<close>

definition release_owner :: "task_id \<Rightarrow> orchestrator \<Rightarrow> orchestrator" where
  "release_owner t ob =
     (case map_of (task_actor (o_state ob)) t of
        None \<Rightarrow> ob
      | Some a \<Rightarrow>
          (let st = o_state ob;
               ob = (case registry_get (o_registry ob) a of
                       None \<Rightarrow> ob
                     | Some owner \<Rightarrow>
                         if current_load owner > 0
                         then (let load = max 0 (current_load owner - task_demand ob t) in
                               ob\<lparr>o_registry := registry_modify (o_registry ob) a
                                     (\<lambda>act. act\<lparr>current_load := load\<rparr>),
                                   o_state := st\<lparr>actor_load := AList.update (a_id owner) load (actor_load st)\<rparr>\<rparr>)
                         else ob)
           in ob\<lparr>o_state := (o_state ob)\<lparr>task_actor := AList.delete t (task_actor (o_state ob))\<rparr>\<rparr>))"

definition notify_task_failed :: "task_id \<Rightarrow> bool \<Rightarrow> orchestrator \<Rightarrow> orchestrator" where
  "notify_task_failed t resumable ob =
     (let st = o_state ob;
          ob = release_owner t (ob\<lparr>o_state := st\<lparr>assigned_tasks := erase_value (assigned_tasks st) t,
                 completed_tasks := erase_value (completed_tasks st) t\<rparr>\<rparr>);
          st = (o_state ob)\<lparr>unresumable_tasks := erase_value (unresumable_tasks (o_state ob)) t,
                 resumable_tasks := erase_value (resumable_tasks (o_state ob)) t\<rparr>
      in if resumable
         then request_replan (ob\<lparr>o_state := st\<lparr>resumable_tasks := resumable_tasks st @ [t]\<rparr>\<rparr>)
         else ob\<lparr>o_state := st\<lparr>unresumable_tasks := unresumable_tasks st @ [t]\<rparr>\<rparr>)"

definition notify_task_completed :: "task_id \<Rightarrow> time \<Rightarrow> orchestrator \<Rightarrow> orchestrator" where
  "notify_task_completed t actual_completion_time ob =
     (let st = o_state ob;
          ob = release_owner t (ob\<lparr>o_state := st\<lparr>assigned_tasks := erase_value (assigned_tasks st) t,
                 completed_tasks := push_unique (completed_tasks st) t\<rparr>\<rparr>);
          st = o_state ob
      in request_replan (ob\<lparr>o_state := st\<lparr>task_actual_completion_time :=
           AList.update t actual_completion_time (task_actual_completion_time st)\<rparr>\<rparr>))"

definition mark_task_resumable :: "task_id \<Rightarrow> orchestrator \<Rightarrow> orchestrator" where
  "mark_task_resumable t ob =
     (let st = o_state ob in
      request_replan (ob\<lparr>o_state := st\<lparr>unresumable_tasks := erase_value (unresumable_tasks st) t,
        resumable_tasks := push_unique (resumable_tasks st) t\<rparr>\<rparr>))"

definition complete_phase :: "msm_backend \<Rightarrow> phase_id \<Rightarrow> orchestrator \<Rightarrow> orchestrator" where
  "complete_phase msm ph ob =
     (let st = o_state ob;
          completed = push_unique (completed_phases st) ph;
          ob = orch_event msm PhaseComplete (ob\<lparr>o_state := st\<lparr>completed_phases := completed\<rparr>\<rparr>)
      in if length completed \<ge> length (phase_ids (o_workflow ob))
         then orch_event msm AllPhasesComplete ob else ob)"

definition current_planner_state :: "orchestrator \<Rightarrow> planner_state" where
  "current_planner_state ob = current_state (o_fsm ob)"

definition get_latest_schedule :: "orchestrator \<Rightarrow> schedule_result" where
  "get_latest_schedule ob = o_schedule ob"

subsection \<open>The step relation\<close>

inductive orch_step :: "runtime_env \<Rightarrow> msm_backend \<Rightarrow> orchestrator \<Rightarrow> orchestrator \<Rightarrow> bool"
  for env msm where
  step_set_workflow: "orch_step env msm ob (set_workflow w ob)"
| step_register: "orch_step env msm ob (register_actor a ob)"
| step_strategy: "orch_step env msm ob (set_scheduling_strategy s ob)"
| step_profile: "orch_step env msm ob (set_actor_ranking_profile p ob)"
| step_start: "orch_step env msm ob (orch_start env msm ob)"
| step_tick: "orch_step env msm ob (orch_tick env msm now ob)"
| step_unavailable: "orch_step env msm ob (set_actor_unavailable a b ob)"
| step_failed: "orch_step env msm ob (notify_task_failed t r ob)"
| step_completed: "orch_step env msm ob (notify_task_completed t c ob)"
| step_resumable: "orch_step env msm ob (mark_task_resumable t ob)"
| step_phase: "orch_step env msm ob (complete_phase msm ph ob)"

inductive_cases orch_stepE: "orch_step env msm ob ob'"

definition orch_reachable :: "runtime_env \<Rightarrow> msm_backend \<Rightarrow> orchestrator \<Rightarrow> bool" where
  "orch_reachable env msm = (orch_step env msm)\<^sup>*\<^sup>* new_orchestrator"

lemma orch_reachable_new: "orch_reachable env msm new_orchestrator"
  by (simp add: orch_reachable_def)

lemma orch_reachable_step:
  "orch_reachable env msm ob \<Longrightarrow> orch_step env msm ob ob' \<Longrightarrow> orch_reachable env msm ob'"
  by (auto simp: orch_reachable_def)

text \<open>
  What a predicate must satisfy to be kept by the operations built from planning and
  dispatch. The schedule is only ever replaced by a plan for the orchestrator's own state.
\<close>

abbreviation orch_plan :: "runtime_env \<Rightarrow> time \<Rightarrow> orchestrator \<Rightarrow> schedule_result" where
  "orch_plan env now ob \<equiv> plan env (o_workflow ob) (o_state ob) (o_registry ob) now
     (Some (o_strategy ob)) (Some (o_profile ob))"

locale orch_invariant =
  fixes env :: runtime_env and msm :: msm_backend and I :: "orchestrator \<Rightarrow> bool"
  assumes inv_event: "I ob \<Longrightarrow> I (orch_event msm e ob)"
    and inv_replan: "I ob \<Longrightarrow> I (ob\<lparr>o_replan := True\<rparr>)"
    and inv_started: "I ob \<Longrightarrow> I (ob\<lparr>o_started := True\<rparr>)"
    and inv_schedule: "I ob \<Longrightarrow> I (ob\<lparr>o_schedule := orch_plan env now ob\<rparr>)"
    and inv_replanned: "I ob \<Longrightarrow> I (ob\<lparr>o_replan := False, o_schedule := orch_plan env now ob\<rparr>)"
    and inv_dispatch: "I ob \<Longrightarrow> may_dispatch now ob x \<Longrightarrow> I (dispatch_one x ob)"
begin

lemma inv_run_planning: "I ob \<Longrightarrow> I (run_planning env msm now ob)"
  using inv_schedule [of ob now] by (simp add: run_planning_def Let_def inv_event)

lemma inv_run_planning_replan: "I ob \<Longrightarrow> I (run_planning env msm now (ob\<lparr>o_replan := False\<rparr>))"
  using inv_replanned [of ob now] by (simp add: run_planning_def Let_def inv_event)

lemma inv_start: "I ob \<Longrightarrow> I (orch_start env msm ob)"
  by (simp add: orch_start_def inv_run_planning inv_event inv_started)

lemma inv_apply_dispatch: "I ob \<Longrightarrow> I (apply_dispatch msm now ob)"
proof -
  assume "I ob"
  then have "I (fold (dispatch_assignment now) (sr_assignments (o_schedule ob)) ob)"
    by (rule fold_invariant_list) (simp add: dispatch_assignment_def inv_dispatch)
  then show ?thesis by (simp add: apply_dispatch_def Let_def inv_event)
qed

lemma inv_tick: "I ob \<Longrightarrow> I (orch_tick env msm now ob)"
  by (simp add: orch_tick_def Let_def inv_run_planning_replan inv_event inv_apply_dispatch)

end

subsection \<open>The workflow state stays consistent\<close>

definition orch_inv :: "orchestrator \<Rightarrow> bool" where
  "orch_inv ob \<longleftrightarrow>
     registry_wf (o_registry ob) \<and> fsm_synced (o_fsm ob) \<and>
     distinct (assigned_tasks (o_state ob)) \<and>
     set (assigned_tasks (o_state ob)) \<inter> set (completed_tasks (o_state ob)) = {} \<and>
     set (assigned_tasks (o_state ob)) \<inter> set (unresumable_tasks (o_state ob)) = {} \<and>
     set (resumable_tasks (o_state ob)) \<inter> set (unresumable_tasks (o_state ob)) = {} \<and>
     dom (map_of (task_actor (o_state ob))) = set (assigned_tasks (o_state ob))"

lemmas orch_op_defs = set_workflow_def register_actor_def set_scheduling_strategy_def
  set_actor_ranking_profile_def set_actor_unavailable_def mark_task_resumable_def request_replan_def

lemma may_dispatch_iff:
  "may_dispatch now ob x \<longleftrightarrow> as_start_time x \<le> now \<and> task_dependencies_completed ob (as_task_id x) \<and>
     as_task_id x \<notin> set (completed_tasks (o_state ob)) \<and>
     as_task_id x \<notin> set (assigned_tasks (o_state ob)) \<and>
     as_task_id x \<notin> set (unresumable_tasks (o_state ob))"
  by (auto simp: may_dispatch_def task_is_blocked_for_dispatch_def)

lemma orch_inv_dispatch: "orch_inv ob \<Longrightarrow> may_dispatch now ob x \<Longrightarrow> orch_inv (dispatch_one x ob)"
  by (auto simp: orch_inv_def dispatch_one_def Let_def may_dispatch_iff registry_wf_modify
      dom_def split: if_splits)

lemma orch_inv_event: "msm_follows_table msm \<Longrightarrow> orch_inv ob \<Longrightarrow> orch_inv (orch_event msm e ob)"
  by (simp add: orch_inv_def orch_event_def process_event_synced)

interpretation state_inv: orch_invariant env msm "\<lambda>ob. msm_follows_table msm \<and> orch_inv ob" for env msm
  by unfold_locales (auto simp: orch_inv_event intro: orch_inv_dispatch, simp_all add: orch_inv_def)

text \<open>What releasing the owner of a task leaves alone, and what it changes.\<close>

lemma release_owner_frame [simp]:
  "o_workflow (release_owner t ob) = o_workflow ob" "o_fsm (release_owner t ob) = o_fsm ob"
  "o_schedule (release_owner t ob) = o_schedule ob" "o_replan (release_owner t ob) = o_replan ob"
  "assigned_tasks (o_state (release_owner t ob)) = assigned_tasks (o_state ob)"
  "completed_tasks (o_state (release_owner t ob)) = completed_tasks (o_state ob)"
  "unresumable_tasks (o_state (release_owner t ob)) = unresumable_tasks (o_state ob)"
  "resumable_tasks (o_state (release_owner t ob)) = resumable_tasks (o_state ob)"
  "unavailable_actors (o_state (release_owner t ob)) = unavailable_actors (o_state ob)"
  "map_of (task_actor (o_state (release_owner t ob))) = (map_of (task_actor (o_state ob)))(t := None)"
  by (auto simp: release_owner_def Let_def split: option.splits)

lemma release_owner_registry_wf:
  "registry_wf (o_registry ob) \<Longrightarrow> registry_wf (o_registry (release_owner t ob))"
  by (auto simp: release_owner_def Let_def registry_wf_modify split: option.splits)

lemma orch_inv_failed: "orch_inv ob \<Longrightarrow> orch_inv (notify_task_failed t r ob)"
  by (auto simp: orch_inv_def notify_task_failed_def Let_def request_replan_def
      release_owner_registry_wf distinct_removeAll)

lemma orch_inv_completed: "orch_inv ob \<Longrightarrow> orch_inv (notify_task_completed t c ob)"
  by (auto simp: orch_inv_def notify_task_completed_def Let_def request_replan_def
      release_owner_registry_wf distinct_removeAll)

lemma orch_inv_complete_phase:
  "msm_follows_table msm \<Longrightarrow> orch_inv ob \<Longrightarrow> orch_inv (complete_phase msm ph ob)"
  by (auto simp: complete_phase_def Let_def intro!: orch_inv_event) (simp_all add: orch_inv_def)

lemma orch_inv_step:
  assumes "msm_follows_table msm" and "orch_step env msm ob ob'" and "orch_inv ob"
  shows "orch_inv ob'"
  using assms(2)
proof cases
  case step_start
  then show ?thesis using state_inv.inv_start assms by blast
next
  case (step_tick now)
  then show ?thesis using state_inv.inv_tick assms by blast
next
  case (step_failed t r)
  then show ?thesis using orch_inv_failed assms(3) by blast
next
  case (step_completed t c)
  then show ?thesis using orch_inv_completed assms(3) by blast
next
  case (step_phase ph)
  then show ?thesis using orch_inv_complete_phase assms(1,3) by blast
qed (use assms(3) in \<open>auto simp: orch_inv_def orch_op_defs Let_def registry_wf_add
       empty_workflow_state_def split: option.splits\<close>)

lemma orch_inv_new: "orch_inv new_orchestrator"
  by (simp add: orch_inv_def new_orchestrator_def registry_wf_def empty_workflow_state_def
      set_state_change_callback_def fsm_synced_def new_planner_fsm_def)

lemma orch_inv_reachable:
  assumes "msm_follows_table msm" and "orch_reachable env msm ob"
  shows "orch_inv ob"
  using assms(2) unfolding orch_reachable_def
  by (induction rule: rtranclp_induct) (auto intro: orch_inv_new orch_inv_step [OF assms(1)])

subsection \<open>Dispatch\<close>

lemma dispatch_one_frame [simp]:
  "o_workflow (dispatch_one x ob) = o_workflow ob" "o_schedule (dispatch_one x ob) = o_schedule ob"
  "o_replan (dispatch_one x ob) = o_replan ob"
  "completed_tasks (o_state (dispatch_one x ob)) = completed_tasks (o_state ob)"
  "unavailable_actors (o_state (dispatch_one x ob)) = unavailable_actors (o_state ob)"
  "assigned_tasks (o_state (dispatch_one x ob)) = assigned_tasks (o_state ob) @ [as_task_id x]"
  "map_of (task_actor (o_state (dispatch_one x ob))) =
     (map_of (task_actor (o_state ob)))(as_task_id x \<mapsto> as_actor_id x)"
  "set (unresumable_tasks (o_state (dispatch_one x ob))) =
     set (unresumable_tasks (o_state ob)) - {as_task_id x}"
  by (auto simp: dispatch_one_def Let_def)

definition dispatchable :: "time \<Rightarrow> orchestrator \<Rightarrow> task_id \<Rightarrow> actor_id \<Rightarrow> bool" where
  "dispatchable now ob t a \<longleftrightarrow>
     (\<exists>x\<in>set (sr_assignments (o_schedule ob)). as_task_id x = t \<and> as_actor_id x = a \<and>
        as_start_time x \<le> now) \<and>
     set (task_deps (o_workflow ob) t) \<subseteq> set (completed_tasks (o_state ob)) \<and>
     t \<notin> set (completed_tasks (o_state ob)) \<and> t \<notin> set (assigned_tasks (o_state ob)) \<and>
     t \<notin> set (unresumable_tasks (o_state ob))"

lemma task_dependencies_completed_iff:
  "task_dependencies_completed ob t \<longleftrightarrow>
     set (task_deps (o_workflow ob) t) \<subseteq> set (completed_tasks (o_state ob))"
  by (auto simp: task_dependencies_completed_def task_deps_def list_all_iff split: option.splits)

lemma may_dispatch_dispatchable:
  "may_dispatch now ob x \<Longrightarrow> x \<in> set (sr_assignments (o_schedule ob)) \<Longrightarrow>
     dispatchable now ob (as_task_id x) (as_actor_id x)"
  by (auto simp: may_dispatch_iff dispatchable_def task_dependencies_completed_iff)

text \<open>
  The state of a partial dispatch pass, relative to the state \<open>ob0\<close> it began in: everything
  newly assigned was dispatchable in \<open>ob0\<close> and has the owner the schedule names.
\<close>

definition dispatch_inv :: "time \<Rightarrow> orchestrator \<Rightarrow> orchestrator \<Rightarrow> bool" where
  "dispatch_inv now ob0 ob \<longleftrightarrow>
     o_workflow ob = o_workflow ob0 \<and> o_schedule ob = o_schedule ob0 \<and>
     completed_tasks (o_state ob) = completed_tasks (o_state ob0) \<and>
     set (unresumable_tasks (o_state ob)) = set (unresumable_tasks (o_state ob0)) \<and>
     set (assigned_tasks (o_state ob0)) \<subseteq> set (assigned_tasks (o_state ob)) \<and>
     (\<forall>t\<in>set (assigned_tasks (o_state ob)). t \<notin> set (assigned_tasks (o_state ob0)) \<longrightarrow>
        (\<exists>a. map_of (task_actor (o_state ob)) t = Some a \<and> dispatchable now ob0 t a))"

lemma dispatch_inv_step:
  assumes "dispatch_inv now ob0 ob" and "x \<in> set (sr_assignments (o_schedule ob0))"
  shows "dispatch_inv now ob0 (dispatch_assignment now x ob)"
proof (cases "may_dispatch now ob x")
  case True
  have "dispatchable now ob (as_task_id x) (as_actor_id x)"
    using True assms by (intro may_dispatch_dispatchable) (simp_all add: dispatch_inv_def)
  then have new: "dispatchable now ob0 (as_task_id x) (as_actor_id x)"
    using assms(1) unfolding dispatch_inv_def dispatchable_def by (metis subsetD)
  then show ?thesis
    using assms(1) True
    unfolding dispatch_inv_def dispatch_assignment_def
    by (auto simp: may_dispatch_iff)
next
  case False
  then show ?thesis using assms(1) by (simp add: dispatch_assignment_def)
qed

lemma apply_dispatch_inv:
  "dispatch_inv now ob (fold (dispatch_assignment now) (sr_assignments (o_schedule ob)) ob)"
  by (rule fold_invariant_list) (auto intro: dispatch_inv_step, simp add: dispatch_inv_def)

lemma orch_event_state [simp]:
  "o_state (orch_event msm e ob) = o_state ob" "o_schedule (orch_event msm e ob) = o_schedule ob"
  "o_registry (orch_event msm e ob) = o_registry ob" "o_replan (orch_event msm e ob) = o_replan ob"
  "o_workflow (orch_event msm e ob) = o_workflow ob" "o_strategy (orch_event msm e ob) = o_strategy ob"
  "o_profile (orch_event msm e ob) = o_profile ob"
  by (simp_all add: orch_event_def)

lemma run_planning_state [simp]:
  "o_state (run_planning env msm now ob) = o_state ob"
  "o_registry (run_planning env msm now ob) = o_registry ob"
  by (simp_all add: run_planning_def Let_def)

lemma tick_assigned_cases:
  assumes "t \<in> set (assigned_tasks (o_state (orch_tick env msm now ob)))"
    and "t \<notin> set (assigned_tasks (o_state ob))"
  shows "\<not> o_replan ob \<and> (\<exists>a. map_of (task_actor (o_state (orch_tick env msm now ob))) t = Some a
     \<and> dispatchable now ob t a)"
proof -
  let ?d = "fold (dispatch_assignment now) (sr_assignments (o_schedule ob)) ob"
  from assms have nr: "\<not> o_replan ob" and st: "o_state (orch_tick env msm now ob) = o_state ?d"
    by (auto simp: orch_tick_def Let_def apply_dispatch_def split: if_splits)
  with assms apply_dispatch_inv [of now ob] show ?thesis unfolding dispatch_inv_def by metis
qed

subsection \<open>Schedules name registered, available actors\<close>

definition schedule_avail :: "orchestrator \<Rightarrow> bool" where
  "schedule_avail ob \<longleftrightarrow> registry_wf (o_registry ob) \<and>
     (\<forall>x\<in>set (sr_assignments (o_schedule ob)). as_actor_id x \<in> dom (map_of (o_registry ob)) \<and>
        (o_replan ob \<or> as_actor_id x \<notin> set (unavailable_actors (o_state ob))))"

lemma plan_actor_available:
  assumes "registry_wf reg" and "x \<in> set (sr_assignments (plan env w st reg now strategy profile))"
  shows "as_actor_id x \<in> dom (map_of reg) \<and> as_actor_id x \<notin> set (unavailable_actors st)"
proof -
  from plan_assignment_pending [OF assms] obtain p act where "as_actor_id x = a_id act"
    and "eligible_at (initial_plan_ctx env st reg now strategy profile (collect_pending_tasks w st))
           p act (as_start_time x)" by metis
  then show ?thesis by (simp add: eligible_at_def initial_plan_ctx_def registry_get_def dom_def)
qed

lemma dom_registry_modify [simp]: "dom (map_of (registry_modify r a f)) = dom (map_of r)"
  by (auto simp: registry_modify_def dom_def split: option.splits)

lemma dom_registry_add [simp]: "dom (map_of (registry_add r a)) = insert (a_id a) (dom (map_of r))"
  by (auto simp: registry_add_def dom_def)

lemma dom_release_owner [simp]:
  "dom (map_of (o_registry (release_owner t ob))) = dom (map_of (o_registry ob))"
  by (simp add: release_owner_def Let_def split: option.splits)

interpretation avail_inv: orch_invariant env msm schedule_avail for env msm
  by unfold_locales
     (simp_all add: schedule_avail_def registry_wf_modify dispatch_one_def Let_def plan_actor_available,
      (blast dest: plan_actor_available)+)

lemma schedule_avail_step:
  assumes "orch_step env msm ob ob'" and "schedule_avail ob"
  shows "schedule_avail ob'"
  using assms(1)
proof cases
  case step_start
  then show ?thesis using avail_inv.inv_start assms by blast
next
  case (step_tick now)
  then show ?thesis using avail_inv.inv_tick assms by blast
next
  case (step_phase ph)
  then show ?thesis using assms(2) by (simp add: schedule_avail_def complete_phase_def Let_def)
next
  case (step_unavailable a b)
  then show ?thesis using assms(2)
    by (auto simp: schedule_avail_def set_actor_unavailable_def request_replan_def Let_def
        dest: notin_set_remove1)
qed (use assms(2) in \<open>simp_all add: schedule_avail_def orch_op_defs Let_def registry_wf_add
       empty_workflow_state_def notify_task_failed_def notify_task_completed_def release_owner_registry_wf
       split: option.splits\<close>)

lemma schedule_avail_new: "schedule_avail new_orchestrator"
  by (simp add: schedule_avail_def new_orchestrator_def registry_wf_def empty_schedule_result_def)

lemma schedule_avail_reachable: "orch_reachable env msm ob \<Longrightarrow> schedule_avail ob"
  unfolding orch_reachable_def
  by (induction rule: rtranclp_induct) (auto intro: schedule_avail_step schedule_avail_new)

subsection \<open>Load accounting\<close>

text \<open>
  \<open>assigned_demand ob a\<close> is the demand of the in-flight tasks that \<open>a\<close> owns. As long as the
  registry and the workflow are not replaced, an actor's load is a constant base (the load it was
  registered with) plus that demand.
\<close>

definition assigned_demand :: "orchestrator \<Rightarrow> actor_id \<Rightarrow> int" where
  "assigned_demand ob a = sum_list (map (task_demand ob)
     (filter (\<lambda>t. map_of (task_actor (o_state ob)) t = Some a) (assigned_tasks (o_state ob))))"

definition load_inv :: "(actor_id \<Rightarrow> int) \<Rightarrow> orchestrator \<Rightarrow> bool" where
  "load_inv base ob \<longleftrightarrow> orch_inv ob \<and> (\<forall>a. 0 \<le> base a) \<and> (\<forall>t. 0 \<le> task_demand ob t) \<and>
     (\<forall>a act. registry_get (o_registry ob) a = Some act \<longrightarrow>
        current_load act = base a + assigned_demand ob a)"

lemma registry_get_modify:
  "registry_get (registry_modify r a f) b =
     (if b = a then map_option f (registry_get r a) else registry_get r b)"
  by (auto simp: registry_get_def registry_modify_def split: option.splits)

lemma task_demand_workflow: "o_workflow ob = o_workflow ob' \<Longrightarrow> task_demand ob = task_demand ob'"
  by (intro ext) (simp add: task_demand_def)

lemma assigned_demand_dispatch:
  assumes "may_dispatch now ob x"
  shows "assigned_demand (dispatch_one x ob) a =
     assigned_demand ob a + (if as_actor_id x = a then task_demand ob (as_task_id x) else 0)"
proof -
  have "filter (\<lambda>t. map_of (task_actor (o_state (dispatch_one x ob))) t = Some a) (assigned_tasks (o_state ob))
      = filter (\<lambda>t. map_of (task_actor (o_state ob)) t = Some a) (assigned_tasks (o_state ob))"
    using assms by (intro filter_cong) (auto simp: may_dispatch_iff)
  moreover have "task_demand (dispatch_one x ob) = task_demand ob"
    by (rule task_demand_workflow) simp
  ultimately show ?thesis by (simp add: assigned_demand_def)
qed

lemma load_inv_dispatch:
  assumes "load_inv base ob" and "may_dispatch now ob x"
  shows "load_inv base (dispatch_one x ob)"
proof -
  have "task_demand (dispatch_one x ob) = task_demand ob" by (rule task_demand_workflow) simp
  moreover have "o_registry (dispatch_one x ob) = registry_modify (o_registry ob) (as_actor_id x)
      (\<lambda>act. act\<lparr>current_load := current_load act + task_demand ob (as_task_id x)\<rparr>)"
    by (simp add: dispatch_one_def Let_def)
  ultimately show ?thesis
    using assms orch_inv_dispatch [of ob now x]
    by (auto simp: load_inv_def assigned_demand_dispatch [OF assms(2)] registry_get_modify split: if_splits)
qed

lemma load_inv_cong:
  assumes "load_inv base ob" and "orch_inv ob'" and "o_workflow ob' = o_workflow ob"
    and "o_registry ob' = o_registry ob" and "assigned_tasks (o_state ob') = assigned_tasks (o_state ob)"
    and "task_actor (o_state ob') = task_actor (o_state ob)"
  shows "load_inv base ob'"
  using assms task_demand_workflow [OF assms(3)] by (simp add: load_inv_def assigned_demand_def)

interpretation load_invariant:
  orch_invariant env msm "\<lambda>ob. msm_follows_table msm \<and> load_inv base ob" for env msm base
proof (unfold_locales, goal_cases)
  case (1 ob e)
  then show ?case
    using load_inv_cong [of base ob "orch_event msm e ob"] orch_inv_event by (auto simp: load_inv_def)
next
  case (6 ob now x)
  then show ?case using load_inv_dispatch by blast
qed (simp_all add: load_inv_def orch_inv_def assigned_demand_def task_demand_def [abs_def])

lemma sum_list_filter_removeAll:
  fixes f :: "'a \<Rightarrow> int"
  shows "distinct xs \<Longrightarrow> sum_list (map f (filter P (removeAll t xs))) =
     sum_list (map f (filter P xs)) - (if t \<in> set xs \<and> P t then f t else 0)"
  by (induction xs) (auto simp: removeAll_id)

text \<open>The effect of giving a task up: its demand leaves its owner's load.\<close>

lemma assigned_demand_release:
  assumes "orch_inv ob" and "o_workflow ob' = o_workflow ob"
    and "assigned_tasks (o_state ob') = removeAll t (assigned_tasks (o_state ob))"
    and "map_of (task_actor (o_state ob')) = (map_of (task_actor (o_state ob)))(t := None)"
  shows "assigned_demand ob' a = assigned_demand ob a -
     (if map_of (task_actor (o_state ob)) t = Some a then task_demand ob t else 0)"
proof -
  have "t \<in> set (assigned_tasks (o_state ob))" if "map_of (task_actor (o_state ob)) t = Some a"
    using assms(1) that by (auto simp: orch_inv_def)
  moreover have "filter (\<lambda>u. map_of (task_actor (o_state ob')) u = Some a) (assigned_tasks (o_state ob'))
      = filter (\<lambda>u. map_of (task_actor (o_state ob)) u = Some a) (removeAll t (assigned_tasks (o_state ob)))"
    using assms(3,4) by (auto intro!: filter_cong)
  ultimately show ?thesis
    using assms(1) task_demand_workflow [OF assms(2)]
    by (simp add: assigned_demand_def orch_inv_def sum_list_filter_removeAll)
qed

lemma assigned_demand_ge:
  assumes "load_inv base ob" and "map_of (task_actor (o_state ob)) t = Some a"
  shows "task_demand ob t \<le> assigned_demand ob a"
proof -
  from assms have "t \<in> set (assigned_tasks (o_state ob))" and "distinct (assigned_tasks (o_state ob))"
    by (auto simp: load_inv_def orch_inv_def)
  then have "assigned_demand ob a - task_demand ob t = sum_list (map (task_demand ob)
      (filter (\<lambda>t. map_of (task_actor (o_state ob)) t = Some a) (removeAll t (assigned_tasks (o_state ob)))))"
    using assms(2) by (simp add: assigned_demand_def sum_list_filter_removeAll)
  also have "\<dots> \<ge> 0"
    using assms(1) by (intro sum_list_nonneg) (auto simp: load_inv_def)
  finally show ?thesis by simp
qed

lemma release_owner_registry:
  "registry_get (o_registry (release_owner t ob)) a =
     (if map_of (task_actor (o_state ob)) t = Some a
      then map_option (\<lambda>act. if current_load act > 0
             then act\<lparr>current_load := max 0 (current_load act - task_demand ob t)\<rparr> else act)
           (registry_get (o_registry ob) a)
      else registry_get (o_registry ob) a)"
  by (auto simp: release_owner_def Let_def registry_get_modify split: option.splits)

lemma load_inv_release:
  assumes "load_inv base ob" and "orch_inv ob'" and "o_workflow ob1 = o_workflow ob"
    and "o_registry ob1 = o_registry ob" and "task_actor (o_state ob1) = task_actor (o_state ob)"
    and "o_workflow ob' = o_workflow ob" and "o_registry ob' = o_registry (release_owner t ob1)"
    and "assigned_tasks (o_state ob') = removeAll t (assigned_tasks (o_state ob))"
    and "map_of (task_actor (o_state ob')) = (map_of (task_actor (o_state ob)))(t := None)"
  shows "load_inv base ob'"
proof -
  have ad: "assigned_demand ob' a = assigned_demand ob a -
      (if map_of (task_actor (o_state ob)) t = Some a then task_demand ob t else 0)" for a
    by (rule assigned_demand_release) (use assms in \<open>auto simp: load_inv_def\<close>)
  have "current_load act = base a + assigned_demand ob' a"
    if reg: "registry_get (o_registry ob') a = Some act" for a act
  proof (cases "map_of (task_actor (o_state ob)) t = Some a")
    case True
    have pos: "0 \<le> base a" "0 \<le> task_demand ob t" using assms(1) by (simp_all add: load_inv_def)
    have dem: "task_demand ob1 = task_demand ob" by (rule task_demand_workflow) fact
    have rg: "registry_get (o_registry ob') a = map_option (\<lambda>act. if current_load act > 0
        then act\<lparr>current_load := max 0 (current_load act - task_demand ob t)\<rparr> else act)
        (registry_get (o_registry ob) a)"
      using True by (simp only: assms(4,5,7) release_owner_registry dem if_True simp_thms)
    then obtain act0 where act0: "registry_get (o_registry ob) a = Some act0"
      using reg by (cases "registry_get (o_registry ob) a") simp_all
    have act: "current_load act = (if current_load act0 > 0
        then max 0 (current_load act0 - task_demand ob t) else current_load act0)"
      using reg unfolding rg act0 by (auto split: if_splits)
    from act0 assms(1) have "current_load act0 = base a + assigned_demand ob a"
      by (simp add: load_inv_def)
    with act pos assigned_demand_ge [OF assms(1) True] True ad [of a] show ?thesis by (auto split: if_splits)
  next
    case False
    with reg assms(1,4,5,7) ad [of a] show ?thesis
      by (simp add: release_owner_registry load_inv_def)
  qed
  then show ?thesis
    using assms(1,2) task_demand_workflow [OF assms(6)] by (simp add: load_inv_def)
qed

lemma load_inv_failed:
  assumes "load_inv base ob"
  shows "load_inv base (notify_task_failed t r ob)"
proof -
  have "orch_inv (notify_task_failed t r ob)"
    using assms by (auto simp: load_inv_def [of base ob] intro: orch_inv_failed)
  from load_inv_release [OF assms this, where t = t and ?ob1.0 = "ob\<lparr>o_state := (o_state ob)\<lparr>assigned_tasks :=
        erase_value (assigned_tasks (o_state ob)) t,
        completed_tasks := erase_value (completed_tasks (o_state ob)) t\<rparr>\<rparr>"]
  show ?thesis by (simp add: notify_task_failed_def Let_def request_replan_def)
qed

lemma load_inv_completed:
  assumes "load_inv base ob"
  shows "load_inv base (notify_task_completed t c ob)"
proof -
  have "orch_inv (notify_task_completed t c ob)"
    using assms by (auto simp: load_inv_def [of base ob] intro: orch_inv_completed)
  from load_inv_release [OF assms this, where t = t and ?ob1.0 = "ob\<lparr>o_state := (o_state ob)\<lparr>assigned_tasks :=
        erase_value (assigned_tasks (o_state ob)) t,
        completed_tasks := push_unique (completed_tasks (o_state ob)) t\<rparr>\<rparr>"]
  show ?thesis by (simp add: notify_task_completed_def Let_def request_replan_def)
qed

text \<open>The steps that keep the workflow and the registered actors.\<close>

inductive runtime_step :: "runtime_env \<Rightarrow> msm_backend \<Rightarrow> orchestrator \<Rightarrow> orchestrator \<Rightarrow> bool"
  for env msm where
  "runtime_step env msm ob (set_scheduling_strategy s ob)"
| "runtime_step env msm ob (set_actor_ranking_profile p ob)"
| "runtime_step env msm ob (orch_start env msm ob)"
| "runtime_step env msm ob (orch_tick env msm now ob)"
| "runtime_step env msm ob (set_actor_unavailable a b ob)"
| "runtime_step env msm ob (notify_task_failed t r ob)"
| "runtime_step env msm ob (notify_task_completed t c ob)"
| "runtime_step env msm ob (mark_task_resumable t ob)"
| "runtime_step env msm ob (complete_phase msm ph ob)"

lemma runtime_step_orch_step: "runtime_step env msm ob ob' \<Longrightarrow> orch_step env msm ob ob'"
  by (induction rule: runtime_step.induct) (rule orch_step.intros)+

lemma load_inv_step:
  assumes "msm_follows_table msm" and "runtime_step env msm ob ob'" and "load_inv base ob"
  shows "load_inv base ob'"
proof -
  have inv: "orch_inv ob'"
    using orch_inv_step [OF assms(1) runtime_step_orch_step [OF assms(2)]] assms(3)
    by (simp add: load_inv_def)
  note cong = load_inv_cong [OF assms(3) inv]
  from assms(2) show ?thesis
  proof cases
    case 3
    then show ?thesis using load_invariant.inv_start assms(1,3) by blast
  next
    case (4 now)
    then show ?thesis using load_invariant.inv_tick assms(1,3) by blast
  next
    case (6 t r)
    then show ?thesis using load_inv_failed assms by blast
  next
    case (7 t c)
    then show ?thesis using load_inv_completed assms by blast
  qed (rule cong; simp add: orch_op_defs Let_def complete_phase_def split: option.split)+
qed

lemma load_inv_run:
  assumes "msm_follows_table msm" and "load_inv base ob"
  shows "(runtime_step env msm)\<^sup>*\<^sup>* ob ob' \<Longrightarrow> load_inv base ob'"
  by (induction rule: rtranclp_induct) (auto intro: assms(2) load_inv_step [OF assms(1)])

subsection \<open>Guarantees\<close>

text \<open>
  C11. In every reachable orchestrator the workflow state is consistent: no task is assigned
  twice, an assigned task is neither completed nor unresumable, no task is both resumable and
  unresumable, exactly the assigned tasks have an owner, and the planner's own state agrees with
  the state machine back-end (so it is never \<open>Completing\<close>).
\<close>

theorem orchestrator_state_consistent:
  assumes "msm_follows_table msm" and "orch_reachable env msm ob"
  shows "distinct (assigned_tasks (o_state ob)) \<and>
    set (assigned_tasks (o_state ob)) \<inter> set (completed_tasks (o_state ob)) = {} \<and>
    set (assigned_tasks (o_state ob)) \<inter> set (unresumable_tasks (o_state ob)) = {} \<and>
    set (resumable_tasks (o_state ob)) \<inter> set (unresumable_tasks (o_state ob)) = {} \<and>
    dom (map_of (task_actor (o_state ob))) = set (assigned_tasks (o_state ob)) \<and>
    fsm_synced (o_fsm ob) \<and> current_planner_state ob \<noteq> Completing"
  using orch_inv_reachable [OF assms] fsm_synced_not_completing
  by (simp add: orch_inv_def current_planner_state_def current_state_def)

text \<open>
  C10. Dispatch is safe: a task that a tick newly assigns is in the latest schedule with a start
  that has been reached, all its dependencies are completed, it is neither completed nor
  unresumable, and its owner is the scheduled actor, which is registered and not marked
  unavailable (an availability change forces a new plan before the next dispatch).
\<close>

theorem tick_dispatch_safe:
  assumes "orch_reachable env msm ob"
    and "t \<in> set (assigned_tasks (o_state (orch_tick env msm now ob)))"
    and "t \<notin> set (assigned_tasks (o_state ob))"
  shows "\<exists>a. map_of (task_actor (o_state (orch_tick env msm now ob))) t = Some a \<and>
    dispatchable now ob t a \<and> registry_get (o_registry ob) a \<noteq> None \<and>
    a \<notin> set (unavailable_actors (o_state ob))"
  using tick_assigned_cases [OF assms(2,3)] schedule_avail_reachable [OF assms(1)]
  by (fastforce simp: dispatchable_def schedule_avail_def registry_get_def)

text \<open>
  C12. Load accounting: between two reconfigurations, every sequence of runtime operations keeps
  each actor's load equal to a constant base plus the demand of the in-flight tasks it owns;
  failures and completions give back exactly what dispatch took.
\<close>

theorem load_conserved:
  assumes "msm_follows_table msm" and "load_inv base ob" and "(runtime_step env msm)\<^sup>*\<^sup>* ob ob'"
    and "registry_get (o_registry ob') a = Some act"
  shows "current_load act = base a + assigned_demand ob' a"
  using load_inv_run [OF assms(1-3)] assms(4) by (simp add: load_inv_def)

end
