(* ===== verification/Orchestrator_Examples.thy ===== *)
theory Orchestrator_Examples
  imports Orchestrator Scheduler_Examples
begin

text \<open>
  Concrete runs of the orchestrator on the workflows of \<open>Scheduler_Examples\<close>, with the first
  matching row of the transition table as the state machine back-end.
\<close>

abbreviation demo_msm :: msm_backend where
  "demo_msm \<equiv> first_row transition_table"

definition demo_configured :: "workflow \<Rightarrow> orchestrator" where
  "demo_configured w = set_workflow w (register_actor demo_actor new_orchestrator)"

definition demo_started :: "workflow \<Rightarrow> orchestrator" where
  "demo_started w = orch_start demo_env demo_msm (demo_configured w)"

definition demo_running :: "workflow \<Rightarrow> orchestrator" where
  "demo_running w = orch_tick demo_env demo_msm 0 (demo_started w)"

lemma demo_configured_reachable: "orch_reachable demo_env demo_msm (demo_configured w)"
  unfolding demo_configured_def
  by (intro orch_reachable_step [OF _ step_set_workflow] orch_reachable_step [OF _ step_register]
      orch_reachable_new)

lemma demo_started_reachable: "orch_reachable demo_env demo_msm (demo_started w)"
  unfolding demo_started_def
  by (rule orch_reachable_step [OF demo_configured_reachable step_start])

lemma demo_running_reachable: "orch_reachable demo_env demo_msm (demo_running w)"
  unfolding demo_running_def
  by (rule orch_reachable_step [OF demo_started_reachable step_tick])

lemma demo_running_assigned:
  "assigned_tasks (o_state (demo_running demo_workflow)) = [''a''] \<and>
   map_of (task_actor (o_state (demo_running demo_workflow))) ''a'' = Some ''x'' \<and>
   current_planner_state (demo_running demo_workflow) = Running"
  by code_simp

theorem orchestrator_state_consistent_witness:
  "assigned_tasks (o_state (demo_running demo_workflow)) = [''a''] \<and>
   dom (map_of (task_actor (o_state (demo_running demo_workflow)))) = {''a''} \<and>
   current_planner_state (demo_running demo_workflow) \<noteq> Completing"
  using orchestrator_state_consistent [OF first_row_follows_table demo_running_reachable [of demo_workflow]]
    demo_running_assigned by simp

theorem tick_dispatch_safe_witness:
  "\<exists>a. map_of (task_actor (o_state (orch_tick demo_env demo_msm 0 (demo_started demo_workflow)))) ''a'' = Some a \<and>
    dispatchable 0 (demo_started demo_workflow) ''a'' a \<and>
    registry_get (o_registry (demo_started demo_workflow)) a \<noteq> None \<and>
    a \<notin> set (unavailable_actors (o_state (demo_started demo_workflow)))"
proof (rule tick_dispatch_safe [OF demo_started_reachable])
  show "''a'' \<in> set (assigned_tasks (o_state (orch_tick demo_env demo_msm 0 (demo_started demo_workflow))))"
    using demo_running_assigned by (simp add: demo_running_def)
  show "''a'' \<notin> set (assigned_tasks (o_state (demo_started demo_workflow)))"
    by code_simp
qed

lemma demo_load_inv: "load_inv (\<lambda>a. 0) (demo_configured demo_workflow)"
proof -
  have "list_all (\<lambda>(_, p). 0 \<le> p_demand p) (processes demo_workflow)" by code_simp
  then have "0 \<le> task_demand (demo_configured demo_workflow) t" for t
    using demand_of_task_nonneg [of demo_workflow t]
    by (simp add: task_demand_def demand_of_task_def demo_configured_def set_workflow_def
        kDefaultTaskDemand_def split: option.splits)
  moreover have "assigned_demand (demo_configured demo_workflow) a = 0" for a
    by (simp add: assigned_demand_def demo_configured_def set_workflow_def empty_workflow_state_def)
  moreover have "current_load act = 0"
    if "registry_get (o_registry (demo_configured demo_workflow)) a = Some act" for a act
    using that by (auto simp: demo_configured_def set_workflow_def register_actor_def
        new_orchestrator_def registry_add_def registry_get_def demo_actor_def default_actor_def split: if_splits)
  moreover have "orch_inv (demo_configured demo_workflow)"
    by (rule orch_inv_reachable [OF first_row_follows_table demo_configured_reachable])
  ultimately show ?thesis by (simp add: load_inv_def)
qed

theorem load_conserved_witness:
  "\<exists>act. registry_get (o_registry (demo_running demo_workflow)) ''x'' = Some act \<and> current_load act = 1 \<and>
     assigned_demand (demo_running demo_workflow) ''x'' = 1"
proof -
  have run: "(runtime_step demo_env demo_msm)\<^sup>*\<^sup>* (demo_configured demo_workflow) (demo_running demo_workflow)"
    unfolding demo_running_def demo_started_def
    by (meson rtranclp.rtrancl_into_rtrancl rtranclp.rtrancl_refl runtime_step.intros(3,4))
  have "map_option current_load (registry_get (o_registry (demo_running demo_workflow)) ''x'') = Some 1"
    by code_simp
  then obtain act where act: "registry_get (o_registry (demo_running demo_workflow)) ''x'' = Some act"
    and "current_load act = 1" by auto
  with load_conserved [OF first_row_follows_table demo_load_inv run act] show ?thesis by auto
qed

subsection \<open>Runs that show a gap\<close>

text \<open>
  A task that overruns its estimate does not hold back the next one: with two independent unit
  tasks on an actor of capacity 1, the second is dispatched at its planned start while the first
  is still in flight, and the load exceeds the capacity.
\<close>

definition overrun_workflow :: workflow where
  "overrun_workflow = demo_flow [demo_task ''a'' 1 [] [], demo_task ''b'' 1 [] []]"

theorem overrun_exceeds_capacity:
  "let ob = orch_tick demo_env demo_msm 1 (demo_running overrun_workflow) in
   assigned_tasks (o_state ob) = [''a'', ''b''] \<and>
   map_option (\<lambda>act. current_load act > a_capacity act) (registry_get (o_registry ob) ''x'') = Some True"
  by code_simp

text \<open>
  Replacing the workflow clears the workflow state but neither the latest schedule nor the
  actors' loads: the next tick dispatches a task of the old workflow, and the load of the tasks
  that were in flight is never given back.
\<close>

theorem set_workflow_keeps_stale_schedule:
  "let ob = set_workflow (empty_workflow ''v'') (demo_running overrun_workflow);
       ob' = orch_tick demo_env demo_msm 1 ob in
   assigned_tasks (o_state ob) = [] \<and>
   map_option current_load (registry_get (o_registry ob) ''x'') = Some 1 \<and>
   assigned_tasks (o_state ob') = [''a'', ''b''] \<and>
   phase_ids (o_workflow ob') = [] \<and> process_for_task (o_workflow ob') ''a'' = None"
  by code_simp

end
