(* ===== verification/Opt_Model.thy ===== *)
theory Opt_Model
  imports Prelude
begin

text \<open>
  The optimizer's data model (\<^verbatim>\<open>optimizer/model.hpp\<close>), the options a back-end receives
  (\<^verbatim>\<open>optimizer/backend.hpp\<close>) and \<^verbatim>\<open>ConstraintIndex\<close> (\<^verbatim>\<open>constraint_index.cpp\<close>). A pointer
  into \<^verbatim>\<open>model.actors\<close> is the pair of the actor's position and the actor, so that comparing
  pointers (\<^verbatim>\<open>std::ranges::unique\<close>) is comparing positions.
\<close>

subsection \<open>Models and solutions\<close>

record optimizer_actor =
  oa_id :: actor_id
  oa_type :: string
  oa_capacity :: int
  oa_windows :: "availability_window list"
  oa_capabilities :: "string list"
  oa_execution_cost_per_unit :: rat

record optimizer_task =
  ot_id :: task_id
  ot_duration :: duration
  ot_release_time :: time
  ot_latest_start_time :: "time option"
  ot_deadline :: "time option"
  ot_priority :: priority
  ot_demand :: int
  ot_mandatory :: bool
  ot_preemptible :: bool
  ot_allowed_actor_types :: "string list"
  ot_allowed_actor_ids :: "actor_id list"
  ot_preferred_actor_ids :: "actor_id list"
  ot_required_capabilities :: "string list"
  ot_dependency_task_ids :: "task_id list"
  ot_mutually_exclusive_task_ids :: "task_id list"
  ot_actor_distances :: "(actor_id, time) umap"
  ot_tardiness_cost_per_unit :: rat
  ot_early_start_bonus :: rat

definition default_optimizer_actor :: optimizer_actor where
  "default_optimizer_actor = \<lparr>oa_id = [], oa_type = [], oa_capacity = 1, oa_windows = [],
     oa_capabilities = [], oa_execution_cost_per_unit = 0\<rparr>"

definition default_optimizer_task :: optimizer_task where
  "default_optimizer_task = \<lparr>ot_id = [], ot_duration = 0, ot_release_time = 0,
     ot_latest_start_time = None, ot_deadline = None, ot_priority = 0, ot_demand = 1,
     ot_mandatory = True, ot_preemptible = False, ot_allowed_actor_types = [],
     ot_allowed_actor_ids = [], ot_preferred_actor_ids = [], ot_required_capabilities = [],
     ot_dependency_task_ids = [], ot_mutually_exclusive_task_ids = [], ot_actor_distances = [],
     ot_tardiness_cost_per_unit = 0, ot_early_start_bonus = 0\<rparr>"

record optimization_model =
  om_id :: workflow_id
  om_actors :: "optimizer_actor list"
  om_tasks :: "optimizer_task list"

record optimized_assignment =
  oas_task_id :: task_id
  oas_actor_id :: actor_id
  oas_start_time :: time
  oas_end_time :: time

record optimization_stats =
  search_nodes :: nat
  pruned_nodes :: nat

record optimization_solution =
  sol_ok :: bool
  sol_assignments :: "optimized_assignment list"
  sol_unfulfilled_task_ids :: "task_id list"
  sol_backend_name :: string
  sol_stats :: optimization_stats
  sol_error_message :: string

definition empty_solution :: optimization_solution where
  "empty_solution = \<lparr>sol_ok = True, sol_assignments = [], sol_unfulfilled_task_ids = [],
     sol_backend_name = [], sol_stats = \<lparr>search_nodes = 0, pruned_nodes = 0\<rparr>, sol_error_message = []\<rparr>"

subsection \<open>Options\<close>

datatype backend_kind = Auto | IndexedExact | OrToolsCpSat | CommercialMip

record objective_weights =
  fulfilled_task_weight :: int
  priority_weight :: int
  makespan_weight :: int
  travel_distance_weight :: int
  tardiness_weight :: int
  execution_cost_weight :: int
  preferred_actor_weight :: int

definition default_objective_weights :: objective_weights where
  "default_objective_weights = \<lparr>fulfilled_task_weight = 1000000, priority_weight = 1000,
     makespan_weight = -1, travel_distance_weight = -1, tardiness_weight = -100,
     execution_cost_weight = -1, preferred_actor_weight = 10\<rparr>"

record optimization_options =
  oo_backend_kind :: backend_kind
  oo_time_limit_ms :: int
  oo_relative_gap_limit :: rat
  oo_num_search_workers :: int
  oo_allow_partial_plan :: bool
  oo_objective :: objective_weights

definition default_optimization_options :: optimization_options where
  "default_optimization_options = \<lparr>oo_backend_kind = Auto, oo_time_limit_ms = 0,
     oo_relative_gap_limit = 0, oo_num_search_workers = 1, oo_allow_partial_plan = True,
     oo_objective = default_objective_weights\<rparr>"

subsection \<open>The constraint index\<close>

type_synonym actor_ref = "nat \<times> optimizer_actor"

record constraint_index =
  ci_tasks_by_id :: "(task_id, optimizer_task) umap"
  ci_actors_by_id :: "(actor_id, actor_ref) umap"
  ci_actors_by_type :: "(string, actor_ref list) umap"
  ci_eligible_actors_by_task :: "(task_id, actor_ref list) umap"
  ci_successors_by_task :: "(task_id, task_id list) umap"

definition actor_refs :: "optimization_model \<Rightarrow> actor_ref list" where
  "actor_refs m = enumerate 0 (om_actors m)"

text \<open>\<^verbatim>\<open>m[k].push_back(v)\<close>\<close>

definition umap_push :: "'k \<Rightarrow> 'v \<Rightarrow> ('k, 'v list) umap \<Rightarrow> ('k, 'v list) umap" where
  "umap_push k v m = AList.update k (umap_at_or m k [] @ [v]) m"

definition build_eligible_actors_for_task ::
  "optimization_model \<Rightarrow> (actor_id, actor_ref) umap \<Rightarrow> (string, actor_ref list) umap
     \<Rightarrow> optimizer_task \<Rightarrow> actor_ref list" where
  "build_eligible_actors_for_task model actors_by_id actors_by_type task =
     (if ot_allowed_actor_ids task \<noteq> [] then
        List.map_filter (\<lambda>i. case map_of actors_by_id i of
            None \<Rightarrow> None
          | Some a \<Rightarrow>
              if ot_allowed_actor_types task \<noteq> [] \<and> oa_type (snd a) \<notin> set (ot_allowed_actor_types task)
              then None else Some a)
          (ot_allowed_actor_ids task)
      else if ot_allowed_actor_types task \<noteq> [] then
        remdups_adj (sort_key (\<lambda>a. oa_id (snd a))
          (concat (map (\<lambda>ty. umap_at_or actors_by_type ty []) (ot_allowed_actor_types task))))
      else actor_refs model)"

definition build_constraint_index :: "optimization_model \<Rightarrow> constraint_index" where
  "build_constraint_index model =
     (let tasks_by_id = fold (\<lambda>t. AList.update (ot_id t) t) (om_tasks model) [];
          successors = fold (\<lambda>t. fold (\<lambda>d. umap_push d (ot_id t)) (ot_dependency_task_ids t)) (om_tasks model) [];
          actors_by_id = fold (\<lambda>a. AList.update (oa_id (snd a)) a) (actor_refs model) [];
          actors_by_type = fold (\<lambda>a. umap_push (oa_type (snd a)) a) (actor_refs model) []
      in \<lparr>ci_tasks_by_id = tasks_by_id, ci_actors_by_id = actors_by_id,
          ci_actors_by_type = actors_by_type,
          ci_eligible_actors_by_task =
            fold (\<lambda>t. umap_emplace (ot_id t)
                   (build_eligible_actors_for_task model actors_by_id actors_by_type t)) (om_tasks model) [],
          ci_successors_by_task = successors\<rparr>)"

definition ci_task :: "constraint_index \<Rightarrow> task_id \<Rightarrow> optimizer_task option" where
  "ci_task ix i = map_of (ci_tasks_by_id ix) i"

definition ci_actor :: "constraint_index \<Rightarrow> actor_id \<Rightarrow> actor_ref option" where
  "ci_actor ix i = map_of (ci_actors_by_id ix) i"

definition eligible_actors_for_task :: "constraint_index \<Rightarrow> optimizer_task \<Rightarrow> actor_ref list" where
  "eligible_actors_for_task ix t = umap_at_or (ci_eligible_actors_by_task ix) (ot_id t) []"

definition successors :: "constraint_index \<Rightarrow> task_id \<Rightarrow> task_id list" where
  "successors ix i = umap_at_or (ci_successors_by_task ix) i []"

definition dependencies_satisfied :: "optimizer_task \<Rightarrow> task_id list \<Rightarrow> task_id list \<Rightarrow> bool" where
  "dependencies_satisfied t scheduled dropped =
     list_all (\<lambda>d. d \<in> set scheduled \<and> d \<notin> set dropped) (ot_dependency_task_ids t)"

definition dependency_blocked :: "optimizer_task \<Rightarrow> task_id list \<Rightarrow> bool" where
  "dependency_blocked t dropped = list_ex (\<lambda>d. d \<in> set dropped) (ot_dependency_task_ids t)"

subsection \<open>What the index answers\<close>

lemma umap_at_or_push [simp]:
  "umap_at_or (umap_push k v m) k' [] = umap_at_or m k' [] @ (if k' = k then [v] else [])"
  by (simp add: umap_push_def umap_at_or_def)

lemma fold_umap_push:
  "set (umap_at_or (fold (\<lambda>x. umap_push (key x) (val x)) xs m) k []) =
     set (umap_at_or m k []) \<union> val ` {x \<in> set xs. key x = k}"
  by (induction xs arbitrary: m) auto

lemma fold_successors:
  "set (umap_at_or (fold (\<lambda>t. fold (\<lambda>d. umap_push d (ot_id t)) (ot_dependency_task_ids t)) ts m) k []) =
     set (umap_at_or m k []) \<union> ot_id ` {t \<in> set ts. k \<in> set (ot_dependency_task_ids t)}"
proof (induction ts arbitrary: m)
  case (Cons t ts)
  have "set (umap_at_or (fold (\<lambda>d. umap_push d (ot_id t)) ds m) k []) =
      set (umap_at_or m k []) \<union> (if k \<in> set ds then {ot_id t} else {})" for ds m
    by (induction ds arbitrary: m) auto
  with Cons show ?case by auto
qed simp

text \<open>Successors are exactly the reversed dependency edges.\<close>

lemma successors_iff:
  "s \<in> set (successors (build_constraint_index model) i) \<longleftrightarrow>
     (\<exists>t\<in>set (om_tasks model). ot_id t = s \<and> i \<in> set (ot_dependency_task_ids t))"
  using fold_successors [of "om_tasks model" "[]" i]
  by (auto simp: successors_def build_constraint_index_def Let_def umap_at_or_def [of "[]"])

lemma map_of_fold_update_unique:
  assumes "distinct (map key xs)"
  shows "map_of (fold (\<lambda>x. AList.update (key x) x) xs m) k =
     (case find (\<lambda>x. key x = k) xs of Some x \<Rightarrow> Some x | None \<Rightarrow> map_of m k)"
proof (cases "find (\<lambda>x. key x = k) xs")
  case None
  then have "k \<notin> key ` set xs" by (auto simp: find_None_iff)
  then have "map_of (fold (\<lambda>x. AList.update (key x) x) xs m) k = map_of m k"
    by (induction xs arbitrary: m) auto
  with None show ?thesis by simp
next
  case (Some y)
  have skip: "map_of (fold (\<lambda>x. AList.update (key x) x) ys m) k = map_of m k" if "k \<notin> key ` set ys" for ys m
    using that by (induction ys arbitrary: m) auto
  from Some assms have "map_of (fold (\<lambda>x. AList.update (key x) x) xs m) k = Some y"
    by (induction xs arbitrary: m) (auto simp: skip split: if_splits)
  with Some show ?thesis by simp
qed

lemma map_of_fold_emplace:
  "map_of (fold (\<lambda>x. umap_emplace (key x) (val x)) xs m) k =
     (case map_of m k of Some v \<Rightarrow> Some v | None \<Rightarrow> map_option val (find (\<lambda>x. key x = k) xs))"
  by (induction xs arbitrary: m) (auto split: option.splits)

lemma find_unique_key:
  "distinct (map key xs) \<Longrightarrow> x \<in> set xs \<Longrightarrow> find (\<lambda>y. key y = key x) xs = Some x"
  by (induction xs) auto

definition model_wf :: "optimization_model \<Rightarrow> bool" where
  "model_wf m \<longleftrightarrow> distinct (map ot_id (om_tasks m)) \<and> distinct (map oa_id (om_actors m))"

lemma actor_refs_ids: "map (\<lambda>a. oa_id (snd a)) (actor_refs m) = map oa_id (om_actors m)"
  by (metis (no_types, lifting) actor_refs_def list.map_comp map_eq_conv map_snd_enumerate o_apply)

lemma set_actor_refs: "a \<in> set (actor_refs m) \<longleftrightarrow> fst a < length (om_actors m) \<and> snd a = om_actors m ! fst a"
  by (cases a) (auto simp: actor_refs_def in_set_enumerate_eq)

definition deps_closed :: "optimization_model \<Rightarrow> bool" where
  "deps_closed m \<longleftrightarrow>
     list_all (\<lambda>t. list_all (\<lambda>d. d \<in> set (map ot_id (om_tasks m))) (ot_dependency_task_ids t)) (om_tasks m)"

definition no_self_dependency :: "optimization_model \<Rightarrow> bool" where
  "no_self_dependency m \<longleftrightarrow> list_all (\<lambda>t. ot_id t \<notin> set (ot_dependency_task_ids t)) (om_tasks m)"

definition allowed_by_lists :: "optimizer_task \<Rightarrow> optimizer_actor \<Rightarrow> bool" where
  "allowed_by_lists t a \<longleftrightarrow>
     (ot_allowed_actor_ids t = [] \<or> oa_id a \<in> set (ot_allowed_actor_ids t)) \<and>
     (ot_allowed_actor_types t = [] \<or> oa_type a \<in> set (ot_allowed_actor_types t))"

lemma build_eligible_iff:
  assumes "model_wf m"
    and by_id: "\<And>i. map_of actors_by_id i = find (\<lambda>a. oa_id (snd a) = i) (actor_refs m)"
    and by_type: "\<And>ty. set (umap_at_or actors_by_type ty []) = {a \<in> set (actor_refs m). oa_type (snd a) = ty}"
  shows "a \<in> set (build_eligible_actors_for_task m actors_by_id actors_by_type t) \<longleftrightarrow>
     a \<in> set (actor_refs m) \<and> allowed_by_lists t (snd a)"
proof -
  have dist: "distinct (map (\<lambda>a. oa_id (snd a)) (actor_refs m))"
    using assms(1) by (simp add: actor_refs_ids model_wf_def)
  have found: "find (\<lambda>a. oa_id (snd a) = i) (actor_refs m) = Some a \<longleftrightarrow>
      a \<in> set (actor_refs m) \<and> oa_id (snd a) = i" for i
    using find_unique_key [OF dist, of a] by (auto dest: find_Some_set)
  have pick: "(case x of None \<Rightarrow> None | Some b \<Rightarrow> if P b then None else Some b) = Some a \<longleftrightarrow>
      x = Some a \<and> \<not> P a" for x and P :: "actor_ref \<Rightarrow> bool"
    by (auto split: option.split)
  show ?thesis
    by (auto simp: build_eligible_actors_for_task_def mem_map_filter by_id by_type allowed_by_lists_def
        pick found)
qed

lemma eligible_actors_iff:
  assumes "model_wf m" and "t \<in> set (om_tasks m)"
  shows "a \<in> set (eligible_actors_for_task (build_constraint_index m) t) \<longleftrightarrow>
     a \<in> set (actor_refs m) \<and> allowed_by_lists t (snd a)"
proof -
  have dist: "distinct (map (\<lambda>a. oa_id (snd a)) (actor_refs m))"
    using assms(1) by (simp add: actor_refs_ids model_wf_def)
  have "find (\<lambda>x. ot_id x = ot_id t) (om_tasks m) = Some t"
    using assms find_unique_key by (auto simp: model_wf_def)
  then have "eligible_actors_for_task (build_constraint_index m) t =
      build_eligible_actors_for_task m (fold (\<lambda>a. AList.update (oa_id (snd a)) a) (actor_refs m) [])
        (fold (\<lambda>a. umap_push (oa_type (snd a)) a) (actor_refs m) []) t"
    by (simp add: eligible_actors_for_task_def build_constraint_index_def Let_def umap_at_or_def
        map_of_fold_emplace)
  moreover have "map_of (fold (\<lambda>a. AList.update (oa_id (snd a)) a) (actor_refs m) []) i =
      find (\<lambda>a. oa_id (snd a) = i) (actor_refs m)" for i
    by (simp add: map_of_fold_update_unique [OF dist] split: option.split)
  moreover have "set (umap_at_or (fold (\<lambda>a. umap_push (oa_type (snd a)) a) (actor_refs m) []) ty []) =
      {a \<in> set (actor_refs m). oa_type (snd a) = ty}" for ty
    using fold_umap_push [of "\<lambda>a. oa_type (snd a)" "\<lambda>a. a" "actor_refs m" "[]" ty]
    by (simp add: umap_at_or_def)
  ultimately show ?thesis using build_eligible_iff [OF assms(1)] by simp
qed

subsection \<open>Feasible schedules\<close>

text \<open>
  What every back-end promises of the assignments it returns, independently of how it finds
  them.
\<close>

definition find_task :: "optimization_model \<Rightarrow> task_id \<Rightarrow> optimizer_task option" where
  "find_task m i = find (\<lambda>t. ot_id t = i) (om_tasks m)"

definition asg_runs :: "optimized_assignment \<Rightarrow> actor_id \<Rightarrow> time \<Rightarrow> bool" where
  "asg_runs x a u \<longleftrightarrow> oas_actor_id x = a \<and> oas_start_time x \<le> u \<and> u < oas_end_time x"

definition asg_demand :: "optimization_model \<Rightarrow> optimized_assignment \<Rightarrow> int" where
  "asg_demand m x = (case find_task m (oas_task_id x) of Some t \<Rightarrow> ot_demand t | None \<Rightarrow> 0)"

definition demand_on :: "optimization_model \<Rightarrow> optimized_assignment list \<Rightarrow> actor_id \<Rightarrow> time \<Rightarrow> int" where
  "demand_on m xs a u = sum_list (map (asg_demand m) (filter (\<lambda>x. asg_runs x a u) xs))"

definition placement_ok :: "optimizer_task \<Rightarrow> optimizer_actor \<Rightarrow> time \<Rightarrow> bool" where
  "placement_ok t a s \<longleftrightarrow>
     allowed_by_lists t a \<and> ot_demand t \<le> oa_capacity a \<and>
     set (ot_required_capabilities t) \<subseteq> set (oa_capabilities a) \<and>
     ot_release_time t \<le> s \<and>
     (\<forall>l. ot_latest_start_time t = Some l \<longrightarrow> s \<le> l) \<and>
     (\<forall>d. ot_deadline t = Some d \<longrightarrow> s + ot_duration t \<le> d) \<and>
     (0 < ot_duration t \<longrightarrow>
        (\<exists>w\<in>set (oa_windows a). win_start w \<le> s \<and> s + ot_duration t \<le> win_end w))"

definition assignment_feasible :: "optimization_model \<Rightarrow> optimized_assignment \<Rightarrow> bool" where
  "assignment_feasible m x \<longleftrightarrow>
     (\<exists>t\<in>set (om_tasks m). \<exists>a\<in>set (om_actors m).
        ot_id t = oas_task_id x \<and> oa_id a = oas_actor_id x \<and>
        oas_end_time x = oas_start_time x + ot_duration t \<and> placement_ok t a (oas_start_time x))"

definition model_deps :: "optimization_model \<Rightarrow> task_id \<Rightarrow> task_id list" where
  "model_deps m i = (case find_task m i of Some t \<Rightarrow> ot_dependency_task_ids t | None \<Rightarrow> [])"

definition model_exclusions :: "optimization_model \<Rightarrow> task_id \<Rightarrow> task_id list" where
  "model_exclusions m i = (case find_task m i of Some t \<Rightarrow> ot_mutually_exclusive_task_ids t | None \<Rightarrow> [])"

definition feasible_schedule :: "optimization_model \<Rightarrow> optimized_assignment list \<Rightarrow> bool" where
  "feasible_schedule m xs \<longleftrightarrow>
     distinct (map oas_task_id xs) \<and>
     (\<forall>x\<in>set xs. assignment_feasible m x) \<and>
     (\<forall>x\<in>set xs. \<forall>d\<in>set (model_deps m (oas_task_id x)).
        \<exists>y\<in>set xs. oas_task_id y = d \<and> oas_end_time y \<le> oas_start_time x) \<and>
     (\<forall>x\<in>set xs. \<forall>a\<in>set (om_actors m). \<forall>u. asg_runs x (oa_id a) u \<longrightarrow>
        demand_on m xs (oa_id a) u \<le> oa_capacity a) \<and>
     (\<forall>x\<in>set xs. \<forall>y\<in>set xs. oas_task_id y \<in> set (model_exclusions m (oas_task_id x)) \<longrightarrow>
        oas_task_id x \<in> set (model_exclusions m (oas_task_id y)) \<longrightarrow> x = y)"

lemma find_task_mem:
  "model_wf m \<Longrightarrow> t \<in> set (om_tasks m) \<Longrightarrow> find_task m (ot_id t) = Some t"
  by (simp add: find_task_def model_wf_def find_unique_key)

lemma actor_unique:
  "model_wf m \<Longrightarrow> a \<in> set (om_actors m) \<Longrightarrow> b \<in> set (om_actors m) \<Longrightarrow> oa_id a = oa_id b \<Longrightarrow> a = b"
  by (auto simp: model_wf_def distinct_map inj_on_def)

lemma demand_on_append [simp]:
  "demand_on m (xs @ [x]) a u = demand_on m xs a u + (if asg_runs x a u then asg_demand m x else 0)"
  by (simp add: demand_on_def)

lemma demand_on_Nil [simp]: "demand_on m [] a u = 0"
  by (simp add: demand_on_def)

end
