(* ===== verification/Text_Input.thy ===== *)
theory Text_Input
  imports Prelude
begin

text \<open>
  The string functions of the C++ standard library the program uses: \<^verbatim>\<open>std::to_string\<close>,
  \<^verbatim>\<open>std::isspace\<close> (C locale), \<^verbatim>\<open>std::getline\<close> with a delimiter, \<^verbatim>\<open>operator>>\<close> on strings, and
  \<^verbatim>\<open>std::stoi\<close> and \<^verbatim>\<open>std::stoll\<close>, whose exceptions are values. A sum type carries errors: \<open>Inl\<close>
  is the error.
\<close>

subsection \<open>Results with errors\<close>

definition bind_result :: "'e + 'a \<Rightarrow> ('a \<Rightarrow> 'e + 'b) \<Rightarrow> 'e + 'b" where
  "bind_result r f = (case r of Inl e \<Rightarrow> Inl e | Inr x \<Rightarrow> f x)"

definition map_error :: "('e \<Rightarrow> 'f) \<Rightarrow> 'e + 'a \<Rightarrow> 'f + 'a" where
  "map_error g r = (case r of Inl e \<Rightarrow> Inl (g e) | Inr x \<Rightarrow> Inr x)"

lemma bind_result_simps [simp]:
  "bind_result (Inl e) f = Inl e" "bind_result (Inr x) f = f x"
  by (simp_all add: bind_result_def)

lemma map_error_simps [simp]: "map_error g (Inl e) = Inl (g e)" "map_error g (Inr x) = Inr x"
  by (simp_all add: map_error_def)

lemma bind_result_Inr [simp]: "bind_result r f = Inr y \<longleftrightarrow> (\<exists>x. r = Inr x \<and> f x = Inr y)"
  by (cases r) auto

lemma bind_result_Inl: "bind_result r f = Inl e \<longleftrightarrow> r = Inl e \<or> (\<exists>x. r = Inr x \<and> f x = Inl e)"
  by (cases r) auto

lemma map_error_Inr [simp]: "map_error g r = Inr x \<longleftrightarrow> r = Inr x"
  by (cases r) auto

subsection \<open>Numbers\<close>

fun digits :: "nat \<Rightarrow> string" where
  "digits n = (if n < 10 then [char_of (48 + n)] else digits (n div 10) @ [char_of (48 + n mod 10)])"

declare digits.simps [simp del]

definition to_string :: "int \<Rightarrow> string" where
  "to_string i = (if i < 0 then ''-'' @ digits (nat (- i)) else digits (nat i))"

datatype num_error = InvalidArgument | OutOfRange

definition isspace :: "char \<Rightarrow> bool" where
  "isspace c = (let n = of_char c :: nat in n = 32 \<or> (9 \<le> n \<and> n \<le> 13))"

definition isdigit :: "char \<Rightarrow> bool" where
  "isdigit c = (let n = of_char c :: nat in 48 \<le> n \<and> n \<le> 57)"

definition digits_value :: "string \<Rightarrow> int" where
  "digits_value ds = foldl (\<lambda>v c. v * 10 + int (of_char c - 48)) 0 ds"

text \<open>
  \<^verbatim>\<open>strtoll\<close> in base 10, as \<^verbatim>\<open>std::stoll\<close> calls it: leading white space and a sign are skipped, the
  longest run of digits is read and what follows is ignored.
\<close>

definition parse_integer :: "int \<Rightarrow> int \<Rightarrow> string \<Rightarrow> num_error + int" where
  "parse_integer lo hi s =
     (let s = dropWhile isspace s;
          (neg, s) = (case s of c # r \<Rightarrow> if c = CHR ''-'' then (True, r) else if c = CHR ''+'' then (False, r) else (False, s)
                      | [] \<Rightarrow> (False, s));
          ds = takeWhile isdigit s;
          v = (if neg then - digits_value ds else digits_value ds)
      in if ds = [] then Inl InvalidArgument
         else if v < lo \<or> hi < v then Inl OutOfRange else Inr v)"

definition stoll :: "string \<Rightarrow> num_error + int" where
  "stoll s = parse_integer (- (2 ^ 63)) (2 ^ 63 - 1) s"

definition stoi :: "string \<Rightarrow> num_error + int" where
  "stoi s = parse_integer (- (2 ^ 31)) (2 ^ 31 - 1) s"

subsection \<open>Lines and tokens\<close>

definition trim :: "string \<Rightarrow> string" where
  "trim s = rev (dropWhile isspace (rev (dropWhile isspace s)))"

text \<open>
  \<^verbatim>\<open>while (std::getline(ss, item, delimiter))\<close>: the pieces between delimiters; a delimiter at the
  end of the input starts no further piece.
\<close>

function getlines :: "char \<Rightarrow> string \<Rightarrow> string list" where
  "getlines d s =
     (if s = [] then []
      else takeWhile (\<lambda>c. c \<noteq> d) s # getlines d (tl (dropWhile (\<lambda>c. c \<noteq> d) s)))"
  by auto
termination
proof (relation "measure (\<lambda>(d, s). length s)")
  fix d and s :: string
  assume "s \<noteq> []"
  then have "length (tl (dropWhile (\<lambda>c. c \<noteq> d) s)) < length s"
    using length_dropWhile_le [of "\<lambda>c. c \<noteq> d" s] by (cases s) (auto simp: less_Suc_eq_le intro: le_trans)
  then show "((d, tl (dropWhile (\<lambda>c. c \<noteq> d) s)), (d, s)) \<in> measure (\<lambda>(d, s). length s)" by simp
qed simp

declare getlines.simps [simp del]

definition split :: "string \<Rightarrow> char \<Rightarrow> string list" where
  "split s d = filter (\<lambda>x. x \<noteq> []) (map trim (getlines d s))"

function tokenize :: "string \<Rightarrow> string list" where
  "tokenize s =
     (let s' = dropWhile isspace s in
      if s' = [] then []
      else takeWhile (\<lambda>c. \<not> isspace c) s' # tokenize (dropWhile (\<lambda>c. \<not> isspace c) s'))"
  by auto
termination
proof (relation "measure length")
  fix s s' :: string
  assume s': "s' = dropWhile isspace s" and ne: "s' \<noteq> []"
  then have "\<not> isspace (hd s')" using hd_dropWhile by blast
  then have "length (dropWhile (\<lambda>c. \<not> isspace c) s') < length s'"
    using ne length_dropWhile_le [of "\<lambda>c. \<not> isspace c" "tl s'"] by (cases s') auto
  also have "\<dots> \<le> length s" using s' by (simp add: length_dropWhile_le)
  finally show "(dropWhile (\<lambda>c. \<not> isspace c) s', s) \<in> measure length" by simp
qed simp

declare tokenize.simps [simp del]

definition starts_with :: "string \<Rightarrow> string \<Rightarrow> bool" where
  "starts_with s p = (take (length p) s = p)"

text \<open>\<^verbatim>\<open>s.find(c)\<close> and the two substrings around it.\<close>

definition cut_at :: "char \<Rightarrow> string \<Rightarrow> (string \<times> string) option" where
  "cut_at c s = (if c \<in> set s then Some (takeWhile (\<lambda>x. x \<noteq> c) s, tl (dropWhile (\<lambda>x. x \<noteq> c) s)) else None)"

subsection \<open>Printing and reading back\<close>

lemma digits_isdigit: "list_all isdigit (digits n)"
proof (induction n rule: digits.induct)
  case (1 n)
  have "isdigit (char_of (48 + k))" if "k < 10" for k :: nat
    using that by (simp add: isdigit_def)
  then show ?case using 1 by (subst digits.simps) auto
qed

lemma digits_value_digits: "digits_value (digits n) = int n"
proof (induction n rule: digits.induct)
  case (1 n)
  have "int (of_char (char_of (48 + k) :: char) - 48) = int k" if "k < 10" for k :: nat
    using that by simp
  moreover have "int (n div 10) * 10 + int (n mod 10) = int n" by presburger
  ultimately show ?case using 1 by (subst digits.simps) (auto simp: digits_value_def)
qed

lemma digits_not_Nil [simp]: "digits n \<noteq> []"
  by (subst digits.simps) auto

text \<open>A number is read back from its printed form, whatever non-digit follows it.\<close>

lemma parse_integer_to_string:
  assumes "lo \<le> i" "i \<le> hi" and "r = [] \<or> \<not> isdigit (hd r)"
  shows "parse_integer lo hi (to_string i @ r) = Inr i"
proof -
  have tw: "takeWhile isdigit (digits n @ r) = digits n" for n
    using assms(3) digits_isdigit [of n] by (cases r) (auto simp: takeWhile_append list_all_iff)
  have digit: "isdigit (hd (digits n))" "hd (digits n @ r) = hd (digits n)" for n
    using digits_isdigit [of n] by (cases "digits n"; simp)+
  have space: "\<not> isspace d" "d \<noteq> CHR ''-''" "d \<noteq> CHR ''+''" if "isdigit d" for d
    using that by (auto simp: isdigit_def isspace_def Let_def)
  obtain d ds where d: "digits (nat \<bar>i\<bar>) @ r = d # ds" "isdigit d"
    using digit [of "nat \<bar>i\<bar>"] by (cases "digits (nat \<bar>i\<bar>) @ r") auto
  have val: "takeWhile isdigit (d # ds) = digits (nat \<bar>i\<bar>)" using tw [of "nat \<bar>i\<bar>"] d(1) by simp
  show ?thesis
  proof (cases "i < 0")
    case True
    then have "to_string i @ r = CHR ''-'' # d # ds" using d(1) by (simp add: to_string_def)
    moreover have "\<not> isspace (CHR ''-'')" by (simp add: isspace_def)
    ultimately show ?thesis using True assms(1,2) val digits_value_digits [of "nat \<bar>i\<bar>"]
      by (simp add: parse_integer_def Let_def del: takeWhile.simps)
  next
    case False
    then have "to_string i @ r = d # ds" using d(1) by (simp add: to_string_def)
    then show ?thesis using False assms(1,2) val digits_value_digits [of "nat \<bar>i\<bar>"] space [OF d(2)]
      by (simp add: parse_integer_def Let_def del: takeWhile.simps)
  qed
qed

lemma stoll_to_string: "- (2 ^ 63) \<le> i \<Longrightarrow> i < 2 ^ 63 \<Longrightarrow> stoll (to_string i) = Inr i"
  using parse_integer_to_string [of "- (2 ^ 63)" i "2 ^ 63 - 1" "[]"] by (simp add: stoll_def)

end
