(* ===== verification/Nlp_Parser.thy ===== *)
theory Nlp_Parser
  imports Opt_Model Text_Input
begin

text \<open>
  \<^verbatim>\<open>optimizer/nlp_parser.cpp\<close>: the parser of the controlled workflow language. A line is either
  accepted, reported (the parser returns an error message) or makes \<^verbatim>\<open>std::stoi\<close>, \<^verbatim>\<open>std::stoll\<close> or
  \<^verbatim>\<open>std::stod\<close> throw; nothing in the parser catches these exceptions. \<^verbatim>\<open>std::stod\<close> is a parameter.
\<close>

datatype parse_failure = Reported string | Thrown num_error

type_synonym 'a parsed = "parse_failure + 'a"

definition kDefaultAvailabilityWindowStart :: time where "kDefaultAvailabilityWindowStart = 0"
definition kDefaultAvailabilityWindowEnd :: time where "kDefaultAvailabilityWindowEnd = 1000000"
definition kWorkflowPrefix :: string where "kWorkflowPrefix = ''workflow ''"
definition kIdPrefix :: string where "kIdPrefix = ''id:''"
definition kActorsSection :: string where "kActorsSection = ''actors''"
definition kTasksSection :: string where "kTasksSection = ''tasks''"
definition kLineItemPrefix :: string where "kLineItemPrefix = ''- ''"

definition quoted :: "string \<Rightarrow> string" where
  "quoted s = [CHR 0x27] @ s @ [CHR 0x27]"

subsection \<open>Values\<close>

fun parse_window_parts :: "string list \<Rightarrow> num_error + availability_window list" where
  "parse_window_parts [] = Inr []"
| "parse_window_parts (p # ps) =
     (case cut_at (CHR ''-'') p of
        None \<Rightarrow> parse_window_parts ps
      | Some (a, b) \<Rightarrow>
          bind_result (stoll a) (\<lambda>s. bind_result (stoll b) (\<lambda>e.
            bind_result (parse_window_parts ps) (\<lambda>ws. Inr (\<lparr>win_start = s, win_end = e\<rparr> # ws)))))"

definition parse_windows :: "string \<Rightarrow> num_error + availability_window list" where
  "parse_windows spec = parse_window_parts (split spec (CHR '',''))"

fun parse_distance_parts :: "string list \<Rightarrow> (actor_id, time) umap \<Rightarrow> num_error + (actor_id, time) umap" where
  "parse_distance_parts [] m = Inr m"
| "parse_distance_parts (p # ps) m =
     (case cut_at (CHR ''='') p of
        None \<Rightarrow> parse_distance_parts ps m
      | Some (a, b) \<Rightarrow>
          bind_result (stoll (trim b)) (\<lambda>v. parse_distance_parts ps (AList.update (trim a) v m)))"

definition parse_distances :: "string \<Rightarrow> num_error + (actor_id, time) umap" where
  "parse_distances spec = parse_distance_parts (split spec (CHR '','')) []"

definition is_section_line :: "string \<Rightarrow> string \<Rightarrow> bool" where
  "is_section_line line sec = (line = sec \<or> line = sec @ '':'')"

subsection \<open>Validation\<close>

fun first_duplicate :: "string list \<Rightarrow> string list \<Rightarrow> string option" where
  "first_duplicate seen [] = None"
| "first_duplicate seen (x # xs) = (if x \<in> set seen then Some x else first_duplicate (x # seen) xs)"

definition unknown_reference :: "task_id list \<Rightarrow> optimizer_task \<Rightarrow> string option" where
  "unknown_reference ids t =
     (case find (\<lambda>d. d \<notin> set ids) (ot_dependency_task_ids t) of
        Some d \<Rightarrow> Some (''Task '' @ quoted (ot_id t) @ '' depends on unknown task '' @ quoted d @ ''.'')
      | None \<Rightarrow>
          (case find (\<lambda>d. d \<notin> set ids) (ot_mutually_exclusive_task_ids t) of
             Some d \<Rightarrow> Some (''Task '' @ quoted (ot_id t) @ '' declares unknown mutex task '' @ quoted d @ ''.'')
           | None \<Rightarrow> None))"

fun first_unknown_reference :: "task_id list \<Rightarrow> optimizer_task list \<Rightarrow> string option" where
  "first_unknown_reference ids [] = None"
| "first_unknown_reference ids (t # ts) =
     (case unknown_reference ids t of Some e \<Rightarrow> Some e | None \<Rightarrow> first_unknown_reference ids ts)"

definition validate_model :: "optimization_model \<Rightarrow> string option" where
  "validate_model model =
     (case first_duplicate [] (map oa_id (om_actors model)) of
        Some i \<Rightarrow> Some (''Duplicate actor id '' @ quoted i @ '' in controlled workflow request.'')
      | None \<Rightarrow>
          (case first_duplicate [] (map ot_id (om_tasks model)) of
             Some i \<Rightarrow> Some (''Duplicate task id '' @ quoted i @ '' in controlled workflow request.'')
           | None \<Rightarrow> first_unknown_reference (map ot_id (om_tasks model)) (om_tasks model)))"

subsection \<open>Actor lines\<close>

definition unknown_field_error :: "string \<Rightarrow> string \<Rightarrow> int \<Rightarrow> string" where
  "unknown_field_error entity_kind field line_number =
     ''Unknown '' @ entity_kind @ '' field '' @ quoted field @ '' on line '' @ to_string line_number @ ''.''"

definition thrown :: "num_error + 'a \<Rightarrow> 'a parsed" where
  "thrown r = map_error Thrown r"

definition actor_fields :: "string list" where
  "actor_fields = [''type'', ''capacity'', ''windows'', ''capabilities'', ''cost'']"

definition set_actor_field ::
  "(string \<Rightarrow> num_error + rat) \<Rightarrow> string \<Rightarrow> string \<Rightarrow> optimizer_actor \<Rightarrow> optimizer_actor parsed" where
  "set_actor_field stod field v a =
     (if field = ''type'' then Inr (a\<lparr>oa_type := v\<rparr>)
      else if field = ''capacity'' then bind_result (thrown (stoi v)) (\<lambda>n. Inr (a\<lparr>oa_capacity := n\<rparr>))
      else if field = ''windows'' then bind_result (thrown (parse_windows v)) (\<lambda>ws. Inr (a\<lparr>oa_windows := ws\<rparr>))
      else if field = ''capabilities'' then Inr (a\<lparr>oa_capabilities := split v (CHR '','')\<rparr>)
      else if field = ''cost'' then bind_result (thrown (stod v)) (\<lambda>x. Inr (a\<lparr>oa_execution_cost_per_unit := x\<rparr>))
      else Inr a)"

fun parse_actor_fields ::
  "(string \<Rightarrow> num_error + rat) \<Rightarrow> int \<Rightarrow> string list \<Rightarrow> optimizer_actor \<Rightarrow> optimizer_actor parsed" where
  "parse_actor_fields stod lno [] a = Inr a"
| "parse_actor_fields stod lno [field] a =
     (if field \<notin> set actor_fields then Inl (Reported (unknown_field_error ''actor'' field lno))
      else Inl (Reported (''Missing value for actor field '' @ quoted field @ '' on line '' @ to_string lno @ ''.'')))"
| "parse_actor_fields stod lno (field # v # rest) a =
     (if field \<notin> set actor_fields then Inl (Reported (unknown_field_error ''actor'' field lno))
      else bind_result (set_actor_field stod field v a) (parse_actor_fields stod lno rest))"

definition finish_actor :: "int \<Rightarrow> optimizer_actor \<Rightarrow> optimizer_actor parsed" where
  "finish_actor lno a =
     (if oa_id a = [] then Inl (Reported (''Actor id must not be empty on line '' @ to_string lno @ ''.''))
      else if oa_type a = [] then
        Inl (Reported (''Actor type is required for actor '' @ quoted (oa_id a) @ '' on line '' @ to_string lno @ ''.''))
      else if oa_windows a = [] then
        Inr (a\<lparr>oa_windows := [\<lparr>win_start = kDefaultAvailabilityWindowStart, win_end = kDefaultAvailabilityWindowEnd\<rparr>]\<rparr>)
      else Inr a)"

definition parse_actor_line ::
  "(string \<Rightarrow> num_error + rat) \<Rightarrow> string \<Rightarrow> int \<Rightarrow> optimizer_actor parsed" where
  "parse_actor_line stod line lno =
     (case tokenize line of
        k # i # rest \<Rightarrow>
          if k \<noteq> ''actor'' then Inl (Reported (''Invalid actor declaration on line '' @ to_string lno @ ''.''))
          else bind_result (parse_actor_fields stod lno rest (default_optimizer_actor\<lparr>oa_id := i\<rparr>)) (finish_actor lno)
      | _ \<Rightarrow> Inl (Reported (''Invalid actor declaration on line '' @ to_string lno @ ''.'')))"

subsection \<open>Task lines\<close>

definition task_fields :: "string list" where
  "task_fields = [''duration'', ''release'', ''latest_start'', ''deadline'', ''priority'', ''requires_type'',
     ''requires_types'', ''allowed_actor'', ''allowed_actors'', ''preferred_actor'', ''preferred_actors'',
     ''depends_on'', ''depends'', ''distances'', ''distance'', ''mandatory'', ''preemptible'', ''demand'',
     ''requires_capabilities'', ''mutex'', ''tardiness_cost'', ''early_start_bonus'']"

definition set_task_field ::
  "(string \<Rightarrow> num_error + rat) \<Rightarrow> string \<Rightarrow> string \<Rightarrow> optimizer_task \<Rightarrow> optimizer_task parsed" where
  "set_task_field stod field v t =
     (if field = ''duration'' then bind_result (thrown (stoll v)) (\<lambda>n. Inr (t\<lparr>ot_duration := n\<rparr>))
      else if field = ''release'' then bind_result (thrown (stoll v)) (\<lambda>n. Inr (t\<lparr>ot_release_time := n\<rparr>))
      else if field = ''latest_start'' then bind_result (thrown (stoll v)) (\<lambda>n. Inr (t\<lparr>ot_latest_start_time := Some n\<rparr>))
      else if field = ''deadline'' then bind_result (thrown (stoll v)) (\<lambda>n. Inr (t\<lparr>ot_deadline := Some n\<rparr>))
      else if field = ''priority'' then bind_result (thrown (stoi v)) (\<lambda>n. Inr (t\<lparr>ot_priority := n\<rparr>))
      else if field = ''requires_type'' \<or> field = ''requires_types'' then Inr (t\<lparr>ot_allowed_actor_types := split v (CHR '','')\<rparr>)
      else if field = ''allowed_actor'' \<or> field = ''allowed_actors'' then Inr (t\<lparr>ot_allowed_actor_ids := split v (CHR '','')\<rparr>)
      else if field = ''preferred_actor'' \<or> field = ''preferred_actors'' then Inr (t\<lparr>ot_preferred_actor_ids := split v (CHR '','')\<rparr>)
      else if field = ''depends_on'' \<or> field = ''depends'' then Inr (t\<lparr>ot_dependency_task_ids := split v (CHR '','')\<rparr>)
      else if field = ''distances'' \<or> field = ''distance'' then
        bind_result (thrown (parse_distances v)) (\<lambda>m. Inr (t\<lparr>ot_actor_distances := m\<rparr>))
      else if field = ''mandatory'' then Inr (t\<lparr>ot_mandatory := (v = ''true'')\<rparr>)
      else if field = ''preemptible'' then Inr (t\<lparr>ot_preemptible := (v = ''true'')\<rparr>)
      else if field = ''demand'' then bind_result (thrown (stoi v)) (\<lambda>n. Inr (t\<lparr>ot_demand := n\<rparr>))
      else if field = ''requires_capabilities'' then Inr (t\<lparr>ot_required_capabilities := split v (CHR '','')\<rparr>)
      else if field = ''mutex'' then Inr (t\<lparr>ot_mutually_exclusive_task_ids := split v (CHR '','')\<rparr>)
      else if field = ''tardiness_cost'' then bind_result (thrown (stod v)) (\<lambda>x. Inr (t\<lparr>ot_tardiness_cost_per_unit := x\<rparr>))
      else if field = ''early_start_bonus'' then bind_result (thrown (stod v)) (\<lambda>x. Inr (t\<lparr>ot_early_start_bonus := x\<rparr>))
      else Inr t)"

text \<open>The boolean is \<^verbatim>\<open>saw_duration\<close>.\<close>

fun parse_task_fields ::
  "(string \<Rightarrow> num_error + rat) \<Rightarrow> int \<Rightarrow> string list \<Rightarrow> optimizer_task \<times> bool \<Rightarrow> (optimizer_task \<times> bool) parsed" where
  "parse_task_fields stod lno [] st = Inr st"
| "parse_task_fields stod lno [field] st =
     (if field \<notin> set task_fields then Inl (Reported (unknown_field_error ''task'' field lno))
      else Inl (Reported (''Missing value for task field '' @ quoted field @ '' on line '' @ to_string lno @ ''.'')))"
| "parse_task_fields stod lno (field # v # rest) (t, saw) =
     (if field \<notin> set task_fields then Inl (Reported (unknown_field_error ''task'' field lno))
      else bind_result (set_task_field stod field v t)
        (\<lambda>t'. parse_task_fields stod lno rest (t', saw \<or> field = ''duration'')))"

definition finish_task :: "int \<Rightarrow> optimizer_task \<times> bool \<Rightarrow> optimizer_task parsed" where
  "finish_task lno = (\<lambda>(t, saw_duration).
     if ot_id t = [] then Inl (Reported (''Task id must not be empty on line '' @ to_string lno @ ''.''))
     else if \<not> saw_duration then
       Inl (Reported (''Task duration is required for task '' @ quoted (ot_id t) @ '' on line '' @ to_string lno @ ''.''))
     else Inr t)"

definition parse_task_line ::
  "(string \<Rightarrow> num_error + rat) \<Rightarrow> string \<Rightarrow> int \<Rightarrow> optimizer_task parsed" where
  "parse_task_line stod line lno =
     (case tokenize line of
        k # i # rest \<Rightarrow>
          if k \<noteq> ''task'' then Inl (Reported (''Invalid task declaration on line '' @ to_string lno @ ''.''))
          else bind_result (parse_task_fields stod lno rest (default_optimizer_task\<lparr>ot_id := i\<rparr>, False)) (finish_task lno)
      | _ \<Rightarrow> Inl (Reported (''Invalid task declaration on line '' @ to_string lno @ ''.'')))"

subsection \<open>Requests\<close>

record parse_result =
  pr_ok :: bool
  pr_model :: optimization_model
  pr_error_message :: string

definition empty_model :: optimization_model where
  "empty_model = \<lparr>om_id = [], om_actors = [], om_tasks = []\<rparr>"

text \<open>
  The two section tests of the source are each a disjunction whose second part does not mention
  the section, so the section that is current has no influence; it is kept as the code keeps it.
\<close>

datatype parser_section = NoSection | ActorsSection | TasksSection

fun parse_lines ::
  "(string \<Rightarrow> num_error + rat) \<Rightarrow> string list \<Rightarrow> int \<Rightarrow> parser_section \<Rightarrow> optimization_model
     \<Rightarrow> optimization_model parsed" where
  "parse_lines stod [] lno sec model = Inr model"
| "parse_lines stod (raw_line # rest) lno sec model =
     (let lno = lno + 1; line = trim raw_line in
      if line = [] \<or> starts_with line ''#'' then parse_lines stod rest lno sec model
      else if starts_with line kWorkflowPrefix then
        parse_lines stod rest lno sec (model\<lparr>om_id := trim (drop (length kWorkflowPrefix) line)\<rparr>)
      else if starts_with line kIdPrefix then
        parse_lines stod rest lno sec (model\<lparr>om_id := trim (drop (length kIdPrefix) line)\<rparr>)
      else if is_section_line line kActorsSection then parse_lines stod rest lno ActorsSection model
      else if is_section_line line kTasksSection then parse_lines stod rest lno TasksSection model
      else
        (let line = (if starts_with line kLineItemPrefix then trim (drop (length kLineItemPrefix) line) else line) in
         if (sec = ActorsSection \<and> starts_with line ''actor '') \<or> starts_with line ''actor '' then
           bind_result (parse_actor_line stod line lno) (\<lambda>a.
             parse_lines stod rest lno sec (model\<lparr>om_actors := om_actors model @ [a]\<rparr>))
         else if (sec = TasksSection \<and> starts_with line ''task '') \<or> starts_with line ''task '' then
           bind_result (parse_task_line stod line lno) (\<lambda>t.
             parse_lines stod rest lno sec (model\<lparr>om_tasks := om_tasks model @ [t]\<rparr>))
         else Inl (Reported (''Unrecognized input on line '' @ to_string lno @
                ''. The parser only supports the controlled workflow language.''))))"

definition finish_request :: "optimization_model \<Rightarrow> optimization_model parsed" where
  "finish_request model =
     (if om_actors model = [] then Inl (Reported ''No actors were parsed from the natural-language request.'')
      else if om_tasks model = [] then Inl (Reported ''No tasks were parsed from the natural-language request.'')
      else case validate_model model of Some e \<Rightarrow> Inl (Reported e) | None \<Rightarrow> Inr model)"

text \<open>\<open>Inl\<close> is an exception that leaves the function.\<close>

definition parse_natural_language_request ::
  "(string \<Rightarrow> num_error + rat) \<Rightarrow> string \<Rightarrow> num_error + parse_result" where
  "parse_natural_language_request stod request =
     (case bind_result (parse_lines stod (getlines (CHR 0x0A) request) 0 NoSection (empty_model\<lparr>om_id := ''workflow''\<rparr>))
             finish_request of
        Inr model \<Rightarrow> Inr \<lparr>pr_ok = True, pr_model = model, pr_error_message = []\<rparr>
      | Inl (Reported e) \<Rightarrow> Inr \<lparr>pr_ok = False, pr_model = empty_model, pr_error_message = e\<rparr>
      | Inl (Thrown x) \<Rightarrow> Inl x)"

subsection \<open>What an accepted request looks like\<close>

lemma first_duplicate_None: "first_duplicate seen xs = None \<longleftrightarrow> distinct xs \<and> set seen \<inter> set xs = {}"
  by (induction xs arbitrary: seen) auto

lemma unknown_reference_None:
  "unknown_reference ids t = None \<longleftrightarrow>
     set (ot_dependency_task_ids t) \<subseteq> set ids \<and> set (ot_mutually_exclusive_task_ids t) \<subseteq> set ids"
  by (auto simp: unknown_reference_def find_None_iff split: option.splits dest!: find_Some_set)

lemma first_unknown_reference_None:
  "first_unknown_reference ids ts = None \<longleftrightarrow> list_all (\<lambda>t. unknown_reference ids t = None) ts"
  by (induction ts) (auto split: option.splits)

lemma validate_model_None:
  "validate_model m = None \<longleftrightarrow> model_wf m \<and> deps_closed m \<and>
     list_all (\<lambda>t. set (ot_mutually_exclusive_task_ids t) \<subseteq> ot_id ` set (om_tasks m)) (om_tasks m)"
proof (cases "model_wf m")
  case True
  then have "first_duplicate [] (map oa_id (om_actors m)) = None" "first_duplicate [] (map ot_id (om_tasks m)) = None"
    by (simp_all add: first_duplicate_None model_wf_def)
  with True show ?thesis
    by (auto simp: validate_model_def deps_closed_def list_all_iff first_unknown_reference_None unknown_reference_None)
next
  case False
  then show ?thesis by (auto simp: validate_model_def first_duplicate_None model_wf_def split: option.splits)
qed

definition actor_wf :: "optimizer_actor \<Rightarrow> bool" where
  "actor_wf a \<longleftrightarrow> oa_id a \<noteq> [] \<and> oa_type a \<noteq> [] \<and> oa_windows a \<noteq> []"

lemma parse_actor_line_wf: "parse_actor_line stod line lno = Inr a \<Longrightarrow> actor_wf a"
  by (auto simp: parse_actor_line_def finish_actor_def actor_wf_def split: list.splits if_splits)

lemma parse_task_line_wf: "parse_task_line stod line lno = Inr t \<Longrightarrow> ot_id t \<noteq> []"
  by (auto simp: parse_task_line_def finish_task_def split: list.splits if_splits)

lemma parse_lines_Cons:
  assumes "parse_lines stod (raw_line # rest) lno sec m = Inr m'"
  obtains sec' m1 where "parse_lines stod rest (lno + 1) sec' m1 = Inr m'"
    and "om_actors m1 = om_actors m \<and> om_tasks m1 = om_tasks m \<or>
      (\<exists>a. actor_wf a \<and> om_actors m1 = om_actors m @ [a] \<and> om_tasks m1 = om_tasks m) \<or>
      (\<exists>t. ot_id t \<noteq> [] \<and> om_actors m1 = om_actors m \<and> om_tasks m1 = om_tasks m @ [t])"
proof -
  define line where "line = trim raw_line"
  define item where "item = (if starts_with line kLineItemPrefix then trim (drop (length kLineItemPrefix) line) else line)"
  consider (keep) sec' where "parse_lines stod rest (lno + 1) sec' m = Inr m'"
    | (name) i where "parse_lines stod rest (lno + 1) sec (m\<lparr>om_id := i\<rparr>) = Inr m'"
    | (actor) a where "parse_actor_line stod item (lno + 1) = Inr a"
        "parse_lines stod rest (lno + 1) sec (m\<lparr>om_actors := om_actors m @ [a]\<rparr>) = Inr m'"
    | (task) t where "parse_task_line stod item (lno + 1) = Inr t"
        "parse_lines stod rest (lno + 1) sec (m\<lparr>om_tasks := om_tasks m @ [t]\<rparr>) = Inr m'"
    using assms unfolding parse_lines.simps Let_def line_def [symmetric] item_def [symmetric]
    by (simp split: if_split_asm) blast+
  then show thesis
  proof cases
    case keep then show thesis by (rule that) simp
  next
    case name then show thesis by (rule that) simp
  next
    case actor then show thesis by (intro that [OF actor(2)]) (auto dest: parse_actor_line_wf)
  next
    case task then show thesis by (intro that [OF task(2)]) (auto dest: parse_task_line_wf)
  qed
qed

lemma parse_lines_wf:
  assumes "parse_lines stod ls lno sec m = Inr m'"
    and "list_all actor_wf (om_actors m)" and "list_all (\<lambda>t. ot_id t \<noteq> []) (om_tasks m)"
  shows "list_all actor_wf (om_actors m') \<and> list_all (\<lambda>t. ot_id t \<noteq> []) (om_tasks m')"
  using assms
proof (induction ls arbitrary: lno sec m)
  case (Cons l ls)
  obtain sec' m1 where "parse_lines stod ls (lno + 1) sec' m1 = Inr m'"
    and "om_actors m1 = om_actors m \<and> om_tasks m1 = om_tasks m \<or>
      (\<exists>a. actor_wf a \<and> om_actors m1 = om_actors m @ [a] \<and> om_tasks m1 = om_tasks m) \<or>
      (\<exists>t. ot_id t \<noteq> [] \<and> om_actors m1 = om_actors m \<and> om_tasks m1 = om_tasks m @ [t])"
    using parse_lines_Cons [OF Cons.prems(1)] .
  with Cons show ?case by fastforce
qed simp

definition request_model_ok :: "optimization_model \<Rightarrow> bool" where
  "request_model_ok m \<longleftrightarrow> model_wf m \<and> deps_closed m \<and>
     list_all (\<lambda>t. set (ot_mutually_exclusive_task_ids t) \<subseteq> ot_id ` set (om_tasks m)) (om_tasks m) \<and>
     om_actors m \<noteq> [] \<and> om_tasks m \<noteq> [] \<and>
     list_all actor_wf (om_actors m) \<and> list_all (\<lambda>t. ot_id t \<noteq> []) (om_tasks m)"

lemma parsed_request:
  assumes "parse_natural_language_request stod request = Inr r" and "pr_ok r"
  shows "request_model_ok (pr_model r)"
proof -
  from assms obtain m where lines: "parse_lines stod (getlines (CHR 0x0A) request) 0 NoSection (empty_model\<lparr>om_id := ''workflow''\<rparr>) = Inr m"
    and fin: "finish_request m = Inr (pr_model r)"
    by (auto simp: parse_natural_language_request_def split: sum.splits parse_failure.splits)
  from fin have "pr_model r = m" "om_actors m \<noteq> []" "om_tasks m \<noteq> []" "validate_model m = None"
    by (auto simp: finish_request_def split: if_splits option.splits)
  with parse_lines_wf [OF lines] show ?thesis
    by (simp add: request_model_ok_def validate_model_None empty_model_def)
qed

text \<open>No message is empty.\<close>

lemma thrown_not_reported [simp]: "thrown r \<noteq> Inl (Reported e)"
  by (cases r) (auto simp: thrown_def)

lemma set_field_not_reported [simp]:
  "set_actor_field stod field v a \<noteq> Inl (Reported e)" "set_task_field stod field v t \<noteq> Inl (Reported e)"
  by (auto simp: set_actor_field_def set_task_field_def bind_result_Inl)

lemma parse_actor_fields_reported: "parse_actor_fields stod lno fs a = Inl (Reported e) \<Longrightarrow> e \<noteq> []"
  by (induction stod lno fs a rule: parse_actor_fields.induct)
    (auto simp: bind_result_Inl unknown_field_error_def split: if_splits)

lemma parse_task_fields_reported: "parse_task_fields stod lno fs st = Inl (Reported e) \<Longrightarrow> e \<noteq> []"
  by (induction stod lno fs st rule: parse_task_fields.induct)
    (auto simp: bind_result_Inl unknown_field_error_def split: if_splits)

lemma parse_item_reported:
  "parse_actor_line stod line lno = Inl (Reported e) \<Longrightarrow> e \<noteq> []"
  "parse_task_line stod line lno = Inl (Reported e) \<Longrightarrow> e \<noteq> []"
  using parse_actor_fields_reported parse_task_fields_reported
  by (fastforce simp: parse_actor_line_def parse_task_line_def bind_result_Inl finish_actor_def finish_task_def
      split: list.splits if_splits prod.splits)+

lemma parse_lines_reported: "parse_lines stod ls lno sec m = Inl (Reported e) \<Longrightarrow> e \<noteq> []"
proof (induction ls arbitrary: lno sec m)
  case (Cons l ls)
  define line where "line = trim l"
  define item where "item = (if starts_with line kLineItemPrefix then trim (drop (length kLineItemPrefix) line) else line)"
  have "e \<noteq> [] \<or> (\<exists>sec' m'. parse_lines stod ls (lno + 1) sec' m' = Inl (Reported e))"
    using Cons.prems parse_item_reported [of stod item "lno + 1" e]
    unfolding parse_lines.simps Let_def line_def [symmetric] item_def [symmetric]
    by (simp add: bind_result_Inl split: if_split_asm) blast+
  then show ?case using Cons.IH by blast
qed simp

lemma finish_request_reported: "finish_request m = Inl (Reported e) \<Longrightarrow> e \<noteq> []"
proof -
  have "first_unknown_reference ids ts = Some e \<Longrightarrow> e \<noteq> []" for ids ts
    by (induction ts) (auto simp: unknown_reference_def split: option.splits)
  then show "finish_request m = Inl (Reported e) \<Longrightarrow> e \<noteq> []"
    by (auto simp: finish_request_def validate_model_def split: if_splits option.splits)
qed

text \<open>C14. A request the parser accepts gives a well-formed model: actor and task identifiers are
  distinct and not empty, every dependency and every exclusion names a task of the model, there
  is at least one actor and one task, and every actor has a type and an availability window. A
  request it rejects gives an error message and an empty model.\<close>

theorem parser_accepts_only_valid_models:
  assumes "parse_natural_language_request stod request = Inr r"
  shows "if pr_ok r then request_model_ok (pr_model r) \<and> pr_error_message r = []
    else pr_model r = empty_model \<and> pr_error_message r \<noteq> []"
proof (cases "pr_ok r")
  case True
  then show ?thesis using parsed_request [OF assms] assms
    by (auto simp: parse_natural_language_request_def split: sum.splits parse_failure.splits)
next
  case False
  with assms obtain e where "r = \<lparr>pr_ok = False, pr_model = empty_model, pr_error_message = e\<rparr>"
    and "bind_result (parse_lines stod (getlines (CHR 0x0A) request) 0 NoSection (empty_model\<lparr>om_id := ''workflow''\<rparr>))
      finish_request = Inl (Reported e)"
    by (auto simp: parse_natural_language_request_def split: sum.splits parse_failure.splits)
  then show ?thesis
    by (auto simp: bind_result_Inl dest: parse_lines_reported finish_request_reported)
qed

subsection \<open>Evaluations\<close>

definition no_stod :: "string \<Rightarrow> num_error + rat" where
  "no_stod s = Inl InvalidArgument"

definition unlines :: "string list \<Rightarrow> string" where
  "unlines ls = concat (map (\<lambda>l. l @ [CHR 0x0A]) ls)"

definition demo_request :: string where
  "demo_request = unlines [''workflow demo'', ''actors:'', ''- actor x type robot windows 0-2'',
     ''tasks:'', ''- task a duration 1'', ''# second'', ''- task b duration 1 depends_on a'']"

lemma demo_request_parsed:
  "map_error (\<lambda>_. ()) (bind_result (parse_natural_language_request no_stod demo_request) (\<lambda>r.
     Inr (pr_ok r, om_id (pr_model r), map oa_windows (om_actors (pr_model r)),
       map ot_dependency_task_ids (om_tasks (pr_model r))))) =
   Inr (True, ''demo'', [[\<lparr>win_start = 0, win_end = 2\<rparr>]], [[], [''a'']])"
  by code_simp

theorem parser_accepts_only_valid_models_witness:
  "\<exists>r. parse_natural_language_request no_stod demo_request = Inr r \<and> pr_ok r \<and> request_model_ok (pr_model r)"
proof -
  obtain r where "parse_natural_language_request no_stod demo_request = Inr r" "pr_ok r"
    using demo_request_parsed by auto
  then show ?thesis using parser_accepts_only_valid_models [of no_stod demo_request r] by auto
qed

text \<open>A number that cannot be read is not reported: the exception leaves the parser.\<close>

theorem malformed_number_throws:
  "parse_natural_language_request no_stod ''task a duration soon'' = Inl InvalidArgument \<and>
   parse_natural_language_request no_stod ''actor x type t capacity 99999999999'' = Inl OutOfRange"
  by code_simp

end
