(* ===== verification/Indexed_Exact.thy ===== *)
theory Indexed_Exact
  imports Opt_Model Scheduler_Correct
begin

text \<open>
  \<^verbatim>\<open>optimizer_backend/indexed_exact/indexed_exact_backend.cpp\<close>: the depth-first branch-and-bound
  back-end. Its helpers \<^verbatim>\<open>concurrent_demand_at\<close> and \<^verbatim>\<open>has_capacity_for_interval\<close> and the inner
  loop of \<^verbatim>\<open>earliest_start\<close> are the same code as the scheduler's, so the definitions of theory
  \<open>Scheduler\<close> are used for them; the difference, that this \<^verbatim>\<open>earliest_start\<close> visits the windows
  in the given order, is kept. The search threads the best solution found so far; its
  termination measure is the number of tasks neither scheduled nor dropped. \<open>rnd\<close> is the
  rounding of a floating-point product.
\<close>

definition kPriorityOptimizationUpperBoundPerTask :: int where
  "kPriorityOptimizationUpperBoundPerTask = 1000000"

definition kLargeTime :: time where "kLargeTime = (2 ^ 63 - 1) div 4"

record search_assignment =
  sa_assignment :: optimized_assignment
  sa_priority :: priority

record search_state =
  ss_reservations :: reservation_table
  ss_completion_times :: completion_table
  ss_scheduled :: "task_id list"
  ss_dropped :: "task_id list"
  ss_assignments :: "search_assignment list"

definition reservations_for_actor :: "search_state \<Rightarrow> actor_id \<Rightarrow> scheduled_interval list" where
  "reservations_for_actor st a = umap_at_or (ss_reservations st) a []"

record objective_score =
  sc_fulfilled :: nat
  sc_total_priority :: int
  sc_makespan :: time

definition initial_score :: objective_score where
  "initial_score = \<lparr>sc_fulfilled = 0, sc_total_priority = 0, sc_makespan = kLargeTime\<rparr>"

record candidate =
  ca_actor_id :: actor_id
  ca_start_time :: time
  ca_end_time :: time
  ca_distance :: time
  ca_preferred :: bool
  ca_load :: int
  ca_execution_cost :: rat
  ca_tardiness :: time

definition score_for :: "search_state \<Rightarrow> optimization_options \<Rightarrow> objective_score" where
  "score_for st options =
     \<lparr>sc_fulfilled = length (ss_assignments st),
      sc_total_priority = foldl (\<lambda>running sa. running + sa_priority sa * priority_weight (oo_objective options))
        0 (ss_assignments st),
      sc_makespan = foldl (\<lambda>running sa. max running (oas_end_time (sa_assignment sa))) 0 (ss_assignments st)\<rparr>"

abbreviation score_key :: "objective_score \<Rightarrow> nat \<times> int \<times> int" where
  "score_key s \<equiv> (sc_fulfilled s, sc_total_priority s, - sc_makespan s)"

definition better_score :: "objective_score \<Rightarrow> objective_score \<Rightarrow> bool" where
  "better_score l r \<longleftrightarrow> score_key l > score_key r"

definition ix_earliest_start ::
  "optimizer_actor \<Rightarrow> scheduled_interval list \<Rightarrow> time \<Rightarrow> duration \<Rightarrow> int \<Rightarrow> time option" where
  "ix_earliest_start a rs release_time dur demand =
     (if dur \<le> 0 then Some release_time
      else earliest_in_windows (oa_windows a) rs (oa_capacity a) release_time dur demand)"

definition mutex_blocked :: "optimizer_task \<Rightarrow> search_state \<Rightarrow> bool" where
  "mutex_blocked t st = list_ex (\<lambda>u. u \<in> set (ss_scheduled st)) (ot_mutually_exclusive_task_ids t)"

definition task_open :: "search_state \<Rightarrow> optimizer_task \<Rightarrow> bool" where
  "task_open st t \<longleftrightarrow> \<not> (ot_id t \<in> set (ss_scheduled st) \<or> ot_id t \<in> set (ss_dropped st))"

definition ready_key :: "optimizer_task \<Rightarrow> int \<times> time \<times> time \<times> duration \<times> task_id" where
  "ready_key t = (- ot_priority t, (case ot_deadline t of Some d \<Rightarrow> d | None \<Rightarrow> kLargeTime),
     ot_release_time t, ot_duration t, ot_id t)"

definition ready_tasks :: "optimization_model \<Rightarrow> search_state \<Rightarrow> optimizer_task list" where
  "ready_tasks model st = sort_key ready_key
     (filter (\<lambda>t. task_open st t \<and> \<not> dependency_blocked t (ss_dropped st) \<and>
        dependencies_satisfied t (ss_scheduled st) (ss_dropped st)) (om_tasks model))"

definition dependency_ready :: "search_state \<Rightarrow> optimizer_task \<Rightarrow> time" where
  "dependency_ready st t =
     foldl (\<lambda>ready d. case map_of (ss_completion_times st) d of Some c \<Rightarrow> max ready c | None \<Rightarrow> ready)
       0 (ot_dependency_task_ids t)"

definition candidate_on ::
  "(rat \<Rightarrow> rat) \<Rightarrow> optimizer_task \<Rightarrow> search_state \<Rightarrow> optimizer_actor \<Rightarrow> candidate option" where
  "candidate_on rnd t st a =
     (if ot_demand t > oa_capacity a then None
      else if ot_required_capabilities t \<noteq> [] \<and>
        \<not> list_all (\<lambda>c. c \<in> set (oa_capabilities a)) (ot_required_capabilities t) then None
      else
        (let rs = reservations_for_actor st (oa_id a);
             release_time = max (ot_release_time t) (dependency_ready st t)
         in case ix_earliest_start a rs release_time (ot_duration t) (ot_demand t) of
              None \<Rightarrow> None
            | Some start \<Rightarrow>
                if (case ot_latest_start_time t of Some l \<Rightarrow> start > l | None \<Rightarrow> False) then None
                else
                  (let end_time = start + ot_duration t in
                   if (case ot_deadline t of Some d \<Rightarrow> end_time > d | None \<Rightarrow> False) then None
                   else Some
                     \<lparr>ca_actor_id = oa_id a, ca_start_time = start, ca_end_time = end_time,
                      ca_distance = umap_at_or (ot_actor_distances t) (oa_id a) kLargeTime,
                      ca_preferred = oa_id a \<in> set (ot_preferred_actor_ids t),
                      ca_load = concurrent_demand_at rs start,
                      ca_execution_cost = rnd (oa_execution_cost_per_unit a * rnd (of_int (ot_duration t))),
                      ca_tardiness = (case ot_deadline t of Some d \<Rightarrow> max 0 (end_time - d) | None \<Rightarrow> 0)\<rparr>)))"

definition candidate_key :: "candidate \<Rightarrow> int \<times> time \<times> time \<times> time \<times> int \<times> actor_id" where
  "candidate_key c = (if ca_preferred c then 0 else 1, ca_end_time c, ca_start_time c, ca_distance c,
     ca_load c, ca_actor_id c)"

definition candidates_for_task ::
  "(rat \<Rightarrow> rat) \<Rightarrow> optimizer_task \<Rightarrow> constraint_index \<Rightarrow> search_state \<Rightarrow> candidate list" where
  "candidates_for_task rnd t ix st =
     (if mutex_blocked t st then []
      else sort_key candidate_key
        (List.map_filter (\<lambda>a. candidate_on rnd t st (snd a)) (eligible_actors_for_task ix t)))"

subsection \<open>Dropping the descendants of dropped tasks\<close>

fun drop_pass :: "optimizer_task list \<Rightarrow> search_state \<Rightarrow> bool \<Rightarrow> search_state \<times> bool" where
  "drop_pass [] st changed = (st, changed)"
| "drop_pass (t # ts) st changed =
     (if \<not> task_open st t then drop_pass ts st changed
      else if dependency_blocked t (ss_dropped st)
      then drop_pass ts (st\<lparr>ss_dropped := push_unique (ss_dropped st) (ot_id t)\<rparr>) True
      else drop_pass ts st changed)"

definition open_tasks :: "optimization_model \<Rightarrow> search_state \<Rightarrow> nat" where
  "open_tasks model st = card (ot_id ` set (om_tasks model) - set (ss_scheduled st) - set (ss_dropped st))"

lemma drop_pass_fields:
  "drop_pass ts st ch = (st', ch') \<Longrightarrow>
     ss_reservations st' = ss_reservations st \<and> ss_completion_times st' = ss_completion_times st \<and>
     ss_scheduled st' = ss_scheduled st \<and> ss_assignments st' = ss_assignments st \<and> (ch \<longrightarrow> ch')"
  by (induction ts st ch rule: drop_pass.induct) (auto split: if_splits)

lemma drop_pass_grows:
  "drop_pass ts st ch = (st', ch') \<Longrightarrow> set (ss_dropped st) \<subseteq> set (ss_dropped st')"
  by (induction ts st ch rule: drop_pass.induct) (auto split: if_splits)

lemma drop_pass_bound:
  "drop_pass ts st ch = (st', ch') \<Longrightarrow>
     set (ss_dropped st') \<subseteq> set (ss_dropped st) \<union> (ot_id ` set ts - set (ss_scheduled st))"
proof (induction ts st ch rule: drop_pass.induct)
  case (2 t ts st ch)
  let ?st = "st\<lparr>ss_dropped := push_unique (ss_dropped st) (ot_id t)\<rparr>"
  consider "\<not> task_open st t \<or> \<not> dependency_blocked t (ss_dropped st)"
    | "task_open st t" "dependency_blocked t (ss_dropped st)" by blast
  then show ?case
  proof cases
    case 1
    with "2.prems" have "drop_pass ts st ch = (st', ch')" by (auto split: if_splits)
    with 1 "2.IH"(1,3) have "set (ss_dropped st') \<subseteq> set (ss_dropped st) \<union> (ot_id ` set ts - set (ss_scheduled st))"
      by blast
    then show ?thesis by auto
  next
    case 2
    with "2.prems" have "drop_pass ts ?st True = (st', ch')" by simp
    with 2 "2.IH"(2) have "set (ss_dropped st') \<subseteq> set (ss_dropped ?st) \<union> (ot_id ` set ts - set (ss_scheduled ?st))"
      by blast
    with 2(1) show ?thesis by (auto simp: task_open_def)
  qed
qed simp

lemma drop_pass_changed:
  "drop_pass ts st ch = (st', True) \<Longrightarrow> \<not> ch \<Longrightarrow>
     \<exists>t\<in>set ts. task_open st t \<and> ot_id t \<in> set (ss_dropped st')"
proof (induction ts st ch rule: drop_pass.induct)
  case (2 t ts st ch)
  show ?case
  proof (cases "task_open st t \<and> dependency_blocked t (ss_dropped st)")
    case True
    with "2.prems" have "ot_id t \<in> set (ss_dropped st')"
      using drop_pass_grows [of ts "st\<lparr>ss_dropped := push_unique (ss_dropped st) (ot_id t)\<rparr>" True st' True]
      by auto
    with True show ?thesis by auto
  next
    case False
    with 2 show ?thesis by (auto split: if_splits)
  qed
qed simp

lemma drop_pass_unchanged: "drop_pass ts st ch = (st', False) \<Longrightarrow> st' = st"
proof (induction ts st ch rule: drop_pass.induct)
  case (2 t ts st ch)
  then show ?case by (auto split: if_splits dest: drop_pass_fields)
qed simp

function drop_descendants_if_blocked :: "optimization_model \<Rightarrow> search_state \<Rightarrow> search_state" where
  "drop_descendants_if_blocked model st =
     (case drop_pass (om_tasks model) st False of
        (st', changed) \<Rightarrow> if changed then drop_descendants_if_blocked model st' else st')"
  by pat_completeness auto
termination
proof (relation "measure (\<lambda>(model, st). open_tasks model st)", goal_cases)
  case 1
  then show ?case by simp
next
  case (2 model st st' changed)
  then have "drop_pass (om_tasks model) st False = (st', True)" by simp
  from drop_pass_changed [OF this] drop_pass_fields [OF this] drop_pass_grows [OF this]
  obtain t where t: "t \<in> set (om_tasks model)" "task_open st t"
    "ot_id t \<in> set (ss_dropped st')" and fr: "ss_scheduled st' = ss_scheduled st"
    "set (ss_dropped st) \<subseteq> set (ss_dropped st')" by auto
  then have "ot_id ` set (om_tasks model) - set (ss_scheduled st') - set (ss_dropped st') \<subset>
      ot_id ` set (om_tasks model) - set (ss_scheduled st) - set (ss_dropped st)"
    by (auto simp: task_open_def)
  then show ?case by (simp add: open_tasks_def psubset_card_mono)
qed

declare drop_descendants_if_blocked.simps [simp del]

lemma drop_descendants_frame:
  "let st' = drop_descendants_if_blocked model st in
     ss_reservations st' = ss_reservations st \<and> ss_completion_times st' = ss_completion_times st \<and>
     ss_scheduled st' = ss_scheduled st \<and> ss_assignments st' = ss_assignments st \<and>
     set (ss_dropped st) \<subseteq> set (ss_dropped st') \<and>
     set (ss_dropped st') \<subseteq> set (ss_dropped st) \<union> (ot_id ` set (om_tasks model) - set (ss_scheduled st))"
proof (induction model st rule: drop_descendants_if_blocked.induct)
  case (1 model st)
  obtain st' ch where p: "drop_pass (om_tasks model) st False = (st', ch)" by force
  have step: "drop_descendants_if_blocked model st =
      (if ch then drop_descendants_if_blocked model st' else st')"
    by (subst drop_descendants_if_blocked.simps) (simp add: p)
  show ?case
    using 1 [OF p [symmetric]] drop_pass_fields [OF p] drop_pass_grows [OF p] drop_pass_bound [OF p]
    by (cases ch) (auto simp: step Let_def)
qed

lemma drop_descendants_frame_simps [simp]:
  "ss_reservations (drop_descendants_if_blocked model st) = ss_reservations st"
  "ss_completion_times (drop_descendants_if_blocked model st) = ss_completion_times st"
  "ss_scheduled (drop_descendants_if_blocked model st) = ss_scheduled st"
  "ss_assignments (drop_descendants_if_blocked model st) = ss_assignments st"
  using drop_descendants_frame [of model st] by (simp_all add: Let_def)

lemma open_tasks_drop_descendants: "open_tasks model (drop_descendants_if_blocked model st) \<le> open_tasks model st"
  using drop_descendants_frame [of model st]
  by (auto simp: open_tasks_def Let_def intro!: card_mono)

subsection \<open>The search\<close>

record search_best =
  sb_solution :: optimization_solution
  sb_score :: objective_score
  sb_have :: bool

definition count_node :: "search_best \<Rightarrow> search_best" where
  "count_node b = b\<lparr>sb_solution := (sb_solution b)\<lparr>sol_stats := (sol_stats (sb_solution b))
     \<lparr>search_nodes := search_nodes (sol_stats (sb_solution b)) + 1\<rparr>\<rparr>\<rparr>"

definition count_pruned :: "search_best \<Rightarrow> search_best" where
  "count_pruned b = b\<lparr>sb_solution := (sb_solution b)\<lparr>sol_stats := (sol_stats (sb_solution b))
     \<lparr>pruned_nodes := pruned_nodes (sol_stats (sb_solution b)) + 1\<rparr>\<rparr>\<rparr>"

definition remaining_possible :: "optimization_model \<Rightarrow> search_state \<Rightarrow> nat" where
  "remaining_possible model st =
     length (om_tasks model) - length (ss_scheduled st) - length (ss_dropped st)"

definition optimistic_score :: "optimization_model \<Rightarrow> search_state \<Rightarrow> objective_score \<Rightarrow> objective_score" where
  "optimistic_score model st cur =
     \<lparr>sc_fulfilled = sc_fulfilled cur + remaining_possible model st,
      sc_total_priority = sc_total_priority cur +
        int (remaining_possible model st) * kPriorityOptimizationUpperBoundPerTask,
      sc_makespan = sc_makespan cur\<rparr>"

definition accept_leaf ::
  "optimization_model \<Rightarrow> search_state \<Rightarrow> objective_score \<Rightarrow> search_best \<Rightarrow> search_best" where
  "accept_leaf model st cur b =
     (if \<not> sb_have b \<or> better_score cur (sb_score b)
      then \<lparr>sb_solution = (sb_solution b)
              \<lparr>sol_assignments := map sa_assignment (ss_assignments st),
               sol_unfulfilled_task_ids :=
                 map ot_id (filter (\<lambda>t. ot_id t \<notin> set (ss_scheduled st)) (om_tasks model))\<rparr>,
            sb_score = cur, sb_have = True\<rparr>
      else b)"

definition schedule_task :: "search_state \<Rightarrow> optimizer_task \<Rightarrow> candidate \<Rightarrow> search_state" where
  "schedule_task st t c =
     st\<lparr>ss_scheduled := push_unique (ss_scheduled st) (ot_id t),
        ss_completion_times := AList.update (ot_id t) (ca_end_time c) (ss_completion_times st),
        ss_reservations := push_reservation (ca_actor_id c)
          \<lparr>iv_start = ca_start_time c, iv_end = ca_end_time c, iv_demand = ot_demand t\<rparr> (ss_reservations st),
        ss_assignments := ss_assignments st @
          [\<lparr>sa_assignment = \<lparr>oas_task_id = ot_id t, oas_actor_id = ca_actor_id c,
              oas_start_time = ca_start_time c, oas_end_time = ca_end_time c\<rparr>,
            sa_priority = ot_priority t\<rparr>]\<rparr>"

definition drop_task :: "search_state \<Rightarrow> optimizer_task \<Rightarrow> search_state" where
  "drop_task st t = st\<lparr>ss_dropped := push_unique (ss_dropped st) (ot_id t)\<rparr>"

record search_ctx =
  sx_rnd :: "rat \<Rightarrow> rat"
  sx_model :: optimization_model
  sx_index :: constraint_index
  sx_options :: optimization_options

lemma ready_tasks_mem:
  "ready_tasks model st = t # ts \<Longrightarrow> t \<in> set (om_tasks model) \<and> task_open st t \<and>
     dependencies_satisfied t (ss_scheduled st) (ss_dropped st)"
  by (drule arg_cong [of _ _ set]) (auto simp: ready_tasks_def)

lemma open_tasks_less:
  assumes "t \<in> set (om_tasks model)" and "task_open st t"
    and "set (ss_scheduled st) \<subseteq> set (ss_scheduled st')" and "set (ss_dropped st) \<subseteq> set (ss_dropped st')"
    and "\<not> task_open st' t"
  shows "open_tasks model st' < open_tasks model st"
proof -
  have "ot_id ` set (om_tasks model) - set (ss_scheduled st') - set (ss_dropped st') \<subset>
      ot_id ` set (om_tasks model) - set (ss_scheduled st) - set (ss_dropped st)"
    using assms by (auto simp: task_open_def)
  then show ?thesis by (simp add: open_tasks_def psubset_card_mono)
qed

lemma open_tasks_schedule:
  "ready_tasks model st = t # ts \<Longrightarrow> open_tasks model (schedule_task st t c) < open_tasks model st"
  by (rule open_tasks_less) (auto simp: schedule_task_def task_open_def dest!: ready_tasks_mem)

lemma open_tasks_drop:
  "ready_tasks model st = t # ts \<Longrightarrow> open_tasks model (drop_task st t) < open_tasks model st"
  by (rule open_tasks_less) (auto simp: drop_task_def task_open_def dest!: ready_tasks_mem)

function dfs :: "search_ctx \<Rightarrow> search_state \<Rightarrow> search_best \<Rightarrow> search_best" where
  "dfs cx state0 b0 =
     (let b = count_node b0;
          st = drop_descendants_if_blocked (sx_model cx) state0;
          cur = score_for st (sx_options cx)
      in if sb_have b \<and> \<not> better_score (optimistic_score (sx_model cx) st cur) (sb_score b)
         then count_pruned b
         else case ready_tasks (sx_model cx) st of
           [] \<Rightarrow> accept_leaf (sx_model cx) st cur b
         | t # _ \<Rightarrow>
             (let b = fold (\<lambda>c b. dfs cx (schedule_task st t c) b)
                        (candidates_for_task (sx_rnd cx) t (sx_index cx) st) b
              in if oo_allow_partial_plan (sx_options cx) \<or> \<not> ot_mandatory t
                 then dfs cx (drop_task st t) b else b))"
  by pat_completeness auto
termination
  by (relation "measure (\<lambda>(cx, st, b). open_tasks (sx_model cx) st)")
     (auto intro: less_le_trans [OF open_tasks_schedule open_tasks_drop_descendants]
        less_le_trans [OF open_tasks_drop open_tasks_drop_descendants])

declare dfs.simps [simp del]

definition root_state :: "optimization_model \<Rightarrow> search_state" where
  "root_state model = \<lparr>ss_reservations = fold (\<lambda>a. AList.update (oa_id a) []) (om_actors model) [],
     ss_completion_times = [], ss_scheduled = [], ss_dropped = [], ss_assignments = []\<rparr>"

definition indexed_exact_name :: string where
  "indexed_exact_name = ''indexed_branch_and_bound''"

definition indexed_exact_solve ::
  "(rat \<Rightarrow> rat) \<Rightarrow> optimization_model \<Rightarrow> constraint_index \<Rightarrow> optimization_options \<Rightarrow> optimization_solution" where
  "indexed_exact_solve rnd model ix options =
     (let b = dfs \<lparr>sx_rnd = rnd, sx_model = model, sx_index = ix, sx_options = options\<rparr> (root_state model)
                \<lparr>sb_solution = empty_solution\<lparr>sol_backend_name := indexed_exact_name\<rparr>,
                 sb_score = initial_score, sb_have = False\<rparr>
      in if sb_have b then sb_solution b
         else (sb_solution b)\<lparr>sol_ok := False,
                sol_error_message := ''No optimization result could be produced.''\<rparr>)"

end
