(* ===== verification/Indexed_Exact_Correct.thy ===== *)
theory Indexed_Exact_Correct
  imports Indexed_Exact
begin

text \<open>
  Correctness of the branch-and-bound back-end. \<open>leaves\<close> is the search without bounding: all
  complete decisions. The pruned search returns a leaf, and none of the leaves is better, as
  long as no task is worth more than the bound the code assumes for one task. Independently of
  the bound, every leaf is a feasible schedule.
\<close>

subsection \<open>The exhaustive search\<close>

function leaves :: "search_ctx \<Rightarrow> search_state \<Rightarrow> search_state list" where
  "leaves cx state0 =
     (let st = drop_descendants_if_blocked (sx_model cx) state0
      in case ready_tasks (sx_model cx) st of
           [] \<Rightarrow> [st]
         | t # _ \<Rightarrow>
             concat (map (\<lambda>c. leaves cx (schedule_task st t c))
               (candidates_for_task (sx_rnd cx) t (sx_index cx) st)) @
             (if oo_allow_partial_plan (sx_options cx) \<or> \<not> ot_mandatory t
              then leaves cx (drop_task st t) else []))"
  by pat_completeness auto
termination
  by (relation "measure (\<lambda>(cx, st). open_tasks (sx_model cx) st)")
     (auto intro: less_le_trans [OF open_tasks_schedule open_tasks_drop_descendants]
        less_le_trans [OF open_tasks_drop open_tasks_drop_descendants])

declare leaves.simps [simp del]

text \<open>
  A predicate on search states that holds at the root and survives dropping and scheduling
  holds at every leaf.
\<close>

locale search_invariant =
  fixes cx :: search_ctx and I :: "search_state \<Rightarrow> bool"
  assumes inv_descendants: "I st \<Longrightarrow> I (drop_descendants_if_blocked (sx_model cx) st)"
    and inv_schedule: "I st \<Longrightarrow> ready_tasks (sx_model cx) st = t # ts \<Longrightarrow>
      c \<in> set (candidates_for_task (sx_rnd cx) t (sx_index cx) st) \<Longrightarrow> I (schedule_task st t c)"
    and inv_drop: "I st \<Longrightarrow> ready_tasks (sx_model cx) st = t # ts \<Longrightarrow> I (drop_task st t)"
begin

lemma inv_leaves: "I st \<Longrightarrow> l \<in> set (leaves cx st) \<Longrightarrow> I l"
proof (induction cx\<equiv>cx st rule: leaves.induct)
  case (1 state0)
  define st where "st = drop_descendants_if_blocked (sx_model cx) state0"
  have st: "I st" unfolding st_def by (rule inv_descendants) fact
  show ?case
  proof (cases "ready_tasks (sx_model cx) st")
    case Nil
    with "1.prems"(2) have "l = st" by (subst (asm) leaves.simps) (simp add: Let_def flip: st_def)
    with st show ?thesis by simp
  next
    case (Cons t ts)
    with "1.prems"(2) consider
        c where "c \<in> set (candidates_for_task (sx_rnd cx) t (sx_index cx) st)"
          "l \<in> set (leaves cx (schedule_task st t c))"
      | "oo_allow_partial_plan (sx_options cx) \<or> \<not> ot_mandatory t" "l \<in> set (leaves cx (drop_task st t))"
      by (subst (asm) leaves.simps) (auto simp: Let_def simp flip: st_def split: if_splits)
    then show ?thesis
    proof cases
      case (1 c)
      with "1.hyps"(1) [OF st_def Cons 1(1)] inv_schedule [OF st Cons] show ?thesis by blast
    next
      case 2
      with "1.hyps"(2) [OF st_def Cons 2(1)] inv_drop [OF st Cons] show ?thesis by blast
    qed
  qed
qed

end

subsection \<open>Counting\<close>

definition search_wf :: "optimization_model \<Rightarrow> search_state \<Rightarrow> bool" where
  "search_wf m st \<longleftrightarrow>
     map (\<lambda>sa. oas_task_id (sa_assignment sa)) (ss_assignments st) = ss_scheduled st \<and>
     distinct (ss_scheduled st @ ss_dropped st) \<and>
     set (ss_scheduled st @ ss_dropped st) \<subseteq> ot_id ` set (om_tasks m)"

lemma drop_pass_distinct: "drop_pass ts st ch = (st', ch') \<Longrightarrow> distinct (ss_dropped st) \<Longrightarrow> distinct (ss_dropped st')"
  by (induction ts st ch rule: drop_pass.induct) (auto split: if_splits)

lemma drop_descendants_distinct:
  "distinct (ss_dropped st) \<Longrightarrow> distinct (ss_dropped (drop_descendants_if_blocked m st))"
proof (induction m st rule: drop_descendants_if_blocked.induct)
  case (1 m st)
  obtain st' ch where p: "drop_pass (om_tasks m) st False = (st', ch)" by force
  from 1(1) [OF p [symmetric]] drop_pass_distinct [OF p] "1.prems" show ?case
    by (subst drop_descendants_if_blocked.simps) (simp add: p)
qed

lemma search_wf_descendants: "search_wf m st \<Longrightarrow> search_wf m (drop_descendants_if_blocked m st)"
  using drop_descendants_frame [of m st] drop_descendants_distinct [of st m]
  by (auto simp: search_wf_def Let_def)

lemma push_unique_new: "x \<notin> set xs \<Longrightarrow> push_unique xs x = xs @ [x]"
  by (simp add: push_unique_def)

lemma search_wf_schedule:
  "search_wf m st \<Longrightarrow> ready_tasks m st = t # ts \<Longrightarrow> search_wf m (schedule_task st t c)"
  by (auto simp: search_wf_def schedule_task_def task_open_def push_unique_new dest!: ready_tasks_mem)

lemma search_wf_drop:
  "search_wf m st \<Longrightarrow> ready_tasks m st = t # ts \<Longrightarrow> search_wf m (drop_task st t)"
  by (auto simp: search_wf_def drop_task_def task_open_def push_unique_new dest!: ready_tasks_mem)

interpretation wf_inv: search_invariant cx "search_wf (sx_model cx)" for cx
  by unfold_locales (auto intro: search_wf_descendants search_wf_schedule search_wf_drop)

lemma search_wf_root: "search_wf m (root_state m)"
  by (simp add: search_wf_def root_state_def)

text \<open>The subtraction of sizes in the code does not underflow.\<close>

lemma search_wf_count:
  assumes "search_wf m st"
  shows "length (ss_scheduled st) + length (ss_dropped st) \<le> length (om_tasks m)"
proof -
  have "length (ss_scheduled st @ ss_dropped st) = card (set (ss_scheduled st @ ss_dropped st))"
    using assms by (simp only: search_wf_def distinct_card)
  also have "\<dots> \<le> card (ot_id ` set (om_tasks m))"
    using assms by (intro card_mono) (auto simp: search_wf_def)
  also have "\<dots> \<le> length (om_tasks m)"
    by (metis card_image_le card_length finite_set order_trans)
  finally show ?thesis by simp
qed

lemma remaining_descendants:
  assumes "search_wf m st"
  shows "remaining_possible m (drop_descendants_if_blocked m st) \<le> remaining_possible m st"
proof -
  let ?st = "drop_descendants_if_blocked m st"
  have "set (ss_dropped st) \<subseteq> set (ss_dropped ?st)"
    using drop_descendants_frame [of m st] by (simp add: Let_def)
  then have "card (set (ss_dropped st)) \<le> card (set (ss_dropped ?st))" by (intro card_mono) auto
  then have "length (ss_dropped st) \<le> length (ss_dropped ?st)"
    using assms search_wf_descendants [OF assms] by (auto simp: search_wf_def distinct_card)
  then show ?thesis by (simp add: remaining_possible_def)
qed

lemma remaining_schedule:
  assumes "search_wf m st" and "ready_tasks m st = t # ts"
  shows "remaining_possible m st = remaining_possible m (schedule_task st t c) + 1"
proof -
  have "length (ss_scheduled (schedule_task st t c)) = length (ss_scheduled st) + 1"
    using assms by (auto simp: schedule_task_def task_open_def push_unique_new dest!: ready_tasks_mem)
  moreover have "ss_dropped (schedule_task st t c) = ss_dropped st" by (simp add: schedule_task_def)
  ultimately show ?thesis
    using search_wf_count [OF search_wf_schedule [OF assms, of c]] by (simp add: remaining_possible_def)
qed

lemma remaining_drop: "remaining_possible m (drop_task st t) \<le> remaining_possible m st"
  by (auto simp: remaining_possible_def drop_task_def length_push_unique intro!: diff_le_mono2)

subsection \<open>The bound\<close>

definition priorities_bounded :: "optimization_model \<Rightarrow> optimization_options \<Rightarrow> bool" where
  "priorities_bounded m options \<longleftrightarrow> (\<forall>t\<in>set (om_tasks m).
     ot_priority t * priority_weight (oo_objective options) \<le> kPriorityOptimizationUpperBoundPerTask)"

definition within_bound ::
  "optimization_model \<Rightarrow> optimization_options \<Rightarrow> search_state \<Rightarrow> search_state \<Rightarrow> bool" where
  "within_bound m options st l \<longleftrightarrow>
     sc_fulfilled (score_for l options) \<le> sc_fulfilled (score_for st options) + remaining_possible m st \<and>
     sc_total_priority (score_for l options) \<le> sc_total_priority (score_for st options) +
       int (remaining_possible m st) * kPriorityOptimizationUpperBoundPerTask \<and>
     sc_makespan (score_for st options) \<le> sc_makespan (score_for l options)"

lemma score_for_schedule:
  "score_for (schedule_task st t c) options =
     \<lparr>sc_fulfilled = sc_fulfilled (score_for st options) + 1,
      sc_total_priority = sc_total_priority (score_for st options) +
        ot_priority t * priority_weight (oo_objective options),
      sc_makespan = max (sc_makespan (score_for st options)) (ca_end_time c)\<rparr>"
  by (simp add: score_for_def schedule_task_def)

lemma score_for_frame [simp]:
  "score_for (drop_descendants_if_blocked m st) options = score_for st options"
  "score_for (drop_task st t) options = score_for st options"
  by (simp_all add: score_for_def drop_task_def)

lemma bound_pos: "0 \<le> kPriorityOptimizationUpperBoundPerTask"
  by (simp add: kPriorityOptimizationUpperBoundPerTask_def)

lemma within_bound_mono:
  assumes "within_bound m options st' l" and "score_for st' options = score_for st options"
    and "remaining_possible m st' \<le> remaining_possible m st"
  shows "within_bound m options st l"
proof -
  have "int (remaining_possible m st') * kPriorityOptimizationUpperBoundPerTask \<le>
      int (remaining_possible m st) * kPriorityOptimizationUpperBoundPerTask"
    using assms(3) bound_pos by (intro mult_right_mono) auto
  with assms show ?thesis by (auto simp: within_bound_def)
qed

lemma within_bound_schedule:
  assumes "search_wf m st" and "ready_tasks m st = t # ts" and "priorities_bounded m options"
    and "within_bound m options (schedule_task st t c) l"
  shows "within_bound m options st l"
proof -
  let ?B = kPriorityOptimizationUpperBoundPerTask and ?r = "remaining_possible m (schedule_task st t c)"
  have "ot_priority t * priority_weight (oo_objective options) \<le> ?B"
    using assms(2,3) by (auto simp: priorities_bounded_def dest!: ready_tasks_mem)
  moreover have "int (remaining_possible m st) * ?B = int ?r * ?B + ?B"
    by (simp add: remaining_schedule [OF assms(1,2), of c] algebra_simps)
  ultimately show ?thesis
    using assms(4) remaining_schedule [OF assms(1,2), of c]
    unfolding within_bound_def score_for_schedule by simp
qed

lemma within_bound_descendants:
  "search_wf m st \<Longrightarrow> within_bound m options (drop_descendants_if_blocked m st) l \<Longrightarrow> within_bound m options st l"
  using within_bound_mono [of m options "drop_descendants_if_blocked m st" l st]
  by (simp add: remaining_descendants)

lemma leaves_within_bound:
  assumes "priorities_bounded (sx_model cx) (sx_options cx)"
  shows "search_wf (sx_model cx) st \<Longrightarrow> l \<in> set (leaves cx st) \<Longrightarrow>
    within_bound (sx_model cx) (sx_options cx) (drop_descendants_if_blocked (sx_model cx) st) l"
  using assms
proof (induction cx st rule: leaves.induct)
  case (1 cx state0)
  let ?m = "sx_model cx" and ?o = "sx_options cx"
  define st where "st = drop_descendants_if_blocked ?m state0"
  have wf: "search_wf ?m st" unfolding st_def by (rule search_wf_descendants) fact
  have "within_bound ?m ?o st l"
  proof (cases "ready_tasks ?m st")
    case Nil
    with "1.prems"(2) have "l = st" by (subst (asm) leaves.simps) (simp add: Let_def flip: st_def)
    then show ?thesis using bound_pos by (simp add: within_bound_def)
  next
    case (Cons t ts)
    with "1.prems"(2) consider
        c where "c \<in> set (candidates_for_task (sx_rnd cx) t (sx_index cx) st)"
          "l \<in> set (leaves cx (schedule_task st t c))"
      | "oo_allow_partial_plan ?o \<or> \<not> ot_mandatory t" "l \<in> set (leaves cx (drop_task st t))"
      by (subst (asm) leaves.simps) (auto simp: Let_def simp flip: st_def split: if_splits)
    then show ?thesis
    proof cases
      case (1 c)
      note wf' = search_wf_schedule [OF wf Cons, of c]
      from "1.IH"(1) [OF st_def Cons 1(1) wf' 1(2) "1.prems"(3)]
      have "within_bound ?m ?o (schedule_task st t c) l" by (rule within_bound_descendants [OF wf'])
      then show ?thesis by (rule within_bound_schedule [OF wf Cons "1.prems"(3)])
    next
      case 2
      note wf' = search_wf_drop [OF wf Cons]
      from "1.IH"(2) [OF st_def Cons 2(1) wf' 2(2) "1.prems"(3)]
      have "within_bound ?m ?o (drop_task st t) l" by (rule within_bound_descendants [OF wf'])
      then show ?thesis by (rule within_bound_mono) (simp_all add: remaining_drop)
    qed
  qed
  then show ?case by (simp only: st_def)
qed

definition score_le :: "objective_score \<Rightarrow> objective_score \<Rightarrow> bool" where
  "score_le l r \<longleftrightarrow> score_key l \<le> score_key r"

lemma better_score_iff: "better_score l r \<longleftrightarrow> \<not> score_le l r"
  unfolding better_score_def score_le_def by (rule not_le [symmetric])

lemma score_le_refl: "score_le s s"
  unfolding score_le_def by (rule order_refl)

lemma score_le_trans: "score_le s t \<Longrightarrow> score_le t u \<Longrightarrow> score_le s u"
  unfolding score_le_def by (rule order_trans)

lemma optimistic_is_upper_bound:
  assumes "within_bound m options st l"
  shows "score_le (score_for l options) (optimistic_score m st (score_for st options))"
  using assms by (auto simp: within_bound_def optimistic_score_def score_le_def)

subsection \<open>Pruning loses nothing\<close>

definition unscheduled_ids :: "optimization_model \<Rightarrow> search_state \<Rightarrow> task_id list" where
  "unscheduled_ids m l = map ot_id (filter (\<lambda>t. ot_id t \<notin> set (ss_scheduled l)) (om_tasks m))"

definition from_leaf :: "search_ctx \<Rightarrow> search_state \<Rightarrow> search_best \<Rightarrow> bool" where
  "from_leaf cx l b \<longleftrightarrow> sb_score b = score_for l (sx_options cx) \<and>
     sol_assignments (sb_solution b) = map sa_assignment (ss_assignments l) \<and>
     sol_unfulfilled_task_ids (sb_solution b) = unscheduled_ids (sx_model cx) l"

text \<open>
  \<open>improves cx L b b'\<close>: going from \<open>b\<close> to \<open>b'\<close> the search has accounted for the leaves \<open>L\<close>.
\<close>

definition improves :: "search_ctx \<Rightarrow> search_state set \<Rightarrow> search_best \<Rightarrow> search_best \<Rightarrow> bool" where
  "improves cx L b b' \<longleftrightarrow>
     sol_ok (sb_solution b') = sol_ok (sb_solution b) \<and>
     (sb_have b \<longrightarrow> sb_have b' \<and> score_le (sb_score b) (sb_score b')) \<and>
     (\<forall>l\<in>L. sb_have b' \<and> (priorities_bounded (sx_model cx) (sx_options cx) \<longrightarrow>
        score_le (score_for l (sx_options cx)) (sb_score b'))) \<and>
     (sb_have b' = sb_have b \<and> sb_score b' = sb_score b \<and>
        sol_assignments (sb_solution b') = sol_assignments (sb_solution b) \<and>
        sol_unfulfilled_task_ids (sb_solution b') = sol_unfulfilled_task_ids (sb_solution b)
      \<or> sb_have b' \<and> (\<exists>l\<in>L. from_leaf cx l b'))"

lemma improves_trans:
  assumes "improves cx L b b'" and "improves cx L' b' b''"
  shows "improves cx (L \<union> L') b b''"
proof -
  have "sb_have b'' \<and> (priorities_bounded (sx_model cx) (sx_options cx) \<longrightarrow>
      score_le (score_for l (sx_options cx)) (sb_score b''))" if "l \<in> L" for l
    using assms that unfolding improves_def by (meson score_le_trans)
  moreover have "sb_have b \<longrightarrow> sb_have b'' \<and> score_le (sb_score b) (sb_score b'')"
    using assms unfolding improves_def by (meson score_le_trans)
  ultimately show ?thesis
    using assms unfolding improves_def from_leaf_def by (elim conjE disjE) auto
qed

lemma improves_refl: "improves cx {} b b"
  by (simp add: improves_def score_le_refl)

lemma improves_stats:
  "improves cx {} b (count_node b)" "improves cx {} b (count_pruned b)"
  by (simp_all add: improves_def count_node_def count_pruned_def score_le_refl)

lemma improves_accept_leaf:
  "improves cx {st} b (accept_leaf (sx_model cx) st (score_for st (sx_options cx)) b)"
proof -
  have "score_le (sb_score b) (score_for st (sx_options cx))" if "\<not> score_le (score_for st (sx_options cx)) (sb_score b)"
    using that unfolding score_le_def by (meson linear)
  then show ?thesis
    by (auto simp: improves_def accept_leaf_def from_leaf_def unscheduled_ids_def better_score_iff score_le_refl)
qed

lemma improves_pruned:
  assumes "sb_have b" and "\<And>l. priorities_bounded (sx_model cx) (sx_options cx) \<Longrightarrow> l \<in> L \<Longrightarrow>
      score_le (score_for l (sx_options cx)) k"
    and "score_le k (sb_score b)"
  shows "improves cx L b (count_pruned b)"
  using assms score_le_trans by (auto simp: improves_def count_pruned_def score_le_refl)

lemma improves_fold:
  assumes "\<And>c b. c \<in> set cs \<Longrightarrow> improves cx (L c) b (f c b)"
  shows "improves cx (\<Union>c\<in>set cs. L c) b (fold f cs b)"
  using assms
proof (induction cs arbitrary: b)
  case Nil
  then show ?case by (simp add: improves_refl)
next
  case (Cons c cs)
  have "improves cx (L c) b (f c b)" by (rule Cons.prems) simp
  moreover have "improves cx (\<Union>c\<in>set cs. L c) (f c b) (fold f cs (f c b))"
    by (rule Cons.IH) (simp add: Cons.prems)
  ultimately show ?case using improves_trans by fastforce
qed

lemma dfs_improves: "search_wf (sx_model cx) st \<Longrightarrow> improves cx (set (leaves cx st)) b (dfs cx st b)"
proof (induction cx st b rule: dfs.induct)
  case (1 cx state0 b0)
  let ?m = "sx_model cx" and ?o = "sx_options cx"
  define b where "b = count_node b0"
  define st where "st = drop_descendants_if_blocked ?m state0"
  define cur where "cur = score_for st ?o"
  note defs = b_def st_def cur_def
  have wf: "search_wf ?m st" unfolding st_def by (rule search_wf_descendants) fact
  have node: "improves cx {} b0 b" by (simp add: b_def improves_stats)
  have dfs: "dfs cx state0 b0 = (if sb_have b \<and> \<not> better_score (optimistic_score ?m st cur) (sb_score b)
      then count_pruned b
      else case ready_tasks ?m st of [] \<Rightarrow> accept_leaf ?m st cur b
        | t # _ \<Rightarrow> (let b = fold (\<lambda>c b. dfs cx (schedule_task st t c) b) (candidates_for_task (sx_rnd cx) t (sx_index cx) st) b
            in if oo_allow_partial_plan ?o \<or> \<not> ot_mandatory t then dfs cx (drop_task st t) b else b))"
    by (simp only: dfs.simps [of cx state0 b0] Let_def defs)
  have lv: "leaves cx state0 = (case ready_tasks ?m st of [] \<Rightarrow> [st]
      | t # _ \<Rightarrow> concat (map (\<lambda>c. leaves cx (schedule_task st t c)) (candidates_for_task (sx_rnd cx) t (sx_index cx) st)) @
         (if oo_allow_partial_plan ?o \<or> \<not> ot_mandatory t then leaves cx (drop_task st t) else []))"
    by (simp only: leaves.simps [of cx state0] Let_def defs)
  have bound: "score_le (score_for l ?o) (optimistic_score ?m st cur)"
    if "priorities_bounded ?m ?o" "l \<in> set (leaves cx state0)" for l
    unfolding cur_def st_def
    by (rule optimistic_is_upper_bound, rule leaves_within_bound) fact+
  have "improves cx (set (leaves cx state0)) b (dfs cx state0 b0)"
  proof (cases "sb_have b \<and> \<not> better_score (optimistic_score ?m st cur) (sb_score b)")
    case True
    then show ?thesis
      unfolding dfs
      by (simp add: better_score_iff)
         (rule improves_pruned [where k = "optimistic_score ?m st cur"], simp_all add: bound)
  next
    case go: False
    note dfs' = dfs [unfolded if_not_P [OF go]]
    show ?thesis
    proof (cases "ready_tasks ?m st")
      case Nil
      then show ?thesis
        using improves_accept_leaf [of cx st b] unfolding dfs' lv by (simp add: cur_def)
    next
      case (Cons t ts)
      define b1 where "b1 = fold (\<lambda>c b. dfs cx (schedule_task st t c) b)
        (candidates_for_task (sx_rnd cx) t (sx_index cx) st) b"
      have cands: "improves cx (\<Union>c\<in>set (candidates_for_task (sx_rnd cx) t (sx_index cx) st).
          set (leaves cx (schedule_task st t c))) b b1"
        unfolding b1_def
        by (rule improves_fold, rule "1.IH"(1) [OF b_def st_def cur_def go Cons])
           (simp_all add: search_wf_schedule [OF wf Cons])
      show ?thesis
      proof (cases "oo_allow_partial_plan ?o \<or> \<not> ot_mandatory t")
        case True
        have "improves cx (set (leaves cx (drop_task st t))) b1 (dfs cx (drop_task st t) b1)"
          by (rule "1.IH"(2) [OF b_def st_def cur_def go Cons b1_def True search_wf_drop [OF wf Cons]])
        from improves_trans [OF cands this] Cons True show ?thesis
          unfolding dfs' lv by (simp add: b1_def)
      next
        case False
        with cands Cons show ?thesis unfolding dfs' lv by (simp add: b1_def)
      qed
    qed
  qed
  with improves_trans [OF node] show ?case by simp
qed

abbreviation solve_ctx :: "(rat \<Rightarrow> rat) \<Rightarrow> optimization_model \<Rightarrow> constraint_index \<Rightarrow> optimization_options \<Rightarrow> search_ctx" where
  "solve_ctx rnd model ix options \<equiv> \<lparr>sx_rnd = rnd, sx_model = model, sx_index = ix, sx_options = options\<rparr>"

lemma indexed_exact_solve_leaf:
  fixes rnd :: "rat \<Rightarrow> rat" and ix :: constraint_index and model options
  defines "L \<equiv> leaves (solve_ctx rnd model ix options) (root_state model)"
    and "sol \<equiv> indexed_exact_solve rnd model ix options"
  shows "if L = [] then \<not> sol_ok sol
    else sol_ok sol \<and> (\<exists>l\<in>set L. sol_assignments sol = map sa_assignment (ss_assignments l) \<and>
       sol_unfulfilled_task_ids sol = unscheduled_ids model l \<and>
       (priorities_bounded model options \<longrightarrow>
          (\<forall>l'\<in>set L. \<not> better_score (score_for l' options) (score_for l options))))"
proof -
  let ?cx = "solve_ctx rnd model ix options"
  let ?init = "\<lparr>sb_solution = empty_solution\<lparr>sol_backend_name := indexed_exact_name\<rparr>,
     sb_score = initial_score, sb_have = False\<rparr>"
  let ?b = "dfs ?cx (root_state model) ?init"
  have imp: "improves ?cx (set L) ?init ?b"
    unfolding L_def by (rule dfs_improves) (simp add: search_wf_root)
  have solve: "sol = (if sb_have ?b then sb_solution ?b
      else (sb_solution ?b)\<lparr>sol_ok := False, sol_error_message := ''No optimization result could be produced.''\<rparr>)"
    by (simp add: sol_def indexed_exact_solve_def Let_def)
  have ok: "sol_ok (sb_solution ?b)" using imp by (simp add: improves_def empty_solution_def)
  show ?thesis
  proof (cases "L = []")
    case True
    with imp have "\<not> sb_have ?b" by (simp add: improves_def)
    with True show ?thesis by (simp add: solve)
  next
    case False
    with imp have have_b: "sb_have ?b" unfolding improves_def by (metis list.set_intros(1) neq_Nil_conv)
    with imp obtain l where "l \<in> set L" "from_leaf ?cx l ?b" by (auto simp: improves_def)
    with False have_b ok imp show ?thesis
      by (auto simp: solve from_leaf_def improves_def better_score_iff)
  qed
qed

text \<open>
  C6. The branch-and-bound search is exact: as long as no task's weighted priority exceeds the
  per-task bound of the code, it returns a solution exactly when the exhaustive search has a
  leaf, and then the solution is a leaf that no leaf beats (on tasks fulfilled, then weighted
  priority, then makespan).
\<close>

theorem indexed_exact_is_optimal:
  fixes rnd :: "rat \<Rightarrow> rat" and ix :: constraint_index
  assumes "priorities_bounded model options"
  defines "L \<equiv> leaves (solve_ctx rnd model ix options) (root_state model)"
    and "sol \<equiv> indexed_exact_solve rnd model ix options"
  shows "if L = [] then \<not> sol_ok sol
    else sol_ok sol \<and> (\<exists>l\<in>set L. sol_assignments sol = map sa_assignment (ss_assignments l) \<and>
       sol_unfulfilled_task_ids sol = unscheduled_ids model l \<and>
       (\<forall>l'\<in>set L. \<not> better_score (score_for l' options) (score_for l options)))"
  using indexed_exact_solve_leaf [of rnd model ix options] assms(1) unfolding L_def sol_def by auto

subsection \<open>Every leaf is feasible\<close>

lemma earliest_in_windows_feasible:
  "earliest_in_windows ws rs cap rel dur demand = Some s \<Longrightarrow> feasible_start ws rs cap rel dur demand s"
proof (induction ws)
  case (Cons w ws)
  show ?case
  proof (cases "first_candidate rs cap (max (win_start w) rel) (win_end w - dur) dur demand")
    case None
    with Cons show ?thesis by (auto simp: Let_def feasible_start_Cons split: if_splits)
  next
    case (Some c)
    with Cons.prems first_candidate_Some [OF Some] have "s = c" by (auto simp: Let_def split: if_splits)
    with first_candidate_Some [OF Some] show ?thesis by (auto simp: feasible_start_Cons)
  qed
qed simp

lemma ix_earliest_start_Some:
  assumes "ix_earliest_start a rs rel dur demand = Some s"
  shows "rel \<le> s" and "fits_capacity rs (oa_capacity a) s (s + dur) demand"
    and "0 < dur \<Longrightarrow> \<exists>w\<in>set (oa_windows a). win_start w \<le> s \<and> s + dur \<le> win_end w"
  using assms earliest_in_windows_feasible [of "oa_windows a" rs "oa_capacity a" rel dur demand s]
  by (auto simp: ix_earliest_start_def feasible_start_def fits_capacity_def split: if_splits)

lemma dependency_ready_ge_aux:
  "acc \<le> foldl (\<lambda>ready d. case map_of ct d of Some c \<Rightarrow> max ready c | None \<Rightarrow> ready) acc ds \<and>
   (d \<in> set ds \<longrightarrow> map_of ct d = Some c \<longrightarrow>
      c \<le> foldl (\<lambda>ready d. case map_of ct d of Some c \<Rightarrow> max ready c | None \<Rightarrow> ready) acc ds)"
  for c :: time
proof (induction ds arbitrary: acc)
  case (Cons e ds)
  let ?acc = "case map_of ct e of Some c \<Rightarrow> max acc c | None \<Rightarrow> acc"
  have "acc \<le> ?acc" by (auto split: option.split)
  moreover have "d = e \<longrightarrow> map_of ct d = Some c \<longrightarrow> c \<le> ?acc" by auto
  ultimately show ?case using Cons.IH [of ?acc] by (auto intro: order_trans)
qed simp

lemma dependency_ready_ge:
  "d \<in> set (ot_dependency_task_ids t) \<Longrightarrow> map_of (ss_completion_times st) d = Some c \<Longrightarrow> c \<le> dependency_ready st t"
  using dependency_ready_ge_aux [of 0 "ss_completion_times st" "ot_dependency_task_ids t" d c]
  by (simp add: dependency_ready_def)

lemma candidates_for_task_mem:
  assumes "model_wf m" and "t \<in> set (om_tasks m)"
    and "c \<in> set (candidates_for_task rnd t (build_constraint_index m) st)"
  obtains a where "a \<in> set (om_actors m)" and "ca_actor_id c = oa_id a" and "\<not> mutex_blocked t st"
    and "placement_ok t a (ca_start_time c)" and "ca_end_time c = ca_start_time c + ot_duration t"
    and "dependency_ready st t \<le> ca_start_time c"
    and "fits_capacity (reservations_for_actor st (oa_id a)) (oa_capacity a)
           (ca_start_time c) (ca_end_time c) (ot_demand t)"
proof -
  from assms(3) obtain r where r: "r \<in> set (eligible_actors_for_task (build_constraint_index m) t)"
    and c: "candidate_on rnd t st (snd r) = Some c" and mutex: "\<not> mutex_blocked t st"
    by (auto simp: candidates_for_task_def mem_map_filter split: if_splits)
  from r have a: "snd r \<in> set (om_actors m)" and allowed: "allowed_by_lists t (snd r)"
    using eligible_actors_iff [OF assms(1,2)] by (auto simp: set_actor_refs)
  from c obtain s where es: "ix_earliest_start (snd r) (reservations_for_actor st (oa_id (snd r)))
        (max (ot_release_time t) (dependency_ready st t)) (ot_duration t) (ot_demand t) = Some s"
    and fields: "ca_start_time c = s" "ca_end_time c = s + ot_duration t" "ca_actor_id c = oa_id (snd r)"
    and guards: "ot_demand t \<le> oa_capacity (snd r)"
      "set (ot_required_capabilities t) \<subseteq> set (oa_capabilities (snd r))"
      "\<And>l. ot_latest_start_time t = Some l \<Longrightarrow> s \<le> l" "\<And>d. ot_deadline t = Some d \<Longrightarrow> s + ot_duration t \<le> d"
    by (auto simp: candidate_on_def Let_def list_all_iff subset_iff split: if_splits option.splits)
  from ix_earliest_start_Some [OF es] show thesis
    using that [OF a] fields guards allowed mutex by (simp add: placement_ok_def)
qed

text \<open>The data of a search: the index is the one built from a well-formed model.\<close>

definition search_ctx_ok :: "search_ctx \<Rightarrow> bool" where
  "search_ctx_ok cx \<longleftrightarrow> model_wf (sx_model cx) \<and> sx_index cx = build_constraint_index (sx_model cx)"

lemma schedule_cases:
  assumes "search_ctx_ok cx" and "ready_tasks (sx_model cx) st = t # ts"
    and "c \<in> set (candidates_for_task (sx_rnd cx) t (sx_index cx) st)"
  obtains a where "t \<in> set (om_tasks (sx_model cx))" and "a \<in> set (om_actors (sx_model cx))"
    and "ca_actor_id c = oa_id a" and "\<not> mutex_blocked t st" and "placement_ok t a (ca_start_time c)"
    and "ca_end_time c = ca_start_time c + ot_duration t" and "dependency_ready st t \<le> ca_start_time c"
    and "set (ot_dependency_task_ids t) \<subseteq> set (ss_scheduled st)"
    and "fits_capacity (reservations_for_actor st (oa_id a)) (oa_capacity a)
           (ca_start_time c) (ca_end_time c) (ot_demand t)"
proof -
  from ready_tasks_mem [OF assms(2)] have t: "t \<in> set (om_tasks (sx_model cx))"
    and deps: "set (ot_dependency_task_ids t) \<subseteq> set (ss_scheduled st)"
    by (auto simp: dependencies_satisfied_def list_all_iff)
  have wf: "model_wf (sx_model cx)" and c: "c \<in> set (candidates_for_task (sx_rnd cx) t
      (build_constraint_index (sx_model cx)) st)"
    using assms by (simp_all add: search_ctx_ok_def)
  show thesis by (rule candidates_for_task_mem [OF wf t c]) (rule that [OF t _ _ _ _ _ _ deps])
qed

abbreviation state_assignments :: "search_state \<Rightarrow> optimized_assignment list" where
  "state_assignments st \<equiv> map sa_assignment (ss_assignments st)"

abbreviation new_assignment :: "optimizer_task \<Rightarrow> candidate \<Rightarrow> optimized_assignment" where
  "new_assignment t c \<equiv> \<lparr>oas_task_id = ot_id t, oas_actor_id = ca_actor_id c,
     oas_start_time = ca_start_time c, oas_end_time = ca_end_time c\<rparr>"

lemma state_assignments_schedule [simp]:
  "state_assignments (schedule_task st t c) = state_assignments st @ [new_assignment t c]"
  by (simp add: schedule_task_def)

definition placed_inv :: "search_ctx \<Rightarrow> search_state \<Rightarrow> bool" where
  "placed_inv cx st \<longleftrightarrow> search_ctx_ok cx \<and> search_wf (sx_model cx) st \<and>
     (\<forall>x\<in>set (state_assignments st). assignment_feasible (sx_model cx) x)"

interpretation placed: search_invariant cx "placed_inv cx" for cx
proof (unfold_locales, goal_cases)
  case (1 st)
  then show ?case by (simp add: placed_inv_def search_wf_descendants)
next
  case (2 st t ts c)
  then have ok: "search_ctx_ok cx" and wf: "search_wf (sx_model cx) st" by (simp_all add: placed_inv_def)
  obtain a where "t \<in> set (om_tasks (sx_model cx))" "a \<in> set (om_actors (sx_model cx))"
    "ca_actor_id c = oa_id a" "placement_ok t a (ca_start_time c)"
    "ca_end_time c = ca_start_time c + ot_duration t"
    by (rule schedule_cases [OF ok 2(2,3)])
  then have "assignment_feasible (sx_model cx) (new_assignment t c)"
    unfolding assignment_feasible_def by (intro bexI [of _ t] bexI [of _ a]) simp_all
  with 2(1) search_wf_schedule [OF wf 2(2)] show ?case
    unfolding placed_inv_def state_assignments_schedule by simp
next
  case (3 st t ts)
  then show ?case using search_wf_drop [of "sx_model cx" st t ts] by (auto simp: placed_inv_def drop_task_def)
qed

definition order_inv :: "search_ctx \<Rightarrow> search_state \<Rightarrow> bool" where
  "order_inv cx st \<longleftrightarrow> search_ctx_ok cx \<and> search_wf (sx_model cx) st \<and>
     (\<forall>i\<in>set (ss_scheduled st). map_of (ss_completion_times st) i \<noteq> None) \<and>
     (\<forall>i c. map_of (ss_completion_times st) i = Some c \<longrightarrow>
        (\<exists>y\<in>set (state_assignments st). oas_task_id y = i \<and> oas_end_time y = c)) \<and>
     (\<forall>x\<in>set (state_assignments st). \<forall>d\<in>set (model_deps (sx_model cx) (oas_task_id x)).
        \<exists>y\<in>set (state_assignments st). oas_task_id y = d \<and> oas_end_time y \<le> oas_start_time x) \<and>
     sorted_wrt (\<lambda>x y. oas_task_id x \<notin> set (model_exclusions (sx_model cx) (oas_task_id y)))
       (state_assignments st)"

interpretation order: search_invariant cx "order_inv cx" for cx
proof (unfold_locales, goal_cases)
  case (1 st)
  then show ?case by (simp add: order_inv_def search_wf_descendants)
next
  case (2 st t ts c)
  let ?m = "sx_model cx" and ?x = "new_assignment t c"
  from 2(1) have ok: "search_ctx_ok cx" and wf: "search_wf ?m st" by (simp_all add: order_inv_def)
  obtain a where t: "t \<in> set (om_tasks ?m)" and mutex: "\<not> mutex_blocked t st"
    and ready: "dependency_ready st t \<le> ca_start_time c"
    and deps: "set (ot_dependency_task_ids t) \<subseteq> set (ss_scheduled st)"
    by (rule schedule_cases [OF ok 2(2,3)])
  have find: "find_task ?m (ot_id t) = Some t" using ok t by (simp add: search_ctx_ok_def find_task_mem)
  have sched: "set (ss_scheduled st) = oas_task_id ` set (state_assignments st)"
  proof -
    have "map oas_task_id (state_assignments st) = ss_scheduled st"
      using wf by (simp add: search_wf_def comp_def)
    then show ?thesis by (metis list.set_map)
  qed
  have dep: "\<exists>y\<in>set (state_assignments st). oas_task_id y = d \<and> oas_end_time y \<le> ca_start_time c"
    if "d \<in> set (ot_dependency_task_ids t)" for d
  proof -
    from that deps 2(1) obtain e where e: "map_of (ss_completion_times st) d = Some e"
      unfolding order_inv_def by blast
    with 2(1) obtain y where "y \<in> set (state_assignments st)" "oas_task_id y = d" "oas_end_time y = e"
      unfolding order_inv_def by blast
    with dependency_ready_ge [OF that e] ready show ?thesis by force
  qed
  have excl: "oas_task_id y \<notin> set (ot_mutually_exclusive_task_ids t)" if "y \<in> set (state_assignments st)" for y
    using mutex that sched by (auto simp: mutex_blocked_def list_ex_iff)
  have ct: "map_of (ss_completion_times (schedule_task st t c)) =
      (map_of (ss_completion_times st))(ot_id t \<mapsto> ca_end_time c)"
    and sc: "set (ss_scheduled (schedule_task st t c)) = insert (ot_id t) (set (ss_scheduled st))"
    by (auto simp: schedule_task_def)
  show ?case
    unfolding order_inv_def state_assignments_schedule ct sc
  proof (intro conjI ballI allI impI)
    show "search_wf ?m (schedule_task st t c)" by (rule search_wf_schedule [OF wf 2(2)])
    show "\<exists>y\<in>set (state_assignments st @ [?x]). oas_task_id y = i \<and> oas_end_time y = e"
      if "((map_of (ss_completion_times st))(ot_id t \<mapsto> ca_end_time c)) i = Some e" for i e
      using that 2(1) unfolding order_inv_def by (cases "i = ot_id t") force+
    show "\<exists>y\<in>set (state_assignments st @ [?x]). oas_task_id y = d \<and> oas_end_time y \<le> oas_start_time x"
      if "x \<in> set (state_assignments st @ [?x])" "d \<in> set (model_deps ?m (oas_task_id x))" for x d
    proof (cases "x = ?x")
      case True
      with that(2) dep [of d] show ?thesis by (auto simp: model_deps_def find)
    next
      case False
      with that 2(1) show ?thesis unfolding order_inv_def by fastforce
    qed
    show "sorted_wrt (\<lambda>x y. oas_task_id x \<notin> set (model_exclusions ?m (oas_task_id y)))
        (state_assignments st @ [?x])"
      using 2(1) excl by (auto simp: order_inv_def sorted_wrt_append model_exclusions_def find)
  qed (use 2(1) in \<open>auto simp: order_inv_def\<close>)
next
  case (3 st t ts)
  then show ?case using search_wf_drop [of "sx_model cx" st t ts] by (auto simp: order_inv_def drop_task_def)
qed

definition usage_inv :: "search_ctx \<Rightarrow> search_state \<Rightarrow> bool" where
  "usage_inv cx st \<longleftrightarrow> search_ctx_ok cx \<and> search_wf (sx_model cx) st \<and>
     (\<forall>a u. reserved_demand (ss_reservations st) a u = demand_on (sx_model cx) (state_assignments st) a u) \<and>
     (\<forall>x\<in>set (state_assignments st). \<forall>a\<in>set (om_actors (sx_model cx)). \<forall>u. asg_runs x (oa_id a) u \<longrightarrow>
        demand_on (sx_model cx) (state_assignments st) (oa_id a) u \<le> oa_capacity a)"

interpretation usage: search_invariant cx "usage_inv cx" for cx
proof (unfold_locales, goal_cases)
  case (1 st)
  then show ?case by (simp add: usage_inv_def search_wf_descendants)
next
  case (2 st t ts c)
  let ?m = "sx_model cx" and ?x = "new_assignment t c" and ?xs = "state_assignments st"
  from 2(1) have ok: "search_ctx_ok cx" and wf: "search_wf ?m st"
    and res: "reserved_demand (ss_reservations st) a u = demand_on ?m ?xs a u" for a u
    by (simp_all add: usage_inv_def)
  obtain a where t: "t \<in> set (om_tasks ?m)" and a: "a \<in> set (om_actors ?m)" "ca_actor_id c = oa_id a"
    and fits: "fits_capacity (reservations_for_actor st (oa_id a)) (oa_capacity a)
       (ca_start_time c) (ca_end_time c) (ot_demand t)"
    by (rule schedule_cases [OF ok 2(2,3)])
  have dem: "asg_demand ?m ?x = ot_demand t"
    using ok t by (simp add: search_ctx_ok_def find_task_mem asg_demand_def)
  have new: "demand_on ?m (?xs @ [?x]) (oa_id b) u \<le> oa_capacity b"
    if "asg_runs ?x (oa_id b) u" "b \<in> set (om_actors ?m)" for b u
  proof -
    from that a ok have "b = a"
      by (intro actor_unique [of ?m]) (auto simp: asg_runs_def search_ctx_ok_def)
    with that fits res [of "oa_id a" u] dem show ?thesis
      by (auto simp: fits_capacity_def reservations_for_actor_def reserved_demand_def asg_runs_def)
  qed
  show ?case
    unfolding usage_inv_def state_assignments_schedule
  proof (intro conjI ballI allI impI)
    show "search_wf ?m (schedule_task st t c)" by (rule search_wf_schedule [OF wf 2(2)])
    show "reserved_demand (ss_reservations (schedule_task st t c)) b u = demand_on ?m (?xs @ [?x]) b u" for b u
      using res [of b u] dem
      by (auto simp: schedule_task_def reserved_demand_push covers_def asg_runs_def)
    show "demand_on ?m (?xs @ [?x]) (oa_id b) u \<le> oa_capacity b"
      if "x \<in> set (?xs @ [?x])" "b \<in> set (om_actors ?m)" "asg_runs x (oa_id b) u" for x b u
    proof (cases "asg_runs ?x (oa_id b) u")
      case True
      with new that show ?thesis by blast
    next
      case False
      with that have "x \<in> set ?xs" by auto
      with that(2,3) 2(1) have "demand_on ?m ?xs (oa_id b) u \<le> oa_capacity b"
        unfolding usage_inv_def by blast
      with False show ?thesis by (simp only: demand_on_append if_False)
    qed
  qed (fact ok)
next
  case (3 st t ts)
  then show ?case using search_wf_drop [of "sx_model cx" st t ts] by (simp add: usage_inv_def drop_task_def)
qed

lemma reserved_demand_root: "reserved_demand (ss_reservations (root_state m)) a u = 0"
proof -
  have "umap_at_or (fold (\<lambda>b. AList.update (oa_id b) []) bs n) a [] = ([] :: scheduled_interval list)"
    if "umap_at_or n a [] = []" for bs :: "optimizer_actor list" and n
    using that by (induction bs arbitrary: n) (auto simp: umap_at_or_def)
  then have "umap_at_or (ss_reservations (root_state m)) a [] = []"
    by (simp add: root_state_def umap_at_or_def [of "[]"])
  then show ?thesis by (simp add: reserved_demand_def)
qed

lemma leaf_feasible:
  assumes "search_ctx_ok cx" and "l \<in> set (leaves cx (root_state (sx_model cx)))"
  shows "feasible_schedule (sx_model cx) (state_assignments l)"
proof -
  have root: "placed_inv cx (root_state (sx_model cx))" "order_inv cx (root_state (sx_model cx))"
    "usage_inv cx (root_state (sx_model cx))"
    using assms(1) search_wf_root [of "sx_model cx"]
    by (simp_all add: placed_inv_def order_inv_def usage_inv_def reserved_demand_root,
        simp_all add: root_state_def)
  note placed = placed.inv_leaves [OF root(1) assms(2)]
    and order = order.inv_leaves [OF root(2) assms(2)] and usage = usage.inv_leaves [OF root(3) assms(2)]
  have dist: "distinct (map oas_task_id (state_assignments l))"
    using placed by (simp add: placed_inv_def search_wf_def comp_def)
  have pairs: "x = y \<or> oas_task_id x \<notin> set (model_exclusions (sx_model cx) (oas_task_id y))
      \<or> oas_task_id y \<notin> set (model_exclusions (sx_model cx) (oas_task_id x))"
    if "sorted_wrt (\<lambda>x y. oas_task_id x \<notin> set (model_exclusions (sx_model cx) (oas_task_id y))) xs"
      "x \<in> set xs" "y \<in> set xs" for x y xs
    using that by (induction xs) auto
  have srt: "sorted_wrt (\<lambda>x y. oas_task_id x \<notin> set (model_exclusions (sx_model cx) (oas_task_id y)))
      (state_assignments l)" using order unfolding order_inv_def by blast
  show ?thesis
    unfolding feasible_schedule_def
    using dist placed order usage pairs [OF srt]
    unfolding placed_inv_def order_inv_def usage_inv_def by blast
qed

lemma indexed_exact_feasible:
  assumes "model_wf model" and "sol_ok (indexed_exact_solve rnd model (build_constraint_index model) options)"
  defines "sol \<equiv> indexed_exact_solve rnd model (build_constraint_index model) options"
  shows "feasible_schedule model (sol_assignments sol) \<and>
    set (map oas_task_id (sol_assignments sol)) \<inter> set (sol_unfulfilled_task_ids sol) = {} \<and>
    set (map oas_task_id (sol_assignments sol)) \<union> set (sol_unfulfilled_task_ids sol) = ot_id ` set (om_tasks model)"
proof -
  let ?cx = "solve_ctx rnd model (build_constraint_index model) options"
  have ok: "search_ctx_ok ?cx" using assms(1) by (simp add: search_ctx_ok_def)
  from indexed_exact_solve_leaf [of rnd model "build_constraint_index model" options] assms(2)
  obtain l where l: "l \<in> set (leaves ?cx (root_state model))"
    and sol: "sol_assignments sol = state_assignments l" "sol_unfulfilled_task_ids sol = unscheduled_ids model l"
    by (auto simp: sol_def split: if_splits)
  have "search_wf model l"
    using wf_inv.inv_leaves [of ?cx "root_state model" l] l search_wf_root by simp
  then have "map oas_task_id (state_assignments l) = ss_scheduled l"
    and "set (ss_scheduled l) \<subseteq> ot_id ` set (om_tasks model)"
    by (simp_all add: search_wf_def comp_def)
  moreover have "feasible_schedule model (state_assignments l)"
    using leaf_feasible [OF ok] l by simp
  ultimately show ?thesis
    unfolding sol by (auto simp: unscheduled_ids_def)
qed

text \<open>
  C7. Every solution of the branch-and-bound back-end is a feasible schedule of a well-formed
  model (eligible actors, windows, deadlines, capacity at every instant, dependencies in order,
  no mutually exclusive pair), and together with the unfulfilled list it accounts for every task.
\<close>

theorem indexed_exact_solution_feasible:
  assumes "model_wf model" and "sol_ok (indexed_exact_solve rnd model (build_constraint_index model) options)"
  defines "sol \<equiv> indexed_exact_solve rnd model (build_constraint_index model) options"
  shows "feasible_schedule model (sol_assignments sol) \<and>
    set (map oas_task_id (sol_assignments sol)) \<inter> set (sol_unfulfilled_task_ids sol) = {} \<and>
    set (map oas_task_id (sol_assignments sol)) \<union> set (sol_unfulfilled_task_ids sol) = ot_id ` set (om_tasks model)"
  using indexed_exact_feasible [OF assms(1,2)] by (simp add: sol_def)

end
