(* ===== verification/Discrete_Time.thy ===== *)
theory Discrete_Time
  imports Opt_Model
begin

text \<open>
  \<^verbatim>\<open>optimizer/discrete_time_formulation.cpp\<close>: a model becomes a list of options (task, actor,
  start), one decision per task, one capacity constraint per actor and instant, and the
  dependency and exclusion constraints; a selection of options is decoded back into
  assignments. \<open>rnd\<close> rounds a floating-point product.
\<close>

definition kScaledDoubleFactor :: int where "kScaledDoubleFactor = 1000"
definition kDiscreteDistancePadding :: time where "kDiscreteDistancePadding = 1"

record discrete_option =
  do_option_index :: nat
  do_task_index :: nat
  do_actor_index :: nat
  do_task_id :: task_id
  do_actor_id :: actor_id
  do_start_time :: time
  do_end_time :: time
  do_demand :: int
  do_objective_coefficient :: int

record discrete_task_decision =
  dd_task_index :: nat
  dd_task_id :: task_id
  dd_required :: bool
  dd_option_indexes :: "nat list"

record actor_time_slot_constraint =
  ts_actor_index :: nat
  ts_actor_id :: actor_id
  ts_time :: time
  ts_capacity :: int
  ts_option_indexes :: "nat list"

record dependency_constraint =
  dc_predecessor :: nat
  dc_successor :: nat

record mutual_exclusion_constraint =
  mx_first :: nat
  mx_second :: nat

record discrete_time_formulation =
  df_model :: "optimization_model option"
  df_options :: "discrete_option list"
  df_task_decisions :: "discrete_task_decision list"
  df_actor_time_slots :: "actor_time_slot_constraint list"
  df_dependencies :: "dependency_constraint list"
  df_mutual_exclusions :: "mutual_exclusion_constraint list"
  df_horizon_end :: time

subsection \<open>Objective coefficients\<close>

text \<open>\<^verbatim>\<open>std::llround\<close> rounds halves away from zero.\<close>

definition llround :: "rat \<Rightarrow> int" where
  "llround x = (if x \<ge> 0 then \<lfloor>x + 1 / 2\<rfloor> else \<lceil>x - 1 / 2\<rceil>)"

definition scale_double :: "(rat \<Rightarrow> rat) \<Rightarrow> rat \<Rightarrow> int" where
  "scale_double rnd v = llround (rnd (v * of_int kScaledDoubleFactor))"

definition task_capabilities_supported :: "optimizer_task \<Rightarrow> optimizer_actor \<Rightarrow> bool" where
  "task_capabilities_supported t a = list_all (\<lambda>c. c \<in> set (oa_capabilities a)) (ot_required_capabilities t)"

definition fallback_distance_for_task :: "optimizer_task \<Rightarrow> time" where
  "fallback_distance_for_task t =
     (case ot_actor_distances t of
        [] \<Rightarrow> 0
      | (_, d) # rest \<Rightarrow> foldl max d (map snd rest) + kDiscreteDistancePadding)"

definition option_objective_coefficient ::
  "(rat \<Rightarrow> rat) \<Rightarrow> optimizer_task \<Rightarrow> optimizer_actor \<Rightarrow> optimization_options \<Rightarrow> time \<Rightarrow> time \<Rightarrow> int" where
  "option_objective_coefficient rnd t a options start_time end_time =
     (let w = oo_objective options;
          distance = umap_at_or (ot_actor_distances t) (oa_id a) (fallback_distance_for_task t);
          tardiness = (case ot_deadline t of Some d \<Rightarrow> max 0 (end_time - d) | None \<Rightarrow> 0);
          scaled_execution_cost =
            scale_double rnd (rnd (oa_execution_cost_per_unit a * rnd (of_int (ot_duration t))));
          scaled_tardiness_cost = scale_double rnd (ot_tardiness_cost_per_unit t);
          scaled_early_start_bonus = scale_double rnd (ot_early_start_bonus t)
      in fulfilled_task_weight w + ot_priority t * priority_weight w
         + distance * travel_distance_weight w + tardiness * tardiness_weight w
         + scaled_execution_cost * execution_cost_weight w
         - scaled_tardiness_cost * tardiness - scaled_early_start_bonus * start_time
         + (if oa_id a \<in> set (ot_preferred_actor_ids t) then preferred_actor_weight w else 0))"

definition latest_feasible_start :: "optimizer_task \<Rightarrow> availability_window \<Rightarrow> time option" where
  "latest_feasible_start t w =
     (if win_end w < ot_duration t then None
      else
        (let l = win_end w - ot_duration t;
             l = (case ot_latest_start_time t of Some x \<Rightarrow> min l x | None \<Rightarrow> l);
             l = (case ot_deadline t of Some d \<Rightarrow> min l (d - ot_duration t) | None \<Rightarrow> l)
         in Some l))"

definition backend_model_supported :: "optimization_model \<Rightarrow> string option" where
  "backend_model_supported model =
     (case find ot_preemptible (om_tasks model) of
        None \<Rightarrow> None
      | Some _ \<Rightarrow> Some ''Preemptible tasks are not yet supported by the discrete-time solver backends.'')"

subsection \<open>Building the formulation\<close>

text \<open>The variables of the building loop: the formulation so far, the slot map, the pair set.\<close>

record df_work =
  fw_options :: "discrete_option list"
  fw_decisions :: "discrete_task_decision list"
  fw_slots :: "(nat \<times> time, nat list) umap"
  fw_dependencies :: "dependency_constraint list"
  fw_mutex_pairs :: "(nat \<times> nat) list"
  fw_mutual_exclusions :: "mutual_exclusion_constraint list"
  fw_horizon_end :: time

definition empty_work :: df_work where
  "empty_work = \<lparr>fw_options = [], fw_decisions = [], fw_slots = [], fw_dependencies = [],
     fw_mutex_pairs = [], fw_mutual_exclusions = [], fw_horizon_end = 0\<rparr>"

definition find_actor_index :: "optimization_model \<Rightarrow> actor_id \<Rightarrow> nat option" where
  "find_actor_index model i = map_option fst (find (\<lambda>(_, a). oa_id a = i) (enumerate 0 (om_actors model)))"

text \<open>The placements the three inner loops visit, in order: actor, window, start.\<close>

definition window_starts :: "optimizer_task \<Rightarrow> availability_window \<Rightarrow> time list" where
  "window_starts t w =
     (case latest_feasible_start t w of
        None \<Rightarrow> []
      | Some last_start \<Rightarrow> [max (win_start w) (ot_release_time t)..last_start])"

definition actor_placements ::
  "optimization_model \<Rightarrow> optimizer_task \<Rightarrow> optimizer_actor \<Rightarrow> (nat \<times> optimizer_actor \<times> time) list" where
  "actor_placements model t a =
     (if ot_demand t > oa_capacity a \<or> \<not> task_capabilities_supported t a then []
      else case find_actor_index model (oa_id a) of
        None \<Rightarrow> []
      | Some ai \<Rightarrow> concat (map (\<lambda>w. map (\<lambda>s. (ai, a, s)) (window_starts t w)) (oa_windows a)))"

definition task_placements ::
  "optimization_model \<Rightarrow> constraint_index \<Rightarrow> optimizer_task \<Rightarrow> (nat \<times> optimizer_actor \<times> time) list" where
  "task_placements model ix t =
     concat (map (\<lambda>a. actor_placements model t (snd a)) (eligible_actors_for_task ix t))"

definition add_option ::
  "(rat \<Rightarrow> rat) \<Rightarrow> optimization_options \<Rightarrow> nat \<Rightarrow> optimizer_task \<Rightarrow> nat \<times> optimizer_actor \<times> time
     \<Rightarrow> df_work \<times> nat list \<Rightarrow> df_work \<times> nat list" where
  "add_option rnd options ti t = (\<lambda>(ai, a, start_time) (wk, idxs).
     let end_time = start_time + ot_duration t;
         oi = length (fw_options wk)
     in (wk\<lparr>fw_options := fw_options wk @
              [\<lparr>do_option_index = oi, do_task_index = ti, do_actor_index = ai, do_task_id = ot_id t,
                do_actor_id = oa_id a, do_start_time = start_time, do_end_time = end_time,
                do_demand = ot_demand t,
                do_objective_coefficient = option_objective_coefficient rnd t a options start_time end_time\<rparr>],
            fw_horizon_end := max (fw_horizon_end wk) end_time,
            fw_slots := fold (\<lambda>u. umap_push (ai, u) oi) [start_time..end_time - 1] (fw_slots wk)\<rparr>,
         idxs @ [oi]))"

definition add_dependency :: "(task_id, nat) umap \<Rightarrow> nat \<Rightarrow> task_id \<Rightarrow> df_work \<Rightarrow> df_work" where
  "add_dependency task_indexes ti d wk =
     (case map_of task_indexes d of
        None \<Rightarrow> wk
      | Some di \<Rightarrow> wk\<lparr>fw_dependencies := fw_dependencies wk @ [\<lparr>dc_predecessor = di, dc_successor = ti\<rparr>]\<rparr>)"

definition add_exclusion :: "(task_id, nat) umap \<Rightarrow> nat \<Rightarrow> task_id \<Rightarrow> df_work \<Rightarrow> df_work" where
  "add_exclusion task_indexes ti u wk =
     (case map_of task_indexes u of
        None \<Rightarrow> wk
      | Some ui \<Rightarrow>
          (let first = min ti ui; second = max ti ui in
           if first \<noteq> second \<and> (first, second) \<notin> set (fw_mutex_pairs wk)
           then wk\<lparr>fw_mutex_pairs := fw_mutex_pairs wk @ [(first, second)],
                   fw_mutual_exclusions := fw_mutual_exclusions wk @ [\<lparr>mx_first = first, mx_second = second\<rparr>]\<rparr>
           else wk))"

definition add_task ::
  "(rat \<Rightarrow> rat) \<Rightarrow> optimization_model \<Rightarrow> constraint_index \<Rightarrow> optimization_options \<Rightarrow> (task_id, nat) umap
     \<Rightarrow> nat \<times> optimizer_task \<Rightarrow> df_work \<Rightarrow> df_work" where
  "add_task rnd model ix options task_indexes = (\<lambda>(ti, t) wk.
     let (wk, idxs) = fold (add_option rnd options ti t) (task_placements model ix t) (wk, []);
         wk = wk\<lparr>fw_decisions := fw_decisions wk @
           [\<lparr>dd_task_index = ti, dd_task_id = ot_id t,
             dd_required = (\<not> oo_allow_partial_plan options \<and> ot_mandatory t), dd_option_indexes = idxs\<rparr>]\<rparr>;
         wk = fold (add_dependency task_indexes ti) (ot_dependency_task_ids t) wk
     in fold (add_exclusion task_indexes ti) (ot_mutually_exclusive_task_ids t) wk)"

definition task_index_table :: "optimization_model \<Rightarrow> (task_id, nat) umap" where
  "task_index_table model = fold (\<lambda>(ti, t). umap_emplace (ot_id t) ti) (enumerate 0 (om_tasks model)) []"

definition slot_constraint :: "optimization_model \<Rightarrow> (nat \<times> time) \<times> nat list \<Rightarrow> actor_time_slot_constraint" where
  "slot_constraint model = (\<lambda>((ai, u), idxs).
     \<lparr>ts_actor_index = ai, ts_actor_id = oa_id (om_actors model ! ai), ts_time = u,
      ts_capacity = oa_capacity (om_actors model ! ai), ts_option_indexes = idxs\<rparr>)"

definition build_discrete_time_formulation ::
  "(rat \<Rightarrow> rat) \<Rightarrow> optimization_model \<Rightarrow> constraint_index \<Rightarrow> optimization_options
     \<Rightarrow> discrete_time_formulation" where
  "build_discrete_time_formulation rnd model ix options =
     (let wk = fold (add_task rnd model ix options (task_index_table model))
                 (enumerate 0 (om_tasks model)) empty_work
      in \<lparr>df_model = Some model, df_options = fw_options wk, df_task_decisions = fw_decisions wk,
          df_actor_time_slots = map (slot_constraint model) (sort_key fst (fw_slots wk)),
          df_dependencies = fw_dependencies wk, df_mutual_exclusions = fw_mutual_exclusions wk,
          df_horizon_end = fw_horizon_end wk\<rparr>)"

subsection \<open>Decoding\<close>

definition option_assignment :: "discrete_option \<Rightarrow> optimized_assignment" where
  "option_assignment o1 = \<lparr>oas_task_id = do_task_id o1, oas_actor_id = do_actor_id o1,
     oas_start_time = do_start_time o1, oas_end_time = do_end_time o1\<rparr>"

definition decode_selected_options ::
  "discrete_time_formulation \<Rightarrow> nat list \<Rightarrow> string \<Rightarrow> optimization_stats \<Rightarrow> optimization_solution" where
  "decode_selected_options f selected backend_name stats =
     (case df_model f of
        None \<Rightarrow> empty_solution\<lparr>sol_ok := False, sol_backend_name := backend_name, sol_stats := stats,
          sol_error_message := ''No optimization model was attached to the discrete-time formulation.''\<rparr>
      | Some model \<Rightarrow>
          (let chosen = map (\<lambda>i. df_options f ! i) (filter (\<lambda>i. i < length (df_options f)) selected);
               selected_tasks = map do_task_id chosen
           in empty_solution\<lparr>sol_backend_name := backend_name, sol_stats := stats,
                sol_assignments := sort_key
                  (\<lambda>x. (oas_start_time x, oas_end_time x, oas_task_id x, oas_actor_id x))
                  (map option_assignment chosen),
                sol_unfulfilled_task_ids :=
                  map ot_id (filter (\<lambda>t. ot_id t \<notin> set selected_tasks) (om_tasks model))\<rparr>))"

end
