(* ===== verification/Solver_Backends.thy ===== *)
theory Solver_Backends
  imports Discrete_Time Text_Input
begin

text \<open>
  The two solver back-ends, \<^verbatim>\<open>optimizer_backend/ortools_cp_sat\<close> and
  \<^verbatim>\<open>optimizer_backend/commercial_mip\<close>: each turns the discrete-time formulation into a linear
  model over one boolean variable per option (and a makespan variable), calls OR-Tools, and
  decodes the answer. OR-Tools is not part of the repository: the solver is a parameter that
  maps a linear model to a response, and \<open>solver_sound\<close> states what its documentation promises,
  that a response with status OPTIMAL or FEASIBLE satisfies the constraints it was given.
\<close>

subsection \<open>Linear models\<close>

text \<open>
  A row: coefficients of option variables, the coefficient of the makespan variable, and
  optional bounds.
\<close>

record linear_constraint =
  lc_terms :: "(nat \<times> int) list"
  lc_makespan :: int
  lc_lower :: "int option"
  lc_upper :: "int option"

record linear_model =
  lm_variables :: "string list"
  lm_makespan_bound :: "int option"
  lm_constraints :: "linear_constraint list"
  lm_objective :: "(nat \<times> int) list"
  lm_objective_makespan :: int

datatype solver_status = OPTIMAL | FEASIBLE | OtherStatus string

record solver_response =
  rs_status :: solver_status
  rs_selected :: "nat \<Rightarrow> bool"
  rs_makespan :: int
  rs_nodes :: int
  rs_conflicts :: int

record solver_parameters =
  par_time_limit_ms :: "int option"
  par_relative_gap :: "rat option"
  par_workers :: "int option"

type_synonym solver = "linear_model \<Rightarrow> solver_parameters \<Rightarrow> solver_response"

definition eval_terms :: "(nat \<Rightarrow> bool) \<Rightarrow> (nat \<times> int) list \<Rightarrow> int" where
  "eval_terms sel ts = sum_list (map (\<lambda>(i, c). if sel i then c else 0) ts)"

definition constraint_holds :: "(nat \<Rightarrow> bool) \<Rightarrow> int \<Rightarrow> linear_constraint \<Rightarrow> bool" where
  "constraint_holds sel mk c \<longleftrightarrow>
     (let v = eval_terms sel (lc_terms c) + lc_makespan c * mk in
      (case lc_lower c of None \<Rightarrow> True | Some l \<Rightarrow> l \<le> v) \<and>
      (case lc_upper c of None \<Rightarrow> True | Some u \<Rightarrow> v \<le> u))"

definition satisfies :: "linear_model \<Rightarrow> (nat \<Rightarrow> bool) \<Rightarrow> int \<Rightarrow> bool" where
  "satisfies lm sel mk \<longleftrightarrow> list_all (constraint_holds sel mk) (lm_constraints lm) \<and>
     (case lm_makespan_bound lm of None \<Rightarrow> True | Some h \<Rightarrow> 0 \<le> mk \<and> mk \<le> h)"

definition accepted :: "solver_status \<Rightarrow> bool" where
  "accepted s \<longleftrightarrow> s = OPTIMAL \<or> s = FEASIBLE"

definition solver_sound :: "solver \<Rightarrow> bool" where
  "solver_sound solver \<longleftrightarrow> (\<forall>lm par. accepted (rs_status (solver lm par)) \<longrightarrow>
     satisfies lm (rs_selected (solver lm par)) (rs_makespan (solver lm par)))"

subsection \<open>Shared parts\<close>

definition option_variable_name :: "discrete_option \<Rightarrow> string" where
  "option_variable_name o1 = ''opt_'' @ do_task_id o1 @ ''_'' @ do_actor_id o1 @ ''_'' @ to_string (do_start_time o1)"

definition first_required_task_without_options ::
  "discrete_time_formulation \<Rightarrow> discrete_task_decision option" where
  "first_required_task_without_options f =
     find (\<lambda>d. dd_required d \<and> dd_option_indexes d = []) (df_task_decisions f)"

definition collect_selected_option_indexes :: "nat \<Rightarrow> (nat \<Rightarrow> bool) \<Rightarrow> nat list" where
  "collect_selected_option_indexes n is_selected = filter is_selected [0..<n]"

definition failed_solution :: "string \<Rightarrow> optimization_stats \<Rightarrow> string \<Rightarrow> optimization_solution" where
  "failed_solution backend_name stats msg = empty_solution\<lparr>sol_ok := False, sol_backend_name := backend_name,
     sol_stats := stats, sol_error_message := msg\<rparr>"

definition no_stats :: optimization_stats where
  "no_stats = \<lparr>search_nodes = 0, pruned_nodes = 0\<rparr>"

subsection \<open>CP-SAT\<close>

text \<open>
  The linear expressions of a decision: the sum of its option variables, weighted by one, by the
  start and by the end. \<^verbatim>\<open>LinearExpr\<close> addition appends terms.
\<close>

definition select_expr :: "discrete_task_decision \<Rightarrow> (nat \<times> int) list" where
  "select_expr d = map (\<lambda>i. (i, 1)) (dd_option_indexes d)"

definition start_expr :: "discrete_time_formulation \<Rightarrow> discrete_task_decision \<Rightarrow> (nat \<times> int) list" where
  "start_expr f d = map (\<lambda>i. (i, do_start_time (df_options f ! i))) (dd_option_indexes d)"

definition end_expr :: "discrete_time_formulation \<Rightarrow> discrete_task_decision \<Rightarrow> (nat \<times> int) list" where
  "end_expr f d = map (\<lambda>i. (i, do_end_time (df_options f ! i))) (dd_option_indexes d)"

definition scale_terms :: "int \<Rightarrow> (nat \<times> int) list \<Rightarrow> (nat \<times> int) list" where
  "scale_terms k ts = map (\<lambda>(i, c). (i, k * c)) ts"

definition cp_task_row :: "discrete_task_decision \<Rightarrow> linear_constraint" where
  "cp_task_row d = \<lparr>lc_terms = select_expr d, lc_makespan = 0,
     lc_lower = (if dd_required d then Some 1 else None), lc_upper = Some 1\<rparr>"

definition cp_slot_row :: "discrete_time_formulation \<Rightarrow> actor_time_slot_constraint \<Rightarrow> linear_constraint" where
  "cp_slot_row f s = \<lparr>lc_terms = map (\<lambda>i. (i, do_demand (df_options f ! i))) (ts_option_indexes s),
     lc_makespan = 0, lc_lower = None, lc_upper = Some (ts_capacity s)\<rparr>"

definition cp_dependency_rows :: "discrete_time_formulation \<Rightarrow> dependency_constraint \<Rightarrow> linear_constraint list" where
  "cp_dependency_rows f c =
     (let succ = df_task_decisions f ! dc_successor c;
          pred = df_task_decisions f ! dc_predecessor c;
          big_m = df_horizon_end f
      in [\<lparr>lc_terms = select_expr succ @ scale_terms (- 1) (select_expr pred), lc_makespan = 0,
           lc_lower = None, lc_upper = Some 0\<rparr>,
          \<lparr>lc_terms = start_expr f succ @ scale_terms (- 1) (end_expr f pred)
             @ scale_terms (- big_m) (select_expr succ),
           lc_makespan = 0, lc_lower = Some (- big_m), lc_upper = None\<rparr>])"

definition cp_exclusion_row :: "discrete_time_formulation \<Rightarrow> mutual_exclusion_constraint \<Rightarrow> linear_constraint" where
  "cp_exclusion_row f c = \<lparr>lc_terms = select_expr (df_task_decisions f ! mx_first c)
       @ select_expr (df_task_decisions f ! mx_second c),
     lc_makespan = 0, lc_lower = None, lc_upper = Some 1\<rparr>"

definition cp_makespan_row :: "discrete_time_formulation \<Rightarrow> discrete_task_decision \<Rightarrow> linear_constraint" where
  "cp_makespan_row f d = \<lparr>lc_terms = scale_terms (- 1) (end_expr f d), lc_makespan = 1,
     lc_lower = Some 0, lc_upper = None\<rparr>"

definition uses_makespan :: "discrete_time_formulation \<Rightarrow> optimization_options \<Rightarrow> bool" where
  "uses_makespan f options \<longleftrightarrow> makespan_weight (oo_objective options) \<noteq> 0 \<and> df_horizon_end f > 0"

definition objective_terms :: "discrete_time_formulation \<Rightarrow> (nat \<times> int) list" where
  "objective_terms f = map (\<lambda>o1. (do_option_index o1, do_objective_coefficient o1)) (df_options f)"

definition cp_model :: "discrete_time_formulation \<Rightarrow> optimization_options \<Rightarrow> linear_model" where
  "cp_model f options =
     \<lparr>lm_variables = map option_variable_name (df_options f),
      lm_makespan_bound = (if uses_makespan f options then Some (df_horizon_end f) else None),
      lm_constraints = map cp_task_row (df_task_decisions f)
        @ map (cp_slot_row f) (df_actor_time_slots f)
        @ concat (map (cp_dependency_rows f) (df_dependencies f))
        @ map (cp_exclusion_row f) (df_mutual_exclusions f)
        @ (if uses_makespan f options then map (cp_makespan_row f) (df_task_decisions f) else []),
      lm_objective = objective_terms f,
      lm_objective_makespan = (if uses_makespan f options then makespan_weight (oo_objective options) else 0)\<rparr>"

definition solver_parameters_of :: "optimization_options \<Rightarrow> solver_parameters" where
  "solver_parameters_of options =
     \<lparr>par_time_limit_ms = (if oo_time_limit_ms options > 0 then Some (oo_time_limit_ms options) else None),
      par_relative_gap = (if oo_relative_gap_limit options > 0 then Some (oo_relative_gap_limit options) else None),
      par_workers = (if oo_num_search_workers options > 0 then Some (oo_num_search_workers options) else None)\<rparr>"

definition status_name :: "solver_status \<Rightarrow> string" where
  "status_name s = (case s of OPTIMAL \<Rightarrow> ''OPTIMAL'' | FEASIBLE \<Rightarrow> ''FEASIBLE'' | OtherStatus n \<Rightarrow> n)"

definition cp_sat_name :: string where "cp_sat_name = ''ortools_cp_sat''"

definition cp_sat_solve ::
  "(rat \<Rightarrow> rat) \<Rightarrow> solver \<Rightarrow> optimization_model \<Rightarrow> constraint_index \<Rightarrow> optimization_options \<Rightarrow> optimization_solution" where
  "cp_sat_solve rnd solver model ix options =
     (case backend_model_supported model of
        Some e \<Rightarrow> failed_solution cp_sat_name no_stats e
      | None \<Rightarrow>
          (let f = build_discrete_time_formulation rnd model ix options in
           case first_required_task_without_options f of
             Some d \<Rightarrow> failed_solution cp_sat_name no_stats
               (''Required task '' @ [CHR 0x27] @ dd_task_id d @ [CHR 0x27] @ '' has no feasible assignment options.'')
           | None \<Rightarrow>
               (let response = solver (cp_model f options) (solver_parameters_of options);
                    stats = \<lparr>search_nodes = nat (max (rs_nodes response) 0),
                             pruned_nodes = nat (max (rs_conflicts response) 0)\<rparr>
                in if \<not> accepted (rs_status response)
                   then failed_solution cp_sat_name stats
                     (''CP-SAT solve ended with status '' @ status_name (rs_status response) @ ''.'')
                   else decode_selected_options f
                     (collect_selected_option_indexes (length (df_options f)) (rs_selected response))
                     cp_sat_name stats)))"

subsection \<open>MIP\<close>

text \<open>\<^verbatim>\<open>SetCoefficient\<close> overwrites the coefficient a variable already has in the row.\<close>

definition set_constraint_coefficients ::
  "nat list \<Rightarrow> (nat \<Rightarrow> int) \<Rightarrow> (nat \<times> int) list \<Rightarrow> (nat \<times> int) list" where
  "set_constraint_coefficients idxs coefficient row = fold (\<lambda>i. AList.update i (coefficient i)) idxs row"

definition mip_task_row :: "discrete_task_decision \<Rightarrow> linear_constraint" where
  "mip_task_row d = \<lparr>lc_terms = set_constraint_coefficients (dd_option_indexes d) (\<lambda>_. 1) [], lc_makespan = 0,
     lc_lower = (if dd_required d then Some 1 else Some 0), lc_upper = Some 1\<rparr>"

definition mip_slot_row :: "discrete_time_formulation \<Rightarrow> actor_time_slot_constraint \<Rightarrow> linear_constraint" where
  "mip_slot_row f s =
     \<lparr>lc_terms = set_constraint_coefficients (ts_option_indexes s) (\<lambda>i. do_demand (df_options f ! i)) [],
      lc_makespan = 0, lc_lower = None, lc_upper = Some (ts_capacity s)\<rparr>"

definition mip_dependency_rows :: "discrete_time_formulation \<Rightarrow> dependency_constraint \<Rightarrow> linear_constraint list" where
  "mip_dependency_rows f c =
     (let succ = df_task_decisions f ! dc_successor c;
          pred = df_task_decisions f ! dc_predecessor c;
          big_m = df_horizon_end f
      in [\<lparr>lc_terms = set_constraint_coefficients (dd_option_indexes pred) (\<lambda>_. - 1)
             (set_constraint_coefficients (dd_option_indexes succ) (\<lambda>_. 1) []),
           lc_makespan = 0, lc_lower = None, lc_upper = Some 0\<rparr>,
          \<lparr>lc_terms = set_constraint_coefficients (dd_option_indexes pred) (\<lambda>i. - do_end_time (df_options f ! i))
             (set_constraint_coefficients (dd_option_indexes succ) (\<lambda>i. do_start_time (df_options f ! i) - big_m) []),
           lc_makespan = 0, lc_lower = Some (- big_m), lc_upper = None\<rparr>])"

definition mip_exclusion_row :: "discrete_time_formulation \<Rightarrow> mutual_exclusion_constraint \<Rightarrow> linear_constraint" where
  "mip_exclusion_row f c =
     \<lparr>lc_terms = set_constraint_coefficients (dd_option_indexes (df_task_decisions f ! mx_second c)) (\<lambda>_. 1)
        (set_constraint_coefficients (dd_option_indexes (df_task_decisions f ! mx_first c)) (\<lambda>_. 1) []),
      lc_makespan = 0, lc_lower = None, lc_upper = Some 1\<rparr>"

definition mip_makespan_row :: "discrete_time_formulation \<Rightarrow> discrete_task_decision \<Rightarrow> linear_constraint" where
  "mip_makespan_row f d =
     \<lparr>lc_terms = set_constraint_coefficients (dd_option_indexes d) (\<lambda>i. - do_end_time (df_options f ! i)) [],
      lc_makespan = 1, lc_lower = Some 0, lc_upper = None\<rparr>"

definition mip_model :: "discrete_time_formulation \<Rightarrow> optimization_options \<Rightarrow> linear_model" where
  "mip_model f options =
     \<lparr>lm_variables = map option_variable_name (df_options f),
      lm_makespan_bound = (if uses_makespan f options then Some (df_horizon_end f) else None),
      lm_constraints = map mip_task_row (df_task_decisions f)
        @ map (mip_slot_row f) (df_actor_time_slots f)
        @ concat (map (mip_dependency_rows f) (df_dependencies f))
        @ map (mip_exclusion_row f) (df_mutual_exclusions f)
        @ (if uses_makespan f options then map (mip_makespan_row f) (df_task_decisions f) else []),
      lm_objective = objective_terms f,
      lm_objective_makespan = (if uses_makespan f options then makespan_weight (oo_objective options) else 0)\<rparr>"

text \<open>
  The engines OR-Tools supports and can create are a property of the binary: \<open>supported\<close> says
  which of the three preferred engines is linked, \<open>creatable\<close> whether a solver can be created.
\<close>

record mip_runtime =
  mip_supported :: "string \<Rightarrow> bool"
  mip_creatable :: "string \<Rightarrow> bool"
  mip_solver :: "string \<Rightarrow> solver"

definition mip_solver_preference_order :: "string list" where
  "mip_solver_preference_order = [''GUROBI'', ''SCIP'', ''CBC'']"

definition select_available_solver_engine :: "mip_runtime \<Rightarrow> string option" where
  "select_available_solver_engine rt = find (mip_supported rt) mip_solver_preference_order"

definition mip_name :: string where "mip_name = ''commercial_mip''"

definition mip_solve ::
  "(rat \<Rightarrow> rat) \<Rightarrow> (solver_status \<Rightarrow> int) \<Rightarrow> mip_runtime \<Rightarrow> optimization_model \<Rightarrow> constraint_index
     \<Rightarrow> optimization_options \<Rightarrow> optimization_solution" where
  "mip_solve rnd status_code rt model ix options =
     (case backend_model_supported model of
        Some e \<Rightarrow> failed_solution mip_name no_stats e
      | None \<Rightarrow>
          (let f = build_discrete_time_formulation rnd model ix options in
           case first_required_task_without_options f of
             Some d \<Rightarrow> failed_solution mip_name no_stats
               (''Required task '' @ [CHR 0x27] @ dd_task_id d @ [CHR 0x27] @ '' has no feasible assignment options.'')
           | None \<Rightarrow>
               (case select_available_solver_engine rt of
                  None \<Rightarrow> failed_solution mip_name no_stats
                    ''MIP backend requires an OR-Tools build with at least one mixed-integer solver engine (GUROBI, SCIP, or CBC).''
                | Some engine \<Rightarrow>
                    if \<not> mip_creatable rt engine
                    then failed_solution mip_name no_stats
                      (''MIP backend could not create the selected '' @ engine @
                       '' solver. Check the runtime environment and optional solver installation.'')
                    else
                      (let response = mip_solver rt engine (mip_model f options) (solver_parameters_of options);
                           stats = \<lparr>search_nodes = nat (max (rs_nodes response) 0), pruned_nodes = 0\<rparr>;
                           backend_name = mip_name @ ''['' @ engine @ '']''
                       in if \<not> accepted (rs_status response)
                          then failed_solution backend_name stats
                            (''MIP solve failed with engine '' @ engine @ '' and status code '' @
                             to_string (status_code (rs_status response)) @ ''.'')
                          else decode_selected_options f
                            (collect_selected_option_indexes (length (df_options f)) (rs_selected response))
                            backend_name stats))))"

end
