(* ===== verification/Discrete_Time_Correct.thy ===== *)
theory Discrete_Time_Correct
  imports Solver_Backends
begin

text \<open>
  The discrete-time formulation and the two solver back-ends: what the building loop leaves in the
  formulation, that the CP-SAT and the MIP rows mean the same, and that a selection satisfying
  them decodes into a feasible schedule.
\<close>

subsection \<open>Index lists\<close>

definition indexes_of :: "'a list \<Rightarrow> ('a \<Rightarrow> bool) \<Rightarrow> nat list" where
  "indexes_of xs P = filter (\<lambda>i. P (xs ! i)) [0..<length xs]"

lemma indexes_of_Nil [simp]: "indexes_of [] P = []"
  by (simp add: indexes_of_def)

lemma indexes_of_snoc [simp]:
  "indexes_of (xs @ [x]) P = indexes_of xs P @ (if P x then [length xs] else [])"
proof -
  have "filter (\<lambda>i. P ((xs @ [x]) ! i)) [0..<length xs] = filter (\<lambda>i. P (xs ! i)) [0..<length xs]"
    by (rule filter_cong) (auto simp: nth_append)
  then show ?thesis by (simp add: indexes_of_def)
qed

lemma in_indexes_of [simp]: "i \<in> set (indexes_of xs P) \<longleftrightarrow> i < length xs \<and> P (xs ! i)"
  by (auto simp: indexes_of_def)

lemma distinct_indexes_of [simp]: "distinct (indexes_of xs P)"
  by (simp add: indexes_of_def)

subsection \<open>What the building loop establishes\<close>

definition option_ok :: "optimization_model \<Rightarrow> discrete_option \<Rightarrow> bool" where
  "option_ok m o1 \<longleftrightarrow>
     do_task_index o1 < length (om_tasks m) \<and> do_actor_index o1 < length (om_actors m) \<and>
     (let t = om_tasks m ! do_task_index o1; a = om_actors m ! do_actor_index o1 in
      do_task_id o1 = ot_id t \<and> do_actor_id o1 = oa_id a \<and> do_demand o1 = ot_demand t \<and>
      do_end_time o1 = do_start_time o1 + ot_duration t \<and> placement_ok t a (do_start_time o1))"

definition covers :: "nat \<Rightarrow> time \<Rightarrow> discrete_option \<Rightarrow> bool" where
  "covers ai u o1 \<longleftrightarrow> do_actor_index o1 = ai \<and> do_start_time o1 \<le> u \<and> u < do_end_time o1"

definition options_inv :: "optimization_model \<Rightarrow> df_work \<Rightarrow> bool" where
  "options_inv m wk \<longleftrightarrow>
     (\<forall>o1\<in>set (fw_options wk). option_ok m o1 \<and> do_end_time o1 \<le> fw_horizon_end wk) \<and>
     map do_option_index (fw_options wk) = [0..<length (fw_options wk)] \<and>
     distinct (map fst (fw_slots wk)) \<and>
     (\<forall>ai u. umap_at_or (fw_slots wk) (ai, u) [] = indexes_of (fw_options wk) (covers ai u)) \<and>
     0 \<le> fw_horizon_end wk"

lemma window_starts_ok:
  assumes "s \<in> set (window_starts t w)"
  shows "win_start w \<le> s \<and> ot_release_time t \<le> s \<and> s + ot_duration t \<le> win_end w \<and>
    (\<forall>x. ot_latest_start_time t = Some x \<longrightarrow> s \<le> x) \<and>
    (\<forall>d. ot_deadline t = Some d \<longrightarrow> s + ot_duration t \<le> d)"
  using assms by (auto simp: window_starts_def latest_feasible_start_def Let_def split: if_splits option.splits)

lemma find_actor_index_mem:
  assumes "model_wf m" and "i < length (om_actors m)"
  shows "find_actor_index m (oa_id (om_actors m ! i)) = Some i"
proof -
  have "distinct (map (\<lambda>(_, a). oa_id a) (enumerate 0 (om_actors m)))"
    using assms(1) actor_refs_ids [of m] by (simp add: model_wf_def actor_refs_def case_prod_unfold)
  moreover have "(i, om_actors m ! i) \<in> set (enumerate 0 (om_actors m))"
    using assms(2) by (auto simp: in_set_enumerate_eq)
  ultimately show ?thesis
    using find_unique_key [of "\<lambda>(_, a). oa_id a" "enumerate 0 (om_actors m)" "(i, om_actors m ! i)"]
    by (simp add: find_actor_index_def case_prod_unfold)
qed

lemma task_placements_ok:
  assumes "model_wf m" and "t \<in> set (om_tasks m)"
    and "(ai, a, s) \<in> set (task_placements m (build_constraint_index m) t)"
  shows "ai < length (om_actors m) \<and> a = om_actors m ! ai \<and> placement_ok t a s"
proof -
  from assms(3) obtain b where b: "b \<in> set (eligible_actors_for_task (build_constraint_index m) t)"
    and p: "(ai, a, s) \<in> set (actor_placements m t (snd b))"
    by (auto simp: task_placements_def)
  from b have ref: "fst b < length (om_actors m)" "snd b = om_actors m ! fst b" "allowed_by_lists t (snd b)"
    using eligible_actors_iff [OF assms(1,2)] set_actor_refs by auto
  with find_actor_index_mem [OF assms(1) ref(1)] p show ?thesis
    by (fastforce simp: actor_placements_def placement_ok_def task_capabilities_supported_def list_all_iff
        split: if_splits dest!: window_starts_ok)
qed

lemma fold_umap_push_slots:
  "umap_at_or (fold (\<lambda>u. umap_push (ai, u) oi) us m) (aj, v) [] =
     umap_at_or m (aj, v) [] @ (if aj = ai then replicate (count_list us v) oi else [])"
  by (induction us arbitrary: m) (auto simp: replicate_app_Cons_same)

lemma count_list_distinct: "distinct xs \<Longrightarrow> count_list xs v = (if v \<in> set xs then 1 else 0)"
  by (induction xs) auto

lemma distinct_fold_umap_push:
  "distinct (map fst m) \<Longrightarrow> distinct (map fst (fold (\<lambda>u. umap_push (key u) v) us m))"
  by (induction us arbitrary: m) (auto simp: umap_push_def distinct_update)

lemma add_option_inv:
  assumes "options_inv m wk" and "idxs = indexes_of (fw_options wk) (\<lambda>o1. do_task_index o1 = ti)"
    and "ti < length (om_tasks m)" and "t = om_tasks m ! ti"
    and "ai < length (om_actors m)" "a = om_actors m ! ai" "placement_ok t a s"
    and "add_option rnd options ti t (ai, a, s) (wk, idxs) = (wk', idxs')"
  shows "options_inv m wk' \<and> idxs' = indexes_of (fw_options wk') (\<lambda>o1. do_task_index o1 = ti) \<and>
    (\<forall>k. k \<noteq> ti \<longrightarrow> indexes_of (fw_options wk') (\<lambda>o1. do_task_index o1 = k) =
      indexes_of (fw_options wk) (\<lambda>o1. do_task_index o1 = k)) \<and>
    fw_decisions wk' = fw_decisions wk \<and> fw_dependencies wk' = fw_dependencies wk \<and>
    fw_mutex_pairs wk' = fw_mutex_pairs wk \<and> fw_mutual_exclusions wk' = fw_mutual_exclusions wk"
  using assms
  by (force simp: add_option_def Let_def options_inv_def option_ok_def fold_umap_push_slots
      count_list_distinct covers_def distinct_fold_umap_push)

lemma add_options_inv:
  assumes "ti < length (om_tasks m)" and "t = om_tasks m ! ti"
    and "\<And>ai a s. (ai, a, s) \<in> set ps \<Longrightarrow> ai < length (om_actors m) \<and> a = om_actors m ! ai \<and> placement_ok t a s"
    and "options_inv m wk" and "idxs = indexes_of (fw_options wk) (\<lambda>o1. do_task_index o1 = ti)"
    and "fold (add_option rnd options ti t) ps (wk, idxs) = (wk', idxs')"
  shows "options_inv m wk' \<and> idxs' = indexes_of (fw_options wk') (\<lambda>o1. do_task_index o1 = ti) \<and>
    (\<forall>k. k \<noteq> ti \<longrightarrow> indexes_of (fw_options wk') (\<lambda>o1. do_task_index o1 = k) =
      indexes_of (fw_options wk) (\<lambda>o1. do_task_index o1 = k)) \<and>
    fw_decisions wk' = fw_decisions wk \<and> fw_dependencies wk' = fw_dependencies wk \<and>
    fw_mutex_pairs wk' = fw_mutex_pairs wk \<and> fw_mutual_exclusions wk' = fw_mutual_exclusions wk"
  using assms(3-)
proof (induction ps arbitrary: wk idxs)
  case (Cons p ps)
  obtain ai a s where p: "p = (ai, a, s)" by (cases p)
  obtain wk1 idxs1 where one: "add_option rnd options ti t (ai, a, s) (wk, idxs) = (wk1, idxs1)"
    by fastforce
  have here: "ai < length (om_actors m)" "a = om_actors m ! ai" "placement_ok t a s"
    using Cons.prems(1) [of ai a s] p by auto
  note step = add_option_inv [OF Cons.prems(2,3) assms(1,2) here one]
  have rest: "fold (add_option rnd options ti t) ps (wk1, idxs1) = (wk', idxs')"
    using Cons.prems(4) by (simp add: p one)
  have "options_inv m wk' \<and> idxs' = indexes_of (fw_options wk') (\<lambda>o1. do_task_index o1 = ti) \<and>
    (\<forall>k. k \<noteq> ti \<longrightarrow> indexes_of (fw_options wk') (\<lambda>o1. do_task_index o1 = k) =
      indexes_of (fw_options wk1) (\<lambda>o1. do_task_index o1 = k)) \<and>
    fw_decisions wk' = fw_decisions wk1 \<and> fw_dependencies wk' = fw_dependencies wk1 \<and>
    fw_mutex_pairs wk' = fw_mutex_pairs wk1 \<and> fw_mutual_exclusions wk' = fw_mutual_exclusions wk1"
    by (rule Cons.IH [OF Cons.prems(1) _ _ rest]) (use step in auto)
  with step show ?case by auto
qed auto

text \<open>The part of the work the dependency and exclusion loops leave alone.\<close>

definition same_options :: "df_work \<Rightarrow> df_work \<Rightarrow> bool" where
  "same_options wk wk' \<longleftrightarrow> fw_options wk' = fw_options wk \<and> fw_decisions wk' = fw_decisions wk \<and>
     fw_slots wk' = fw_slots wk \<and> fw_horizon_end wk' = fw_horizon_end wk"

lemma same_options_trans: "same_options a b \<Longrightarrow> same_options b c \<Longrightarrow> same_options a c"
  by (simp add: same_options_def)

lemma options_inv_same: "same_options wk wk' \<Longrightarrow> options_inv m wk' = options_inv m wk"
  by (simp add: same_options_def options_inv_def)

lemma fold_add_dependency:
  "same_options wk (fold (add_dependency tbl ti) ds wk) \<and>
   fw_mutex_pairs (fold (add_dependency tbl ti) ds wk) = fw_mutex_pairs wk \<and>
   fw_mutual_exclusions (fold (add_dependency tbl ti) ds wk) = fw_mutual_exclusions wk \<and>
   set (fw_dependencies (fold (add_dependency tbl ti) ds wk)) = set (fw_dependencies wk) \<union>
     {\<lparr>dc_predecessor = di, dc_successor = ti\<rparr> | d di. d \<in> set ds \<and> map_of tbl d = Some di}"
proof (induction ds arbitrary: wk)
  case (Cons d ds)
  show ?case using Cons [of "add_dependency tbl ti d wk"]
    by (auto simp: add_dependency_def same_options_def split: option.splits)
qed (simp add: same_options_def)

definition mutex_recorded :: "df_work \<Rightarrow> bool" where
  "mutex_recorded wk \<longleftrightarrow>
     set (fw_mutual_exclusions wk) = (\<lambda>(i, j). \<lparr>mx_first = i, mx_second = j\<rparr>) ` set (fw_mutex_pairs wk)"

lemma fold_add_exclusion:
  assumes "mutex_recorded wk"
  shows "same_options wk (fold (add_exclusion tbl ti) us wk) \<and>
   fw_dependencies (fold (add_exclusion tbl ti) us wk) = fw_dependencies wk \<and>
   mutex_recorded (fold (add_exclusion tbl ti) us wk) \<and>
   set (fw_mutex_pairs (fold (add_exclusion tbl ti) us wk)) = set (fw_mutex_pairs wk) \<union>
     {(min ti ui, max ti ui) | u ui. u \<in> set us \<and> map_of tbl u = Some ui \<and> ui \<noteq> ti}"
  using assms
proof (induction us arbitrary: wk)
  case (Cons u us)
  have "mutex_recorded (add_exclusion tbl ti u wk)"
    using Cons.prems by (auto simp: add_exclusion_def mutex_recorded_def Let_def split: option.splits)
  note IH = Cons.IH [OF this]
  have "same_options wk (add_exclusion tbl ti u wk) \<and>
    fw_dependencies (add_exclusion tbl ti u wk) = fw_dependencies wk"
    by (auto simp: add_exclusion_def same_options_def Let_def split: option.splits)
  moreover have "set (fw_mutex_pairs (add_exclusion tbl ti u wk)) = set (fw_mutex_pairs wk) \<union>
     {(min ti ui, max ti ui) | ui. map_of tbl u = Some ui \<and> ui \<noteq> ti}"
    by (auto simp: add_exclusion_def Let_def min_def max_def split: option.splits)
  ultimately show ?case using IH by (auto simp: same_options_def)
qed (simp add: same_options_def)

lemma fold_enumerate_inv:
  assumes "P 0 s" and "\<And>k s. k < length xs \<Longrightarrow> P k s \<Longrightarrow> P (Suc k) (f (k, xs ! k) s)"
  shows "P (length xs) (fold f (enumerate 0 xs) s)"
proof -
  have "k \<le> length xs \<Longrightarrow> P k (fold f (take k (enumerate 0 xs)) s)" for k
  proof (induction k)
    case (Suc k)
    then have "take (Suc k) (enumerate 0 xs) = take k (enumerate 0 xs) @ [(k, xs ! k)]"
      by (simp add: take_Suc_conv_app_nth nth_enumerate_eq)
    with Suc assms(2) [of k] show ?case by simp
  qed (simp add: assms(1))
  from this [of "length xs"] show ?thesis by simp
qed

definition decision_for ::
  "optimization_model \<Rightarrow> optimization_options \<Rightarrow> discrete_option list \<Rightarrow> nat \<Rightarrow> discrete_task_decision" where
  "decision_for m options opts j =
     \<lparr>dd_task_index = j, dd_task_id = ot_id (om_tasks m ! j),
      dd_required = (\<not> oo_allow_partial_plan options \<and> ot_mandatory (om_tasks m ! j)),
      dd_option_indexes = indexes_of opts (\<lambda>o1. do_task_index o1 = j)\<rparr>"

definition work_inv :: "optimization_model \<Rightarrow> optimization_options \<Rightarrow> nat \<Rightarrow> df_work \<Rightarrow> bool" where
  "work_inv m options k wk \<longleftrightarrow>
     options_inv m wk \<and> mutex_recorded wk \<and>
     (\<forall>o1\<in>set (fw_options wk). do_task_index o1 < k) \<and>
     fw_decisions wk = map (decision_for m options (fw_options wk)) [0..<k] \<and>
     set (fw_dependencies wk) = {\<lparr>dc_predecessor = di, dc_successor = ti\<rparr> | ti d di.
       ti < k \<and> d \<in> set (ot_dependency_task_ids (om_tasks m ! ti)) \<and> map_of (task_index_table m) d = Some di} \<and>
     set (fw_mutex_pairs wk) = {(min ti ui, max ti ui) | ti u ui.
       ti < k \<and> u \<in> set (ot_mutually_exclusive_task_ids (om_tasks m ! ti)) \<and>
       map_of (task_index_table m) u = Some ui \<and> ui \<noteq> ti}"

lemma add_task_inv:
  assumes "model_wf m" and k: "k < length (om_tasks m)" and inv: "work_inv m options k wk"
  shows "work_inv m options (Suc k)
    (add_task rnd m (build_constraint_index m) options (task_index_table m) (k, om_tasks m ! k) wk)"
proof -
  let ?t = "om_tasks m ! k" and ?tbl = "task_index_table m"
  have t: "?t \<in> set (om_tasks m)" using k by simp
  obtain wk1 idxs where opts: "fold (add_option rnd options k ?t)
      (task_placements m (build_constraint_index m) ?t) (wk, []) = (wk1, idxs)" by fastforce
  have start: "options_inv m wk" "[] = indexes_of (fw_options wk) (\<lambda>o1. do_task_index o1 = k)"
    using inv by (auto simp: work_inv_def indexes_of_def filter_empty_conv eq_commute [of "[]"] nth_mem)
  note one = add_options_inv [OF k refl task_placements_ok [OF assms(1) t] start opts]
  define wk2 where "wk2 = wk1\<lparr>fw_decisions := fw_decisions wk1 @ [\<lparr>dd_task_index = k, dd_task_id = ot_id ?t,
    dd_required = (\<not> oo_allow_partial_plan options \<and> ot_mandatory ?t), dd_option_indexes = idxs\<rparr>]\<rparr>"
  define wk3 where "wk3 = fold (add_dependency ?tbl k) (ot_dependency_task_ids ?t) wk2"
  define wk4 where "wk4 = fold (add_exclusion ?tbl k) (ot_mutually_exclusive_task_ids ?t) wk3"
  note two = fold_add_dependency [of wk2 ?tbl k "ot_dependency_task_ids ?t", folded wk3_def]
  have rec: "mutex_recorded wk3"
    using inv one two by (simp add: wk2_def mutex_recorded_def work_inv_def)
  note three = fold_add_exclusion [OF rec, of ?tbl k "ot_mutually_exclusive_task_ids ?t", folded wk4_def]
  have same: "same_options wk2 wk4" using two three same_options_trans by blast
  have "options_inv m wk2" using one by (simp add: wk2_def options_inv_def)
  then have "options_inv m wk4" using options_inv_same [OF same] by simp
  moreover have "do_task_index o1 < Suc k" if o1: "o1 \<in> set (fw_options wk4)" for o1
  proof (rule ccontr)
    assume far: "\<not> do_task_index o1 < Suc k"
    from o1 obtain i where "i < length (fw_options wk1)" "fw_options wk1 ! i = o1"
      using same by (auto simp: same_options_def wk2_def in_set_conv_nth)
    then have "i \<in> set (indexes_of (fw_options wk1) (\<lambda>o2. do_task_index o2 = do_task_index o1))" by simp
    with one far have "i \<in> set (indexes_of (fw_options wk) (\<lambda>o2. do_task_index o2 = do_task_index o1))" by simp
    then have "fw_options wk ! i \<in> set (fw_options wk)" "do_task_index (fw_options wk ! i) = do_task_index o1"
      by simp_all
    with inv far show False by (metis less_SucI work_inv_def)
  qed
  moreover have "fw_decisions wk4 = map (decision_for m options (fw_options wk4)) [0..<Suc k]"
    using one same inv by (auto simp: same_options_def wk2_def work_inv_def decision_for_def)
  moreover have "set (fw_dependencies wk4) = {\<lparr>dc_predecessor = di, dc_successor = ti\<rparr> | ti d di.
       ti < Suc k \<and> d \<in> set (ot_dependency_task_ids (om_tasks m ! ti)) \<and> map_of ?tbl d = Some di}"
    using one two three inv by (auto simp: wk2_def work_inv_def less_Suc_eq)
  moreover have "set (fw_mutex_pairs wk4) = {(min ti ui, max ti ui) | ti u ui.
       ti < Suc k \<and> u \<in> set (ot_mutually_exclusive_task_ids (om_tasks m ! ti)) \<and>
       map_of ?tbl u = Some ui \<and> ui \<noteq> ti}"
    using one two three inv by (auto simp: wk2_def work_inv_def less_Suc_eq)
  moreover have "add_task rnd m (build_constraint_index m) options ?tbl (k, ?t) wk = wk4"
    by (simp add: add_task_def opts wk2_def wk3_def wk4_def)
  ultimately show ?thesis using three by (simp add: work_inv_def)
qed

lemma built_work_inv:
  assumes "model_wf m"
  shows "work_inv m options (length (om_tasks m))
    (fold (add_task rnd m (build_constraint_index m) options (task_index_table m))
       (enumerate 0 (om_tasks m)) empty_work)"
proof (rule fold_enumerate_inv)
  show "work_inv m options 0 empty_work"
    by (simp add: work_inv_def options_inv_def empty_work_def mutex_recorded_def umap_at_or_def)
qed (rule add_task_inv [OF assms])

lemma task_index_table_iff:
  assumes "model_wf m"
  shows "map_of (task_index_table m) i = Some k \<longleftrightarrow> k < length (om_tasks m) \<and> ot_id (om_tasks m ! k) = i"
proof -
  let ?xs = "enumerate 0 (om_tasks m)"
  have "map_of (task_index_table m) i = map_option fst (find (\<lambda>x. ot_id (snd x) = i) ?xs)"
    using map_of_fold_emplace [of "\<lambda>x. ot_id (snd x)" fst ?xs "[]" i]
    by (simp add: task_index_table_def case_prod_unfold)
  moreover have dist: "distinct (map (\<lambda>x. ot_id (snd x)) ?xs)"
    using assms map_snd_enumerate [of 0 "om_tasks m"] by (metis (no_types, lifting) list.map_comp map_eq_conv model_wf_def o_apply)
  moreover have "find (\<lambda>x. ot_id (snd x) = i) ?xs = Some (k, om_tasks m ! k)"
    if "k < length (om_tasks m)" "ot_id (om_tasks m ! k) = i" for k
    using find_unique_key [OF dist, of "(k, om_tasks m ! k)"] that by (auto simp: in_set_enumerate_eq)
  ultimately show ?thesis
    by (auto simp: in_set_enumerate_eq dest!: find_Some_set)
qed

subsection \<open>The finished formulation\<close>

definition formulation_ok :: "optimization_model \<Rightarrow> optimization_options \<Rightarrow> discrete_time_formulation \<Rightarrow> bool" where
  "formulation_ok m options f \<longleftrightarrow>
     df_model f = Some m \<and>
     (\<forall>o1\<in>set (df_options f). option_ok m o1 \<and> do_end_time o1 \<le> df_horizon_end f) \<and>
     0 \<le> df_horizon_end f \<and>
     map do_option_index (df_options f) = [0..<length (df_options f)] \<and>
     df_task_decisions f = map (decision_for m options (df_options f)) [0..<length (om_tasks m)] \<and>
     (\<forall>s\<in>set (df_actor_time_slots f).
        ts_option_indexes s = indexes_of (df_options f) (covers (ts_actor_index s) (ts_time s)) \<and>
        ts_capacity s = oa_capacity (om_actors m ! ts_actor_index s)) \<and>
     (\<forall>o1\<in>set (df_options f). \<forall>u. covers (do_actor_index o1) u o1 \<longrightarrow>
        (\<exists>s\<in>set (df_actor_time_slots f). ts_actor_index s = do_actor_index o1 \<and> ts_time s = u)) \<and>
     set (df_dependencies f) = {\<lparr>dc_predecessor = di, dc_successor = ti\<rparr> | ti di.
       ti < length (om_tasks m) \<and> di < length (om_tasks m) \<and>
       ot_id (om_tasks m ! di) \<in> set (ot_dependency_task_ids (om_tasks m ! ti))} \<and>
     (\<forall>c\<in>set (df_mutual_exclusions f). mx_first c < mx_second c \<and> mx_second c < length (om_tasks m)) \<and>
     (\<forall>ti<length (om_tasks m). \<forall>ui<length (om_tasks m).
        ot_id (om_tasks m ! ui) \<in> set (ot_mutually_exclusive_task_ids (om_tasks m ! ti)) \<longrightarrow> ui \<noteq> ti \<longrightarrow>
        \<lparr>mx_first = min ti ui, mx_second = max ti ui\<rparr> \<in> set (df_mutual_exclusions f))"

lemma slot_of_option:
  assumes "options_inv m wk" and "o1 \<in> set (fw_options wk)" and "covers ai u o1"
  shows "(ai, u) \<in> fst ` set (fw_slots wk)"
proof (rule ccontr)
  assume "(ai, u) \<notin> fst ` set (fw_slots wk)"
  then have "umap_at_or (fw_slots wk) (ai, u) [] = []"
    by (simp add: umap_at_or_def map_of_None_iff_keys [symmetric])
  then have none: "indexes_of (fw_options wk) (covers ai u) = []" using assms(1) by (simp add: options_inv_def)
  obtain i where "i < length (fw_options wk)" "fw_options wk ! i = o1"
    using assms(2) by (auto simp: in_set_conv_nth)
  then have "i \<in> set (indexes_of (fw_options wk) (covers ai u))" using assms(3) by simp
  with none show False by simp
qed

lemma formulation_built_ok:
  assumes wf: "model_wf m"
  shows "formulation_ok m options (build_discrete_time_formulation rnd m (build_constraint_index m) options)"
proof -
  define wk where "wk = fold (add_task rnd m (build_constraint_index m) options (task_index_table m))
       (enumerate 0 (om_tasks m)) empty_work"
  let ?f = "build_discrete_time_formulation rnd m (build_constraint_index m) options"
  have inv: "work_inv m options (length (om_tasks m)) wk" unfolding wk_def by (rule built_work_inv [OF wf])
  then have opts: "options_inv m wk" by (simp add: work_inv_def)
  have f: "df_model ?f = Some m" "df_options ?f = fw_options wk" "df_task_decisions ?f = fw_decisions wk"
    "df_actor_time_slots ?f = map (slot_constraint m) (sort_key fst (fw_slots wk))"
    "df_dependencies ?f = fw_dependencies wk" "df_mutual_exclusions ?f = fw_mutual_exclusions wk"
    "df_horizon_end ?f = fw_horizon_end wk"
    by (simp_all add: build_discrete_time_formulation_def Let_def wk_def)
  have slot: "umap_at_or (fw_slots wk) key [] = idxs" if "(key, idxs) \<in> set (fw_slots wk)" for key idxs
    using that opts by (simp add: options_inv_def umap_at_or_def)
  have 1: "ts_option_indexes s = indexes_of (df_options ?f) (covers (ts_actor_index s) (ts_time s)) \<and>
      ts_capacity s = oa_capacity (om_actors m ! ts_actor_index s)" if "s \<in> set (df_actor_time_slots ?f)" for s
    using that slot opts by (fastforce simp: f slot_constraint_def options_inv_def)
  have 2: "\<exists>s\<in>set (df_actor_time_slots ?f). ts_actor_index s = do_actor_index o1 \<and> ts_time s = u"
    if "o1 \<in> set (df_options ?f)" "covers (do_actor_index o1) u o1" for o1 u
    using slot_of_option [OF opts, of o1 "do_actor_index o1" u] that
    by (force simp: f slot_constraint_def)
  have 3: "set (df_dependencies ?f) = {\<lparr>dc_predecessor = di, dc_successor = ti\<rparr> | ti di.
       ti < length (om_tasks m) \<and> di < length (om_tasks m) \<and>
       ot_id (om_tasks m ! di) \<in> set (ot_dependency_task_ids (om_tasks m ! ti))}"
    using inv by (auto simp: f work_inv_def task_index_table_iff [OF wf])
  have pairs: "set (fw_mutex_pairs wk) = {(min ti ui, max ti ui) | ti ui.
       ti < length (om_tasks m) \<and> ui < length (om_tasks m) \<and> ui \<noteq> ti \<and>
       ot_id (om_tasks m ! ui) \<in> set (ot_mutually_exclusive_task_ids (om_tasks m ! ti))}"
    using inv by (auto simp: work_inv_def task_index_table_iff [OF wf])
  have mset: "set (df_mutual_exclusions ?f) = (\<lambda>(i, j). \<lparr>mx_first = i, mx_second = j\<rparr>) ` set (fw_mutex_pairs wk)"
    using inv by (simp add: f work_inv_def mutex_recorded_def)
  have 4: "mx_first c < mx_second c \<and> mx_second c < length (om_tasks m)"
    if "c \<in> set (df_mutual_exclusions ?f)" for c
    using that unfolding mset pairs by (auto simp: min_def max_def)
  have 5: "\<lparr>mx_first = min ti ui, mx_second = max ti ui\<rparr> \<in> set (df_mutual_exclusions ?f)"
    if "ti < length (om_tasks m)" "ui < length (om_tasks m)" "ui \<noteq> ti"
      "ot_id (om_tasks m ! ui) \<in> set (ot_mutually_exclusive_task_ids (om_tasks m ! ti))" for ti ui
    using that unfolding mset pairs by force
  from 1 2 3 4 5 show ?thesis
    using inv opts f(1-3,7) by (simp add: formulation_ok_def work_inv_def options_inv_def)
qed


subsection \<open>What the rows mean\<close>

lemma eval_terms_append [simp]: "eval_terms sel (xs @ ys) = eval_terms sel xs + eval_terms sel ys"
  by (simp add: eval_terms_def)

lemma eval_terms_map [simp]:
  "eval_terms sel (map (\<lambda>i. (i, c i)) idxs) = sum_list (map c (filter sel idxs))"
  by (induction idxs) (auto simp: eval_terms_def)

lemma eval_scale_terms [simp]: "eval_terms sel (scale_terms k ts) = k * eval_terms sel ts"
  by (induction ts) (auto simp: eval_terms_def scale_terms_def algebra_simps)

lemma eval_exprs [simp]:
  "eval_terms sel (select_expr d) = int (length (filter sel (dd_option_indexes d)))"
  "eval_terms sel (start_expr f d) =
     sum_list (map (\<lambda>i. do_start_time (df_options f ! i)) (filter sel (dd_option_indexes d)))"
  "eval_terms sel (end_expr f d) =
     sum_list (map (\<lambda>i. do_end_time (df_options f ! i)) (filter sel (dd_option_indexes d)))"
  by (simp_all add: select_expr_def start_expr_def end_expr_def sum_list_triv)

text \<open>The options of a task that a selection picks.\<close>

definition picked :: "discrete_time_formulation \<Rightarrow> (nat \<Rightarrow> bool) \<Rightarrow> nat \<Rightarrow> nat list" where
  "picked f sel k = filter sel (dd_option_indexes (df_task_decisions f ! k))"

definition selection_ok :: "discrete_time_formulation \<Rightarrow> (nat \<Rightarrow> bool) \<Rightarrow> bool" where
  "selection_ok f sel \<longleftrightarrow>
     (\<forall>k<length (df_task_decisions f). length (picked f sel k) \<le> 1 \<and>
        (dd_required (df_task_decisions f ! k) \<longrightarrow> picked f sel k \<noteq> [])) \<and>
     (\<forall>s\<in>set (df_actor_time_slots f).
        sum_list (map (\<lambda>i. do_demand (df_options f ! i)) (filter sel (ts_option_indexes s))) \<le> ts_capacity s) \<and>
     (\<forall>c\<in>set (df_dependencies f). \<forall>i\<in>set (picked f sel (dc_successor c)).
        \<exists>j\<in>set (picked f sel (dc_predecessor c)).
          do_end_time (df_options f ! j) \<le> do_start_time (df_options f ! i)) \<and>
     (\<forall>c\<in>set (df_mutual_exclusions f). picked f sel (mx_first c) = [] \<or> picked f sel (mx_second c) = [])"

lemma at_most_one: "length xs \<le> 1 \<longleftrightarrow> xs = [] \<or> (\<exists>x. xs = [x])"
  by (cases xs) auto

lemma task_rows_iff:
  "(\<forall>d\<in>set (df_task_decisions f). constraint_holds sel mk (cp_task_row d)) \<longleftrightarrow>
   (\<forall>k<length (df_task_decisions f). length (picked f sel k) \<le> 1 \<and>
      (dd_required (df_task_decisions f ! k) \<longrightarrow> picked f sel k \<noteq> []))"
proof -
  have "constraint_holds sel mk (cp_task_row d) \<longleftrightarrow>
      length (filter sel (dd_option_indexes d)) \<le> 1 \<and>
      (dd_required d \<longrightarrow> filter sel (dd_option_indexes d) \<noteq> [])" for d
    by (cases "filter sel (dd_option_indexes d)") (auto simp: constraint_holds_def cp_task_row_def)
  then show ?thesis by (simp add: picked_def all_set_conv_all_nth)
qed

lemma picked_below:
  assumes "formulation_ok m options f" and "k < length (om_tasks m)" and "i \<in> set (picked f sel k)"
  shows "sel i \<and> i < length (df_options f) \<and> do_task_index (df_options f ! i) = k"
  using assms by (simp add: formulation_ok_def picked_def decision_for_def)

lemma picked_end_le_horizon:
  assumes "formulation_ok m options f" and "k < length (om_tasks m)" and "i \<in> set (picked f sel k)"
  shows "do_end_time (df_options f ! i) \<le> df_horizon_end f"
  using picked_below [OF assms] assms(1) by (simp add: formulation_ok_def)

lemma dependency_rows_iff:
  assumes "formulation_ok m options f" and "c \<in> set (df_dependencies f)"
    and "length (picked f sel (dc_successor c)) \<le> 1" and "length (picked f sel (dc_predecessor c)) \<le> 1"
  shows "(\<forall>r\<in>set (cp_dependency_rows f c). constraint_holds sel mk r) \<longleftrightarrow>
    (\<forall>i\<in>set (picked f sel (dc_successor c)). \<exists>j\<in>set (picked f sel (dc_predecessor c)).
       do_end_time (df_options f ! j) \<le> do_start_time (df_options f ! i))"
proof -
  have "dc_predecessor c < length (om_tasks m)" using assms(1,2) by (auto simp: formulation_ok_def)
  then have bound: "do_end_time (df_options f ! j) \<le> df_horizon_end f"
    if "j \<in> set (picked f sel (dc_predecessor c))" for j
    using picked_end_le_horizon [OF assms(1)] that by blast
  have h: "0 \<le> df_horizon_end f" using assms(1) by (simp add: formulation_ok_def)
  show ?thesis
    using assms(3,4) bound h unfolding at_most_one
    by (auto simp: cp_dependency_rows_def Let_def constraint_holds_def picked_def [symmetric])
qed

lemma exclusion_row_iff:
  assumes "length (picked f sel (mx_first c)) \<le> 1" and "length (picked f sel (mx_second c)) \<le> 1"
  shows "constraint_holds sel mk (cp_exclusion_row f c) \<longleftrightarrow>
    picked f sel (mx_first c) = [] \<or> picked f sel (mx_second c) = []"
  using assms unfolding at_most_one
  by (auto simp: constraint_holds_def cp_exclusion_row_def picked_def [symmetric])

lemma slot_row_iff:
  "constraint_holds sel mk (cp_slot_row f s) \<longleftrightarrow>
     sum_list (map (\<lambda>i. do_demand (df_options f ! i)) (filter sel (ts_option_indexes s))) \<le> ts_capacity s"
  by (simp add: constraint_holds_def cp_slot_row_def)

lemma decisions_length: "formulation_ok m options f \<Longrightarrow> length (df_task_decisions f) = length (om_tasks m)"
  by (simp add: formulation_ok_def)

lemma constraint_indexes:
  assumes "formulation_ok m options f"
  shows "c \<in> set (df_dependencies f) \<Longrightarrow> dc_predecessor c < length (om_tasks m) \<and> dc_successor c < length (om_tasks m)"
    and "x \<in> set (df_mutual_exclusions f) \<Longrightarrow> mx_first x < length (om_tasks m) \<and> mx_second x < length (om_tasks m)"
  using assms by (auto simp: formulation_ok_def)

definition hard_rows :: "discrete_time_formulation \<Rightarrow> linear_constraint list" where
  "hard_rows f = map cp_task_row (df_task_decisions f) @ map (cp_slot_row f) (df_actor_time_slots f)
     @ concat (map (cp_dependency_rows f) (df_dependencies f))
     @ map (cp_exclusion_row f) (df_mutual_exclusions f)"

lemma hard_rows_split:
  "list_all (constraint_holds sel mk) (hard_rows f) \<longleftrightarrow>
     (\<forall>d\<in>set (df_task_decisions f). constraint_holds sel mk (cp_task_row d)) \<and>
     (\<forall>s\<in>set (df_actor_time_slots f). constraint_holds sel mk (cp_slot_row f s)) \<and>
     (\<forall>c\<in>set (df_dependencies f). \<forall>r\<in>set (cp_dependency_rows f c). constraint_holds sel mk r) \<and>
     (\<forall>c\<in>set (df_mutual_exclusions f). constraint_holds sel mk (cp_exclusion_row f c))"
  by (simp add: hard_rows_def list_all_iff ball_Un)

lemma hard_rows_iff:
  assumes ok: "formulation_ok m options f"
  shows "list_all (constraint_holds sel mk) (hard_rows f) \<longleftrightarrow> selection_ok f sel"
proof (cases "\<forall>k<length (om_tasks m). length (picked f sel k) \<le> 1")
  case True
  note idx = constraint_indexes [OF ok]
  have deps: "(\<forall>c\<in>set (df_dependencies f). \<forall>r\<in>set (cp_dependency_rows f c). constraint_holds sel mk r) \<longleftrightarrow>
       (\<forall>c\<in>set (df_dependencies f). \<forall>i\<in>set (picked f sel (dc_successor c)).
          \<exists>j\<in>set (picked f sel (dc_predecessor c)). do_end_time (df_options f ! j) \<le> do_start_time (df_options f ! i))"
    by (intro ball_cong refl dependency_rows_iff [OF ok]) (use True idx(1) in auto)
  have excl: "(\<forall>c\<in>set (df_mutual_exclusions f). constraint_holds sel mk (cp_exclusion_row f c)) \<longleftrightarrow>
       (\<forall>c\<in>set (df_mutual_exclusions f). picked f sel (mx_first c) = [] \<or> picked f sel (mx_second c) = [])"
    by (intro ball_cong refl exclusion_row_iff) (use True idx(2) in auto)
  show ?thesis unfolding hard_rows_split selection_ok_def task_rows_iff slot_row_iff deps excl ..
next
  case False
  then show ?thesis
    unfolding hard_rows_split selection_ok_def task_rows_iff using decisions_length [OF ok] by auto
qed

lemma makespan_row_at_horizon:
  assumes ok: "formulation_ok m options f" and sel: "selection_ok f sel" and d: "d \<in> set (df_task_decisions f)"
  shows "constraint_holds sel (df_horizon_end f) (cp_makespan_row f d)"
proof -
  obtain k where k: "k < length (om_tasks m)" "d = df_task_decisions f ! k"
    using d decisions_length [OF ok] by (metis in_set_conv_nth)
  have "picked f sel k = [] \<or> (\<exists>i. picked f sel k = [i])"
    using sel k decisions_length [OF ok] unfolding selection_ok_def at_most_one by simp
  moreover have "0 \<le> df_horizon_end f" using ok by (simp add: formulation_ok_def)
  ultimately show ?thesis
    using picked_end_le_horizon [OF ok k(1), of _ sel]
    by (auto simp: constraint_holds_def cp_makespan_row_def k(2) picked_def [symmetric])
qed

text \<open>Big-M and makespan rows exclude no selection that meets the constraints.\<close>

lemma cp_model_iff:
  assumes ok: "formulation_ok m options' f"
  shows "(\<exists>mk. satisfies (cp_model f options) sel mk) \<longleftrightarrow> selection_ok f sel"
proof -
  have rows: "lm_constraints (cp_model f options) = hard_rows f @
      (if uses_makespan f options then map (cp_makespan_row f) (df_task_decisions f) else [])"
    by (simp add: cp_model_def hard_rows_def)
  have h: "0 \<le> df_horizon_end f" using ok by (simp add: formulation_ok_def)
  have "satisfies (cp_model f options) sel (df_horizon_end f)" if "selection_ok f sel"
    using that h hard_rows_iff [OF ok, of sel "df_horizon_end f"] makespan_row_at_horizon [OF ok that]
    by (simp add: satisfies_def rows) (simp add: cp_model_def list_all_iff)
  moreover have "selection_ok f sel" if "satisfies (cp_model f options) sel mk" for mk
    using that hard_rows_iff [OF ok, of sel mk] by (simp add: satisfies_def rows)
  ultimately show ?thesis by blast
qed


subsection \<open>Selections are feasible schedules\<close>

lemma feasible_schedule_perm:
  assumes "mset xs = mset ys"
  shows "feasible_schedule m xs = feasible_schedule m ys"
proof -
  have "set xs = set ys" using assms mset_eq_setD by blast
  moreover have "distinct (map oas_task_id xs) = distinct (map oas_task_id ys)"
    using assms by (metis mset_eq_imp_distinct_iff mset_map)
  moreover have "demand_on m xs a u = demand_on m ys a u" for a u
    unfolding demand_on_def using assms by (metis mset_filter mset_map sum_mset_sum_list)
  ultimately show ?thesis by (simp add: feasible_schedule_def)
qed

definition selected_assignments :: "discrete_time_formulation \<Rightarrow> (nat \<Rightarrow> bool) \<Rightarrow> optimized_assignment list" where
  "selected_assignments f sel =
     map (\<lambda>i. option_assignment (df_options f ! i)) (filter sel [0..<length (df_options f)])"

lemma option_of_index:
  assumes "formulation_ok m options f" and "i < length (df_options f)"
  shows "option_ok m (df_options f ! i)"
  using assms by (simp add: formulation_ok_def)

lemma task_id_inj:
  assumes "model_wf m" and "j < length (om_tasks m)" "k < length (om_tasks m)"
    and "ot_id (om_tasks m ! j) = ot_id (om_tasks m ! k)"
  shows "j = k"
  using assms nth_eq_iff_index_eq [of "map ot_id (om_tasks m)" j k] by (simp add: model_wf_def)

lemma actor_id_inj:
  assumes "model_wf m" and "j < length (om_actors m)" "k < length (om_actors m)"
    and "oa_id (om_actors m ! j) = oa_id (om_actors m ! k)"
  shows "j = k"
  using assms nth_eq_iff_index_eq [of "map oa_id (om_actors m)" j k] by (simp add: model_wf_def)

lemma picked_iff:
  assumes "formulation_ok m options f" and "k < length (om_tasks m)"
  shows "i \<in> set (picked f sel k) \<longleftrightarrow> sel i \<and> i < length (df_options f) \<and> do_task_index (df_options f ! i) = k"
  using assms by (auto simp: formulation_ok_def picked_def decision_for_def)

lemma selected_task_unique:
  assumes wf: "model_wf m" and ok: "formulation_ok m options f" and sel: "selection_ok f sel"
    and i: "i < length (df_options f)" "sel i" and j: "j < length (df_options f)" "sel j"
    and eq: "do_task_id (df_options f ! i) = do_task_id (df_options f ! j)"
  shows "i = j"
proof -
  let ?k = "do_task_index (df_options f ! i)"
  note oi = option_of_index [OF ok i(1)] and oj = option_of_index [OF ok j(1)]
  have k: "?k < length (om_tasks m)" using oi by (simp add: option_ok_def)
  have "do_task_index (df_options f ! j) = ?k"
    using oi oj eq task_id_inj [OF wf] by (auto simp: option_ok_def Let_def)
  then have "i \<in> set (picked f sel ?k)" "j \<in> set (picked f sel ?k)"
    using picked_iff [OF ok k] i j by auto
  moreover have "length (picked f sel ?k) \<le> 1" using sel k decisions_length [OF ok] by (simp add: selection_ok_def)
  ultimately show ?thesis unfolding at_most_one by auto
qed

lemma selected_demand:
  assumes wf: "model_wf m" and ok: "formulation_ok m options f" and ai: "ai < length (om_actors m)"
  shows "demand_on m (selected_assignments f sel) (oa_id (om_actors m ! ai)) u =
    sum_list (map (\<lambda>i. do_demand (df_options f ! i)) (filter sel (indexes_of (df_options f) (covers ai u))))"
proof -
  have runs: "asg_runs (option_assignment (df_options f ! i)) (oa_id (om_actors m ! ai)) u = covers ai u (df_options f ! i)"
    and dem: "asg_demand m (option_assignment (df_options f ! i)) = do_demand (df_options f ! i)"
    if "i < length (df_options f)" for i
    using option_of_index [OF ok that] find_task_mem [OF wf, of "om_tasks m ! do_task_index (df_options f ! i)"]
      actor_id_inj [OF wf _ ai]
    by (auto simp: asg_runs_def option_assignment_def covers_def option_ok_def Let_def asg_demand_def)
  have "demand_on m (selected_assignments f sel) (oa_id (om_actors m ! ai)) u =
      sum_list (map (\<lambda>i. asg_demand m (option_assignment (df_options f ! i)))
        (filter (\<lambda>i. asg_runs (option_assignment (df_options f ! i)) (oa_id (om_actors m ! ai)) u)
          (filter sel [0..<length (df_options f)])))"
    by (simp add: demand_on_def selected_assignments_def filter_map o_def)
  also have "filter (\<lambda>i. asg_runs (option_assignment (df_options f ! i)) (oa_id (om_actors m ! ai)) u)
          (filter sel [0..<length (df_options f)]) = filter sel (indexes_of (df_options f) (covers ai u))"
    by (auto simp: indexes_of_def runs intro!: filter_cong)
  also have "map (\<lambda>i. asg_demand m (option_assignment (df_options f ! i))) (filter sel (indexes_of (df_options f) (covers ai u)))
      = map (\<lambda>i. do_demand (df_options f ! i)) (filter sel (indexes_of (df_options f) (covers ai u)))"
    by (rule map_cong) (auto simp: dem)
  finally show ?thesis .
qed

lemma selected_capacity:
  assumes wf: "model_wf m" and ok: "formulation_ok m options f" and sel: "selection_ok f sel"
    and x: "x \<in> set (selected_assignments f sel)" and a: "a \<in> set (om_actors m)" and run: "asg_runs x (oa_id a) u"
  shows "demand_on m (selected_assignments f sel) (oa_id a) u \<le> oa_capacity a"
proof -
  from x obtain i where i: "i < length (df_options f)" "sel i" "x = option_assignment (df_options f ! i)"
    by (auto simp: selected_assignments_def)
  let ?ai = "do_actor_index (df_options f ! i)"
  note oi = option_of_index [OF ok i(1)]
  have ai: "?ai < length (om_actors m)" using oi by (simp add: option_ok_def)
  have "oa_id a = oa_id (om_actors m ! ?ai)"
    using run oi by (simp add: i(3) asg_runs_def option_assignment_def option_ok_def Let_def)
  then have a': "a = om_actors m ! ?ai" using actor_unique [OF wf a] ai by simp
  have "covers ?ai u (df_options f ! i)"
    using run by (simp add: i(3) asg_runs_def option_assignment_def covers_def)
  then obtain s where s: "s \<in> set (df_actor_time_slots f)" "ts_actor_index s = ?ai" "ts_time s = u"
    using ok i(1) unfolding formulation_ok_def by (metis nth_mem)
  then have "sum_list (map (\<lambda>i. do_demand (df_options f ! i)) (filter sel (ts_option_indexes s))) \<le> ts_capacity s"
    using sel by (simp add: selection_ok_def)
  moreover have "ts_option_indexes s = indexes_of (df_options f) (covers ?ai u) \<and> ts_capacity s = oa_capacity a"
    using ok s unfolding formulation_ok_def a' by metis
  ultimately show ?thesis using selected_demand [OF wf ok ai, of sel u] a' by simp
qed


lemma selected_dependency:
  assumes wf: "model_wf m" and closed: "deps_closed m" and ok: "formulation_ok m options f" and sel: "selection_ok f sel"
    and x: "x \<in> set (selected_assignments f sel)" and d: "d \<in> set (model_deps m (oas_task_id x))"
  shows "\<exists>y\<in>set (selected_assignments f sel). oas_task_id y = d \<and> oas_end_time y \<le> oas_start_time x"
proof -
  from x obtain i where i: "i < length (df_options f)" "sel i" "x = option_assignment (df_options f ! i)"
    by (auto simp: selected_assignments_def)
  let ?k = "do_task_index (df_options f ! i)"
  note oi = option_of_index [OF ok i(1)]
  have k: "?k < length (om_tasks m)" using oi by (simp add: option_ok_def)
  have d': "d \<in> set (ot_dependency_task_ids (om_tasks m ! ?k))"
    using d oi k find_task_mem [OF wf, of "om_tasks m ! ?k"]
    by (simp add: i(3) option_assignment_def model_deps_def option_ok_def Let_def)
  then have "d \<in> ot_id ` set (om_tasks m)" using closed nth_mem [OF k] by (simp add: deps_closed_def list_all_iff)
  then obtain di where di: "di < length (om_tasks m)" "ot_id (om_tasks m ! di) = d"
    by (auto simp: in_set_conv_nth)
  have "\<lparr>dc_predecessor = di, dc_successor = ?k\<rparr> \<in> set (df_dependencies f)"
    using ok di k d' by (auto simp: formulation_ok_def)
  moreover have "i \<in> set (picked f sel ?k)" using picked_iff [OF ok k] i by simp
  ultimately obtain j where j: "j \<in> set (picked f sel di)"
    "do_end_time (df_options f ! j) \<le> do_start_time (df_options f ! i)"
    using sel unfolding selection_ok_def by fastforce
  then have "sel j" "j < length (df_options f)" "do_task_index (df_options f ! j) = di"
    using picked_iff [OF ok di(1)] by auto
  note sj = this
  have "option_assignment (df_options f ! j) \<in> set (selected_assignments f sel)"
    using sj by (simp add: selected_assignments_def)
  moreover have "oas_task_id (option_assignment (df_options f ! j)) = d"
    using sj di(2) option_of_index [OF ok sj(2)] by (simp add: option_assignment_def option_ok_def Let_def)
  moreover have "oas_end_time (option_assignment (df_options f ! j)) \<le> oas_start_time x"
    using j(2) i(3) by (simp add: option_assignment_def)
  ultimately show ?thesis by blast
qed

lemma formulation_mutex:
  assumes "formulation_ok m options f" and "ti < length (om_tasks m)" "ui < length (om_tasks m)" "ui \<noteq> ti"
    and "ot_id (om_tasks m ! ui) \<in> set (ot_mutually_exclusive_task_ids (om_tasks m ! ti))"
  shows "\<lparr>mx_first = min ti ui, mx_second = max ti ui\<rparr> \<in> set (df_mutual_exclusions f)"
  using assms unfolding formulation_ok_def by blast

lemma selection_mutex:
  "selection_ok f sel \<Longrightarrow> c \<in> set (df_mutual_exclusions f) \<Longrightarrow>
     picked f sel (mx_first c) = [] \<or> picked f sel (mx_second c) = []"
  by (simp add: selection_ok_def)

lemma selected_exclusion:
  assumes wf: "model_wf m" and ok: "formulation_ok m options f" and sel: "selection_ok f sel"
    and x: "x \<in> set (selected_assignments f sel)" and y: "y \<in> set (selected_assignments f sel)"
    and ex: "oas_task_id y \<in> set (model_exclusions m (oas_task_id x))"
  shows "x = y"
proof -
  from x obtain i where i: "i < length (df_options f)" "sel i" "x = option_assignment (df_options f ! i)"
    by (auto simp: selected_assignments_def)
  from y obtain j where j: "j < length (df_options f)" "sel j" "y = option_assignment (df_options f ! j)"
    by (auto simp: selected_assignments_def)
  let ?k = "do_task_index (df_options f ! i)" and ?l = "do_task_index (df_options f ! j)"
  note oi = option_of_index [OF ok i(1)] and oj = option_of_index [OF ok j(1)]
  have k: "?k < length (om_tasks m)" "?l < length (om_tasks m)" using oi oj by (simp_all add: option_ok_def)
  have mem: "ot_id (om_tasks m ! ?l) \<in> set (ot_mutually_exclusive_task_ids (om_tasks m ! ?k))"
    using ex oi oj k find_task_mem [OF wf, of "om_tasks m ! ?k"]
    by (simp add: i(3) j(3) option_assignment_def model_exclusions_def option_ok_def Let_def)
  have picks: "i \<in> set (picked f sel ?k)" "j \<in> set (picked f sel ?l)"
    using picked_iff [OF ok k(1)] picked_iff [OF ok k(2)] i(1,2) j(1,2) by simp_all
  have same: "?l = ?k"
  proof (rule ccontr)
    assume "?l \<noteq> ?k"
    then have "\<lparr>mx_first = min ?k ?l, mx_second = max ?k ?l\<rparr> \<in> set (df_mutual_exclusions f)"
      using formulation_mutex [OF ok k] mem by blast
    from selection_mutex [OF sel this]
    have "picked f sel ?k = [] \<or> picked f sel ?l = []"
      by (cases "?k \<le> ?l") (auto simp: min_def max_def)
    with picks show False by (metis empty_iff list.set(1))
  qed
  have "do_task_id (df_options f ! i) = ot_id (om_tasks m ! ?k)" "do_task_id (df_options f ! j) = ot_id (om_tasks m ! ?l)"
    using oi oj by (simp_all add: option_ok_def Let_def)
  with same have "do_task_id (df_options f ! i) = do_task_id (df_options f ! j)" by metis
  then have "i = j" by (rule selected_task_unique [OF wf ok sel i(1,2) j(1,2)])
  then show ?thesis using i(3) j(3) by metis
qed

lemma selection_feasible:
  assumes "model_wf m" "deps_closed m" "formulation_ok m options f" "selection_ok f sel"
  shows "feasible_schedule m (selected_assignments f sel)"
proof -
  have "inj_on (\<lambda>i. do_task_id (df_options f ! i)) (set (filter sel [0..<length (df_options f)]))"
    using selected_task_unique [OF assms(1,3,4)] by (auto simp: inj_on_def)
  then have "distinct (map oas_task_id (selected_assignments f sel))"
    by (simp add: selected_assignments_def o_def option_assignment_def distinct_map inj_on_def)
  moreover have "assignment_feasible m x" if "x \<in> set (selected_assignments f sel)" for x
    using that option_of_index [OF assms(3)]
    by (force simp: selected_assignments_def assignment_feasible_def option_ok_def Let_def option_assignment_def)
  moreover note selected_dependency [OF assms] selected_capacity [OF assms(1,3,4)]
    selected_exclusion [OF assms(1,3,4)]
  ultimately show ?thesis unfolding feasible_schedule_def by blast
qed

subsection \<open>The MIP rows\<close>

lemma set_constraint_coefficients_fresh:
  assumes "distinct idxs" and "set idxs \<inter> fst ` set row = {}"
  shows "set_constraint_coefficients idxs c row = row @ map (\<lambda>i. (i, c i)) idxs"
proof -
  have fresh: "AList.update k v xs = xs @ [(k, v)]" if "k \<notin> fst ` set xs" for k :: nat and v :: int and xs
    using that by (induction xs) auto
  show ?thesis unfolding set_constraint_coefficients_def using assms
    by (induction idxs arbitrary: row) (auto simp: fresh)
qed

lemma mip_rows_agree:
  assumes ok: "formulation_ok m options f"
  shows "d \<in> set (df_task_decisions f) \<Longrightarrow>
      constraint_holds sel mk (mip_task_row d) = constraint_holds sel mk (cp_task_row d)"
    and "d \<in> set (df_task_decisions f) \<Longrightarrow> mip_makespan_row f d = cp_makespan_row f d"
    and "s \<in> set (df_actor_time_slots f) \<Longrightarrow> mip_slot_row f s = cp_slot_row f s"
    and "x \<in> set (df_mutual_exclusions f) \<Longrightarrow> mip_exclusion_row f x = cp_exclusion_row f x"
    and "c \<in> set (df_dependencies f) \<Longrightarrow> dc_predecessor c \<noteq> dc_successor c \<Longrightarrow>
      list_all (constraint_holds sel mk) (mip_dependency_rows f c) =
      list_all (constraint_holds sel mk) (cp_dependency_rows f c)"
proof -
  have dec: "df_task_decisions f ! k = decision_for m options (df_options f) k" if "k < length (om_tasks m)" for k
    using ok that by (simp add: formulation_ok_def)
  have dist: "distinct (dd_option_indexes d)" if "d \<in> set (df_task_decisions f)" for d
    using ok that by (auto simp: formulation_ok_def decision_for_def)
  have disj: "set (dd_option_indexes (df_task_decisions f ! j)) \<inter> set (dd_option_indexes (df_task_decisions f ! k)) = {}"
    "distinct (dd_option_indexes (df_task_decisions f ! j))"
    if "j < length (om_tasks m)" "k < length (om_tasks m)" "j \<noteq> k" for j k
    using that dec by (auto simp: decision_for_def)
  show "constraint_holds sel mk (mip_task_row d) = constraint_holds sel mk (cp_task_row d)"
    if "d \<in> set (df_task_decisions f)"
    using dist [OF that]
    by (simp add: constraint_holds_def mip_task_row_def cp_task_row_def set_constraint_coefficients_fresh sum_list_triv)
  show "mip_makespan_row f d = cp_makespan_row f d" if "d \<in> set (df_task_decisions f)"
    using dist [OF that]
    by (simp add: mip_makespan_row_def cp_makespan_row_def set_constraint_coefficients_fresh scale_terms_def end_expr_def)
  show "mip_slot_row f s = cp_slot_row f s" if "s \<in> set (df_actor_time_slots f)"
    using ok that
    by (simp add: formulation_ok_def mip_slot_row_def cp_slot_row_def set_constraint_coefficients_fresh)
  show "mip_exclusion_row f x = cp_exclusion_row f x" if "x \<in> set (df_mutual_exclusions f)"
  proof -
    have "mx_first x < length (om_tasks m)" "mx_second x < length (om_tasks m)" "mx_second x \<noteq> mx_first x"
      using ok that unfolding formulation_ok_def by fastforce+
    with disj disj [of "mx_first x" "mx_second x"] show ?thesis
      by (simp add: mip_exclusion_row_def cp_exclusion_row_def set_constraint_coefficients_fresh select_expr_def
          image_image)
  qed
  show "list_all (constraint_holds sel mk) (mip_dependency_rows f c) =
      list_all (constraint_holds sel mk) (cp_dependency_rows f c)"
    if c: "c \<in> set (df_dependencies f)" and ne: "dc_predecessor c \<noteq> dc_successor c"
  proof -
    have idx: "dc_predecessor c < length (om_tasks m)" "dc_successor c < length (om_tasks m)"
      using constraint_indexes(1) [OF ok c] by auto
    note d = disj [OF idx ne] disj(2) [OF idx(2,1) ne [symmetric]]
    have neg: "sum_list (map (\<lambda>i. - g i) xs) = - sum_list (map g xs)" for g :: "nat \<Rightarrow> int" and xs
      by (induction xs) auto
    have shift: "sum_list (map (\<lambda>i. g i - b) xs) = sum_list (map g xs) - b * int (length xs)"
      for g :: "nat \<Rightarrow> int" and b xs
      by (induction xs) (auto simp: algebra_simps)
    show ?thesis using d
      by (simp add: mip_dependency_rows_def cp_dependency_rows_def Let_def constraint_holds_def
          set_constraint_coefficients_fresh image_image neg shift sum_list_triv algebra_simps)
  qed
qed


lemma mip_cp_satisfies:
  assumes ok: "formulation_ok m options' f" and wf: "model_wf m" and "no_self_dependency m"
  shows "satisfies (mip_model f options) sel mk = satisfies (cp_model f options) sel mk"
proof -
  have ne: "dc_predecessor c \<noteq> dc_successor c" if "c \<in> set (df_dependencies f)" for c
    using that ok assms(3) by (auto simp: formulation_ok_def no_self_dependency_def list_all_iff)
  note agree = mip_rows_agree [OF ok]
  have deps: "list_all (constraint_holds sel mk) (concat (map (mip_dependency_rows f) (df_dependencies f))) =
      list_all (constraint_holds sel mk) (concat (map (cp_dependency_rows f) (df_dependencies f)))"
    using agree(5) [OF _ ne, of _ sel mk] by (simp add: list_all_iff)
  have tasks: "list_all (constraint_holds sel mk) (map mip_task_row (df_task_decisions f)) =
      list_all (constraint_holds sel mk) (map cp_task_row (df_task_decisions f))"
    using agree(1) by (simp add: list_all_iff)
  have others: "map (mip_slot_row f) (df_actor_time_slots f) = map (cp_slot_row f) (df_actor_time_slots f)"
    "map (mip_exclusion_row f) (df_mutual_exclusions f) = map (cp_exclusion_row f) (df_mutual_exclusions f)"
    "map (mip_makespan_row f) (df_task_decisions f) = map (cp_makespan_row f) (df_task_decisions f)"
    using agree(2-4) by simp_all
  show ?thesis unfolding satisfies_def mip_model_def cp_model_def
    by (simp only: linear_model.select_convs others list_all_append deps tasks)
qed

subsection \<open>What the back-ends return\<close>

definition mandatory_ids :: "optimization_model \<Rightarrow> optimization_options \<Rightarrow> task_id list" where
  "mandatory_ids m options =
     (if oo_allow_partial_plan options then [] else map ot_id (filter ot_mandatory (om_tasks m)))"

definition solution_correct :: "optimization_model \<Rightarrow> optimization_options \<Rightarrow> optimization_solution \<Rightarrow> bool" where
  "solution_correct m options sol \<longleftrightarrow>
     feasible_schedule m (sol_assignments sol) \<and>
     set (mandatory_ids m options) \<subseteq> oas_task_id ` set (sol_assignments sol) \<and>
     set (sol_unfulfilled_task_ids sol) = ot_id ` set (om_tasks m) - oas_task_id ` set (sol_assignments sol)"

lemma required_selected:
  assumes ok: "formulation_ok m options f" and sel: "selection_ok f sel" and i: "i \<in> set (mandatory_ids m options)"
  shows "i \<in> oas_task_id ` set (selected_assignments f sel)"
proof -
  obtain t where "t \<in> set (om_tasks m)" "i = ot_id t" "ot_mandatory t" and partial: "\<not> oo_allow_partial_plan options"
    using i by (auto simp: mandatory_ids_def split: if_splits)
  then obtain k where k: "k < length (om_tasks m)" "i = ot_id (om_tasks m ! k)"
    and req: "\<not> oo_allow_partial_plan options" "ot_mandatory (om_tasks m ! k)"
    by (auto simp: in_set_conv_nth)
  have "dd_required (df_task_decisions f ! k)" using ok k(1) req by (simp add: formulation_ok_def decision_for_def)
  then have "picked f sel k \<noteq> []" using sel k(1) decisions_length [OF ok] by (simp add: selection_ok_def)
  then obtain j where "j \<in> set (picked f sel k)" by (meson list.set_sel(1))
  then have j: "sel j" "j < length (df_options f)" "do_task_index (df_options f ! j) = k"
    using picked_iff [OF ok k(1)] by auto
  have "oas_task_id (option_assignment (df_options f ! j)) = i"
    using option_of_index [OF ok j(2)] j(3) k(2) by (simp add: option_assignment_def option_ok_def Let_def)
  then show ?thesis using j(1,2) by (force simp: selected_assignments_def)
qed

lemma decode_correct:
  assumes "model_wf m" "deps_closed m" "formulation_ok m options f" "selection_ok f sel"
  shows "solution_correct m options
    (decode_selected_options f (collect_selected_option_indexes (length (df_options f)) sel) backend stats)"
proof -
  let ?sol = "decode_selected_options f (collect_selected_option_indexes (length (df_options f)) sel) backend stats"
  have model: "df_model f = Some m" using assms(3) by (simp add: formulation_ok_def)
  have "filter (\<lambda>i. i < length (df_options f)) (collect_selected_option_indexes (length (df_options f)) sel) =
      filter sel [0..<length (df_options f)]"
    by (auto simp: collect_selected_option_indexes_def intro!: filter_cong)
  then have perm: "mset (sol_assignments ?sol) = mset (selected_assignments f sel)"
    and unf: "set (sol_unfulfilled_task_ids ?sol) = ot_id ` set (om_tasks m) - oas_task_id ` set (selected_assignments f sel)"
    by (auto simp: decode_selected_options_def model Let_def selected_assignments_def o_def option_assignment_def
        image_image)
  have same: "set (sol_assignments ?sol) = set (selected_assignments f sel)" using perm mset_eq_setD by blast
  show ?thesis
    using feasible_schedule_perm [OF perm] selection_feasible [OF assms] unf same required_selected [OF assms(3,4)]
    by (auto simp: solution_correct_def)
qed

lemma failed_not_ok [simp]: "\<not> sol_ok (failed_solution b st e)"
  by (simp add: failed_solution_def)


lemma cp_sat_solve_correct:
  assumes "model_wf m" and "deps_closed m" and "solver_sound solver"
    and "sol_ok (cp_sat_solve rnd solver m (build_constraint_index m) options)"
  shows "solution_correct m options (cp_sat_solve rnd solver m (build_constraint_index m) options)"
proof -
  let ?f = "build_discrete_time_formulation rnd m (build_constraint_index m) options"
  let ?r = "solver (cp_model ?f options) (solver_parameters_of options)"
  have ok: "formulation_ok m options ?f" by (rule formulation_built_ok [OF assms(1)])
  obtain stats where acc: "accepted (rs_status ?r)" and sol: "cp_sat_solve rnd solver m (build_constraint_index m) options =
      decode_selected_options ?f (collect_selected_option_indexes (length (df_options ?f)) (rs_selected ?r))
        cp_sat_name stats"
    using assms(4) by (auto simp: cp_sat_solve_def Let_def split: option.splits if_splits)
  have "satisfies (cp_model ?f options) (rs_selected ?r) (rs_makespan ?r)"
    using assms(3) acc by (simp add: solver_sound_def)
  then have "selection_ok ?f (rs_selected ?r)" using cp_model_iff [OF ok] by blast
  from decode_correct [OF assms(1,2) ok this] show ?thesis unfolding sol .
qed


lemma mip_solve_correct:
  assumes "model_wf m" and "deps_closed m" and "no_self_dependency m"
    and "\<And>engine. solver_sound (mip_solver rt engine)"
    and "sol_ok (mip_solve rnd status_code rt m (build_constraint_index m) options)"
  shows "solution_correct m options (mip_solve rnd status_code rt m (build_constraint_index m) options)"
proof -
  let ?f = "build_discrete_time_formulation rnd m (build_constraint_index m) options"
  have ok: "formulation_ok m options ?f" by (rule formulation_built_ok [OF assms(1)])
  obtain engine stats where
    acc: "accepted (rs_status (mip_solver rt engine (mip_model ?f options) (solver_parameters_of options)))"
    and sol: "mip_solve rnd status_code rt m (build_constraint_index m) options =
      decode_selected_options ?f (collect_selected_option_indexes (length (df_options ?f))
        (rs_selected (mip_solver rt engine (mip_model ?f options) (solver_parameters_of options))))
        (mip_name @ ''['' @ engine @ '']'') stats"
    using assms(5) by (auto simp: mip_solve_def Let_def split: option.splits if_splits)
  let ?r = "mip_solver rt engine (mip_model ?f options) (solver_parameters_of options)"
  have "satisfies (mip_model ?f options) (rs_selected ?r) (rs_makespan ?r)"
    using assms(4) acc by (simp add: solver_sound_def)
  then have "selection_ok ?f (rs_selected ?r)"
    using cp_model_iff [OF ok] mip_cp_satisfies [OF ok assms(1,3)] by blast
  from decode_correct [OF assms(1,2) ok this] show ?thesis unfolding sol .
qed

text \<open>MIP solutions are correct. The same guarantee for the MIP back-end, whichever of its
  engines is linked, provided no task depends on itself.\<close>

theorem mip_solution_correct:
  assumes "model_wf m" and "deps_closed m" and "no_self_dependency m"
    and "\<And>engine. solver_sound (mip_solver rt engine)"
    and "sol_ok (mip_solve rnd status_code rt m (build_constraint_index m) options)"
  shows "solution_correct m options (mip_solve rnd status_code rt m (build_constraint_index m) options)"
  using assms by (rule mip_solve_correct)

end
