(* ===== verification/Workflow_Optimizer.thy ===== *)
theory Workflow_Optimizer
  imports Nlp_Parser Indexed_Exact_Correct Discrete_Time_Correct
begin

text \<open>
  \<^verbatim>\<open>optimizer/backend_registry.cpp\<close> and \<^verbatim>\<open>workflow_optimizer.cpp\<close>: the registry of back-ends, the
  choice of one, and the optimizer's two entry points. A back-end is the pair of its name and its
  \<^verbatim>\<open>solve\<close>; a factory is absent (an empty \<^verbatim>\<open>std::function\<close>) or a function that may return no
  back-end. The registry, a function-local static in the code, is an argument.
\<close>

subsection \<open>Registry\<close>

record backend_descriptor =
  bd_kind :: backend_kind
  bd_name :: string
  bd_available :: bool
  bd_optional_dependency :: bool

record optimization_backend =
  be_name :: string
  be_solve :: "optimization_model \<Rightarrow> constraint_index \<Rightarrow> optimization_options \<Rightarrow> optimization_solution"

type_synonym backend_factory = "(unit \<Rightarrow> optimization_backend option) option"

record backend_entry =
  en_descriptor :: backend_descriptor
  en_factory :: backend_factory

definition kBackendAutoOrder :: "backend_kind list" where
  "kBackendAutoOrder = [OrToolsCpSat, CommercialMip, IndexedExact]"

definition find_backend :: "backend_entry list \<Rightarrow> backend_kind \<Rightarrow> backend_entry option" where
  "find_backend entries k = find (\<lambda>e. bd_kind (en_descriptor e) = k) entries"

definition supported_backend_catalog :: "backend_descriptor list" where
  "supported_backend_catalog =
     [\<lparr>bd_kind = CommercialMip, bd_name = ''commercial_mip'', bd_available = False, bd_optional_dependency = True\<rparr>,
      \<lparr>bd_kind = IndexedExact, bd_name = ''indexed_exact'', bd_available = True, bd_optional_dependency = False\<rparr>,
      \<lparr>bd_kind = OrToolsCpSat, bd_name = ''ortools_cp_sat'', bd_available = False, bd_optional_dependency = True\<rparr>]"

fun register_backend :: "backend_descriptor \<Rightarrow> backend_factory \<Rightarrow> backend_entry list \<Rightarrow> backend_entry list" where
  "register_backend d f [] = [\<lparr>en_descriptor = d, en_factory = f\<rparr>]"
| "register_backend d f (e # es) =
     (if bd_kind (en_descriptor e) = bd_kind d then \<lparr>en_descriptor = d, en_factory = f\<rparr> # es
      else e # register_backend d f es)"

definition list_registered_backends :: "backend_entry list \<Rightarrow> backend_descriptor list" where
  "list_registered_backends entries = sort_by (\<lambda>l r. bd_name l < bd_name r) (map en_descriptor entries)"

definition list_supported_backends :: "backend_entry list \<Rightarrow> backend_descriptor list" where
  "list_supported_backends entries =
     sort_by (\<lambda>l r. bd_name l < bd_name r)
       (map (\<lambda>d. case find_backend entries (bd_kind d) of Some e \<Rightarrow> en_descriptor e | None \<Rightarrow> d) supported_backend_catalog)"

definition backend_kind_from_string :: "string \<Rightarrow> backend_kind" where
  "backend_kind_from_string v =
     (if v = ''indexed_exact'' \<or> v = ''indexed_branch_and_bound'' then IndexedExact
      else if v = ''ortools_cp_sat'' \<or> v = ''cp_sat'' \<or> v = ''ortools'' then OrToolsCpSat
      else if v = ''commercial_mip'' \<or> v = ''mip'' then CommercialMip
      else Auto)"

definition backend_kind_to_string :: "backend_kind \<Rightarrow> string" where
  "backend_kind_to_string k =
     (case k of IndexedExact \<Rightarrow> ''indexed_exact'' | OrToolsCpSat \<Rightarrow> ''ortools_cp_sat''
      | CommercialMip \<Rightarrow> ''commercial_mip'' | Auto \<Rightarrow> ''auto'')"

text \<open>The second component is what is written to \<^verbatim>\<open>error_message\<close>, which starts empty.\<close>

definition create_backend_for_registered_kind ::
  "backend_entry list \<Rightarrow> backend_kind \<Rightarrow> optimization_backend option \<times> string" where
  "create_backend_for_registered_kind entries k =
     (case find_backend entries k of
        None \<Rightarrow> (None, ''Requested backend '' @ quoted (backend_kind_to_string k) @ '' is not linked into this binary.'')
      | Some e \<Rightarrow>
          if \<not> bd_available (en_descriptor e)
          then (None, ''Requested backend '' @ quoted (bd_name (en_descriptor e)) @ '' is registered but not available.'')
          else (case en_factory e of None \<Rightarrow> (None, []) | Some f \<Rightarrow> (f (), [])))"

fun first_backend :: "backend_entry list \<Rightarrow> backend_kind list \<Rightarrow> optimization_backend option" where
  "first_backend entries [] = None"
| "first_backend entries (k # ks) =
     (case fst (create_backend_for_registered_kind entries k) of
        Some b \<Rightarrow> Some b
      | None \<Rightarrow> first_backend entries ks)"

definition create_backend :: "backend_entry list \<Rightarrow> backend_kind \<Rightarrow> optimization_backend option \<times> string" where
  "create_backend entries k =
     (if k = Auto then
        (case first_backend entries kBackendAutoOrder of
           Some b \<Rightarrow> (Some b, [])
         | None \<Rightarrow> (None, ''No optimization backend is available.''))
      else create_backend_for_registered_kind entries k)"

subsection \<open>The optimizer\<close>

record workflow_optimizer =
  wo_options :: optimization_options
  wo_backend :: "optimization_backend option"

definition new_workflow_optimizer :: workflow_optimizer where
  "new_workflow_optimizer = \<lparr>wo_options = default_optimization_options, wo_backend = None\<rparr>"

definition optimize :: "backend_entry list \<Rightarrow> workflow_optimizer \<Rightarrow> optimization_model \<Rightarrow> optimization_solution" where
  "optimize entries wo model =
     (let ix = build_constraint_index model;
          (backend, backend_error) =
            (case wo_backend wo of
               Some b \<Rightarrow> (Some b, [])
             | None \<Rightarrow> create_backend entries (oo_backend_kind (wo_options wo)))
      in case backend of
           None \<Rightarrow> failed_solution (backend_kind_to_string (oo_backend_kind (wo_options wo))) no_stats
             (if backend_error = [] then ''No optimization backend available.'' else backend_error)
         | Some b \<Rightarrow> be_solve b model ix (wo_options wo))"

definition optimize_text ::
  "(string \<Rightarrow> num_error + rat) \<Rightarrow> backend_entry list \<Rightarrow> workflow_optimizer \<Rightarrow> string
     \<Rightarrow> num_error + optimization_solution" where
  "optimize_text stod entries wo request =
     bind_result (parse_natural_language_request stod request) (\<lambda>parsed.
       Inr (if pr_ok parsed then optimize entries wo (pr_model parsed)
            else failed_solution [] no_stats (pr_error_message parsed)))"

subsection \<open>The back-ends of the repository\<close>

definition indexed_exact_entry :: "(rat \<Rightarrow> rat) \<Rightarrow> backend_entry" where
  "indexed_exact_entry rnd =
     \<lparr>en_descriptor = \<lparr>bd_kind = IndexedExact, bd_name = ''indexed_exact'', bd_available = True, bd_optional_dependency = False\<rparr>,
      en_factory = Some (\<lambda>_. Some \<lparr>be_name = ''indexed_branch_and_bound'', be_solve = indexed_exact_solve rnd\<rparr>)\<rparr>"

definition cp_sat_entry :: "(rat \<Rightarrow> rat) \<Rightarrow> solver \<Rightarrow> backend_entry" where
  "cp_sat_entry rnd solver =
     \<lparr>en_descriptor = \<lparr>bd_kind = OrToolsCpSat, bd_name = ''ortools_cp_sat'', bd_available = True, bd_optional_dependency = True\<rparr>,
      en_factory = Some (\<lambda>_. Some \<lparr>be_name = cp_sat_name, be_solve = cp_sat_solve rnd solver\<rparr>)\<rparr>"

definition mip_entry :: "(rat \<Rightarrow> rat) \<Rightarrow> (solver_status \<Rightarrow> int) \<Rightarrow> mip_runtime \<Rightarrow> backend_entry" where
  "mip_entry rnd status_code rt =
     \<lparr>en_descriptor = \<lparr>bd_kind = CommercialMip, bd_name = ''commercial_mip'', bd_available = True, bd_optional_dependency = True\<rparr>,
      en_factory = Some (\<lambda>_. Some \<lparr>be_name = mip_name, be_solve = mip_solve rnd status_code rt\<rparr>)\<rparr>"


text \<open>
  The contract of a back-end: whenever it reports success, its assignments are a feasible schedule.
  \<open>p\<close> stands for what the back-end is built on (rounding, solver, engines) and \<open>good p m\<close> for what
  the contract asks of it.
\<close>

locale sound_backend =
  fixes solve :: "'p \<Rightarrow> optimization_model \<Rightarrow> constraint_index \<Rightarrow> optimization_options \<Rightarrow> optimization_solution"
    and good :: "'p \<Rightarrow> optimization_model \<Rightarrow> bool"
  assumes solve_feasible: "good p m \<Longrightarrow> model_wf m \<Longrightarrow> deps_closed m \<Longrightarrow>
    sol_ok (solve p m (build_constraint_index m) options) \<Longrightarrow>
    feasible_schedule m (sol_assignments (solve p m (build_constraint_index m) options))"
begin

lemma optimize_feasible:
  assumes "good p m" "model_wf m" "deps_closed m"
    and "wo_backend wo = Some b \<or> wo_backend wo = None \<and> fst (create_backend entries (oo_backend_kind (wo_options wo))) = Some b"
    and "be_solve b = solve p" and "sol_ok (optimize entries wo m)"
  shows "feasible_schedule m (sol_assignments (optimize entries wo m))"
proof -
  have "optimize entries wo m = solve p m (build_constraint_index m) (wo_options wo)"
    using assms(4,5) by (auto simp: optimize_def Let_def split: prod.splits option.splits)
  then show ?thesis using solve_feasible [OF assms(1-3)] assms(6) by simp
qed

end

interpretation exact_backend: sound_backend indexed_exact_solve "\<lambda>_ _. True"
  by unfold_locales (use indexed_exact_feasible in blast)

interpretation cp_backend: sound_backend "\<lambda>(rnd, solver). cp_sat_solve rnd solver" "\<lambda>(rnd, solver) _. solver_sound solver"
  by unfold_locales (use cp_sat_solve_correct in \<open>auto simp: solution_correct_def\<close>)

interpretation mip_backend: sound_backend "\<lambda>(rnd, code, rt). mip_solve rnd code rt"
  "\<lambda>(rnd, code, rt) m. no_self_dependency m \<and> (\<forall>engine. solver_sound (mip_solver rt engine))"
  by unfold_locales (use mip_solve_correct in \<open>auto simp: solution_correct_def\<close>)

lemma first_backend_from:
  "first_backend entries ks = Some b \<Longrightarrow>
     \<exists>k\<in>set ks. fst (create_backend_for_registered_kind entries k) = Some b"
  by (induction ks) (auto split: option.splits)

lemma create_backend_from:
  assumes "fst (create_backend entries k) = Some b"
  obtains e f where "e \<in> set entries" "en_factory e = Some f" "f () = Some b" "bd_available (en_descriptor e)"
proof -
  obtain k' where "fst (create_backend_for_registered_kind entries k') = Some b"
    using assms first_backend_from by (fastforce simp: create_backend_def split: if_splits option.splits)
  then show thesis
    by (auto simp: create_backend_for_registered_kind_def find_backend_def split: option.splits if_splits
        dest!: find_Some_set intro: that)
qed

text \<open>The registry of a program that links some of the repository's back-ends.\<close>

definition linked_entries ::
  "(rat \<Rightarrow> rat) \<Rightarrow> solver \<Rightarrow> (solver_status \<Rightarrow> int) \<Rightarrow> mip_runtime \<Rightarrow> backend_entry list \<Rightarrow> bool" where
  "linked_entries rnd solver code rt entries \<longleftrightarrow>
     set entries \<subseteq> {indexed_exact_entry rnd, cp_sat_entry rnd solver, mip_entry rnd code rt}"

lemma optimize_linked_feasible:
  assumes "linked_entries rnd solver code rt entries" and "wo_backend wo = None"
    and "solver_sound solver" and "\<And>engine. solver_sound (mip_solver rt engine)"
    and "model_wf m" "deps_closed m" "no_self_dependency m" and ok: "sol_ok (optimize entries wo m)"
  shows "feasible_schedule m (sol_assignments (optimize entries wo m))"
proof -
  obtain b where b: "fst (create_backend entries (oo_backend_kind (wo_options wo))) = Some b"
    using ok assms(2) by (cases "create_backend entries (oo_backend_kind (wo_options wo))")
      (auto simp: optimize_def Let_def split: option.splits)
  then obtain e f where e: "e \<in> set entries" "en_factory e = Some f" "f () = Some b" by (rule create_backend_from)
  note how = disjI2 [OF conjI [OF assms(2) b]]
  from e(1) assms(1) have "e = indexed_exact_entry rnd \<or> e = cp_sat_entry rnd solver \<or> e = mip_entry rnd code rt"
    by (auto simp: linked_entries_def)
  with e(2,3) consider "be_solve b = indexed_exact_solve rnd" | "be_solve b = cp_sat_solve rnd solver"
    | "be_solve b = mip_solve rnd code rt"
    by (auto simp: indexed_exact_entry_def cp_sat_entry_def mip_entry_def)
  then show ?thesis
  proof cases
    case 1
    then show ?thesis using exact_backend.optimize_feasible [OF _ assms(5,6) how _ ok, of rnd] by simp
  next
    case 2
    then show ?thesis using cp_backend.optimize_feasible [OF _ assms(5,6) how _ ok, of "(rnd, solver)"] assms(3) by simp
  next
    case 3
    then show ?thesis
      using mip_backend.optimize_feasible [OF _ assms(5,6) how _ ok, of "(rnd, code, rt)"] assms(4,7) by simp
  qed
qed


subsection \<open>Linking order\<close>

lemma find_backend_register:
  "find_backend (register_backend d f es) k =
     (if k = bd_kind d then Some \<lparr>en_descriptor = d, en_factory = f\<rparr> else find_backend es k)"
  by (induction es) (auto simp: find_backend_def)

definition register_all :: "(backend_descriptor \<times> backend_factory) list \<Rightarrow> backend_entry list" where
  "register_all regs = fold (\<lambda>(d, f). register_backend d f) regs []"

lemma find_backend_register_all:
  assumes "distinct (map (\<lambda>r. bd_kind (fst r)) regs)"
  shows "find_backend (register_all regs) k =
    map_option (\<lambda>(d, f). \<lparr>en_descriptor = d, en_factory = f\<rparr>) (find (\<lambda>r. bd_kind (fst r) = k) regs)"
proof -
  have "find_backend (fold (\<lambda>(d, f). register_backend d f) regs es) k =
      (case find (\<lambda>r. bd_kind (fst r) = k) regs of
         Some (d, f) \<Rightarrow> Some \<lparr>en_descriptor = d, en_factory = f\<rparr> | None \<Rightarrow> find_backend es k)" for es
    using assms
  proof (induction regs arbitrary: es)
    case (Cons r regs)
    have "find (\<lambda>r. bd_kind (fst r) = k) regs = None" if "bd_kind (fst r) = k"
      using Cons.prems that unfolding find_None_iff by (auto intro: rev_image_eqI)
    with Cons show ?case by (auto simp: find_backend_register case_prod_unfold split: option.split)
  qed simp
  then show ?thesis
    by (auto simp: register_all_def find_backend_def split: option.splits)
qed

lemma find_perm_unique:
  assumes "mset xs = mset ys" and "distinct (map key xs)"
  shows "find (\<lambda>x. key x = k) xs = find (\<lambda>x. key x = k) ys"
proof -
  have "distinct (map key ys)" using assms by (metis mset_eq_imp_distinct_iff mset_map)
  moreover have "set xs = set ys" using assms(1) mset_eq_setD by blast
  ultimately have sub: "find (\<lambda>x. key x = k) xs = Some x \<longleftrightarrow> find (\<lambda>x. key x = k) ys = Some x" for x
    using find_unique_key [OF assms(2), of x] find_unique_key [of key ys x] by (auto dest!: find_Some_set)
  then show ?thesis by (metis option.exhaust)
qed

text \<open>The order in which the linked back-ends register themselves (static initialisers run in
  an unspecified order) changes neither the back-end that is created for a kind, nor the error
  message, nor the list of supported back-ends: only the set of registrations matters.\<close>

theorem backend_choice_independent_of_link_order:
  assumes "mset regs = mset regs'" and "distinct (map (\<lambda>r. bd_kind (fst r)) regs)"
  shows "create_backend (register_all regs) k = create_backend (register_all regs') k \<and>
    list_supported_backends (register_all regs) = list_supported_backends (register_all regs')"
proof -
  have "distinct (map (\<lambda>r. bd_kind (fst r)) regs')" using assms by (metis mset_eq_imp_distinct_iff mset_map)
  then have same: "find_backend (register_all regs) = find_backend (register_all regs')"
    using find_backend_register_all [OF assms(2)] find_backend_register_all find_perm_unique [OF assms] by presburger
  have one: "create_backend_for_registered_kind (register_all regs) = create_backend_for_registered_kind (register_all regs')"
    by (rule ext) (simp add: create_backend_for_registered_kind_def same)
  have "first_backend (register_all regs) ks = first_backend (register_all regs') ks" for ks
    by (induction ks) (auto simp: one split: option.splits)
  then show ?thesis by (simp add: create_backend_def list_supported_backends_def one same)
qed

text \<open>Kinds are printed and read back.\<close>

lemma backend_kind_round_trip: "backend_kind_from_string (backend_kind_to_string k) = k"
  by (cases k) (auto simp: backend_kind_from_string_def backend_kind_to_string_def)

end
