(* ===== verification/Indexed_Exact_Examples.thy ===== *)
theory Indexed_Exact_Examples
  imports Indexed_Exact_Correct
begin

text \<open>
  Evaluations of the branch-and-bound back-end: a small model on which its guarantees are
  exercised, and three inputs at the edge of its assumptions.
\<close>

definition opt_task :: "task_id \<Rightarrow> duration \<Rightarrow> priority \<Rightarrow> task_id list \<Rightarrow> task_id list \<Rightarrow> optimizer_task" where
  "opt_task t dur prio deps excl = default_optimizer_task\<lparr>ot_id := t, ot_duration := dur, ot_priority := prio,
     ot_dependency_task_ids := deps, ot_mutually_exclusive_task_ids := excl\<rparr>"

definition opt_actor :: "actor_id \<Rightarrow> availability_window list \<Rightarrow> optimizer_actor" where
  "opt_actor a ws = default_optimizer_actor\<lparr>oa_id := a, oa_windows := ws\<rparr>"

definition opt_demo :: optimization_model where
  "opt_demo = \<lparr>om_id = ''m'', om_actors = [opt_actor ''x'' [\<lparr>win_start = 0, win_end = 10\<rparr>]],
     om_tasks = [opt_task ''a'' 2 1 [] [], opt_task ''b'' 3 1 [''a''] []]\<rparr>"

abbreviation solve_demo :: "optimization_model \<Rightarrow> optimization_options \<Rightarrow> optimization_solution" where
  "solve_demo m options \<equiv> indexed_exact_solve (\<lambda>x. x) m (build_constraint_index m) options"

lemma opt_demo_solution:
  "sol_ok (solve_demo opt_demo default_optimization_options) \<and>
   map oas_start_time (sol_assignments (solve_demo opt_demo default_optimization_options)) = [0, 2] \<and>
   sol_unfulfilled_task_ids (solve_demo opt_demo default_optimization_options) = []"
  by code_simp

lemma opt_demo_ok: "model_wf opt_demo" "priorities_bounded opt_demo default_optimization_options"
  by (simp_all add: model_wf_def priorities_bounded_def opt_demo_def opt_task_def opt_actor_def
      default_optimizer_task_def default_optimizer_actor_def default_optimization_options_def
      default_objective_weights_def kPriorityOptimizationUpperBoundPerTask_def)

abbreviation demo_leaves :: "search_state list" where
  "demo_leaves \<equiv> leaves (solve_ctx (\<lambda>x. x) opt_demo (build_constraint_index opt_demo) default_optimization_options)
     (root_state opt_demo)"

theorem indexed_exact_is_optimal_witness:
  "\<exists>l\<in>set demo_leaves. length (ss_assignments l) = 2 \<and>
     \<not> better_score (score_for (last demo_leaves) default_optimization_options)
         (score_for l default_optimization_options)"
proof -
  have two: "length (sol_assignments (solve_demo opt_demo default_optimization_options)) = 2"
    by code_simp
  have ok: "sol_ok (solve_demo opt_demo default_optimization_options)" using opt_demo_solution by blast
  note opt = indexed_exact_is_optimal [OF opt_demo_ok(2), of "\<lambda>x. x" "build_constraint_index opt_demo"]
  from opt ok obtain l where "demo_leaves \<noteq> []" and "l \<in> set demo_leaves"
    and "sol_assignments (solve_demo opt_demo default_optimization_options) = map sa_assignment (ss_assignments l)"
    and "\<forall>l'\<in>set demo_leaves.
        \<not> better_score (score_for l' default_optimization_options) (score_for l default_optimization_options)"
    by (simp split: if_splits) blast
  with two show ?thesis by (metis length_map last_in_set)
qed

theorem indexed_exact_solution_feasible_witness:
  "feasible_schedule opt_demo (sol_assignments (solve_demo opt_demo default_optimization_options))"
  using indexed_exact_solution_feasible [OF opt_demo_ok(1)] opt_demo_solution by simp

subsection \<open>At the edge\<close>

text \<open>
  The pruning bound assumes that no task is worth more than one million. With priorities 2500
  and 3000 (weight 1000) the search prunes the branch of the better schedule.
\<close>

definition steep_model :: optimization_model where
  "steep_model = \<lparr>om_id = ''m'', om_actors = [opt_actor ''x'' [\<lparr>win_start = 0, win_end = 10\<rparr>]],
     om_tasks = [opt_task ''p'' 1 2500 [] [''r''], opt_task ''q'' 1 10 [] [], opt_task ''r'' 1 3000 [''q''] [''p'']]\<rparr>"

theorem pruning_bound_not_admissible:
  "list_ex (\<lambda>l. better_score (score_for l default_optimization_options)
       \<lparr>sc_fulfilled = length (sol_assignments (solve_demo steep_model default_optimization_options)),
        sc_total_priority = 2510000, sc_makespan = 2\<rparr>)
     (leaves (solve_ctx (\<lambda>x. x) steep_model (build_constraint_index steep_model) default_optimization_options)
        (root_state steep_model)) \<and>
   map oas_task_id (sol_assignments (solve_demo steep_model default_optimization_options)) = [''p'', ''q'']"
  by code_simp

text \<open>
  The windows are visited in the given order, so the start is not the earliest one.
\<close>

theorem ix_earliest_start_not_earliest:
  "ix_earliest_start (opt_actor ''x'' [\<lparr>win_start = 10, win_end = 20\<rparr>, \<lparr>win_start = 0, win_end = 5\<rparr>]) [] 0 2 1 = Some 10 \<and>
   ix_earliest_start (opt_actor ''x'' [\<lparr>win_start = 0, win_end = 5\<rparr>, \<lparr>win_start = 10, win_end = 20\<rparr>]) [] 0 2 1 = Some 0"
  by code_simp

text \<open>
  A mandatory task whose dependency never completes is reported unfulfilled by a successful
  solution even when partial plans are not allowed.
\<close>

theorem mandatory_task_silently_unfulfilled:
  "let m = \<lparr>om_id = ''m'', om_actors = [opt_actor ''x'' [\<lparr>win_start = 0, win_end = 10\<rparr>]],
             om_tasks = [opt_task ''a'' 1 0 [''z''] []]\<rparr>;
       sol = solve_demo m (default_optimization_options\<lparr>oo_allow_partial_plan := False\<rparr>) in
   list_all ot_mandatory (om_tasks m) \<and> sol_ok sol \<and> sol_unfulfilled_task_ids sol = [''a'']"
  by code_simp

end
