(* ===== verification/Discrete_Time_Examples.thy ===== *)
theory Discrete_Time_Examples
  imports Discrete_Time_Correct Indexed_Exact_Examples
begin

text \<open>
  Evaluations of the solver back-ends with a solver that tries every selection of options: a
  model on which their guarantees are exercised, and two inputs on which back-ends differ.
\<close>

definition pick_all :: "nat list \<Rightarrow> nat \<Rightarrow> bool" where
  "pick_all xs i = (i \<in> set xs)"

definition makespan_guess :: "linear_model \<Rightarrow> int" where
  "makespan_guess lm = (case lm_makespan_bound lm of None \<Rightarrow> 0 | Some h \<Rightarrow> h)"

definition exhaustive_solver :: solver where
  "exhaustive_solver lm par =
     (case find (\<lambda>xs. satisfies lm (pick_all xs) (makespan_guess lm)) (subseqs [0..<length (lm_variables lm)]) of
        None \<Rightarrow> \<lparr>rs_status = OtherStatus ''INFEASIBLE'', rs_selected = pick_all [], rs_makespan = 0,
                 rs_nodes = 0, rs_conflicts = 0\<rparr>
      | Some xs \<Rightarrow> \<lparr>rs_status = FEASIBLE, rs_selected = pick_all xs, rs_makespan = makespan_guess lm,
                    rs_nodes = 1, rs_conflicts = 0\<rparr>)"

lemma exhaustive_solver_sound: "solver_sound exhaustive_solver"
  by (auto simp: solver_sound_def exhaustive_solver_def accepted_def split: option.split dest: find_Some_set)

definition two_slots :: "task_id list \<Rightarrow> task_id list \<Rightarrow> optimization_model" where
  "two_slots deps_a deps_b =
     \<lparr>om_id = ''m'', om_actors = [opt_actor ''x'' [\<lparr>win_start = 0, win_end = 2\<rparr>]],
      om_tasks = [opt_task ''a'' 1 1 deps_a [], opt_task ''b'' 1 1 deps_b []]\<rparr>"

definition full_plan :: optimization_options where
  "full_plan = default_optimization_options\<lparr>oo_allow_partial_plan := False\<rparr>"

definition demo_runtime :: mip_runtime where
  "demo_runtime = \<lparr>mip_supported = (\<lambda>e. e = ''SCIP''), mip_creatable = (\<lambda>_. True),
     mip_solver = (\<lambda>_. exhaustive_solver)\<rparr>"

abbreviation cp_demo :: "optimization_model \<Rightarrow> optimization_solution" where
  "cp_demo m \<equiv> cp_sat_solve (\<lambda>x. x) exhaustive_solver m (build_constraint_index m) full_plan"

abbreviation mip_demo :: "optimization_model \<Rightarrow> optimization_solution" where
  "mip_demo m \<equiv> mip_solve (\<lambda>x. x) (\<lambda>_. 2) demo_runtime m (build_constraint_index m) full_plan"

lemma two_slots_cp:
  "sol_ok (cp_demo (two_slots [] [''a''])) \<and>
   map (\<lambda>x. (oas_task_id x, oas_start_time x)) (sol_assignments (cp_demo (two_slots [] [''a'']))) = [(''a'', 0), (''b'', 1)]"
  by code_simp

lemma two_slots_mip:
  "sol_ok (mip_demo (two_slots [] [''a''])) \<and> sol_backend_name (mip_demo (two_slots [] [''a''])) = ''commercial_mip[SCIP]''"
  by code_simp

lemma two_slots_ok:
  "model_wf (two_slots [] [''a''])" "deps_closed (two_slots [] [''a''])" "no_self_dependency (two_slots [] [''a''])"
  by (simp_all add: model_wf_def deps_closed_def no_self_dependency_def two_slots_def opt_task_def opt_actor_def
      default_optimizer_task_def)



theorem mip_solution_correct_witness:
  "solution_correct (two_slots [] [''a'']) full_plan (mip_demo (two_slots [] [''a'']))"
  by (rule mip_solution_correct [OF two_slots_ok])
    (use exhaustive_solver_sound two_slots_mip in \<open>auto simp: demo_runtime_def\<close>)

subsection \<open>Where the back-ends differ\<close>

text \<open>
  A task that depends on itself: the second \<^verbatim>\<open>SetCoefficient\<close> on the same variable overwrites
  the first, so the MIP back-end ignores the dependency and plans the task; the CP-SAT back-end
  finds no plan.
\<close>

theorem mip_ignores_self_dependency:
  "sol_ok (mip_demo (two_slots [''a''] [])) \<and> \<not> sol_ok (cp_demo (two_slots [''a''] []))"
  by code_simp

text \<open>
  A dependency on a task that is not in the model is dropped by the formulation, so the solver
  back-ends plan the task; the branch-and-bound back-end never does.
\<close>

theorem unknown_dependency_treated_differently:
  "map oas_task_id (sol_assignments (cp_demo (two_slots [] [''z'']))) = [''a'', ''b''] \<and>
   map oas_task_id (sol_assignments (solve_demo (two_slots [] [''z'']) default_optimization_options)) = [''a'']"
  by code_simp

end
