(* ===== verification/Workflow_Optimizer_Examples.thy ===== *)
theory Workflow_Optimizer_Examples
  imports Workflow_Optimizer Discrete_Time_Examples
begin

text \<open>
  The optimizer run on a text request, with all three back-ends linked.
\<close>

definition demo_registry_entries :: "backend_entry list" where
  "demo_registry_entries =
     [indexed_exact_entry (\<lambda>x. x), mip_entry (\<lambda>x. x) (\<lambda>_. 2) demo_runtime, cp_sat_entry (\<lambda>x. x) exhaustive_solver]"

definition full_optimizer :: workflow_optimizer where
  "full_optimizer = new_workflow_optimizer\<lparr>wo_options := full_plan\<rparr>"

lemma demo_text_solution:
  "bind_result (optimize_text no_stod demo_registry_entries full_optimizer demo_request) (\<lambda>sol.
     Inr (sol_ok sol, sol_backend_name sol, map oas_start_time (sol_assignments sol))) =
   Inr (True, ''ortools_cp_sat'', [0, 1])"
  by code_simp

lemma demo_text_no_self_dependency:
  "bind_result (parse_natural_language_request no_stod demo_request) (\<lambda>r. Inr (no_self_dependency (pr_model r))) = Inr True"
  by code_simp


definition demo_regs :: "(backend_descriptor \<times> backend_factory) list" where
  "demo_regs = map (\<lambda>e. (en_descriptor e, en_factory e)) demo_registry_entries"

theorem backend_choice_independent_of_link_order_witness:
  "create_backend (register_all demo_regs) Auto = create_backend (register_all (rev demo_regs)) Auto \<and>
   map_option be_name (fst (create_backend (register_all demo_regs) Auto)) = Some ''ortools_cp_sat''"
proof -
  have "distinct (map (\<lambda>r. bd_kind (fst r)) demo_regs)"
    "map_option be_name (fst (create_backend (register_all demo_regs) Auto)) = Some ''ortools_cp_sat''"
    by code_simp+
  then show ?thesis using backend_choice_independent_of_link_order [of demo_regs "rev demo_regs" Auto] by simp
qed

end
