(* ===== verification/Sim_Clock.thy ===== *)
theory Sim_Clock
  imports Prelude "HOL-Library.Word"
begin

text \<open>
  \<^verbatim>\<open>utils/sim_clock\<close>: the discrete-event clock. The priority queue is kept as a list in the order
  of \<^verbatim>\<open>Event::operator>\<close> (time, then sequence number); since the sequence numbers differ, the
  element \<^verbatim>\<open>top()\<close> returns is determined. A callback is opaque code: \<open>exec\<close> gives its effect on the
  rest of the program and the \<^verbatim>\<open>schedule_at\<close> calls it makes on the clock. The sequence counter is
  a 64-bit word.
\<close>

record 'cb event =
  ev_at :: time
  ev_seq :: "64 word"
  ev_cb :: "'cb option"

definition event_before :: "'cb event \<Rightarrow> 'cb event \<Rightarrow> bool" where
  "event_before e e' = (if ev_at e \<noteq> ev_at e' then ev_at e < ev_at e' else ev_seq e < ev_seq e')"

record 'cb sim_clock =
  clk_now :: time
  clk_next_seq :: "64 word"
  clk_queue :: "'cb event list"

definition new_sim_clock :: "'cb sim_clock" where
  "new_sim_clock = \<lparr>clk_now = 0, clk_next_seq = 0, clk_queue = []\<rparr>"

definition set_time :: "time \<Rightarrow> 'cb sim_clock \<Rightarrow> 'cb sim_clock" where
  "set_time t c = c\<lparr>clk_now := t\<rparr>"

definition has_pending_events :: "'cb sim_clock \<Rightarrow> bool" where
  "has_pending_events c \<longleftrightarrow> clk_queue c \<noteq> []"

definition schedule_at :: "time \<Rightarrow> 'cb option \<Rightarrow> 'cb sim_clock \<Rightarrow> 'cb sim_clock" where
  "schedule_at t cb c = c\<lparr>
     clk_queue := insort_by event_before
       \<lparr>ev_at = max t (clk_now c), ev_seq = clk_next_seq c, ev_cb = cb\<rparr> (clk_queue c),
     clk_next_seq := clk_next_seq c + 1\<rparr>"

definition clear_events :: "'cb sim_clock \<Rightarrow> 'cb sim_clock" where
  "clear_events c = c\<lparr>clk_queue := [], clk_next_seq := 0\<rparr>"

type_synonym ('cb, 's) callback_semantics = "'cb \<Rightarrow> time \<Rightarrow> 's \<Rightarrow> 's \<times> (time \<times> 'cb option) list"

definition run_callback ::
  "('cb, 's) callback_semantics \<Rightarrow> 'cb option \<Rightarrow> 's \<times> 'cb sim_clock \<Rightarrow> 's \<times> 'cb sim_clock" where
  "run_callback exec cb = (\<lambda>(s, c).
     case cb of
       None \<Rightarrow> (s, c)
     | Some f \<Rightarrow> (let (s', calls) = exec f (clk_now c) s in (s', fold (\<lambda>(t, g). schedule_at t g) calls c)))"

definition advance_to_next ::
  "('cb, 's) callback_semantics \<Rightarrow> 's \<times> 'cb sim_clock \<Rightarrow> 's \<times> 'cb sim_clock" where
  "advance_to_next exec = (\<lambda>(s, c).
     case clk_queue c of
       [] \<Rightarrow> (s, c)
     | e # q \<Rightarrow> run_callback exec (ev_cb e) (s, c\<lparr>clk_queue := q, clk_now := ev_at e\<rparr>))"

text \<open>The loop of \<^verbatim>\<open>run_until\<close> ends only if the callbacks stop scheduling events before the limit.\<close>

partial_function (option) run_loop ::
  "('cb, 's) callback_semantics \<Rightarrow> time \<Rightarrow> 's \<times> 'cb sim_clock \<Rightarrow> ('s \<times> 'cb sim_clock) option" where
  "run_loop exec limit st =
     (case clk_queue (snd st) of
        [] \<Rightarrow> Some st
      | e # _ \<Rightarrow> if ev_at e \<le> limit then run_loop exec limit (advance_to_next exec st) else Some st)"

declare run_loop.simps [code]

definition run_until ::
  "('cb, 's) callback_semantics \<Rightarrow> time \<Rightarrow> 's \<times> 'cb sim_clock \<Rightarrow> ('s \<times> 'cb sim_clock) option" where
  "run_until exec limit st =
     (if limit < clk_now (snd st) then Some st
      else map_option (\<lambda>(s, c). (s, c\<lparr>clk_now := max (clk_now c) limit\<rparr>)) (run_loop exec limit st))"

subsection \<open>Invariant\<close>

interpretation event_order: strict_weak_order event_before
  by unfold_locales (auto simp: event_before_def split: if_splits)

text \<open>Pending events are sorted and none is in the past.\<close>

definition clock_inv :: "'cb sim_clock \<Rightarrow> bool" where
  "clock_inv c \<longleftrightarrow> sorted_by event_before (clk_queue c) \<and> list_all (\<lambda>e. clk_now c \<le> ev_at e) (clk_queue c)"

lemma clock_inv_new: "clock_inv new_sim_clock"
  by (simp add: clock_inv_def new_sim_clock_def sorted_by_def)

lemma schedule_at_inv: "clock_inv c \<Longrightarrow> clock_inv (schedule_at t cb c)"
  by (auto simp: clock_inv_def schedule_at_def event_order.sorted_insort_by list_all_iff)

lemma now_schedule_at [simp]: "clk_now (schedule_at t cb c) = clk_now c"
  by (simp add: schedule_at_def)

lemma fold_schedule_at:
  assumes "clock_inv c"
  shows "clock_inv (fold (\<lambda>(t, g). schedule_at t g) calls c) \<and>
    clk_now (fold (\<lambda>(t, g). schedule_at t g) calls c) = clk_now c"
  using assms
proof (induction calls arbitrary: c)
  case (Cons x calls)
  show ?case using Cons.IH [OF schedule_at_inv [OF Cons.prems]] by (cases x) simp
qed simp

lemma advance_inv:
  assumes "clock_inv c" and "clk_queue c = e # q"
  shows "clock_inv (c\<lparr>clk_queue := q, clk_now := ev_at e\<rparr>)"
  using assms by (auto simp: clock_inv_def sorted_by_def event_before_def list_all_iff split: if_splits)

subsection \<open>Order of execution\<close>

text \<open>Events that share an instant stay in the order in which they were scheduled.\<close>

definition pending_at :: "time \<Rightarrow> 'cb sim_clock \<Rightarrow> 'cb option list" where
  "pending_at t c = map ev_cb (filter (\<lambda>e. ev_at e = t) (clk_queue c))"

definition seq_fresh :: "'cb sim_clock \<Rightarrow> bool" where
  "seq_fresh c \<longleftrightarrow> list_all (\<lambda>e. ev_seq e < clk_next_seq c) (clk_queue c)"

text \<open>The batch of events a run up to \<open>limit\<close> takes from the queue.\<close>

definition due :: "time \<Rightarrow> 'cb event list \<Rightarrow> 'cb event list" where
  "due limit q = takeWhile (\<lambda>e. ev_at e \<le> limit) q"

definition run_event :: "('cb, 's) callback_semantics \<Rightarrow> 'cb event \<Rightarrow> 's \<Rightarrow> 's" where
  "run_event exec e s = (case ev_cb e of None \<Rightarrow> s | Some f \<Rightarrow> fst (exec f (ev_at e) s))"

definition schedules_after :: "time \<Rightarrow> ('cb, 's) callback_semantics \<Rightarrow> bool" where
  "schedules_after limit exec \<longleftrightarrow> (\<forall>f t s. list_all (\<lambda>(u, _). limit < u) (snd (exec f t s)))"

lemma due_insort_late:
  assumes "limit < ev_at x" shows "due limit (insort_by event_before x q) = due limit q"
  using assms by (induction q) (auto simp: due_def event_before_def split: if_splits)

lemma due_fold_schedule:
  assumes "list_all (\<lambda>(u, _). limit < u) calls"
  shows "due limit (clk_queue (fold (\<lambda>(t, g). schedule_at t g) calls c)) = due limit (clk_queue c)"
  using assms
proof (induction calls arbitrary: c)
  case (Cons x calls)
  then have "due limit (clk_queue (schedule_at (fst x) (snd x) c)) = due limit (clk_queue c)"
    by (auto simp: schedule_at_def intro!: due_insort_late)
  with Cons show ?case by (cases x) simp
qed simp

lemma advance_due:
  assumes "clock_inv c" and "clk_queue c = e # q" and "ev_at e \<le> limit" and "schedules_after limit exec"
  obtains c' where "advance_to_next exec (s, c) = (run_event exec e s, c')" and "clock_inv c'"
    and "due limit (clk_queue c') = due limit q" and "clk_now c' = ev_at e"
proof -
  let ?c = "c\<lparr>clk_queue := q, clk_now := ev_at e\<rparr>"
  note inv = advance_inv [OF assms(1,2)]
  show thesis
  proof (cases "ev_cb e")
    case None
    then show thesis using inv assms(2) by (intro that [of ?c]) (auto simp: advance_to_next_def run_callback_def run_event_def)
  next
    case (Some f)
    let ?calls = "snd (exec f (ev_at e) s)"
    have "list_all (\<lambda>(u, _). limit < u) ?calls" using assms(4) by (auto simp: schedules_after_def)
    then show thesis
      using Some assms(2) fold_schedule_at [OF inv, of ?calls] due_fold_schedule [of limit ?calls ?c]
      by (intro that [of "fold (\<lambda>(t, g). schedule_at t g) ?calls ?c"])
        (auto simp: advance_to_next_def run_callback_def run_event_def Let_def case_prod_unfold)
  qed
qed

lemma sorted_due:
  assumes "clock_inv c" and "due limit (clk_queue c) = []"
  shows "list_all (\<lambda>e. limit < ev_at e) (clk_queue c)"
  using assms
  by (cases "clk_queue c")
    (force simp: clock_inv_def due_def sorted_by_def event_before_def list_all_iff split: if_splits)+

lemma run_loop_executes_due:
  assumes "clock_inv c" and "schedules_after limit exec" and "clk_now c \<le> limit"
  shows "\<exists>c'. run_loop exec limit (s, c) = Some (fold (run_event exec) (due limit (clk_queue c)) s, c') \<and>
    clock_inv c' \<and> clk_now c' \<le> limit \<and> list_all (\<lambda>e. limit < ev_at e) (clk_queue c')"
  using assms
proof (induction "due limit (clk_queue c)" arbitrary: s c)
  case Nil
  then have "run_loop exec limit (s, c) = Some (s, c)"
    by (subst run_loop.simps) (auto simp: due_def split: list.splits if_splits)
  with Nil show ?case using sorted_due [OF Nil(2) Nil(1) [symmetric]] by (metis fold_simps(1))
next
  case (Cons e es)
  then obtain q where q: "clk_queue c = e # q" and e: "ev_at e \<le> limit" and es: "es = due limit q"
    by (cases "clk_queue c") (auto simp: due_def split: if_splits)
  obtain c' where c': "advance_to_next exec (s, c) = (run_event exec e s, c')" "clock_inv c'"
    "due limit (clk_queue c') = due limit q" "clk_now c' = ev_at e"
    using advance_due [OF Cons.prems(1) q e Cons.prems(2)] by blast
  have "run_loop exec limit (s, c) = run_loop exec limit (run_event exec e s, c')"
    by (subst run_loop.simps) (simp add: q e c'(1))
  moreover have "fold (run_event exec) (due limit (clk_queue c)) s =
      fold (run_event exec) (due limit (clk_queue c')) (run_event exec e s)"
    by (simp add: q e due_def c'(3) [unfolded due_def])
  ultimately show ?case
    using Cons.hyps(1) [of c' "run_event exec e s"] c' Cons.prems(2) e es by simp
qed

lemma next_seq_grows: "(n :: 64 word) \<noteq> - 1 \<Longrightarrow> n < n + 1"
  using inc_less_eq_self_iff_eq [of n] by (simp add: linorder_not_le [symmetric])

lemma filter_insort_last:
  assumes "sorted_by event_before xs" and "\<And>y. y \<in> set xs \<Longrightarrow> P y \<Longrightarrow> event_before y x" and "P x"
  shows "filter P (insort_by event_before x xs) = filter P xs @ [x]"
  using assms
proof (induction xs)
  case (Cons a xs)
  show ?case
  proof (cases "event_before a x")
    case True
    then show ?thesis using Cons by (simp add: sorted_by_def)
  next
    case False
    then have "\<not> event_before y x" if "y \<in> set (a # xs)" for y
      using that Cons.prems(1) event_order.not_lt_trans [of a x y] by (auto simp: sorted_by_def)
    then have "filter P (a # xs) = []" using Cons.prems(2) by (auto simp: filter_empty_conv)
    then show ?thesis using False Cons.prems(3) by simp
  qed
qed simp

lemma filter_insort_other: "\<not> P x \<Longrightarrow> filter P (insort_by lt x xs) = filter P xs"
  by (induction xs) auto

text \<open>C15. A run of the simulation clock returns, and executes exactly the pending events due by
  the limit, once each, in order of time, then leaves the clock at the limit with only later
  events pending, as long as the callbacks schedule new events beyond the limit only.\<close>

theorem run_until_executes_due_events:
  assumes "clock_inv c" and "clk_now c \<le> limit" and "schedules_after limit exec"
  shows "\<exists>c'. run_until exec limit (s, c) = Some (fold (run_event exec) (due limit (clk_queue c)) s, c') \<and>
    clk_now c' = limit \<and> clock_inv c' \<and> list_all (\<lambda>e. limit < ev_at e) (clk_queue c')"
proof -
  obtain c' where "run_loop exec limit (s, c) = Some (fold (run_event exec) (due limit (clk_queue c)) s, c')"
    "clock_inv c'" "clk_now c' \<le> limit" "list_all (\<lambda>e. limit < ev_at e) (clk_queue c')"
    using run_loop_executes_due [OF assms(1,3,2)] by blast
  then show ?thesis using assms(2)
    by (intro exI [of _ "c'\<lparr>clk_now := max (clk_now c') limit\<rparr>"])
      (auto simp: run_until_def clock_inv_def list_all_iff max_def)
qed

text \<open>Events at the same instant are executed in the order in which they were scheduled:
  scheduling appends the event behind those already pending at its (clamped) instant and leaves
  every other instant alone, and the next event to run is the first of the earliest instant.\<close>

theorem schedule_at_fifo:
  assumes "clock_inv c" and "seq_fresh c"
  shows "pending_at u (schedule_at t cb c) = pending_at u c @ (if u = max t (clk_now c) then [cb] else []) \<and>
    (clk_next_seq c \<noteq> - 1 \<longrightarrow> seq_fresh (schedule_at t cb c))"
proof
  let ?e = "\<lparr>ev_at = max t (clk_now c), ev_seq = clk_next_seq c, ev_cb = cb\<rparr>"
  show "pending_at u (schedule_at t cb c) = pending_at u c @ (if u = max t (clk_now c) then [cb] else [])"
  proof (cases "u = max t (clk_now c)")
    case True
    have "filter (\<lambda>e. ev_at e = u) (insort_by event_before ?e (clk_queue c)) =
        filter (\<lambda>e. ev_at e = u) (clk_queue c) @ [?e]"
      using assms True
      by (intro filter_insort_last) (auto simp: clock_inv_def seq_fresh_def event_before_def list_all_iff)
    then show ?thesis using True by (simp add: pending_at_def schedule_at_def)
  qed (auto simp: pending_at_def schedule_at_def filter_insort_other)
  note grows = next_seq_grows [of "clk_next_seq c"]
  then show "clk_next_seq c \<noteq> - 1 \<longrightarrow> seq_fresh (schedule_at t cb c)"
    using assms(2) by (auto simp: seq_fresh_def schedule_at_def list_all_iff)
qed

subsection \<open>Evaluations\<close>

text \<open>Callbacks that record their name, and one that schedules another event later.\<close>

definition log_exec :: "(string, (time \<times> string) list) callback_semantics" where
  "log_exec f t hist = (hist @ [(t, f)], if f = ''again'' then [(t + 10, Some ''late'')] else [])"

definition demo_clock :: "string sim_clock" where
  "demo_clock = schedule_at 3 (Some ''b'') (schedule_at 5 (Some ''c'') (schedule_at 3 (Some ''a'') new_sim_clock))"

definition late_exec :: "(string, (time \<times> string) list) callback_semantics" where
  "late_exec f t hist = (hist @ [(t, f)], [(max t 4 + 10, Some ''late'')])"

theorem run_until_executes_due_events_witness:
  "\<exists>c'. run_until late_exec 4 ([], demo_clock) = Some ([(3, ''a''), (3, ''b'')], c') \<and> clk_now c' = 4"
proof -
  have "schedules_after 4 late_exec" by (simp add: schedules_after_def late_exec_def max_def)
  moreover have "clock_inv demo_clock" "clk_now demo_clock \<le> 4"
    by (simp_all add: demo_clock_def schedule_at_inv clock_inv_new) (simp add: new_sim_clock_def)
  moreover have "fold (run_event late_exec) (due 4 (clk_queue demo_clock)) [] = [(3, ''a''), (3, ''b'')]"
    by code_simp
  ultimately show ?thesis using run_until_executes_due_events [of demo_clock 4 late_exec "[]"] by auto
qed

theorem schedule_at_fifo_witness:
  "pending_at 3 (schedule_at 1 (Some ''d'') (demo_clock\<lparr>clk_now := 3\<rparr>)) = [Some ''a'', Some ''b'', Some ''d'']"
proof -
  have "clock_inv (demo_clock\<lparr>clk_now := 3\<rparr>)" "seq_fresh (demo_clock\<lparr>clk_now := 3\<rparr>)"
    "pending_at 3 (demo_clock\<lparr>clk_now := 3\<rparr>) = [Some ''a'', Some ''b'']"
    unfolding clock_inv_def sorted_by_def by code_simp+
  then show ?thesis using schedule_at_fifo [of "demo_clock\<lparr>clk_now := 3\<rparr>" 3 1 "Some ''d''"] by simp
qed

text \<open>
  \<^verbatim>\<open>set_time\<close> does not move the events that are already pending: after it the next event can take
  the clock back.
\<close>

theorem set_time_breaks_monotonicity:
  "clk_now (set_time 100 demo_clock) = 100 \<and>
   clk_now (snd (advance_to_next log_exec ([], set_time 100 demo_clock))) = 3"
  by code_simp

end
