(* ===== verification/Protocol_Types.thy ===== *)
theory Protocol_Types
  imports Opt_Model
begin

text \<open>
  The messages of \<^verbatim>\<open>protocol/proto\<close> that the services exchange, and the enumerations of
  \<^verbatim>\<open>protocol/runtime_api.hpp\<close>. An \<^verbatim>\<open>optional\<close> field is an option; a sub-message the code asks
  \<^verbatim>\<open>has_x()\<close> of is an option as well. Encoding messages to bytes is protobuf's own business.
\<close>

subsection \<open>Workflow submissions\<close>

record pb_actor_config =
  pa_id :: string
  pa_type :: string
  pa_capacity :: "int option"
  pa_windows :: "availability_window list"
  pa_capabilities :: "string list"
  pa_execution_cost_per_unit :: "rat option"

record pb_task_config =
  px_id :: string
  px_requested_time :: int
  px_duration :: int
  px_latest_start_time :: int
  px_deadline :: int
  px_priority :: int
  px_demand :: "int option"
  px_mandatory :: "bool option"
  px_preemptible :: "bool option"
  px_allowed_actor_types :: "string list"
  px_allowed_actor_ids :: "string list"
  px_preferred_actor_ids :: "string list"
  px_required_capabilities :: "string list"
  px_dependency_task_ids :: "string list"
  px_mutually_exclusive_task_ids :: "string list"
  px_actor_distances :: "(string \<times> int) list"
  px_tardiness_cost_per_unit :: rat
  px_early_start_bonus :: rat
  px_phase_durations :: "int list"

record pb_objective_config =
  po_fulfilled_task_weight :: "int option"
  po_priority_weight :: "int option"
  po_makespan_weight :: "int option"
  po_travel_distance_weight :: "int option"
  po_tardiness_weight :: "int option"
  po_execution_cost_weight :: "int option"
  po_preferred_actor_weight :: "int option"

record pb_optimization_config =
  pq_backend :: "string option"
  pq_time_limit_ms :: "int option"
  pq_relative_gap_limit :: "rat option"
  pq_num_search_workers :: "int option"
  pq_allow_partial_plan :: "bool option"
  pq_objective :: "pb_objective_config option"

record pb_workflow_config =
  pw_id :: string
  pw_optimization :: "pb_optimization_config option"
  pw_actors :: "pb_actor_config list"
  pw_tasks :: "pb_task_config list"

record client_auth_context =
  au_bearer_token :: string
  au_api_key :: string
  au_secure_transport :: bool

record submit_workflow_request =
  sw_config :: pb_workflow_config
  sw_auth :: client_auth_context
  sw_replace_existing :: "bool option"
  sw_idempotency_key :: "string option"

record task_state_override =
  to_task_id :: string
  to_completed :: "bool option"
  to_requested_time :: "int option"
  to_deadline :: "int option"
  to_priority :: "int option"
  to_pinned_actor_id :: "string option"

record actor_state_override =
  ao_actor_id :: string
  ao_unavailable :: "bool option"
  ao_capacity :: "int option"

record reorchestrate_request =
  rq_workflow_id :: string
  rq_task_overrides :: "task_state_override list"
  rq_actor_overrides :: "actor_state_override list"
  rq_auth :: client_auth_context
  rq_trigger_reorchestration :: "bool option"
  rq_idempotency_key :: "string option"
  rq_expected_plan_version :: "int option"

subsection \<open>Responses and events\<close>

record pb_assignment =
  pg_task_id :: string
  pg_actor_id :: string
  pg_start_time :: int
  pg_end_time :: int

record pb_run_result =
  pr_result_ok :: bool
  pr_capacity_issue :: bool
  pr_assignments :: "pb_assignment list"
  pr_unfulfilled_task_ids :: "string list"
  pr_result_error :: string

record runtime_api_response =
  ra_ok :: bool
  ra_result :: pb_run_result
  ra_error_message :: string

definition empty_run_result :: pb_run_result where
  "empty_run_result = \<lparr>pr_result_ok = False, pr_capacity_issue = False, pr_assignments = [],
     pr_unfulfilled_task_ids = [], pr_result_error = []\<rparr>"

definition empty_response :: runtime_api_response where
  "empty_response = \<lparr>ra_ok = False, ra_result = empty_run_result, ra_error_message = []\<rparr>"

datatype workflow_event_type = EventUnspecified | RequestRejected | WorkflowAccepted | RuntimeOverrideApplied
  | TaskCompleted | ReplanningStarted | TaskPlanned | RunFinished

record workflow_event =
  we_type :: workflow_event_type
  we_workflow_id :: string
  we_task_id :: string
  we_actor_id :: string
  we_start_time :: int
  we_end_time :: int
  we_detail :: string
  we_response :: "runtime_api_response option"

definition empty_event :: workflow_event where
  "empty_event = \<lparr>we_type = EventUnspecified, we_workflow_id = [], we_task_id = [], we_actor_id = [],
     we_start_time = 0, we_end_time = 0, we_detail = [], we_response = None\<rparr>"

subsection \<open>Control-plane records\<close>

datatype workflow_lifecycle_state = StateUnspecified | Submitted | PlanningState | Planned | Paused | Cancelled
  | FailedState | Recovering

record workflow_summary =
  ws_workflow_id :: string
  ws_state :: workflow_lifecycle_state
  ws_created_at :: int
  ws_updated_at :: int
  ws_latest_plan_version :: int
  ws_total_event_count :: int
  ws_total_audit_entry_count :: int
  ws_last_error_message :: string

record workflow_record =
  wr_summary :: workflow_summary
  wr_config :: pb_workflow_config
  wr_latest_response :: "runtime_api_response option"

record workflow_event_record =
  ev_sequence :: int
  ev_recorded_at :: int
  ev_event :: workflow_event

record workflow_plan_version =
  pv_version :: int
  pv_recorded_at :: int
  pv_response :: runtime_api_response

record audit_entry =
  ae_sequence :: int
  ae_recorded_at :: int
  ae_actor :: string
  ae_action :: string
  ae_detail :: string

record idempotency_record =
  ir_key :: string
  ir_workflow_id :: string
  ir_request_fingerprint :: string
  ir_recorded_at :: int
  ir_cached_response :: runtime_api_response

definition empty_config :: pb_workflow_config where
  "empty_config = \<lparr>pw_id = [], pw_optimization = None, pw_actors = [], pw_tasks = []\<rparr>"

definition empty_record :: workflow_record where
  "empty_record = \<lparr>wr_summary = \<lparr>ws_workflow_id = [], ws_state = StateUnspecified, ws_created_at = 0,
     ws_updated_at = 0, ws_latest_plan_version = 0, ws_total_event_count = 0, ws_total_audit_entry_count = 0,
     ws_last_error_message = []\<rparr>, wr_config = empty_config, wr_latest_response = None\<rparr>"

subsection \<open>Security\<close>

datatype auth_mode = NoAuth | BearerToken | ApiKey

record security_config =
  sc_mode :: auth_mode
  sc_expected_credential :: string
  sc_require_secure_transport :: bool

end
