(* ===== verification/Workflow_Store.thy ===== *)
theory Workflow_Store
  imports Protocol_Types Text_Input "HOL-Library.Word"
begin

text \<open>
  The durable store of the control plane as its interface
  (\<^verbatim>\<open>control_plane/store/workflow_store.hpp\<close>) promises it: tables of messages, keyed by their primary
  keys; history rows also carry the id of the boot that wrote them. \<open>Sqlite_Store\<close> models the SQLite
  implementation (rows and blobs) and shows that it refines this store. Also here: page tokens and
  page windows, and the service that prunes history
  (\<^verbatim>\<open>service/event_storage_management_service.cpp\<close>).
\<close>

subsection \<open>State\<close>

record workflow_store =
  st_boot_id :: string
  st_workflows :: "(string, workflow_record) umap"
  st_events :: "(string \<times> int, string \<times> workflow_event_record) umap"
  st_plans :: "(string \<times> int, string \<times> workflow_plan_version) umap"
  st_audits :: "(string \<times> int, string \<times> audit_entry) umap"
  st_idempotency :: "(string, string \<times> idempotency_record) umap"

definition empty_store :: "string \<Rightarrow> workflow_store" where
  "empty_store boot = \<lparr>st_boot_id = boot, st_workflows = [], st_events = [], st_plans = [], st_audits = [],
     st_idempotency = []\<rparr>"

text \<open>What a call may throw: a row that references no workflow, or a blob that cannot be parsed.\<close>

datatype store_error = ForeignKeyViolation | CorruptBlob

subsection \<open>Writing\<close>

definition upsert_workflow :: "workflow_record \<Rightarrow> workflow_store \<Rightarrow> workflow_store" where
  "upsert_workflow r st =
     st\<lparr>st_workflows := AList.update (ws_workflow_id (wr_summary r)) r (st_workflows st)\<rparr>"

definition write_event :: "string \<Rightarrow> workflow_event_record \<Rightarrow> workflow_store \<Rightarrow> store_error + workflow_store" where
  "write_event wid e st =
     (if umap_contains (st_workflows st) wid
      then Inr (st\<lparr>st_events := AList.update (wid, ev_sequence e) (st_boot_id st, e) (st_events st)\<rparr>)
      else Inl ForeignKeyViolation)"

definition write_plan_version ::
  "string \<Rightarrow> workflow_plan_version \<Rightarrow> workflow_store \<Rightarrow> store_error + workflow_store" where
  "write_plan_version wid p st =
     (if umap_contains (st_workflows st) wid
      then Inr (st\<lparr>st_plans := AList.update (wid, pv_version p) (st_boot_id st, p) (st_plans st)\<rparr>)
      else Inl ForeignKeyViolation)"

definition write_audit_entry :: "string \<Rightarrow> audit_entry \<Rightarrow> workflow_store \<Rightarrow> store_error + workflow_store" where
  "write_audit_entry wid a st =
     (if umap_contains (st_workflows st) wid
      then Inr (st\<lparr>st_audits := AList.update (wid, ae_sequence a) (st_boot_id st, a) (st_audits st)\<rparr>)
      else Inl ForeignKeyViolation)"

definition put_idempotency_record :: "idempotency_record \<Rightarrow> workflow_store \<Rightarrow> store_error + workflow_store" where
  "put_idempotency_record r st =
     (if umap_contains (st_workflows st) (ir_workflow_id r)
      then Inr (st\<lparr>st_idempotency := AList.update (ir_key r) (st_boot_id st, r) (st_idempotency st)\<rparr>)
      else Inl ForeignKeyViolation)"

subsection \<open>Reading\<close>

definition get_workflow :: "string \<Rightarrow> workflow_store \<Rightarrow> workflow_record option" where
  "get_workflow wid st = map_of (st_workflows st) wid"

text \<open>\<^verbatim>\<open>ORDER BY updated_at_unix_ms DESC, workflow_id ASC\<close>\<close>

definition summary_key :: "workflow_summary \<Rightarrow> int \<times> string" where
  "summary_key s = (- ws_updated_at s, ws_workflow_id s)"

definition list_all_workflows :: "workflow_store \<Rightarrow> workflow_record list" where
  "list_all_workflows st = sort_key (\<lambda>r. summary_key (wr_summary r)) (map snd (st_workflows st))"

text \<open>
  History of one workflow in sequence order. A positive limit keeps the newest rows
  (\<^verbatim>\<open>DESC LIMIT ?\<close>, then reversed); SQLite reads the limit as a signed number, and a negative limit is
  none.
\<close>

definition take_limit :: "nat \<Rightarrow> 'a list \<Rightarrow> 'a list" where
  "take_limit n xs = (if n < 2 ^ 63 then take n xs else xs)"

text \<open>Evaluated with the bound as a binary integer.\<close>

lemma take_limit_code [code]: "take_limit n xs = (if int n < 2 ^ 63 then take n xs else xs)"
  by (simp add: take_limit_def)

definition history_of :: "string \<Rightarrow> nat \<Rightarrow> (string \<times> int, string \<times> 'r) umap \<Rightarrow> 'r list" where
  "history_of wid limit rows =
     (let ours = sort_key (\<lambda>r. snd (fst r)) (filter (\<lambda>r. fst (fst r) = wid) rows)
      in map (snd \<circ> snd) (if limit > 0 then rev (take_limit limit (rev ours)) else ours))"

definition list_events :: "string \<Rightarrow> nat \<Rightarrow> workflow_store \<Rightarrow> workflow_event_record list" where
  "list_events wid limit st = history_of wid limit (st_events st)"

definition list_plan_versions :: "string \<Rightarrow> nat \<Rightarrow> workflow_store \<Rightarrow> workflow_plan_version list" where
  "list_plan_versions wid limit st = history_of wid limit (st_plans st)"

definition list_audit_entries :: "string \<Rightarrow> nat \<Rightarrow> workflow_store \<Rightarrow> audit_entry list" where
  "list_audit_entries wid limit st = history_of wid limit (st_audits st)"

definition get_idempotency_record :: "string \<Rightarrow> workflow_store \<Rightarrow> idempotency_record option" where
  "get_idempotency_record k st = map_option snd (map_of (st_idempotency st) k)"

subsection \<open>Pages\<close>

definition kDefaultPageSize :: nat where "kDefaultPageSize = 50"

definition normalize_page_size :: "int \<Rightarrow> nat" where
  "normalize_page_size n = (if n \<le> 0 then kDefaultPageSize else nat n)"

text \<open>\<^verbatim>\<open>std::stoull\<close>: a minus sign negates in 64-bit arithmetic; out of range throws.\<close>

definition stoull :: "string \<Rightarrow> num_error + 64 word" where
  "stoull s = bind_result (parse_integer (- (2 ^ 64 - 1)) (2 ^ 64 - 1) s) (\<lambda>v. Inr (word_of_int v))"

definition parse_page_token :: "string \<Rightarrow> 64 word" where
  "parse_page_token s = (if s = [] then 0 else case stoull s of Inl _ \<Rightarrow> 0 | Inr w \<Rightarrow> w)"

text \<open>\<^verbatim>\<open>LIMIT n OFFSET k\<close>: the offset is bound as a signed number, and a negative one counts as 0.\<close>

definition sql_window :: "nat \<Rightarrow> 64 word \<Rightarrow> 'a list \<Rightarrow> 'a list" where
  "sql_window n offset xs = take n (drop (nat (sint offset)) xs)"

record workflow_page =
  pp_workflows :: "workflow_summary list"
  pp_next_page_token :: string

text \<open>The loop over the rows of a page: one row more than fits tells that there is a next page.\<close>

fun read_page :: "('r \<Rightarrow> workflow_summary) \<Rightarrow> nat \<Rightarrow> 64 word \<Rightarrow> nat \<Rightarrow> workflow_page \<Rightarrow> 'r list \<Rightarrow> workflow_page" where
  "read_page f page_size offset n pg [] = pg"
| "read_page f page_size offset n pg (r # rs) =
     (if n = page_size
      then pg\<lparr>pp_next_page_token := to_string (uint (offset + word_of_nat page_size))\<rparr>
      else read_page f page_size offset (Suc n) (pg\<lparr>pp_workflows := pp_workflows pg @ [f r]\<rparr>) rs)"

record list_workflows_request =
  lq_page_size :: int
  lq_page_token :: string
  lq_states :: "int list"

record search_workflows_request = list_workflows_request +
  lq_query :: string

primrec state_number :: "workflow_lifecycle_state \<Rightarrow> int" where
  "state_number StateUnspecified = 0"
| "state_number Submitted = 1"
| "state_number PlanningState = 2"
| "state_number Planned = 3"
| "state_number Paused = 4"
| "state_number Cancelled = 5"
| "state_number FailedState = 6"
| "state_number Recovering = 7"

definition state_selected :: "int list \<Rightarrow> int \<Rightarrow> bool" where
  "state_selected states n \<longleftrightarrow> (if states = [] then True else n \<in> set states)"

text \<open>\<^verbatim>\<open>instr(haystack, needle) > 0\<close>\<close>

fun instr :: "string \<Rightarrow> string \<Rightarrow> bool" where
  "instr [] needle = (needle = [])"
| "instr (c # cs) needle = (starts_with (c # cs) needle \<or> instr cs needle)"

definition query_selected :: "string \<Rightarrow> string \<Rightarrow> string \<Rightarrow> bool" where
  "query_selected query wid message \<longleftrightarrow>
     (if query = [] then True else instr wid query \<or> instr message query)"

definition matching_summaries ::
  "int list \<Rightarrow> string \<Rightarrow> workflow_store \<Rightarrow> workflow_summary list" where
  "matching_summaries states query st =
     sort_key summary_key
       (filter (\<lambda>s. state_selected states (state_number (ws_state s)) \<and>
                 query_selected query (ws_workflow_id s) (ws_last_error_message s))
         (map (\<lambda>r. wr_summary (snd r)) (st_workflows st)))"

definition page_of :: "int \<Rightarrow> string \<Rightarrow> workflow_summary list \<Rightarrow> workflow_page" where
  "page_of requested token xs =
     (let page_size = normalize_page_size requested; offset = parse_page_token token
      in read_page id page_size offset 0 \<lparr>pp_workflows = [], pp_next_page_token = []\<rparr>
           (sql_window (page_size + 1) offset xs))"

definition list_workflows :: "list_workflows_request \<Rightarrow> workflow_store \<Rightarrow> workflow_page" where
  "list_workflows q st = page_of (lq_page_size q) (lq_page_token q) (matching_summaries (lq_states q) [] st)"

definition search_workflows :: "search_workflows_request \<Rightarrow> workflow_store \<Rightarrow> workflow_page" where
  "search_workflows q st =
     page_of (lq_page_size q) (lq_page_token q) (matching_summaries (lq_states q) (lq_query q) st)"

subsection \<open>Metrics and pruning\<close>

record storage_metrics =
  sm_recent_event_count :: nat
  sm_retained_plan_versions :: nat
  sm_tracked_workflows :: nat
  sm_active_workflows :: nat

definition active_states :: "workflow_lifecycle_state list" where
  "active_states = [Submitted, PlanningState, Planned, Paused, Recovering]"

definition get_storage_metrics :: "int \<Rightarrow> workflow_store \<Rightarrow> storage_metrics" where
  "get_storage_metrics since st =
     \<lparr>sm_recent_event_count = length (filter (\<lambda>(_, _, e). since \<le> ev_recorded_at e) (st_events st)),
      sm_retained_plan_versions = length (st_plans st), sm_tracked_workflows = length (st_workflows st),
      sm_active_workflows =
        length (filter (\<lambda>(_, r). ws_state (wr_summary r) \<in> set active_states) (st_workflows st))\<rparr>"

record storage_prune_result =
  sp_pruned_event_rows :: nat
  sp_pruned_plan_version_rows :: nat
  sp_pruned_audit_entry_rows :: nat
  sp_pruned_idempotency_rows :: nat

text \<open>
  A history row goes when another boot wrote it, it is older than the cutoff, and its number is below
  the workflow's counter (\<^verbatim>\<open>COALESCE\<close> keeps rows of an unknown workflow).
\<close>

definition stale ::
  "string \<Rightarrow> int \<Rightarrow> (workflow_summary \<Rightarrow> int) \<Rightarrow> workflow_store \<Rightarrow> string \<Rightarrow> int \<Rightarrow> string \<Rightarrow> int \<Rightarrow> bool" where
  "stale boot cutoff counter st wid number row_boot recorded \<longleftrightarrow>
     row_boot \<noteq> boot \<and> recorded < cutoff \<and>
     number < (case map_of (st_workflows st) wid of None \<Rightarrow> number | Some r \<Rightarrow> counter (wr_summary r))"

definition stale_row ::
  "workflow_store \<Rightarrow> int \<Rightarrow> (workflow_summary \<Rightarrow> int) \<Rightarrow> ('r \<Rightarrow> int) \<Rightarrow> (string \<times> int) \<times> string \<times> 'r \<Rightarrow> bool" where
  "stale_row st cutoff counter recorded =
     (\<lambda>((wid, n), boot, r). stale (st_boot_id st) cutoff counter st wid n boot (recorded r))"

definition stale_idempotency :: "workflow_store \<Rightarrow> int \<Rightarrow> string \<times> string \<times> idempotency_record \<Rightarrow> bool" where
  "stale_idempotency st cutoff = (\<lambda>(_, boot, r). boot \<noteq> st_boot_id st \<and> ir_recorded_at r < cutoff)"

definition prune_stale_boot_data :: "int \<Rightarrow> workflow_store \<Rightarrow> storage_prune_result \<times> workflow_store" where
  "prune_stale_boot_data cutoff st =
     (let ev = stale_row st cutoff ws_total_event_count ev_recorded_at;
          pl = stale_row st cutoff ws_latest_plan_version pv_recorded_at;
          au = stale_row st cutoff ws_total_audit_entry_count ae_recorded_at;
          ip = stale_idempotency st cutoff
      in (\<lparr>sp_pruned_event_rows = length (filter ev (st_events st)),
           sp_pruned_plan_version_rows = length (filter pl (st_plans st)),
           sp_pruned_audit_entry_rows = length (filter au (st_audits st)),
           sp_pruned_idempotency_rows = length (filter ip (st_idempotency st))\<rparr>,
          st\<lparr>st_events := filter (\<lambda>r. \<not> ev r) (st_events st), st_plans := filter (\<lambda>r. \<not> pl r) (st_plans st),
             st_audits := filter (\<lambda>r. \<not> au r) (st_audits st),
             st_idempotency := filter (\<lambda>r. \<not> ip r) (st_idempotency st)\<rparr>))"

subsection \<open>The pruning service\<close>

definition kMsPerDay :: int where "kMsPerDay = 24 * 60 * 60 * 1000"

record event_storage_prune_outcome =
  eo_performed :: bool
  eo_prune_after_days :: int
  eo_cutoff :: int
  eo_result :: storage_prune_result

definition no_prune :: storage_prune_result where
  "no_prune = \<lparr>sp_pruned_event_rows = 0, sp_pruned_plan_version_rows = 0, sp_pruned_audit_entry_rows = 0,
     sp_pruned_idempotency_rows = 0\<rparr>"

text \<open>\<open>None\<close> is a null store; \<open>now\<close> is the reading of the system clock.\<close>

definition prune_stale_boot_history ::
  "int \<Rightarrow> int \<Rightarrow> workflow_store option \<Rightarrow> event_storage_prune_outcome \<times> workflow_store option" where
  "prune_stale_boot_history now days st =
     (let outcome = \<lparr>eo_performed = False, eo_prune_after_days = days, eo_cutoff = 0, eo_result = no_prune\<rparr> in
      case st of
        None \<Rightarrow> (outcome, st)
      | Some s \<Rightarrow>
          if days \<le> 0 then (outcome, st)
          else (let cutoff = now - days * kMsPerDay; (res, s') = prune_stale_boot_data cutoff s
                in (outcome\<lparr>eo_performed := True, eo_cutoff := cutoff, eo_result := res\<rparr>, Some s')))"

end
