(* ===== verification/Sqlite_Store.thy ===== *)
theory Sqlite_Store
  imports Workflow_Store
begin

text \<open>
  \<^verbatim>\<open>control_plane/src/store/sqlite_workflow_store.cpp\<close>: the rows the statements read and write. A table is
  an association list from primary keys to rows; \<^verbatim>\<open>INSERT OR REPLACE\<close> and \<^verbatim>\<open>ON CONFLICT DO UPDATE\<close>
  replace the row of a key; foreign keys are enforced (\<^verbatim>\<open>PRAGMA foreign_keys = ON\<close>) and no statement
  deletes a workflow. The protobuf codec is a parameter (\<open>codec\<close>), with blobs of any type.
\<close>

subsection \<open>Codec\<close>

record 'b codec =
  enc_config :: "pb_workflow_config \<Rightarrow> 'b"
  dec_config :: "'b \<Rightarrow> pb_workflow_config option"
  enc_response :: "runtime_api_response \<Rightarrow> 'b"
  dec_response :: "'b \<Rightarrow> runtime_api_response option"
  enc_event :: "workflow_event \<Rightarrow> 'b"
  dec_event :: "'b \<Rightarrow> workflow_event option"
  enc_audit :: "audit_entry \<Rightarrow> 'b"

text \<open>What protobuf documents: a message parses back from its serialization.\<close>

definition codec_ok :: "'b codec \<Rightarrow> bool" where
  "codec_ok c \<longleftrightarrow> (\<forall>x. dec_config c (enc_config c x) = Some x) \<and>
     (\<forall>x. dec_response c (enc_response c x) = Some x) \<and> (\<forall>x. dec_event c (enc_event c x) = Some x)"

definition parse_proto_blob :: "('b \<Rightarrow> 'm option) \<Rightarrow> 'b \<Rightarrow> store_error + 'm" where
  "parse_proto_blob dec b = (case dec b of None \<Rightarrow> Inl CorruptBlob | Some x \<Rightarrow> Inr x)"

subsection \<open>Schema\<close>

record 'b workflow_row =
  wfr_workflow_id :: string
  wfr_state :: int
  wfr_created_at :: int
  wfr_updated_at :: int
  wfr_latest_plan_version :: int
  wfr_total_event_count :: int
  wfr_total_audit_entry_count :: int
  wfr_last_error_message :: string
  wfr_config_proto :: 'b
  wfr_has_latest_response :: int
  wfr_latest_response_proto :: "'b option"

record 'b event_row =
  er_workflow_id :: string
  er_sequence :: int
  er_recorded_at :: int
  er_boot_id :: string
  er_event_type :: int
  er_task_id :: string
  er_actor_id :: string
  er_detail :: string
  er_event_proto :: 'b

record 'b plan_row =
  plr_workflow_id :: string
  plr_version :: int
  plr_recorded_at :: int
  plr_boot_id :: string
  plr_response_proto :: 'b

record 'b audit_row =
  aur_workflow_id :: string
  aur_sequence :: int
  aur_recorded_at :: int
  aur_boot_id :: string
  aur_actor :: string
  aur_action :: string
  aur_detail :: string
  aur_audit_proto :: 'b

record 'b idempotency_row =
  idr_key :: string
  idr_workflow_id :: string
  idr_request_fingerprint :: string
  idr_recorded_at :: int
  idr_boot_id :: string
  idr_cached_response_proto :: 'b

record 'b sqlite_store =
  db_boot_id :: string
  db_workflow_records :: "(string, 'b workflow_row) umap"
  db_workflow_events :: "(string \<times> int, 'b event_row) umap"
  db_workflow_plan_versions :: "(string \<times> int, 'b plan_row) umap"
  db_workflow_audit_entries :: "(string \<times> int, 'b audit_row) umap"
  db_idempotency_records :: "(string, 'b idempotency_row) umap"

definition kUnknownBootId :: string where "kUnknownBootId = ''boot-id-unavailable''"

text \<open>\<open>line\<close> is the first line of the kernel's boot-id file, if it can be read.\<close>

definition read_kernel_boot_id :: "string option \<Rightarrow> string" where
  "read_kernel_boot_id line =
     (case line of
        None \<Rightarrow> kUnknownBootId
      | Some s \<Rightarrow> (let boot_id = rev (dropWhile isspace (rev s)) in if boot_id = [] then kUnknownBootId else boot_id))"

definition new_database :: "'b sqlite_store" where
  "new_database = \<lparr>db_boot_id = [], db_workflow_records = [], db_workflow_events = [],
     db_workflow_plan_versions = [], db_workflow_audit_entries = [], db_idempotency_records = []\<rparr>"

text \<open>
  The constructor opens the database: the tables are created where they do not exist and keep their
  rows where they do.
\<close>

definition open_sqlite_store :: "string option \<Rightarrow> string \<Rightarrow> 'b sqlite_store \<Rightarrow> 'b sqlite_store" where
  "open_sqlite_store line current_boot_id db =
     db\<lparr>db_boot_id := (if current_boot_id = [] then read_kernel_boot_id line else current_boot_id)\<rparr>"

subsection \<open>Rows\<close>

definition all_states :: "workflow_lifecycle_state list" where
  "all_states = [StateUnspecified, Submitted, PlanningState, Planned, Paused, Cancelled, FailedState, Recovering]"

text \<open>Only numbers of declared states are ever stored.\<close>

definition state_of_number :: "int \<Rightarrow> workflow_lifecycle_state" where
  "state_of_number n = (case find (\<lambda>s. state_number s = n) all_states of None \<Rightarrow> StateUnspecified | Some s \<Rightarrow> s)"

definition read_summary_row :: "'b workflow_row \<Rightarrow> workflow_summary" where
  "read_summary_row r =
     \<lparr>ws_workflow_id = wfr_workflow_id r, ws_state = state_of_number (wfr_state r), ws_created_at = wfr_created_at r,
      ws_updated_at = wfr_updated_at r, ws_latest_plan_version = wfr_latest_plan_version r,
      ws_total_event_count = wfr_total_event_count r, ws_total_audit_entry_count = wfr_total_audit_entry_count r,
      ws_last_error_message = wfr_last_error_message r\<rparr>"

definition read_workflow_row :: "'b codec \<Rightarrow> 'b workflow_row \<Rightarrow> store_error + workflow_record" where
  "read_workflow_row c r =
     bind_result (parse_proto_blob (dec_config c) (wfr_config_proto r)) (\<lambda>config.
       let record0 = \<lparr>wr_summary = read_summary_row r, wr_config = config, wr_latest_response = None\<rparr> in
       case (wfr_has_latest_response r \<noteq> 0, wfr_latest_response_proto r) of
         (True, Some b) \<Rightarrow> bind_result (parse_proto_blob (dec_response c) b)
                            (\<lambda>resp. Inr (record0\<lparr>wr_latest_response := Some resp\<rparr>))
       | _ \<Rightarrow> Inr record0)"

definition read_event_row :: "'b codec \<Rightarrow> 'b event_row \<Rightarrow> store_error + workflow_event_record" where
  "read_event_row c r =
     bind_result (parse_proto_blob (dec_event c) (er_event_proto r))
       (\<lambda>e. Inr \<lparr>ev_sequence = er_sequence r, ev_recorded_at = er_recorded_at r, ev_event = e\<rparr>)"

definition read_plan_row :: "'b codec \<Rightarrow> 'b plan_row \<Rightarrow> store_error + workflow_plan_version" where
  "read_plan_row c r =
     bind_result (parse_proto_blob (dec_response c) (plr_response_proto r))
       (\<lambda>resp. Inr \<lparr>pv_version = plr_version r, pv_recorded_at = plr_recorded_at r, pv_response = resp\<rparr>)"

definition read_audit_row :: "'b audit_row \<Rightarrow> store_error + audit_entry" where
  "read_audit_row r =
     Inr \<lparr>ae_sequence = aur_sequence r, ae_recorded_at = aur_recorded_at r, ae_actor = aur_actor r,
          ae_action = aur_action r, ae_detail = aur_detail r\<rparr>"

definition read_idempotency_row :: "'b codec \<Rightarrow> 'b idempotency_row \<Rightarrow> store_error + idempotency_record" where
  "read_idempotency_row c r =
     bind_result (parse_proto_blob (dec_response c) (idr_cached_response_proto r))
       (\<lambda>resp. Inr \<lparr>ir_key = idr_key r, ir_workflow_id = idr_workflow_id r,
                    ir_request_fingerprint = idr_request_fingerprint r, ir_recorded_at = idr_recorded_at r,
                    ir_cached_response = resp\<rparr>)"

text \<open>\<^verbatim>\<open>while (statement.executeStep()) records.push_back(read(statement))\<close>\<close>

fun read_rows :: "('r \<Rightarrow> store_error + 'm) \<Rightarrow> 'r list \<Rightarrow> store_error + 'm list" where
  "read_rows f [] = Inr []"
| "read_rows f (r # rs) = bind_result (f r) (\<lambda>x. bind_result (read_rows f rs) (\<lambda>xs. Inr (x # xs)))"

subsection \<open>Statements\<close>

definition bind_workflow :: "'b codec \<Rightarrow> workflow_record \<Rightarrow> 'b workflow_row" where
  "bind_workflow c r =
     (let s = wr_summary r in
      \<lparr>wfr_workflow_id = ws_workflow_id s, wfr_state = state_number (ws_state s), wfr_created_at = ws_created_at s,
       wfr_updated_at = ws_updated_at s, wfr_latest_plan_version = ws_latest_plan_version s,
       wfr_total_event_count = ws_total_event_count s, wfr_total_audit_entry_count = ws_total_audit_entry_count s,
       wfr_last_error_message = ws_last_error_message s, wfr_config_proto = enc_config c (wr_config r),
       wfr_has_latest_response = (if wr_latest_response r \<noteq> None then 1 else 0),
       wfr_latest_response_proto = map_option (enc_response c) (wr_latest_response r)\<rparr>)"

definition sql_upsert_workflow :: "'b codec \<Rightarrow> workflow_record \<Rightarrow> 'b sqlite_store \<Rightarrow> 'b sqlite_store" where
  "sql_upsert_workflow c r db =
     db\<lparr>db_workflow_records :=
          AList.update (ws_workflow_id (wr_summary r)) (bind_workflow c r) (db_workflow_records db)\<rparr>"

definition sql_get_workflow :: "'b codec \<Rightarrow> string \<Rightarrow> 'b sqlite_store \<Rightarrow> store_error + workflow_record option" where
  "sql_get_workflow c wid db =
     (case map_of (db_workflow_records db) wid of
        None \<Rightarrow> Inr None
      | Some r \<Rightarrow> bind_result (read_workflow_row c r) (\<lambda>x. Inr (Some x)))"

definition row_key :: "'b workflow_row \<Rightarrow> int \<times> string" where
  "row_key r = (- wfr_updated_at r, wfr_workflow_id r)"

definition sql_list_all_workflows :: "'b codec \<Rightarrow> 'b sqlite_store \<Rightarrow> store_error + workflow_record list" where
  "sql_list_all_workflows c db =
     read_rows (read_workflow_row c) (sort_key row_key (map snd (db_workflow_records db)))"

definition select_page ::
  "('b workflow_row \<Rightarrow> bool) \<Rightarrow> int \<Rightarrow> string \<Rightarrow> 'b sqlite_store \<Rightarrow> workflow_page" where
  "select_page where_clause requested token db =
     (let page_size = normalize_page_size requested; offset = parse_page_token token
      in read_page read_summary_row page_size offset 0 \<lparr>pp_workflows = [], pp_next_page_token = []\<rparr>
           (sql_window (page_size + 1) offset
             (sort_key row_key (filter where_clause (map snd (db_workflow_records db))))))"

definition sql_list_workflows :: "list_workflows_request \<Rightarrow> 'b sqlite_store \<Rightarrow> workflow_page" where
  "sql_list_workflows q db =
     select_page (\<lambda>r. state_selected (lq_states q) (wfr_state r)) (lq_page_size q) (lq_page_token q) db"

definition sql_search_workflows :: "search_workflows_request \<Rightarrow> 'b sqlite_store \<Rightarrow> workflow_page" where
  "sql_search_workflows q db =
     select_page (\<lambda>r. state_selected (lq_states q) (wfr_state r) \<and>
         query_selected (lq_query q) (wfr_workflow_id r) (wfr_last_error_message r))
       (lq_page_size q) (lq_page_token q) db"

primrec event_type_number :: "workflow_event_type \<Rightarrow> int" where
  "event_type_number EventUnspecified = 0"
| "event_type_number RequestRejected = 1"
| "event_type_number WorkflowAccepted = 2"
| "event_type_number RuntimeOverrideApplied = 3"
| "event_type_number TaskCompleted = 4"
| "event_type_number ReplanningStarted = 5"
| "event_type_number TaskPlanned = 6"
| "event_type_number RunFinished = 7"

definition bind_event :: "'b codec \<Rightarrow> string \<Rightarrow> string \<Rightarrow> workflow_event_record \<Rightarrow> 'b event_row" where
  "bind_event c boot wid e =
     \<lparr>er_workflow_id = wid, er_sequence = ev_sequence e, er_recorded_at = ev_recorded_at e, er_boot_id = boot,
      er_event_type = event_type_number (we_type (ev_event e)), er_task_id = we_task_id (ev_event e),
      er_actor_id = we_actor_id (ev_event e), er_detail = we_detail (ev_event e),
      er_event_proto = enc_event c (ev_event e)\<rparr>"

definition sql_write_event ::
  "'b codec \<Rightarrow> string \<Rightarrow> workflow_event_record \<Rightarrow> 'b sqlite_store \<Rightarrow> store_error + 'b sqlite_store" where
  "sql_write_event c wid e db =
     (if umap_contains (db_workflow_records db) wid
      then Inr (db\<lparr>db_workflow_events :=
             AList.update (wid, ev_sequence e) (bind_event c (db_boot_id db) wid e) (db_workflow_events db)\<rparr>)
      else Inl ForeignKeyViolation)"

text \<open>
  \<^verbatim>\<open>SELECT ... WHERE workflow_id = ? ORDER BY sequence ASC\<close>, or \<^verbatim>\<open>DESC LIMIT ?\<close> and reversed in memory.
\<close>

definition select_history ::
  "('r \<Rightarrow> string) \<Rightarrow> ('r \<Rightarrow> int) \<Rightarrow> ('r \<Rightarrow> store_error + 'm) \<Rightarrow> string \<Rightarrow> nat \<Rightarrow> (string \<times> int, 'r) umap
     \<Rightarrow> store_error + 'm list" where
  "select_history workflow_of number_of read_row wid limit rows =
     (let ours = filter (\<lambda>r. workflow_of r = wid) (map snd rows) in
      if limit > 0
      then bind_result (read_rows read_row (take_limit limit (rev (sort_key number_of ours)))) (\<lambda>xs. Inr (rev xs))
      else read_rows read_row (sort_key number_of ours))"

definition sql_list_events ::
  "'b codec \<Rightarrow> string \<Rightarrow> nat \<Rightarrow> 'b sqlite_store \<Rightarrow> store_error + workflow_event_record list" where
  "sql_list_events c wid limit db =
     select_history er_workflow_id er_sequence (read_event_row c) wid limit (db_workflow_events db)"

definition bind_plan :: "'b codec \<Rightarrow> string \<Rightarrow> string \<Rightarrow> workflow_plan_version \<Rightarrow> 'b plan_row" where
  "bind_plan c boot wid p =
     \<lparr>plr_workflow_id = wid, plr_version = pv_version p, plr_recorded_at = pv_recorded_at p, plr_boot_id = boot,
      plr_response_proto = enc_response c (pv_response p)\<rparr>"

definition sql_write_plan_version ::
  "'b codec \<Rightarrow> string \<Rightarrow> workflow_plan_version \<Rightarrow> 'b sqlite_store \<Rightarrow> store_error + 'b sqlite_store" where
  "sql_write_plan_version c wid p db =
     (if umap_contains (db_workflow_records db) wid
      then Inr (db\<lparr>db_workflow_plan_versions :=
             AList.update (wid, pv_version p) (bind_plan c (db_boot_id db) wid p) (db_workflow_plan_versions db)\<rparr>)
      else Inl ForeignKeyViolation)"

definition sql_list_plan_versions ::
  "'b codec \<Rightarrow> string \<Rightarrow> nat \<Rightarrow> 'b sqlite_store \<Rightarrow> store_error + workflow_plan_version list" where
  "sql_list_plan_versions c wid limit db =
     select_history plr_workflow_id plr_version (read_plan_row c) wid limit (db_workflow_plan_versions db)"

definition bind_audit :: "'b codec \<Rightarrow> string \<Rightarrow> string \<Rightarrow> audit_entry \<Rightarrow> 'b audit_row" where
  "bind_audit c boot wid a =
     \<lparr>aur_workflow_id = wid, aur_sequence = ae_sequence a, aur_recorded_at = ae_recorded_at a, aur_boot_id = boot,
      aur_actor = ae_actor a, aur_action = ae_action a, aur_detail = ae_detail a, aur_audit_proto = enc_audit c a\<rparr>"

definition sql_write_audit_entry ::
  "'b codec \<Rightarrow> string \<Rightarrow> audit_entry \<Rightarrow> 'b sqlite_store \<Rightarrow> store_error + 'b sqlite_store" where
  "sql_write_audit_entry c wid a db =
     (if umap_contains (db_workflow_records db) wid
      then Inr (db\<lparr>db_workflow_audit_entries :=
             AList.update (wid, ae_sequence a) (bind_audit c (db_boot_id db) wid a) (db_workflow_audit_entries db)\<rparr>)
      else Inl ForeignKeyViolation)"

definition sql_list_audit_entries ::
  "string \<Rightarrow> nat \<Rightarrow> 'b sqlite_store \<Rightarrow> store_error + audit_entry list" where
  "sql_list_audit_entries wid limit db =
     select_history aur_workflow_id aur_sequence read_audit_row wid limit (db_workflow_audit_entries db)"

definition bind_idempotency :: "'b codec \<Rightarrow> string \<Rightarrow> idempotency_record \<Rightarrow> 'b idempotency_row" where
  "bind_idempotency c boot r =
     \<lparr>idr_key = ir_key r, idr_workflow_id = ir_workflow_id r, idr_request_fingerprint = ir_request_fingerprint r,
      idr_recorded_at = ir_recorded_at r, idr_boot_id = boot,
      idr_cached_response_proto = enc_response c (ir_cached_response r)\<rparr>"

definition sql_put_idempotency_record ::
  "'b codec \<Rightarrow> idempotency_record \<Rightarrow> 'b sqlite_store \<Rightarrow> store_error + 'b sqlite_store" where
  "sql_put_idempotency_record c r db =
     (if umap_contains (db_workflow_records db) (ir_workflow_id r)
      then Inr (db\<lparr>db_idempotency_records :=
             AList.update (ir_key r) (bind_idempotency c (db_boot_id db) r) (db_idempotency_records db)\<rparr>)
      else Inl ForeignKeyViolation)"

definition sql_get_idempotency_record ::
  "'b codec \<Rightarrow> string \<Rightarrow> 'b sqlite_store \<Rightarrow> store_error + idempotency_record option" where
  "sql_get_idempotency_record c k db =
     (case map_of (db_idempotency_records db) k of
        None \<Rightarrow> Inr None
      | Some r \<Rightarrow> bind_result (read_idempotency_row c r) (\<lambda>x. Inr (Some x)))"

definition sql_get_storage_metrics :: "int \<Rightarrow> 'b sqlite_store \<Rightarrow> storage_metrics" where
  "sql_get_storage_metrics since db =
     \<lparr>sm_recent_event_count = length (filter (\<lambda>(_, r). er_recorded_at r \<ge> since) (db_workflow_events db)),
      sm_retained_plan_versions = length (db_workflow_plan_versions db),
      sm_tracked_workflows = length (db_workflow_records db),
      sm_active_workflows =
        length (filter (\<lambda>(_, r). wfr_state r \<in> set (map state_number active_states)) (db_workflow_records db))\<rparr>"

text \<open>The conditions of the four \<^verbatim>\<open>DELETE\<close> statements.\<close>

definition delete_condition ::
  "'b sqlite_store \<Rightarrow> int \<Rightarrow> ('b workflow_row \<Rightarrow> int) \<Rightarrow> string \<Rightarrow> int \<Rightarrow> string \<Rightarrow> int \<Rightarrow> bool" where
  "delete_condition db cutoff counter wid number boot recorded \<longleftrightarrow>
     boot \<noteq> db_boot_id db \<and> recorded < cutoff \<and>
     number < (case map_option counter (map_of (db_workflow_records db) wid) of None \<Rightarrow> number | Some n \<Rightarrow> n)"

definition sql_prune_stale_boot_data :: "int \<Rightarrow> 'b sqlite_store \<Rightarrow> storage_prune_result \<times> 'b sqlite_store" where
  "sql_prune_stale_boot_data cutoff db =
     (let ev = (\<lambda>(_, r). delete_condition db cutoff wfr_total_event_count (er_workflow_id r) (er_sequence r)
                 (er_boot_id r) (er_recorded_at r));
          pl = (\<lambda>(_, r). delete_condition db cutoff wfr_latest_plan_version (plr_workflow_id r) (plr_version r)
                 (plr_boot_id r) (plr_recorded_at r));
          au = (\<lambda>(_, r). delete_condition db cutoff wfr_total_audit_entry_count (aur_workflow_id r) (aur_sequence r)
                 (aur_boot_id r) (aur_recorded_at r));
          ip = (\<lambda>(_, r). idr_boot_id r \<noteq> db_boot_id db \<and> idr_recorded_at r < cutoff)
      in (\<lparr>sp_pruned_event_rows = length (filter ev (db_workflow_events db)),
           sp_pruned_plan_version_rows = length (filter pl (db_workflow_plan_versions db)),
           sp_pruned_audit_entry_rows = length (filter au (db_workflow_audit_entries db)),
           sp_pruned_idempotency_rows = length (filter ip (db_idempotency_records db))\<rparr>,
          db\<lparr>db_workflow_events := filter (\<lambda>r. \<not> ev r) (db_workflow_events db),
             db_workflow_plan_versions := filter (\<lambda>r. \<not> pl r) (db_workflow_plan_versions db),
             db_workflow_audit_entries := filter (\<lambda>r. \<not> au r) (db_workflow_audit_entries db),
             db_idempotency_records := filter (\<lambda>r. \<not> ip r) (db_idempotency_records db)\<rparr>))"

end
