(* ===== verification/Workflow_Store_Correct.thy ===== *)
theory Workflow_Store_Correct
  imports Workflow_Store
begin

text \<open>
  Properties of the store: page tokens enumerate the selected workflows exactly once, pruning keeps
  every workflow's current rows, and the invariant that ties history rows to their workflow.
\<close>

subsection \<open>Paging\<close>

lemma read_page_rows:
  "n \<le> page_size \<Longrightarrow>
   read_page f page_size offset n pg rs =
     pg\<lparr>pp_workflows := pp_workflows pg @ map f (take (page_size - n) rs),
        pp_next_page_token := (if length rs > page_size - n
          then to_string (uint (offset + word_of_nat page_size)) else pp_next_page_token pg)\<rparr>"
proof (induction rs arbitrary: n pg)
  case Nil
  then show ?case by simp
next
  case (Cons r rs)
  show ?case
  proof (cases "n = page_size")
    case False
    with Cons.prems have "Suc n \<le> page_size" and "page_size - n = Suc (page_size - Suc n)" by simp_all
    with False Cons.IH [of "Suc n"] show ?thesis by simp
  qed simp
qed

lemma stoull_to_string: "k < 2 ^ 64 \<Longrightarrow> stoull (to_string (int k)) = Inr (word_of_nat k)"
  using parse_integer_to_string [of "- (2 ^ 64 - 1)" "int k" "2 ^ 64 - 1" "[]"] by (simp add: stoull_def)

lemma to_string_not_Nil [simp]: "to_string i \<noteq> []"
  by (simp add: to_string_def)

lemma page_at_offset:
  assumes "k + normalize_page_size requested < 2 ^ 63"
    and "parse_page_token token = word_of_nat k"
  shows "page_of requested token xs =
    \<lparr>pp_workflows = take (normalize_page_size requested) (drop k xs),
     pp_next_page_token = (if k + normalize_page_size requested < length xs
       then to_string (int (k + normalize_page_size requested)) else [])\<rparr>"
proof -
  let ?n = "normalize_page_size requested"
  have "sint (word_of_nat k :: 64 word) = int k"
    using assms(1) by (simp add: signed_of_nat signed_take_bit_int_eq_self)
  moreover have "uint (word_of_nat k + word_of_nat ?n :: 64 word) = int (k + ?n)"
  proof -
    have "uint (word_of_nat (k + ?n) :: 64 word) = int (k + ?n)"
      using assms(1) by (simp only: unsigned_of_nat) (simp add: take_bit_nat_eq_self)
    then show ?thesis by simp
  qed
  ultimately show ?thesis
    using assms(2) by (auto simp: page_of_def Let_def sql_window_def read_page_rows min_def)
qed

text \<open>Following the page tokens from the first page; the number bounds the pages fetched.\<close>

fun collect_pages :: "nat \<Rightarrow> (string \<Rightarrow> workflow_page) \<Rightarrow> string \<Rightarrow> workflow_summary list option" where
  "collect_pages 0 fetch token = None"
| "collect_pages (Suc n) fetch token =
     (let pg = fetch token in
      if pp_next_page_token pg = [] then Some (pp_workflows pg)
      else map_option (\<lambda>rest. pp_workflows pg @ rest) (collect_pages n fetch (pp_next_page_token pg)))"

lemma normalize_page_size_pos: "0 < normalize_page_size n"
  by (simp add: normalize_page_size_def kDefaultPageSize_def)

lemma collect_pages_from:
  assumes "length xs + normalize_page_size requested < 2 ^ 63" and "k \<le> length xs" and "length xs - k < n"
    and "parse_page_token token = word_of_nat k"
  shows "collect_pages n (\<lambda>t. page_of requested t xs) token = Some (drop k xs)"
  using assms
proof (induction n arbitrary: k token)
  case 0
  then show ?case by simp
next
  case (Suc n)
  let ?n = "normalize_page_size requested"
  have page: "page_of requested token xs = \<lparr>pp_workflows = take ?n (drop k xs),
      pp_next_page_token = (if k + ?n < length xs then to_string (int (k + ?n)) else [])\<rparr>"
    using Suc.prems by (intro page_at_offset) auto
  show ?case
  proof (cases "k + ?n < length xs")
    case True
    have "parse_page_token (to_string (int (k + ?n))) = word_of_nat (k + ?n)"
      using True Suc.prems(1) stoull_to_string [of "k + ?n"] by (simp add: parse_page_token_def del: of_nat_add)
    moreover have "length xs - (k + ?n) < n" using True Suc.prems(3) normalize_page_size_pos [of requested] by linarith
    ultimately have "collect_pages n (\<lambda>t. page_of requested t xs) (to_string (int (k + ?n))) = Some (drop (k + ?n) xs)"
      using Suc.IH [of "k + ?n"] True Suc.prems(1) by simp
    moreover have "take ?n (drop k xs) @ drop (k + ?n) xs = drop k xs"
      by (metis add.commute append_take_drop_id drop_drop)
    ultimately show ?thesis using True page by (simp add: Let_def)
  next
    case False
    then show ?thesis using page by (simp add: Let_def)
  qed
qed

text \<open>
  C28. Paging is complete: following the page tokens of a search (or a listing) from the first page
  returns every selected workflow exactly once, most recently updated first and then by id,
  whatever page size is asked for, in at most one more page than there are results; no page exceeds
  the page size.
\<close>

theorem paging_enumerates_selection:
  assumes "length (matching_summaries (lq_states q) (lq_query q) st) + normalize_page_size (lq_page_size q) < 2 ^ 63"
  shows "collect_pages (Suc (length (matching_summaries (lq_states q) (lq_query q) st)))
      (\<lambda>token. search_workflows (q\<lparr>lq_page_token := token\<rparr>) st) [] =
      Some (matching_summaries (lq_states q) (lq_query q) st) \<and>
    mset (matching_summaries (lq_states q) (lq_query q) st) =
      mset (map (\<lambda>r. wr_summary (snd r)) (filter (\<lambda>(_, r).
        state_selected (lq_states q) (state_number (ws_state (wr_summary r))) \<and>
        query_selected (lq_query q) (ws_workflow_id (wr_summary r)) (ws_last_error_message (wr_summary r)))
        (st_workflows st))) \<and>
    sorted (map summary_key (matching_summaries (lq_states q) (lq_query q) st)) \<and>
    length (pp_workflows (search_workflows q st)) \<le> normalize_page_size (lq_page_size q)"
proof (intro conjI)
  let ?xs = "matching_summaries (lq_states q) (lq_query q) st"
  have "collect_pages (Suc (length ?xs)) (\<lambda>t. page_of (lq_page_size q) t ?xs) [] = Some (drop 0 ?xs)"
    using assms by (intro collect_pages_from) (auto simp: parse_page_token_def)
  then show "collect_pages (Suc (length ?xs)) (\<lambda>token. search_workflows (q\<lparr>lq_page_token := token\<rparr>) st) [] = Some ?xs"
    by (simp add: search_workflows_def del: collect_pages.simps)
  show "mset ?xs = mset (map (\<lambda>r. wr_summary (snd r)) (filter (\<lambda>(_, r).
        state_selected (lq_states q) (state_number (ws_state (wr_summary r))) \<and>
        query_selected (lq_query q) (ws_workflow_id (wr_summary r)) (ws_last_error_message (wr_summary r)))
        (st_workflows st)))"
    by (simp add: matching_summaries_def filter_map comp_def case_prod_unfold flip: mset_filter mset_map)
  show "sorted (map summary_key ?xs)" by (simp add: matching_summaries_def)
  show "length (pp_workflows (search_workflows q st)) \<le> normalize_page_size (lq_page_size q)"
    by (simp add: search_workflows_def page_of_def Let_def read_page_rows)
qed

subsection \<open>Pruning\<close>

lemma history_last:
  assumes "distinct (map fst rows)" and "((wid, m), b, r) \<in> set rows"
    and "\<And>n x. ((wid, n), x) \<in> set rows \<Longrightarrow> n \<le> m"
  shows "history_of wid 1 rows = [r]"
proof -
  let ?f = "filter (\<lambda>r. fst (fst r) = wid) rows"
  let ?s = "sort_key (\<lambda>r. snd (fst r)) ?f"
  have mem: "((wid, m), b, r) \<in> set ?s" using assms(2) by simp
  then have ne: "?s \<noteq> []" by force
  have srt: "sorted (map (\<lambda>r. snd (fst r)) ?s)" by simp
  obtain i where i: "i < length ?s" "?s ! i = ((wid, m), b, r)" using mem unfolding in_set_conv_nth by blast
  have last: "last ?s \<in> set ?f" using ne last_in_set by fastforce
  have "m \<le> snd (fst (last ?s))"
    using sorted_nth_mono [OF srt, of i "length ?s - 1"] i ne by (simp add: last_conv_nth)
  obtain w n x where x: "last ?s = ((w, n), x)" by (metis surj_pair)
  with last have in_rows: "((wid, n), x) \<in> set rows" and "w = wid" by auto
  with assms(3) [of n x] x \<open>m \<le> snd (fst (last ?s))\<close> have "n = m" by simp
  with in_rows assms(1,2) have "x = (b, r)" by (blast intro: eq_key_imp_eq_value)
  with x \<open>w = wid\<close> \<open>n = m\<close> have "last ?s = ((wid, m), b, r)" by simp
  moreover have "rev (take 1 (rev ?s)) = [last ?s]" using ne by (cases ?s rule: rev_cases) auto
  ultimately show ?thesis unfolding history_of_def Let_def take_limit_def by simp
qed

text \<open>
  The row with the workflow's current number is present and no row has a larger one: what the
  control plane keeps for each of the three histories.
\<close>

definition current_row ::
  "(workflow_summary \<Rightarrow> int) \<Rightarrow> string \<Rightarrow> workflow_store \<Rightarrow> (string \<times> int, string \<times> 'r) umap \<Rightarrow> bool" where
  "current_row counter wid st rows \<longleftrightarrow> distinct (map fst rows) \<and>
     (\<exists>r. map_of (st_workflows st) wid = Some r \<and> map_of rows (wid, counter (wr_summary r)) \<noteq> None \<and>
       (\<forall>((w, n), _) \<in> set rows. w = wid \<longrightarrow> n \<le> counter (wr_summary r)))"

lemma prune_keeps_current:
  assumes "current_row counter wid st rows"
  shows "history_of wid 1 (filter (\<lambda>r. \<not> stale_row st cutoff counter recorded r) rows) = history_of wid 1 rows"
proof -
  from assms obtain w b r where w: "map_of (st_workflows st) wid = Some w"
    and row: "((wid, counter (wr_summary w)), b, r) \<in> set rows"
    and top: "\<And>n x. ((wid, n), x) \<in> set rows \<Longrightarrow> n \<le> counter (wr_summary w)"
    and dist: "distinct (map fst rows)"
    unfolding current_row_def by (fastforce dest: map_of_SomeD)
  have kept: "((wid, counter (wr_summary w)), b, r) \<in> set (filter (\<lambda>r. \<not> stale_row st cutoff counter recorded r) rows)"
    using row w by (simp add: stale_row_def stale_def)
  have "distinct (map fst (filter (\<lambda>r. \<not> stale_row st cutoff counter recorded r) rows))"
    using dist by (auto simp: distinct_map inj_on_def)
  then show ?thesis
    using history_last [OF dist row top] history_last [OF _ kept] top by auto
qed

lemma stale_row_workflows:
  "st_boot_id s = st_boot_id t \<Longrightarrow> st_workflows s = st_workflows t \<Longrightarrow> stale_row s = stale_row t"
  "st_boot_id s = st_boot_id t \<Longrightarrow> stale_idempotency s = stale_idempotency t"
  by (simp_all add: fun_eq_iff stale_row_def stale_def stale_idempotency_def)

lemma retained_row:
  "boot = st_boot_id st \<or> cutoff \<le> recorded r \<Longrightarrow> \<not> stale_row st cutoff counter recorded ((wid, n), boot, r)"
  by (auto simp: stale_row_def stale_def)

lemma prune_tables:
  fixes cutoff st
  defines "p \<equiv> prune_stale_boot_data cutoff st"
  shows "st_workflows (snd p) = st_workflows st" "st_boot_id (snd p) = st_boot_id st"
    "st_events (snd p) = filter (\<lambda>r. \<not> stale_row st cutoff ws_total_event_count ev_recorded_at r) (st_events st)"
    "st_plans (snd p) = filter (\<lambda>r. \<not> stale_row st cutoff ws_latest_plan_version pv_recorded_at r) (st_plans st)"
    "st_audits (snd p) = filter (\<lambda>r. \<not> stale_row st cutoff ws_total_audit_entry_count ae_recorded_at r) (st_audits st)"
    "st_idempotency (snd p) = filter (\<lambda>r. \<not> stale_idempotency st cutoff r) (st_idempotency st)"
    "sp_pruned_event_rows (fst p) =
       length (filter (stale_row st cutoff ws_total_event_count ev_recorded_at) (st_events st))"
    "sp_pruned_plan_version_rows (fst p) =
       length (filter (stale_row st cutoff ws_latest_plan_version pv_recorded_at) (st_plans st))"
    "sp_pruned_audit_entry_rows (fst p) =
       length (filter (stale_row st cutoff ws_total_audit_entry_count ae_recorded_at) (st_audits st))"
    "sp_pruned_idempotency_rows (fst p) = length (filter (stale_idempotency st cutoff) (st_idempotency st))"
  by (simp_all add: p_def prune_stale_boot_data_def Let_def)

lemma prune_twice:
  "prune_stale_boot_data cutoff (snd (prune_stale_boot_data cutoff st)) =
     (no_prune, snd (prune_stale_boot_data cutoff st))"
proof -
  let ?s = "snd (prune_stale_boot_data cutoff st)"
  have "stale_row ?s = (stale_row st :: int \<Rightarrow> _ \<Rightarrow> ('r \<Rightarrow> int) \<Rightarrow> _)" "stale_idempotency ?s = stale_idempotency st"
    by (rule stale_row_workflows; simp add: prune_tables)+
  then show ?thesis
    by (simp add: prune_stale_boot_data_def [of cutoff ?s] no_prune_def prune_tables Let_def
        stale_row_workflows [of ?s st] filter_empty_conv)
qed


subsection \<open>Examples\<close>

definition demo_record :: "string \<Rightarrow> int \<Rightarrow> int \<Rightarrow> workflow_record" where
  "demo_record wid updated events = empty_record\<lparr>wr_summary := (wr_summary empty_record)\<lparr>ws_workflow_id := wid,
     ws_state := Planned, ws_updated_at := updated, ws_total_event_count := events\<rparr>\<rparr>"

definition demo_event :: "int \<Rightarrow> int \<Rightarrow> workflow_event_record" where
  "demo_event n recorded = \<lparr>ev_sequence = n, ev_recorded_at = recorded, ev_event = empty_event\<rparr>"

text \<open>Two boots: the first wrote two events of the workflow \<^verbatim>\<open>a\<close>.\<close>

definition demo_store :: workflow_store where
  "demo_store = \<lparr>st_boot_id = ''boot-2'',
     st_workflows = [(''a'', demo_record ''a'' 10 2), (''b'', demo_record ''b'' 20 0), (''c'', demo_record ''c'' 10 0)],
     st_events = [((''a'', 1), ''boot-1'', demo_event 1 5), ((''a'', 2), ''boot-1'', demo_event 2 6)],
     st_plans = [], st_audits = [], st_idempotency = []\<rparr>"

definition demo_search :: search_workflows_request where
  "demo_search = \<lparr>lq_page_size = 2, lq_page_token = [], lq_states = [3], lq_query = []\<rparr>"

lemmas demo_store_defs = demo_store_def demo_search_def demo_record_def demo_event_def empty_record_def

lemma demo_selection:
  "map ws_workflow_id (matching_summaries [3] [] demo_store) = [''b'', ''a'', ''c'']"
  "length (matching_summaries [3] [] demo_store) = 3"
  by code_simp+

theorem paging_enumerates_selection_witness:
  "map_option (map ws_workflow_id)
     (collect_pages 4 (\<lambda>token. search_workflows (demo_search\<lparr>lq_page_token := token\<rparr>) demo_store) []) =
   Some [''b'', ''a'', ''c'']"
proof -
  have "length (matching_summaries [3] [] demo_store) + normalize_page_size 2 < 2 ^ 63"
    by (simp add: demo_selection normalize_page_size_def)
  then have "length (matching_summaries (lq_states demo_search) (lq_query demo_search) demo_store)
      + normalize_page_size (lq_page_size demo_search) < 2 ^ 63" by (simp add: demo_search_def)
  then have "collect_pages (Suc (length (matching_summaries (lq_states demo_search) (lq_query demo_search) demo_store)))
      (\<lambda>token. search_workflows (demo_search\<lparr>lq_page_token := token\<rparr>) demo_store) [] =
      Some (matching_summaries (lq_states demo_search) (lq_query demo_search) demo_store)"
    by (rule paging_enumerates_selection [THEN conjunct1])
  moreover have "lq_states demo_search = [3]" "lq_query demo_search = []" by (simp_all add: demo_search_def)
  moreover have "Suc (length (matching_summaries [3] [] demo_store)) = 4" by (simp add: demo_selection)
  ultimately show ?thesis by (simp only: demo_selection option.map)
qed

lemma demo_prune:
  "prune_stale_boot_history (kMsPerDay + 7) 1 (Some demo_store) =
     (\<lparr>eo_performed = True, eo_prune_after_days = 1, eo_cutoff = 7, eo_result = no_prune\<lparr>sp_pruned_event_rows := 1\<rparr>\<rparr>,
      Some (demo_store\<lparr>st_events := [((''a'', 2), ''boot-1'', demo_event 2 6)]\<rparr>))"
  by (simp add: prune_stale_boot_history_def prune_stale_boot_data_def stale_row_def stale_def stale_idempotency_def
      demo_store_defs no_prune_def)


end
