(* ===== verification/Sqlite_Store_Refines.thy ===== *)
theory Sqlite_Store_Refines
  imports Sqlite_Store Workflow_Store_Correct
begin

text \<open>
  The SQLite implementation refines the store of messages: from a new database on, every sequence of
  calls, restarts of the process included, gives the same replies. \<open>encode_store\<close> is the representation
  of a store as rows; each operation on rows commutes with it.
\<close>

subsection \<open>Tables\<close>

definition encode_table :: "('k \<times> 'v \<Rightarrow> 'r) \<Rightarrow> ('k, 'v) umap \<Rightarrow> ('k, 'r) umap" where
  "encode_table h xs = map (\<lambda>r. (fst r, h r)) xs"

lemma encode_table_update:
  "AList.update k (h (k, v)) (encode_table h xs) = encode_table h (AList.update k v xs)"
  by (induction xs) (auto simp: encode_table_def)

lemma map_of_encode_table: "map_of (encode_table h xs) k = map_option (\<lambda>v. h (k, v)) (map_of xs k)"
  by (induction xs) (auto simp: encode_table_def)

lemma encode_table_contains [simp]: "umap_contains (encode_table h xs) k = umap_contains xs k"
  by (simp add: umap_contains_def map_of_encode_table)

lemma encode_table_rows: "map snd (encode_table h xs) = map h xs"
  by (simp add: encode_table_def)

lemma encode_table_filter:
  "(\<And>x. x \<in> set xs \<Longrightarrow> Q (fst x, h x) = P x) \<Longrightarrow> filter Q (encode_table h xs) = encode_table h (filter P xs)"
  by (induction xs) (auto simp: encode_table_def)

lemma length_encode_table [simp]: "length (encode_table h xs) = length xs"
  by (simp add: encode_table_def)

lemma sort_key_map: "sort_key g (map h xs) = map h (sort_key (\<lambda>x. g (h x)) xs)"
proof -
  have "insort_key g (h x) (map h ys) = map h (insort_key (\<lambda>x. g (h x)) x ys)" for x ys
    by (induction ys) auto
  then show ?thesis by (induction xs) auto
qed

lemma sort_key_cong_set: "(\<And>x. x \<in> set xs \<Longrightarrow> f x = g x) \<Longrightarrow> sort_key f xs = sort_key g xs"
proof (induction xs)
  case (Cons x xs)
  have insort: "(\<And>y. y \<in> set ys \<Longrightarrow> f y = g y) \<Longrightarrow> f x = g x \<Longrightarrow> insort_key f x ys = insort_key g x ys" for ys
    by (induction ys) auto
  have "insort_key f x (sort_key g xs) = insort_key g x (sort_key g xs)"
    using Cons.prems by (intro insort) auto
  with Cons show ?case by simp
qed simp

lemma read_rows_map:
  "(\<And>y. y \<in> set ys \<Longrightarrow> f (h y) = Inr (g y)) \<Longrightarrow> read_rows f (map h ys) = Inr (map g ys)"
  by (induction ys) auto

lemma set_take_limit: "x \<in> set (take_limit n xs) \<Longrightarrow> x \<in> set xs"
  by (auto simp: take_limit_def dest: in_set_takeD split: if_splits)

lemma take_limit_map: "take_limit n (map f xs) = map f (take_limit n xs)"
  by (simp add: take_limit_def take_map)

lemma select_history_encode:
  assumes "\<And>x. x \<in> set rows \<Longrightarrow> workflow_of (h x) = fst (fst x) \<and> number_of (h x) = snd (fst x)
      \<and> read_row (h x) = Inr (snd (snd x))"
  shows "select_history workflow_of number_of read_row wid limit (encode_table h rows) =
    Inr (history_of wid limit rows)"
proof -
  let ?ours = "filter (\<lambda>r. fst (fst r) = wid) rows"
  have "filter (\<lambda>r. workflow_of r = wid) (map h rows) = map h ?ours"
    unfolding filter_map comp_def by (rule arg_cong [where f = "map h"], rule filter_cong) (auto simp: assms)
  moreover have "sort_key number_of (map h ?ours) = map h (sort_key (\<lambda>r. snd (fst r)) ?ours)"
    unfolding sort_key_map using assms by (auto intro!: sort_key_cong_set arg_cong [where f = "map h"])
  moreover have "read_rows read_row (map h ys) = Inr (map (snd \<circ> snd) ys)" if "set ys \<subseteq> set rows" for ys
    using that assms by (auto intro!: read_rows_map)
  moreover have "set (take_limit limit (rev (sort_key (\<lambda>r. snd (fst r)) ?ours))) \<subseteq> set rows"
    by (auto dest: set_take_limit)
  moreover have "set (sort_key (\<lambda>r. snd (fst r)) ?ours) \<subseteq> set rows" by auto
  ultimately show ?thesis
    by (simp add: select_history_def history_of_def encode_table_rows Let_def take_limit_map rev_map)
qed

subsection \<open>Representation\<close>

definition event_to_row :: "'b codec \<Rightarrow> (string \<times> int) \<times> string \<times> workflow_event_record \<Rightarrow> 'b event_row" where
  "event_to_row c = (\<lambda>((wid, _), boot, e). bind_event c boot wid e)"

definition plan_to_row :: "'b codec \<Rightarrow> (string \<times> int) \<times> string \<times> workflow_plan_version \<Rightarrow> 'b plan_row" where
  "plan_to_row c = (\<lambda>((wid, _), boot, p). bind_plan c boot wid p)"

definition audit_to_row :: "'b codec \<Rightarrow> (string \<times> int) \<times> string \<times> audit_entry \<Rightarrow> 'b audit_row" where
  "audit_to_row c = (\<lambda>((wid, _), boot, a). bind_audit c boot wid a)"

definition encode_store :: "'b codec \<Rightarrow> workflow_store \<Rightarrow> 'b sqlite_store" where
  "encode_store c st =
     \<lparr>db_boot_id = st_boot_id st,
      db_workflow_records = encode_table (\<lambda>(_, r). bind_workflow c r) (st_workflows st),
      db_workflow_events = encode_table (event_to_row c) (st_events st),
      db_workflow_plan_versions = encode_table (plan_to_row c) (st_plans st),
      db_workflow_audit_entries = encode_table (audit_to_row c) (st_audits st),
      db_idempotency_records = encode_table (\<lambda>(_, boot, r). bind_idempotency c boot r) (st_idempotency st)\<rparr>"

text \<open>The key of a history row is the number in its record.\<close>

definition keys_match :: "workflow_store \<Rightarrow> bool" where
  "keys_match st \<longleftrightarrow>
     (\<forall>((w, n), b, e) \<in> set (st_events st). n = ev_sequence e) \<and>
     (\<forall>((w, n), b, p) \<in> set (st_plans st). n = pv_version p) \<and>
     (\<forall>((w, n), b, a) \<in> set (st_audits st). n = ae_sequence a)"

lemma state_of_number_inverse [simp]: "state_of_number (state_number s) = s"
  by (cases s) (simp_all add: state_of_number_def all_states_def)

lemma state_number_eq [simp]: "state_number s = state_number t \<longleftrightarrow> s = t"
  by (metis state_of_number_inverse)

lemma read_summary_bind [simp]: "read_summary_row (bind_workflow c r) = wr_summary r"
  by (simp add: read_summary_row_def bind_workflow_def Let_def)

lemma read_bind:
  assumes "codec_ok c"
  shows "read_workflow_row c (bind_workflow c r) = Inr r"
    and "read_event_row c (bind_event c b w e) = Inr e"
    and "read_plan_row c (bind_plan c b w p) = Inr p"
    and "read_idempotency_row c (bind_idempotency c b i) = Inr i"
proof -
  have dec: "\<And>x. dec_config c (enc_config c x) = Some x" "\<And>x. dec_response c (enc_response c x) = Some x"
    "\<And>x. dec_event c (enc_event c x) = Some x"
    using assms by (simp_all add: codec_ok_def)
  have cfg: "wfr_config_proto (bind_workflow c r) = enc_config c (wr_config r)"
    and has: "wfr_has_latest_response (bind_workflow c r) = (if wr_latest_response r \<noteq> None then 1 else 0)"
    and resp: "wfr_latest_response_proto (bind_workflow c r) = map_option (enc_response c) (wr_latest_response r)"
    by (simp_all add: bind_workflow_def Let_def)
  show "read_workflow_row c (bind_workflow c r) = Inr r"
    by (cases "wr_latest_response r") (simp_all add: read_workflow_row_def cfg has resp parse_proto_blob_def dec Let_def)
  show "read_event_row c (bind_event c b w e) = Inr e"
    by (simp add: read_event_row_def bind_event_def parse_proto_blob_def dec)
  show "read_plan_row c (bind_plan c b w p) = Inr p"
    by (simp add: read_plan_row_def bind_plan_def parse_proto_blob_def dec)
  show "read_idempotency_row c (bind_idempotency c b i) = Inr i"
    by (simp add: read_idempotency_row_def bind_idempotency_def parse_proto_blob_def dec)
qed

lemma read_audit_bind: "read_audit_row (bind_audit c b w a) = Inr a"
  by (simp add: read_audit_row_def bind_audit_def)

lemma bind_columns [simp]:
  "er_workflow_id (bind_event c b w e) = w" "er_sequence (bind_event c b w e) = ev_sequence e"
  "er_boot_id (bind_event c b w e) = b" "er_recorded_at (bind_event c b w e) = ev_recorded_at e"
  "plr_workflow_id (bind_plan c b w p) = w" "plr_version (bind_plan c b w p) = pv_version p"
  "plr_boot_id (bind_plan c b w p) = b" "plr_recorded_at (bind_plan c b w p) = pv_recorded_at p"
  "aur_workflow_id (bind_audit c b w a) = w" "aur_sequence (bind_audit c b w a) = ae_sequence a"
  "aur_boot_id (bind_audit c b w a) = b" "aur_recorded_at (bind_audit c b w a) = ae_recorded_at a"
  "idr_boot_id (bind_idempotency c b i) = b" "idr_recorded_at (bind_idempotency c b i) = ir_recorded_at i"
  "wfr_state (bind_workflow c r) = state_number (ws_state (wr_summary r))"
  "wfr_workflow_id (bind_workflow c r) = ws_workflow_id (wr_summary r)"
  "wfr_last_error_message (bind_workflow c r) = ws_last_error_message (wr_summary r)"
  "wfr_total_event_count (bind_workflow c r) = ws_total_event_count (wr_summary r)"
  "wfr_latest_plan_version (bind_workflow c r) = ws_latest_plan_version (wr_summary r)"
  "wfr_total_audit_entry_count (bind_workflow c r) = ws_total_audit_entry_count (wr_summary r)"
  by (simp_all add: bind_event_def bind_plan_def bind_audit_def bind_idempotency_def bind_workflow_def Let_def)

lemma keys_matchD:
  "keys_match st \<Longrightarrow> ((w, n), b, e) \<in> set (st_events st) \<Longrightarrow> n = ev_sequence e"
  "keys_match st \<Longrightarrow> ((w, n), b, p) \<in> set (st_plans st) \<Longrightarrow> n = pv_version p"
  "keys_match st \<Longrightarrow> ((w, n), b, a) \<in> set (st_audits st) \<Longrightarrow> n = ae_sequence a"
  by (auto simp: keys_match_def)

subsection \<open>Writing\<close>

lemma sql_upsert_workflow_encode:
  "sql_upsert_workflow c r (encode_store c st) = encode_store c (upsert_workflow r st)"
  using encode_table_update [of "ws_workflow_id (wr_summary r)" "\<lambda>(_, r). bind_workflow c r" r]
  by (simp add: sql_upsert_workflow_def upsert_workflow_def encode_store_def)

lemma sql_write_event_encode:
  "sql_write_event c wid e (encode_store c st) = map_sum id (encode_store c) (write_event wid e st)"
  using encode_table_update [of "(wid, ev_sequence e)" "event_to_row c" "(st_boot_id st, e)"]
  by (simp add: sql_write_event_def write_event_def encode_store_def event_to_row_def)

lemma sql_write_plan_version_encode:
  "sql_write_plan_version c wid p (encode_store c st) = map_sum id (encode_store c) (write_plan_version wid p st)"
  using encode_table_update [of "(wid, pv_version p)" "plan_to_row c" "(st_boot_id st, p)"]
  by (simp add: sql_write_plan_version_def write_plan_version_def encode_store_def plan_to_row_def)

lemma sql_write_audit_entry_encode:
  "sql_write_audit_entry c wid a (encode_store c st) = map_sum id (encode_store c) (write_audit_entry wid a st)"
  using encode_table_update [of "(wid, ae_sequence a)" "audit_to_row c" "(st_boot_id st, a)"]
  by (simp add: sql_write_audit_entry_def write_audit_entry_def encode_store_def audit_to_row_def)

lemma sql_put_idempotency_record_encode:
  "sql_put_idempotency_record c r (encode_store c st) = map_sum id (encode_store c) (put_idempotency_record r st)"
  using encode_table_update [of "ir_key r" "\<lambda>(_, boot, r). bind_idempotency c boot r" "(st_boot_id st, r)"]
  by (simp add: sql_put_idempotency_record_def put_idempotency_record_def encode_store_def)

lemmas sql_write_encode = sql_upsert_workflow_encode sql_write_event_encode sql_write_plan_version_encode
  sql_write_audit_entry_encode sql_put_idempotency_record_encode

subsection \<open>Reading\<close>

lemma sql_get_workflow_encode:
  "codec_ok c \<Longrightarrow> sql_get_workflow c wid (encode_store c st) = Inr (get_workflow wid st)"
  by (cases "map_of (st_workflows st) wid")
    (simp_all add: sql_get_workflow_def get_workflow_def encode_store_def map_of_encode_table read_bind)

lemma row_key_bind: "row_key (bind_workflow c r) = summary_key (wr_summary r)"
  by (simp add: row_key_def summary_key_def bind_workflow_def Let_def)

lemma sql_list_all_workflows_encode:
  assumes "codec_ok c"
  shows "sql_list_all_workflows c (encode_store c st) = Inr (list_all_workflows st)"
proof -
  have rows: "map snd (db_workflow_records (encode_store c st)) = map (bind_workflow c) (map snd (st_workflows st))"
    by (simp add: encode_store_def encode_table_rows case_prod_unfold)
  show ?thesis
    unfolding sql_list_all_workflows_def list_all_workflows_def rows sort_key_map [of row_key "bind_workflow c"] row_key_bind
    using read_rows_map [of _ "read_workflow_row c" "bind_workflow c" id] assms by (simp only: read_bind id_apply list.map_id)
qed

lemma read_page_map: "read_page f n offset k pg (map h rs) = read_page (\<lambda>r. f (h r)) n offset k pg rs"
  by (induction rs arbitrary: k pg) auto

lemma sql_window_map: "sql_window n k (map f xs) = map f (sql_window n k xs)"
  by (simp add: sql_window_def take_map drop_map)

lemma select_page_encode:
  assumes "\<And>r. where_clause (bind_workflow c r) \<longleftrightarrow> state_selected states (state_number (ws_state (wr_summary r))) \<and>
      query_selected query (ws_workflow_id (wr_summary r)) (ws_last_error_message (wr_summary r))"
  shows "select_page where_clause requested token (encode_store c st) =
    page_of requested token (matching_summaries states query st)"
proof -
  let ?sel = "\<lambda>s. state_selected states (state_number (ws_state s)) \<and>
      query_selected query (ws_workflow_id s) (ws_last_error_message s)"
  have rows: "map snd (db_workflow_records (encode_store c st)) = map (bind_workflow c) (map snd (st_workflows st))"
    by (simp add: encode_store_def encode_table_rows case_prod_unfold)
  have flt: "filter where_clause (map (bind_workflow c) rs) = map (bind_workflow c) (filter (\<lambda>r. ?sel (wr_summary r)) rs)" for rs
    by (simp add: filter_map comp_def assms)
  have sums: "matching_summaries states query st = map wr_summary
      (sort_key (\<lambda>r. summary_key (wr_summary r)) (filter (\<lambda>r. ?sel (wr_summary r)) (map snd (st_workflows st))))"
    by (simp add: matching_summaries_def filter_map comp_def flip: sort_key_map)
  show ?thesis
    unfolding select_page_def page_of_def Let_def rows flt sums sort_key_map row_key_bind sql_window_map read_page_map
    by simp
qed

lemma sql_list_workflows_encode: "sql_list_workflows q (encode_store c st) = list_workflows q st"
  unfolding sql_list_workflows_def list_workflows_def
  by (rule select_page_encode) (simp add: query_selected_def)

lemma sql_search_workflows_encode: "sql_search_workflows q (encode_store c st) = search_workflows q st"
  unfolding sql_search_workflows_def search_workflows_def
  by (rule select_page_encode) simp

lemma sql_list_events_encode:
  "codec_ok c \<Longrightarrow> keys_match st \<Longrightarrow> sql_list_events c wid limit (encode_store c st) = Inr (list_events wid limit st)"
  unfolding sql_list_events_def list_events_def encode_store_def
  by (simp, rule select_history_encode) (auto simp: event_to_row_def read_bind dest: keys_matchD)

lemma sql_list_plan_versions_encode:
  "codec_ok c \<Longrightarrow> keys_match st \<Longrightarrow>
     sql_list_plan_versions c wid limit (encode_store c st) = Inr (list_plan_versions wid limit st)"
  unfolding sql_list_plan_versions_def list_plan_versions_def encode_store_def
  by (simp, rule select_history_encode) (auto simp: plan_to_row_def read_bind dest: keys_matchD)

lemma sql_list_audit_entries_encode:
  "keys_match st \<Longrightarrow> sql_list_audit_entries wid limit (encode_store c st) = Inr (list_audit_entries wid limit st)"
  unfolding sql_list_audit_entries_def list_audit_entries_def encode_store_def
  by (simp, rule select_history_encode) (auto simp: audit_to_row_def read_audit_bind dest: keys_matchD)

lemma sql_get_idempotency_record_encode:
  "codec_ok c \<Longrightarrow> sql_get_idempotency_record c k (encode_store c st) = Inr (get_idempotency_record k st)"
  by (cases "map_of (st_idempotency st) k")
    (auto simp: sql_get_idempotency_record_def get_idempotency_record_def encode_store_def map_of_encode_table read_bind)

lemma sql_get_storage_metrics_encode: "sql_get_storage_metrics since (encode_store c st) = get_storage_metrics since st"
proof -
  have "filter (\<lambda>(_, r). er_recorded_at r \<ge> since) (encode_table (event_to_row c) (st_events st)) =
      encode_table (event_to_row c) (filter (\<lambda>(_, _, e). since \<le> ev_recorded_at e) (st_events st))"
    by (rule encode_table_filter) (auto simp: event_to_row_def)
  moreover have "filter (\<lambda>(_, r). wfr_state r \<in> set (map state_number active_states))
        (encode_table (\<lambda>(_, r). bind_workflow c r) (st_workflows st)) =
      encode_table (\<lambda>(_, r). bind_workflow c r)
        (filter (\<lambda>(_, r). ws_state (wr_summary r) \<in> set active_states) (st_workflows st))"
    by (rule encode_table_filter) auto
  ultimately show ?thesis by (simp add: sql_get_storage_metrics_def get_storage_metrics_def encode_store_def)
qed

lemmas sql_read_encode = sql_get_workflow_encode sql_list_all_workflows_encode sql_list_workflows_encode
  sql_search_workflows_encode sql_list_events_encode sql_list_plan_versions_encode sql_list_audit_entries_encode
  sql_get_idempotency_record_encode sql_get_storage_metrics_encode

subsection \<open>Pruning\<close>

lemma delete_condition_encode:
  assumes "\<And>r. counter' (bind_workflow c r) = counter (wr_summary r)"
  shows "delete_condition (encode_store c st) cutoff counter' wid n boot recorded =
    stale (st_boot_id st) cutoff counter st wid n boot recorded"
  by (cases "map_of (st_workflows st) wid")
    (simp_all add: delete_condition_def stale_def encode_store_def map_of_encode_table assms)

lemma encode_filters:
  assumes "keys_match st"
  shows "filter (\<lambda>(_, r). delete_condition (encode_store c st) cutoff wfr_total_event_count (er_workflow_id r)
        (er_sequence r) (er_boot_id r) (er_recorded_at r)) (encode_table (event_to_row c) (st_events st)) =
      encode_table (event_to_row c) (filter (stale_row st cutoff ws_total_event_count ev_recorded_at) (st_events st))"
    and "filter (\<lambda>x. \<not> (\<lambda>(_, r). delete_condition (encode_store c st) cutoff wfr_total_event_count (er_workflow_id r)
        (er_sequence r) (er_boot_id r) (er_recorded_at r)) x) (encode_table (event_to_row c) (st_events st)) =
      encode_table (event_to_row c)
        (filter (\<lambda>r. \<not> stale_row st cutoff ws_total_event_count ev_recorded_at r) (st_events st))"
    and "filter (\<lambda>(_, r). delete_condition (encode_store c st) cutoff wfr_latest_plan_version (plr_workflow_id r)
        (plr_version r) (plr_boot_id r) (plr_recorded_at r)) (encode_table (plan_to_row c) (st_plans st)) =
      encode_table (plan_to_row c) (filter (stale_row st cutoff ws_latest_plan_version pv_recorded_at) (st_plans st))"
    and "filter (\<lambda>x. \<not> (\<lambda>(_, r). delete_condition (encode_store c st) cutoff wfr_latest_plan_version (plr_workflow_id r)
        (plr_version r) (plr_boot_id r) (plr_recorded_at r)) x) (encode_table (plan_to_row c) (st_plans st)) =
      encode_table (plan_to_row c)
        (filter (\<lambda>r. \<not> stale_row st cutoff ws_latest_plan_version pv_recorded_at r) (st_plans st))"
    and "filter (\<lambda>(_, r). delete_condition (encode_store c st) cutoff wfr_total_audit_entry_count (aur_workflow_id r)
        (aur_sequence r) (aur_boot_id r) (aur_recorded_at r)) (encode_table (audit_to_row c) (st_audits st)) =
      encode_table (audit_to_row c) (filter (stale_row st cutoff ws_total_audit_entry_count ae_recorded_at) (st_audits st))"
    and "filter (\<lambda>x. \<not> (\<lambda>(_, r). delete_condition (encode_store c st) cutoff wfr_total_audit_entry_count (aur_workflow_id r)
        (aur_sequence r) (aur_boot_id r) (aur_recorded_at r)) x) (encode_table (audit_to_row c) (st_audits st)) =
      encode_table (audit_to_row c)
        (filter (\<lambda>r. \<not> stale_row st cutoff ws_total_audit_entry_count ae_recorded_at r) (st_audits st))"
  by (rule encode_table_filter; use assms in \<open>auto simp: event_to_row_def plan_to_row_def audit_to_row_def
      stale_row_def delete_condition_encode [where counter = ws_total_event_count]
      delete_condition_encode [where counter = ws_latest_plan_version]
      delete_condition_encode [where counter = ws_total_audit_entry_count] dest: keys_matchD\<close>)+

lemma encode_idempotency_filters:
  fixes c st cutoff
  defines "h \<equiv> \<lambda>(_ :: string, boot, r). bind_idempotency c boot r"
  shows "filter (\<lambda>(_, r). idr_boot_id r \<noteq> st_boot_id st \<and> idr_recorded_at r < cutoff) (encode_table h (st_idempotency st)) =
      encode_table h (filter (stale_idempotency st cutoff) (st_idempotency st))"
    and "filter (\<lambda>x. \<not> (\<lambda>(_, r). idr_boot_id r \<noteq> st_boot_id st \<and> idr_recorded_at r < cutoff) x)
        (encode_table h (st_idempotency st)) =
      encode_table h (filter (\<lambda>r. \<not> stale_idempotency st cutoff r) (st_idempotency st))"
  by (rule encode_table_filter; auto simp: h_def stale_idempotency_def)+

lemma encode_store_tables:
  "db_boot_id (encode_store c st) = st_boot_id st"
  "db_workflow_events (encode_store c st) = encode_table (event_to_row c) (st_events st)"
  "db_workflow_plan_versions (encode_store c st) = encode_table (plan_to_row c) (st_plans st)"
  "db_workflow_audit_entries (encode_store c st) = encode_table (audit_to_row c) (st_audits st)"
  "db_idempotency_records (encode_store c st) =
     encode_table (\<lambda>(_, boot, r). bind_idempotency c boot r) (st_idempotency st)"
  by (simp_all add: encode_store_def)

lemma sql_prune_encode:
  assumes "keys_match st"
  shows "sql_prune_stale_boot_data cutoff (encode_store c st) =
    map_prod id (encode_store c) (prune_stale_boot_data cutoff st)"
  unfolding sql_prune_stale_boot_data_def prune_stale_boot_data_def Let_def encode_store_tables
    encode_filters [OF assms] encode_idempotency_filters length_encode_table
  by (simp add: encode_store_def)

subsection \<open>Runs\<close>

datatype store_call = UpsertWorkflow workflow_record | GetWorkflow string | ListAllWorkflows
  | ListWorkflows list_workflows_request | SearchWorkflows search_workflows_request
  | WriteEvent string workflow_event_record | ListEvents string nat
  | WritePlanVersion string workflow_plan_version | ListPlanVersions string nat
  | WriteAuditEntry string audit_entry | ListAuditEntries string nat
  | PutIdempotencyRecord idempotency_record | GetIdempotencyRecord string
  | GetStorageMetrics int | PruneStaleBootData int | Restart string

datatype store_reply = Done | Failed store_error | FoundWorkflow "workflow_record option"
  | Workflows "workflow_record list" | Page workflow_page | Events "workflow_event_record list"
  | Plans "workflow_plan_version list" | Audits "audit_entry list"
  | FoundIdempotency "idempotency_record option" | Metrics storage_metrics | Pruned storage_prune_result

definition write_reply :: "store_error + 's \<Rightarrow> 's \<Rightarrow> store_reply \<times> 's" where
  "write_reply r s = (case r of Inl e \<Rightarrow> (Failed e, s) | Inr s' \<Rightarrow> (Done, s'))"

definition read_reply :: "('x \<Rightarrow> store_reply) \<Rightarrow> store_error + 'x \<Rightarrow> store_reply" where
  "read_reply f r = (case r of Inl e \<Rightarrow> Failed e | Inr x \<Rightarrow> f x)"

primrec store_exec :: "workflow_store \<Rightarrow> store_call \<Rightarrow> store_reply \<times> workflow_store" where
  "store_exec st (UpsertWorkflow r) = (Done, upsert_workflow r st)"
| "store_exec st (GetWorkflow wid) = (FoundWorkflow (get_workflow wid st), st)"
| "store_exec st ListAllWorkflows = (Workflows (list_all_workflows st), st)"
| "store_exec st (ListWorkflows q) = (Page (list_workflows q st), st)"
| "store_exec st (SearchWorkflows q) = (Page (search_workflows q st), st)"
| "store_exec st (WriteEvent wid e) = write_reply (write_event wid e st) st"
| "store_exec st (ListEvents wid n) = (Events (list_events wid n st), st)"
| "store_exec st (WritePlanVersion wid p) = write_reply (write_plan_version wid p st) st"
| "store_exec st (ListPlanVersions wid n) = (Plans (list_plan_versions wid n st), st)"
| "store_exec st (WriteAuditEntry wid a) = write_reply (write_audit_entry wid a st) st"
| "store_exec st (ListAuditEntries wid n) = (Audits (list_audit_entries wid n st), st)"
| "store_exec st (PutIdempotencyRecord r) = write_reply (put_idempotency_record r st) st"
| "store_exec st (GetIdempotencyRecord k) = (FoundIdempotency (get_idempotency_record k st), st)"
| "store_exec st (GetStorageMetrics t) = (Metrics (get_storage_metrics t st), st)"
| "store_exec st (PruneStaleBootData t) = (let (r, st') = prune_stale_boot_data t st in (Pruned r, st'))"
| "store_exec st (Restart boot) = (Done, st\<lparr>st_boot_id := (if boot = [] then kUnknownBootId else boot)\<rparr>)"

primrec sql_exec :: "'b codec \<Rightarrow> 'b sqlite_store \<Rightarrow> store_call \<Rightarrow> store_reply \<times> 'b sqlite_store" where
  "sql_exec c db (UpsertWorkflow r) = (Done, sql_upsert_workflow c r db)"
| "sql_exec c db (GetWorkflow wid) = (read_reply FoundWorkflow (sql_get_workflow c wid db), db)"
| "sql_exec c db ListAllWorkflows = (read_reply Workflows (sql_list_all_workflows c db), db)"
| "sql_exec c db (ListWorkflows q) = (Page (sql_list_workflows q db), db)"
| "sql_exec c db (SearchWorkflows q) = (Page (sql_search_workflows q db), db)"
| "sql_exec c db (WriteEvent wid e) = write_reply (sql_write_event c wid e db) db"
| "sql_exec c db (ListEvents wid n) = (read_reply Events (sql_list_events c wid n db), db)"
| "sql_exec c db (WritePlanVersion wid p) = write_reply (sql_write_plan_version c wid p db) db"
| "sql_exec c db (ListPlanVersions wid n) = (read_reply Plans (sql_list_plan_versions c wid n db), db)"
| "sql_exec c db (WriteAuditEntry wid a) = write_reply (sql_write_audit_entry c wid a db) db"
| "sql_exec c db (ListAuditEntries wid n) = (read_reply Audits (sql_list_audit_entries wid n db), db)"
| "sql_exec c db (PutIdempotencyRecord r) = write_reply (sql_put_idempotency_record c r db) db"
| "sql_exec c db (GetIdempotencyRecord k) = (read_reply FoundIdempotency (sql_get_idempotency_record c k db), db)"
| "sql_exec c db (GetStorageMetrics t) = (Metrics (sql_get_storage_metrics t db), db)"
| "sql_exec c db (PruneStaleBootData t) = (let (r, db') = sql_prune_stale_boot_data t db in (Pruned r, db'))"
| "sql_exec c db (Restart boot) = (Done, open_sqlite_store None boot db)"

text \<open>Replies to a sequence of calls, and the state they leave.\<close>

fun run_calls :: "('s \<Rightarrow> store_call \<Rightarrow> store_reply \<times> 's) \<Rightarrow> 's \<Rightarrow> store_call list \<Rightarrow> store_reply list \<times> 's" where
  "run_calls exec s [] = ([], s)"
| "run_calls exec s (x # xs) = (let (r, s) = exec s x; (rs, s) = run_calls exec s xs in (r # rs, s))"

lemma write_reply_encode:
  "write_reply (map_sum id (encode_store c) r) (encode_store c st) = map_prod id (encode_store c) (write_reply r st)"
  by (cases r) (simp_all add: write_reply_def)

lemma sql_exec_encode:
  assumes "codec_ok c" and "keys_match st"
  shows "sql_exec c (encode_store c st) x = map_prod id (encode_store c) (store_exec st x)"
proof (cases x)
  case (PruneStaleBootData t)
  then show ?thesis using assms by (simp add: sql_prune_encode case_prod_unfold Let_def)
next
  case (Restart boot)
  then show ?thesis by (simp add: open_sqlite_store_def encode_store_def read_kernel_boot_id_def)
qed (simp_all add: assms sql_write_encode sql_read_encode write_reply_encode read_reply_def)

lemma set_update_alist: "x \<in> set (AList.update k v xs) \<Longrightarrow> x = (k, v) \<or> x \<in> set xs"
  by (induction xs) (auto split: if_splits)

lemma keys_match_exec:
  assumes "keys_match st"
  shows "keys_match (snd (store_exec st x))"
proof (cases x)
  case (PruneStaleBootData t)
  with assms show ?thesis
    by (auto simp: keys_match_def prune_tables case_prod_unfold Let_def)
qed (use assms in \<open>auto simp: write_reply_def upsert_workflow_def write_event_def write_plan_version_def
    write_audit_entry_def put_idempotency_record_def keys_match_def dest!: set_update_alist\<close>)

lemma run_calls_encode:
  "codec_ok c \<Longrightarrow> keys_match st \<Longrightarrow>
     run_calls (sql_exec c) (encode_store c st) xs = map_prod id (encode_store c) (run_calls store_exec st xs)"
proof (induction xs arbitrary: st)
  case (Cons x xs)
  then have "run_calls (sql_exec c) (encode_store c (snd (store_exec st x))) xs =
      map_prod id (encode_store c) (run_calls store_exec (snd (store_exec st x)) xs)"
    by (blast intro: keys_match_exec)
  with Cons.prems show ?case
    by (simp add: sql_exec_encode case_prod_unfold Let_def)
qed simp

text \<open>
  C27. The SQLite store implements the store of messages: whatever calls are made on a new database,
  across restarts of the process, each reply is the one the store of messages gives; in particular
  no read ever fails to parse a blob.
\<close>

theorem sqlite_store_refines_store:
  assumes "codec_ok c"
  shows "fst (run_calls (sql_exec c) (open_sqlite_store line boot new_database) xs) =
      fst (run_calls store_exec (empty_store (if boot = [] then read_kernel_boot_id line else boot)) xs) \<and>
    Failed CorruptBlob \<notin> set (fst (run_calls (sql_exec c) (open_sqlite_store line boot new_database) xs))"
proof -
  let ?st = "empty_store (if boot = [] then read_kernel_boot_id line else boot)"
  have init: "open_sqlite_store line boot new_database = encode_store c ?st"
    by (simp add: open_sqlite_store_def new_database_def encode_store_def empty_store_def encode_table_def)
  have no_corrupt: "fst (store_exec st x) \<noteq> Failed CorruptBlob" for st x
    by (cases x) (auto simp: write_reply_def write_event_def write_plan_version_def write_audit_entry_def
        put_idempotency_record_def Let_def split: prod.splits)
  have "Failed CorruptBlob \<notin> set (fst (run_calls store_exec st xs))" for st
    using no_corrupt by (induction xs arbitrary: st) (auto simp: case_prod_unfold Let_def dest: sym)
  moreover have "keys_match ?st" by (simp add: keys_match_def empty_store_def)
  ultimately show ?thesis using run_calls_encode [OF assms] by (simp add: init)
qed

subsection \<open>Example\<close>

datatype blob = ConfigBlob pb_workflow_config | ResponseBlob runtime_api_response | EventBlob workflow_event
  | AuditBlob audit_entry

definition tagged_codec :: "blob codec" where
  "tagged_codec = \<lparr>enc_config = ConfigBlob, dec_config = (\<lambda>b. case b of ConfigBlob x \<Rightarrow> Some x | _ \<Rightarrow> None),
     enc_response = ResponseBlob, dec_response = (\<lambda>b. case b of ResponseBlob x \<Rightarrow> Some x | _ \<Rightarrow> None),
     enc_event = EventBlob, dec_event = (\<lambda>b. case b of EventBlob x \<Rightarrow> Some x | _ \<Rightarrow> None), enc_audit = AuditBlob\<rparr>"

definition demo_calls :: "store_call list" where
  "demo_calls = [UpsertWorkflow (demo_record ''a'' 10 1), WriteEvent ''a'' (demo_event 1 5), WriteEvent ''b'' (demo_event 1 5),
     Restart ''boot-2'', ListEvents ''a'' 0]"

theorem sqlite_store_refines_store_witness:
  "fst (run_calls (sql_exec tagged_codec) (open_sqlite_store None ''boot-1'' new_database) demo_calls) =
     [Done, Done, Failed ForeignKeyViolation, Done, Events [demo_event 1 5]]"
proof -
  have "codec_ok tagged_codec" by (simp add: codec_ok_def tagged_codec_def)
  from sqlite_store_refines_store [OF this, of None "''boot-1''" demo_calls] show ?thesis
    by (simp add: demo_calls_def empty_store_def upsert_workflow_def write_event_def write_reply_def umap_contains_def
        demo_record_def demo_event_def empty_record_def list_events_def history_of_def)
qed

end
