(* ===== verification/Tls_Credentials.thy ===== *)
theory Tls_Credentials
  imports Protocol_Types Text_Input
begin

text \<open>
  TLS settings (\<^verbatim>\<open>protocol/runtime_api.hpp\<close>), their loading (\<^verbatim>\<open>protocol/src/tls_credentials.cpp\<close>) and the
  credentials the gRPC transport builds from them (\<^verbatim>\<open>detail/grpc_transport_detail.hpp\<close>). Reading a file is
  a parameter. A \<^verbatim>\<open>TlsLoadResult\<close> is a sum: its error message, which is never empty when it is set, or
  its value.
\<close>

subsection \<open>Settings\<close>

datatype tls_data_source_kind = NoSource | FilePath | InlinePem

record tls_data_source =
  td_kind :: tls_data_source_kind
  td_value :: string

definition no_source :: tls_data_source where
  "no_source = \<lparr>td_kind = NoSource, td_value = []\<rparr>"

definition from_file :: "string \<Rightarrow> tls_data_source" where
  "from_file path = \<lparr>td_kind = FilePath, td_value = path\<rparr>"

definition from_inline_pem :: "string \<Rightarrow> tls_data_source" where
  "from_inline_pem pem = \<lparr>td_kind = InlinePem, td_value = pem\<rparr>"

definition source_configured :: "tls_data_source \<Rightarrow> bool" where
  "source_configured d \<longleftrightarrow> td_kind d \<noteq> NoSource \<and> td_value d \<noteq> []"

record tls_identity_config =
  ti_certificate_chain :: tls_data_source
  ti_private_key :: tls_data_source
  ti_private_key_password :: tls_data_source

definition default_identity :: tls_identity_config where
  "default_identity = \<lparr>ti_certificate_chain = no_source, ti_private_key = no_source, ti_private_key_password = no_source\<rparr>"

definition identity_configured :: "tls_identity_config \<Rightarrow> bool" where
  "identity_configured c \<longleftrightarrow> source_configured (ti_certificate_chain c) \<or> source_configured (ti_private_key c) \<or>
     source_configured (ti_private_key_password c)"

record tls_trust_config =
  tt_root_certificates :: tls_data_source
  tt_use_system_default_roots :: bool
  tt_verify_peer :: bool
  tt_expected_peer_name :: string

definition default_trust :: tls_trust_config where
  "default_trust = \<lparr>tt_root_certificates = no_source, tt_use_system_default_roots = True, tt_verify_peer = True,
     tt_expected_peer_name = []\<rparr>"

record tls_server_config =
  tv_identity :: tls_identity_config
  tv_client_trust :: tls_trust_config
  tv_require_client_certificate :: bool

definition default_tls_server :: tls_server_config where
  "default_tls_server = \<lparr>tv_identity = default_identity, tv_client_trust = default_trust,
     tv_require_client_certificate = False\<rparr>"

record tls_client_config =
  tn_identity :: tls_identity_config
  tn_server_trust :: tls_trust_config

definition default_tls_client :: tls_client_config where
  "default_tls_client = \<lparr>tn_identity = default_identity, tn_server_trust = default_trust\<rparr>"

subsection \<open>Endpoint options\<close>

definition kDefaultLoopbackAddress :: string where "kDefaultLoopbackAddress = ''127.0.0.1''"
definition kDefaultHttpPort :: int where "kDefaultHttpPort = 8080"
definition kDefaultGrpcPort :: int where "kDefaultGrpcPort = 9090"
definition kDefaultIoThreads :: nat where "kDefaultIoThreads = 2"
definition kDefaultMaxHttpBodyBytes :: int where "kDefaultMaxHttpBodyBytes = 2 ^ 20"
definition kDefaultRequestTimeoutMs :: int where "kDefaultRequestTimeoutMs = 10000"

record http_endpoint_options =
  he_bind_address :: string
  he_port :: int
  he_use_tls :: bool
  he_tls :: tls_server_config
  he_io_threads :: nat
  he_max_body_bytes :: int

definition default_http_endpoint :: http_endpoint_options where
  "default_http_endpoint = \<lparr>he_bind_address = kDefaultLoopbackAddress, he_port = kDefaultHttpPort, he_use_tls = False,
     he_tls = default_tls_server, he_io_threads = kDefaultIoThreads, he_max_body_bytes = kDefaultMaxHttpBodyBytes\<rparr>"

record grpc_endpoint_options =
  ge_bind_address :: string
  ge_port :: int
  ge_use_tls :: bool
  ge_tls :: tls_server_config
  ge_completion_queue_threads :: nat
  ge_max_receive_message_bytes :: int
  ge_max_send_message_bytes :: int

definition default_grpc_endpoint :: grpc_endpoint_options where
  "default_grpc_endpoint = \<lparr>ge_bind_address = kDefaultLoopbackAddress, ge_port = kDefaultGrpcPort, ge_use_tls = False,
     ge_tls = default_tls_server, ge_completion_queue_threads = kDefaultIoThreads,
     ge_max_receive_message_bytes = kDefaultMaxHttpBodyBytes, ge_max_send_message_bytes = kDefaultMaxHttpBodyBytes\<rparr>"

text \<open>\<^verbatim>\<open>HttpClientOptions\<close> and \<^verbatim>\<open>GrpcClientOptions\<close> differ in the default port and the name of the time limit.\<close>

record client_options =
  co_host :: string
  co_port :: int
  co_use_tls :: bool
  co_tls :: tls_client_config
  co_timeout_ms :: int
  co_bearer_token :: string
  co_api_key :: string

definition default_client_options :: "int \<Rightarrow> client_options" where
  "default_client_options port = \<lparr>co_host = kDefaultLoopbackAddress, co_port = port, co_use_tls = False,
     co_tls = default_tls_client, co_timeout_ms = kDefaultRequestTimeoutMs, co_bearer_token = [], co_api_key = []\<rparr>"

subsection \<open>Loading\<close>

record loaded_identity =
  li_certificate_chain_pem :: string
  li_private_key_pem :: string
  li_private_key_password :: string

record loaded_trust =
  lt_root_certificates_pem :: string
  lt_use_system_default_roots :: bool
  lt_verify_peer :: bool
  lt_expected_peer_name :: string

record loaded_server =
  ls_identity :: loaded_identity
  ls_client_trust :: loaded_trust
  ls_require_client_certificate :: bool

record loaded_client =
  ln_identity :: loaded_identity
  ln_server_trust :: loaded_trust

definition load_data_source :: "(string \<Rightarrow> string option) \<Rightarrow> tls_data_source \<Rightarrow> string \<Rightarrow> string + string" where
  "load_data_source read_file source label =
     (case td_kind source of
        NoSource \<Rightarrow> Inr []
      | FilePath \<Rightarrow>
          if td_value source = [] then Inl (label @ '' file path is empty.'')
          else (case read_file (td_value source) of
                  None \<Rightarrow> Inl (''Failed to read '' @ label @ '' from '' @ [CHR 0x27] @ td_value source @ [CHR 0x27] @ ''.'')
                | Some content \<Rightarrow> Inr content)
      | InlinePem \<Rightarrow>
          if td_value source = [] then Inl (label @ '' inline PEM is empty.'') else Inr (td_value source))"

definition load_identity ::
  "(string \<Rightarrow> string option) \<Rightarrow> tls_identity_config \<Rightarrow> bool \<Rightarrow> string \<Rightarrow> string + loaded_identity" where
  "load_identity read_file c required owner =
     bind_result (load_data_source read_file (ti_certificate_chain c) (owner @ '' certificate chain'')) (\<lambda>chain.
     bind_result (load_data_source read_file (ti_private_key c) (owner @ '' private key'')) (\<lambda>key.
     bind_result (load_data_source read_file (ti_private_key_password c) (owner @ '' private key password'')) (\<lambda>password.
       if required \<and> (chain = [] \<or> key = [])
       then Inl (owner @ '' TLS identity requires both certificate_chain and private_key.'')
       else if (chain \<noteq> []) \<noteq> (key \<noteq> [])
       then Inl (owner @ '' TLS identity must configure certificate_chain and private_key together.'')
       else if key = [] \<and> password \<noteq> []
       then Inl (owner @ '' TLS private_key_password requires a private_key.'')
       else Inr \<lparr>li_certificate_chain_pem = chain, li_private_key_pem = key, li_private_key_password = password\<rparr>)))"

definition load_trust ::
  "(string \<Rightarrow> string option) \<Rightarrow> tls_trust_config \<Rightarrow> string \<Rightarrow> bool \<Rightarrow> string + loaded_trust" where
  "load_trust read_file c owner require_material =
     bind_result (load_data_source read_file (tt_root_certificates c) (owner @ '' root certificates'')) (\<lambda>roots.
       if require_material \<and> tt_verify_peer c \<and> \<not> tt_use_system_default_roots c \<and> roots = []
       then Inl (owner @ '' peer verification requires root_certificates or system default roots.'')
       else Inr \<lparr>lt_root_certificates_pem = roots, lt_use_system_default_roots = tt_use_system_default_roots c,
              lt_verify_peer = tt_verify_peer c, lt_expected_peer_name = tt_expected_peer_name c\<rparr>)"

definition load_server_credentials :: "(string \<Rightarrow> string option) \<Rightarrow> tls_server_config \<Rightarrow> string + loaded_server" where
  "load_server_credentials read_file c =
     bind_result (load_identity read_file (tv_identity c) True ''Server'') (\<lambda>identity.
     bind_result (load_trust read_file (tv_client_trust c) ''Server'' (tv_require_client_certificate c)) (\<lambda>trust.
       if tv_require_client_certificate c \<and> \<not> lt_use_system_default_roots trust \<and> lt_root_certificates_pem trust = []
       then Inl ''Mutual TLS requires client trust roots or system default roots.''
       else Inr \<lparr>ls_identity = identity, ls_client_trust = trust,
              ls_require_client_certificate = tv_require_client_certificate c\<rparr>))"

definition load_client_credentials :: "(string \<Rightarrow> string option) \<Rightarrow> tls_client_config \<Rightarrow> string + loaded_client" where
  "load_client_credentials read_file c =
     bind_result (load_identity read_file (tn_identity c) False ''Client'') (\<lambda>identity.
     bind_result (load_trust read_file (tn_server_trust c) ''Client'' True) (\<lambda>trust.
       Inr \<lparr>ln_identity = identity, ln_server_trust = trust\<rparr>))"

subsection \<open>Credentials of the gRPC transport\<close>

record grpc_ssl_options =
  gk_pem_root_certs :: string
  gk_pem_private_key :: string
  gk_pem_cert_chain :: string
  gk_require_client_certificate :: bool

definition make_server_credentials :: "loaded_server \<Rightarrow> string + grpc_ssl_options" where
  "make_server_credentials c =
     (if ls_require_client_certificate c \<and> \<not> lt_verify_peer (ls_client_trust c)
      then Inl ''gRPC mutual TLS requires client certificate verification.''
      else Inr \<lparr>gk_pem_root_certs = lt_root_certificates_pem (ls_client_trust c),
             gk_pem_private_key = li_private_key_pem (ls_identity c),
             gk_pem_cert_chain = li_certificate_chain_pem (ls_identity c),
             gk_require_client_certificate = ls_require_client_certificate c\<rparr>)"

definition make_client_credentials :: "loaded_client \<Rightarrow> string + grpc_ssl_options" where
  "make_client_credentials c =
     (if \<not> lt_verify_peer (ln_server_trust c)
      then Inl ''gRPC TLS requires peer verification; use insecure transport instead of disabling TLS verification.''
      else Inr \<lparr>gk_pem_root_certs = lt_root_certificates_pem (ln_server_trust c),
             gk_pem_private_key = li_private_key_pem (ln_identity c),
             gk_pem_cert_chain = li_certificate_chain_pem (ln_identity c), gk_require_client_certificate = False\<rparr>)"

definition resolve_expected_peer_name :: "string \<Rightarrow> loaded_client \<Rightarrow> string" where
  "resolve_expected_peer_name host c =
     (if lt_expected_peer_name (ln_server_trust c) = [] then host else lt_expected_peer_name (ln_server_trust c))"

subsection \<open>What loading guarantees\<close>

lemma load_identity_key:
  "load_identity read_file c True owner = Inr i \<Longrightarrow> li_certificate_chain_pem i \<noteq> [] \<and> li_private_key_pem i \<noteq> []"
  by (auto simp: load_identity_def bind_result_def split: sum.splits if_splits)

lemma load_trust_settings:
  "load_trust read_file c owner required = Inr t \<Longrightarrow>
     lt_verify_peer t = tt_verify_peer c \<and> lt_expected_peer_name t = tt_expected_peer_name c"
  by (auto simp: load_trust_def bind_result_def split: sum.splits if_splits)

lemma load_server_credentials_secure:
  assumes "load_server_credentials read_file c = Inr l"
  shows "li_certificate_chain_pem (ls_identity l) \<noteq> [] \<and> li_private_key_pem (ls_identity l) \<noteq> [] \<and>
    ls_require_client_certificate l = tv_require_client_certificate c"
  using assms
  by (auto simp: load_server_credentials_def bind_result_def split: sum.splits if_splits dest: load_identity_key)

lemma load_client_credentials_settings:
  assumes "load_client_credentials read_file c = Inr l"
  shows "lt_verify_peer (ln_server_trust l) = tt_verify_peer (tn_server_trust c) \<and>
    lt_expected_peer_name (ln_server_trust l) = tt_expected_peer_name (tn_server_trust c)"
  using assms
  by (auto simp: load_client_credentials_def bind_result_def split: sum.splits if_splits dest: load_trust_settings)

end
