(* ===== verification/Runner.thy ===== *)
theory Runner
  imports Protocol_Types Scheduler Workflow_Optimizer
begin

text \<open>
  \<^verbatim>\<open>application/config/config.hpp\<close> (the workflow configuration) and \<^verbatim>\<open>application/runner/runner.cpp\<close>:
  a configuration is turned into an optimization model and options, optimized, and the solution is
  turned into a run result.
\<close>

subsection \<open>Configuration\<close>

record actor_config =
  ac_id :: string
  ac_type :: string
  ac_capacity :: int
  ac_windows :: "availability_window list"
  ac_capabilities :: "string list"
  ac_execution_cost_per_unit :: rat

record task_config =
  tc_id :: string
  tc_requested_time :: time
  tc_duration :: duration
  tc_latest_start_time :: time
  tc_deadline :: time
  tc_priority :: priority
  tc_demand :: int
  tc_mandatory :: bool
  tc_preemptible :: bool
  tc_allowed_actor_types :: "string list"
  tc_allowed_actor_ids :: "string list"
  tc_preferred_actor_ids :: "string list"
  tc_required_capabilities :: "string list"
  tc_dependency_task_ids :: "string list"
  tc_mutually_exclusive_task_ids :: "string list"
  tc_actor_distances :: "(string, time) umap"
  tc_tardiness_cost_per_unit :: rat
  tc_early_start_bonus :: rat
  tc_phase_durations :: "duration list"

definition kDefaultOptimizationBackend :: string where "kDefaultOptimizationBackend = ''auto''"

record optimization_config =
  oc_backend :: string
  oc_time_limit_ms :: int
  oc_relative_gap_limit :: rat
  oc_num_search_workers :: int
  oc_allow_partial_plan :: bool
  oc_objective :: objective_weights

record workflow_config =
  wc_id :: string
  wc_optimization :: optimization_config
  wc_actors :: "actor_config list"
  wc_tasks :: "task_config list"

definition default_optimization_config :: optimization_config where
  "default_optimization_config = \<lparr>oc_backend = kDefaultOptimizationBackend, oc_time_limit_ms = 0,
     oc_relative_gap_limit = 0, oc_num_search_workers = 1, oc_allow_partial_plan = True,
     oc_objective = default_objective_weights\<rparr>"

subsection \<open>Translation to the optimizer\<close>

definition optional_time_from_config_value :: "time \<Rightarrow> time option" where
  "optional_time_from_config_value t = (if t > 0 then Some t else None)"

definition to_options :: "optimization_config \<Rightarrow> optimization_options" where
  "to_options c =
     \<lparr>oo_backend_kind = backend_kind_from_string (oc_backend c), oo_time_limit_ms = oc_time_limit_ms c,
      oo_relative_gap_limit = oc_relative_gap_limit c, oo_num_search_workers = oc_num_search_workers c,
      oo_allow_partial_plan = oc_allow_partial_plan c, oo_objective = oc_objective c\<rparr>"

definition to_optimizer_actor :: "actor_config \<Rightarrow> optimizer_actor" where
  "to_optimizer_actor a =
     \<lparr>oa_id = ac_id a, oa_type = ac_type a, oa_capacity = ac_capacity a,
      oa_windows = map (\<lambda>w. \<lparr>win_start = win_start w, win_end = win_end w\<rparr>) (ac_windows a),
      oa_capabilities = ac_capabilities a, oa_execution_cost_per_unit = ac_execution_cost_per_unit a\<rparr>"

definition to_optimizer_task :: "task_config \<Rightarrow> optimizer_task" where
  "to_optimizer_task t =
     \<lparr>ot_id = tc_id t, ot_duration = tc_duration t, ot_release_time = tc_requested_time t,
      ot_latest_start_time = optional_time_from_config_value (tc_latest_start_time t),
      ot_deadline = optional_time_from_config_value (tc_deadline t),
      ot_priority = tc_priority t, ot_demand = tc_demand t, ot_mandatory = tc_mandatory t,
      ot_preemptible = tc_preemptible t, ot_allowed_actor_types = tc_allowed_actor_types t,
      ot_allowed_actor_ids = tc_allowed_actor_ids t, ot_preferred_actor_ids = tc_preferred_actor_ids t,
      ot_required_capabilities = tc_required_capabilities t, ot_dependency_task_ids = tc_dependency_task_ids t,
      ot_mutually_exclusive_task_ids = tc_mutually_exclusive_task_ids t,
      ot_actor_distances = tc_actor_distances t, ot_tardiness_cost_per_unit = tc_tardiness_cost_per_unit t,
      ot_early_start_bonus = tc_early_start_bonus t\<rparr>"

definition to_model :: "workflow_config \<Rightarrow> optimization_model" where
  "to_model c = \<lparr>om_id = wc_id c, om_actors = map to_optimizer_actor (wc_actors c),
     om_tasks = map to_optimizer_task (wc_tasks c)\<rparr>"

subsection \<open>Results\<close>

record run_result =
  rr_ok :: bool
  rr_capacity_issue :: bool
  rr_assignments :: "assignment list"
  rr_unfulfilled_task_ids :: "task_id list"
  rr_error_message :: string

definition to_assignment :: "optimized_assignment \<Rightarrow> assignment" where
  "to_assignment x = \<lparr>as_task_id = oas_task_id x, as_actor_id = oas_actor_id x, as_start_time = oas_start_time x\<rparr>"

definition to_run_result :: "optimization_solution \<Rightarrow> run_result" where
  "to_run_result s =
     \<lparr>rr_ok = sol_ok s, rr_capacity_issue = (sol_unfulfilled_task_ids s \<noteq> []),
      rr_assignments = sort_key (\<lambda>x. (as_start_time x, as_task_id x, as_actor_id x)) (map to_assignment (sol_assignments s)),
      rr_unfulfilled_task_ids = sol_unfulfilled_task_ids s, rr_error_message = sol_error_message s\<rparr>"

definition run_optimize :: "backend_entry list \<Rightarrow> workflow_config \<Rightarrow> run_result" where
  "run_optimize entries c =
     to_run_result (optimize entries \<lparr>wo_options = to_options (wc_optimization c), wo_backend = None\<rparr> (to_model c))"

definition run_optimize_text ::
  "(string \<Rightarrow> num_error + rat) \<Rightarrow> backend_entry list \<Rightarrow> string \<Rightarrow> num_error + run_result" where
  "run_optimize_text stod entries request =
     bind_result (optimize_text stod entries new_workflow_optimizer request) (\<lambda>s. Inr (to_run_result s))"

end
