(* ===== verification/Runtime_Service.thy ===== *)
theory Runtime_Service
  imports Runner
begin

text \<open>
  \<^verbatim>\<open>application/runtime_service\<close>: the in-memory runtime service. An event stream (a coroutine that
  the caller drains) is the list of its events together with the state it leaves; the only state is
  the table of stored workflows. \<open>entries\<close> is the back-end registry the optimizer finds.
\<close>

subsection \<open>Helpers\<close>

definition kRuntimeOverrideAvailabilityStart :: time where "kRuntimeOverrideAvailabilityStart = 0"
definition kRuntimeOverrideAvailabilityEnd :: time where "kRuntimeOverrideAvailabilityEnd = 1000000"

text \<open>The conversion from \<^verbatim>\<open>int64_t\<close> to \<^verbatim>\<open>int32_t\<close> keeps the low 32 bits.\<close>

definition narrow_int32 :: "int \<Rightarrow> int" where
  "narrow_int32 x = signed_take_bit 31 x"

definition remove_completed_task_dependencies :: "task_id \<Rightarrow> workflow_config \<Rightarrow> workflow_config" where
  "remove_completed_task_dependencies t c =
     c\<lparr>wc_tasks := map (\<lambda>x. x\<lparr>tc_dependency_task_ids := filter (\<lambda>d. d \<noteq> t) (tc_dependency_task_ids x)\<rparr>) (wc_tasks c)\<rparr>"

definition to_app_window :: "availability_window \<Rightarrow> availability_window" where
  "to_app_window w = \<lparr>win_start = win_start w, win_end = win_end w\<rparr>"

definition or_default :: "'a option \<Rightarrow> 'a \<Rightarrow> 'a" where
  "or_default x d = (case x of None \<Rightarrow> d | Some v \<Rightarrow> v)"

definition to_app_actor :: "pb_actor_config \<Rightarrow> actor_config" where
  "to_app_actor a =
     \<lparr>ac_id = pa_id a, ac_type = pa_type a, ac_capacity = or_default (pa_capacity a) 1,
      ac_windows = map to_app_window (pa_windows a), ac_capabilities = pa_capabilities a,
      ac_execution_cost_per_unit = or_default (pa_execution_cost_per_unit a) 0\<rparr>"

definition to_app_task :: "pb_task_config \<Rightarrow> task_config" where
  "to_app_task t =
     \<lparr>tc_id = px_id t, tc_requested_time = px_requested_time t, tc_duration = px_duration t,
      tc_latest_start_time = px_latest_start_time t, tc_deadline = px_deadline t,
      tc_priority = narrow_int32 (px_priority t), tc_demand = or_default (px_demand t) 1,
      tc_mandatory = or_default (px_mandatory t) True, tc_preemptible = or_default (px_preemptible t) False,
      tc_allowed_actor_types = px_allowed_actor_types t, tc_allowed_actor_ids = px_allowed_actor_ids t,
      tc_preferred_actor_ids = px_preferred_actor_ids t, tc_required_capabilities = px_required_capabilities t,
      tc_dependency_task_ids = px_dependency_task_ids t,
      tc_mutually_exclusive_task_ids = px_mutually_exclusive_task_ids t,
      tc_actor_distances = fold (\<lambda>(a, d). umap_emplace a d) (px_actor_distances t) [],
      tc_tardiness_cost_per_unit = px_tardiness_cost_per_unit t, tc_early_start_bonus = px_early_start_bonus t,
      tc_phase_durations = px_phase_durations t\<rparr>"

definition to_app_objective :: "pb_objective_config \<Rightarrow> objective_weights" where
  "to_app_objective ob =
     (let d = default_objective_weights in
      \<lparr>fulfilled_task_weight = or_default (po_fulfilled_task_weight ob) (fulfilled_task_weight d),
       priority_weight = or_default (po_priority_weight ob) (priority_weight d),
       makespan_weight = or_default (po_makespan_weight ob) (makespan_weight d),
       travel_distance_weight = or_default (po_travel_distance_weight ob) (travel_distance_weight d),
       tardiness_weight = or_default (po_tardiness_weight ob) (tardiness_weight d),
       execution_cost_weight = or_default (po_execution_cost_weight ob) (execution_cost_weight d),
       preferred_actor_weight = or_default (po_preferred_actor_weight ob) (preferred_actor_weight d)\<rparr>)"

definition to_app_optimization :: "pb_optimization_config \<Rightarrow> optimization_config" where
  "to_app_optimization oc =
     (let d = default_optimization_config in
      \<lparr>oc_backend = or_default (pq_backend oc) (oc_backend d),
       oc_time_limit_ms = or_default (pq_time_limit_ms oc) (oc_time_limit_ms d),
       oc_relative_gap_limit = or_default (pq_relative_gap_limit oc) (oc_relative_gap_limit d),
       oc_num_search_workers = (case pq_num_search_workers oc of None \<Rightarrow> oc_num_search_workers d | Some n \<Rightarrow> max 1 n),
       oc_allow_partial_plan = or_default (pq_allow_partial_plan oc) (oc_allow_partial_plan d),
       oc_objective = (case pq_objective oc of None \<Rightarrow> oc_objective d | Some ob \<Rightarrow> to_app_objective ob)\<rparr>)"

definition to_app_workflow :: "pb_workflow_config \<Rightarrow> workflow_config" where
  "to_app_workflow w =
     \<lparr>wc_id = pw_id w,
      wc_optimization = (case pw_optimization w of None \<Rightarrow> default_optimization_config | Some oc \<Rightarrow> to_app_optimization oc),
      wc_actors = map to_app_actor (pw_actors w), wc_tasks = map to_app_task (pw_tasks w)\<rparr>"

definition task_duration_for_id :: "workflow_config \<Rightarrow> task_id \<Rightarrow> duration" where
  "task_duration_for_id c t = (case find (\<lambda>x. tc_id x = t) (wc_tasks c) of None \<Rightarrow> 0 | Some x \<Rightarrow> tc_duration x)"

definition task_durations :: "workflow_config \<Rightarrow> (task_id, duration) umap" where
  "task_durations c = fold (\<lambda>x. umap_emplace (tc_id x) (tc_duration x)) (wc_tasks c) []"

definition to_pb_assignment :: "workflow_config \<Rightarrow> assignment \<Rightarrow> pb_assignment" where
  "to_pb_assignment c x =
     \<lparr>pg_task_id = as_task_id x, pg_actor_id = as_actor_id x, pg_start_time = as_start_time x,
      pg_end_time = as_start_time x + umap_at_or (task_durations c) (as_task_id x) 0\<rparr>"

definition populate_proto_run_result :: "run_result \<Rightarrow> workflow_config \<Rightarrow> pb_run_result" where
  "populate_proto_run_result r c =
     \<lparr>pr_result_ok = rr_ok r, pr_capacity_issue = rr_capacity_issue r,
      pr_assignments = map (to_pb_assignment c) (rr_assignments r),
      pr_unfulfilled_task_ids = rr_unfulfilled_task_ids r, pr_result_error = rr_error_message r\<rparr>"

definition make_runtime_response :: "run_result \<Rightarrow> workflow_config \<Rightarrow> runtime_api_response" where
  "make_runtime_response r c =
     \<lparr>ra_ok = rr_ok r, ra_result = populate_proto_run_result r c, ra_error_message = rr_error_message r\<rparr>"

definition make_runtime_error_response :: "string \<Rightarrow> runtime_api_response" where
  "make_runtime_error_response msg =
     \<lparr>ra_ok = False, ra_result = empty_run_result\<lparr>pr_result_error := msg\<rparr>, ra_error_message = msg\<rparr>"

definition ok_response :: runtime_api_response where
  "ok_response = empty_response\<lparr>ra_ok := True, ra_result := empty_run_result\<lparr>pr_result_ok := True\<rparr>\<rparr>"

definition make_event :: "workflow_event_type \<Rightarrow> string \<Rightarrow> string \<Rightarrow> workflow_event" where
  "make_event ty wid detail = empty_event\<lparr>we_type := ty, we_workflow_id := wid, we_detail := detail\<rparr>"

definition make_response_event ::
  "workflow_event_type \<Rightarrow> string \<Rightarrow> runtime_api_response \<Rightarrow> string \<Rightarrow> workflow_event" where
  "make_response_event ty wid r detail = (make_event ty wid detail)\<lparr>we_response := Some r\<rparr>"

text \<open>The last response among the events, or the given default.\<close>

definition final_response :: "runtime_api_response \<Rightarrow> workflow_event list \<Rightarrow> runtime_api_response" where
  "final_response d evs = foldl (\<lambda>r e. case we_response e of None \<Rightarrow> r | Some r' \<Rightarrow> r') d evs"

definition consume_final_response :: "workflow_event list \<Rightarrow> runtime_api_response" where
  "consume_final_response evs =
     final_response (make_runtime_error_response ''Workflow execution did not produce a final response.'') evs"

subsection \<open>The service\<close>

record runtime_service =
  im_security :: security_config
  im_workflows :: "(workflow_id, workflow_config) umap"

definition authorize :: "security_config \<Rightarrow> client_auth_context \<Rightarrow> runtime_api_response" where
  "authorize sec auth =
     (if sc_require_secure_transport sec \<and> \<not> au_secure_transport auth
      then make_runtime_error_response ''Secure transport is required for this API.''
      else if sc_mode sec = BearerToken \<and> au_bearer_token auth \<noteq> sc_expected_credential sec
      then make_runtime_error_response ''Bearer token authentication failed.''
      else if sc_mode sec = ApiKey \<and> au_api_key auth \<noteq> sc_expected_credential sec
      then make_runtime_error_response ''API key authentication failed.''
      else ok_response)"

definition planned_event :: "string \<Rightarrow> workflow_config \<Rightarrow> assignment \<Rightarrow> workflow_event" where
  "planned_event wid c x =
     (make_event TaskPlanned wid ''Task assignment planned.'')\<lparr>we_task_id := as_task_id x,
        we_actor_id := as_actor_id x, we_start_time := as_start_time x,
        we_end_time := as_start_time x + task_duration_for_id c (as_task_id x)\<rparr>"

definition stream_submit_workflow ::
  "backend_entry list \<Rightarrow> submit_workflow_request \<Rightarrow> runtime_service \<Rightarrow> workflow_event list \<times> runtime_service" where
  "stream_submit_workflow entries req rs =
     (let wid = pw_id (sw_config req); auth = authorize (im_security rs) (sw_auth req) in
      if \<not> ra_ok auth then ([make_response_event RequestRejected wid auth (ra_error_message auth)], rs)
      else
        (let c = to_app_workflow (sw_config req);
             replace_existing = or_default (sw_replace_existing req) True
         in if \<not> replace_existing \<and> umap_contains (im_workflows rs) (wc_id c)
            then (let r = make_runtime_error_response ''Workflow already exists and replace_existing is false.''
                  in ([make_response_event RequestRejected (wc_id c) r (ra_error_message r)], rs))
            else
              (let rs = rs\<lparr>im_workflows := AList.update (wc_id c) c (im_workflows rs)\<rparr>;
                   result = run_optimize entries c
               in ([make_event WorkflowAccepted (wc_id c) ''Workflow accepted and stored.'',
                    make_event ReplanningStarted (wc_id c) ''Initial optimization started.'']
                   @ map (planned_event (wc_id c) c) (rr_assignments result)
                   @ [make_response_event RunFinished (wc_id c) (make_runtime_response result c)
                        ''Initial optimization finished.''], rs))))"

text \<open>\<^verbatim>\<open>std::ranges::find\<close> gives the first task with the id: the update of that one element.\<close>

fun update_first :: "('a \<Rightarrow> bool) \<Rightarrow> ('a \<Rightarrow> 'a) \<Rightarrow> 'a list \<Rightarrow> 'a list" where
  "update_first P f [] = []"
| "update_first P f (x # xs) = (if P x then f x # xs else x # update_first P f xs)"

fun erase_first :: "('a \<Rightarrow> bool) \<Rightarrow> 'a list \<Rightarrow> 'a list" where
  "erase_first P [] = []"
| "erase_first P (x # xs) = (if P x then xs else x # erase_first P xs)"

definition override_task :: "task_state_override \<Rightarrow> task_config \<Rightarrow> task_config" where
  "override_task ov t =
     (let t = (case to_requested_time ov of None \<Rightarrow> t | Some v \<Rightarrow> t\<lparr>tc_requested_time := v\<rparr>);
          t = (case to_deadline ov of None \<Rightarrow> t | Some v \<Rightarrow> t\<lparr>tc_deadline := v\<rparr>);
          t = (case to_priority ov of None \<Rightarrow> t | Some v \<Rightarrow> t\<lparr>tc_priority := narrow_int32 v\<rparr>)
      in case to_pinned_actor_id ov of None \<Rightarrow> t | Some v \<Rightarrow> t\<lparr>tc_allowed_actor_ids := [v]\<rparr>)"

definition apply_task_override :: "task_state_override \<Rightarrow> workflow_config \<Rightarrow> workflow_config" where
  "apply_task_override ov c =
     (if \<not> list_ex (\<lambda>x. tc_id x = to_task_id ov) (wc_tasks c) then c
      else if to_completed ov = Some True then
        remove_completed_task_dependencies (to_task_id ov)
          (c\<lparr>wc_tasks := erase_first (\<lambda>x. tc_id x = to_task_id ov) (wc_tasks c)\<rparr>)
      else c\<lparr>wc_tasks := update_first (\<lambda>x. tc_id x = to_task_id ov) (override_task ov) (wc_tasks c)\<rparr>)"

definition override_actor :: "actor_state_override \<Rightarrow> actor_config \<Rightarrow> actor_config" where
  "override_actor ov a =
     (let a = (case ao_capacity ov of None \<Rightarrow> a | Some v \<Rightarrow> a\<lparr>ac_capacity := v\<rparr>) in
      case ao_unavailable ov of
        None \<Rightarrow> a
      | Some True \<Rightarrow> a\<lparr>ac_windows := []\<rparr>
      | Some False \<Rightarrow>
          if ac_windows a = []
          then a\<lparr>ac_windows := [\<lparr>win_start = kRuntimeOverrideAvailabilityStart, win_end = kRuntimeOverrideAvailabilityEnd\<rparr>]\<rparr>
          else a)"

definition apply_actor_override :: "actor_state_override \<Rightarrow> workflow_config \<Rightarrow> workflow_config" where
  "apply_actor_override ov c =
     c\<lparr>wc_actors := update_first (\<lambda>x. ac_id x = ao_actor_id ov) (override_actor ov) (wc_actors c)\<rparr>"

definition apply_overrides :: "reorchestrate_request \<Rightarrow> workflow_config \<Rightarrow> workflow_config" where
  "apply_overrides req c =
     fold apply_actor_override (rq_actor_overrides req) (fold apply_task_override (rq_task_overrides req) c)"

definition task_override_event :: "string \<Rightarrow> task_state_override \<Rightarrow> workflow_event" where
  "task_override_event wid ov =
     (if to_completed ov = Some True then (make_event TaskCompleted wid ''Task marked completed.'')\<lparr>we_task_id := to_task_id ov\<rparr>
      else (make_event RuntimeOverrideApplied wid ''Task override applied.'')\<lparr>we_task_id := to_task_id ov\<rparr>)"

definition actor_override_event :: "string \<Rightarrow> actor_state_override \<Rightarrow> workflow_event" where
  "actor_override_event wid ov =
     (make_event RuntimeOverrideApplied wid ''Actor override applied.'')\<lparr>we_actor_id := ao_actor_id ov\<rparr>"

definition stream_reorchestrate ::
  "backend_entry list \<Rightarrow> reorchestrate_request \<Rightarrow> runtime_service \<Rightarrow> workflow_event list \<times> runtime_service" where
  "stream_reorchestrate entries req rs =
     (let wid = rq_workflow_id req; auth = authorize (im_security rs) (rq_auth req) in
      if \<not> ra_ok auth then ([make_response_event RequestRejected wid auth (ra_error_message auth)], rs)
      else case map_of (im_workflows rs) wid of
        None \<Rightarrow>
          (let r = make_runtime_error_response ''Workflow session not found.''
           in ([make_response_event RequestRejected wid r (ra_error_message r)], rs))
      | Some stored \<Rightarrow>
          (let c = apply_overrides req stored;
               rs = rs\<lparr>im_workflows := AList.update wid c (im_workflows rs)\<rparr>;
               evs = map (task_override_event wid) (rq_task_overrides req)
                     @ map (actor_override_event wid) (rq_actor_overrides req)
           in if \<not> or_default (rq_trigger_reorchestration req) True
              then (evs @ [make_response_event RunFinished wid ok_response ''Overrides stored without replanning.''], rs)
              else
                (let result = run_optimize entries c
                 in (evs @ [make_event ReplanningStarted wid ''Replanning started.'']
                     @ map (planned_event wid c) (rr_assignments result)
                     @ [make_response_event RunFinished wid (make_runtime_response result c) ''Replanning finished.''], rs))))"

definition submit_workflow ::
  "backend_entry list \<Rightarrow> submit_workflow_request \<Rightarrow> runtime_service \<Rightarrow> runtime_api_response \<times> runtime_service" where
  "submit_workflow entries req rs =
     (let (evs, rs) = stream_submit_workflow entries req rs in (consume_final_response evs, rs))"

definition reorchestrate ::
  "backend_entry list \<Rightarrow> reorchestrate_request \<Rightarrow> runtime_service \<Rightarrow> runtime_api_response \<times> runtime_service" where
  "reorchestrate entries req rs =
     (let (evs, rs) = stream_reorchestrate entries req rs in (consume_final_response evs, rs))"

end
