(* ===== verification/Update_Feed.thy ===== *)
theory Update_Feed
  imports Prelude "HOL-Library.Word"
begin

text \<open>
  \<^verbatim>\<open>control_plane/src/service/workflow_update_feed.cpp\<close>: the in-memory feed of workflow updates. Event
  numbers are 64-bit words. Every operation holds the mutex, so operations of different threads are a
  sequence; a blocked \<^verbatim>\<open>wait_for_update\<close> is given the operations the other threads perform between two
  of its checks.
\<close>

record update_event =
  ue_event_id :: "64 word"
  ue_workflow_id :: string

record update_feed =
  fd_retained_events :: nat
  fd_events :: "update_event list"
  fd_latest_event_id :: "64 word"
  fd_shutting_down :: bool

definition make_in_memory_workflow_update_feed :: "nat \<Rightarrow> update_feed" where
  "make_in_memory_workflow_update_feed retained =
     \<lparr>fd_retained_events = max 1 retained, fd_events = [], fd_latest_event_id = 0, fd_shutting_down = False\<rparr>"

text \<open>\<^verbatim>\<open>while (size() > n) pop_front()\<close>\<close>

fun pop_front_while :: "nat \<Rightarrow> 'a list \<Rightarrow> 'a list" where
  "pop_front_while n [] = []"
| "pop_front_while n (x # xs) = (if length (x # xs) > n then pop_front_while n xs else x # xs)"

definition publish :: "string \<Rightarrow> update_feed \<Rightarrow> update_event \<times> update_feed" where
  "publish wid fd =
     (let event = \<lparr>ue_event_id = fd_latest_event_id fd + 1, ue_workflow_id = wid\<rparr>
      in (event, fd\<lparr>fd_latest_event_id := fd_latest_event_id fd + 1,
                    fd_events := pop_front_while (fd_retained_events fd) (fd_events fd @ [event])\<rparr>))"

definition shutdown :: "update_feed \<Rightarrow> update_feed" where
  "shutdown fd = fd\<lparr>fd_shutting_down := True\<rparr>"

definition feed_ready :: "64 word \<Rightarrow> update_feed \<Rightarrow> bool" where
  "feed_ready after fd \<longleftrightarrow> fd_shutting_down fd \<or> fd_latest_event_id fd > after"

definition newer_event :: "64 word \<Rightarrow> update_feed \<Rightarrow> update_event option" where
  "newer_event after fd =
     (if fd_shutting_down fd then None else find (\<lambda>e. ue_event_id e > after) (fd_events fd))"

datatype feed_action = Publish string | Shutdown

definition feed_step :: "feed_action \<Rightarrow> update_feed \<Rightarrow> update_feed" where
  "feed_step a fd = (case a of Publish wid \<Rightarrow> snd (publish wid fd) | Shutdown \<Rightarrow> shutdown fd)"

text \<open>
  A waiter that is not ready releases the mutex, and checks again when it has woken up and
  reacquired it (a notification, a spurious wake-up, or the timeout): \<open>segs\<close> lists, for each check,
  the operations that other threads performed since the previous one; the last check is the one
  at the timeout. The result carries the feed as the waiter leaves it.
\<close>

fun wait_for_update ::
  "64 word \<Rightarrow> feed_action list list \<Rightarrow> update_feed \<Rightarrow> update_event option \<times> update_feed" where
  "wait_for_update after [] fd = (if feed_ready after fd then newer_event after fd else None, fd)"
| "wait_for_update after (seg # segs) fd =
     (if feed_ready after fd then (newer_event after fd, fd)
      else wait_for_update after segs (fold feed_step seg fd))"

subsection \<open>Contents of the feed\<close>

lemma pop_front_while_drop: "pop_front_while n xs = drop (length xs - n) xs"
  by (induction xs) (auto simp: Suc_diff_le not_less_eq_eq)

definition published :: "nat \<Rightarrow> string list \<Rightarrow> update_feed" where
  "published retained ws = fold (\<lambda>w fd. snd (publish w fd)) ws (make_in_memory_workflow_update_feed retained)"

definition nth_event :: "string list \<Rightarrow> nat \<Rightarrow> update_event" where
  "nth_event ws k = \<lparr>ue_event_id = word_of_nat (Suc k), ue_workflow_id = ws ! k\<rparr>"

lemma published_contents:
  "published retained ws =
     \<lparr>fd_retained_events = max 1 retained,
      fd_events = map (nth_event ws) [length ws - max 1 retained..<length ws],
      fd_latest_event_id = word_of_nat (length ws), fd_shutting_down = False\<rparr>"
proof (induction ws rule: rev_induct)
  case Nil
  then show ?case by (simp add: published_def make_in_memory_workflow_update_feed_def)
next
  case (snoc w ws)
  let ?n = "length ws" and ?r = "max 1 retained"
  have keep: "nth_event (ws @ [w]) i = nth_event ws i" if "i < ?n" for i
    using that by (simp add: nth_event_def nth_append)
  have "drop (length (map (nth_event ws) [?n - ?r..<?n] @ [nth_event (ws @ [w]) ?n]) - ?r)
      (map (nth_event ws) [?n - ?r..<?n] @ [nth_event (ws @ [w]) ?n]) =
      map (nth_event (ws @ [w])) [Suc ?n - ?r..<Suc ?n]"
    using keep by (cases "?r \<le> ?n") (auto simp: drop_map Suc_diff_le min_def max_def split: if_splits)
  then have "pop_front_while ?r (map (nth_event ws) [?n - ?r..<?n] @ [nth_event (ws @ [w]) ?n]) =
      map (nth_event (ws @ [w])) [Suc ?n - ?r..<Suc ?n]"
    by (simp only: pop_front_while_drop)
  moreover have "nth_event (ws @ [w]) ?n = \<lparr>ue_event_id = word_of_nat ?n + 1, ue_workflow_id = w\<rparr>"
    by (simp add: nth_event_def)
  moreover have "published retained (ws @ [w]) = snd (publish w (published retained ws))"
    by (simp add: published_def)
  ultimately show ?case using snoc by (simp add: publish_def Let_def del: upt_Suc)
qed

lemma word_of_nat_less: "a < 2 ^ 64 \<Longrightarrow> b < 2 ^ 64 \<Longrightarrow> (word_of_nat a :: 64 word) < word_of_nat b \<longleftrightarrow> a < b"
  by (simp add: word_less_nat_alt unat_of_nat)

lemma find_map_nth_event:
  "find (\<lambda>e. P (ue_event_id e)) (map (nth_event ws) ks) =
     map_option (nth_event ws) (find (\<lambda>k. P (word_of_nat (Suc k))) ks)"
  by (induction ks) (auto simp: nth_event_def)

lemma find_upt_first:
  assumes "\<And>k. i \<le> k \<Longrightarrow> k < n \<Longrightarrow> P k \<longleftrightarrow> a \<le> k"
  shows "find P [i..<n] = (if max a i < n then Some (max a i) else None)"
proof (cases "max a i < n")
  case True
  have "[i..<n] = [i..<max a i] @ [max a i..<n]"
    using True upt_add_eq_append [of i "max a i" "n - max a i"] by simp
  moreover have "\<not> P k" if "i \<le> k" "k < max a i" for k using assms [of k] that True by auto
  then have "find P [i..<max a i] = None" by (auto simp: find_None_iff)
  moreover have "[max a i..<n] = max a i # [Suc (max a i)..<n]" using True by (simp add: upt_conv_Cons)
  moreover have "find P (xs @ ys) = (case find P xs of None \<Rightarrow> find P ys | Some x \<Rightarrow> Some x)" for xs ys
    by (induction xs) auto
  ultimately show ?thesis using True assms by simp
next
  case False
  then show ?thesis using assms by (auto simp: find_None_iff)
qed

lemma wait_when_ready: "feed_ready after fd \<Longrightarrow> wait_for_update after segs fd = (newer_event after fd, fd)"
  by (cases segs) simp_all

lemma newer_event_published:
  assumes "length ws < 2 ^ 64" and "a \<le> length ws"
  shows "newer_event (word_of_nat a) (published retained ws) =
    (if a < length ws then Some (nth_event ws (max a (length ws - max 1 retained))) else None)"
proof -
  let ?i = "length ws - max 1 retained"
  have "find (\<lambda>k. (word_of_nat a :: 64 word) < word_of_nat (Suc k)) [?i..<length ws] =
      (if max a ?i < length ws then Some (max a ?i) else None)"
    using assms by (intro find_upt_first) (simp add: word_of_nat_less less_Suc_eq_le del: of_nat_Suc)
  then have "find (\<lambda>e. word_of_nat a < ue_event_id e) (map (nth_event ws) [?i..<length ws]) =
      (if max a ?i < length ws then Some (nth_event ws (max a ?i)) else None)"
    by (simp add: find_map_nth_event)
  then show ?thesis using assms
    by (auto simp: published_contents newer_event_def)
qed

lemma ready_published:
  "length ws < 2 ^ 64 \<Longrightarrow> a \<le> length ws \<Longrightarrow>
     feed_ready (word_of_nat a) (published retained ws) \<longleftrightarrow> a < length ws"
  by (simp add: published_contents feed_ready_def word_of_nat_less)

lemma publish_segment:
  "fold feed_step (map Publish us) (published retained ws) = published retained (ws @ us)"
  by (simp add: published_def fold_map comp_def fun_eq_iff feed_step_def [abs_def])

text \<open>C19. Delivery. After the updates \<open>ws\<close> have been published (fewer than \<open>2 ^ 64\<close>), a subscriber
  that has seen the first \<open>a\<close> of them and asks for the next gets update number \<open>a + 1\<close>, or the
  oldest one still retained when it has fallen behind, with its workflow; if it has seen all of
  them it blocks, and gets nothing unless another thread publishes before the timeout; if others
  publish \<open>us\<close> before it gets the mutex back, it gets the oldest of those that is retained. The feed
  never holds more than the configured number of events (at least one).\<close>

theorem feed_delivers_in_order:
  assumes "length ws < 2 ^ 64" and "a \<le> length ws"
  shows "fst (wait_for_update (word_of_nat a) [] (published retained ws)) =
      (if a < length ws then Some (nth_event ws (max a (length ws - max 1 retained))) else None) \<and>
    length (fd_events (published retained ws)) \<le> max 1 retained \<and>
    (a = length ws \<longrightarrow> us \<noteq> [] \<longrightarrow> length (ws @ us) < 2 ^ 64 \<longrightarrow>
      fst (wait_for_update (word_of_nat a) (map Publish us # rest) (published retained ws)) =
        Some (nth_event (ws @ us) (max a (length (ws @ us) - max 1 retained))))"
proof (intro conjI impI)
  show "fst (wait_for_update (word_of_nat a) [] (published retained ws)) =
      (if a < length ws then Some (nth_event ws (max a (length ws - max 1 retained))) else None)"
    using newer_event_published [OF assms] ready_published [OF assms] by simp
  show "length (fd_events (published retained ws)) \<le> max 1 retained"
    by (simp add: published_contents)
next
  assume a: "a = length ws" and us: "us \<noteq> []" "length (ws @ us) < 2 ^ 64"
  then have "wait_for_update (word_of_nat a) (map Publish us # rest) (published retained ws) =
      wait_for_update (word_of_nat a) rest (published retained (ws @ us))"
    using ready_published [OF assms] by (simp add: publish_segment)
  moreover have "a < length (ws @ us)" using a us by simp
  ultimately show "fst (wait_for_update (word_of_nat a) (map Publish us # rest) (published retained ws)) =
      Some (nth_event (ws @ us) (max a (length (ws @ us) - max 1 retained)))"
    using us(2) newer_event_published [of "ws @ us" a] ready_published [of "ws @ us" a]
    by (simp add: wait_when_ready)
qed

theorem feed_delivers_in_order_witness:
  "fst (wait_for_update (word_of_nat 0) [] (published 2 [''w1'', ''w2'', ''w3''])) =
     Some \<lparr>ue_event_id = 2, ue_workflow_id = ''w2''\<rparr>"
  using feed_delivers_in_order [of "[''w1'', ''w2'', ''w3'']" 0 2] by (simp add: nth_event_def)

text \<open>
  A subscriber that has fallen behind the retention is not told that it missed events: the test
  of the repository accepts that; a waiting subscriber is woken by a shutdown with no event.
\<close>

lemma shutdown_sticks: "fd_shutting_down fd \<Longrightarrow> fd_shutting_down (fold feed_step seg fd)"
  by (induction seg arbitrary: fd) (auto simp: feed_step_def publish_def shutdown_def Let_def split: feed_action.splits)

theorem shutdown_wakes_waiters:
  "Shutdown \<in> set seg \<Longrightarrow> \<not> feed_ready after fd \<Longrightarrow> fst (wait_for_update after (seg # segs) fd) = None"
proof -
  assume "Shutdown \<in> set seg" and idle: "\<not> feed_ready after fd"
  then obtain as bs where "seg = as @ Shutdown # bs" by (meson split_list)
  then have "fd_shutting_down (fold feed_step seg fd)"
    using shutdown_sticks by (simp add: feed_step_def shutdown_def)
  with idle show ?thesis
    by (simp add: wait_when_ready feed_ready_def newer_event_def)
qed

end
