(* ===== verification/Plan_Diff.thy ===== *)
theory Plan_Diff
  imports Protocol_Types
begin

text \<open>
  \<^verbatim>\<open>control_plane/src/service/plan_diff.cpp\<close> and \<^verbatim>\<open>integration/in_memory_connector_registry.cpp\<close>. A
  \<^verbatim>\<open>std::map\<close> is an association list sorted by key.
\<close>

subsection \<open>Differences of plans\<close>

type_synonym assignment_map = "(string \<times> pb_assignment) list"

definition index_assignments :: "runtime_api_response \<Rightarrow> assignment_map" where
  "index_assignments r =
     (if \<not> ra_ok r \<or> \<not> pr_result_ok (ra_result r) then []
      else sort_key fst (fold (\<lambda>x. umap_emplace (pg_task_id x) x) (pr_assignments (ra_result r)) []))"

definition assignment_changed :: "pb_assignment \<Rightarrow> pb_assignment \<Rightarrow> bool" where
  "assignment_changed b a \<longleftrightarrow> pg_actor_id b \<noteq> pg_actor_id a \<or> pg_start_time b \<noteq> pg_start_time a \<or>
     pg_end_time b \<noteq> pg_end_time a"

record assignment_diff =
  ad_before :: pb_assignment
  ad_after :: pb_assignment

record workflow_plan_diff =
  wd_added :: "pb_assignment list"
  wd_removed :: "pb_assignment list"
  wd_changed :: "assignment_diff list"

definition diff_one :: "assignment_map \<Rightarrow> string \<times> pb_assignment \<Rightarrow> workflow_plan_diff \<Rightarrow> workflow_plan_diff" where
  "diff_one from_map = (\<lambda>(t, x) d.
     case map_of from_map t of
       None \<Rightarrow> d\<lparr>wd_added := wd_added d @ [x]\<rparr>
     | Some y \<Rightarrow> if assignment_changed y x
                 then d\<lparr>wd_changed := wd_changed d @ [\<lparr>ad_before = y, ad_after = x\<rparr>]\<rparr> else d)"

definition diff_plan_versions :: "runtime_api_response \<Rightarrow> runtime_api_response \<Rightarrow> workflow_plan_diff" where
  "diff_plan_versions from to1 =
     (let from_map = index_assignments from; to_map = index_assignments to1;
          d = fold (diff_one from_map) to_map \<lparr>wd_added = [], wd_removed = [], wd_changed = []\<rparr>
      in d\<lparr>wd_removed := map snd (filter (\<lambda>(t, _). \<not> umap_contains to_map t) from_map)\<rparr>)"

text \<open>Applying a difference to a plan.\<close>

definition apply_diff :: "workflow_plan_diff \<Rightarrow> (string \<rightharpoonup> pb_assignment) \<Rightarrow> (string \<rightharpoonup> pb_assignment)" where
  "apply_diff d m =
     (let gone = set (map pg_task_id (wd_removed d));
          new = map (\<lambda>x. (pg_task_id x, x)) (map ad_after (wd_changed d) @ wd_added d)
      in (\<lambda>t. if t \<in> gone then None else case map_of new t of Some x \<Rightarrow> Some x | None \<Rightarrow> m t))"

lemma apply_diff_find:
  "apply_diff d m t = (if t \<in> set (map pg_task_id (wd_removed d)) then None
     else case find (\<lambda>x. pg_task_id x = t) (map ad_after (wd_changed d) @ wd_added d) of
       Some x \<Rightarrow> Some x | None \<Rightarrow> m t)"
  by (simp only: apply_diff_def Let_def map_of_map_key)

lemma index_keys: "(t, x) \<in> set (index_assignments r) \<Longrightarrow> pg_task_id x = t"
proof -
  have "\<forall>(t, x)\<in>set (fold (\<lambda>x. umap_emplace (pg_task_id x) x) xs []). pg_task_id x = t" for xs
    by (rule fold_invariant_list) (auto simp: umap_emplace_def split: option.splits)
  then show "(t, x) \<in> set (index_assignments r) \<Longrightarrow> pg_task_id x = t"
    by (auto simp: index_assignments_def split: if_splits)
qed

lemma distinct_keys_emplace [simp]:
  "distinct (map fst m) \<Longrightarrow> distinct (map fst (umap_emplace k v m))"
  by (auto simp: umap_emplace_def map_of_eq_None_iff split: option.splits)

lemma index_distinct: "distinct (map fst (index_assignments r))"
proof -
  have "distinct (map fst (fold (\<lambda>x. umap_emplace (pg_task_id x) x) xs []))"
    for xs :: "pb_assignment list"
    by (rule fold_invariant_list) auto
  then show ?thesis
    by (simp add: index_assignments_def distinct_map)
qed

lemma fold_diff_one_added:
  "wd_added (fold (diff_one f) xs d) = wd_added d @ map snd (filter (\<lambda>(t, x). map_of f t = None) xs)"
  by (induction xs arbitrary: d) (auto simp: diff_one_def split: option.splits)

lemma fold_diff_one_changed:
  "set (wd_changed (fold (diff_one f) xs d)) = set (wd_changed d) \<union>
     {\<lparr>ad_before = y, ad_after = x\<rparr> |t x y. (t, x) \<in> set xs \<and> map_of f t = Some y \<and> assignment_changed y x}"
proof (induction xs arbitrary: d)
  case Nil
  then show ?case by simp
next
  case (Cons p xs)
  have "set (wd_changed (diff_one f p d)) = set (wd_changed d) \<union>
     {\<lparr>ad_before = y, ad_after = x\<rparr> |t x y. (t, x) = p \<and> map_of f t = Some y \<and> assignment_changed y x}"
    by (cases p) (auto simp: diff_one_def split: option.splits)
  with Cons.IH [of "diff_one f p d"] show ?case
    by (simp add: set_eq_iff) blast
qed

lemma diff_members:
  fixes a b :: runtime_api_response
  defines "d \<equiv> diff_plan_versions a b"
  shows "x \<in> set (wd_added d) \<longleftrightarrow>
      map_of (index_assignments a) (pg_task_id x) = None \<and> map_of (index_assignments b) (pg_task_id x) = Some x"
    and "x \<in> ad_after ` set (wd_changed d) \<longleftrightarrow> map_of (index_assignments b) (pg_task_id x) = Some x \<and>
      (\<exists>y. map_of (index_assignments a) (pg_task_id x) = Some y \<and> assignment_changed y x)"
    and "x \<in> set (wd_removed d) \<longleftrightarrow>
      map_of (index_assignments a) (pg_task_id x) = Some x \<and> map_of (index_assignments b) (pg_task_id x) = None"
proof -
  have mem: "(t, x) \<in> set (index_assignments r) \<longleftrightarrow> map_of (index_assignments r) t = Some x" for t x r
    using index_distinct by (rule map_of_eq_Some_iff [symmetric])
  have key: "map_of (index_assignments r) t = Some x \<Longrightarrow> pg_task_id x = t" for t x r
    by (rule index_keys [of t x r]) (simp add: mem)
  show "x \<in> set (wd_added d) \<longleftrightarrow>
      map_of (index_assignments a) (pg_task_id x) = None \<and> map_of (index_assignments b) (pg_task_id x) = Some x"
    by (auto simp: d_def diff_plan_versions_def Let_def fold_diff_one_added mem image_iff dest: key)
  show "x \<in> ad_after ` set (wd_changed d) \<longleftrightarrow> map_of (index_assignments b) (pg_task_id x) = Some x \<and>
      (\<exists>y. map_of (index_assignments a) (pg_task_id x) = Some y \<and> assignment_changed y x)"
    unfolding d_def diff_plan_versions_def Let_def image_iff Bex_def
    by (simp add: fold_diff_one_changed mem) (metis key assignment_diff.select_convs(2))
  show "x \<in> set (wd_removed d) \<longleftrightarrow>
      map_of (index_assignments a) (pg_task_id x) = Some x \<and> map_of (index_assignments b) (pg_task_id x) = None"
    by (auto simp: d_def diff_plan_versions_def Let_def umap_contains_def mem image_iff dest: key)
qed

lemma index_find_key: "map_of (index_assignments r) t = Some x \<Longrightarrow> pg_task_id x = t"
  by (rule index_keys [of t x r]) (rule map_of_SomeD)

lemma diff_gone:
  "t \<in> set (map pg_task_id (wd_removed (diff_plan_versions a b))) \<longleftrightarrow>
     map_of (index_assignments a) t \<noteq> None \<and> map_of (index_assignments b) t = None"
  (is "?l \<longleftrightarrow> ?r")
proof
  assume ?l
  then show ?r by (auto simp: diff_members(3))
next
  assume ?r
  then obtain x where x: "map_of (index_assignments a) t = Some x" by blast
  then have "pg_task_id x = t" by (rule index_find_key)
  with x \<open>?r\<close> have "x \<in> set (wd_removed (diff_plan_versions a b))" by (simp add: diff_members(3))
  with \<open>pg_task_id x = t\<close> show ?l by auto
qed

lemma diff_new:
  "x \<in> set (map ad_after (wd_changed (diff_plan_versions a b)) @ wd_added (diff_plan_versions a b)) \<longleftrightarrow>
     map_of (index_assignments b) (pg_task_id x) = Some x \<and>
     (\<forall>y. map_of (index_assignments a) (pg_task_id x) = Some y \<longrightarrow> assignment_changed y x)"
  by (cases "map_of (index_assignments a) (pg_task_id x)") (simp_all add: diff_members(1,2))

lemma unchanged_same:
  "pg_task_id x = pg_task_id y \<Longrightarrow> \<not> assignment_changed y x \<Longrightarrow> (y :: pb_assignment) = x"
  by (simp add: assignment_changed_def)

text \<open>
  C20. The difference of two plan versions is complete: applying it to the first plan gives
  the second, for every pair of responses, failed ones (which count as empty plans)
  included.
\<close>

theorem diff_plan_versions_round_trip:
  "apply_diff (diff_plan_versions a b) (map_of (index_assignments a)) = map_of (index_assignments b)"
proof
  fix t
  let ?a = "map_of (index_assignments a)" and ?b = "map_of (index_assignments b)"
  let ?d = "diff_plan_versions a b"
  show "apply_diff ?d ?a t = ?b t"
  proof (cases "find (\<lambda>x. pg_task_id x = t) (map ad_after (wd_changed ?d) @ wd_added ?d)")
    case (Some x)
    from find_Some_set [OF Some] have "?b t = Some x" unfolding diff_new by blast
    then show ?thesis
      unfolding apply_diff_find Some diff_gone by simp
  next
    case None
    have "?a t = Some x" if x: "?b t = Some x" for x
    proof -
      have "pg_task_id x = t" using x by (rule index_find_key)
      with None have "x \<notin> set (map ad_after (wd_changed ?d) @ wd_added ?d)"
        unfolding find_None_iff by blast
      with x \<open>pg_task_id x = t\<close> obtain y where "?a t = Some y" "\<not> assignment_changed y x"
        unfolding diff_new by blast
      with \<open>pg_task_id x = t\<close> show ?thesis
        using unchanged_same [of x y] index_find_key [of a t y] by simp
    qed
    then have "?a t = ?b t \<or> ?b t = None" by (cases "?b t") simp_all
    then show ?thesis
      unfolding apply_diff_find None diff_gone by auto
  qed
qed

subsection \<open>Connector registry\<close>

datatype connector_kind = WebhookSource | ScheduleSource | QueueConsumer | OutboundCallback | DomainConnector

record connector_binding =
  cb_id :: string
  cb_kind :: connector_kind
  cb_display_name :: string
  cb_target :: string
  cb_enabled :: bool

fun upsert_binding :: "connector_binding \<Rightarrow> connector_binding list \<Rightarrow> connector_binding list" where
  "upsert_binding b [] = [b]"
| "upsert_binding b (c # cs) = (if cb_id c = cb_id b then b # cs else c # upsert_binding b cs)"

definition list_bindings :: "connector_binding list \<Rightarrow> connector_binding list" where
  "list_bindings cs = cs"

definition has_binding :: "string \<Rightarrow> connector_binding list \<Rightarrow> bool" where
  "has_binding i cs \<longleftrightarrow> list_ex (\<lambda>c. cb_id c = i) cs"

lemma upsert_binding_ids:
  "map cb_id (upsert_binding b cs) = push_unique (map cb_id cs) (cb_id b)"
  by (induction cs) (auto simp: push_unique_def)

lemma upsert_binding_find:
  "find (\<lambda>c. cb_id c = i) (upsert_binding b cs) = (if i = cb_id b then Some b else find (\<lambda>c. cb_id c = i) cs)"
  by (induction cs) auto

text \<open>
  The registry behaves like a map from connector ids to bindings that remembers the
  order of first registration: after any sequence of upserts the listed ids are distinct
  and in that order, \<open>has_binding\<close> answers for exactly the ids upserted, and the binding
  listed under an id is the last one upserted for it.
\<close>

theorem connector_registry_is_a_map:
  "map cb_id (list_bindings (fold upsert_binding bs [])) = rev (remdups (rev (map cb_id bs)))
   \<and> has_binding i (fold upsert_binding bs []) = (i \<in> cb_id ` set bs)
   \<and> find (\<lambda>c. cb_id c = i) (list_bindings (fold upsert_binding bs [])) = find (\<lambda>c. cb_id c = i) (rev bs)"
proof (induction bs rule: rev_induct)
  case Nil
  then show ?case by (simp add: list_bindings_def has_binding_def)
next
  case (snoc b bs)
  let ?r = "fold upsert_binding bs []"
  have has: "has_binding i cs \<longleftrightarrow> i \<in> set (map cb_id cs)" for cs
    by (auto simp: has_binding_def list_ex_iff)
  have ids: "map cb_id (upsert_binding b ?r) = push_unique (map cb_id ?r) (cb_id b)"
    by (rule upsert_binding_ids)
  from snoc ids show ?case
    by (auto simp: list_bindings_def has upsert_binding_find push_unique_def)
qed

end
