(* ===== verification/Control_Plane.thy ===== *)
theory Control_Plane
  imports Workflow_Store Runtime_Service Update_Feed Plan_Diff
begin

text \<open>
  \<^verbatim>\<open>control_plane/src/service/control_plan_service.cpp\<close>: the durable control plane above a runtime service.
  The runtime is an interface of the code (\<^verbatim>\<open>WorkflowRuntimeService\<close>), here a record of its operations on
  a state \<open>'rt\<close>; \<open>in_memory_api\<close> is the in-memory runtime. The system clock (one reading per call of
  \<^verbatim>\<open>unix_time_ms_now\<close>) and the fingerprints (a hash of the serialized request) are parameters. A call of the
  store that throws ends the operation with its error. A stream is drained by its caller: the events
  it yields and the state it leaves.
\<close>

subsection \<open>Environment and state\<close>

record 'rt runtime_api =
  rt_stream_submit_workflow :: "submit_workflow_request \<Rightarrow> 'rt \<Rightarrow> workflow_event list \<times> 'rt"
  rt_stream_reorchestrate :: "reorchestrate_request \<Rightarrow> 'rt \<Rightarrow> workflow_event list \<times> 'rt"
  rt_submit_workflow :: "submit_workflow_request \<Rightarrow> 'rt \<Rightarrow> runtime_api_response \<times> 'rt"

definition in_memory_api :: "backend_entry list \<Rightarrow> runtime_service runtime_api" where
  "in_memory_api entries =
     \<lparr>rt_stream_submit_workflow = stream_submit_workflow entries, rt_stream_reorchestrate = stream_reorchestrate entries,
      rt_submit_workflow = submit_workflow entries\<rparr>"

record 'rt control_env =
  ce_runtime :: "'rt runtime_api"
  ce_now :: "nat \<Rightarrow> int"
  ce_fingerprint_submit :: "submit_workflow_request \<Rightarrow> string"
  ce_fingerprint_reorchestrate :: "reorchestrate_request \<Rightarrow> string"

record 'rt control_plane =
  cp_runtime :: 'rt
  cp_store :: workflow_store
  cp_feed :: "update_feed option"
  cp_hydrated :: "string list"
  cp_reads :: nat

definition make_control_plane :: "'rt \<Rightarrow> workflow_store \<Rightarrow> update_feed option \<Rightarrow> 'rt control_plane" where
  "make_control_plane rt st feed =
     \<lparr>cp_runtime = rt, cp_store = st, cp_feed = feed, cp_hydrated = [], cp_reads = 0\<rparr>"

definition unix_time_ms_now :: "'rt control_env \<Rightarrow> 'rt control_plane \<Rightarrow> int \<times> 'rt control_plane" where
  "unix_time_ms_now env s = (ce_now env (cp_reads s), s\<lparr>cp_reads := Suc (cp_reads s)\<rparr>)"

text \<open>A call of the store that may throw, and one that does not.\<close>

definition on_store ::
  "(workflow_store \<Rightarrow> store_error + workflow_store) \<Rightarrow> 'rt control_plane \<Rightarrow> store_error + 'rt control_plane" where
  "on_store f s = bind_result (f (cp_store s)) (\<lambda>st. Inr (s\<lparr>cp_store := st\<rparr>))"

definition save_workflow :: "workflow_record \<Rightarrow> 'rt control_plane \<Rightarrow> 'rt control_plane" where
  "save_workflow r s = s\<lparr>cp_store := upsert_workflow r (cp_store s)\<rparr>"

definition publish_workflow_update :: "string \<Rightarrow> 'rt control_plane \<Rightarrow> 'rt control_plane" where
  "publish_workflow_update wid s =
     (case cp_feed s of
        None \<Rightarrow> s
      | Some fd \<Rightarrow> if wid = [] then s else s\<lparr>cp_feed := Some (snd (publish wid fd))\<rparr>)"

subsection \<open>Helpers\<close>

definition kInternalRecoveryActor :: string where "kInternalRecoveryActor = ''control_plane/recovery''"
definition kInternalControlActor :: string where "kInternalControlActor = ''control_plane''"

definition make_runtime_error :: "string \<Rightarrow> runtime_api_response" where
  "make_runtime_error msg =
     \<lparr>ra_ok = False, ra_result = empty_run_result\<lparr>pr_result_ok := False, pr_result_error := msg\<rparr>, ra_error_message = msg\<rparr>"

definition cp_make_response_event ::
  "workflow_event_type \<Rightarrow> string \<Rightarrow> runtime_api_response \<Rightarrow> string \<Rightarrow> workflow_event" where
  "cp_make_response_event ty wid r detail =
     empty_event\<lparr>we_type := ty, we_workflow_id := wid, we_detail := detail, we_response := Some r\<rparr>"

definition cp_consume_final_response :: "workflow_event list \<Rightarrow> runtime_api_response" where
  "cp_consume_final_response evs = final_response empty_response evs"

definition state_for_terminal_response :: "runtime_api_response \<Rightarrow> workflow_lifecycle_state" where
  "state_for_terminal_response r = (if \<not> ra_ok r \<or> \<not> pr_result_ok (ra_result r) then FailedState else Planned)"

definition state_for_event :: "workflow_event \<Rightarrow> workflow_lifecycle_state \<Rightarrow> workflow_lifecycle_state" where
  "state_for_event e current =
     (case we_type e of
        WorkflowAccepted \<Rightarrow> Submitted
      | ReplanningStarted \<Rightarrow> PlanningState
      | TaskPlanned \<Rightarrow> Planned
      | RunFinished \<Rightarrow> (case we_response e of Some r \<Rightarrow> state_for_terminal_response r | None \<Rightarrow> current)
      | RequestRejected \<Rightarrow> FailedState
      | _ \<Rightarrow> current)"

definition update_summary :: "(workflow_summary \<Rightarrow> workflow_summary) \<Rightarrow> workflow_record \<Rightarrow> workflow_record" where
  "update_summary f r = r\<lparr>wr_summary := f (wr_summary r)\<rparr>"

definition rejection :: "string \<Rightarrow> runtime_api_response \<Rightarrow> workflow_event" where
  "rejection wid r = cp_make_response_event RequestRejected wid r (ra_error_message r)"

definition replay_detail :: string where
  "replay_detail = ''Idempotent replay served from durable control plane.''"

subsection \<open>Recording a stream\<close>

text \<open>The response of an event: plan version and idempotency record.\<close>

definition record_response ::
  "string \<Rightarrow> string \<Rightarrow> string \<Rightarrow> int \<Rightarrow> runtime_api_response \<Rightarrow> workflow_record \<times> 'rt control_plane
     \<Rightarrow> store_error + workflow_record \<times> 'rt control_plane" where
  "record_response wid key fp recorded_at resp = (\<lambda>(r, s).
     let r = r\<lparr>wr_latest_response := Some resp\<rparr> in
     bind_result
       (if \<not> ra_ok resp then Inr (update_summary (\<lambda>m. m\<lparr>ws_last_error_message := ra_error_message resp\<rparr>) r, s)
        else if \<not> pr_result_ok (ra_result resp)
        then Inr (update_summary (\<lambda>m. m\<lparr>ws_last_error_message := pr_result_error (ra_result resp)\<rparr>) r, s)
        else
          (let r = update_summary (\<lambda>m. m\<lparr>ws_last_error_message := []\<rparr>) r;
               version = ws_latest_plan_version (wr_summary r) + 1
           in bind_result
                (on_store (write_plan_version wid
                   \<lparr>pv_version = version, pv_recorded_at = recorded_at, pv_response = resp\<rparr>) s)
                (\<lambda>s. Inr (update_summary (\<lambda>m. m\<lparr>ws_latest_plan_version := version\<rparr>) r, s))))
       (\<lambda>(r, s).
          if key = [] then Inr (r, s)
          else bind_result
                 (on_store (put_idempotency_record
                    \<lparr>ir_key = key, ir_workflow_id = wid, ir_request_fingerprint = fp, ir_recorded_at = recorded_at,
                     ir_cached_response = resp\<rparr>) s)
                 (\<lambda>s. Inr (r, s))))"

text \<open>The body of the loops over the runtime's events.\<close>

definition record_event ::
  "'rt control_env \<Rightarrow> string \<Rightarrow> string \<Rightarrow> string \<Rightarrow> workflow_event \<Rightarrow> workflow_record \<times> 'rt control_plane
     \<Rightarrow> store_error + workflow_record \<times> 'rt control_plane" where
  "record_event env wid key fp e = (\<lambda>(r, s).
     let (recorded_at, s) = unix_time_ms_now env s;
         r = update_summary (\<lambda>m. m\<lparr>ws_updated_at := recorded_at, ws_total_event_count := ws_total_event_count m + 1,
               ws_state := state_for_event e (ws_state m)\<rparr>) r
     in bind_result
          (case we_response e of
             None \<Rightarrow> Inr (r, s)
           | Some resp \<Rightarrow> record_response wid key fp recorded_at resp (r, s))
          (\<lambda>(r, s). bind_result
             (on_store (write_event wid
                \<lparr>ev_sequence = ws_total_event_count (wr_summary r), ev_recorded_at = recorded_at, ev_event = e\<rparr>) s)
             (\<lambda>s. Inr (r, publish_workflow_update wid (save_workflow r s)))))"

fun record_stream ::
  "'rt control_env \<Rightarrow> string \<Rightarrow> string \<Rightarrow> string \<Rightarrow> workflow_event list \<Rightarrow> workflow_record \<times> 'rt control_plane
     \<Rightarrow> store_error + workflow_record \<times> 'rt control_plane" where
  "record_stream env wid key fp [] rs = Inr rs"
| "record_stream env wid key fp (e # es) rs =
     bind_result (record_event env wid key fp e rs) (record_stream env wid key fp es)"

subsection \<open>Submission\<close>

definition key_of :: "string option \<Rightarrow> string" where
  "key_of k = (case k of None \<Rightarrow> [] | Some s \<Rightarrow> s)"

definition submitted_record :: "submit_workflow_request \<Rightarrow> int \<Rightarrow> workflow_store \<Rightarrow> workflow_record" where
  "submitted_record req now st =
     (let wid = pw_id (sw_config req);
          r = (if sw_replace_existing req = Some True then or_default (get_workflow wid st) empty_record else empty_record);
          r = (if ws_workflow_id (wr_summary r) = []
               then update_summary (\<lambda>m. m\<lparr>ws_workflow_id := wid, ws_created_at := now\<rparr>) r else r)
      in (update_summary (\<lambda>m. m\<lparr>ws_state := Submitted, ws_updated_at := now, ws_last_error_message := []\<rparr>) r)
           \<lparr>wr_config := sw_config req\<rparr>)"

definition cp_stream_submit_workflow ::
  "'rt control_env \<Rightarrow> submit_workflow_request \<Rightarrow> 'rt control_plane
     \<Rightarrow> store_error + workflow_event list \<times> 'rt control_plane" where
  "cp_stream_submit_workflow env req s =
     (let wid = pw_id (sw_config req); key = key_of (sw_idempotency_key req); fp = ce_fingerprint_submit env req in
      case (if key = [] then None else get_idempotency_record key (cp_store s)) of
        Some existing \<Rightarrow>
          if ir_request_fingerprint existing \<noteq> fp
          then Inr ([rejection wid (make_runtime_error ''Idempotency key was reused for a different request payload.'')], s)
          else Inr ([cp_make_response_event RunFinished wid (ir_cached_response existing) replay_detail], s)
      | None \<Rightarrow>
          (let (now, s) = unix_time_ms_now env s;
               r = submitted_record req now (cp_store s);
               s = publish_workflow_update wid (save_workflow r s);
               s = s\<lparr>cp_hydrated := push_unique (cp_hydrated s) wid\<rparr>;
               (evs, rt) = rt_stream_submit_workflow (ce_runtime env) req (cp_runtime s)
           in bind_result (record_stream env wid key fp evs (r, s\<lparr>cp_runtime := rt\<rparr>)) (\<lambda>(_, s). Inr (evs, s))))"

definition cp_submit_workflow ::
  "'rt control_env \<Rightarrow> submit_workflow_request \<Rightarrow> 'rt control_plane
     \<Rightarrow> store_error + runtime_api_response \<times> 'rt control_plane" where
  "cp_submit_workflow env req s =
     bind_result (cp_stream_submit_workflow env req s) (\<lambda>(evs, s). Inr (cp_consume_final_response evs, s))"

subsection \<open>Re-orchestration\<close>

definition replay_request :: "pb_workflow_config \<Rightarrow> client_auth_context \<Rightarrow> submit_workflow_request" where
  "replay_request config auth =
     \<lparr>sw_config = config, sw_auth = auth, sw_replace_existing = Some True, sw_idempotency_key = None\<rparr>"

text \<open>Bring a workflow of the store into the runtime; \<open>Some\<close> is the response of a replay that failed.\<close>

definition hydrate ::
  "'rt control_env \<Rightarrow> string \<Rightarrow> pb_workflow_config \<Rightarrow> client_auth_context \<Rightarrow> 'rt control_plane
     \<Rightarrow> runtime_api_response option \<times> 'rt control_plane" where
  "hydrate env wid config auth s =
     (if wid \<in> set (cp_hydrated s) then (None, s)
      else
        (let (resp, rt) = rt_submit_workflow (ce_runtime env) (replay_request config auth) (cp_runtime s);
             s = s\<lparr>cp_runtime := rt\<rparr>
         in if \<not> ra_ok resp then (Some resp, s) else (None, s\<lparr>cp_hydrated := push_unique (cp_hydrated s) wid\<rparr>)))"

definition cp_stream_reorchestrate ::
  "'rt control_env \<Rightarrow> reorchestrate_request \<Rightarrow> 'rt control_plane
     \<Rightarrow> store_error + workflow_event list \<times> 'rt control_plane" where
  "cp_stream_reorchestrate env req s =
     (let wid = rq_workflow_id req in
      case get_workflow wid (cp_store s) of
        None \<Rightarrow> Inr ([rejection wid (make_runtime_error ''Workflow record was not found in the control plane.'')], s)
      | Some r \<Rightarrow>
          if ws_state (wr_summary r) = Paused
          then Inr ([rejection wid (make_runtime_error ''Workflow is paused. Resume it before re-orchestrating.'')], s)
          else if ws_state (wr_summary r) = Cancelled
          then Inr ([rejection wid (make_runtime_error ''Workflow is cancelled and cannot be re-orchestrated.'')], s)
          else if (case rq_expected_plan_version req of None \<Rightarrow> False
                   | Some v \<Rightarrow> v \<noteq> ws_latest_plan_version (wr_summary r))
          then Inr ([rejection wid
                 (make_runtime_error ''Expected plan version does not match the durable control-plane record.'')], s)
          else
            (let (failure, s) = hydrate env wid (wr_config r) (rq_auth req) s in
             case failure of
               Some resp \<Rightarrow> Inr ([rejection wid resp], s)
             | None \<Rightarrow>
                 (let key = key_of (rq_idempotency_key req); fp = ce_fingerprint_reorchestrate env req in
                  case (if key = [] then None else get_idempotency_record key (cp_store s)) of
                    Some existing \<Rightarrow>
                      if ir_request_fingerprint existing \<noteq> fp
                      then Inr ([rejection wid
                             (make_runtime_error ''Idempotency key was reused for a different re-orchestration payload.'')], s)
                      else Inr ([cp_make_response_event RunFinished wid (ir_cached_response existing) replay_detail], s)
                  | None \<Rightarrow>
                      (let (evs, rt) = rt_stream_reorchestrate (ce_runtime env) req (cp_runtime s)
                       in bind_result (record_stream env wid key fp evs (r, s\<lparr>cp_runtime := rt\<rparr>))
                            (\<lambda>(_, s). Inr (evs, s))))))"

definition cp_reorchestrate ::
  "'rt control_env \<Rightarrow> reorchestrate_request \<Rightarrow> 'rt control_plane
     \<Rightarrow> store_error + runtime_api_response \<times> 'rt control_plane" where
  "cp_reorchestrate env req s =
     bind_result (cp_stream_reorchestrate env req s) (\<lambda>(evs, s). Inr (cp_consume_final_response evs, s))"

subsection \<open>Recovery\<close>

definition write_audit ::
  "string \<Rightarrow> int \<Rightarrow> string \<Rightarrow> string \<Rightarrow> string \<Rightarrow> workflow_record \<times> 'rt control_plane
     \<Rightarrow> store_error + workflow_record \<times> 'rt control_plane" where
  "write_audit wid recorded_at actor action detail = (\<lambda>(r, s).
     let n = ws_total_audit_entry_count (wr_summary r) + 1 in
     bind_result
       (on_store (write_audit_entry wid \<lparr>ae_sequence = n, ae_recorded_at = recorded_at, ae_actor = actor,
          ae_action = action, ae_detail = detail\<rparr>) s)
       (\<lambda>s. Inr (update_summary (\<lambda>m. m\<lparr>ws_total_audit_entry_count := n\<rparr>) r, s)))"

definition recover_workflow ::
  "'rt control_env \<Rightarrow> client_auth_context \<Rightarrow> workflow_record \<Rightarrow> 'rt control_plane \<Rightarrow> store_error + 'rt control_plane" where
  "recover_workflow env auth r s =
     (if ws_state (wr_summary r) \<in> {Cancelled, FailedState, StateUnspecified} then Inr s
      else
        (let wid = ws_workflow_id (wr_summary r); (t, s) = unix_time_ms_now env s
         in bind_result
              (write_audit wid t kInternalRecoveryActor ''recover'' ''Rehydrating workflow state into runtime memory.'' (r, s))
              (\<lambda>(r, s).
                 let r = update_summary (\<lambda>m. m\<lparr>ws_updated_at := t\<rparr>) r;
                     s = publish_workflow_update wid (save_workflow r s);
                     (_, rt) = rt_submit_workflow (ce_runtime env) (replay_request (wr_config r) auth) (cp_runtime s)
                 in Inr (s\<lparr>cp_runtime := rt, cp_hydrated := push_unique (cp_hydrated s) wid\<rparr>))))"

fun recover_each ::
  "'rt control_env \<Rightarrow> client_auth_context \<Rightarrow> workflow_record list \<Rightarrow> 'rt control_plane \<Rightarrow> store_error + 'rt control_plane" where
  "recover_each env auth [] s = Inr s"
| "recover_each env auth (r # rs) s = bind_result (recover_workflow env auth r s) (recover_each env auth rs)"

definition recover_active_workflows ::
  "'rt control_env \<Rightarrow> client_auth_context \<Rightarrow> 'rt control_plane \<Rightarrow> store_error + 'rt control_plane" where
  "recover_active_workflows env auth s = recover_each env auth (list_all_workflows (cp_store s)) s"

subsection \<open>Queries\<close>

record get_workflow_response =
  gw_ok :: bool
  gw_workflow :: "workflow_record option"
  gw_error_message :: string

definition cp_get_workflow :: "string \<Rightarrow> 'rt control_plane \<Rightarrow> get_workflow_response" where
  "cp_get_workflow wid s =
     (case get_workflow wid (cp_store s) of
        Some r \<Rightarrow> \<lparr>gw_ok = True, gw_workflow = Some r, gw_error_message = []\<rparr>
      | None \<Rightarrow> \<lparr>gw_ok = False, gw_workflow = None, gw_error_message = ''Workflow record not found.''\<rparr>)"

definition cp_list_workflows :: "list_workflows_request \<Rightarrow> 'rt control_plane \<Rightarrow> workflow_page" where
  "cp_list_workflows q s = list_workflows q (cp_store s)"

definition cp_search_workflows :: "search_workflows_request \<Rightarrow> 'rt control_plane \<Rightarrow> workflow_page" where
  "cp_search_workflows q s = search_workflows q (cp_store s)"

record history_request =
  hq_workflow_id :: string
  hq_max_events :: int
  hq_max_plan_versions :: int
  hq_max_audit_entries :: int

record history_response =
  hr_ok :: bool
  hr_workflow :: "workflow_record option"
  hr_events :: "workflow_event_record list"
  hr_plan_versions :: "workflow_plan_version list"
  hr_audit_entries :: "audit_entry list"
  hr_error_message :: string

text \<open>\<^verbatim>\<open>static_cast<std::size_t>\<close> of an \<^verbatim>\<open>int32\<close>.\<close>

definition size_of_int32 :: "int \<Rightarrow> nat" where
  "size_of_int32 n = unat (word_of_int n :: 64 word)"

definition get_workflow_history :: "history_request \<Rightarrow> 'rt control_plane \<Rightarrow> history_response" where
  "get_workflow_history q s =
     (let wid = hq_workflow_id q in
      case get_workflow wid (cp_store s) of
        Some r \<Rightarrow>
          \<lparr>hr_ok = True, hr_workflow = Some r, hr_events = list_events wid (size_of_int32 (hq_max_events q)) (cp_store s),
           hr_plan_versions = list_plan_versions wid (size_of_int32 (hq_max_plan_versions q)) (cp_store s),
           hr_audit_entries = list_audit_entries wid (size_of_int32 (hq_max_audit_entries q)) (cp_store s),
           hr_error_message = []\<rparr>
      | None \<Rightarrow>
          \<lparr>hr_ok = False, hr_workflow = None, hr_events = [], hr_plan_versions = [], hr_audit_entries = [],
           hr_error_message = ''Workflow record not found.''\<rparr>)"

record plan_diff_response =
  pd_ok :: bool
  pd_diff :: "workflow_plan_diff option"
  pd_error_message :: string

definition get_plan_diff :: "string \<Rightarrow> int \<Rightarrow> int \<Rightarrow> 'rt control_plane \<Rightarrow> plan_diff_response" where
  "get_plan_diff wid from_version to_version s =
     (let plan_versions = list_plan_versions wid 0 (cp_store s) in
      case (find (\<lambda>p. pv_version p = from_version) plan_versions, find (\<lambda>p. pv_version p = to_version) plan_versions) of
        (Some p, Some q) \<Rightarrow>
          \<lparr>pd_ok = True, pd_diff = Some (diff_plan_versions (pv_response p) (pv_response q)), pd_error_message = []\<rparr>
      | _ \<Rightarrow> \<lparr>pd_ok = False, pd_diff = None, pd_error_message = ''Requested plan versions were not found.''\<rparr>)"

subsection \<open>Operator actions\<close>

record action_request =
  aq_workflow_id :: string
  aq_actor :: string
  aq_reason :: string

record action_response =
  ar_ok :: bool
  ar_workflow :: "workflow_record option"
  ar_error_message :: string

definition not_found :: action_response where
  "not_found = \<lparr>ar_ok = False, ar_workflow = None, ar_error_message = ''Workflow record not found.''\<rparr>"

definition or_text :: "string \<Rightarrow> string \<Rightarrow> string" where
  "or_text s d = (if s = [] then d else s)"

text \<open>
  The three actions read the record, store it in its new state, write an audit entry and store the
  record again with the new count; they differ in the state and the texts.
\<close>

definition operator_action ::
  "(workflow_record \<Rightarrow> workflow_lifecycle_state) \<Rightarrow> string \<Rightarrow> string \<Rightarrow> 'rt control_env \<Rightarrow> action_request
     \<Rightarrow> 'rt control_plane \<Rightarrow> store_error + action_response \<times> 'rt control_plane" where
  "operator_action new_state action detail env q s =
     (let wid = aq_workflow_id q in
      case get_workflow wid (cp_store s) of
        None \<Rightarrow> Inr (not_found, s)
      | Some r \<Rightarrow>
          (let (t, s) = unix_time_ms_now env s;
               r = update_summary (\<lambda>m. m\<lparr>ws_state := new_state r, ws_updated_at := t\<rparr>) r;
               s = save_workflow r s;
               (t', s) = unix_time_ms_now env s
           in bind_result
                (write_audit wid t' (or_text (aq_actor q) kInternalControlActor) action (or_text (aq_reason q) detail) (r, s))
                (\<lambda>(r, s). Inr (\<lparr>ar_ok = True, ar_workflow = Some r, ar_error_message = []\<rparr>,
                   publish_workflow_update wid (save_workflow r s)))))"

definition pause_workflow ::
  "'rt control_env \<Rightarrow> action_request \<Rightarrow> 'rt control_plane \<Rightarrow> store_error + action_response \<times> 'rt control_plane" where
  "pause_workflow = operator_action (\<lambda>_. Paused) ''pause'' ''Workflow paused from the control plane.''"

definition resumed_state :: "workflow_record \<Rightarrow> workflow_lifecycle_state" where
  "resumed_state r = (case wr_latest_response r of Some resp \<Rightarrow> if ra_ok resp then Planned else Submitted | None \<Rightarrow> Submitted)"

definition resume_workflow ::
  "'rt control_env \<Rightarrow> action_request \<Rightarrow> 'rt control_plane \<Rightarrow> store_error + action_response \<times> 'rt control_plane" where
  "resume_workflow = operator_action resumed_state ''resume'' ''Workflow resumed from the control plane.''"

definition cancel_workflow ::
  "'rt control_env \<Rightarrow> action_request \<Rightarrow> 'rt control_plane \<Rightarrow> store_error + action_response \<times> 'rt control_plane" where
  "cancel_workflow = operator_action (\<lambda>_. Cancelled) ''cancel'' ''Workflow cancelled from the control plane.''"

record manual_intervention_request =
  mi_workflow_id :: string
  mi_actor :: string
  mi_note :: string
  mi_task_overrides :: "task_state_override list"
  mi_actor_overrides :: "actor_state_override list"
  mi_trigger_reorchestration :: bool
  mi_auth :: client_auth_context
  mi_idempotency_key :: "string option"
  mi_expected_plan_version :: "int option"

definition intervention_request :: "manual_intervention_request \<Rightarrow> reorchestrate_request" where
  "intervention_request q =
     \<lparr>rq_workflow_id = mi_workflow_id q, rq_task_overrides = mi_task_overrides q,
      rq_actor_overrides = mi_actor_overrides q, rq_auth = mi_auth q,
      rq_trigger_reorchestration = Some (mi_trigger_reorchestration q), rq_idempotency_key = mi_idempotency_key q,
      rq_expected_plan_version = mi_expected_plan_version q\<rparr>"

definition apply_manual_intervention ::
  "'rt control_env \<Rightarrow> manual_intervention_request \<Rightarrow> 'rt control_plane
     \<Rightarrow> store_error + action_response \<times> 'rt control_plane" where
  "apply_manual_intervention env q s =
     (let wid = mi_workflow_id q in
      case get_workflow wid (cp_store s) of
        None \<Rightarrow> Inr (not_found, s)
      | Some r \<Rightarrow>
          (let (t, s) = unix_time_ms_now env s in
           bind_result
             (write_audit wid t (or_text (mi_actor q) kInternalControlActor) ''manual_intervention''
                (or_text (mi_note q) ''Manual intervention applied.'') (r, s))
             (\<lambda>(r, s).
                bind_result (cp_reorchestrate env (intervention_request q) (publish_workflow_update wid (save_workflow r s)))
                  (\<lambda>(resp, s). Inr (\<lparr>ar_ok = ra_ok resp, ar_workflow = get_workflow wid (cp_store s),
                     ar_error_message = (if ra_ok resp then [] else ra_error_message resp)\<rparr>, s)))))"

end
