(* ===== verification/Grpc_Transport.thy ===== *)
theory Grpc_Transport
  imports Tls_Credentials Control_Plane
begin

text \<open>
  \<^verbatim>\<open>protocol/src/grpc_transport.cpp\<close> and \<^verbatim>\<open>detail/grpc_transport_detail.hpp\<close>: the call objects of the
  asynchronous gRPC server and client. A call object hands operations to the gRPC library with its own
  address as tag, and the library calls it back (\<^verbatim>\<open>proceed\<close>, \<^verbatim>\<open>complete\<close>) once for each operation, in any order.
  A call-back and each critical section of a worker is one step; its effects on the library are
  outputs. The systems below put a call object together with the operations in flight and the worker
  thread, and record what would be undefined behaviour as a fault.
\<close>

subsection \<open>Credentials and errors\<close>

definition kBearerPrefix :: string where "kBearerPrefix = ''Bearer ''"
definition kAuthorizationHeader :: string where "kAuthorizationHeader = ''authorization''"
definition kApiKeyHeader :: string where "kApiKeyHeader = ''x-api-key''"

text \<open>\<open>metadata\<close> is the client metadata, a multimap: \<^verbatim>\<open>find\<close> gives the first entry.\<close>

definition apply_metadata_auth ::
  "(string \<times> string) list \<Rightarrow> bool \<Rightarrow> client_auth_context \<Rightarrow> client_auth_context" where
  "apply_metadata_auth metadata secure_transport auth =
     (let auth =
        (case map_of metadata kAuthorizationHeader of
           None \<Rightarrow> auth
         | Some v \<Rightarrow> if au_bearer_token auth = [] \<and> starts_with v kBearerPrefix
                     then auth\<lparr>au_bearer_token := drop (length kBearerPrefix) v\<rparr> else auth);
        auth =
        (case map_of metadata kApiKeyHeader of
           None \<Rightarrow> auth
         | Some v \<Rightarrow> if au_api_key auth = [] then auth\<lparr>au_api_key := v\<rparr> else auth)
      in auth\<lparr>au_secure_transport := secure_transport\<rparr>)"

definition make_transport_error_response :: "string \<Rightarrow> runtime_api_response" where
  "make_transport_error_response msg =
     \<lparr>ra_ok = False, ra_result = empty_run_result\<lparr>pr_result_ok := False, pr_result_error := msg\<rparr>, ra_error_message = msg\<rparr>"

definition make_transport_error_event :: "string \<Rightarrow> string \<Rightarrow> workflow_event" where
  "make_transport_error_event wid detail =
     empty_event\<lparr>we_type := RequestRejected, we_workflow_id := wid, we_detail := detail,
       we_response := Some (make_transport_error_response detail)\<rparr>"

definition effective_cq_thread_count :: "nat \<Rightarrow> nat" where
  "effective_cq_thread_count n = max 1 n"

definition make_grpc_target :: "string \<Rightarrow> int \<Rightarrow> string" where
  "make_grpc_target host port = host @ '':'' @ to_string port"

definition validate_grpc_client_invocation_state :: "string \<Rightarrow> bool \<Rightarrow> runtime_api_response option" where
  "validate_grpc_client_invocation_state startup_error has_stub =
     (if startup_error \<noteq> [] then Some (make_transport_error_response (''gRPC transport failed: '' @ startup_error))
      else if \<not> has_stub
      then Some (make_transport_error_response ''gRPC transport failed: client stub is not initialized.'')
      else None)"

text \<open>The metadata a client sends with a call.\<close>

definition populate_client_context :: "string \<Rightarrow> string \<Rightarrow> (string \<times> string) list" where
  "populate_client_context bearer_token api_key =
     (if bearer_token = [] then [] else [(kAuthorizationHeader, kBearerPrefix @ bearer_token)]) @
     (if api_key = [] then [] else [(kApiKeyHeader, api_key)])"

subsection \<open>Operations of the library\<close>

datatype grpc_op = RequestOp | AlarmOp | WriteOp | FinishOp

datatype grpc_fault = UseAfterFree | OverlappingWrite

text \<open>What a step of a server call asks for.\<close>

datatype call_output = StartListening | SubmitWork | SetAlarm | StartWrite workflow_event
  | StartFinish "runtime_api_response option" | Destroy

subsection \<open>Unary server calls\<close>

datatype unary_state = URequesting | UWaitingForResponse | UFinishing | UCompleted

record unary_call =
  uc_state :: unary_state
  uc_refs :: int
  uc_response :: runtime_api_response
  uc_notification_pending :: bool

definition unary_release_reference :: "unary_call \<Rightarrow> unary_call \<times> call_output list" where
  "unary_release_reference c = (c\<lparr>uc_refs := uc_refs c - 1\<rparr>, if uc_refs c = 1 then [Destroy] else [])"

definition unary_handle_response_ready :: "unary_call \<Rightarrow> unary_call \<times> call_output list" where
  "unary_handle_response_ready c =
     (c\<lparr>uc_notification_pending := False, uc_state := UFinishing\<rparr>, [StartFinish (Some (uc_response c))])"

definition unary_proceed :: "bool \<Rightarrow> unary_call \<Rightarrow> unary_call \<times> call_output list" where
  "unary_proceed ok c =
     (case uc_state c of
        URequesting \<Rightarrow>
          if \<not> ok then unary_release_reference c
          else (c\<lparr>uc_state := UWaitingForResponse, uc_refs := uc_refs c + 1\<rparr>, [StartListening, SubmitWork])
      | UWaitingForResponse \<Rightarrow>
          if \<not> ok then unary_release_reference (c\<lparr>uc_state := UCompleted\<rparr>) else unary_handle_response_ready c
      | UFinishing \<Rightarrow> unary_release_reference (c\<lparr>uc_state := UCompleted\<rparr>)
      | UCompleted \<Rightarrow> unary_release_reference c)"

text \<open>\<open>queue_open\<close> is \<^verbatim>\<open>impl_.completion_queue != nullptr\<close>.\<close>

definition unary_schedule_notification :: "bool \<Rightarrow> unary_call \<Rightarrow> unary_call \<times> call_output list" where
  "unary_schedule_notification queue_open c =
     (if uc_notification_pending c \<or> \<not> queue_open then (c, []) else (c\<lparr>uc_notification_pending := True\<rparr>, [SetAlarm]))"

text \<open>The worker: run the request, store the response, notify, release.\<close>

datatype unary_worker = UNoWorker | UExecuting | UNotifying | UReleasing | UWorkerDone

record unary_system =
  us_call :: unary_call
  us_inflight :: "grpc_op list"
  us_worker :: unary_worker
  us_sent :: "runtime_api_response list"
  us_alive :: bool
  us_faults :: "grpc_fault list"

definition empty_unary_call :: unary_call where
  "empty_unary_call = \<lparr>uc_state = URequesting, uc_refs = 1, uc_response = empty_response, uc_notification_pending = False\<rparr>"

definition unary_start :: unary_system where
  "unary_start = \<lparr>us_call = empty_unary_call, us_inflight = [RequestOp], us_worker = UNoWorker, us_sent = [],
     us_alive = True, us_faults = []\<rparr>"

fun unary_output :: "call_output \<Rightarrow> unary_system \<Rightarrow> unary_system" where
  "unary_output StartListening s = s"
| "unary_output SubmitWork s = s\<lparr>us_worker := UExecuting\<rparr>"
| "unary_output SetAlarm s = s\<lparr>us_inflight := AlarmOp # us_inflight s\<rparr>"
| "unary_output (StartWrite e) s = s\<lparr>us_inflight := WriteOp # us_inflight s\<rparr>"
| "unary_output (StartFinish r) s =
     s\<lparr>us_inflight := FinishOp # us_inflight s, us_sent := us_sent s @ (case r of None \<Rightarrow> [] | Some x \<Rightarrow> [x])\<rparr>"
| "unary_output Destroy s = s\<lparr>us_alive := False\<rparr>"

definition unary_effect :: "unary_call \<times> call_output list \<Rightarrow> unary_system \<Rightarrow> unary_system" where
  "unary_effect = (\<lambda>(c, outs) s. fold unary_output outs (s\<lparr>us_call := c\<rparr>))"

datatype unary_action = UDeliver grpc_op bool | UWork bool

definition unary_touch :: "(unary_system \<Rightarrow> unary_system) \<Rightarrow> unary_system \<Rightarrow> unary_system" where
  "unary_touch f s = (if us_alive s then f s else s\<lparr>us_faults := UseAfterFree # us_faults s\<rparr>)"

text \<open>\<open>response\<close> is what the service answers to the request with the metadata's credentials.\<close>

definition unary_work :: "runtime_api_response \<Rightarrow> bool \<Rightarrow> unary_system \<Rightarrow> unary_system option" where
  "unary_work response queue_open s =
     (case us_worker s of
        UExecuting \<Rightarrow> Some (unary_touch (\<lambda>s. s\<lparr>us_call := (us_call s)\<lparr>uc_response := response\<rparr>\<rparr>) (s\<lparr>us_worker := UNotifying\<rparr>))
      | UNotifying \<Rightarrow>
          Some (unary_touch (\<lambda>s. unary_effect (unary_schedule_notification queue_open (us_call s)) s) (s\<lparr>us_worker := UReleasing\<rparr>))
      | UReleasing \<Rightarrow>
          Some (unary_touch (\<lambda>s. unary_effect (unary_release_reference (us_call s)) s) (s\<lparr>us_worker := UWorkerDone\<rparr>))
      | _ \<Rightarrow> None)"

definition unary_exec :: "runtime_api_response \<Rightarrow> unary_action \<Rightarrow> unary_system \<Rightarrow> unary_system option" where
  "unary_exec response a s =
     (case a of
        UDeliver p ok \<Rightarrow>
          if p \<in> set (us_inflight s)
          then Some (unary_touch (\<lambda>s. unary_effect (unary_proceed ok (us_call s)) s)
                 (s\<lparr>us_inflight := remove1 p (us_inflight s)\<rparr>))
          else None
      | UWork queue_open \<Rightarrow> unary_work response queue_open s)"

subsection \<open>Streaming server calls\<close>

datatype stream_state = SRequesting | SWaitingForEvent | SWriting | SFinishing | SCompleted

record stream_call =
  gs_state :: stream_state
  gs_refs :: int
  gs_pending :: "workflow_event list"
  gs_producer_complete :: bool
  gs_client_closed :: bool
  gs_notification_pending :: bool

definition release_reference :: "stream_call \<Rightarrow> stream_call \<times> call_output list" where
  "release_reference c = (c\<lparr>gs_refs := gs_refs c - 1\<rparr>, if gs_refs c = 1 then [Destroy] else [])"

definition schedule_notification_locked :: "bool \<Rightarrow> stream_call \<Rightarrow> stream_call \<times> call_output list" where
  "schedule_notification_locked queue_open c =
     (if gs_notification_pending c \<or> \<not> queue_open then (c, []) else (c\<lparr>gs_notification_pending := True\<rparr>, [SetAlarm]))"

text \<open>\<open>None\<close> is the result \<^verbatim>\<open>false\<close>: the client has gone.\<close>

definition enqueue_event :: "bool \<Rightarrow> workflow_event \<Rightarrow> stream_call \<Rightarrow> (stream_call \<times> call_output list) option" where
  "enqueue_event queue_open e c =
     (if gs_client_closed c then None
      else Some (schedule_notification_locked queue_open (c\<lparr>gs_pending := gs_pending c @ [e]\<rparr>)))"

definition mark_producer_complete :: "bool \<Rightarrow> stream_call \<Rightarrow> stream_call \<times> call_output list" where
  "mark_producer_complete queue_open c = schedule_notification_locked queue_open (c\<lparr>gs_producer_complete := True\<rparr>)"

definition handle_notification :: "stream_call \<Rightarrow> stream_call \<times> call_output list" where
  "handle_notification c =
     (let c = c\<lparr>gs_notification_pending := False\<rparr> in
      case gs_pending c of
        e # es \<Rightarrow> (c\<lparr>gs_pending := es, gs_state := SWriting\<rparr>, [StartWrite e])
      | [] \<Rightarrow> if gs_producer_complete c then (c\<lparr>gs_state := SFinishing\<rparr>, [StartFinish None]) else (c, []))"

definition handle_write_complete :: "bool \<Rightarrow> stream_call \<Rightarrow> stream_call \<times> call_output list" where
  "handle_write_complete ok c =
     (if \<not> ok then release_reference (c\<lparr>gs_client_closed := True, gs_pending := [], gs_state := SCompleted\<rparr>)
      else
        case gs_pending c of
          e # es \<Rightarrow> (c\<lparr>gs_pending := es, gs_state := SWriting\<rparr>, [StartWrite e])
        | [] \<Rightarrow> if gs_producer_complete c then (c\<lparr>gs_state := SFinishing\<rparr>, [StartFinish None])
                else (c\<lparr>gs_state := SWaitingForEvent\<rparr>, []))"

definition stream_proceed :: "bool \<Rightarrow> stream_call \<Rightarrow> stream_call \<times> call_output list" where
  "stream_proceed ok c =
     (case gs_state c of
        SRequesting \<Rightarrow>
          if \<not> ok then release_reference c
          else (c\<lparr>gs_state := SWaitingForEvent, gs_refs := gs_refs c + 1\<rparr>, [StartListening, SubmitWork])
      | SWaitingForEvent \<Rightarrow>
          if \<not> ok then release_reference (c\<lparr>gs_state := SCompleted\<rparr>) else handle_notification c
      | SWriting \<Rightarrow> handle_write_complete ok c
      | SFinishing \<Rightarrow> release_reference (c\<lparr>gs_state := SCompleted\<rparr>)
      | SCompleted \<Rightarrow> release_reference c)"

text \<open>
  The worker runs \<^verbatim>\<open>produce_events\<close>: the events the service's generator still yields, then the error
  event if the generator failed, then \<^verbatim>\<open>mark_producer_complete\<close> and the release.
\<close>

datatype stream_worker = NoWorker | Producing "workflow_event list" | Failing | Completing | Releasing | WorkerDone

record stream_system =
  ss_call :: stream_call
  ss_inflight :: "grpc_op list"
  ss_worker :: stream_worker
  ss_written :: "workflow_event list"
  ss_finished :: bool
  ss_alive :: bool
  ss_faults :: "grpc_fault list"

definition empty_stream_call :: stream_call where
  "empty_stream_call = \<lparr>gs_state = SRequesting, gs_refs = 1, gs_pending = [], gs_producer_complete = False,
     gs_client_closed = False, gs_notification_pending = False\<rparr>"

definition stream_start :: stream_system where
  "stream_start = \<lparr>ss_call = empty_stream_call, ss_inflight = [RequestOp], ss_worker = NoWorker, ss_written = [],
     ss_finished = False, ss_alive = True, ss_faults = []\<rparr>"

text \<open>The library allows one write at a time, and no \<^verbatim>\<open>Finish\<close> during a write.\<close>

definition overlap_fault :: "stream_system \<Rightarrow> grpc_fault list" where
  "overlap_fault s = (if WriteOp \<in> set (ss_inflight s) then OverlappingWrite # ss_faults s else ss_faults s)"

fun stream_output :: "workflow_event list \<Rightarrow> call_output \<Rightarrow> stream_system \<Rightarrow> stream_system" where
  "stream_output evs StartListening s = s"
| "stream_output evs SubmitWork s = s\<lparr>ss_worker := Producing evs\<rparr>"
| "stream_output evs SetAlarm s = s\<lparr>ss_inflight := AlarmOp # ss_inflight s\<rparr>"
| "stream_output evs (StartWrite e) s =
     s\<lparr>ss_inflight := WriteOp # ss_inflight s, ss_written := ss_written s @ [e], ss_faults := overlap_fault s\<rparr>"
| "stream_output evs (StartFinish r) s =
     s\<lparr>ss_inflight := FinishOp # ss_inflight s, ss_finished := True, ss_faults := overlap_fault s\<rparr>"
| "stream_output evs Destroy s = s\<lparr>ss_alive := False\<rparr>"

definition stream_effect ::
  "workflow_event list \<Rightarrow> stream_call \<times> call_output list \<Rightarrow> stream_system \<Rightarrow> stream_system" where
  "stream_effect evs = (\<lambda>(c, outs) s. fold (stream_output evs) outs (s\<lparr>ss_call := c\<rparr>))"

definition stream_touch :: "(stream_system \<Rightarrow> stream_system) \<Rightarrow> stream_system \<Rightarrow> stream_system" where
  "stream_touch f s = (if ss_alive s then f s else s\<lparr>ss_faults := UseAfterFree # ss_faults s\<rparr>)"

text \<open>
  One step of the worker: \<open>evs\<close> are the events of the generator and \<open>failure\<close> its error event, if it
  fails after them.
\<close>

definition stream_enqueue ::
  "workflow_event list \<Rightarrow> bool \<Rightarrow> workflow_event \<Rightarrow> stream_worker \<Rightarrow> stream_system \<Rightarrow> stream_system" where
  "stream_enqueue evs queue_open e continue s =
     (case enqueue_event queue_open e (ss_call s) of
        None \<Rightarrow> s\<lparr>ss_worker := Completing\<rparr>
      | Some r \<Rightarrow> stream_effect evs r (s\<lparr>ss_worker := continue\<rparr>))"

definition stream_work ::
  "workflow_event list \<Rightarrow> workflow_event option \<Rightarrow> bool \<Rightarrow> stream_system \<Rightarrow> stream_system option" where
  "stream_work evs failure queue_open s =
     (case ss_worker s of
        Producing (e # es) \<Rightarrow> Some (stream_touch (stream_enqueue evs queue_open e (Producing es)) s)
      | Producing [] \<Rightarrow> Some (s\<lparr>ss_worker := (if failure = None then Completing else Failing)\<rparr>)
      | Failing \<Rightarrow> Some (stream_touch (stream_enqueue evs queue_open (the failure) Completing) s)
      | Completing \<Rightarrow>
          Some (stream_touch (\<lambda>s. stream_effect evs (mark_producer_complete queue_open (ss_call s)) (s\<lparr>ss_worker := Releasing\<rparr>)) s)
      | Releasing \<Rightarrow>
          Some (stream_touch (\<lambda>s. stream_effect evs (release_reference (ss_call s)) (s\<lparr>ss_worker := WorkerDone\<rparr>)) s)
      | _ \<Rightarrow> None)"

datatype stream_action = Deliver grpc_op bool | Work bool

definition stream_exec ::
  "workflow_event list \<Rightarrow> workflow_event option \<Rightarrow> stream_action \<Rightarrow> stream_system \<Rightarrow> stream_system option" where
  "stream_exec evs failure a s =
     (case a of
        Deliver p ok \<Rightarrow>
          if p \<in> set (ss_inflight s)
          then Some (stream_touch (\<lambda>s. stream_effect evs (stream_proceed ok (ss_call s)) s)
                 (s\<lparr>ss_inflight := remove1 p (ss_inflight s)\<rparr>))
          else None
      | Work queue_open \<Rightarrow> stream_work evs failure queue_open s)"

subsection \<open>The client's stream\<close>

text \<open>
  \<^verbatim>\<open>AsyncClientStreamState\<close>: a queue between the completion-queue thread and the consumer. The cancel
  call-back asks the library to cancel the call; \<open>qs_cancelled\<close> records that it was invoked.
\<close>

record client_stream_state =
  qs_pending :: "workflow_event list"
  qs_cancel_callback :: bool
  qs_closed :: bool
  qs_cancel_requested :: bool
  qs_cancelled :: bool

definition empty_stream_state :: client_stream_state where
  "empty_stream_state = \<lparr>qs_pending = [], qs_cancel_callback = False, qs_closed = False, qs_cancel_requested = False,
     qs_cancelled = False\<rparr>"

definition push_event :: "workflow_event \<Rightarrow> client_stream_state \<Rightarrow> client_stream_state" where
  "push_event e q = (if qs_closed q then q else q\<lparr>qs_pending := qs_pending q @ [e]\<rparr>)"

definition close_stream :: "client_stream_state \<Rightarrow> client_stream_state" where
  "close_stream q = q\<lparr>qs_closed := True, qs_cancel_callback := False\<rparr>"

text \<open>
  \<^verbatim>\<open>wait_next\<close> blocks (\<open>None\<close>) until there is an event or the state is closed; its result is the event,
  or the end of the stream.
\<close>

definition wait_next :: "client_stream_state \<Rightarrow> (workflow_event option \<times> client_stream_state) option" where
  "wait_next q =
     (case qs_pending q of
        e # es \<Rightarrow> Some (Some e, q\<lparr>qs_pending := es\<rparr>)
      | [] \<Rightarrow> if qs_closed q then Some (None, q) else None)"

definition set_cancel_callback :: "client_stream_state \<Rightarrow> client_stream_state" where
  "set_cancel_callback q =
     (if qs_closed q then q
      else if qs_cancel_requested q then q\<lparr>qs_cancelled := True\<rparr>
      else q\<lparr>qs_cancel_callback := True\<rparr>)"

definition clear_cancel_callback :: "client_stream_state \<Rightarrow> client_stream_state" where
  "clear_cancel_callback q = q\<lparr>qs_cancel_callback := False\<rparr>"

definition request_cancel :: "client_stream_state \<Rightarrow> client_stream_state" where
  "request_cancel q =
     (if qs_closed q \<or> qs_cancel_requested q then q
      else q\<lparr>qs_cancel_requested := True, qs_cancelled := qs_cancelled q \<or> qs_cancel_callback q\<rparr>)"

text \<open>\<^verbatim>\<open>StreamingClientCall\<close>; \<open>wid\<close> is the workflow of the request.\<close>

datatype client_call_state = CStarting | CReading | CFinishing | CCompleted

datatype client_op = StartCallOp | ReadOp | FinishCallOp

record client_call =
  cc_state :: client_call_state
  cc_stream :: client_stream_state
  cc_inflight :: "client_op option"
  cc_deleted :: bool

definition finish_and_delete :: "client_call \<Rightarrow> client_call" where
  "finish_and_delete c =
     c\<lparr>cc_stream := close_stream (clear_cancel_callback (cc_stream c)), cc_state := CCompleted, cc_deleted := True\<rparr>"

definition push_error :: "string \<Rightarrow> string \<Rightarrow> client_call \<Rightarrow> client_call" where
  "push_error wid msg c =
     (if qs_cancel_requested (cc_stream c) then c
      else c\<lparr>cc_stream := push_event (make_transport_error_event wid msg) (cc_stream c)\<rparr>)"

text \<open>The constructor and \<^verbatim>\<open>start\<close>; \<open>has_reader\<close> is that the stub returned a reader.\<close>

definition start_client_call :: "string \<Rightarrow> bool \<Rightarrow> client_call" where
  "start_client_call wid has_reader =
     (let q = set_cancel_callback empty_stream_state;
          c = \<lparr>cc_state = CStarting, cc_stream = q, cc_inflight = None, cc_deleted = False\<rparr>
      in if \<not> has_reader
         then finish_and_delete (c\<lparr>cc_stream := push_event (make_transport_error_event wid
                ''gRPC transport failed: streaming reader is not initialized.'') q\<rparr>)
         else c\<lparr>cc_inflight := Some StartCallOp\<rparr>)"

text \<open>
  What the library reports: a started call, a read event, the end of the reads, the final status
  (\<open>None\<close> is an OK status), or that the completion queue is shut down.
\<close>

datatype client_completion = Started | ReadEvent workflow_event | EndOfReads | FinalStatus "string option" | NotOk

definition complete_client_call :: "string \<Rightarrow> client_completion \<Rightarrow> client_call \<Rightarrow> client_call" where
  "complete_client_call wid r c =
     (case cc_state c of
        CStarting \<Rightarrow>
          if r = NotOk
          then finish_and_delete (push_error wid ''gRPC transport failed: asynchronous stream start failed.'' c)
          else c\<lparr>cc_state := CReading, cc_inflight := Some ReadOp\<rparr>
      | CReading \<Rightarrow>
          (case r of
             ReadEvent e \<Rightarrow> c\<lparr>cc_stream := push_event e (cc_stream c), cc_inflight := Some ReadOp\<rparr>
           | _ \<Rightarrow> c\<lparr>cc_state := CFinishing, cc_inflight := Some FinishCallOp\<rparr>)
      | CFinishing \<Rightarrow>
          finish_and_delete
            (case r of
               FinalStatus None \<Rightarrow> c
             | FinalStatus (Some msg) \<Rightarrow> push_error wid (''gRPC transport failed: '' @ msg) c
             | _ \<Rightarrow> push_error wid ''gRPC transport failed: asynchronous completion queue shutdown.'' c)
      | CCompleted \<Rightarrow> finish_and_delete c)"

text \<open>Which completions answer which operation.\<close>

fun answers :: "client_completion \<Rightarrow> client_op \<Rightarrow> bool" where
  "answers Started StartCallOp = True"
| "answers NotOk StartCallOp = True"
| "answers (ReadEvent e) ReadOp = True"
| "answers EndOfReads ReadOp = True"
| "answers NotOk ReadOp = True"
| "answers (FinalStatus m) FinishCallOp = True"
| "answers NotOk FinishCallOp = True"
| "answers _ _ = False"

text \<open>
  \<^verbatim>\<open>make_stream_generator\<close>: the consumer yields what \<^verbatim>\<open>wait_next\<close> returns until the end; destroying the
  generator early requests the cancellation. \<open>cs_read\<close> are the events the library has delivered and
  \<open>cs_last\<close> is its last report.
\<close>

record client_system =
  cs_call :: client_call
  cs_read :: "workflow_event list"
  cs_last :: "client_completion option"
  cs_yielded :: "workflow_event list"
  cs_ended :: bool
  cs_dropped :: bool

datatype client_action = Complete client_completion | Next | Drop

definition client_exec :: "string \<Rightarrow> client_action \<Rightarrow> client_system \<Rightarrow> client_system option" where
  "client_exec wid a s =
     (case a of
        Complete r \<Rightarrow>
          (case cc_inflight (cs_call s) of
             Some p \<Rightarrow>
               if answers r p
               then Some (s\<lparr>cs_call := complete_client_call wid r ((cs_call s)\<lparr>cc_inflight := None\<rparr>),
                       cs_read := cs_read s @ (case r of ReadEvent e \<Rightarrow> [e] | _ \<Rightarrow> []), cs_last := Some r\<rparr>)
               else None
           | None \<Rightarrow> None)
      | Next \<Rightarrow>
          if cs_ended s \<or> cs_dropped s then None
          else (case wait_next (cc_stream (cs_call s)) of
                  None \<Rightarrow> None
                | Some (Some e, q) \<Rightarrow>
                    Some (s\<lparr>cs_call := (cs_call s)\<lparr>cc_stream := q\<rparr>, cs_yielded := cs_yielded s @ [e]\<rparr>)
                | Some (None, q) \<Rightarrow>
                    Some (s\<lparr>cs_call := (cs_call s)\<lparr>cc_stream := request_cancel q\<rparr>, cs_ended := True\<rparr>))
      | Drop \<Rightarrow>
          if cs_ended s \<or> cs_dropped s then None
          else Some (s\<lparr>cs_call := (cs_call s)\<lparr>cc_stream := request_cancel (cc_stream (cs_call s))\<rparr>, cs_dropped := True\<rparr>))"

definition client_start :: "string \<Rightarrow> bool \<Rightarrow> client_system" where
  "client_start wid has_reader = \<lparr>cs_call = start_client_call wid has_reader, cs_read = [], cs_last = None, cs_yielded = [],
     cs_ended = False, cs_dropped = False\<rparr>"

text \<open>\<^verbatim>\<open>UnaryClientCall\<close>: the response the future gets.\<close>

definition unary_client_result :: "bool \<Rightarrow> bool \<Rightarrow> string option \<Rightarrow> runtime_api_response \<Rightarrow> runtime_api_response" where
  "unary_client_result has_reader ok status response =
     (if \<not> has_reader
      then make_transport_error_response ''gRPC transport failed: asynchronous response reader is not initialized.''
      else if \<not> ok
      then make_transport_error_response ''gRPC transport failed: asynchronous completion queue shutdown.''
      else case status of
             Some msg \<Rightarrow> make_transport_error_response (''gRPC transport failed: '' @ msg)
           | None \<Rightarrow> response)"

subsection \<open>Servers and clients\<close>

text \<open>
  The life of \<^verbatim>\<open>GrpcWorkflowApiServer\<close>. The gRPC library is a parameter: \<open>build\<close> is
  \<^verbatim>\<open>AddListeningPort\<close> with \<^verbatim>\<open>BuildAndStart\<close>, from the target and the credentials (\<open>None\<close> are insecure
  ones) to the bound port, and \<open>valid_address\<close> is \<^verbatim>\<open>make_address\<close> of Boost.
\<close>

datatype rpc_method = SubmitWorkflow | Reorchestrate | StreamSubmitWorkflow | StreamReorchestrate

record grpc_server =
  gv_options :: grpc_endpoint_options
  gv_running :: bool
  gv_server :: "(string \<times> grpc_ssl_options option) option"
  gv_bound_port :: int
  gv_calls :: "rpc_method list"
  gv_threads :: nat

definition make_grpc_server :: "grpc_endpoint_options \<Rightarrow> grpc_server" where
  "make_grpc_server options = \<lparr>gv_options = options, gv_running = False, gv_server = None, gv_bound_port = 0,
     gv_calls = [], gv_threads = 0\<rparr>"

definition grpc_server_credentials ::
  "(string \<Rightarrow> string option) \<Rightarrow> grpc_endpoint_options \<Rightarrow> string + grpc_ssl_options option" where
  "grpc_server_credentials read_file options =
     (if \<not> ge_use_tls options then Inr None
      else bind_result (load_server_credentials read_file (ge_tls options)) (\<lambda>loaded.
           bind_result (make_server_credentials loaded) (\<lambda>ssl. Inr (Some ssl))))"

definition grpc_server_start ::
  "(string \<Rightarrow> string option) \<Rightarrow> (string \<Rightarrow> bool) \<Rightarrow> (string \<Rightarrow> grpc_ssl_options option \<Rightarrow> int option) \<Rightarrow> grpc_server \<Rightarrow> grpc_server" where
  "grpc_server_start read_file valid_address build s =
     (let options = gv_options s; target = make_grpc_target (ge_bind_address options) (ge_port options) in
      if gv_running s then s
      else
        case grpc_server_credentials read_file options of
          Inl _ \<Rightarrow> s
        | Inr credentials \<Rightarrow>
            if \<not> valid_address (ge_bind_address options) then s
            else
              (case build target credentials of
                 None \<Rightarrow> s\<lparr>gv_server := None\<rparr>
               | Some port \<Rightarrow>
                   s\<lparr>gv_running := True, gv_server := Some (target, credentials), gv_bound_port := port,
                     gv_calls := [SubmitWorkflow, Reorchestrate, StreamSubmitWorkflow, StreamReorchestrate],
                     gv_threads := effective_cq_thread_count (ge_completion_queue_threads options)\<rparr>))"

definition grpc_server_stop :: "grpc_server \<Rightarrow> grpc_server" where
  "grpc_server_stop s =
     (if \<not> gv_running s then s
      else s\<lparr>gv_running := False, gv_server := None, gv_bound_port := 0, gv_calls := [], gv_threads := 0\<rparr>)"

definition grpc_endpoint :: "grpc_server \<Rightarrow> string" where
  "grpc_endpoint s =
     (if ge_use_tls (gv_options s) then ''grpcs://'' else ''grpc://'') @
     make_grpc_target (ge_bind_address (gv_options s))
       (if gv_bound_port s = 0 then ge_port (gv_options s) else gv_bound_port s)"

text \<open>\<^verbatim>\<open>AsyncGrpcClientImpl\<close>: the channel's target, credentials and target name, if start-up succeeded.\<close>

record grpc_channel =
  ch_target :: string
  ch_credentials :: "grpc_ssl_options option"
  ch_target_name_override :: "string option"

record grpc_client =
  gc_options :: client_options
  gc_channel :: "grpc_channel option"
  gc_startup_error :: string

definition grpc_client_credentials ::
  "(string \<Rightarrow> string option) \<Rightarrow> client_options \<Rightarrow> string + grpc_ssl_options option \<times> string option" where
  "grpc_client_credentials read_file options =
     (if \<not> co_use_tls options then Inr (None, None)
      else bind_result (load_client_credentials read_file (co_tls options)) (\<lambda>loaded.
           let peer = resolve_expected_peer_name (co_host options) loaded in
           bind_result (make_client_credentials loaded) (\<lambda>ssl.
             Inr (Some ssl, if peer = [] then None else Some peer))))"

definition make_grpc_client :: "(string \<Rightarrow> string option) \<Rightarrow> client_options \<Rightarrow> grpc_client" where
  "make_grpc_client read_file options =
     (case grpc_client_credentials read_file options of
        Inl msg \<Rightarrow> \<lparr>gc_options = options, gc_channel = None, gc_startup_error = msg\<rparr>
      | Inr (credentials, name) \<Rightarrow>
          \<lparr>gc_options = options,
           gc_channel = Some \<lparr>ch_target = make_grpc_target (co_host options) (co_port options),
             ch_credentials = credentials, ch_target_name_override = name\<rparr>,
           gc_startup_error = []\<rparr>)"

text \<open>
  \<^verbatim>\<open>invoke_async\<close> and \<^verbatim>\<open>invoke_stream\<close>: \<open>rpc\<close> stands for the started call on the channel with the client's
  metadata.
\<close>

definition invoke_async ::
  "(grpc_channel \<Rightarrow> (string \<times> string) list \<Rightarrow> 'q \<Rightarrow> runtime_api_response) \<Rightarrow> grpc_client \<Rightarrow> 'q \<Rightarrow> runtime_api_response" where
  "invoke_async rpc c q =
     (case validate_grpc_client_invocation_state (gc_startup_error c) (gc_channel c \<noteq> None) of
        Some err \<Rightarrow> err
      | None \<Rightarrow> rpc (the (gc_channel c)) (populate_client_context (co_bearer_token (gc_options c)) (co_api_key (gc_options c))) q)"

definition invoke_stream ::
  "(grpc_channel \<Rightarrow> (string \<times> string) list \<Rightarrow> 'q \<Rightarrow> workflow_event list) \<Rightarrow> ('q \<Rightarrow> string) \<Rightarrow> grpc_client \<Rightarrow> 'q
     \<Rightarrow> workflow_event list" where
  "invoke_stream rpc workflow_id_for_request c q =
     (case validate_grpc_client_invocation_state (gc_startup_error c) (gc_channel c \<noteq> None) of
        Some err \<Rightarrow> [make_transport_error_event (workflow_id_for_request q) (ra_error_message err)]
      | None \<Rightarrow> rpc (the (gc_channel c)) (populate_client_context (co_bearer_token (gc_options c)) (co_api_key (gc_options c))) q)"

text \<open>\<^verbatim>\<open>workflow_id_for_request\<close> has an overload for each request type.\<close>

definition workflow_id_for_submit :: "submit_workflow_request \<Rightarrow> string" where
  "workflow_id_for_submit q = pw_id (sw_config q)"

definition workflow_id_for_reorchestrate :: "reorchestrate_request \<Rightarrow> string" where
  "workflow_id_for_reorchestrate q = rq_workflow_id q"

end
