(* ===== verification/Grpc_Transport_Correct.thy ===== *)
theory Grpc_Transport_Correct
  imports Grpc_Transport "HOL-Library.Sublist"
begin

text \<open>
  The call objects under every interleaving of the library's call-backs and the workers: what reaches
  the client is in order and complete; unary calls and client streams are memory-safe; streaming server
  calls are as long as no notification overlaps another operation.
\<close>

subsection \<open>Streams arrive in order\<close>

inductive stream_reachable :: "workflow_event list \<Rightarrow> workflow_event option \<Rightarrow> stream_system \<Rightarrow> bool"
  for evs failure where
  start: "stream_reachable evs failure stream_start"
| step: "stream_reachable evs failure s \<Longrightarrow> stream_exec evs failure a s = Some s' \<Longrightarrow> stream_reachable evs failure s'"

definition failure_events :: "workflow_event option \<Rightarrow> workflow_event list" where
  "failure_events failure = (case failure of None \<Rightarrow> [] | Some e \<Rightarrow> [e])"

text \<open>What the worker still has to enqueue.\<close>

fun to_come :: "workflow_event list \<Rightarrow> workflow_event option \<Rightarrow> stream_worker \<Rightarrow> workflow_event list" where
  "to_come evs failure NoWorker = evs @ failure_events failure"
| "to_come evs failure (Producing es) = es @ failure_events failure"
| "to_come evs failure Failing = failure_events failure"
| "to_come evs failure _ = []"

definition stream_inv :: "workflow_event list \<Rightarrow> workflow_event option \<Rightarrow> stream_system \<Rightarrow> bool" where
  "stream_inv evs failure s \<longleftrightarrow>
     (let c = ss_call s; everything = evs @ failure_events failure in
      (if gs_client_closed c then prefix (ss_written s) everything \<and> gs_pending c = [] \<and> gs_state c = SCompleted
       else ss_written s @ gs_pending c @ to_come evs failure (ss_worker s) = everything) \<and>
      (gs_producer_complete c \<longrightarrow> ss_worker s = Releasing \<or> ss_worker s = WorkerDone) \<and>
      (gs_state c = SRequesting \<longleftrightarrow> ss_worker s = NoWorker) \<and>
      (ss_worker s = Failing \<longrightarrow> failure \<noteq> None) \<and>
      (ss_finished s \<longrightarrow> ss_written s = everything \<and> gs_pending c = [] \<and> gs_producer_complete c \<and>
         (gs_state c = SFinishing \<or> gs_state c = SCompleted)))"

lemmas stream_step_defs = stream_effect_def stream_touch_def stream_proceed_def release_reference_def
  handle_notification_def handle_write_complete_def schedule_notification_locked_def mark_producer_complete_def
  stream_enqueue_def enqueue_event_def

lemma stream_inv_start: "stream_inv evs failure stream_start"
  by (simp add: stream_inv_def stream_start_def empty_stream_call_def Let_def)

lemma stream_inv_proceed:
  "stream_inv evs failure s \<Longrightarrow> stream_inv evs failure (stream_effect evs (stream_proceed ok (ss_call s)) s)"
  by (cases "gs_state (ss_call s)"; cases ok; cases "gs_pending (ss_call s)")
    (auto simp: stream_inv_def stream_step_defs Let_def intro: prefixI [OF sym] split: if_splits)

lemma stream_inv_work:
  assumes "stream_inv evs failure s" and "stream_work evs failure queue_open s = Some s'"
  shows "stream_inv evs failure s'"
proof (cases "ss_worker s")
  case (Producing es)
  with assms show ?thesis
    by (cases es) (auto simp: stream_work_def stream_inv_def stream_step_defs Let_def failure_events_def split: if_splits option.splits)
next
  case Failing
  with assms show ?thesis
    by (auto simp: stream_work_def stream_inv_def stream_step_defs Let_def failure_events_def split: if_splits option.splits)
qed (use assms in \<open>auto simp: stream_work_def stream_inv_def stream_step_defs Let_def split: if_splits\<close>)

lemma stream_inv_update [simp]:
  "stream_inv evs failure (s\<lparr>ss_inflight := ops\<rparr>) = stream_inv evs failure s"
  "stream_inv evs failure (s\<lparr>ss_faults := fs\<rparr>) = stream_inv evs failure s"
  by (simp_all add: stream_inv_def Let_def)

lemma stream_reachable_inv: "stream_reachable evs failure s \<Longrightarrow> stream_inv evs failure s"
proof (induction rule: stream_reachable.induct)
  case start
  show ?case by (rule stream_inv_start)
next
  case (step s a s')
  show ?case
  proof (cases a)
    case (Work queue_open)
    with step.hyps(2) have "stream_work evs failure queue_open s = Some s'" by (simp add: stream_exec_def)
    with step.IH show ?thesis by (rule stream_inv_work)
  next
    case (Deliver p ok)
    let ?s = "s\<lparr>ss_inflight := remove1 p (ss_inflight s)\<rparr>"
    have "stream_inv evs failure (stream_effect evs (stream_proceed ok (ss_call s)) ?s)"
      using stream_inv_proceed [of evs failure ?s ok] step.IH by simp
    with step.IH step.hyps(2) Deliver show ?thesis by (auto simp: stream_exec_def stream_touch_def split: if_splits)
  qed
qed


subsection \<open>Streaming calls without overlap\<close>

text \<open>
  A run is orderly if the completion queue stays open, operations succeed once the call has been
  accepted, and the worker only touches the call's queue while the call waits for an event.
\<close>

definition orderly :: "stream_action \<Rightarrow> stream_system \<Rightarrow> bool" where
  "orderly a s =
     (case a of
        Deliver p ok \<Rightarrow> ok \<or> p = RequestOp
      | Work queue_open \<Rightarrow>
          queue_open \<and> (ss_worker s = Releasing \<or> gs_state (ss_call s) = SWaitingForEvent))"

inductive stream_orderly :: "workflow_event list \<Rightarrow> workflow_event option \<Rightarrow> stream_system \<Rightarrow> bool"
  for evs failure where
  start: "stream_orderly evs failure stream_start"
| step: "stream_orderly evs failure s \<Longrightarrow> orderly a s \<Longrightarrow> stream_exec evs failure a s = Some s' \<Longrightarrow>
         stream_orderly evs failure s'"

definition orderly_inv :: "stream_system \<Rightarrow> bool" where
  "orderly_inv s \<longleftrightarrow>
     ss_faults s = [] \<and> \<not> gs_client_closed (ss_call s) \<and>
     (case gs_state (ss_call s) of
        SRequesting \<Rightarrow> ss_worker s = NoWorker \<and> \<not> gs_notification_pending (ss_call s) \<and> \<not> gs_producer_complete (ss_call s) \<and>
          gs_pending (ss_call s) = [] \<and> gs_refs (ss_call s) = (if ss_alive s then 1 else 0) \<and>
          ss_inflight s = (if ss_alive s then [RequestOp] else [])
      | SWaitingForEvent \<Rightarrow> ss_alive s \<and> ss_worker s \<noteq> NoWorker \<and>
          gs_refs (ss_call s) = (if ss_worker s = WorkerDone then 1 else 2) \<and>
          gs_producer_complete (ss_call s) = (ss_worker s \<in> {Releasing, WorkerDone}) \<and>
          ss_inflight s = (if gs_notification_pending (ss_call s) then [AlarmOp] else []) \<and>
          (gs_pending (ss_call s) \<noteq> [] \<or> gs_producer_complete (ss_call s) \<longrightarrow> gs_notification_pending (ss_call s))
      | SWriting \<Rightarrow> ss_alive s \<and> ss_worker s \<noteq> NoWorker \<and> \<not> gs_notification_pending (ss_call s) \<and>
          gs_producer_complete (ss_call s) = (ss_worker s \<in> {Releasing, WorkerDone}) \<and>
          gs_refs (ss_call s) = (if ss_worker s = WorkerDone then 1 else 2) \<and> ss_inflight s = [WriteOp]
      | SFinishing \<Rightarrow> ss_alive s \<and> ss_worker s \<in> {Releasing, WorkerDone} \<and> ss_finished s \<and>
          gs_refs (ss_call s) = (if ss_worker s = WorkerDone then 1 else 2) \<and> ss_inflight s = [FinishOp]
      | SCompleted \<Rightarrow> ss_worker s \<in> {Releasing, WorkerDone} \<and> ss_finished s \<and>
          gs_refs (ss_call s) = (if ss_worker s = WorkerDone then 0 else 1) \<and>
          ss_alive s = (ss_worker s = Releasing) \<and> ss_inflight s = [])"

lemma orderly_inv_deliver:
  assumes "orderly_inv s" and "orderly (Deliver p ok) s" and "stream_exec evs failure (Deliver p ok) s = Some s'"
  shows "orderly_inv s'"
  using assms
  by (cases "gs_state (ss_call s)"; cases "gs_pending (ss_call s)")
    (auto simp: orderly_inv_def orderly_def stream_exec_def stream_step_defs overlap_fault_def split: if_splits)

lemma orderly_inv_work_waiting:
  assumes "orderly_inv s" and "gs_state (ss_call s) = SWaitingForEvent" and "stream_work evs failure True s = Some s'"
  shows "orderly_inv s'"
proof (cases "ss_worker s")
  case (Producing es)
  with assms show ?thesis
    by (cases es) (auto simp: orderly_inv_def stream_work_def stream_step_defs split: if_splits)
qed (use assms in \<open>auto simp: orderly_inv_def stream_work_def stream_step_defs split: if_splits\<close>)

lemma orderly_inv_work_releasing:
  assumes "orderly_inv s" and "ss_worker s = Releasing" and "stream_work evs failure True s = Some s'"
  shows "orderly_inv s'"
  using assms
  by (cases "gs_state (ss_call s)") (auto simp: orderly_inv_def stream_work_def stream_step_defs)

lemma orderly_inv_work:
  assumes "orderly_inv s" and "orderly (Work q) s" and "stream_exec evs failure (Work q) s = Some s'"
  shows "orderly_inv s'"
proof -
  from assms(2) have q: "q" and at: "ss_worker s = Releasing \<or> gs_state (ss_call s) = SWaitingForEvent"
    by (simp_all add: orderly_def)
  from assms(3) q have "stream_work evs failure True s = Some s'" by (simp add: stream_exec_def)
  with at show ?thesis
    by (elim disjE) (rule orderly_inv_work_releasing [OF assms(1)] orderly_inv_work_waiting [OF assms(1)]; assumption)+
qed

lemma stream_orderly_inv: "stream_orderly evs failure s \<Longrightarrow> orderly_inv s"
proof (induction rule: stream_orderly.induct)
  case start
  show ?case by (simp add: orderly_inv_def stream_start_def empty_stream_call_def)
next
  case (step s a s')
  then show ?case by (cases a) (auto intro: orderly_inv_deliver orderly_inv_work)
qed

lemma stream_orderly_reachable: "stream_orderly evs failure s \<Longrightarrow> stream_reachable evs failure s"
  by (induction rule: stream_orderly.induct) (auto intro: stream_reachable.intros)

text \<open>A bound on the steps an orderly run still takes.\<close>

fun worker_steps :: "workflow_event list \<Rightarrow> stream_worker \<Rightarrow> nat" where
  "worker_steps evs NoWorker = length evs + 5"
| "worker_steps evs (Producing es) = length es + 4"
| "worker_steps evs Failing = 3"
| "worker_steps evs Completing = 2"
| "worker_steps evs Releasing = 1"
| "worker_steps evs WorkerDone = 0"

fun state_steps :: "stream_state \<Rightarrow> nat" where
  "state_steps SFinishing = 1"
| "state_steps SCompleted = 0"
| "state_steps _ = 2"

definition steps_left :: "workflow_event list \<Rightarrow> stream_system \<Rightarrow> nat" where
  "steps_left evs s = 4 * worker_steps evs (ss_worker s) + 2 * length (gs_pending (ss_call s)) + length (ss_inflight s) +
     state_steps (gs_state (ss_call s))"

lemma orderly_deliver_decreases:
  assumes "orderly_inv s" and "orderly (Deliver p ok) s" and "stream_exec evs failure (Deliver p ok) s = Some s'"
  shows "steps_left evs s' < steps_left evs s"
  using assms
  by (cases "gs_state (ss_call s)"; cases "gs_pending (ss_call s)")
    (auto simp: orderly_inv_def orderly_def stream_exec_def stream_step_defs steps_left_def split: if_splits)

lemma orderly_work_decreases:
  assumes "orderly_inv s" and "orderly (Work q) s" and "stream_exec evs failure (Work q) s = Some s'"
  shows "steps_left evs s' < steps_left evs s"
proof -
  from assms(2) have q: "q" and at: "ss_worker s = Releasing \<or> gs_state (ss_call s) = SWaitingForEvent"
    by (simp_all add: orderly_def)
  from assms(3) q have work: "stream_work evs failure True s = Some s'" by (simp add: stream_exec_def)
  show ?thesis
  proof (cases "ss_worker s")
    case (Producing es)
    with assms(1) at work show ?thesis
      by (cases es) (auto simp: orderly_inv_def stream_work_def stream_step_defs steps_left_def split: if_splits)
  qed (use assms(1) at work in
      \<open>auto simp: orderly_inv_def stream_work_def stream_step_defs steps_left_def split: if_splits stream_state.splits\<close>)
qed

definition nothing_left :: "stream_system \<Rightarrow> bool" where
  "nothing_left s \<longleftrightarrow> ss_inflight s = [] \<and> ss_worker s \<in> {NoWorker, WorkerDone}"

lemma orderly_progress:
  assumes "orderly_inv s" and "\<not> nothing_left s"
  shows "\<exists>a s'. orderly a s \<and> stream_exec evs failure a s = Some s'"
proof (cases "ss_inflight s")
  case (Cons p ps)
  then show ?thesis by (intro exI[of _ "Deliver p True"]) (simp add: orderly_def stream_exec_def)
next
  case Nil
  with assms have "ss_worker s = Releasing \<or> gs_state (ss_call s) = SWaitingForEvent"
    by (auto simp: orderly_inv_def nothing_left_def split: stream_state.splits if_splits)
  moreover have "\<exists>s'. stream_work evs failure True s = Some s'"
    using assms(2) Nil by (auto simp: nothing_left_def stream_work_def split: stream_worker.splits list.splits)
  ultimately show ?thesis by (intro exI[of _ "Work True"]) (simp add: orderly_def stream_exec_def)
qed


subsection \<open>Unary calls\<close>

text \<open>\<open>always_open\<close>: the completion queue is never taken away while the worker runs.\<close>

inductive unary_reachable :: "bool \<Rightarrow> runtime_api_response \<Rightarrow> unary_system \<Rightarrow> bool"
  for always_open response where
  start: "unary_reachable always_open response unary_start"
| step: "unary_reachable always_open response s \<Longrightarrow> (always_open \<longrightarrow> a \<noteq> UWork False) \<Longrightarrow>
         unary_exec response a s = Some s' \<Longrightarrow> unary_reachable always_open response s'"

definition unary_inv :: "bool \<Rightarrow> runtime_api_response \<Rightarrow> unary_system \<Rightarrow> bool" where
  "unary_inv always_open response s \<longleftrightarrow>
     us_faults s = [] \<and>
     (us_worker s \<notin> {UNoWorker, UExecuting} \<longrightarrow> uc_response (us_call s) = response) \<and>
     (case uc_state (us_call s) of
        URequesting \<Rightarrow> us_worker s = UNoWorker \<and> \<not> uc_notification_pending (us_call s) \<and> us_sent s = [] \<and>
          uc_refs (us_call s) = (if us_alive s then 1 else 0) \<and> us_inflight s = (if us_alive s then [RequestOp] else [])
      | UWaitingForResponse \<Rightarrow> us_alive s \<and> us_worker s \<noteq> UNoWorker \<and> us_sent s = [] \<and>
          uc_refs (us_call s) = (if us_worker s = UWorkerDone then 1 else 2) \<and>
          us_inflight s = (if uc_notification_pending (us_call s) then [AlarmOp] else []) \<and>
          (uc_notification_pending (us_call s) \<longrightarrow> us_worker s \<in> {UReleasing, UWorkerDone}) \<and>
          (always_open \<and> us_worker s \<in> {UReleasing, UWorkerDone} \<longrightarrow> uc_notification_pending (us_call s))
      | UFinishing \<Rightarrow> us_alive s \<and> us_worker s \<in> {UReleasing, UWorkerDone} \<and> us_sent s = [response] \<and>
          uc_refs (us_call s) = (if us_worker s = UWorkerDone then 1 else 2) \<and> us_inflight s = [FinishOp]
      | UCompleted \<Rightarrow> us_worker s \<in> {UReleasing, UWorkerDone} \<and> (us_sent s = [] \<or> us_sent s = [response]) \<and>
          uc_refs (us_call s) = (if us_worker s = UWorkerDone then 0 else 1) \<and>
          us_alive s = (us_worker s = UReleasing) \<and> us_inflight s = [])"

lemmas unary_step_defs = unary_exec_def unary_touch_def unary_effect_def unary_proceed_def unary_release_reference_def
  unary_handle_response_ready_def unary_schedule_notification_def unary_work_def

lemma unary_inv_deliver:
  assumes "unary_inv always_open response s" and "unary_exec response (UDeliver p ok) s = Some s'"
  shows "unary_inv always_open response s'"
  using assms by (cases "uc_state (us_call s)") (auto simp: unary_inv_def unary_step_defs split: if_splits)

lemma unary_inv_work:
  assumes "unary_inv always_open response s" and "always_open \<longrightarrow> q" and "unary_exec response (UWork q) s = Some s'"
  shows "unary_inv always_open response s'"
  using assms
  by (cases "uc_state (us_call s)"; cases "us_worker s") (auto simp: unary_inv_def unary_step_defs split: if_splits)

lemma unary_reachable_inv: "unary_reachable always_open response s \<Longrightarrow> unary_inv always_open response s"
proof (induction rule: unary_reachable.induct)
  case start
  show ?case by (simp add: unary_inv_def unary_start_def empty_unary_call_def)
next
  case (step s a s')
  then show ?case by (cases a) (auto intro: unary_inv_deliver unary_inv_work)
qed

text \<open>
  C33. Unary server calls are memory-safe under every interleaving of the library's call-backs (failed
  ones included) with the worker, whether or not the completion queue is taken away: a freed call is never
  touched, the client is answered at most once and with the service's own response, at most one
  operation is in flight; and if the completion queue stays open, the call has been freed when nothing
  is left to do.
\<close>

theorem unary_calls_safe:
  assumes "unary_reachable always_open response s"
  shows "us_faults s = [] \<and> (us_sent s = [] \<or> us_sent s = [response]) \<and> length (us_inflight s) \<le> 1 \<and>
    (always_open \<and> us_inflight s = [] \<and> us_worker s \<in> {UNoWorker, UWorkerDone} \<longrightarrow> \<not> us_alive s)"
  using unary_reachable_inv [OF assms]
  by (cases "uc_state (us_call s)") (auto simp: unary_inv_def split: if_splits)

subsection \<open>The client's streams\<close>

inductive client_reachable :: "string \<Rightarrow> bool \<Rightarrow> client_system \<Rightarrow> bool" for wid has_reader where
  start: "client_reachable wid has_reader (client_start wid has_reader)"
| step: "client_reachable wid has_reader s \<Longrightarrow> client_exec wid a s = Some s' \<Longrightarrow> client_reachable wid has_reader s'"

definition is_error_tail :: "string \<Rightarrow> workflow_event list \<Rightarrow> bool" where
  "is_error_tail wid es \<longleftrightarrow> es = [] \<or> (\<exists>msg. es = [make_transport_error_event wid msg])"

definition client_inv :: "string \<Rightarrow> client_system \<Rightarrow> bool" where
  "client_inv wid s \<longleftrightarrow>
     (let c = cs_call s; q = cc_stream c in
      \<exists>tail. cs_read s @ tail = cs_yielded s @ qs_pending q \<and> is_error_tail wid tail \<and>
        (cc_deleted c \<longleftrightarrow> cc_state c = CCompleted) \<and> (qs_closed q \<longleftrightarrow> cc_state c = CCompleted) \<and>
        (cc_inflight c = (case cc_state c of CStarting \<Rightarrow> Some StartCallOp | CReading \<Rightarrow> Some ReadOp
           | CFinishing \<Rightarrow> Some FinishCallOp | CCompleted \<Rightarrow> None)) \<and>
        (cs_ended s \<longrightarrow> qs_closed q \<and> qs_pending q = []) \<and>
        (\<not> qs_closed q \<longrightarrow> tail = []) \<and>
        (qs_cancel_requested q \<longrightarrow> cs_dropped s) \<and>
        (qs_closed q \<and> \<not> cs_dropped s \<longrightarrow> (tail = [] \<longleftrightarrow> cs_last s = Some (FinalStatus None))))"

lemmas client_step_defs = client_exec_def complete_client_call_def finish_and_delete_def push_error_def push_event_def
  close_stream_def clear_cancel_callback_def wait_next_def request_cancel_def

lemma client_inv_start: "client_inv wid (client_start wid has_reader)"
  by (auto simp: client_inv_def client_start_def start_client_call_def empty_stream_state_def set_cancel_callback_def
      is_error_tail_def push_event_def finish_and_delete_def close_stream_def clear_cancel_callback_def Let_def)

lemma client_inv_complete:
  assumes "client_inv wid s" and "client_exec wid (Complete r) s = Some s'"
  shows "client_inv wid s'"
  using assms
  by (cases "cc_state (cs_call s)"; cases r)
    (auto simp: client_inv_def client_step_defs is_error_tail_def Let_def split: option.splits if_splits)

lemma client_inv_next:
  assumes "client_inv wid s" and "client_exec wid Next s = Some s'"
  shows "client_inv wid s'"
  using assms
  by (cases "qs_pending (cc_stream (cs_call s))")
    (auto simp: client_inv_def client_step_defs Let_def split: if_splits)

lemma client_inv_drop:
  assumes "client_inv wid s" and "client_exec wid Drop s = Some s'"
  shows "client_inv wid s'"
  using assms by (auto simp: client_inv_def client_step_defs Let_def split: if_splits)

lemma client_reachable_inv: "client_reachable wid has_reader s \<Longrightarrow> client_inv wid s"
proof (induction rule: client_reachable.induct)
  case start
  show ?case by (rule client_inv_start)
next
  case (step s a s')
  then show ?case by (cases a) (auto intro: client_inv_complete client_inv_next client_inv_drop)
qed

text \<open>
  C34. The stream a client consumes is the stream the library read, under every interleaving of
  completions, the consumer and early destruction of the generator: what the consumer has received is a
  prefix of what was read, followed by at most one transport-error event. When the stream ends for the
  consumer nothing is lost, and there is no error event exactly if the call ended with an OK status; and a call
  object that has deleted itself has no operation in flight.
\<close>

theorem client_stream_faithful:
  assumes "client_reachable wid has_reader s"
  shows "(\<exists>tail. is_error_tail wid tail \<and> prefix (cs_yielded s) (cs_read s @ tail) \<and>
           (cs_ended s \<longrightarrow> cs_yielded s = cs_read s @ tail \<and>
              (\<not> cs_dropped s \<longrightarrow> (tail = [] \<longleftrightarrow> cs_last s = Some (FinalStatus None))))) \<and>
    (cc_deleted (cs_call s) \<longrightarrow> cc_inflight (cs_call s) = None)"
  using client_reachable_inv [OF assms]
  by (auto simp: client_inv_def Let_def intro: prefixI)

end
