(* ===== verification/Grpc_Transport_Examples.thy ===== *)
theory Grpc_Transport_Examples
  imports Grpc_Transport_Correct
begin

text \<open>
  Concrete runs of the gRPC call objects: the properties of \<^verbatim>\<open>Grpc_Transport_Correct\<close> applied, and the
  interleavings in which a streaming server call misbehaves.
\<close>

subsection \<open>Runs\<close>

fun stream_run ::
  "workflow_event list \<Rightarrow> workflow_event option \<Rightarrow> stream_action list \<Rightarrow> stream_system \<Rightarrow> stream_system option" where
  "stream_run evs failure [] s = Some s"
| "stream_run evs failure (a # as) s =
     (case stream_exec evs failure a s of None \<Rightarrow> None | Some s' \<Rightarrow> stream_run evs failure as s')"

fun orderly_run ::
  "workflow_event list \<Rightarrow> workflow_event option \<Rightarrow> stream_action list \<Rightarrow> stream_system \<Rightarrow> stream_system option" where
  "orderly_run evs failure [] s = Some s"
| "orderly_run evs failure (a # as) s =
     (if \<not> orderly a s then None
      else case stream_exec evs failure a s of None \<Rightarrow> None | Some s' \<Rightarrow> orderly_run evs failure as s')"

fun unary_run :: "runtime_api_response \<Rightarrow> unary_action list \<Rightarrow> unary_system \<Rightarrow> unary_system option" where
  "unary_run response [] s = Some s"
| "unary_run response (a # as) s =
     (case unary_exec response a s of None \<Rightarrow> None | Some s' \<Rightarrow> unary_run response as s')"

fun client_run :: "string \<Rightarrow> client_action list \<Rightarrow> client_system \<Rightarrow> client_system option" where
  "client_run wid [] s = Some s"
| "client_run wid (a # as) s = (case client_exec wid a s of None \<Rightarrow> None | Some s' \<Rightarrow> client_run wid as s')"

lemma stream_run_reachable:
  "stream_run evs failure as s = Some s' \<Longrightarrow> stream_reachable evs failure s \<Longrightarrow> stream_reachable evs failure s'"
  by (induction as arbitrary: s) (auto intro: stream_reachable.intros split: option.splits)

lemma orderly_run_orderly:
  "orderly_run evs failure as s = Some s' \<Longrightarrow> stream_orderly evs failure s \<Longrightarrow> stream_orderly evs failure s'"
  by (induction as arbitrary: s) (auto intro: stream_orderly.intros split: option.splits if_splits)

lemma unary_run_reachable:
  "unary_run response as s = Some s' \<Longrightarrow> (always_open \<longrightarrow> UWork False \<notin> set as) \<Longrightarrow> unary_reachable always_open response s \<Longrightarrow>
     unary_reachable always_open response s'"
proof (induction as arbitrary: s)
  case (Cons a as)
  then obtain s1 where s1: "unary_exec response a s = Some s1" "unary_run response as s1 = Some s'"
    by (auto split: option.splits)
  from Cons.prems have "unary_reachable always_open response s1"
    by (intro unary_reachable.step [OF _ _ s1(1)]) auto
  with Cons.IH [OF s1(2)] Cons.prems(2) show ?case by auto
qed simp

lemma client_run_reachable:
  "client_run wid as s = Some s' \<Longrightarrow> client_reachable wid has_reader s \<Longrightarrow> client_reachable wid has_reader s'"
  by (induction as arbitrary: s) (auto intro: client_reachable.intros split: option.splits)

subsection \<open>A stream of two events\<close>

definition accepted_event :: workflow_event where
  "accepted_event = empty_event\<lparr>we_type := WorkflowAccepted, we_workflow_id := ''w''\<rparr>"

definition finished_event :: workflow_event where
  "finished_event = empty_event\<lparr>we_type := RunFinished, we_workflow_id := ''w''\<rparr>"

definition calm_run :: "stream_action list" where
  "calm_run = [Deliver RequestOp True, Work True, Work True, Deliver AlarmOp True, Deliver WriteOp True, Deliver WriteOp True,
     Work True, Work True, Deliver AlarmOp True, Work True, Deliver FinishOp True]"

definition calm_end :: stream_system where
  "calm_end = \<lparr>ss_call = \<lparr>gs_state = SCompleted, gs_refs = 0, gs_pending = [], gs_producer_complete = True,
     gs_client_closed = False, gs_notification_pending = False\<rparr>, ss_inflight = [], ss_worker = WorkerDone,
     ss_written = [accepted_event, finished_event], ss_finished = True, ss_alive = False, ss_faults = []\<rparr>"

lemma calm_run_runs: "orderly_run [accepted_event, finished_event] None calm_run stream_start = Some calm_end"
  by code_simp

lemma calm_end_orderly: "stream_orderly [accepted_event, finished_event] None calm_end"
  by (rule orderly_run_orderly [OF calm_run_runs stream_orderly.start])



subsection \<open>Streaming calls that race\<close>

text \<open>
  The worker enqueues the second event while the first is being written: the alarm it sets is taken for the
  completion of the write, and a second write is started before the first has completed.
\<close>

definition racing_run :: "stream_action list" where
  "racing_run = [Deliver RequestOp True, Work True, Deliver AlarmOp True, Work True, Deliver AlarmOp True]"

theorem notification_taken_for_write_completion:
  "map_option (\<lambda>s. (ss_faults s, ss_inflight s)) (stream_run [accepted_event, finished_event] None racing_run stream_start) =
     Some ([OverlappingWrite], [WriteOp, WriteOp])"
  by code_simp

text \<open>
  The producer completes while the last event is being written: its alarm starts \<^verbatim>\<open>Finish\<close>, the write's
  completion is taken for that of \<^verbatim>\<open>Finish\<close> and frees the call, and the completion of \<^verbatim>\<open>Finish\<close> reaches a freed call.
\<close>

definition late_producer_run :: "stream_action list" where
  "late_producer_run = [Deliver RequestOp True, Work True, Deliver AlarmOp True, Work True, Work True, Work True,
     Deliver AlarmOp True, Deliver WriteOp True, Deliver FinishOp True]"

theorem finish_completion_after_free:
  "map_option ss_faults (stream_run [accepted_event] None late_producer_run stream_start) =
     Some [UseAfterFree, OverlappingWrite]"
  by code_simp

text \<open>
  The client goes away during a write. The call gives up its reference, but the worker still announces
  the end of its events, and that alarm gives up the worker's reference: the worker then touches a freed call.
\<close>

definition disconnect_run :: "stream_action list" where
  "disconnect_run = [Deliver RequestOp True, Work True, Deliver AlarmOp True, Deliver WriteOp False, Work True, Work True,
     Deliver AlarmOp True, Work True]"

theorem disconnect_touches_freed_call:
  "map_option ss_faults (stream_run [accepted_event] None disconnect_run stream_start) = Some [UseAfterFree]"
  by code_simp

subsection \<open>A unary call\<close>

definition good_response :: runtime_api_response where
  "good_response = empty_response\<lparr>ra_ok := True\<rparr>"

definition unary_acts :: "unary_action list" where
  "unary_acts = [UDeliver RequestOp True, UWork True, UWork True, UDeliver AlarmOp True, UDeliver FinishOp True, UWork True]"

definition unary_end :: unary_system where
  "unary_end = \<lparr>us_call = \<lparr>uc_state = UCompleted, uc_refs = 0, uc_response = good_response, uc_notification_pending = False\<rparr>,
     us_inflight = [], us_worker = UWorkerDone, us_sent = [good_response], us_alive = False, us_faults = []\<rparr>"

lemma unary_acts_run: "unary_run good_response unary_acts unary_start = Some unary_end"
  by code_simp

theorem unary_calls_safe_witness:
  "unary_reachable True good_response unary_end \<and> us_sent unary_end = [good_response] \<and> \<not> us_alive unary_end \<and>
   us_faults unary_end = []"
proof -
  have reach: "unary_reachable True good_response unary_end"
    by (rule unary_run_reachable [OF unary_acts_run _ unary_reachable.start]) (simp add: unary_acts_def)
  from unary_calls_safe [OF reach] reach show ?thesis by (simp add: unary_end_def)
qed

subsection \<open>A client stream\<close>

definition client_acts :: "client_action list" where
  "client_acts = [Complete Started, Complete (ReadEvent accepted_event), Next, Complete EndOfReads,
     Complete (FinalStatus (Some ''unavailable'')), Next, Next]"

definition client_end :: client_system where
  "client_end = the (client_run ''w'' client_acts (client_start ''w'' True))"

lemma client_acts_run: "client_run ''w'' client_acts (client_start ''w'' True) = Some client_end"
proof -
  have "client_run ''w'' client_acts (client_start ''w'' True) \<noteq> None" by code_simp
  then show ?thesis by (simp add: client_end_def)
qed

theorem client_stream_faithful_witness:
  "client_reachable ''w'' True client_end \<and> cs_ended client_end \<and>
   (\<exists>tail. is_error_tail ''w'' tail \<and> tail \<noteq> [] \<and> cs_yielded client_end = accepted_event # tail)"
proof -
  have reach: "client_reachable ''w'' True client_end"
    by (rule client_run_reachable [OF client_acts_run client_reachable.start])
  have facts: "cs_ended client_end" "\<not> cs_dropped client_end" "cs_read client_end = [accepted_event]"
    "cs_last client_end \<noteq> Some (FinalStatus None)"
    by code_simp+
  from client_stream_faithful [OF reach] facts reach show ?thesis by auto
qed

end
