(* ===== verification/Config_Loader.thy ===== *)
theory Config_Loader
  imports Runner Tls_Credentials
begin

text \<open>
  \<^verbatim>\<open>application/config/config_loader.cpp\<close> and the launcher's settings of \<^verbatim>\<open>application/config/config.hpp\<close>:
  YAML documents become configurations. The YAML library is a parameter; its exceptions are \<open>Inl\<close> and end in
  the default configuration.
\<close>

subsection \<open>The YAML library\<close>

datatype yaml_error = YamlException

text \<open>
  Nodes of a document. \<open>ym_get\<close> is \<^verbatim>\<open>node[key]\<close> of a constant node: an undefined node if there is no such
  key, an exception if the node cannot be subscripted. \<open>ym_null\<close> is \<^verbatim>\<open>YAML::Node{}\<close>.
\<close>

record 'n yaml =
  ym_load :: "string \<Rightarrow> yaml_error + 'n"
  ym_load_file :: "string \<Rightarrow> yaml_error + 'n"
  ym_null :: 'n
  ym_defined :: "'n \<Rightarrow> bool"
  ym_is_scalar :: "'n \<Rightarrow> bool"
  ym_is_sequence :: "'n \<Rightarrow> bool"
  ym_is_map :: "'n \<Rightarrow> bool"
  ym_size :: "'n \<Rightarrow> nat"
  ym_get :: "'n \<Rightarrow> string \<Rightarrow> yaml_error + 'n"
  ym_elements :: "'n \<Rightarrow> 'n list"
  ym_entries :: "'n \<Rightarrow> ('n \<times> 'n) list"
  ym_as_string :: "'n \<Rightarrow> yaml_error + string"
  ym_as_int64 :: "'n \<Rightarrow> yaml_error + int"
  ym_as_int :: "'n \<Rightarrow> yaml_error + int"
  ym_as_size :: "'n \<Rightarrow> yaml_error + nat"
  ym_as_bool :: "'n \<Rightarrow> yaml_error + bool"
  ym_as_double :: "'n \<Rightarrow> yaml_error + rat"

text \<open>\<^verbatim>\<open>if (node[key]) x = node[key].as<T>()\<close>, where \<open>x\<close> has been \<open>d\<close>.\<close>

definition read_field :: "'n yaml \<Rightarrow> ('n \<Rightarrow> yaml_error + 'a) \<Rightarrow> 'n \<Rightarrow> string \<Rightarrow> 'a \<Rightarrow> yaml_error + 'a" where
  "read_field y convert node key d = bind_result (ym_get y node key) (\<lambda>n. if ym_defined y n then convert n else Inr d)"

text \<open>\<^verbatim>\<open>node && node.IsMap()\<close>\<close>

definition is_section :: "'n yaml \<Rightarrow> 'n \<Rightarrow> bool" where
  "is_section y n \<longleftrightarrow> ym_defined y n \<and> ym_is_map y n"

text \<open>\<^verbatim>\<open>node[key] && node[key].IsMap() ? node[key] : other\<close>\<close>

definition section_or :: "'n yaml \<Rightarrow> 'n \<Rightarrow> string \<Rightarrow> yaml_error + 'n \<Rightarrow> yaml_error + 'n" where
  "section_or y node key other = bind_result (ym_get y node key) (\<lambda>n. if is_section y n then Inr n else other)"

fun collect :: "('a \<Rightarrow> 'e + 'b) \<Rightarrow> 'a list \<Rightarrow> 'e + 'b list" where
  "collect f [] = Inr []"
| "collect f (x # xs) = bind_result (f x) (\<lambda>b. bind_result (collect f xs) (\<lambda>bs. Inr (b # bs)))"

definition append_transformed_sequence :: "'n yaml \<Rightarrow> 'n \<Rightarrow> ('n \<Rightarrow> yaml_error + 'a) \<Rightarrow> yaml_error + 'a list" where
  "append_transformed_sequence y n f =
     (if \<not> ym_defined y n \<or> \<not> ym_is_sequence y n then Inr [] else collect f (ym_elements y n))"

definition read_strings :: "'n yaml \<Rightarrow> 'n \<Rightarrow> string \<Rightarrow> yaml_error + string list" where
  "read_strings y node key =
     bind_result (ym_get y node key) (\<lambda>n. append_transformed_sequence y n (ym_as_string y))"

definition append_actor_distance_overrides :: "'n yaml \<Rightarrow> 'n \<Rightarrow> yaml_error + (string, time) umap" where
  "append_actor_distance_overrides y n =
     (if \<not> is_section y n then Inr []
      else bind_result
        (collect (\<lambda>(k, v). bind_result (ym_as_string y k) (\<lambda>i. bind_result (ym_as_int64 y v) (\<lambda>d. Inr (i, d)))) (ym_entries y n))
        (\<lambda>ds. Inr (fold (\<lambda>(i, d). umap_emplace i d) ds [])))"

subsection \<open>Workflows\<close>

definition kDefaultWorkflowId :: string where "kDefaultWorkflowId = ''workflow''"
definition kDefaultAvailabilityWindowStart :: time where "kDefaultAvailabilityWindowStart = 0"
definition kDefaultAvailabilityWindowEnd :: time where "kDefaultAvailabilityWindowEnd = 1000000"
definition kDefaultDeadlineSlack :: time where "kDefaultDeadlineSlack = 1000"

definition default_workflow_config :: workflow_config where
  "default_workflow_config = \<lparr>wc_id = [], wc_optimization = default_optimization_config, wc_actors = [], wc_tasks = []\<rparr>"

definition parse_availability_window :: "'n yaml \<Rightarrow> 'n \<Rightarrow> yaml_error + availability_window" where
  "parse_availability_window y node =
     bind_result (read_field y (ym_as_int64 y) node ''start'' 0) (\<lambda>s.
     bind_result (read_field y (ym_as_int64 y) node ''end'' 0) (\<lambda>e. Inr \<lparr>win_start = s, win_end = e\<rparr>))"

definition parse_objective :: "'n yaml \<Rightarrow> 'n \<Rightarrow> yaml_error + objective_weights" where
  "parse_objective y node =
     bind_result (read_field y (ym_as_int64 y) node ''fulfilled_task_weight'' (fulfilled_task_weight default_objective_weights)) (\<lambda>w1.
     bind_result (read_field y (ym_as_int64 y) node ''priority_weight'' (priority_weight default_objective_weights)) (\<lambda>w2.
     bind_result (read_field y (ym_as_int64 y) node ''makespan_weight'' (makespan_weight default_objective_weights)) (\<lambda>w3.
     bind_result (read_field y (ym_as_int64 y) node ''travel_distance_weight'' (travel_distance_weight default_objective_weights)) (\<lambda>w4.
     bind_result (read_field y (ym_as_int64 y) node ''tardiness_weight'' (tardiness_weight default_objective_weights)) (\<lambda>w5.
     bind_result (read_field y (ym_as_int64 y) node ''execution_cost_weight'' (execution_cost_weight default_objective_weights)) (\<lambda>w6.
     bind_result (read_field y (ym_as_int64 y) node ''preferred_actor_weight'' (preferred_actor_weight default_objective_weights)) (\<lambda>w7.
       Inr \<lparr>fulfilled_task_weight = w1, priority_weight = w2, makespan_weight = w3, travel_distance_weight = w4, tardiness_weight = w5, execution_cost_weight = w6, preferred_actor_weight = w7\<rparr>)))))))"

definition parse_optimization :: "'n yaml \<Rightarrow> 'n \<Rightarrow> yaml_error + optimization_config" where
  "parse_optimization y node =
     bind_result (read_field y (ym_as_string y) node ''backend'' kDefaultOptimizationBackend) (\<lambda>backend.
     bind_result (read_field y (ym_as_int64 y) node ''time_limit_ms'' 0) (\<lambda>time_limit_ms.
     bind_result (read_field y (ym_as_double y) node ''relative_gap_limit'' 0) (\<lambda>relative_gap_limit.
     bind_result (read_field y (ym_as_int y) node ''num_search_workers'' 1) (\<lambda>num_search_workers.
     bind_result (read_field y (ym_as_bool y) node ''allow_partial_plan'' True) (\<lambda>allow_partial_plan.
     bind_result (bind_result (ym_get y node ''objective'') (\<lambda>n.
       if is_section y n then parse_objective y n else Inr default_objective_weights)) (\<lambda>objective.
       Inr \<lparr>oc_backend = backend, oc_time_limit_ms = time_limit_ms, oc_relative_gap_limit = relative_gap_limit,
         oc_num_search_workers = num_search_workers, oc_allow_partial_plan = allow_partial_plan, oc_objective = objective\<rparr>))))))"

definition parse_actor :: "'n yaml \<Rightarrow> 'n \<Rightarrow> yaml_error + actor_config" where
  "parse_actor y node =
     bind_result (read_field y (ym_as_string y) node ''id'' []) (\<lambda>i.
     bind_result (read_field y (ym_as_string y) node ''type'' []) (\<lambda>typ.
     bind_result (read_field y (ym_as_int y) node ''capacity'' 1) (\<lambda>capacity.
     bind_result (read_strings y node ''capabilities'') (\<lambda>capabilities.
     bind_result (read_field y (ym_as_double y) node ''execution_cost_per_unit'' 0) (\<lambda>cost.
     bind_result (bind_result (ym_get y node ''windows'') (\<lambda>n. append_transformed_sequence y n (parse_availability_window y)))
       (\<lambda>windows.
       Inr \<lparr>ac_id = i, ac_type = typ, ac_capacity = capacity,
         ac_windows = (if windows = [] then [\<lparr>win_start = kDefaultAvailabilityWindowStart,
           win_end = kDefaultAvailabilityWindowEnd\<rparr>] else windows),
         ac_capabilities = capabilities, ac_execution_cost_per_unit = cost\<rparr>))))))"

definition parse_task :: "'n yaml \<Rightarrow> 'n \<Rightarrow> yaml_error + task_config" where
  "parse_task y node =
     bind_result (read_field y (ym_as_string y) node ''id'' []) (\<lambda>i.
     bind_result (read_field y (ym_as_int64 y) node ''requested_time'' 0) (\<lambda>requested_time.
     bind_result (read_field y (ym_as_int64 y) node ''duration'' 0) (\<lambda>duration.
     bind_result (read_field y (ym_as_int64 y) node ''latest_start_time'' 0) (\<lambda>latest_start_time.
     bind_result (read_field y (ym_as_int64 y) node ''deadline'' 0) (\<lambda>deadline.
     bind_result (read_field y (ym_as_int y) node ''priority'' 0) (\<lambda>priority.
     bind_result (read_field y (ym_as_int y) node ''demand'' 1) (\<lambda>demand.
     bind_result (read_field y (ym_as_bool y) node ''mandatory'' True) (\<lambda>mandatory.
     bind_result (read_field y (ym_as_bool y) node ''preemptible'' False) (\<lambda>preemptible.
     bind_result (read_strings y node ''allowed_actor_types'') (\<lambda>allowed_actor_types.
     bind_result (read_strings y node ''allowed_actor_ids'') (\<lambda>allowed_actor_ids.
     bind_result (read_strings y node ''preferred_actor_ids'') (\<lambda>preferred_actor_ids.
     bind_result (read_strings y node ''required_capabilities'') (\<lambda>required_capabilities.
     bind_result (read_strings y node ''dependency_task_ids'') (\<lambda>dependency_task_ids.
     bind_result (read_strings y node ''mutually_exclusive_task_ids'') (\<lambda>mutually_exclusive_task_ids.
     bind_result (bind_result (ym_get y node ''actor_distances'') (append_actor_distance_overrides y)) (\<lambda>actor_distances.
     bind_result (read_field y (ym_as_double y) node ''tardiness_cost_per_unit'' 0) (\<lambda>tardiness_cost.
     bind_result (read_field y (ym_as_double y) node ''early_start_bonus'' 0) (\<lambda>early_start_bonus.
     bind_result (bind_result (ym_get y node ''phase_durations'') (\<lambda>n. append_transformed_sequence y n (ym_as_int64 y))) (\<lambda>phase_durations.
       Inr \<lparr>tc_id = i, tc_requested_time = requested_time, tc_duration = duration, tc_latest_start_time = latest_start_time,
         tc_deadline = (if deadline = 0 then requested_time + duration + kDefaultDeadlineSlack else deadline),
         tc_priority = priority, tc_demand = demand, tc_mandatory = mandatory, tc_preemptible = preemptible,
         tc_allowed_actor_types = allowed_actor_types, tc_allowed_actor_ids = allowed_actor_ids,
         tc_preferred_actor_ids = preferred_actor_ids, tc_required_capabilities = required_capabilities,
         tc_dependency_task_ids = dependency_task_ids, tc_mutually_exclusive_task_ids = mutually_exclusive_task_ids,
         tc_actor_distances = actor_distances, tc_tardiness_cost_per_unit = tardiness_cost,
         tc_early_start_bonus = early_start_bonus, tc_phase_durations = phase_durations\<rparr>)))))))))))))))))))"

text \<open>\<^verbatim>\<open>root["actors"] && root["actors"].IsSequence()\<close> is the guard of \<^verbatim>\<open>append_transformed_sequence\<close>.\<close>

definition parse_workflow_yaml :: "'n yaml \<Rightarrow> 'n \<Rightarrow> yaml_error + workflow_config" where
  "parse_workflow_yaml y doc =
     (if \<not> is_section y doc then Inr default_workflow_config
      else
        bind_result (read_field y (ym_as_string y) doc ''id'' []) (\<lambda>i.
        bind_result (bind_result (ym_get y doc ''optimization'') (\<lambda>n.
          if is_section y n then parse_optimization y n else Inr default_optimization_config)) (\<lambda>optimization.
        bind_result (bind_result (ym_get y doc ''actors'') (\<lambda>n. append_transformed_sequence y n (parse_actor y))) (\<lambda>actors.
        bind_result (bind_result (ym_get y doc ''tasks'') (\<lambda>n. append_transformed_sequence y n (parse_task y))) (\<lambda>tasks.
          Inr \<lparr>wc_id = (if i = [] then kDefaultWorkflowId else i), wc_optimization = optimization, wc_actors = actors,
            wc_tasks = tasks\<rparr>)))))"

definition workflow_has_content :: "workflow_config \<Rightarrow> bool" where
  "workflow_has_content c \<longleftrightarrow> wc_actors c \<noteq> [] \<or> wc_tasks c \<noteq> []"

definition find_workflow_node :: "'n yaml \<Rightarrow> 'n \<Rightarrow> yaml_error + 'n" where
  "find_workflow_node y doc = section_or y doc ''workflow'' (Inr doc)"

text \<open>\<^verbatim>\<open>catch (const YAML::Exception&)\<close>: the default value.\<close>

definition or_on_error :: "'e + 'a \<Rightarrow> 'a \<Rightarrow> 'a" where
  "or_on_error r d = (case r of Inl _ \<Rightarrow> d | Inr x \<Rightarrow> x)"

definition load_config_from_string :: "'n yaml \<Rightarrow> string \<Rightarrow> workflow_config" where
  "load_config_from_string y content =
     or_on_error (bind_result (ym_load y content) (\<lambda>doc. bind_result (find_workflow_node y doc) (parse_workflow_yaml y)))
       default_workflow_config"

definition load_config_from_file :: "'n yaml \<Rightarrow> string \<Rightarrow> workflow_config" where
  "load_config_from_file y path =
     or_on_error (bind_result (ym_load_file y path) (\<lambda>doc. bind_result (find_workflow_node y doc) (parse_workflow_yaml y)))
       default_workflow_config"

subsection \<open>TLS and security\<close>

definition parse_tls_data_source :: "'n yaml \<Rightarrow> 'n \<Rightarrow> yaml_error + tls_data_source" where
  "parse_tls_data_source y n =
     (if \<not> ym_defined y n then Inr no_source
      else if ym_is_scalar y n then bind_result (ym_as_string y n) (\<lambda>path. Inr (from_file path))
      else if \<not> ym_is_map y n then Inr no_source
      else
        bind_result (ym_get y n ''file'') (\<lambda>file.
        bind_result (ym_get y n ''inline_pem'') (\<lambda>pem.
          if ym_defined y file then bind_result (ym_as_string y file) (\<lambda>path. Inr (from_file path))
          else if ym_defined y pem then bind_result (ym_as_string y pem) (\<lambda>text. Inr (from_inline_pem text))
          else Inr no_source)))"

definition parse_tls_identity_config :: "'n yaml \<Rightarrow> 'n \<Rightarrow> yaml_error + tls_identity_config" where
  "parse_tls_identity_config y n =
     (if \<not> is_section y n then Inr default_identity
      else
        bind_result (bind_result (ym_get y n ''certificate_chain'') (parse_tls_data_source y)) (\<lambda>chain.
        bind_result (bind_result (ym_get y n ''private_key'') (parse_tls_data_source y)) (\<lambda>key.
        bind_result (bind_result (ym_get y n ''private_key_password'') (parse_tls_data_source y)) (\<lambda>password.
          Inr \<lparr>ti_certificate_chain = chain, ti_private_key = key, ti_private_key_password = password\<rparr>))))"

definition parse_tls_trust_config :: "'n yaml \<Rightarrow> 'n \<Rightarrow> yaml_error + tls_trust_config" where
  "parse_tls_trust_config y n =
     (if \<not> is_section y n then Inr default_trust
      else
        bind_result (bind_result (ym_get y n ''root_certificates'') (parse_tls_data_source y)) (\<lambda>roots.
        bind_result (read_field y (ym_as_bool y) n ''use_system_default_roots'' True) (\<lambda>system.
        bind_result (read_field y (ym_as_bool y) n ''verify_peer'' True) (\<lambda>verify.
        bind_result (read_field y (ym_as_string y) n ''expected_peer_name'' []) (\<lambda>peer.
          Inr \<lparr>tt_root_certificates = roots, tt_use_system_default_roots = system, tt_verify_peer = verify,
            tt_expected_peer_name = peer\<rparr>)))))"

definition parse_tls_server_config :: "'n yaml \<Rightarrow> 'n \<Rightarrow> yaml_error + tls_server_config" where
  "parse_tls_server_config y n =
     (if \<not> is_section y n then Inr default_tls_server
      else
        bind_result (bind_result (ym_get y n ''identity'') (parse_tls_identity_config y)) (\<lambda>identity.
        bind_result (bind_result (ym_get y n ''client_trust'') (parse_tls_trust_config y)) (\<lambda>trust.
        bind_result (read_field y (ym_as_bool y) n ''require_client_certificate'' False) (\<lambda>required.
          Inr \<lparr>tv_identity = identity, tv_client_trust = trust, tv_require_client_certificate = required\<rparr>))))"

definition parse_auth_mode :: "'n yaml \<Rightarrow> 'n \<Rightarrow> yaml_error + auth_mode" where
  "parse_auth_mode y n =
     (if \<not> is_section y n then Inr NoAuth
      else
        bind_result (ym_get y n ''mode'') (\<lambda>m.
          if \<not> ym_defined y m then Inr NoAuth
          else bind_result (ym_as_string y m) (\<lambda>mode.
            Inr (if mode = ''bearer_token'' then BearerToken else if mode = ''api_key'' then ApiKey else NoAuth))))"

definition tls_enabled_by_config :: "tls_server_config \<Rightarrow> bool" where
  "tls_enabled_by_config c \<longleftrightarrow> identity_configured (tv_identity c) \<or> source_configured (tt_root_certificates (tv_client_trust c))"

definition default_security :: security_config where
  "default_security = \<lparr>sc_mode = NoAuth, sc_expected_credential = [], sc_require_secure_transport = False\<rparr>"

definition parse_security :: "'n yaml \<Rightarrow> 'n \<Rightarrow> yaml_error + security_config" where
  "parse_security y n =
     bind_result (parse_auth_mode y n) (\<lambda>mode.
       if \<not> is_section y n then Inr (default_security\<lparr>sc_mode := mode\<rparr>)
       else
         bind_result (read_field y (ym_as_string y) n ''expected_credential'' []) (\<lambda>credential.
         bind_result (read_field y (ym_as_bool y) n ''require_secure_transport'' False) (\<lambda>secure.
           Inr \<lparr>sc_mode = mode, sc_expected_credential = credential, sc_require_secure_transport = secure\<rparr>)))"

subsection \<open>The launcher's settings\<close>

definition kDefaultCliPrompt :: string where "kDefaultCliPrompt = ''task-orchestrator> ''"

record cli_interface_config =
  ci_enabled :: bool
  ci_prompt :: string

record http_interface_config =
  hi_enabled :: bool
  hi_endpoint :: http_endpoint_options

record grpc_interface_config =
  gi_enabled :: bool
  gi_endpoint :: grpc_endpoint_options

record control_plane_config =
  cf_enabled :: bool
  cf_database_path :: string
  cf_recover_on_start :: bool
  cf_prune_after_days :: int

definition control_plane_configured :: "control_plane_config \<Rightarrow> bool" where
  "control_plane_configured c \<longleftrightarrow> cf_enabled c \<and> cf_database_path c \<noteq> []"

definition pruning_enabled :: "control_plane_config \<Rightarrow> bool" where
  "pruning_enabled c \<longleftrightarrow> cf_prune_after_days c > 0"

datatype request_file_kind = NoRequest | WorkflowYaml | WorkflowText

record request_file_config =
  rf_kind :: request_file_kind
  rf_path :: string

definition request_configured :: "request_file_config \<Rightarrow> bool" where
  "request_configured r \<longleftrightarrow> rf_kind r \<noteq> NoRequest \<and> rf_path r \<noteq> []"

definition no_request :: request_file_config where
  "no_request = \<lparr>rf_kind = NoRequest, rf_path = []\<rparr>"

record launch_config =
  lc_configured :: bool
  lc_security :: security_config
  lc_cli :: cli_interface_config
  lc_http :: http_interface_config
  lc_grpc :: grpc_interface_config
  lc_control_plane :: control_plane_config
  lc_bootstrap_request :: request_file_config
  lc_bootstrap_workflow :: "workflow_config option"

definition has_enabled_interface :: "launch_config \<Rightarrow> bool" where
  "has_enabled_interface c \<longleftrightarrow> ci_enabled (lc_cli c) \<or> hi_enabled (lc_http c) \<or> gi_enabled (lc_grpc c)"

definition default_cli :: cli_interface_config where
  "default_cli = \<lparr>ci_enabled = False, ci_prompt = kDefaultCliPrompt\<rparr>"

definition default_control_plane :: control_plane_config where
  "default_control_plane = \<lparr>cf_enabled = False, cf_database_path = [], cf_recover_on_start = True, cf_prune_after_days = 30\<rparr>"

definition default_launch_config :: launch_config where
  "default_launch_config = \<lparr>lc_configured = False, lc_security = default_security, lc_cli = default_cli,
     lc_http = \<lparr>hi_enabled = False, hi_endpoint = default_http_endpoint\<rparr>,
     lc_grpc = \<lparr>gi_enabled = False, gi_endpoint = default_grpc_endpoint\<rparr>, lc_control_plane = default_control_plane,
     lc_bootstrap_request = no_request, lc_bootstrap_workflow = None\<rparr>"

datatype application_mode = OneShot | Serve

record application_config =
  ap_configured :: bool
  ap_mode :: application_mode
  ap_request :: request_file_config
  ap_service :: launch_config

definition default_application_config :: application_config where
  "default_application_config = \<lparr>ap_configured = False, ap_mode = OneShot, ap_request = no_request,
     ap_service = default_launch_config\<rparr>"

definition application_valid :: "application_config \<Rightarrow> bool" where
  "application_valid c \<longleftrightarrow>
     (if ap_mode c = OneShot then request_configured (ap_request c) else has_enabled_interface (ap_service c))"

definition find_application_node :: "'n yaml \<Rightarrow> 'n \<Rightarrow> yaml_error + 'n" where
  "find_application_node y doc = section_or y doc ''application'' (Inr doc)"

definition find_interface_node :: "'n yaml \<Rightarrow> 'n \<Rightarrow> string \<Rightarrow> yaml_error + 'n" where
  "find_interface_node y launch name =
     (if \<not> is_section y launch then Inr (ym_null y)
      else
        bind_result (ym_get y launch ''interfaces'') (\<lambda>interfaces.
        bind_result (if is_section y interfaces then ym_get y interfaces name else Inr (ym_null y)) (\<lambda>inner.
        bind_result (ym_get y launch name) (\<lambda>outer.
          Inr (if is_section y interfaces \<and> ym_defined y inner then inner
               else if ym_defined y outer then outer else ym_null y)))))"

definition interface_enabled :: "'n yaml \<Rightarrow> 'n \<Rightarrow> yaml_error + bool" where
  "interface_enabled y n =
     (if \<not> is_section y n then Inr False
      else bind_result (ym_get y n ''enabled'') (\<lambda>e. if ym_defined y e then ym_as_bool y e else Inr (ym_size y n > 0)))"

definition parse_request_file_kind :: "'n yaml \<Rightarrow> 'n \<Rightarrow> yaml_error + request_file_kind" where
  "parse_request_file_kind y n =
     (if \<not> is_section y n then Inr NoRequest
      else
        bind_result (ym_get y n ''kind'') (\<lambda>k. bind_result (ym_get y n ''type'') (\<lambda>t.
          if \<not> ym_defined y k \<and> \<not> ym_defined y t then Inr NoRequest
          else bind_result (ym_as_string y (if ym_defined y k then k else t)) (\<lambda>kind.
            Inr (if kind = ''workflow_yaml'' \<or> kind = ''yaml'' then WorkflowYaml
                 else if kind = ''workflow_text'' \<or> kind = ''text'' then WorkflowText else NoRequest)))))"

definition parse_request_file_config :: "'n yaml \<Rightarrow> 'n \<Rightarrow> yaml_error + request_file_config" where
  "parse_request_file_config y n =
     (if \<not> is_section y n then Inr no_request
      else
        bind_result (parse_request_file_kind y n) (\<lambda>kind.
        bind_result (read_field y (ym_as_string y) n ''path'' []) (\<lambda>path. Inr \<lparr>rf_kind = kind, rf_path = path\<rparr>)))"

text \<open>The sections of an interface; a missing one is the null node, which is defined.\<close>

definition parse_cli :: "'n yaml \<Rightarrow> 'n \<Rightarrow> yaml_error + cli_interface_config" where
  "parse_cli y n =
     (if \<not> ym_defined y n then Inr default_cli
      else
        bind_result (interface_enabled y n) (\<lambda>enabled.
        bind_result (read_field y (ym_as_string y) n ''prompt'' kDefaultCliPrompt) (\<lambda>prompt.
          Inr \<lparr>ci_enabled = enabled, ci_prompt = prompt\<rparr>)))"

text \<open>\<open>use_tls\<close> as configured, or else whether TLS material is.\<close>

definition parse_use_tls :: "'n yaml \<Rightarrow> 'n \<Rightarrow> tls_server_config \<Rightarrow> yaml_error + bool" where
  "parse_use_tls y n tls = read_field y (ym_as_bool y) n ''use_tls'' (tls_enabled_by_config tls)"

definition parse_http :: "'n yaml \<Rightarrow> 'n \<Rightarrow> yaml_error + http_interface_config" where
  "parse_http y n =
     (if \<not> ym_defined y n then Inr \<lparr>hi_enabled = False, hi_endpoint = default_http_endpoint\<rparr>
      else
        bind_result (interface_enabled y n) (\<lambda>enabled.
        bind_result (read_field y (ym_as_string y) n ''bind_address'' kDefaultLoopbackAddress) (\<lambda>address.
        bind_result (read_field y (ym_as_int y) n ''port'' kDefaultHttpPort) (\<lambda>port.
        bind_result (bind_result (ym_get y n ''tls'') (parse_tls_server_config y)) (\<lambda>tls.
        bind_result (parse_use_tls y n tls) (\<lambda>use_tls.
        bind_result (read_field y (ym_as_size y) n ''io_threads'' kDefaultIoThreads) (\<lambda>threads.
        bind_result (read_field y (\<lambda>m. map_sum id int (ym_as_size y m)) n ''max_body_bytes'' kDefaultMaxHttpBodyBytes) (\<lambda>bytes.
          Inr \<lparr>hi_enabled = enabled, hi_endpoint = \<lparr>he_bind_address = address, he_port = port, he_use_tls = use_tls,
            he_tls = tls, he_io_threads = threads, he_max_body_bytes = bytes\<rparr>\<rparr>))))))))"

definition parse_grpc :: "'n yaml \<Rightarrow> 'n \<Rightarrow> yaml_error + grpc_interface_config" where
  "parse_grpc y n =
     (if \<not> ym_defined y n then Inr \<lparr>gi_enabled = False, gi_endpoint = default_grpc_endpoint\<rparr>
      else
        bind_result (interface_enabled y n) (\<lambda>enabled.
        bind_result (read_field y (ym_as_string y) n ''bind_address'' kDefaultLoopbackAddress) (\<lambda>address.
        bind_result (read_field y (ym_as_int y) n ''port'' kDefaultGrpcPort) (\<lambda>port.
        bind_result (bind_result (ym_get y n ''tls'') (parse_tls_server_config y)) (\<lambda>tls.
        bind_result (parse_use_tls y n tls) (\<lambda>use_tls.
        bind_result (read_field y (ym_as_size y) n ''completion_queue_threads'' kDefaultIoThreads) (\<lambda>threads.
        bind_result (read_field y (ym_as_int y) n ''max_receive_message_bytes'' kDefaultMaxHttpBodyBytes) (\<lambda>receive.
        bind_result (read_field y (ym_as_int y) n ''max_send_message_bytes'' kDefaultMaxHttpBodyBytes) (\<lambda>send.
          Inr \<lparr>gi_enabled = enabled, gi_endpoint = \<lparr>ge_bind_address = address, ge_port = port, ge_use_tls = use_tls,
            ge_tls = tls, ge_completion_queue_threads = threads, ge_max_receive_message_bytes = receive,
            ge_max_send_message_bytes = send\<rparr>\<rparr>)))))))))"

definition parse_control_plane :: "'n yaml \<Rightarrow> 'n \<Rightarrow> yaml_error + control_plane_config" where
  "parse_control_plane y n =
     (if \<not> is_section y n then Inr default_control_plane
      else
        bind_result (read_field y (ym_as_bool y) n ''enabled'' (ym_size y n > 0)) (\<lambda>enabled.
        bind_result (bind_result (ym_get y n ''database_path'') (\<lambda>p.
          if ym_defined y p then ym_as_string y p else read_field y (ym_as_string y) n ''state_directory'' [])) (\<lambda>path.
        bind_result (read_field y (ym_as_bool y) n ''recover_on_start'' True) (\<lambda>recover.
        bind_result (read_field y (ym_as_int y) n ''prune_after_days'' 30) (\<lambda>days.
          Inr \<lparr>cf_enabled = enabled, cf_database_path = path, cf_recover_on_start = recover, cf_prune_after_days = days\<rparr>)))))"

definition parse_service_yaml :: "'n yaml \<Rightarrow> 'n \<Rightarrow> 'n \<Rightarrow> yaml_error + launch_config" where
  "parse_service_yaml y service doc =
     (if \<not> is_section y service then Inr default_launch_config
      else
        bind_result (bind_result (section_or y service ''security'' (ym_get y doc ''security'')) (parse_security y)) (\<lambda>security.
        bind_result (bind_result (find_interface_node y service ''cli'') (parse_cli y)) (\<lambda>cli.
        bind_result (bind_result (find_interface_node y service ''http'') (parse_http y)) (\<lambda>http.
        bind_result (bind_result (find_interface_node y service ''grpc'') (parse_grpc y)) (\<lambda>grpc.
        bind_result (bind_result (section_or y service ''control_plane'' (ym_get y doc ''control_plane'')) (parse_control_plane y))
          (\<lambda>control_plane.
        bind_result (bind_result (find_workflow_node y doc) (parse_workflow_yaml y)) (\<lambda>bootstrap.
          Inr \<lparr>lc_configured = True, lc_security = security, lc_cli = cli, lc_http = http, lc_grpc = grpc,
            lc_control_plane = control_plane, lc_bootstrap_request = no_request,
            lc_bootstrap_workflow = (if workflow_has_content bootstrap then Some bootstrap else None)\<rparr>)))))))"

definition parse_launch_yaml :: "'n yaml \<Rightarrow> 'n \<Rightarrow> yaml_error + launch_config" where
  "parse_launch_yaml y doc =
     (if \<not> is_section y doc then Inr default_launch_config
      else bind_result (ym_get y doc ''launch'') (\<lambda>n.
        if \<not> is_section y n then Inr default_launch_config else parse_service_yaml y n doc))"

definition parse_application_yaml :: "'n yaml \<Rightarrow> 'n \<Rightarrow> yaml_error + application_config" where
  "parse_application_yaml y doc =
     (if \<not> is_section y doc then Inr default_application_config
      else
        bind_result (find_application_node y doc) (\<lambda>app.
          if \<not> is_section y app then Inr default_application_config
          else
            bind_result (ym_get y doc ''application'') (\<lambda>section.
            bind_result (ym_get y app ''mode'') (\<lambda>mode.
            bind_result (ym_get y app ''request'') (\<lambda>request.
            bind_result (ym_get y app ''service'') (\<lambda>service.
              if \<not> (ym_defined y section \<or> ym_defined y mode \<or> ym_defined y request \<or> ym_defined y service)
              then Inr default_application_config
              else
                let service_node = (if is_section y service then service else app) in
                bind_result (if ym_defined y mode then ym_as_string y mode else Inr ''one_shot'') (\<lambda>mode.
                bind_result (parse_request_file_config y request) (\<lambda>request.
                bind_result (parse_service_yaml y service_node app) (\<lambda>launch.
                bind_result (bind_result (section_or y service_node ''bootstrap_request'' (ym_get y app ''bootstrap_request''))
                    (parse_request_file_config y)) (\<lambda>bootstrap.
                  Inr \<lparr>ap_configured = True, ap_mode = (if mode = ''serve'' then Serve else OneShot), ap_request = request,
                    ap_service =
                      (let launch = launch\<lparr>lc_bootstrap_request := bootstrap\<rparr> in
                       if request_configured bootstrap then launch\<lparr>lc_bootstrap_workflow := None, lc_configured := True\<rparr>
                       else launch)\<rparr>))))))))))"

definition load_launch_config_from_string :: "'n yaml \<Rightarrow> string \<Rightarrow> launch_config" where
  "load_launch_config_from_string y content =
     or_on_error (bind_result (ym_load y content) (parse_launch_yaml y)) default_launch_config"

definition load_launch_config_from_file :: "'n yaml \<Rightarrow> string \<Rightarrow> launch_config" where
  "load_launch_config_from_file y path =
     or_on_error (bind_result (ym_load_file y path) (parse_launch_yaml y)) default_launch_config"

definition load_application_config_from_string :: "'n yaml \<Rightarrow> string \<Rightarrow> application_config" where
  "load_application_config_from_string y content =
     or_on_error (bind_result (ym_load y content) (parse_application_yaml y)) default_application_config"

definition load_application_config_from_file :: "'n yaml \<Rightarrow> string \<Rightarrow> application_config" where
  "load_application_config_from_file y path =
     or_on_error (bind_result (ym_load_file y path) (parse_application_yaml y)) default_application_config"

end
