(* ===== verification/Operator_Service.thy ===== *)
theory Operator_Service
  imports Control_Plane
begin

text \<open>
  \<^verbatim>\<open>application/operator/src/operator_service.cpp\<close>: the service behind the operator console, above the
  control plane. The launcher passes the control plane itself as the runtime service and as the
  control-plane service, with its store and its update feed, so the state is that of the control plane
  and the connector registry. A field that the code reaches through \<^verbatim>\<open>mutable_x()\<close> is present from then
  on.
\<close>

subsection \<open>State and messages\<close>

record 'rt operator_service =
  os_plane :: "'rt control_plane"
  os_connectors :: "connector_binding list"

record dashboard_stats =
  ds_recent_events_persisted :: int
  ds_plan_versions_retained :: int
  ds_connectors_tracked :: int
  ds_workflows_tracked :: int
  ds_active_workflows :: int

record operator_connector_binding =
  ob_id :: string
  ob_kind :: string
  ob_display_name :: string
  ob_target :: string
  ob_enabled :: bool

record dashboard_request =
  dq_selected_workflow_id :: string
  dq_workflow_query :: string
  dq_auth :: client_auth_context
  dq_workflow_page_size :: int
  dq_max_events :: int
  dq_max_plan_versions :: int
  dq_max_audit_entries :: int

text \<open>The full dashboard and the incremental update have the same fields.\<close>

record dashboard_response =
  dr_ok :: bool
  dr_server_time :: int
  dr_stats :: dashboard_stats
  dr_workflows :: "workflow_summary list"
  dr_selected_workflow :: "history_response option"
  dr_selected_plan_diff :: "plan_diff_response option"
  dr_connectors :: "operator_connector_binding list"
  dr_error_message :: string
  dr_selected_workflow_id :: string

record dashboard_notification =
  dn_event_id :: "64 word"
  dn_workflow_id :: string

record upsert_operator_workflow_request =
  uw_config :: pb_workflow_config
  uw_auth :: client_auth_context
  uw_actor :: string
  uw_note :: string
  uw_idempotency_key :: "string option"

record upsert_operator_task_request =
  ut_workflow_id :: string
  ut_task :: pb_task_config
  ut_auth :: client_auth_context
  ut_actor :: string
  ut_note :: string
  ut_idempotency_key :: "string option"

record delete_operator_task_request =
  dt_workflow_id :: string
  dt_task_id :: string
  dt_auth :: client_auth_context
  dt_actor :: string
  dt_note :: string
  dt_idempotency_key :: "string option"

record operator_action_request =
  oa_workflow_id :: string
  oa_auth :: client_auth_context
  oa_actor :: string
  oa_reason :: string

record mutation_response =
  mr_ok :: bool
  mr_dashboard :: dashboard_response
  mr_error_message :: string

subsection \<open>Helpers\<close>

definition kDefaultWorkflowPageSize :: int where "kDefaultWorkflowPageSize = 32"
definition kDefaultHistoryLimit :: int where "kDefaultHistoryLimit = 32"
definition kDefaultOperatorActor :: string where "kDefaultOperatorActor = ''operator_ui''"

definition operator_now :: "'rt control_env \<Rightarrow> 'rt operator_service \<Rightarrow> int \<times> 'rt operator_service" where
  "operator_now env os = (let (t, s) = unix_time_ms_now env (os_plane os) in (t, os\<lparr>os_plane := s\<rparr>))"

definition resolve_actor :: "string \<Rightarrow> string" where
  "resolve_actor actor = (if actor = [] then kDefaultOperatorActor else actor)"

primrec connector_kind_label :: "connector_kind \<Rightarrow> string" where
  "connector_kind_label WebhookSource = ''Webhook source''"
| "connector_kind_label ScheduleSource = ''Schedule source''"
| "connector_kind_label QueueConsumer = ''Queue consumer''"
| "connector_kind_label OutboundCallback = ''Outbound callback''"
| "connector_kind_label DomainConnector = ''Domain connector''"

definition runtime_error_message :: "runtime_api_response \<Rightarrow> string" where
  "runtime_error_message r =
     (if \<not> ra_ok r \<and> ra_error_message r \<noteq> [] then ra_error_message r
      else if \<not> pr_result_ok (ra_result r) \<and> pr_result_error (ra_result r) \<noteq> [] then pr_result_error (ra_result r)
      else [])"

definition action_reason_or_default :: "string \<Rightarrow> string \<Rightarrow> string" where
  "action_reason_or_default reason fallback = (if reason = [] then fallback else reason)"

definition positive_or :: "int \<Rightarrow> int \<Rightarrow> int" where
  "positive_or d n = (if n > 0 then n else d)"

subsection \<open>The dashboard\<close>

definition populate_dashboard_stats :: "'rt operator_service \<Rightarrow> int \<Rightarrow> dashboard_stats" where
  "populate_dashboard_stats os now =
     (let m = get_storage_metrics (now - 24 * 60 * 60 * 1000) (cp_store (os_plane os)) in
      \<lparr>ds_recent_events_persisted = int (sm_recent_event_count m),
       ds_plan_versions_retained = int (sm_retained_plan_versions m),
       ds_connectors_tracked = int (length (list_bindings (os_connectors os))),
       ds_workflows_tracked = int (sm_tracked_workflows m), ds_active_workflows = int (sm_active_workflows m)\<rparr>)"

definition populate_connector_bindings :: "'rt operator_service \<Rightarrow> operator_connector_binding list" where
  "populate_connector_bindings os =
     map (\<lambda>c. \<lparr>ob_id = cb_id c, ob_kind = connector_kind_label (cb_kind c), ob_display_name = cb_display_name c,
            ob_target = cb_target c, ob_enabled = cb_enabled c\<rparr>) (list_bindings (os_connectors os))"

definition populate_workflow_summaries :: "string \<Rightarrow> int \<Rightarrow> 'rt operator_service \<Rightarrow> workflow_summary list" where
  "populate_workflow_summaries query page_size os =
     (let n = positive_or kDefaultWorkflowPageSize page_size in
      if query = []
      then pp_workflows (cp_list_workflows \<lparr>lq_page_size = n, lq_page_token = [], lq_states = []\<rparr> (os_plane os))
      else pp_workflows (cp_search_workflows
             \<lparr>lq_page_size = n, lq_page_token = [], lq_states = [], lq_query = query\<rparr> (os_plane os)))"

definition resolve_selected_workflow_id :: "string \<Rightarrow> workflow_summary list \<Rightarrow> string" where
  "resolve_selected_workflow_id selected workflows =
     (if selected = [] \<and> workflows \<noteq> [] then ws_workflow_id (hd workflows) else selected)"

definition empty_history :: history_response where
  "empty_history = \<lparr>hr_ok = False, hr_workflow = None, hr_events = [], hr_plan_versions = [], hr_audit_entries = [],
     hr_error_message = []\<rparr>"

definition empty_plan_diff :: plan_diff_response where
  "empty_plan_diff = \<lparr>pd_ok = False, pd_diff = None, pd_error_message = []\<rparr>"

text \<open>History, plan difference, and the error message when the history cannot be read.\<close>

definition populate_selected_workflow ::
  "string \<Rightarrow> int \<Rightarrow> int \<Rightarrow> int \<Rightarrow> 'rt operator_service \<Rightarrow> history_response \<times> plan_diff_response \<times> string option" where
  "populate_selected_workflow wid max_events max_plan_versions max_audit_entries os =
     (if wid = [] then (empty_history\<lparr>hr_ok := True\<rparr>, empty_plan_diff\<lparr>pd_ok := True\<rparr>, None)
      else
        (let h = get_workflow_history
               \<lparr>hq_workflow_id = wid, hq_max_events = positive_or kDefaultHistoryLimit max_events,
                hq_max_plan_versions = positive_or kDefaultHistoryLimit max_plan_versions,
                hq_max_audit_entries = positive_or kDefaultHistoryLimit max_audit_entries\<rparr> (os_plane os);
             n = length (hr_plan_versions h)
         in if \<not> hr_ok h then (h, empty_plan_diff, Some (hr_error_message h))
            else if n < 2 then (h, empty_plan_diff\<lparr>pd_ok := True\<rparr>, None)
            else (h, get_plan_diff wid (pv_version (hr_plan_versions h ! (n - 2)))
                       (pv_version (hr_plan_versions h ! (n - 1))) (os_plane os), None)))"

definition with_selected_workflow ::
  "history_response \<times> plan_diff_response \<times> string option \<Rightarrow> dashboard_response \<Rightarrow> dashboard_response" where
  "with_selected_workflow = (\<lambda>(h, d, failure) r.
     let r = r\<lparr>dr_selected_workflow := Some h, dr_selected_plan_diff := Some d\<rparr> in
     case failure of None \<Rightarrow> r | Some msg \<Rightarrow> r\<lparr>dr_ok := False, dr_error_message := msg\<rparr>)"

text \<open>The part before the selected workflow.\<close>

definition dashboard_overview ::
  "string \<Rightarrow> string \<Rightarrow> int \<Rightarrow> int \<Rightarrow> 'rt operator_service \<Rightarrow> dashboard_response" where
  "dashboard_overview selected query page_size now os =
     (let workflows = populate_workflow_summaries query page_size os in
      \<lparr>dr_ok = True, dr_server_time = now, dr_stats = populate_dashboard_stats os now, dr_workflows = workflows,
       dr_selected_workflow = None, dr_selected_plan_diff = None, dr_connectors = populate_connector_bindings os,
       dr_error_message = [], dr_selected_workflow_id = resolve_selected_workflow_id selected workflows\<rparr>)"

definition build_dashboard ::
  "'rt control_env \<Rightarrow> string \<Rightarrow> string \<Rightarrow> int \<Rightarrow> int \<Rightarrow> int \<Rightarrow> int \<Rightarrow> 'rt operator_service
     \<Rightarrow> dashboard_response \<times> 'rt operator_service" where
  "build_dashboard env selected query page_size max_events max_plan_versions max_audit_entries os =
     (let (now, os) = operator_now env os;
          r = dashboard_overview selected query page_size now os;
          wid = dr_selected_workflow_id r
      in if wid = [] then (r, os)
         else (with_selected_workflow
                 (populate_selected_workflow wid max_events max_plan_versions max_audit_entries os) r, os))"

definition get_dashboard ::
  "'rt control_env \<Rightarrow> dashboard_request \<Rightarrow> 'rt operator_service \<Rightarrow> dashboard_response \<times> 'rt operator_service" where
  "get_dashboard env q os =
     build_dashboard env (dq_selected_workflow_id q) (dq_workflow_query q) (dq_workflow_page_size q) (dq_max_events q)
       (dq_max_plan_versions q) (dq_max_audit_entries q) os"

definition get_dashboard_update ::
  "'rt control_env \<Rightarrow> dashboard_request \<Rightarrow> dashboard_notification \<Rightarrow> 'rt operator_service
     \<Rightarrow> dashboard_response \<times> 'rt operator_service" where
  "get_dashboard_update env q n os =
     (let (now, os) = operator_now env os;
          r = dashboard_overview (dq_selected_workflow_id q) (dq_workflow_query q) (dq_workflow_page_size q) now os;
          wid = dr_selected_workflow_id r
      in if wid \<noteq> [] \<and> wid = dn_workflow_id n
         then (with_selected_workflow
                 (populate_selected_workflow wid (dq_max_events q) (dq_max_plan_versions q) (dq_max_audit_entries q) os) r, os)
         else (r, os))"

definition build_mutation_response ::
  "'rt control_env \<Rightarrow> string \<Rightarrow> bool \<Rightarrow> string \<Rightarrow> 'rt operator_service \<Rightarrow> mutation_response \<times> 'rt operator_service" where
  "build_mutation_response env selected ok msg os =
     (let (d, os) = build_dashboard env selected [] kDefaultWorkflowPageSize kDefaultHistoryLimit kDefaultHistoryLimit
            kDefaultHistoryLimit os
      in (\<lparr>mr_ok = ok, mr_dashboard = d, mr_error_message = msg\<rparr>, os))"

subsection \<open>Updates\<close>

definition latest_dashboard_event_id :: "'rt operator_service \<Rightarrow> 64 word" where
  "latest_dashboard_event_id os = (case cp_feed (os_plane os) of None \<Rightarrow> 0 | Some fd \<Rightarrow> fd_latest_event_id fd)"

definition wait_for_dashboard_update ::
  "64 word \<Rightarrow> feed_action list list \<Rightarrow> 'rt operator_service \<Rightarrow> dashboard_notification option \<times> 'rt operator_service" where
  "wait_for_dashboard_update after segs os =
     (case cp_feed (os_plane os) of
        None \<Rightarrow> (None, os)
      | Some fd \<Rightarrow>
          (let (update, fd) = wait_for_update after segs fd
           in (map_option (\<lambda>u. \<lparr>dn_event_id = ue_event_id u, dn_workflow_id = ue_workflow_id u\<rparr>) update,
               os\<lparr>os_plane := (os_plane os)\<lparr>cp_feed := Some fd\<rparr>\<rparr>)))"

subsection \<open>Mutations\<close>

definition append_audit_entry ::
  "'rt control_env \<Rightarrow> string \<Rightarrow> string \<Rightarrow> string \<Rightarrow> string \<Rightarrow> 'rt control_plane \<Rightarrow> store_error + 'rt control_plane" where
  "append_audit_entry env wid actor action detail s =
     (case get_workflow wid (cp_store s) of
        None \<Rightarrow> Inr s
      | Some r \<Rightarrow>
          (let n = ws_total_audit_entry_count (wr_summary r) + 1; (t, s) = unix_time_ms_now env s
           in bind_result
                (on_store (write_audit_entry wid \<lparr>ae_sequence = n, ae_recorded_at = t, ae_actor = resolve_actor actor,
                   ae_action = action, ae_detail = detail\<rparr>) s)
                (\<lambda>s. Inr (publish_workflow_update wid (save_workflow
                   (update_summary (\<lambda>m. m\<lparr>ws_total_audit_entry_count := n, ws_updated_at := t\<rparr>) r) s)))))"

text \<open>Run an operation of the control plane, then answer with a dashboard of the workflow.\<close>

definition then_dashboard ::
  "'rt control_env \<Rightarrow> string \<Rightarrow> (store_error + (bool \<times> string) \<times> 'rt control_plane) \<Rightarrow> 'rt operator_service
     \<Rightarrow> store_error + mutation_response \<times> 'rt operator_service" where
  "then_dashboard env wid res os =
     bind_result res (\<lambda>((ok, msg), s). Inr (build_mutation_response env wid ok msg (os\<lparr>os_plane := s\<rparr>)))"

text \<open>Submit the edited configuration, which replaces the stored one, and audit the edit.\<close>

definition submit_edit ::
  "'rt control_env \<Rightarrow> string \<Rightarrow> pb_workflow_config \<Rightarrow> client_auth_context \<Rightarrow> string option \<Rightarrow> string \<Rightarrow> string \<Rightarrow> string
     \<Rightarrow> 'rt control_plane \<Rightarrow> store_error + (bool \<times> string) \<times> 'rt control_plane" where
  "submit_edit env wid config auth key actor action detail s =
     bind_result
       (cp_submit_workflow env
          \<lparr>sw_config = config, sw_auth = auth, sw_replace_existing = Some True, sw_idempotency_key = key\<rparr> s)
       (\<lambda>(resp, s). let msg = runtime_error_message resp in
          bind_result (append_audit_entry env wid actor action detail s) (\<lambda>s. Inr ((msg = [], msg), s)))"

definition op_upsert_workflow ::
  "'rt control_env \<Rightarrow> upsert_operator_workflow_request \<Rightarrow> 'rt operator_service
     \<Rightarrow> store_error + mutation_response \<times> 'rt operator_service" where
  "op_upsert_workflow env q os =
     (let wid = pw_id (uw_config q) in
      if wid = [] then Inr (build_mutation_response env [] False ''Workflow id is required.'' os)
      else then_dashboard env wid
             (submit_edit env wid (uw_config q) (uw_auth q) (uw_idempotency_key q) (uw_actor q) ''operator_upsert_workflow''
                (if uw_note q = [] then ''Workflow definition updated from the operator console.'' else uw_note q)
                (os_plane os)) os)"

text \<open>\<^verbatim>\<open>std::ranges::find\<close> by task id, then assignment through the iterator or \<^verbatim>\<open>add_tasks\<close>.\<close>

fun put_task :: "pb_task_config \<Rightarrow> pb_task_config list \<Rightarrow> pb_task_config list" where
  "put_task t [] = [t]"
| "put_task t (x # xs) = (if px_id x = px_id t then t # xs else x # put_task t xs)"

fun erase_task :: "string \<Rightarrow> pb_task_config list \<Rightarrow> pb_task_config list" where
  "erase_task i [] = []"
| "erase_task i (x # xs) = (if px_id x = i then xs else x # erase_task i xs)"

definition has_task :: "string \<Rightarrow> pb_task_config list \<Rightarrow> bool" where
  "has_task i ts \<longleftrightarrow> (\<exists>t\<in>set ts. px_id t = i)"

definition op_upsert_task ::
  "'rt control_env \<Rightarrow> upsert_operator_task_request \<Rightarrow> 'rt operator_service
     \<Rightarrow> store_error + mutation_response \<times> 'rt operator_service" where
  "op_upsert_task env q os =
     (let wid = ut_workflow_id q in
      if wid = [] then Inr (build_mutation_response env [] False ''workflow_id is required.'' os)
      else if px_id (ut_task q) = [] then Inr (build_mutation_response env wid False ''task.id is required.'' os)
      else
        case get_workflow wid (cp_store (os_plane os)) of
          None \<Rightarrow> Inr (build_mutation_response env wid False ''Workflow record not found.'' os)
        | Some r \<Rightarrow>
            (let tasks = pw_tasks (wr_config r);
                 replacing = has_task (px_id (ut_task q)) tasks;
                 config = (wr_config r)\<lparr>pw_tasks := put_task (ut_task q) tasks\<rparr>;
                 action = (if replacing then ''operator_update_task'' else ''operator_insert_task'');
                 detail = (if replacing then ''Task schedule updated from the operator console.''
                           else ''Task schedule inserted from the operator console.'')
             in then_dashboard env wid
                  (submit_edit env wid config (ut_auth q) (ut_idempotency_key q) (ut_actor q) action
                     (if ut_note q = [] then detail @ '' task_id='' @ px_id (ut_task q) else ut_note q) (os_plane os)) os))"

definition op_delete_task ::
  "'rt control_env \<Rightarrow> delete_operator_task_request \<Rightarrow> 'rt operator_service
     \<Rightarrow> store_error + mutation_response \<times> 'rt operator_service" where
  "op_delete_task env q os =
     (let wid = dt_workflow_id q in
      if wid = [] then Inr (build_mutation_response env [] False ''workflow_id is required.'' os)
      else if dt_task_id q = [] then Inr (build_mutation_response env wid False ''task_id is required.'' os)
      else
        case get_workflow wid (cp_store (os_plane os)) of
          None \<Rightarrow> Inr (build_mutation_response env wid False ''Workflow record not found.'' os)
        | Some r \<Rightarrow>
            (let tasks = pw_tasks (wr_config r) in
             if \<not> has_task (dt_task_id q) tasks
             then Inr (build_mutation_response env wid False ''Task record not found.'' os)
             else
               (let config = (wr_config r)\<lparr>pw_tasks := erase_task (dt_task_id q) tasks\<rparr>
                in then_dashboard env wid
                     (submit_edit env wid config (dt_auth q) (dt_idempotency_key q) (dt_actor q) ''operator_delete_task''
                        (if dt_note q = [] then ''Task removed from the operator console. task_id='' @ dt_task_id q
                         else dt_note q) (os_plane os)) os)))"

definition answer_action ::
  "store_error + action_response \<times> 'rt control_plane \<Rightarrow> store_error + (bool \<times> string) \<times> 'rt control_plane" where
  "answer_action res = bind_result res (\<lambda>(a, s). Inr ((ar_ok a, ar_error_message a), s))"

definition console_action :: "string \<Rightarrow> operator_action_request \<Rightarrow> action_request" where
  "console_action fallback q =
     \<lparr>aq_workflow_id = oa_workflow_id q, aq_actor = oa_actor q, aq_reason = action_reason_or_default (oa_reason q) fallback\<rparr>"

definition op_pause_workflow ::
  "'rt control_env \<Rightarrow> operator_action_request \<Rightarrow> 'rt operator_service
     \<Rightarrow> store_error + mutation_response \<times> 'rt operator_service" where
  "op_pause_workflow env q os =
     then_dashboard env (oa_workflow_id q) (answer_action
       (pause_workflow env (console_action ''Workflow paused from the operator console.'' q) (os_plane os))) os"

definition op_resume_workflow ::
  "'rt control_env \<Rightarrow> operator_action_request \<Rightarrow> 'rt operator_service
     \<Rightarrow> store_error + mutation_response \<times> 'rt operator_service" where
  "op_resume_workflow env q os =
     then_dashboard env (oa_workflow_id q) (answer_action
       (resume_workflow env (console_action ''Workflow resumed from the operator console.'' q) (os_plane os))) os"

definition op_cancel_workflow ::
  "'rt control_env \<Rightarrow> operator_action_request \<Rightarrow> 'rt operator_service
     \<Rightarrow> store_error + mutation_response \<times> 'rt operator_service" where
  "op_cancel_workflow env q os =
     then_dashboard env (oa_workflow_id q) (answer_action
       (cancel_workflow env (console_action ''Workflow cancelled from the operator console.'' q) (os_plane os))) os"

definition op_apply_manual_intervention ::
  "'rt control_env \<Rightarrow> manual_intervention_request \<Rightarrow> 'rt operator_service
     \<Rightarrow> store_error + mutation_response \<times> 'rt operator_service" where
  "op_apply_manual_intervention env q os =
     then_dashboard env (mi_workflow_id q) (answer_action (apply_manual_intervention env q (os_plane os))) os"

end
