(* ===== verification/Http_Transport.thy ===== *)
theory Http_Transport
  imports Grpc_Transport Operator_Service
begin

text \<open>
  \<^verbatim>\<open>protocol/src/detail/http_transport_detail.hpp\<close> and \<^verbatim>\<open>protocol/src/http_transport.cpp\<close>: routing, credentials,
  responses, live updates and the client of the HTTP transport. Encoding and decoding of messages
  (protobuf, JSON), Boost's sockets and OpenSSL are parameters; the services behind the transport are
  records of their operations. An exception a service throws is \<open>Inl\<close>: the transport does not catch it.
\<close>

subsection \<open>Messages\<close>

datatype http_verb = Get | Post | OtherVerb

record http_request =
  hr_method :: http_verb
  hr_target :: string
  hr_version :: nat
  hr_keep_alive :: bool
  hr_headers :: "(string \<times> string) list"
  hr_body :: string

record http_response =
  hs_status :: nat
  hs_version :: nat
  hs_content_type :: string
  hs_keep_alive :: bool
  hs_body :: string

definition tolower :: "char \<Rightarrow> char" where
  "tolower c = (let n = of_char c :: nat in if 65 \<le> n \<and> n \<le> 90 then char_of (n + 32) else c)"

text \<open>\<^verbatim>\<open>request[name]\<close>: field names ignore case, and the value of an absent field is empty.\<close>

definition header_value :: "string \<Rightarrow> http_request \<Rightarrow> string" where
  "header_value name r =
     or_default (map_of (map (\<lambda>(k, v). (map tolower k, v)) (hr_headers r)) (map tolower name)) []"

text \<open>The message codecs; \<open>None\<close> is a failure.\<close>

record message_codec =
  mc_parse_submit :: "string \<Rightarrow> submit_workflow_request option"
  mc_parse_reorchestrate :: "string \<Rightarrow> reorchestrate_request option"
  mc_parse_response :: "string \<Rightarrow> runtime_api_response option"
  mc_serialize_submit :: "submit_workflow_request \<Rightarrow> string option"
  mc_serialize_reorchestrate :: "reorchestrate_request \<Rightarrow> string option"
  mc_serialize_response :: "runtime_api_response \<Rightarrow> string option"
  mc_json_upsert_workflow :: "string \<Rightarrow> upsert_operator_workflow_request option"
  mc_json_upsert_task :: "string \<Rightarrow> upsert_operator_task_request option"
  mc_json_delete_task :: "string \<Rightarrow> delete_operator_task_request option"
  mc_json_action :: "string \<Rightarrow> operator_action_request option"
  mc_json_intervention :: "string \<Rightarrow> manual_intervention_request option"
  mc_print_dashboard :: "dashboard_response \<Rightarrow> string option"
  mc_print_update :: "dashboard_response \<Rightarrow> string option"
  mc_print_mutation :: "mutation_response \<Rightarrow> string option"

text \<open>The services behind the transport (\<^verbatim>\<open>WorkflowRuntimeService\<close>, \<^verbatim>\<open>WorkflowOperatorService\<close>).\<close>

record ('e, 's) runtime_endpoint =
  re_submit_workflow :: "submit_workflow_request \<Rightarrow> 's \<Rightarrow> 'e + runtime_api_response \<times> 's"
  re_reorchestrate :: "reorchestrate_request \<Rightarrow> 's \<Rightarrow> 'e + runtime_api_response \<times> 's"

record ('e, 's) operator_endpoint =
  oe_get_dashboard :: "dashboard_request \<Rightarrow> 's \<Rightarrow> 'e + dashboard_response \<times> 's"
  oe_dashboard_update :: "dashboard_request \<Rightarrow> dashboard_notification \<Rightarrow> 's \<Rightarrow> 'e + dashboard_response \<times> 's"
  oe_upsert_workflow :: "upsert_operator_workflow_request \<Rightarrow> 's \<Rightarrow> 'e + mutation_response \<times> 's"
  oe_upsert_task :: "upsert_operator_task_request \<Rightarrow> 's \<Rightarrow> 'e + mutation_response \<times> 's"
  oe_delete_task :: "delete_operator_task_request \<Rightarrow> 's \<Rightarrow> 'e + mutation_response \<times> 's"
  oe_pause_workflow :: "operator_action_request \<Rightarrow> 's \<Rightarrow> 'e + mutation_response \<times> 's"
  oe_resume_workflow :: "operator_action_request \<Rightarrow> 's \<Rightarrow> 'e + mutation_response \<times> 's"
  oe_cancel_workflow :: "operator_action_request \<Rightarrow> 's \<Rightarrow> 'e + mutation_response \<times> 's"
  oe_apply_manual_intervention :: "manual_intervention_request \<Rightarrow> 's \<Rightarrow> 'e + mutation_response \<times> 's"

subsection \<open>Paths\<close>

definition kHttpSubmitWorkflowPath :: string where "kHttpSubmitWorkflowPath = ''/v1/workflows:submit''"
definition kHttpWorkflowsPathPrefix :: string where "kHttpWorkflowsPathPrefix = ''/v1/workflows/''"
definition kHttpReorchestratePathSuffix :: string where "kHttpReorchestratePathSuffix = '':reorchestrate''"
definition kBinaryProtoContentType :: string where "kBinaryProtoContentType = ''application/x-protobuf''"
definition kJsonContentType :: string where "kJsonContentType = ''application/json''"
definition kHttpOperatorDashboardPath :: string where "kHttpOperatorDashboardPath = ''/v1/operator/dashboard''"
definition kHttpOperatorDashboardStreamPath :: string where
  "kHttpOperatorDashboardStreamPath = ''/v1/operator/dashboard:stream''"
definition kHttpOperatorWorkflowsPath :: string where "kHttpOperatorWorkflowsPath = ''/v1/operator/workflows''"
definition kHttpOperatorWorkflowsPathPrefix :: string where
  "kHttpOperatorWorkflowsPathPrefix = ''/v1/operator/workflows/''"
definition kHttpOperatorTasksSuffix :: string where "kHttpOperatorTasksSuffix = ''/tasks''"
definition kHttpOperatorDeleteTaskSuffix :: string where "kHttpOperatorDeleteTaskSuffix = '':delete''"
definition kHttpOperatorPauseSuffix :: string where "kHttpOperatorPauseSuffix = '':pause''"
definition kHttpOperatorResumeSuffix :: string where "kHttpOperatorResumeSuffix = '':resume''"
definition kHttpOperatorCancelSuffix :: string where "kHttpOperatorCancelSuffix = '':cancel''"
definition kHttpOperatorManualInterventionSuffix :: string where
  "kHttpOperatorManualInterventionSuffix = '':manualIntervention''"

definition ends_with :: "string \<Rightarrow> string \<Rightarrow> bool" where
  "ends_with s p \<longleftrightarrow> length p \<le> length s \<and> drop (length s - length p) s = p"

text \<open>
  \<^verbatim>\<open>substr(pos, n)\<close> of a string with at least \<open>pos\<close> characters: at most \<open>n\<close>, a \<^verbatim>\<open>std::size_t\<close>. The sizes the
  route functions subtract are of this type, so a difference below zero wraps around.
\<close>

definition substr :: "string \<Rightarrow> nat \<Rightarrow> 64 word \<Rightarrow> string" where
  "substr s pos n = (let rest = drop pos s in if of_nat (length rest) \<le> n then rest else take (unat n) rest)"

definition size_between :: "string \<Rightarrow> string \<Rightarrow> string \<Rightarrow> 64 word" where
  "size_between s prefix suffix = of_nat (length s) - of_nat (length prefix) - of_nat (length suffix)"

definition extract_workflow_id_from_target :: "string \<Rightarrow> string option" where
  "extract_workflow_id_from_target target =
     (if \<not> starts_with target kHttpWorkflowsPathPrefix \<or> \<not> ends_with target kHttpReorchestratePathSuffix then None
      else
        let n = size_between target kHttpWorkflowsPathPrefix kHttpReorchestratePathSuffix in
        if n = 0 then None else Some (substr target (length kHttpWorkflowsPathPrefix) n))"

definition split_target :: "string \<Rightarrow> string \<times> string" where
  "split_target target = (case cut_at CHR ''?'' target of None \<Rightarrow> (target, []) | Some pq \<Rightarrow> pq)"

definition hex_digit :: "char \<Rightarrow> nat option" where
  "hex_digit c =
     (let n = of_char c :: nat in
      if 48 \<le> n \<and> n \<le> 57 then Some (n - 48)
      else if 97 \<le> n \<and> n \<le> 102 then Some (10 + (n - 97))
      else if 65 \<le> n \<and> n \<le> 70 then Some (10 + (n - 65))
      else None)"

definition hex_pair :: "string \<Rightarrow> (char \<times> string) option" where
  "hex_pair s =
     (case s of
        h # l # rest \<Rightarrow>
          (case (hex_digit h, hex_digit l) of (Some x, Some y) \<Rightarrow> Some (char_of (16 * x + y), rest) | _ \<Rightarrow> None)
      | _ \<Rightarrow> None)"

lemma hex_pair_length: "hex_pair s = Some (c, rest) \<Longrightarrow> length rest < length s"
  by (auto simp: hex_pair_def split: list.splits option.splits)

function decode_query_component :: "string \<Rightarrow> string" where
  "decode_query_component [] = []"
| "decode_query_component (c # cs) =
     (if c = CHR ''+'' then CHR '' '' # decode_query_component cs
      else
        case (if c = CHR ''%'' then hex_pair cs else None) of
          Some (d, rest) \<Rightarrow> d # decode_query_component rest
        | None \<Rightarrow> c # decode_query_component cs)"
  by pat_completeness auto

termination
  by (relation "measure length") (auto dest: hex_pair_length split: if_splits)

lemma cut_at_shorter:
  assumes "cut_at c s = Some (p, r)"
  shows "length r < length s"
proof -
  from assms have "s \<noteq> []" and "r = tl (dropWhile (\<lambda>x. x \<noteq> c) s)" by (auto simp: cut_at_def split: if_splits)
  then show ?thesis
    using length_dropWhile_le [of "\<lambda>x. x \<noteq> c" s] by (cases "dropWhile (\<lambda>x. x \<noteq> c) s") auto
qed

function query_value :: "string \<Rightarrow> string \<Rightarrow> string \<Rightarrow> string option" where
  "query_value query snake camel =
     (let (pair, rest) = (case cut_at CHR ''&'' query of None \<Rightarrow> (query, None) | Some (p, r) \<Rightarrow> (p, Some r));
          (key, v) = (case cut_at CHR ''='' pair of None \<Rightarrow> (pair, []) | Some kv \<Rightarrow> kv)
      in if key = snake \<or> (camel \<noteq> [] \<and> key = camel) then Some (decode_query_component v)
         else case rest of None \<Rightarrow> None | Some r \<Rightarrow> query_value r snake camel)"
  by pat_completeness auto

termination
  by (relation "measure (\<lambda>(q, _). length q)") (auto dest: cut_at_shorter split: option.splits)

declare query_value.simps [simp del]

definition query_int32 :: "string \<Rightarrow> string \<Rightarrow> string \<Rightarrow> int" where
  "query_int32 query snake camel =
     (case query_value query snake camel of
        None \<Rightarrow> 0
      | Some v \<Rightarrow> if v = [] then 0 else case stoi v of Inl _ \<Rightarrow> 0 | Inr i \<Rightarrow> i)"

definition apply_transport_auth :: "http_request \<Rightarrow> bool \<Rightarrow> client_auth_context \<Rightarrow> client_auth_context" where
  "apply_transport_auth request secure_transport auth =
     (let authorization = header_value kAuthorizationHeader request; api_key = header_value kApiKeyHeader request;
          auth = (if authorization \<noteq> [] \<and> au_bearer_token auth = [] \<and> starts_with authorization kBearerPrefix
                  then auth\<lparr>au_bearer_token := drop (length kBearerPrefix) authorization\<rparr> else auth);
          auth = (if api_key \<noteq> [] \<and> au_api_key auth = [] then auth\<lparr>au_api_key := api_key\<rparr> else auth)
      in auth\<lparr>au_secure_transport := secure_transport\<rparr>)"

definition empty_auth :: client_auth_context where
  "empty_auth = \<lparr>au_bearer_token = [], au_api_key = [], au_secure_transport = False\<rparr>"

definition make_operator_dashboard_request :: "string \<Rightarrow> http_request \<Rightarrow> bool \<Rightarrow> dashboard_request" where
  "make_operator_dashboard_request query request secure_transport =
     \<lparr>dq_selected_workflow_id = or_default (query_value query ''selected_workflow_id'' ''selectedWorkflowId'') [],
      dq_workflow_query = or_default (query_value query ''workflow_query'' ''workflowQuery'') [],
      dq_auth = apply_transport_auth request secure_transport empty_auth,
      dq_workflow_page_size = query_int32 query ''workflow_page_size'' ''workflowPageSize'',
      dq_max_events = query_int32 query ''max_events'' ''maxEvents'',
      dq_max_plan_versions = query_int32 query ''max_plan_versions'' ''maxPlanVersions'',
      dq_max_audit_entries = query_int32 query ''max_audit_entries'' ''maxAuditEntries''\<rparr>"

definition is_operator_dashboard_stream_request :: "http_request \<Rightarrow> bool" where
  "is_operator_dashboard_stream_request r \<longleftrightarrow>
     hr_method r = Get \<and> fst (split_target (hr_target r)) = kHttpOperatorDashboardStreamPath"

definition extract_operator_workflow_id :: "string \<Rightarrow> string \<Rightarrow> string option" where
  "extract_operator_workflow_id path suffix =
     (if \<not> starts_with path kHttpOperatorWorkflowsPathPrefix \<or> \<not> ends_with path suffix then None
      else
        let n = size_between path kHttpOperatorWorkflowsPathPrefix suffix;
            wid = substr path (length kHttpOperatorWorkflowsPathPrefix) n
        in if n = 0 then None else if CHR ''/'' \<in> set wid then None else Some wid)"

definition extract_operator_task_workflow_id :: "string \<Rightarrow> string option" where
  "extract_operator_task_workflow_id path =
     (if \<not> starts_with path kHttpOperatorWorkflowsPathPrefix \<or> \<not> ends_with path kHttpOperatorTasksSuffix then None
      else
        let n = size_between path kHttpOperatorWorkflowsPathPrefix kHttpOperatorTasksSuffix;
            wid = substr path (length kHttpOperatorWorkflowsPathPrefix) n
        in if n = 0 then None else if CHR ''/'' \<in> set wid then None else Some wid)"

text \<open>\<^verbatim>\<open>find\<close> of a substring: what is before and after its first occurrence.\<close>

fun find_sub :: "string \<Rightarrow> string \<Rightarrow> (string \<times> string) option" where
  "find_sub p [] = (if p = [] then Some ([], []) else None)"
| "find_sub p (c # cs) =
     (if starts_with (c # cs) p then Some ([], drop (length p) (c # cs))
      else map_option (\<lambda>(a, b). (c # a, b)) (find_sub p cs))"

definition extract_operator_task_delete_route :: "string \<Rightarrow> (string \<times> string) option" where
  "extract_operator_task_delete_route path =
     (if \<not> starts_with path kHttpOperatorWorkflowsPathPrefix \<or> \<not> ends_with path kHttpOperatorDeleteTaskSuffix then None
      else
        case find_sub ''/tasks/'' (substr path (length kHttpOperatorWorkflowsPathPrefix)
               (size_between path kHttpOperatorWorkflowsPathPrefix kHttpOperatorDeleteTaskSuffix)) of
          None \<Rightarrow> None
        | Some (wid, tid) \<Rightarrow> if wid = [] \<or> tid = [] then None else Some (wid, tid))"

subsection \<open>Responses\<close>

definition empty_stats :: dashboard_stats where
  "empty_stats = \<lparr>ds_recent_events_persisted = 0, ds_plan_versions_retained = 0, ds_connectors_tracked = 0,
     ds_workflows_tracked = 0, ds_active_workflows = 0\<rparr>"

definition empty_dashboard :: dashboard_response where
  "empty_dashboard = \<lparr>dr_ok = False, dr_server_time = 0, dr_stats = empty_stats, dr_workflows = [],
     dr_selected_workflow = None, dr_selected_plan_diff = None, dr_connectors = [], dr_error_message = [],
     dr_selected_workflow_id = []\<rparr>"

text \<open>\<^verbatim>\<open>make_error_message<Message>\<close> for the two message types it is used with.\<close>

definition dashboard_error :: "string \<Rightarrow> dashboard_response" where
  "dashboard_error msg = empty_dashboard\<lparr>dr_ok := False, dr_error_message := msg\<rparr>"

definition mutation_error :: "string \<Rightarrow> mutation_response" where
  "mutation_error msg = \<lparr>mr_ok = False, mr_dashboard = empty_dashboard, mr_error_message = msg\<rparr>"

text \<open>\<open>serialized\<close> is the encoded message, or a failure to encode it.\<close>

definition make_http_message_response :: "nat \<Rightarrow> string option \<Rightarrow> nat \<Rightarrow> bool \<Rightarrow> bool \<Rightarrow> http_response" where
  "make_http_message_response status serialized version keep_alive json_response =
     (case serialized of
        None \<Rightarrow> \<lparr>hs_status = 500, hs_version = version, hs_content_type = ''text/plain'', hs_keep_alive = keep_alive,
          hs_body = (if json_response then ''Failed to serialize JSON response body.''
                     else ''Failed to serialize protobuf message.'')\<rparr>
      | Some body \<Rightarrow> \<lparr>hs_status = status, hs_version = version,
          hs_content_type = (if json_response then kJsonContentType else kBinaryProtoContentType),
          hs_keep_alive = keep_alive, hs_body = body\<rparr>)"

definition make_http_error :: "message_codec \<Rightarrow> nat \<Rightarrow> string \<Rightarrow> nat \<Rightarrow> bool \<Rightarrow> http_response" where
  "make_http_error mc status msg version keep_alive =
     (let (body, content_type) =
        (case mc_serialize_response mc (make_transport_error_response msg) of
           None \<Rightarrow> (''Failed to serialize protobuf message.'', ''text/plain'')
         | Some b \<Rightarrow> (b, kBinaryProtoContentType))
      in \<lparr>hs_status = status, hs_version = version, hs_content_type = content_type, hs_keep_alive = keep_alive,
          hs_body = body\<rparr>)"

definition make_http_success_response :: "message_codec \<Rightarrow> runtime_api_response \<Rightarrow> nat \<Rightarrow> bool \<Rightarrow> http_response" where
  "make_http_success_response mc response version keep_alive =
     make_http_message_response 200 (mc_serialize_response mc response) version keep_alive False"

subsection \<open>The operator's routes\<close>

text \<open>The JSON answers of the operator's routes.\<close>

definition dashboard_answer :: "message_codec \<Rightarrow> nat \<Rightarrow> http_request \<Rightarrow> dashboard_response \<Rightarrow> http_response" where
  "dashboard_answer mc status r d = make_http_message_response status (mc_print_dashboard mc d) (hr_version r) (hr_keep_alive r) True"

definition mutation_answer :: "message_codec \<Rightarrow> nat \<Rightarrow> http_request \<Rightarrow> mutation_response \<Rightarrow> http_response" where
  "mutation_answer mc status r m = make_http_message_response status (mc_print_mutation mc m) (hr_version r) (hr_keep_alive r) True"

definition answer_mutation ::
  "message_codec \<Rightarrow> http_request \<Rightarrow> 'e + mutation_response \<times> 's \<Rightarrow> 'e + http_response \<times> 's" where
  "answer_mutation mc r res = bind_result res (\<lambda>(m, s). Inr (mutation_answer mc 200 r m, s))"

definition kParseJsonError :: string where "kParseJsonError = ''Failed to parse JSON request body.''"
definition kParseProtobufError :: string where "kParseProtobufError = ''Failed to parse protobuf request body.''"
definition kWorkflowIdMismatch :: string where
  "kWorkflowIdMismatch = ''workflow_id in path does not match workflow_id in body.''"

text \<open>A body identifier is checked against the path unless it is empty.\<close>

definition mismatch :: "string \<Rightarrow> string \<Rightarrow> bool" where
  "mismatch in_body in_path \<longleftrightarrow> in_body \<noteq> [] \<and> in_body \<noteq> in_path"

definition empty_action :: operator_action_request where
  "empty_action = \<lparr>oa_workflow_id = [], oa_auth = empty_auth, oa_actor = [], oa_reason = []\<rparr>"

definition empty_delete :: delete_operator_task_request where
  "empty_delete = \<lparr>dt_workflow_id = [], dt_task_id = [], dt_auth = empty_auth, dt_actor = [], dt_note = [],
     dt_idempotency_key = None\<rparr>"

definition handle_upsert_workflow ::
  "message_codec \<Rightarrow> ('e, 's) operator_endpoint \<Rightarrow> bool \<Rightarrow> http_request \<Rightarrow> 's \<Rightarrow> 'e + http_response \<times> 's" where
  "handle_upsert_workflow mc svc secure r s =
     (case mc_json_upsert_workflow mc (hr_body r) of
        None \<Rightarrow> Inr (mutation_answer mc 400 r (mutation_error kParseJsonError), s)
      | Some q \<Rightarrow> answer_mutation mc r (oe_upsert_workflow svc (q\<lparr>uw_auth := apply_transport_auth r secure (uw_auth q)\<rparr>) s))"

definition handle_upsert_task ::
  "message_codec \<Rightarrow> ('e, 's) operator_endpoint \<Rightarrow> bool \<Rightarrow> http_request \<Rightarrow> string \<Rightarrow> 's \<Rightarrow> 'e + http_response \<times> 's" where
  "handle_upsert_task mc svc secure r wid s =
     (case mc_json_upsert_task mc (hr_body r) of
        None \<Rightarrow> Inr (mutation_answer mc 400 r (mutation_error kParseJsonError), s)
      | Some q \<Rightarrow>
          if mismatch (ut_workflow_id q) wid then Inr (mutation_answer mc 400 r (mutation_error kWorkflowIdMismatch), s)
          else answer_mutation mc r
                 (oe_upsert_task svc (q\<lparr>ut_workflow_id := wid, ut_auth := apply_transport_auth r secure (ut_auth q)\<rparr>) s))"

definition handle_delete_task ::
  "message_codec \<Rightarrow> ('e, 's) operator_endpoint \<Rightarrow> bool \<Rightarrow> http_request \<Rightarrow> string \<times> string \<Rightarrow> 's \<Rightarrow> 'e + http_response \<times> 's" where
  "handle_delete_task mc svc secure r route s =
     (case (if hr_body r = [] then Some empty_delete else mc_json_delete_task mc (hr_body r)) of
        None \<Rightarrow> Inr (mutation_answer mc 400 r (mutation_error kParseJsonError), s)
      | Some q \<Rightarrow>
          if mismatch (dt_workflow_id q) (fst route) \<or> mismatch (dt_task_id q) (snd route)
          then Inr (mutation_answer mc 400 r
                 (mutation_error ''Workflow or task id in path does not match the JSON request body.''), s)
          else answer_mutation mc r
                 (oe_delete_task svc (q\<lparr>dt_workflow_id := fst route, dt_task_id := snd route,
                    dt_auth := apply_transport_auth r secure (dt_auth q)\<rparr>) s))"

text \<open>Pause, resume and cancel have the same form.\<close>

definition handle_action ::
  "message_codec \<Rightarrow> (operator_action_request \<Rightarrow> 's \<Rightarrow> 'e + mutation_response \<times> 's) \<Rightarrow> bool \<Rightarrow> http_request \<Rightarrow> string \<Rightarrow> 's
     \<Rightarrow> 'e + http_response \<times> 's" where
  "handle_action mc op secure r wid s =
     (case (if hr_body r = [] then Some empty_action else mc_json_action mc (hr_body r)) of
        None \<Rightarrow> Inr (mutation_answer mc 400 r (mutation_error kParseJsonError), s)
      | Some q \<Rightarrow>
          if mismatch (oa_workflow_id q) wid then Inr (mutation_answer mc 400 r (mutation_error kWorkflowIdMismatch), s)
          else answer_mutation mc r
                 (op (q\<lparr>oa_workflow_id := wid, oa_auth := apply_transport_auth r secure (oa_auth q)\<rparr>) s))"

definition handle_intervention ::
  "message_codec \<Rightarrow> ('e, 's) operator_endpoint \<Rightarrow> bool \<Rightarrow> http_request \<Rightarrow> string \<Rightarrow> 's \<Rightarrow> 'e + http_response \<times> 's" where
  "handle_intervention mc svc secure r wid s =
     (case mc_json_intervention mc (hr_body r) of
        None \<Rightarrow> Inr (mutation_answer mc 400 r (mutation_error kParseJsonError), s)
      | Some q \<Rightarrow>
          if mismatch (mi_workflow_id q) wid then Inr (mutation_answer mc 400 r (mutation_error kWorkflowIdMismatch), s)
          else answer_mutation mc r
                 (oe_apply_manual_intervention svc
                    (q\<lparr>mi_workflow_id := wid, mi_auth := apply_transport_auth r secure (mi_auth q)\<rparr>) s))"

definition handle_operator_post ::
  "message_codec \<Rightarrow> ('e, 's) operator_endpoint \<Rightarrow> bool \<Rightarrow> http_request \<Rightarrow> string \<Rightarrow> 's \<Rightarrow> ('e + http_response \<times> 's) option" where
  "handle_operator_post mc svc secure r path s =
     (case extract_operator_task_workflow_id path of
        Some wid \<Rightarrow> Some (handle_upsert_task mc svc secure r wid s)
      | None \<Rightarrow>
     (case extract_operator_task_delete_route path of
        Some route \<Rightarrow> Some (handle_delete_task mc svc secure r route s)
      | None \<Rightarrow>
     (case extract_operator_workflow_id path kHttpOperatorPauseSuffix of
        Some wid \<Rightarrow> Some (handle_action mc (oe_pause_workflow svc) secure r wid s)
      | None \<Rightarrow>
     (case extract_operator_workflow_id path kHttpOperatorResumeSuffix of
        Some wid \<Rightarrow> Some (handle_action mc (oe_resume_workflow svc) secure r wid s)
      | None \<Rightarrow>
     (case extract_operator_workflow_id path kHttpOperatorCancelSuffix of
        Some wid \<Rightarrow> Some (handle_action mc (oe_cancel_workflow svc) secure r wid s)
      | None \<Rightarrow>
     (case extract_operator_workflow_id path kHttpOperatorManualInterventionSuffix of
        Some wid \<Rightarrow> Some (handle_intervention mc svc secure r wid s)
      | None \<Rightarrow> None))))))"

definition handle_operator_http_request ::
  "message_codec \<Rightarrow> ('e, 's) operator_endpoint option \<Rightarrow> bool \<Rightarrow> http_request \<Rightarrow> string \<Rightarrow> string \<Rightarrow> 's
     \<Rightarrow> 'e + http_response \<times> 's" where
  "handle_operator_http_request mc operator_service secure r path query s =
     (case operator_service of
        None \<Rightarrow> Inr (dashboard_answer mc 503 r
                 (dashboard_error ''Operator API is unavailable because the control plane is not enabled.''), s)
      | Some svc \<Rightarrow>
          if hr_method r = Get \<and> path = kHttpOperatorDashboardPath
          then bind_result (oe_get_dashboard svc (make_operator_dashboard_request query r secure) s)
                 (\<lambda>(d, s). Inr (dashboard_answer mc 200 r d, s))
          else if hr_method r = Post \<and> path = kHttpOperatorWorkflowsPath then handle_upsert_workflow mc svc secure r s
          else case (if hr_method r = Post then handle_operator_post mc svc secure r path s else None) of
                 Some res \<Rightarrow> res
               | None \<Rightarrow> Inr (dashboard_answer mc 404 r (dashboard_error ''Unsupported operator route.''), s))"

subsection \<open>The runtime's routes\<close>

definition handle_http_request ::
  "message_codec \<Rightarrow> ('e, 's) runtime_endpoint \<Rightarrow> ('e, 's) operator_endpoint option \<Rightarrow> bool \<Rightarrow> http_request \<Rightarrow> 's
     \<Rightarrow> 'e + http_response \<times> 's" where
  "handle_http_request mc service operator_service secure r s =
     (let (path, query) = split_target (hr_target r) in
      if starts_with path ''/v1/operator'' then handle_operator_http_request mc operator_service secure r path query s
      else if hr_method r \<noteq> Post then Inr (make_http_error mc 405 ''Only POST is supported.'' (hr_version r) False, s)
      else if path = kHttpSubmitWorkflowPath then
        (case mc_parse_submit mc (hr_body r) of
           None \<Rightarrow> Inr (make_http_error mc 400 kParseProtobufError (hr_version r) False, s)
         | Some q \<Rightarrow>
             bind_result (re_submit_workflow service (q\<lparr>sw_auth := apply_transport_auth r secure (sw_auth q)\<rparr>) s)
               (\<lambda>(resp, s). Inr (make_http_success_response mc resp (hr_version r) (hr_keep_alive r), s)))
      else
        (case extract_workflow_id_from_target path of
           None \<Rightarrow> Inr (make_http_error mc 404 ''Unsupported route.'' (hr_version r) False, s)
         | Some wid \<Rightarrow>
             (case mc_parse_reorchestrate mc (hr_body r) of
                None \<Rightarrow> Inr (make_http_error mc 400 kParseProtobufError (hr_version r) False, s)
              | Some q \<Rightarrow>
                  if mismatch (rq_workflow_id q) wid
                  then Inr (make_http_error mc 400 kWorkflowIdMismatch (hr_version r) False, s)
                  else bind_result
                         (re_reorchestrate service
                            (q\<lparr>rq_workflow_id := wid, rq_auth := apply_transport_auth r secure (rq_auth q)\<rparr>) s)
                         (\<lambda>(resp, s). Inr (make_http_success_response mc resp (hr_version r) (hr_keep_alive r), s)))))"

subsection \<open>The client\<close>

definition make_http_client_request :: "client_options \<Rightarrow> string \<Rightarrow> string \<Rightarrow> string \<Rightarrow> http_request" where
  "make_http_client_request options target body content_type =
     \<lparr>hr_method = Post, hr_target = target, hr_version = 11, hr_keep_alive = True,
      hr_headers = [(''Host'', co_host options), (''User-Agent'', ''task_orchestrator/http-client''),
          (''Content-Type'', content_type), (''Accept'', kBinaryProtoContentType)] @
        (if co_bearer_token options = [] then [] else [(kAuthorizationHeader, kBearerPrefix @ co_bearer_token options)]) @
        (if co_api_key options = [] then [] else [(kApiKeyHeader, co_api_key options)]),
      hr_body = body\<rparr>"

definition parse_http_runtime_response :: "message_codec \<Rightarrow> http_response \<Rightarrow> runtime_api_response" where
  "parse_http_runtime_response mc r =
     (case mc_parse_response mc (hs_body r) of
        None \<Rightarrow> make_transport_error_response kParseProtobufError
      | Some x \<Rightarrow> x)"

end
