(* ===== verification/Http_Session.thy ===== *)
theory Http_Session
  imports Http_Transport
begin

text \<open>
  The life of the HTTP server and client (\<^verbatim>\<open>protocol/src/http_transport.cpp\<close>): TLS contexts, start and
  stop, connections, the live dashboard stream, and the client's request. Boost's sockets, its HTTP
  reader and writer, and OpenSSL are parameters.
\<close>

subsection \<open>TLS contexts\<close>

text \<open>Operations of OpenSSL; an error is its message.\<close>

record openssl =
  sl_set_options :: "string option"
  sl_set_min_version :: bool
  sl_use_certificate_chain :: "string \<Rightarrow> string option"
  sl_use_private_key :: "string \<Rightarrow> string \<Rightarrow> string option"
  sl_set_default_verify_paths :: "string option"
  sl_add_certificate_authority :: "string \<Rightarrow> string option"

record tls_context =
  tx_identity :: "loaded_identity option"
  tx_system_roots :: bool
  tx_roots :: string
  tx_verify_peer :: bool
  tx_fail_if_no_peer_cert :: bool

definition run_operation :: "string \<Rightarrow> string option \<Rightarrow> string + unit" where
  "run_operation what err = (case err of None \<Rightarrow> Inr () | Some msg \<Rightarrow> Inl (what @ '': '' @ msg))"

definition configure_minimum_tls_version :: "openssl \<Rightarrow> string + unit" where
  "configure_minimum_tls_version ssl =
     (if sl_set_min_version ssl then Inr () else Inl ''Failed to configure minimum TLS protocol version.'')"

definition configure_tls_identity :: "openssl \<Rightarrow> loaded_identity \<Rightarrow> string \<Rightarrow> tls_context \<Rightarrow> string + tls_context" where
  "configure_tls_identity ssl i owner c =
     bind_result (run_operation (owner @ '' TLS certificate chain'') (sl_use_certificate_chain ssl (li_certificate_chain_pem i)))
       (\<lambda>_. bind_result (run_operation (owner @ '' TLS private key'')
                          (sl_use_private_key ssl (li_private_key_pem i) (li_private_key_password i)))
       (\<lambda>_. Inr (c\<lparr>tx_identity := Some i\<rparr>)))"

definition configure_tls_trust :: "openssl \<Rightarrow> loaded_trust \<Rightarrow> string \<Rightarrow> tls_context \<Rightarrow> string + tls_context" where
  "configure_tls_trust ssl t owner c =
     bind_result
       (if lt_use_system_default_roots t
        then bind_result (run_operation (owner @ '' TLS system trust store'') (sl_set_default_verify_paths ssl))
               (\<lambda>_. Inr (c\<lparr>tx_system_roots := True\<rparr>))
        else Inr c)
       (\<lambda>c. if lt_root_certificates_pem t \<noteq> []
            then bind_result (run_operation (owner @ '' TLS root certificates'')
                                (sl_add_certificate_authority ssl (lt_root_certificates_pem t)))
                   (\<lambda>_. Inr (c\<lparr>tx_roots := lt_root_certificates_pem t\<rparr>))
            else Inr c)"

definition new_tls_context :: tls_context where
  "new_tls_context = \<lparr>tx_identity = None, tx_system_roots = False, tx_roots = [], tx_verify_peer = False,
     tx_fail_if_no_peer_cert = False\<rparr>"

definition make_server_tls_context :: "openssl \<Rightarrow> loaded_server \<Rightarrow> string + tls_context" where
  "make_server_tls_context ssl l =
     bind_result (run_operation ''HTTP TLS context options'' (sl_set_options ssl)) (\<lambda>_.
     bind_result (configure_minimum_tls_version ssl) (\<lambda>_.
     bind_result (configure_tls_identity ssl (ls_identity l) ''HTTP server'' new_tls_context) (\<lambda>c.
     bind_result (configure_tls_trust ssl (ls_client_trust l) ''HTTP server'' c) (\<lambda>c.
       Inr (c\<lparr>tx_verify_peer := ls_require_client_certificate l, tx_fail_if_no_peer_cert := ls_require_client_certificate l\<rparr>)))))"

definition loaded_identity_configured :: "loaded_identity \<Rightarrow> bool" where
  "loaded_identity_configured i \<longleftrightarrow>
     li_certificate_chain_pem i \<noteq> [] \<or> li_private_key_pem i \<noteq> [] \<or> li_private_key_password i \<noteq> []"

definition make_client_tls_context :: "openssl \<Rightarrow> loaded_client \<Rightarrow> string + tls_context" where
  "make_client_tls_context ssl l =
     bind_result (run_operation ''HTTP TLS context options'' (sl_set_options ssl)) (\<lambda>_.
     bind_result (configure_minimum_tls_version ssl) (\<lambda>_.
     bind_result (configure_tls_trust ssl (ln_server_trust l) ''HTTP client'' new_tls_context) (\<lambda>c.
     bind_result (if loaded_identity_configured (ln_identity l)
                  then configure_tls_identity ssl (ln_identity l) ''HTTP client'' c else Inr c) (\<lambda>c.
       Inr (c\<lparr>tx_verify_peer := lt_verify_peer (ln_server_trust l)\<rparr>)))))"

subsection \<open>Start and stop\<close>

text \<open>Operations of Boost's acceptor; \<open>ap_make_address\<close> tells whether the address is an IPv6 one.\<close>

record acceptor_api =
  ap_make_address :: "string \<Rightarrow> string + bool"
  ap_open :: "bool \<Rightarrow> string option"
  ap_reuse_address :: "string option"
  ap_bind :: "string \<Rightarrow> int \<Rightarrow> string option"
  ap_listen :: "string option"
  ap_non_blocking :: "string option"
  ap_local_port :: "string + int"

record http_server =
  hv_options :: http_endpoint_options
  hv_running :: bool
  hv_tls_context :: "tls_context option"
  hv_worker_threads :: "nat option"
  hv_acceptor_open :: bool
  hv_accepting :: bool
  hv_bound_port :: int
  hv_startup_error :: string
  hv_active_sockets :: "nat set"

definition make_http_server :: "http_endpoint_options \<Rightarrow> http_server" where
  "make_http_server options = \<lparr>hv_options = options, hv_running = False, hv_tls_context = None, hv_worker_threads = None,
     hv_acceptor_open = False, hv_accepting = False, hv_bound_port = 0, hv_startup_error = [], hv_active_sockets = {}\<rparr>"

definition reset_startup_state :: "http_server \<Rightarrow> http_server" where
  "reset_startup_state s = s\<lparr>hv_running := False, hv_worker_threads := None\<rparr>"

definition fail_startup :: "string \<Rightarrow> string option \<Rightarrow> http_server \<Rightarrow> http_server option" where
  "fail_startup what err s =
     (case err of
        None \<Rightarrow> None
      | Some msg \<Rightarrow> Some (reset_startup_state (s\<lparr>hv_startup_error := what @ '': '' @ msg\<rparr>)))"

definition http_server_tls :: "(string \<Rightarrow> string option) \<Rightarrow> openssl \<Rightarrow> http_endpoint_options \<Rightarrow> string + tls_context option" where
  "http_server_tls read_file ssl options =
     (if \<not> he_use_tls options then Inr None
      else bind_result (load_server_credentials read_file (he_tls options)) (\<lambda>l.
           bind_result (make_server_tls_context ssl l) (\<lambda>c. Inr (Some c))))"

text \<open>\<^verbatim>\<open>open\<close> of an acceptor that is open fails; the other operations are those of the open acceptor.\<close>

definition open_acceptor :: "acceptor_api \<Rightarrow> bool \<Rightarrow> http_server \<Rightarrow> string option" where
  "open_acceptor ap v6 s = (if hv_acceptor_open s then Some ''Already open'' else ap_open ap v6)"

definition start_acceptor :: "acceptor_api \<Rightarrow> bool \<Rightarrow> http_server \<Rightarrow> http_server" where
  "start_acceptor ap v6 s =
     (case fail_startup ''Failed to open HTTP acceptor'' (open_acceptor ap v6 s) s of Some t \<Rightarrow> t | None \<Rightarrow>
      (let s = s\<lparr>hv_acceptor_open := True\<rparr> in
       case fail_startup ''Failed to configure HTTP acceptor'' (ap_reuse_address ap) s of Some t \<Rightarrow> t | None \<Rightarrow>
      (case fail_startup ''Failed to bind HTTP acceptor''
              (ap_bind ap (he_bind_address (hv_options s)) (he_port (hv_options s) mod 2 ^ 16)) s of Some t \<Rightarrow> t | None \<Rightarrow>
      (case fail_startup ''Failed to listen on HTTP acceptor'' (ap_listen ap) s of Some t \<Rightarrow> t | None \<Rightarrow>
      (case fail_startup ''Failed to set HTTP acceptor to non-blocking mode'' (ap_non_blocking ap) s of Some t \<Rightarrow> t | None \<Rightarrow>
      (case ap_local_port ap of
         Inl msg \<Rightarrow> reset_startup_state (s\<lparr>hv_startup_error := ''Failed to query HTTP endpoint: '' @ msg\<rparr>)
       | Inr port \<Rightarrow> s\<lparr>hv_bound_port := port, hv_accepting := True\<rparr>))))))"

definition http_server_start ::
  "(string \<Rightarrow> string option) \<Rightarrow> openssl \<Rightarrow> acceptor_api \<Rightarrow> http_server \<Rightarrow> http_server" where
  "http_server_start read_file ssl ap s =
     (if hv_running s then s
      else
        let s = s\<lparr>hv_running := True, hv_startup_error := []\<rparr> in
        case http_server_tls read_file ssl (hv_options s) of
          Inl msg \<Rightarrow> s\<lparr>hv_running := False, hv_startup_error := msg\<rparr>
        | Inr c \<Rightarrow>
            (let s = s\<lparr>hv_tls_context := (if he_use_tls (hv_options s) then c else hv_tls_context s),
                      hv_worker_threads := Some (max 1 (he_io_threads (hv_options s)))\<rparr> in
             case ap_make_address ap (he_bind_address (hv_options s)) of
               Inl _ \<Rightarrow> reset_startup_state s
             | Inr v6 \<Rightarrow> start_acceptor ap v6 s))"

definition http_server_stop :: "http_server \<Rightarrow> http_server" where
  "http_server_stop s =
     (if \<not> hv_running s then s
      else s\<lparr>hv_running := False, hv_acceptor_open := False, hv_accepting := False, hv_worker_threads := None,
             hv_active_sockets := {}, hv_tls_context := None, hv_bound_port := 0\<rparr>)"

definition http_endpoint :: "http_server \<Rightarrow> string" where
  "http_endpoint s =
     (if he_use_tls (hv_options s) then ''https://'' else ''http://'') @ he_bind_address (hv_options s) @ '':'' @
     to_string (if hv_bound_port s = 0 then he_port (hv_options s) else hv_bound_port s)"

definition register_socket :: "nat \<Rightarrow> http_server \<Rightarrow> http_server" where
  "register_socket k s = s\<lparr>hv_active_sockets := insert k (hv_active_sockets s)\<rparr>"

definition unregister_socket :: "nat \<Rightarrow> http_server \<Rightarrow> http_server" where
  "unregister_socket k s = s\<lparr>hv_active_sockets := hv_active_sockets s - {k}\<rparr>"

subsection \<open>Live dashboards\<close>

datatype sse_event = SseDashboard "64 word" dashboard_response | SseUpdate "64 word" dashboard_response | SseKeepalive

definition kOperatorDashboardSseRetryMillis :: int where "kOperatorDashboardSseRetryMillis = 2000"

definition make_operator_sse_json_payload :: "string option \<Rightarrow> string \<Rightarrow> 64 word \<Rightarrow> string" where
  "make_operator_sse_json_payload serialized event_name event_id =
     (let q = [CHR 0x22]; nl = [CHR 0x0A];
          body = (case serialized of
                    Some b \<Rightarrow> b
                  | None \<Rightarrow> ''{'' @ q @ ''ok'' @ q @ '':false,'' @ q @ ''errorMessage'' @ q @ '':'' @ q @
                      ''Failed to serialize JSON response body.'' @ q @ ''}'')
      in ''id: '' @ to_string (uint event_id) @ nl @ ''event: '' @ event_name @ nl @
         ''retry: '' @ to_string kOperatorDashboardSseRetryMillis @ nl @ ''data: '' @ body @ nl @ nl)"

primrec sse_payload :: "message_codec \<Rightarrow> sse_event \<Rightarrow> string" where
  "sse_payload mc (SseDashboard i d) = make_operator_sse_json_payload (mc_print_dashboard mc d) ''dashboard'' i"
| "sse_payload mc (SseUpdate i d) = make_operator_sse_json_payload (mc_print_update mc d) ''dashboard-update'' i"
| "sse_payload mc SseKeepalive = '': keepalive'' @ [CHR 0x0A, CHR 0x0A]"

fun hex_digits :: "nat \<Rightarrow> string" where
  "hex_digits n =
     (let d = (\<lambda>k. if k < 10 then char_of (48 + k) else char_of (87 + k)) in
      if n < 16 then [d n] else hex_digits (n div 16) @ [d (n mod 16)])"

declare hex_digits.simps [simp del]

definition crlf :: string where "crlf = [CHR 0x0D, CHR 0x0A]"

text \<open>A payload is a chunk of the response, and an empty chunk ends it.\<close>

definition write_operator_sse_payload :: "string \<Rightarrow> string" where
  "write_operator_sse_payload payload = hex_digits (length payload) @ crlf @ payload @ crlf"

definition write_operator_sse_end :: string where
  "write_operator_sse_end = ''0'' @ crlf @ crlf"

text \<open>\<^verbatim>\<open>WorkflowOperatorEventService\<close>: \<open>'w\<close> is what other threads do while it waits.\<close>

record ('w, 's) event_endpoint =
  ee_latest_dashboard_event_id :: "'s \<Rightarrow> 64 word"
  ee_wait_for_dashboard_update :: "64 word \<Rightarrow> 'w \<Rightarrow> 's \<Rightarrow> dashboard_notification option \<times> 's"

text \<open>
  One round of the loop: what other threads did before it, what they do while it waits, and whether its
  write succeeds. The server stops when the rounds are over.
\<close>

record ('w, 's) sse_round =
  sr_others :: "'s \<Rightarrow> 's"
  sr_wait :: 'w
  sr_write_ok :: bool

fun dashboard_rounds ::
  "('e, 's) operator_endpoint \<Rightarrow> ('w, 's) event_endpoint \<Rightarrow> dashboard_request \<Rightarrow> ('w, 's) sse_round list \<Rightarrow> 64 word \<Rightarrow> 's
     \<Rightarrow> 'e + sse_event list \<times> 's" where
  "dashboard_rounds svc ev q [] last_id s = Inr ([], s)"
| "dashboard_rounds svc ev q (r # rs) last_id s =
     (let (update, s) = ee_wait_for_dashboard_update ev last_id (sr_wait r) (sr_others r s) in
      case update of
        None \<Rightarrow>
          if sr_write_ok r
          then bind_result (dashboard_rounds svc ev q rs last_id s) (\<lambda>(es, s). Inr (SseKeepalive # es, s))
          else Inr ([], s)
      | Some n \<Rightarrow>
          bind_result (oe_dashboard_update svc q n s) (\<lambda>(d, s).
            if sr_write_ok r
            then bind_result (dashboard_rounds svc ev q rs (dn_event_id n) s) (\<lambda>(es, s). Inr (SseUpdate (dn_event_id n) d # es, s))
            else Inr ([], s)))"

text \<open>What the session sends: nothing, a response, or the events of a stream that was begun.\<close>

datatype session_output = NoAnswer | Answer http_response | Stream "sse_event list"

text \<open>\<open>headers_ok\<close> and \<open>first_ok\<close>: the headers and the first event could be written.\<close>

definition process_operator_dashboard_stream ::
  "message_codec \<Rightarrow> ('e, 's) operator_endpoint option \<Rightarrow> ('w, 's) event_endpoint option \<Rightarrow> bool \<Rightarrow> bool \<Rightarrow> bool
     \<Rightarrow> ('w, 's) sse_round list \<Rightarrow> http_request \<Rightarrow> 's \<Rightarrow> 'e + session_output \<times> 's" where
  "process_operator_dashboard_stream mc operator_service event_service secure headers_ok first_ok rounds r s =
     (case (operator_service, event_service) of
        (Some svc, Some ev) \<Rightarrow>
          (let q = make_operator_dashboard_request (snd (split_target (hr_target r))) r secure;
               initial = ee_latest_dashboard_event_id ev s
           in if \<not> headers_ok then Inr (NoAnswer, s)
              else bind_result (oe_get_dashboard svc q s) (\<lambda>(d, s).
                     if \<not> first_ok then Inr (Stream [], s)
                     else bind_result (dashboard_rounds svc ev q rounds initial s) (\<lambda>(es, s).
                            Inr (Stream (SseDashboard initial d # es), s))))
      | _ \<Rightarrow> Inr (Answer (dashboard_answer mc 503 r
               (dashboard_error ''Operator live updates are unavailable because the control plane is not enabled.'')), s))"

text \<open>
  A session: \<open>received\<close> is the request the library read (its parser refuses a body over the limit), or
  its error.
\<close>

definition process_http_session ::
  "message_codec \<Rightarrow> ('e, 's) runtime_endpoint \<Rightarrow> ('e, 's) operator_endpoint option \<Rightarrow> ('w, 's) event_endpoint option
     \<Rightarrow> http_endpoint_options \<Rightarrow> bool \<Rightarrow> bool \<Rightarrow> ('w, 's) sse_round list \<Rightarrow> string + http_request \<Rightarrow> 's
     \<Rightarrow> 'e + session_output \<times> 's" where
  "process_http_session mc service operator_service event_service options headers_ok first_ok rounds received s =
     (case received of
        Inl _ \<Rightarrow> Inr (NoAnswer, s)
      | Inr r \<Rightarrow>
          if int (length (hr_body r)) > he_max_body_bytes options then Inr (NoAnswer, s)
          else if is_operator_dashboard_stream_request r
          then process_operator_dashboard_stream mc operator_service event_service (he_use_tls options) headers_ok first_ok
                 rounds r s
          else bind_result (handle_http_request mc service operator_service (he_use_tls options) r s)
                 (\<lambda>(resp, s). Inr (Answer resp, s)))"

text \<open>A connection: \<open>handshake_ok\<close> is the TLS handshake.\<close>

definition handle_connection ::
  "message_codec \<Rightarrow> ('e, 's) runtime_endpoint \<Rightarrow> ('e, 's) operator_endpoint option \<Rightarrow> ('w, 's) event_endpoint option
     \<Rightarrow> http_server \<Rightarrow> bool \<Rightarrow> bool \<Rightarrow> bool \<Rightarrow> ('w, 's) sse_round list \<Rightarrow> string + http_request \<Rightarrow> 's
     \<Rightarrow> 'e + session_output \<times> 's" where
  "handle_connection mc service operator_service event_service server handshake_ok headers_ok first_ok rounds received s =
     (if \<not> hv_running server then Inr (NoAnswer, s)
      else if he_use_tls (hv_options server) \<and> \<not> handshake_ok then Inr (NoAnswer, s)
      else process_http_session mc service operator_service event_service (hv_options server) headers_ok first_ok rounds
             received s)"

subsection \<open>The client\<close>

record http_client =
  hx_options :: client_options
  hx_tls :: "(loaded_client \<times> tls_context) option"
  hx_startup_error :: string

definition make_http_client :: "(string \<Rightarrow> string option) \<Rightarrow> openssl \<Rightarrow> client_options \<Rightarrow> http_client" where
  "make_http_client read_file ssl options =
     (if \<not> co_use_tls options then \<lparr>hx_options = options, hx_tls = None, hx_startup_error = []\<rparr>
      else
        case bind_result (load_client_credentials read_file (co_tls options)) (\<lambda>l.
             bind_result (make_client_tls_context ssl l) (\<lambda>c. Inr (l, c))) of
          Inl msg \<Rightarrow> \<lparr>hx_options = options, hx_tls = None, hx_startup_error = msg\<rparr>
        | Inr lc \<Rightarrow> \<lparr>hx_options = options, hx_tls = Some lc, hx_startup_error = []\<rparr>)"

text \<open>
  The network under the client, with its state \<open>'c\<close>; an error is its message. \<open>nw_handshake\<close> gets the
  name the peer's certificate is checked for, if it is checked; \<open>nw_tls_shutdown\<close> gives no error for
  those that \<^verbatim>\<open>ignorable_tls_shutdown_error\<close> accepts.
\<close>

record 'c http_network =
  nw_resolve :: "string \<Rightarrow> string \<Rightarrow> 'c \<Rightarrow> string option \<times> 'c"
  nw_connect :: "'c \<Rightarrow> string option \<times> 'c"
  nw_set_server_name :: "string \<Rightarrow> 'c \<Rightarrow> bool \<times> 'c"
  nw_handshake :: "tls_context \<Rightarrow> string option \<Rightarrow> 'c \<Rightarrow> string option \<times> 'c"
  nw_write :: "http_request \<Rightarrow> 'c \<Rightarrow> string option \<times> 'c"
  nw_read :: "'c \<Rightarrow> (string + http_response) \<times> 'c"
  nw_tls_shutdown :: "'c \<Rightarrow> string option \<times> 'c"

definition fail_transport :: "string \<Rightarrow> runtime_api_response" where
  "fail_transport msg = make_transport_error_response (''HTTP transport failed: '' @ msg)"

definition network_step :: "string \<Rightarrow> string option \<times> 'c \<Rightarrow> ('c \<Rightarrow> runtime_api_response \<times> 'c) \<Rightarrow> runtime_api_response \<times> 'c" where
  "network_step what res k = (case res of (None, c) \<Rightarrow> k c | (Some msg, c) \<Rightarrow> (fail_transport (what @ '': '' @ msg), c))"

definition invoke_plain ::
  "message_codec \<Rightarrow> 'c http_network \<Rightarrow> client_options \<Rightarrow> http_request \<Rightarrow> 'c \<Rightarrow> runtime_api_response \<times> 'c" where
  "invoke_plain mc net options request c =
     network_step ''HTTP resolve failed'' (nw_resolve net (co_host options) (to_string (co_port options)) c) (\<lambda>c.
     network_step ''HTTP connect failed'' (nw_connect net c) (\<lambda>c.
     network_step ''HTTP write failed'' (nw_write net request c) (\<lambda>c.
       case nw_read net c of
         (Inl msg, c) \<Rightarrow> (fail_transport (''HTTP read failed: '' @ msg), c)
       | (Inr resp, c) \<Rightarrow> (parse_http_runtime_response mc resp, c))))"

definition configure_tls_server_name :: "'c http_network \<Rightarrow> string \<Rightarrow> 'c \<Rightarrow> bool \<times> 'c" where
  "configure_tls_server_name net peer c = (if peer = [] then (True, c) else nw_set_server_name net peer c)"

definition invoke_tls ::
  "message_codec \<Rightarrow> 'c http_network \<Rightarrow> client_options \<Rightarrow> loaded_client \<times> tls_context \<Rightarrow> http_request \<Rightarrow> 'c
     \<Rightarrow> runtime_api_response \<times> 'c" where
  "invoke_tls mc net options tls request c =
     network_step ''HTTPS resolve failed'' (nw_resolve net (co_host options) (to_string (co_port options)) c) (\<lambda>c.
     network_step ''HTTPS connect failed'' (nw_connect net c) (\<lambda>c.
       (let peer = resolve_expected_peer_name (co_host options) (fst tls); (named, c) = configure_tls_server_name net peer c in
        if \<not> named then (fail_transport ''Failed to configure HTTP TLS server name indication.'', c)
        else
          network_step ''HTTPS handshake failed''
            (nw_handshake net (snd tls) (if lt_verify_peer (ln_server_trust (fst tls)) then Some peer else None) c) (\<lambda>c.
          network_step ''HTTPS write failed'' (nw_write net request c) (\<lambda>c.
            case nw_read net c of
              (Inl msg, c) \<Rightarrow> (fail_transport (''HTTPS read failed: '' @ msg), c)
            | (Inr resp, c) \<Rightarrow>
                network_step ''HTTPS shutdown failed'' (nw_tls_shutdown net c) (\<lambda>c. (parse_http_runtime_response mc resp, c)))))))"

text \<open>\<open>serialized\<close> is the encoded request.\<close>

definition http_invoke ::
  "message_codec \<Rightarrow> 'c http_network \<Rightarrow> http_client \<Rightarrow> string \<Rightarrow> string option \<Rightarrow> 'c \<Rightarrow> runtime_api_response \<times> 'c" where
  "http_invoke mc net client target serialized c =
     (if hx_startup_error client \<noteq> [] then (fail_transport (hx_startup_error client), c)
      else
        case serialized of
          None \<Rightarrow> (make_transport_error_response ''Failed to serialize protobuf message.'', c)
        | Some body \<Rightarrow>
            (let request = make_http_client_request (hx_options client) target body kBinaryProtoContentType in
             if co_use_tls (hx_options client) then invoke_tls mc net (hx_options client) (the (hx_tls client)) request c
             else invoke_plain mc net (hx_options client) request c))"

definition http_submit ::
  "message_codec \<Rightarrow> 'c http_network \<Rightarrow> http_client \<Rightarrow> submit_workflow_request \<Rightarrow> 'c \<Rightarrow> runtime_api_response \<times> 'c" where
  "http_submit mc net client q c = http_invoke mc net client kHttpSubmitWorkflowPath (mc_serialize_submit mc q) c"

definition http_reorchestrate ::
  "message_codec \<Rightarrow> 'c http_network \<Rightarrow> http_client \<Rightarrow> reorchestrate_request \<Rightarrow> 'c \<Rightarrow> runtime_api_response \<times> 'c" where
  "http_reorchestrate mc net client q c =
     http_invoke mc net client (kHttpWorkflowsPathPrefix @ rq_workflow_id q @ kHttpReorchestratePathSuffix)
       (mc_serialize_reorchestrate mc q) c"

end
