(* ===== verification/Application.thy ===== *)
theory Application
  imports Config_Loader Http_Session
begin

text \<open>
  \<^verbatim>\<open>application/runner/src/application.cpp\<close>: the launcher. It loads a configuration, and runs one request or
  serves: it puts the runtime service, the control plane, the operator console and the transports together.
  Files, standard input, the clock, sockets and the libraries are parameters (\<open>app_env\<close>); logging is left
  out, so functions that only log are their returned values.
\<close>

subsection \<open>Environment and state\<close>

text \<open>
  An exception that no function of the launcher catches ends the process: one of the number readers under a
  text request, or one of the store outside a stream. Inside a stream the generator keeps the exception and
  the loop over it ends; the state such a stream leaves is not modelled, and the error stands for it (in the
  states the control plane reaches, no operation of the store throws).
\<close>

datatype app_error = StoreFailure store_error | NumberFailure num_error

record 'n app_env =
  ax_yaml :: "'n yaml"
  ax_stdin :: string
  ax_read_file :: "string \<Rightarrow> string option"
  ax_stod :: "string \<Rightarrow> num_error + rat"
  ax_entries :: "backend_entry list"
  ax_control :: "runtime_service control_env"
  ax_open_store :: "string \<Rightarrow> store_error + workflow_store"
  ax_now :: int
  ax_current_path :: string
  ax_absolute_parent :: "string \<Rightarrow> string"
  ax_ssl :: openssl
  ax_acceptor :: acceptor_api
  ax_valid_address :: "string \<Rightarrow> bool"
  ax_grpc_build :: "string \<Rightarrow> grpc_ssl_options option \<Rightarrow> int option"

text \<open>The service the interfaces talk to: the in-memory runtime alone, or below the control plane and the console.\<close>

datatype service_stack = InMemory runtime_service | Console "runtime_service operator_service"

subsection \<open>Conversions\<close>

definition is_blank :: "char \<Rightarrow> bool" where
  "is_blank c \<longleftrightarrow> c \<in> {CHR '' '', CHR 0x09, CHR 0x0D, CHR 0x0A}"

definition trim_copy :: "string \<Rightarrow> string" where
  "trim_copy s = rev (dropWhile is_blank (rev (dropWhile is_blank s)))"

definition kReadFromStdinPath :: string where "kReadFromStdinPath = ''-''"

definition read_content :: "'n app_env \<Rightarrow> string \<Rightarrow> string option" where
  "read_content env path = (if path = kReadFromStdinPath then Some (ax_stdin env) else ax_read_file env path)"

text \<open>\<^verbatim>\<open>std::filesystem\<close> on POSIX: a path is absolute if it starts with a slash, and \<^verbatim>\<open>/\<close> joins.\<close>

definition is_absolute :: "string \<Rightarrow> bool" where
  "is_absolute p \<longleftrightarrow> starts_with p ''/''"

definition path_join :: "string \<Rightarrow> string \<Rightarrow> string" where
  "path_join base p = (if base = [] \<or> ends_with base ''/'' then base @ p else base @ ''/'' @ p)"

definition resolve_configured_path :: "string \<Rightarrow> string \<Rightarrow> string" where
  "resolve_configured_path base p =
     (if is_absolute p \<or> p = kReadFromStdinPath \<or> base = [] then p else path_join base p)"

definition make_local_auth_context :: "security_config \<Rightarrow> client_auth_context" where
  "make_local_auth_context sec =
     \<lparr>au_bearer_token = (if sc_mode sec = BearerToken then sc_expected_credential sec else []),
      au_api_key = (if sc_mode sec = ApiKey then sc_expected_credential sec else []),
      au_secure_transport = True\<rparr>"

definition to_proto_window :: "availability_window \<Rightarrow> availability_window" where
  "to_proto_window w = \<lparr>win_start = win_start w, win_end = win_end w\<rparr>"

definition to_proto_actor :: "actor_config \<Rightarrow> pb_actor_config" where
  "to_proto_actor a =
     \<lparr>pa_id = ac_id a, pa_type = ac_type a, pa_capacity = Some (ac_capacity a),
      pa_windows = map to_proto_window (ac_windows a), pa_capabilities = ac_capabilities a,
      pa_execution_cost_per_unit = Some (ac_execution_cost_per_unit a)\<rparr>"

definition to_proto_task :: "task_config \<Rightarrow> pb_task_config" where
  "to_proto_task t =
     \<lparr>px_id = tc_id t, px_requested_time = tc_requested_time t, px_duration = tc_duration t,
      px_latest_start_time = tc_latest_start_time t, px_deadline = tc_deadline t, px_priority = tc_priority t,
      px_demand = Some (tc_demand t), px_mandatory = Some (tc_mandatory t), px_preemptible = Some (tc_preemptible t),
      px_allowed_actor_types = tc_allowed_actor_types t, px_allowed_actor_ids = tc_allowed_actor_ids t,
      px_preferred_actor_ids = tc_preferred_actor_ids t, px_required_capabilities = tc_required_capabilities t,
      px_dependency_task_ids = tc_dependency_task_ids t,
      px_mutually_exclusive_task_ids = tc_mutually_exclusive_task_ids t, px_actor_distances = tc_actor_distances t,
      px_tardiness_cost_per_unit = tc_tardiness_cost_per_unit t, px_early_start_bonus = tc_early_start_bonus t,
      px_phase_durations = tc_phase_durations t\<rparr>"

definition to_proto_workflow :: "workflow_config \<Rightarrow> pb_workflow_config" where
  "to_proto_workflow c =
     (let opt = wc_optimization c; w = oc_objective opt in
      \<lparr>pw_id = wc_id c,
       pw_optimization = Some \<lparr>pq_backend = Some (oc_backend opt), pq_time_limit_ms = Some (oc_time_limit_ms opt),
         pq_relative_gap_limit = Some (oc_relative_gap_limit opt), pq_num_search_workers = Some (oc_num_search_workers opt),
         pq_allow_partial_plan = Some (oc_allow_partial_plan opt),
         pq_objective = Some \<lparr>po_fulfilled_task_weight = Some (fulfilled_task_weight w),
           po_priority_weight = Some (priority_weight w), po_makespan_weight = Some (makespan_weight w),
           po_travel_distance_weight = Some (travel_distance_weight w), po_tardiness_weight = Some (tardiness_weight w),
           po_execution_cost_weight = Some (execution_cost_weight w),
           po_preferred_actor_weight = Some (preferred_actor_weight w)\<rparr>\<rparr>,
       pw_actors = map to_proto_actor (wc_actors c), pw_tasks = map to_proto_task (wc_tasks c)\<rparr>)"

text \<open>The launcher's own \<^verbatim>\<open>to_app_window\<close>, \<^verbatim>\<open>to_app_actor\<close>, \<^verbatim>\<open>to_app_task\<close> and \<^verbatim>\<open>to_app_workflow\<close>, from a parsed model.\<close>

definition model_window :: "availability_window \<Rightarrow> availability_window" where
  "model_window w = \<lparr>win_start = win_start w, win_end = win_end w\<rparr>"

definition model_actor :: "optimizer_actor \<Rightarrow> actor_config" where
  "model_actor a =
     \<lparr>ac_id = oa_id a, ac_type = oa_type a, ac_capacity = oa_capacity a, ac_windows = map model_window (oa_windows a),
      ac_capabilities = oa_capabilities a, ac_execution_cost_per_unit = oa_execution_cost_per_unit a\<rparr>"

definition model_task :: "optimizer_task \<Rightarrow> task_config" where
  "model_task t =
     \<lparr>tc_id = ot_id t, tc_requested_time = ot_release_time t, tc_duration = ot_duration t,
      tc_latest_start_time = or_default (ot_latest_start_time t) 0, tc_deadline = or_default (ot_deadline t) 0,
      tc_priority = ot_priority t, tc_demand = ot_demand t, tc_mandatory = ot_mandatory t,
      tc_preemptible = ot_preemptible t, tc_allowed_actor_types = ot_allowed_actor_types t,
      tc_allowed_actor_ids = ot_allowed_actor_ids t, tc_preferred_actor_ids = ot_preferred_actor_ids t,
      tc_required_capabilities = ot_required_capabilities t, tc_dependency_task_ids = ot_dependency_task_ids t,
      tc_mutually_exclusive_task_ids = ot_mutually_exclusive_task_ids t, tc_actor_distances = ot_actor_distances t,
      tc_tardiness_cost_per_unit = ot_tardiness_cost_per_unit t, tc_early_start_bonus = ot_early_start_bonus t,
      tc_phase_durations = []\<rparr>"

definition model_workflow :: "optimization_model \<Rightarrow> workflow_config" where
  "model_workflow m =
     \<lparr>wc_id = om_id m, wc_optimization = default_optimization_config, wc_actors = map model_actor (om_actors m),
      wc_tasks = map model_task (om_tasks m)\<rparr>"

definition make_submit_request :: "workflow_config \<Rightarrow> security_config \<Rightarrow> submit_workflow_request" where
  "make_submit_request c sec =
     \<lparr>sw_config = to_proto_workflow c, sw_auth = make_local_auth_context sec, sw_replace_existing = Some True,
      sw_idempotency_key = None\<rparr>"

definition make_reorchestrate_request :: "string \<Rightarrow> security_config \<Rightarrow> reorchestrate_request" where
  "make_reorchestrate_request wid sec =
     \<lparr>rq_workflow_id = wid, rq_task_overrides = [], rq_actor_overrides = [], rq_auth = make_local_auth_context sec,
      rq_trigger_reorchestration = Some True, rq_idempotency_key = None, rq_expected_plan_version = None\<rparr>"

primrec workflow_event_type_name :: "workflow_event_type \<Rightarrow> string" where
  "workflow_event_type_name RequestRejected = ''request_rejected''"
| "workflow_event_type_name WorkflowAccepted = ''workflow_accepted''"
| "workflow_event_type_name RuntimeOverrideApplied = ''runtime_override_applied''"
| "workflow_event_type_name TaskCompleted = ''task_completed''"
| "workflow_event_type_name ReplanningStarted = ''replanning_started''"
| "workflow_event_type_name TaskPlanned = ''task_planned''"
| "workflow_event_type_name RunFinished = ''run_finished''"
| "workflow_event_type_name EventUnspecified = ''unspecified''"

text \<open>\<^verbatim>\<open>log_event_stream\<close> returns the last response of the stream.\<close>

definition log_event_stream :: "workflow_event list \<Rightarrow> runtime_api_response" where
  "log_event_stream es = final_response empty_response es"

subsection \<open>Requests from files\<close>

definition load_request_workflow :: "'n app_env \<Rightarrow> request_file_config \<Rightarrow> string \<Rightarrow> app_error + workflow_config option" where
  "load_request_workflow env r base =
     (let path = resolve_configured_path base (rf_path r) in
      if \<not> request_configured r then Inr None
      else if rf_kind r = WorkflowYaml
      then (let c = load_config_from_file (ax_yaml env) path in Inr (if workflow_has_content c then Some c else None))
      else
        case read_content env path of
          None \<Rightarrow> Inr None
        | Some content \<Rightarrow>
            bind_result (map_error NumberFailure (parse_natural_language_request (ax_stod env) content)) (\<lambda>p.
              Inr (if pr_ok p then Some (model_workflow (pr_model p)) else None)))"

definition exit_code_of_run :: "run_result \<Rightarrow> int" where
  "exit_code_of_run r = (if \<not> rr_ok r \<or> rr_capacity_issue r then 1 else 0)"

definition run_one_shot_request :: "'n app_env \<Rightarrow> request_file_config \<Rightarrow> string \<Rightarrow> app_error + int" where
  "run_one_shot_request env r base =
     (if \<not> request_configured r then Inr 1
      else if rf_kind r = WorkflowYaml
      then bind_result (load_request_workflow env r base) (\<lambda>w.
             case w of None \<Rightarrow> Inr 1 | Some c \<Rightarrow> Inr (exit_code_of_run (run_optimize (ax_entries env) c)))
      else
        case read_content env (resolve_configured_path base (rf_path r)) of
          None \<Rightarrow> Inr 1
        | Some content \<Rightarrow>
            bind_result (map_error NumberFailure (run_optimize_text (ax_stod env) (ax_entries env) content))
              (\<lambda>res. Inr (exit_code_of_run res)))"

subsection \<open>The service stack\<close>

definition on_console ::
  "runtime_service operator_service \<Rightarrow> store_error + 'a \<times> runtime_service control_plane \<Rightarrow> app_error + 'a \<times> service_stack" where
  "on_console os res = bind_result (map_error StoreFailure res) (\<lambda>(x, s). Inr (x, Console (os\<lparr>os_plane := s\<rparr>)))"

definition stack_stream_submit ::
  "'n app_env \<Rightarrow> submit_workflow_request \<Rightarrow> service_stack \<Rightarrow> app_error + workflow_event list \<times> service_stack" where
  "stack_stream_submit env q st =
     (case st of
        InMemory rt \<Rightarrow> Inr (map_prod id InMemory (rt_stream_submit_workflow (ce_runtime (ax_control env)) q rt))
      | Console os \<Rightarrow> on_console os (cp_stream_submit_workflow (ax_control env) q (os_plane os)))"

definition stack_stream_reorchestrate ::
  "'n app_env \<Rightarrow> reorchestrate_request \<Rightarrow> service_stack \<Rightarrow> app_error + workflow_event list \<times> service_stack" where
  "stack_stream_reorchestrate env q st =
     (case st of
        InMemory rt \<Rightarrow> Inr (map_prod id InMemory (rt_stream_reorchestrate (ce_runtime (ax_control env)) q rt))
      | Console os \<Rightarrow> on_console os (cp_stream_reorchestrate (ax_control env) q (os_plane os)))"

definition stack_submit ::
  "'n app_env \<Rightarrow> submit_workflow_request \<Rightarrow> service_stack \<Rightarrow> app_error + runtime_api_response \<times> service_stack" where
  "stack_submit env q st =
     (case st of
        InMemory rt \<Rightarrow> Inr (map_prod id InMemory (rt_submit_workflow (ce_runtime (ax_control env)) q rt))
      | Console os \<Rightarrow> on_console os (cp_submit_workflow (ax_control env) q (os_plane os)))"

subsection \<open>The command line\<close>

datatype cli_input = Timeout | LineReady string | Closed

text \<open>What \<^verbatim>\<open>poll\<close> reports of standard input, and the line \<^verbatim>\<open>getline\<close> would read.\<close>

record poll_result =
  pl_count :: int
  pl_failed :: bool
  pl_readable :: bool
  pl_line :: "string option"

definition poll_cli_input :: "poll_result \<Rightarrow> cli_input" where
  "poll_cli_input p =
     (if pl_count p \<le> 0 then Timeout
      else if pl_failed p then Closed
      else if \<not> pl_readable p then Timeout
      else case pl_line p of None \<Rightarrow> Closed | Some l \<Rightarrow> LineReady l)"

definition split_command_and_argument :: "string \<Rightarrow> string \<times> string" where
  "split_command_and_argument line =
     (let t = trim_copy line; sep = (\<lambda>c. c = CHR '' '' \<or> c = CHR 0x09) in
      if \<exists>c\<in>set t. sep c then (takeWhile (\<lambda>c. \<not> sep c) t, trim_copy (tl (dropWhile (\<lambda>c. \<not> sep c) t))) else (t, []))"

text \<open>\<^verbatim>\<open>handle_submit_yaml\<close> and \<^verbatim>\<open>handle_submit_text\<close>; the command goes on whatever happens.\<close>

definition handle_submit ::
  "'n app_env \<Rightarrow> request_file_kind \<Rightarrow> string \<Rightarrow> string \<Rightarrow> security_config \<Rightarrow> service_stack \<Rightarrow> app_error + bool \<times> service_stack" where
  "handle_submit env kind path base sec st =
     (if path = kReadFromStdinPath then Inr (True, st)
      else
        bind_result (load_request_workflow env \<lparr>rf_kind = kind, rf_path = path\<rparr> base) (\<lambda>w.
          case w of
            None \<Rightarrow> Inr (True, st)
          | Some c \<Rightarrow> bind_result (stack_stream_submit env (make_submit_request c sec) st) (\<lambda>(es, st). Inr (True, st))))"

definition handle_reorchestrate ::
  "'n app_env \<Rightarrow> string \<Rightarrow> security_config \<Rightarrow> service_stack \<Rightarrow> app_error + bool \<times> service_stack" where
  "handle_reorchestrate env wid sec st =
     (if wid = [] then Inr (True, st)
      else bind_result (stack_stream_reorchestrate env (make_reorchestrate_request wid sec) st) (\<lambda>(es, st). Inr (True, st)))"

definition handle_cli_command ::
  "'n app_env \<Rightarrow> string \<Rightarrow> string \<Rightarrow> security_config \<Rightarrow> service_stack \<Rightarrow> app_error + bool \<times> service_stack" where
  "handle_cli_command env line base sec st =
     (let (command, argument) = split_command_and_argument line in
      if command = [] \<or> command = ''help'' \<or> command = ''status'' then Inr (True, st)
      else if command = ''submit-yaml''
      then (if argument = [] then Inr (True, st) else handle_submit env WorkflowYaml argument base sec st)
      else if command = ''submit-text''
      then (if argument = [] then Inr (True, st) else handle_submit env WorkflowText argument base sec st)
      else if command = ''reorchestrate'' then handle_reorchestrate env argument sec st
      else if command = ''quit'' \<or> command = ''exit'' then Inr (False, st)
      else Inr (True, st))"

text \<open>
  The loop: before each input other clients may have used the service (\<open>others\<close>); an interrupt signal ends
  it when the inputs are over.
\<close>

fun run_cli_loop ::
  "'n app_env \<Rightarrow> string \<Rightarrow> security_config \<Rightarrow> ((service_stack \<Rightarrow> service_stack) \<times> cli_input) list \<Rightarrow> service_stack
     \<Rightarrow> app_error + int \<times> service_stack" where
  "run_cli_loop env base sec [] st = Inr (0, st)"
| "run_cli_loop env base sec ((others, input) # rest) st =
     (let st = others st in
      case input of
        Timeout \<Rightarrow> run_cli_loop env base sec rest st
      | Closed \<Rightarrow> Inr (0, st)
      | LineReady line \<Rightarrow>
          bind_result (handle_cli_command env line base sec st) (\<lambda>(continue, st).
            if continue then run_cli_loop env base sec rest st else Inr (0, st)))"

subsection \<open>Serving\<close>

record service_outcome =
  so_exit :: int
  so_stack :: "service_stack option"
  so_http :: "http_server option"
  so_grpc :: "grpc_server option"

text \<open>The default of \<^verbatim>\<open>make_in_memory_workflow_update_feed\<close>.\<close>

definition kDefaultRetainedEvents :: nat where "kDefaultRetainedEvents = 256"

definition build_stack :: "'n app_env \<Rightarrow> launch_config \<Rightarrow> app_error + service_stack" where
  "build_stack env l =
     (let rt = \<lparr>im_security = lc_security l, im_workflows = []\<rparr>; cf = lc_control_plane l in
      if control_plane_configured cf
      then
        bind_result (map_error StoreFailure (ax_open_store env (cf_database_path cf))) (\<lambda>store.
          let store = (if pruning_enabled cf
                       then the (snd (prune_stale_boot_history (ax_now env) (cf_prune_after_days cf) (Some store))) else store)
          in Inr (Console \<lparr>os_plane = make_control_plane rt store (Some (make_in_memory_workflow_update_feed kDefaultRetainedEvents)),
                    os_connectors = []\<rparr>))
      else Inr (InMemory rt))"

definition recover_stack :: "'n app_env \<Rightarrow> launch_config \<Rightarrow> service_stack \<Rightarrow> app_error + service_stack" where
  "recover_stack env l st =
     (case st of
        Console os \<Rightarrow>
          if cf_recover_on_start (lc_control_plane l)
          then bind_result (map_error StoreFailure
                 (recover_active_workflows (ax_control env) (make_local_auth_context (lc_security l)) (os_plane os)))
                 (\<lambda>s. Inr (Console (os\<lparr>os_plane := s\<rparr>)))
          else Inr st
      | InMemory rt \<Rightarrow> Inr st)"

text \<open>\<open>None\<close>: the configured request could not be loaded, and the launcher gives up.\<close>

definition bootstrap_stack :: "'n app_env \<Rightarrow> launch_config \<Rightarrow> string \<Rightarrow> service_stack \<Rightarrow> app_error + service_stack option" where
  "bootstrap_stack env l base st =
     (if request_configured (lc_bootstrap_request l)
      then bind_result (load_request_workflow env (lc_bootstrap_request l) base) (\<lambda>w.
             case w of
               None \<Rightarrow> Inr None
             | Some c \<Rightarrow> bind_result (stack_submit env (make_submit_request c (lc_security l)) st) (\<lambda>(r, st). Inr (Some st)))
      else
        case lc_bootstrap_workflow l of
          None \<Rightarrow> Inr (Some st)
        | Some c \<Rightarrow> bind_result (stack_submit env (make_submit_request c (lc_security l)) st) (\<lambda>(r, st). Inr (Some st)))"

definition shutdown_stack :: "service_stack \<Rightarrow> service_stack" where
  "shutdown_stack st =
     (case st of
        Console os \<Rightarrow> Console (os\<lparr>os_plane := (os_plane os)\<lparr>cp_feed := map_option shutdown (cp_feed (os_plane os))\<rparr>\<rparr>)
      | InMemory rt \<Rightarrow> InMemory rt)"

definition start_http :: "'n app_env \<Rightarrow> launch_config \<Rightarrow> http_server option" where
  "start_http env l =
     (if hi_enabled (lc_http l)
      then Some (http_server_start (ax_read_file env) (ax_ssl env) (ax_acceptor env) (make_http_server (hi_endpoint (lc_http l))))
      else None)"

definition start_grpc :: "'n app_env \<Rightarrow> launch_config \<Rightarrow> grpc_server option" where
  "start_grpc env l =
     (if gi_enabled (lc_grpc l)
      then Some (grpc_server_start (ax_read_file env) (ax_valid_address env) (ax_grpc_build env) (make_grpc_server (gi_endpoint (lc_grpc l))))
      else None)"

text \<open>\<open>inputs\<close> is what happens while the service runs, on the command line (if it is enabled) and beside it.\<close>

definition serve ::
  "'n app_env \<Rightarrow> launch_config \<Rightarrow> string \<Rightarrow> ((service_stack \<Rightarrow> service_stack) \<times> cli_input) list \<Rightarrow> service_stack
     \<Rightarrow> app_error + int \<times> service_stack" where
  "serve env l base inputs st =
     (if ci_enabled (lc_cli l) then run_cli_loop env base (lc_security l) inputs st
      else Inr (0, fold (\<lambda>(others, _) st. others st) inputs st))"

text \<open>The servers: started in this order, and stopped whatever happens.\<close>

definition run_servers ::
  "'n app_env \<Rightarrow> launch_config \<Rightarrow> string \<Rightarrow> ((service_stack \<Rightarrow> service_stack) \<times> cli_input) list \<Rightarrow> service_stack
     \<Rightarrow> app_error + service_outcome" where
  "run_servers env l base inputs st =
     (let http = start_http env l; grpc = start_grpc env l in
      if (case http of None \<Rightarrow> False | Some h \<Rightarrow> \<not> hv_running h)
      then Inr \<lparr>so_exit = 1, so_stack = Some st, so_http = http, so_grpc = None\<rparr>
      else if (case grpc of None \<Rightarrow> False | Some g \<Rightarrow> \<not> gv_running g)
      then Inr \<lparr>so_exit = 1, so_stack = Some st, so_http = map_option http_server_stop http, so_grpc = grpc\<rparr>
      else
        bind_result (serve env l base inputs st) (\<lambda>(code, st).
          Inr \<lparr>so_exit = code, so_stack = Some (shutdown_stack st), so_http = map_option http_server_stop http,
            so_grpc = map_option grpc_server_stop grpc\<rparr>))"

definition run_service_mode ::
  "'n app_env \<Rightarrow> launch_config \<Rightarrow> string \<Rightarrow> ((service_stack \<Rightarrow> service_stack) \<times> cli_input) list \<Rightarrow> app_error + service_outcome" where
  "run_service_mode env l base inputs =
     (let failed = \<lparr>so_exit = 1, so_stack = None, so_http = None, so_grpc = None\<rparr> in
      if \<not> has_enabled_interface l then Inr failed
      else
        bind_result (build_stack env l) (\<lambda>st.
        bind_result (recover_stack env l st) (\<lambda>st.
        bind_result (bootstrap_stack env l base st) (\<lambda>booted.
          case booted of None \<Rightarrow> Inr failed | Some st \<Rightarrow> run_servers env l base inputs st))))"

definition run_application ::
  "'n app_env \<Rightarrow> application_config \<Rightarrow> string \<Rightarrow> ((service_stack \<Rightarrow> service_stack) \<times> cli_input) list \<Rightarrow> app_error + int" where
  "run_application env c directory inputs =
     (if \<not> application_valid c then Inr 1
      else if ap_mode c = Serve then bind_result (run_service_mode env (ap_service c) directory inputs) (\<lambda>out. Inr (so_exit out))
      else run_one_shot_request env (ap_request c) directory)"

definition run_from_file ::
  "'n app_env \<Rightarrow> string \<Rightarrow> ((service_stack \<Rightarrow> service_stack) \<times> cli_input) list \<Rightarrow> app_error + int" where
  "run_from_file env path inputs =
     (case read_content env path of
        None \<Rightarrow> Inr 1
      | Some content \<Rightarrow>
          (let c = load_application_config_from_string (ax_yaml env) content in
           if \<not> ap_configured c then Inr 1
           else run_application env c (if path = kReadFromStdinPath then ax_current_path env else ax_absolute_parent env path) inputs))"

definition run_from_args ::
  "'n app_env \<Rightarrow> string list \<Rightarrow> ((service_stack \<Rightarrow> service_stack) \<times> cli_input) list \<Rightarrow> app_error + int" where
  "run_from_args env argv inputs = (case argv of _ # path # _ \<Rightarrow> run_from_file env path inputs | _ \<Rightarrow> Inr 1)"

end
