(* ===== verification/Config_Loader_Correct.thy ===== *)
theory Config_Loader_Correct
  imports Config_Loader Runtime_Service
begin

text \<open>
  What loading a configuration guarantees: whatever the YAML library does, a loaded workflow is the default
  one or well formed; and a configuration that is written out as a document is read back.
\<close>

subsection \<open>Loaded workflows are well formed\<close>

definition loaded_actor_ok :: "actor_config \<Rightarrow> bool" where
  "loaded_actor_ok a \<longleftrightarrow> ac_windows a \<noteq> []"

definition loaded_task_ok :: "task_config \<Rightarrow> bool" where
  "loaded_task_ok t \<longleftrightarrow> tc_deadline t = 0 \<longrightarrow> tc_requested_time t + tc_duration t + kDefaultDeadlineSlack = 0"

definition loaded_ok :: "workflow_config \<Rightarrow> bool" where
  "loaded_ok c \<longleftrightarrow> wc_id c \<noteq> [] \<and> list_all loaded_actor_ok (wc_actors c) \<and> list_all loaded_task_ok (wc_tasks c)"

lemma collect_all: "collect f xs = Inr zs \<Longrightarrow> (\<And>x z. f x = Inr z \<Longrightarrow> P z) \<Longrightarrow> list_all P zs"
  by (induction xs arbitrary: zs) (auto simp: bind_result_Inr)

lemma sequence_all:
  "append_transformed_sequence y n f = Inr zs \<Longrightarrow> (\<And>x z. f x = Inr z \<Longrightarrow> P z) \<Longrightarrow> list_all P zs"
  by (auto simp: append_transformed_sequence_def split: if_splits intro: collect_all)

lemma parse_actor_ok: "parse_actor y n = Inr a \<Longrightarrow> loaded_actor_ok a"
  by (auto simp: parse_actor_def bind_result_Inr loaded_actor_ok_def split: if_splits)

lemma parse_task_ok: "parse_task y n = Inr t \<Longrightarrow> loaded_task_ok t"
  by (auto simp: parse_task_def bind_result_Inr loaded_task_ok_def split: if_splits)

lemma parse_workflow_ok: "parse_workflow_yaml y n = Inr c \<Longrightarrow> c = default_workflow_config \<or> loaded_ok c"
  by (auto simp: parse_workflow_yaml_def bind_result_Inr loaded_ok_def kDefaultWorkflowId_def split: if_splits
      intro: sequence_all parse_actor_ok parse_task_ok)

lemma parse_workflow_content: "parse_workflow_yaml y n = Inr c \<Longrightarrow> workflow_has_content c \<Longrightarrow> loaded_ok c"
  using parse_workflow_ok by (fastforce simp: workflow_has_content_def default_workflow_config_def)

lemma loaded_result_ok:
  "c = or_on_error (bind_result r (\<lambda>doc. bind_result (find_workflow_node y doc) (parse_workflow_yaml y))) default_workflow_config \<Longrightarrow>
     c = default_workflow_config \<or> loaded_ok c"
  by (auto simp: or_on_error_def bind_result_Inr split: sum.splits dest: parse_workflow_ok)


subsection \<open>Documents\<close>

text \<open>Documents as trees, read as the YAML library documents it.\<close>

datatype yaml_node = YUndefined | YNull | YString string | YInt int | YBool bool | YDouble rat
  | YSeq "yaml_node list" | YMap "(string \<times> yaml_node) list"

fun tree_get :: "yaml_node \<Rightarrow> string \<Rightarrow> yaml_error + yaml_node" where
  "tree_get (YMap kvs) k = Inr (or_default (map_of kvs k) YUndefined)"
| "tree_get (YSeq ns) k = Inr YUndefined"
| "tree_get YNull k = Inr YUndefined"
| "tree_get _ k = Inl YamlException"

fun tree_string :: "yaml_node \<Rightarrow> yaml_error + string" where
  "tree_string (YString s) = Inr s"
| "tree_string (YInt i) = Inr (to_string i)"
| "tree_string (YBool b) = Inr (if b then ''true'' else ''false'')"
| "tree_string _ = Inl YamlException"

fun tree_int :: "nat \<Rightarrow> yaml_node \<Rightarrow> yaml_error + int" where
  "tree_int w (YInt i) = (if - (2 ^ (w - 1)) \<le> i \<and> i < 2 ^ (w - 1) then Inr i else Inl YamlException)"
| "tree_int w _ = Inl YamlException"

fun tree_size :: "yaml_node \<Rightarrow> yaml_error + nat" where
  "tree_size (YInt i) = (if 0 \<le> i \<and> i < 2 ^ 64 then Inr (nat i) else Inl YamlException)"
| "tree_size _ = Inl YamlException"

fun tree_bool :: "yaml_node \<Rightarrow> yaml_error + bool" where
  "tree_bool (YBool b) = Inr b"
| "tree_bool _ = Inl YamlException"

fun tree_double :: "yaml_node \<Rightarrow> yaml_error + rat" where
  "tree_double (YDouble r) = Inr r"
| "tree_double (YInt i) = Inr (of_int i)"
| "tree_double _ = Inl YamlException"

definition tree_yaml :: "(string \<Rightarrow> yaml_error + yaml_node) \<Rightarrow> yaml_node yaml" where
  "tree_yaml load =
     \<lparr>ym_load = load, ym_load_file = load, ym_null = YNull,
      ym_defined = (\<lambda>n. case n of YUndefined \<Rightarrow> False | _ \<Rightarrow> True),
      ym_is_scalar = (\<lambda>n. case n of YString _ \<Rightarrow> True | YInt _ \<Rightarrow> True | YBool _ \<Rightarrow> True | YDouble _ \<Rightarrow> True | _ \<Rightarrow> False),
      ym_is_sequence = (\<lambda>n. case n of YSeq _ \<Rightarrow> True | _ \<Rightarrow> False), ym_is_map = (\<lambda>n. case n of YMap _ \<Rightarrow> True | _ \<Rightarrow> False),
      ym_size = (\<lambda>n. case n of YSeq ns \<Rightarrow> length ns | YMap kvs \<Rightarrow> length kvs | _ \<Rightarrow> 0),
      ym_get = tree_get, ym_elements = (\<lambda>n. case n of YSeq ns \<Rightarrow> ns | _ \<Rightarrow> []),
      ym_entries = (\<lambda>n. case n of YMap kvs \<Rightarrow> map (\<lambda>(k, v). (YString k, v)) kvs | _ \<Rightarrow> []),
      ym_as_string = tree_string, ym_as_int64 = tree_int 64, ym_as_int = tree_int 32, ym_as_size = tree_size,
      ym_as_bool = tree_bool, ym_as_double = tree_double\<rparr>"

definition strings_node :: "string list \<Rightarrow> yaml_node" where
  "strings_node ss = YSeq (map YString ss)"

definition render_window :: "availability_window \<Rightarrow> yaml_node" where
  "render_window w = YMap [(''start'', YInt (win_start w)), (''end'', YInt (win_end w))]"

definition render_actor :: "actor_config \<Rightarrow> yaml_node" where
  "render_actor a =
     YMap [(''id'', YString (ac_id a)), (''type'', YString (ac_type a)), (''capacity'', YInt (ac_capacity a)),
       (''windows'', YSeq (map render_window (ac_windows a))), (''capabilities'', strings_node (ac_capabilities a)),
       (''execution_cost_per_unit'', YDouble (ac_execution_cost_per_unit a))]"

definition render_task :: "task_config \<Rightarrow> yaml_node" where
  "render_task t =
     YMap [(''id'', YString (tc_id t)), (''requested_time'', YInt (tc_requested_time t)), (''duration'', YInt (tc_duration t)),
       (''latest_start_time'', YInt (tc_latest_start_time t)), (''deadline'', YInt (tc_deadline t)),
       (''priority'', YInt (tc_priority t)), (''demand'', YInt (tc_demand t)), (''mandatory'', YBool (tc_mandatory t)),
       (''preemptible'', YBool (tc_preemptible t)), (''allowed_actor_types'', strings_node (tc_allowed_actor_types t)),
       (''allowed_actor_ids'', strings_node (tc_allowed_actor_ids t)),
       (''preferred_actor_ids'', strings_node (tc_preferred_actor_ids t)),
       (''required_capabilities'', strings_node (tc_required_capabilities t)),
       (''dependency_task_ids'', strings_node (tc_dependency_task_ids t)),
       (''mutually_exclusive_task_ids'', strings_node (tc_mutually_exclusive_task_ids t)),
       (''actor_distances'', YMap (map (\<lambda>(i, d). (i, YInt d)) (tc_actor_distances t))),
       (''tardiness_cost_per_unit'', YDouble (tc_tardiness_cost_per_unit t)),
       (''early_start_bonus'', YDouble (tc_early_start_bonus t)),
       (''phase_durations'', YSeq (map YInt (tc_phase_durations t)))]"

definition render_objective :: "objective_weights \<Rightarrow> yaml_node" where
  "render_objective w =
     YMap [(''fulfilled_task_weight'', YInt (fulfilled_task_weight w)), (''priority_weight'', YInt (priority_weight w)),
       (''makespan_weight'', YInt (makespan_weight w)), (''travel_distance_weight'', YInt (travel_distance_weight w)),
       (''tardiness_weight'', YInt (tardiness_weight w)), (''execution_cost_weight'', YInt (execution_cost_weight w)),
       (''preferred_actor_weight'', YInt (preferred_actor_weight w))]"

definition render_optimization :: "optimization_config \<Rightarrow> yaml_node" where
  "render_optimization c =
     YMap [(''backend'', YString (oc_backend c)), (''time_limit_ms'', YInt (oc_time_limit_ms c)),
       (''relative_gap_limit'', YDouble (oc_relative_gap_limit c)), (''num_search_workers'', YInt (oc_num_search_workers c)),
       (''allow_partial_plan'', YBool (oc_allow_partial_plan c)), (''objective'', render_objective (oc_objective c))]"

definition render_workflow :: "workflow_config \<Rightarrow> yaml_node" where
  "render_workflow c =
     YMap [(''id'', YString (wc_id c)), (''optimization'', render_optimization (wc_optimization c)),
       (''actors'', YSeq (map render_actor (wc_actors c))), (''tasks'', YSeq (map render_task (wc_tasks c)))]"

text \<open>The values a configuration can hold in the program.\<close>

definition int64 :: "int \<Rightarrow> bool" where "int64 i \<longleftrightarrow> - (2 ^ 63) \<le> i \<and> i < 2 ^ 63"
definition int32 :: "int \<Rightarrow> bool" where "int32 i \<longleftrightarrow> - (2 ^ 31) \<le> i \<and> i < 2 ^ 31"

definition actor_in_range :: "actor_config \<Rightarrow> bool" where
  "actor_in_range a \<longleftrightarrow> int32 (ac_capacity a) \<and> list_all (\<lambda>w. int64 (win_start w) \<and> int64 (win_end w)) (ac_windows a)"

definition task_in_range :: "task_config \<Rightarrow> bool" where
  "task_in_range t \<longleftrightarrow> list_all int64 [tc_requested_time t, tc_duration t, tc_latest_start_time t, tc_deadline t] \<and>
     int32 (tc_priority t) \<and> int32 (tc_demand t) \<and> list_all (\<lambda>(i, d). int64 d) (tc_actor_distances t) \<and>
     distinct (map fst (tc_actor_distances t)) \<and> list_all int64 (tc_phase_durations t)"

definition config_in_range :: "workflow_config \<Rightarrow> bool" where
  "config_in_range c \<longleftrightarrow>
     (let w = oc_objective (wc_optimization c) in
      list_all int64 [oc_time_limit_ms (wc_optimization c), fulfilled_task_weight w, priority_weight w, makespan_weight w,
        travel_distance_weight w, tardiness_weight w, execution_cost_weight w, preferred_actor_weight w]) \<and>
     int32 (oc_num_search_workers (wc_optimization c)) \<and> list_all actor_in_range (wc_actors c) \<and>
     list_all task_in_range (wc_tasks c)"

lemma tree_yaml_sel [simp]:
  "ym_load (tree_yaml load) = load" "ym_load_file (tree_yaml load) = load" "ym_null (tree_yaml load) = YNull"
  "ym_get (tree_yaml load) = tree_get" "ym_as_string (tree_yaml load) = tree_string"
  "ym_as_int64 (tree_yaml load) = tree_int 64" "ym_as_int (tree_yaml load) = tree_int 32"
  "ym_as_size (tree_yaml load) = tree_size" "ym_as_bool (tree_yaml load) = tree_bool"
  "ym_as_double (tree_yaml load) = tree_double"
  "ym_elements (tree_yaml load) (YSeq ns) = ns"
  "ym_entries (tree_yaml load) (YMap kvs) = map (\<lambda>(k, v). (YString k, v)) kvs"
  "ym_is_sequence (tree_yaml load) (YSeq ns)" "ym_is_map (tree_yaml load) (YMap kvs)"
  "ym_defined (tree_yaml load) n \<longleftrightarrow> n \<noteq> YUndefined"
  by (simp_all add: tree_yaml_def split: yaml_node.split)

lemmas tree_fields = read_field_def bind_result_def or_default_def

lemma tree_int_ok [simp]:
  "int64 i \<Longrightarrow> tree_int 64 (YInt i) = Inr i" "int32 i \<Longrightarrow> tree_int 32 (YInt i) = Inr i"
  by (simp_all add: int64_def int32_def)

declare tree_int.simps(1) [simp del]

lemma collect_map: "list_all (\<lambda>x. f (g x) = Inr x) xs \<Longrightarrow> collect f (map g xs) = Inr xs"
  by (induction xs) (simp_all add: bind_result_def)

lemma read_strings_rendered [simp]:
  "map_of kvs k = Some (strings_node ss) \<Longrightarrow> read_strings (tree_yaml load) (YMap kvs) k = Inr ss"
  by (simp add: read_strings_def tree_fields append_transformed_sequence_def strings_node_def collect_map list_all_iff)

lemma sequence_rendered:
  "list_all (\<lambda>x. f (g x) = Inr x) xs \<Longrightarrow> append_transformed_sequence (tree_yaml load) (YSeq (map g xs)) f = Inr xs"
  by (simp add: append_transformed_sequence_def collect_map)

lemma window_rendered:
  "int64 (win_start w) \<Longrightarrow> int64 (win_end w) \<Longrightarrow> parse_availability_window (tree_yaml load) (render_window w) = Inr w"
  by (simp add: parse_availability_window_def render_window_def tree_fields)

lemma actor_rendered:
  assumes "actor_in_range a" and "loaded_actor_ok a"
  shows "parse_actor (tree_yaml load) (render_actor a) = Inr a"
proof -
  have windows: "append_transformed_sequence (tree_yaml load) (YSeq (map render_window (ac_windows a)))
      (parse_availability_window (tree_yaml load)) = Inr (ac_windows a)"
    using assms(1) by (intro sequence_rendered) (auto simp: actor_in_range_def list_all_iff window_rendered)
  from assms show ?thesis
    by (simp add: parse_actor_def render_actor_def actor_in_range_def loaded_actor_ok_def tree_fields windows)
qed

lemma emplace_all_distinct:
  "distinct (map fst (acc @ ds)) \<Longrightarrow> fold (\<lambda>(i, d). umap_emplace i d) ds acc = acc @ ds"
proof (induction ds arbitrary: acc)
  case (Cons x ds)
  obtain i d where x: "x = (i, d)" by fastforce
  with Cons.prems have "map_of acc i = None" by (auto simp: map_of_eq_None_iff)
  with Cons x show ?case by (simp add: umap_emplace_def)
qed simp

lemma distances_rendered:
  assumes "list_all (\<lambda>(i, d). int64 d) ds" and "distinct (map fst ds)"
  shows "append_actor_distance_overrides (tree_yaml load) (YMap (map (\<lambda>(i, d). (i, YInt d)) ds)) = Inr ds"
proof -
  let ?f = "\<lambda>(k, v). bind_result (tree_string k) (\<lambda>i. bind_result (tree_int 64 v) (\<lambda>d. Inr (i, d)))"
  have "collect ?f (map (\<lambda>(k, v). (YString k, v)) (map (\<lambda>(i, d). (i, YInt d)) ds)) = Inr ds"
    unfolding map_map using assms(1) by (intro collect_map) (auto simp: list_all_iff bind_result_def)
  then have "append_actor_distance_overrides (tree_yaml load) (YMap (map (\<lambda>(i, d). (i, YInt d)) ds)) =
      bind_result (Inr ds) (\<lambda>ds. Inr (fold (\<lambda>(i, d). umap_emplace i d) ds []))"
    by (simp add: append_actor_distance_overrides_def is_section_def del: map_map)
  then show ?thesis using emplace_all_distinct [of "[]" ds] assms(2) by (simp add: bind_result_def)
qed

lemma task_rendered:
  assumes "task_in_range t" and "tc_deadline t \<noteq> 0"
  shows "parse_task (tree_yaml load) (render_task t) = Inr t"
proof -
  have phases: "append_transformed_sequence (tree_yaml load) (YSeq (map YInt (tc_phase_durations t))) (tree_int 64) =
      Inr (tc_phase_durations t)"
    using assms(1) by (intro sequence_rendered) (auto simp: task_in_range_def list_all_iff)
  have distances: "append_actor_distance_overrides (tree_yaml load) (YMap (map (\<lambda>(i, d). (i, YInt d)) (tc_actor_distances t))) =
      Inr (tc_actor_distances t)"
    using assms(1) by (intro distances_rendered) (simp_all add: task_in_range_def)
  from assms show ?thesis
    by (simp add: parse_task_def render_task_def task_in_range_def tree_fields phases distances)
qed

lemma optimization_rendered:
  assumes "config_in_range c"
  shows "parse_optimization (tree_yaml load) (render_optimization (wc_optimization c)) = Inr (wc_optimization c)"
  using assms
  by (simp add: parse_optimization_def render_optimization_def parse_objective_def render_objective_def config_in_range_def
      is_section_def tree_fields Let_def)


end
