(* ===== verification/Runtime_Service_Correct.thy ===== *)
theory Runtime_Service_Correct
  imports Runtime_Service
begin

text \<open>
  The runtime service: what its streams look like, that a caller without credentials changes
  nothing, that overrides keep a stored workflow well-formed, and that the plans it answers with
  are feasible schedules of the workflow it stores.
\<close>

subsection \<open>Streams\<close>

lemma final_response_append: "final_response d (xs @ ys) = final_response (final_response d xs) ys"
  by (simp add: final_response_def)

lemma final_response_none: "list_all (\<lambda>e. we_response e = None) evs \<Longrightarrow> final_response d evs = d"
  by (induction evs arbitrary: d) (auto simp: final_response_def)

lemma make_event_fields [simp]:
  "we_response (make_event ty wid det) = None" "we_type (make_event ty wid det) = ty"
  "we_response (planned_event wid c x) = None" "we_type (planned_event wid c x) = TaskPlanned"
  "we_response (task_override_event wid t_ov) = None" "we_type (task_override_event wid t_ov) \<noteq> TaskPlanned"
  "we_response (actor_override_event wid a_ov) = None" "we_type (actor_override_event wid a_ov) \<noteq> TaskPlanned"
  "we_response (make_response_event ty wid r det) = Some r" "we_type (make_response_event ty wid r det) = ty"
  by (simp_all add: make_event_def make_response_event_def planned_event_def task_override_event_def
      actor_override_event_def empty_event_def)

text \<open>What an event says of an assignment.\<close>

definition event_assignment :: "workflow_event \<Rightarrow> pb_assignment" where
  "event_assignment e = \<lparr>pg_task_id = we_task_id e, pg_actor_id = we_actor_id e,
     pg_start_time = we_start_time e, pg_end_time = we_end_time e\<rparr>"

definition planned_assignments :: "workflow_event list \<Rightarrow> pb_assignment list" where
  "planned_assignments evs = map event_assignment (filter (\<lambda>e. we_type e = TaskPlanned) evs)"

definition stream_wf :: "workflow_event list \<Rightarrow> bool" where
  "stream_wf evs \<longleftrightarrow> evs \<noteq> [] \<and> list_all (\<lambda>e. we_response e = None) (butlast evs) \<and>
     we_type (last evs) \<in> {RequestRejected, RunFinished} \<and>
     we_response (last evs) = Some (consume_final_response evs) \<and>
     planned_assignments evs = pr_assignments (ra_result (consume_final_response evs)) \<and>
     (we_type (last evs) = RequestRejected \<longrightarrow> \<not> ra_ok (consume_final_response evs) \<and> length evs = 1)"

lemma task_durations_lookup: "umap_at_or (task_durations c) t 0 = task_duration_for_id c t"
  using map_of_fold_emplace [of tc_id tc_duration "wc_tasks c" "[]" t]
  by (simp add: task_durations_def task_duration_for_id_def umap_at_or_def split: option.split)

lemma event_assignment_planned: "event_assignment (planned_event wid c x) = to_pb_assignment c x"
  by (simp add: event_assignment_def planned_event_def make_event_def empty_event_def to_pb_assignment_def
      task_durations_lookup)

lemma consume_snoc:
  "we_response e = Some r \<Longrightarrow> consume_final_response (evs @ [e]) = r"
  by (simp add: consume_final_response_def final_response_def)

lemma consume_single [simp]: "consume_final_response [make_response_event ty wid r det] = r"
  using consume_snoc [of "make_response_event ty wid r det" r "[]"] by simp

lemma filter_none_planned: "list_all (\<lambda>e. we_type e \<noteq> TaskPlanned) evs \<Longrightarrow> filter (\<lambda>e. we_type e = TaskPlanned) evs = []"
  by (induction evs) auto

lemma stream_wf_finished:
  assumes "list_all (\<lambda>e. we_response e = None \<and> we_type e \<noteq> TaskPlanned) pre"
    and "pr_assignments (ra_result r) = map (to_pb_assignment c) xs"
  shows "stream_wf (pre @ map (planned_event wid c) xs @ [make_response_event RunFinished wid r det])"
proof -
  have "filter (\<lambda>e. we_type e = TaskPlanned) pre = []"
    using assms(1) by (intro filter_none_planned) (auto simp: list_all_iff)
  moreover have "filter (\<lambda>e. we_type e = TaskPlanned) (map (planned_event wid c) xs) = map (planned_event wid c) xs"
    by (rule filter_True) auto
  ultimately have planned: "planned_assignments (pre @ map (planned_event wid c) xs @ [make_response_event RunFinished wid r det]) =
      map (to_pb_assignment c) xs"
    by (simp add: planned_assignments_def o_def event_assignment_planned)
  have "consume_final_response ((pre @ map (planned_event wid c) xs) @ [make_response_event RunFinished wid r det]) = r"
    by (rule consume_snoc) simp
  then show ?thesis using planned assms
    by (auto simp: stream_wf_def butlast_append list_all_iff)
qed

lemma stream_wf_rejected:
  "\<not> ra_ok r \<Longrightarrow> pr_assignments (ra_result r) = [] \<Longrightarrow> stream_wf [make_response_event RequestRejected wid r det]"
  by (simp add: stream_wf_def planned_assignments_def)

lemma error_response_fields [simp]:
  "\<not> ra_ok (make_runtime_error_response m)" "pr_assignments (ra_result (make_runtime_error_response m)) = []"
  by (simp_all add: make_runtime_error_response_def empty_run_result_def)

lemma ok_response_fields [simp]: "ra_ok ok_response" "pr_assignments (ra_result ok_response) = []"
  by (simp_all add: ok_response_def empty_response_def empty_run_result_def)

definition authorized :: "security_config \<Rightarrow> client_auth_context \<Rightarrow> bool" where
  "authorized sec auth \<longleftrightarrow>
     (sc_require_secure_transport sec \<longrightarrow> au_secure_transport auth) \<and>
     (sc_mode sec = BearerToken \<longrightarrow> au_bearer_token auth = sc_expected_credential sec) \<and>
     (sc_mode sec = ApiKey \<longrightarrow> au_api_key auth = sc_expected_credential sec)"

lemma authorize_ok: "ra_ok (authorize sec auth) = authorized sec auth"
  by (auto simp: authorize_def authorized_def)

lemma authorize_assignments [simp]: "pr_assignments (ra_result (authorize sec auth)) = []"
  by (simp add: authorize_def)

lemma runtime_response_assignments:
  "pr_assignments (ra_result (make_runtime_response r c)) = map (to_pb_assignment c) (rr_assignments r)"
  by (simp add: make_runtime_response_def populate_proto_run_result_def)

lemma stream_submit_wf: "stream_wf (fst (stream_submit_workflow entries req rs))"
proof -
  have "stream_wf ([make_event WorkflowAccepted w d1, make_event ReplanningStarted w d2] @
      map (planned_event w c) (rr_assignments r) @ [make_response_event RunFinished w (make_runtime_response r c) d3])"
    for w d1 d2 c r d3
    by (rule stream_wf_finished) (simp_all add: runtime_response_assignments)
  then show ?thesis
    by (auto simp: stream_submit_workflow_def Let_def intro!: stream_wf_rejected)
qed

lemma stream_reorchestrate_wf: "stream_wf (fst (stream_reorchestrate entries req rs))"
proof -
  let ?pre = "\<lambda>w. map (task_override_event w) (rq_task_overrides req) @ map (actor_override_event w) (rq_actor_overrides req)"
  have "stream_wf (?pre w @ map (planned_event w c) [] @ [make_response_event RunFinished w ok_response d])" for w c d
    by (rule stream_wf_finished) (auto simp: list_all_iff)
  moreover have "stream_wf ((?pre w @ [make_event ReplanningStarted w d1]) @ map (planned_event w c) (rr_assignments r) @
      [make_response_event RunFinished w (make_runtime_response r c) d2])" for w d1 c r d2
    by (rule stream_wf_finished) (auto simp: list_all_iff runtime_response_assignments)
  ultimately show ?thesis
    by (auto simp: stream_reorchestrate_def Let_def intro!: stream_wf_rejected split: option.splits)
qed

text \<open>Every event stream of the runtime service ends with exactly one response, a rejection or
  the end of the run; the unary call returns that response; a rejected stream has nothing else; and
  the planned-task events list exactly the assignments of the response (task, actor, start, end).\<close>

theorem runtime_streams_end_with_their_response:
  "stream_wf (fst (stream_submit_workflow entries sreq rs)) \<and>
   stream_wf (fst (stream_reorchestrate entries rreq rs)) \<and>
   fst (submit_workflow entries sreq rs) = consume_final_response (fst (stream_submit_workflow entries sreq rs)) \<and>
   fst (reorchestrate entries rreq rs) = consume_final_response (fst (stream_reorchestrate entries rreq rs))"
  by (simp add: stream_submit_wf stream_reorchestrate_wf submit_workflow_def reorchestrate_def case_prod_unfold
      Let_def)

text \<open>C18. A caller whose credentials or transport do not meet the security configuration gets a
  single rejection and leaves every stored workflow as it was; one who meets it is never rejected
  for authentication.\<close>

theorem unauthorized_requests_change_nothing:
  assumes "\<not> authorized (im_security rs) auth" and "sw_auth sreq = auth" and "rq_auth rreq = auth"
  shows "snd (stream_submit_workflow entries sreq rs) = rs \<and> snd (stream_reorchestrate entries rreq rs) = rs \<and>
    map we_type (fst (stream_submit_workflow entries sreq rs)) = [RequestRejected] \<and>
    map we_type (fst (stream_reorchestrate entries rreq rs)) = [RequestRejected] \<and>
    \<not> ra_ok (fst (submit_workflow entries sreq rs)) \<and> \<not> ra_ok (fst (reorchestrate entries rreq rs))"
proof -
  have "\<not> ra_ok (authorize (im_security rs) auth)" using assms(1) by (simp add: authorize_ok)
  then show ?thesis using assms(2,3)
    by (simp add: stream_submit_workflow_def stream_reorchestrate_def submit_workflow_def reorchestrate_def Let_def)
qed

subsection \<open>Overrides keep workflows well-formed\<close>

definition config_wf :: "workflow_config \<Rightarrow> bool" where
  "config_wf c \<longleftrightarrow> distinct (map tc_id (wc_tasks c)) \<and> distinct (map ac_id (wc_actors c)) \<and>
     (\<forall>t\<in>set (wc_tasks c). set (tc_dependency_task_ids t) \<subseteq> tc_id ` set (wc_tasks c) - {tc_id t})"

lemma model_of_config_wf:
  assumes "config_wf c"
  shows "model_wf (to_model c) \<and> deps_closed (to_model c) \<and> no_self_dependency (to_model c)"
  using assms
  by (auto simp: config_wf_def model_wf_def deps_closed_def no_self_dependency_def to_model_def o_def list_all_iff
      to_optimizer_task_def to_optimizer_actor_def image_image)

lemma map_update_first: "(\<And>x. f (g x) = f x) \<Longrightarrow> map f (update_first P g xs) = map f xs"
  by (induction xs) auto

lemma set_update_first: "y \<in> set (update_first P g xs) \<Longrightarrow> y \<in> set xs \<or> (\<exists>x\<in>set xs. y = g x)"
  by (induction xs) (auto split: if_splits)

lemma set_erase_first: "set (erase_first P xs) \<subseteq> set xs"
  by (induction xs) auto

lemma erase_first_key:
  assumes "distinct (map f xs)" and "k \<in> f ` set xs"
  shows "distinct (map f (erase_first (\<lambda>x. f x = k) xs)) \<and>
    f ` set (erase_first (\<lambda>x. f x = k) xs) = f ` set xs - {k}"
  using assms by (induction xs) (auto dest: set_erase_first [THEN subsetD] intro: rev_image_eqI)

lemma override_task_fields [simp]:
  "tc_id (override_task ov t) = tc_id t" "tc_dependency_task_ids (override_task ov t) = tc_dependency_task_ids t"
  by (simp_all add: override_task_def Let_def split: option.split)

lemma override_actor_id [simp]: "ac_id (override_actor ov a) = ac_id a"
  by (simp add: override_actor_def Let_def split: option.split bool.split)

lemma apply_actor_override_wf: "config_wf c \<Longrightarrow> config_wf (apply_actor_override ov c)"
  by (simp add: config_wf_def apply_actor_override_def map_update_first)

lemma complete_task_wf:
  assumes wf: "config_wf c" and k: "k \<in> tc_id ` set (wc_tasks c)"
  shows "config_wf (remove_completed_task_dependencies k
    (c\<lparr>wc_tasks := erase_first (\<lambda>x. tc_id x = k) (wc_tasks c)\<rparr>))"
proof -
  let ?rest = "erase_first (\<lambda>x. tc_id x = k) (wc_tasks c)"
  have keys: "distinct (map tc_id ?rest)" "tc_id ` set ?rest = tc_id ` set (wc_tasks c) - {k}"
    using erase_first_key [of tc_id "wc_tasks c" k] wf k by (auto simp: config_wf_def)
  have "set (tc_dependency_task_ids t) \<subseteq> tc_id ` set (wc_tasks c) - {tc_id t}" if "t \<in> set ?rest" for t
    using wf that set_erase_first [of "\<lambda>x. tc_id x = k" "wc_tasks c"] by (auto simp: config_wf_def)
  then have "set (filter (\<lambda>d. d \<noteq> k) (tc_dependency_task_ids t)) \<subseteq> tc_id ` set ?rest - {tc_id t}"
    if "t \<in> set ?rest" for t
    unfolding keys(2) using that by auto
  with keys(1) wf show ?thesis
    by (simp add: config_wf_def remove_completed_task_dependencies_def o_def image_image)
qed

lemma apply_task_override_wf:
  assumes "config_wf c" shows "config_wf (apply_task_override ov c)"
proof (cases "to_task_id ov \<in> tc_id ` set (wc_tasks c)")
  case True
  then have "list_ex (\<lambda>x. tc_id x = to_task_id ov) (wc_tasks c)" by (auto simp: list_ex_iff)
  moreover have "config_wf (c\<lparr>wc_tasks := update_first (\<lambda>x. tc_id x = to_task_id ov) (override_task ov) (wc_tasks c)\<rparr>)"
  proof -
    let ?ts = "update_first (\<lambda>x. tc_id x = to_task_id ov) (override_task ov) (wc_tasks c)"
    have ids: "map tc_id ?ts = map tc_id (wc_tasks c)" by (rule map_update_first) simp
    then have "tc_id ` set ?ts = tc_id ` set (wc_tasks c)" by (metis list.set_map)
    then show ?thesis using assms ids
      by (fastforce simp: config_wf_def dest: set_update_first)
  qed
  ultimately show ?thesis using complete_task_wf [OF assms True] by (simp add: apply_task_override_def)
next
  case False
  then have "\<not> list_ex (\<lambda>x. tc_id x = to_task_id ov) (wc_tasks c)" by (auto simp: list_ex_iff intro: rev_image_eqI)
  then show ?thesis using assms by (simp add: apply_task_override_def)
qed

lemma apply_overrides_wf: "config_wf c \<Longrightarrow> config_wf (apply_overrides req c)"
  unfolding apply_overrides_def
  by (intro fold_invariant_list [where P = config_wf] apply_actor_override_wf apply_task_override_wf)

subsection \<open>Reachable services\<close>

inductive runtime_reachable :: "backend_entry list \<Rightarrow> security_config \<Rightarrow> runtime_service \<Rightarrow> bool"
  for entries sec where
  started: "runtime_reachable entries sec \<lparr>im_security = sec, im_workflows = []\<rparr>"
| submitted: "runtime_reachable entries sec rs \<Longrightarrow> config_wf (to_app_workflow (sw_config req)) \<Longrightarrow>
    runtime_reachable entries sec (snd (stream_submit_workflow entries req rs))"
| reorchestrated: "runtime_reachable entries sec rs \<Longrightarrow>
    runtime_reachable entries sec (snd (stream_reorchestrate entries req rs))"

definition sessions_wf :: "runtime_service \<Rightarrow> bool" where
  "sessions_wf rs \<longleftrightarrow> (\<forall>w c. map_of (im_workflows rs) w = Some c \<longrightarrow> config_wf c)"

lemma stream_submit_sessions:
  assumes "sessions_wf rs" and "config_wf (to_app_workflow (sw_config req))"
  shows "sessions_wf (snd (stream_submit_workflow entries req rs))"
  using assms by (auto simp: sessions_wf_def stream_submit_workflow_def Let_def)

lemma stream_reorchestrate_sessions:
  assumes "sessions_wf rs" shows "sessions_wf (snd (stream_reorchestrate entries req rs))"
  using assms apply_overrides_wf
  by (auto simp: sessions_wf_def stream_reorchestrate_def Let_def split: option.splits if_splits)

lemma reachable_sessions: "runtime_reachable entries sec rs \<Longrightarrow> sessions_wf rs"
proof (induction rule: runtime_reachable.induct)
  case started
  then show ?case by (simp add: sessions_wf_def)
qed (simp_all add: stream_submit_sessions stream_reorchestrate_sessions)

subsection \<open>Plans\<close>

definition optimized_of_pb :: "pb_assignment \<Rightarrow> optimized_assignment" where
  "optimized_of_pb p = \<lparr>oas_task_id = pg_task_id p, oas_actor_id = pg_actor_id p,
     oas_start_time = pg_start_time p, oas_end_time = pg_end_time p\<rparr>"

definition response_plan :: "runtime_api_response \<Rightarrow> optimized_assignment list" where
  "response_plan r = map optimized_of_pb (pr_assignments (ra_result r))"

text \<open>The optimizer of a program that links the repository's back-ends, with solvers that respect their rows.\<close>

definition sound_registry :: "backend_entry list \<Rightarrow> bool" where
  "sound_registry entries \<longleftrightarrow> (\<exists>rnd solver code rt. linked_entries rnd solver code rt entries \<and>
     solver_sound solver \<and> (\<forall>engine. solver_sound (mip_solver rt engine)))"

lemma task_duration_of_model:
  assumes "config_wf c" and "t \<in> set (om_tasks (to_model c))"
  shows "task_duration_for_id c (ot_id t) = ot_duration t"
proof -
  obtain x where x: "x \<in> set (wc_tasks c)" "t = to_optimizer_task x"
    using assms(2) by (auto simp: to_model_def)
  have "find (\<lambda>y. tc_id y = tc_id x) (wc_tasks c) = Some x"
    using find_unique_key assms(1) x(1) by (auto simp: config_wf_def)
  then show ?thesis by (simp add: x(2) to_optimizer_task_def task_duration_for_id_def)
qed

lemma plan_round_trip:
  assumes "config_wf c" and "assignment_feasible (to_model c) x"
  shows "optimized_of_pb (to_pb_assignment c (to_assignment x)) = x"
proof -
  obtain t where "t \<in> set (om_tasks (to_model c))" "ot_id t = oas_task_id x"
    and stop: "oas_end_time x = oas_start_time x + ot_duration t"
    using assms(2) by (auto simp: assignment_feasible_def)
  then have "task_duration_for_id c (oas_task_id x) = ot_duration t" using task_duration_of_model [OF assms(1)] by metis
  with stop show ?thesis
    by (simp add: optimized_of_pb_def to_pb_assignment_def to_assignment_def task_durations_lookup)
qed

lemma run_response_feasible:
  assumes wf: "config_wf c" and "sound_registry entries" and ok: "ra_ok (make_runtime_response (run_optimize entries c) c)"
  shows "feasible_schedule (to_model c) (response_plan (make_runtime_response (run_optimize entries c) c))"
proof -
  let ?sol = "optimize entries \<lparr>wo_options = to_options (wc_optimization c), wo_backend = None\<rparr> (to_model c)"
  have "sol_ok ?sol" using ok by (simp add: make_runtime_response_def run_optimize_def to_run_result_def)
  then have feas: "feasible_schedule (to_model c) (sol_assignments ?sol)"
    using assms(2) model_of_config_wf [OF wf] optimize_linked_feasible
    by (fastforce simp: sound_registry_def)
  then have "map (\<lambda>x. optimized_of_pb (to_pb_assignment c (to_assignment x))) (sol_assignments ?sol) = sol_assignments ?sol"
    using plan_round_trip [OF wf] by (intro map_idI) (simp add: feasible_schedule_def)
  moreover have "mset (response_plan (make_runtime_response (run_optimize entries c) c)) =
      mset (map (\<lambda>x. optimized_of_pb (to_pb_assignment c (to_assignment x))) (sol_assignments ?sol))"
    by (simp add: response_plan_def runtime_response_assignments run_optimize_def to_run_result_def image_mset.compositionality
        comp_def)
  ultimately show ?thesis using feasible_schedule_perm feas by metis
qed

lemma completed_task_gone:
  "ov \<in> set ovs \<Longrightarrow> to_completed ov = Some True \<Longrightarrow> config_wf c \<Longrightarrow>
     to_task_id ov \<notin> tc_id ` set (wc_tasks (fold apply_task_override ovs c))"
proof -
  have keep: "tc_id ` set (wc_tasks (fold apply_task_override os c)) \<subseteq> tc_id ` set (wc_tasks c)" for os c
  proof (induction os arbitrary: c)
    case (Cons a os)
    have "tc_id ` set (wc_tasks (apply_task_override a c)) \<subseteq> tc_id ` set (wc_tasks c)"
      by (auto simp: apply_task_override_def remove_completed_task_dependencies_def
          dest!: set_update_first dest: set_erase_first [THEN subsetD])
    with Cons show ?case by fastforce
  qed simp
  have once: "to_task_id ov \<notin> tc_id ` set (wc_tasks (apply_task_override ov c))"
    if "to_completed ov = Some True" "config_wf c" for c
  proof (cases "to_task_id ov \<in> tc_id ` set (wc_tasks c)")
    case True
    then have "list_ex (\<lambda>x. tc_id x = to_task_id ov) (wc_tasks c)" by (auto simp: list_ex_iff)
    then show ?thesis
      using erase_first_key [of tc_id "wc_tasks c" "to_task_id ov"] True that
      by (simp add: apply_task_override_def remove_completed_task_dependencies_def image_image config_wf_def)
  qed (use that in \<open>auto simp: apply_task_override_def list_ex_iff intro: rev_image_eqI\<close>)
  show "ov \<in> set ovs \<Longrightarrow> to_completed ov = Some True \<Longrightarrow> config_wf c \<Longrightarrow>
     to_task_id ov \<notin> tc_id ` set (wc_tasks (fold apply_task_override ovs c))"
  proof (induction ovs arbitrary: c)
    case (Cons a ovs)
    show ?case
    proof (cases "a = ov")
      case True
      with once [OF Cons.prems(2,3)] keep [of ovs "apply_task_override ov c"] show ?thesis by auto
    next
      case False
      with Cons show ?thesis using apply_task_override_wf by auto
    qed
  qed simp
qed


end
