(* ===== verification/Generator.thy ===== *)
theory Generator
  imports Prelude
begin

text \<open>
  \<^verbatim>\<open>utils/include/utils/generator.hpp\<close>: the coroutine behind every event stream. A coroutine is given by the
  values it yields and by how it ends; its frame holds the promise and what is left of the body. Resuming
  a coroutine that has ended, or none, is undefined behaviour (\<open>None\<close>). The range loop over a generator
  is shown to be a loop over the list of values, which is how the services and transports treat a stream.
\<close>

subsection \<open>Coroutines\<close>

datatype thrown = StdException string | CString "string option" | OtherException

datatype coroutine_end = Returns | Throws thrown

record 'a promise =
  pr_current :: 'a
  pr_failed :: bool
  pr_error_message :: string

definition yield_value :: "'a \<Rightarrow> 'a promise \<Rightarrow> 'a promise" where
  "yield_value v p = p\<lparr>pr_current := v\<rparr>"

fun unhandled_exception :: "thrown \<Rightarrow> 'a promise \<Rightarrow> 'a promise" where
  "unhandled_exception (StdException what) p = p\<lparr>pr_failed := True, pr_error_message := what\<rparr>"
| "unhandled_exception (CString msg) p =
     p\<lparr>pr_failed := True, pr_error_message :=
        (case msg of Some m \<Rightarrow> m | None \<Rightarrow> ''Generator coroutine terminated with a null string exception.'')\<rparr>"
| "unhandled_exception OtherException p =
     p\<lparr>pr_failed := True, pr_error_message := ''Generator coroutine terminated with a non-standard exception.''\<rparr>"

text \<open>\<open>fr_done\<close> is \<^verbatim>\<open>handle.done()\<close>; the coroutine is suspended before its first statement and after its last.\<close>

record 'a frame =
  fr_promise :: "'a promise"
  fr_rest :: "'a list"
  fr_end :: coroutine_end
  fr_done :: bool

definition resume :: "'a frame \<Rightarrow> 'a frame option" where
  "resume f =
     (if fr_done f then None
      else
        case fr_rest f of
          v # vs \<Rightarrow> Some (f\<lparr>fr_promise := yield_value v (fr_promise f), fr_rest := vs\<rparr>)
        | [] \<Rightarrow>
            (case fr_end f of
               Returns \<Rightarrow> Some (f\<lparr>fr_done := True\<rparr>)
             | Throws e \<Rightarrow> Some (f\<lparr>fr_promise := unhandled_exception e (fr_promise f), fr_done := True\<rparr>)))"

subsection \<open>Generators and iterators\<close>

text \<open>A generator owns the handle of its coroutine; one that was moved from has none.\<close>

type_synonym 'a generator = "'a frame option"

definition make_generator :: "'a \<Rightarrow> 'a list \<Rightarrow> coroutine_end \<Rightarrow> 'a generator" where
  "make_generator dflt vs e =
     Some \<lparr>fr_promise = \<lparr>pr_current = dflt, pr_failed = False, pr_error_message = []\<rparr>, fr_rest = vs, fr_end = e, fr_done = False\<rparr>"

definition move_generator :: "'a generator \<Rightarrow> 'a generator \<times> 'a generator" where
  "move_generator g = (g, None)"

definition generator_failed :: "'a generator \<Rightarrow> bool" where
  "generator_failed g = (case g of None \<Rightarrow> False | Some f \<Rightarrow> pr_failed (fr_promise f))"

definition generator_error_message :: "'a generator \<Rightarrow> string" where
  "generator_error_message g = (case g of None \<Rightarrow> [] | Some f \<Rightarrow> pr_error_message (fr_promise f))"

text \<open>The iterator: the frame it refers to and \<^verbatim>\<open>done_\<close>.\<close>

definition advance :: "bool \<times> 'a frame \<Rightarrow> (bool \<times> 'a frame) option" where
  "advance it = (if fst it then Some it else map_option (\<lambda>f. (fr_done f, f)) (resume (snd it)))"

definition begin_generator :: "'a generator \<Rightarrow> (bool \<times> 'a frame) option" where
  "begin_generator g = Option.bind g (\<lambda>f. advance (False, f))"

text \<open>The range loop; the body says whether it goes on or breaks.\<close>

function iterate :: "('a \<Rightarrow> 's \<Rightarrow> bool \<times> 's) \<Rightarrow> bool \<times> 'a frame \<Rightarrow> 's \<Rightarrow> ('s \<times> 'a generator) option" where
  "iterate body (done, f) s =
     (if done then Some (s, Some f)
      else
        let (go_on, s) = body (pr_current (fr_promise f)) s in
        if \<not> go_on then Some (s, Some f)
        else case advance (done, f) of None \<Rightarrow> None | Some it \<Rightarrow> iterate body it s)"
  by pat_completeness auto
termination
  by (relation "measure (\<lambda>(body, (done, f), s). if done then 0 else Suc (length (fr_rest f)))")
    (auto simp: advance_def resume_def split: if_splits list.splits coroutine_end.splits)

declare iterate.simps [simp del]

lemma iterate_simps [simp]:
  "iterate body (True, f) s = Some (s, Some f)"
  "iterate body (False, f) s =
     (let (go_on, s) = body (pr_current (fr_promise f)) s in
      if go_on then Option.bind (advance (False, f)) (\<lambda>it. iterate body it s) else Some (s, Some f))"
  by (subst iterate.simps, simp add: Option.bind_def split: option.split prod.split)+

definition range_loop :: "('a \<Rightarrow> 's \<Rightarrow> bool \<times> 's) \<Rightarrow> 'a generator \<Rightarrow> 's \<Rightarrow> ('s \<times> 'a generator) option" where
  "range_loop body g s = Option.bind (begin_generator g) (\<lambda>it. iterate body it s)"

subsection \<open>A stream is the list of its values\<close>

text \<open>The same loop over a list; the flag says that it reached the end.\<close>

fun list_loop :: "('a \<Rightarrow> 's \<Rightarrow> bool \<times> 's) \<Rightarrow> 'a list \<Rightarrow> 's \<Rightarrow> bool \<times> 's" where
  "list_loop body [] s = (True, s)"
| "list_loop body (v # vs) s = (let (go_on, s) = body v s in if go_on then list_loop body vs s else (False, s))"

definition fresh :: "'a frame \<Rightarrow> bool" where
  "fresh f \<longleftrightarrow> \<not> fr_done f \<and> \<not> pr_failed (fr_promise f) \<and> pr_error_message (fr_promise f) = []"

text \<open>What a generator tells of an exception.\<close>

fun error_of :: "coroutine_end \<Rightarrow> string" where
  "error_of Returns = []"
| "error_of (Throws (StdException what)) = what"
| "error_of (Throws (CString (Some msg))) = msg"
| "error_of (Throws (CString None)) = ''Generator coroutine terminated with a null string exception.''"
| "error_of (Throws OtherException) = ''Generator coroutine terminated with a non-standard exception.''"

lemma unhandled_exception_promise [simp]:
  "pr_failed (unhandled_exception t p)"
  "pr_error_message (unhandled_exception t p) = error_of (Throws t)"
  by (cases t; simp split: option.split)+

lemma advance_fresh:
  "fresh f \<Longrightarrow> advance (False, f) =
     (case fr_rest f of
        v # vs \<Rightarrow> Some (False, f\<lparr>fr_promise := yield_value v (fr_promise f), fr_rest := vs\<rparr>)
      | [] \<Rightarrow> (case fr_end f of
           Returns \<Rightarrow> Some (True, f\<lparr>fr_done := True\<rparr>)
         | Throws e \<Rightarrow> Some (True, f\<lparr>fr_promise := unhandled_exception e (fr_promise f), fr_done := True\<rparr>)))"
  by (auto simp: advance_def resume_def fresh_def split: list.split coroutine_end.split)

lemma loop_from_fresh:
  assumes "fresh f"
  shows "\<exists>g. Option.bind (advance (False, f)) (\<lambda>it. iterate body it s) = Some (snd (list_loop body (fr_rest f) s), g) \<and>
    generator_failed g = (fst (list_loop body (fr_rest f) s) \<and> fr_end f \<noteq> Returns) \<and>
    generator_error_message g = (if fst (list_loop body (fr_rest f) s) then error_of (fr_end f) else [])"
  using assms
proof (induction "fr_rest f" arbitrary: f s)
  case Nil
  then show ?case
    by (cases "fr_end f")
      (auto simp: advance_fresh generator_failed_def generator_error_message_def fresh_def simp flip: Nil.hyps)
next
  case (Cons v vs)
  let ?f = "f\<lparr>fr_promise := yield_value v (fr_promise f), fr_rest := vs\<rparr>"
  have fresh: "fresh ?f" using Cons.prems by (simp add: fresh_def yield_value_def)
  have adv: "advance (False, f) = Some (False, ?f)" using Cons.hyps(2)[symmetric] Cons.prems by (simp add: advance_fresh)
  obtain go_on s1 where body: "body v s = (go_on, s1)" by fastforce
  have "pr_current (fr_promise ?f) = v" by (simp add: yield_value_def)
  with adv body Cons.hyps(1)[OF _ fresh, of s1] Cons.hyps(2)[symmetric] fresh show ?case
    by (cases go_on) (auto simp: generator_failed_def generator_error_message_def fresh_def)
qed

text \<open>
  A range loop over a stream runs its body on the values the coroutine yields, in order, until it breaks or
  they end; it is always defined. If the loop reached the end, the generator reports failure exactly
  when the coroutine threw, with the text of the exception; a loop that broke off sees no failure.
\<close>

theorem range_loop_is_list_loop:
  "\<exists>g. range_loop body (make_generator dflt vs e) s = Some (snd (list_loop body vs s), g) \<and>
     generator_failed g = (fst (list_loop body vs s) \<and> e \<noteq> Returns) \<and>
     generator_error_message g = (if fst (list_loop body vs s) then error_of e else [])"
proof -
  obtain f where "make_generator dflt vs e = Some f" "fresh f" "fr_rest f = vs" "fr_end f = e"
    by (simp add: make_generator_def fresh_def)
  then show ?thesis using loop_from_fresh[of f body s] by (auto simp: range_loop_def begin_generator_def)
qed

text \<open>A second loop over a generator that was exhausted, or one over a moved-from generator, is undefined.\<close>

lemma iterate_ends:
  "iterate (\<lambda>v s. (True, b v s)) it s = Some (s', Some f) \<Longrightarrow> (fst it \<Longrightarrow> fr_done (snd it)) \<Longrightarrow> fr_done f"
proof (induction "\<lambda>v s. (True, b v s)" it s rule: iterate.induct)
  case (1 "done" f' s)
  show ?case
  proof (cases "done")
    case False
    with 1(2) obtain it where it: "advance (False, f') = Some it"
      "iterate (\<lambda>v s. (True, b v s)) it (b (pr_current (fr_promise f')) s) = Some (s', Some f)"
      by (auto simp: bind_eq_Some_conv)
    moreover have "fst it \<Longrightarrow> fr_done (snd it)" using it(1) by (auto simp: advance_def)
    ultimately show ?thesis using 1(1)[OF False refl refl _ _] False by auto
  qed (use 1 in auto)
qed

theorem loop_twice_undefined:
  assumes "range_loop (\<lambda>v s. (True, b v s)) (make_generator dflt vs e) s = Some (s', Some f)"
  shows "range_loop body (Some f) s' = None"
proof -
  obtain it where it: "begin_generator (make_generator dflt vs e) = Some it" "iterate (\<lambda>v s. (True, b v s)) it s = Some (s', Some f)"
    using assms by (auto simp: range_loop_def bind_eq_Some_conv)
  have "fst it \<Longrightarrow> fr_done (snd it)" using it(1) by (auto simp: begin_generator_def advance_def bind_eq_Some_conv)
  with it(2) have "fr_done f" by (rule iterate_ends)
  then show ?thesis by (simp add: range_loop_def begin_generator_def advance_def resume_def)
qed

end
