(* ===== verification/Application_Correct.thy ===== *)
theory Application_Correct
  imports Application Config_Loader_Correct Runtime_Service_Correct Generator
begin

text \<open>
  What the launcher guarantees: a workflow reaches the service unchanged and authorized, serving a workflow
  gives the plan of running it, a successful run is a feasible plan, and no server survives the launcher.
\<close>

subsection \<open>Streams\<close>

text \<open>
  The loops of \<^verbatim>\<open>consume_final_response\<close> and \<^verbatim>\<open>log_event_stream\<close> over the generator of a service give the response
  that the models of these functions read off the list of events.
\<close>

definition keep_response :: "workflow_event \<Rightarrow> runtime_api_response \<Rightarrow> bool \<times> runtime_api_response" where
  "keep_response e r = (True, case we_response e of None \<Rightarrow> r | Some resp \<Rightarrow> resp)"

lemma list_loop_keep_response: "list_loop keep_response es r = (True, final_response r es)"
  by (induction es arbitrary: r) (simp_all add: keep_response_def final_response_def or_default_def)

lemma generator_final_response:
  "\<exists>g. range_loop keep_response (make_generator dflt es e) empty_response = Some (log_event_stream es, g) \<and>
     range_loop keep_response (make_generator dflt es e) empty_response = Some (cp_consume_final_response es, g) \<and>
     generator_failed g = (e \<noteq> Returns)"
  using range_loop_is_list_loop[of keep_response dflt es e empty_response]
  by (auto simp: list_loop_keep_response log_event_stream_def cp_consume_final_response_def)

subsection \<open>Submitting\<close>

text \<open>Values a configuration can hold: a 32-bit priority, a map of distances, at least one search worker.\<close>

definition submittable :: "workflow_config \<Rightarrow> bool" where
  "submittable c \<longleftrightarrow> 1 \<le> oc_num_search_workers (wc_optimization c) \<and>
     list_all (\<lambda>t. int32 (tc_priority t) \<and> distinct (map fst (tc_actor_distances t))) (wc_tasks c)"

lemma narrow_int32_id: "int32 i \<Longrightarrow> narrow_int32 i = i"
  by (simp add: narrow_int32_def int32_def signed_take_bit_int_eq_self)

lemma windows_survive: "map (to_app_window \<circ> to_proto_window) ws = ws"
  by (intro map_idI) (simp add: to_app_window_def to_proto_window_def)

lemma actor_survives: "to_app_actor (to_proto_actor a) = a"
  by (simp add: to_app_actor_def to_proto_actor_def or_default_def windows_survive)

lemma task_survives:
  "int32 (tc_priority t) \<Longrightarrow> distinct (map fst (tc_actor_distances t)) \<Longrightarrow> to_app_task (to_proto_task t) = t"
  using emplace_all_distinct [of "[]" "tc_actor_distances t"]
  by (simp add: to_app_task_def to_proto_task_def or_default_def narrow_int32_id)

lemma workflow_survives:
  assumes "submittable c"
  shows "to_app_workflow (to_proto_workflow c) = c"
proof -
  have "map (to_app_task \<circ> to_proto_task) (wc_tasks c) = wc_tasks c"
    using assms by (intro map_idI) (auto simp: submittable_def list_all_iff task_survives)
  moreover have "map (to_app_actor \<circ> to_proto_actor) (wc_actors c) = wc_actors c"
    by (intro map_idI) (simp add: actor_survives)
  ultimately show ?thesis
    using assms
    by (simp add: to_app_workflow_def to_proto_workflow_def to_app_optimization_def to_app_objective_def or_default_def
        submittable_def Let_def max_def)
qed

lemma local_auth_authorized: "authorize sec (make_local_auth_context sec) = ok_response"
  by (simp add: authorize_def make_local_auth_context_def)

lemma local_stream:
  assumes "submittable c"
  shows "\<exists>es. stream_submit_workflow entries (make_submit_request c sec) \<lparr>im_security = sec, im_workflows = ws\<rparr> =
      (es, \<lparr>im_security = sec, im_workflows = AList.update (wc_id c) c ws\<rparr>) \<and>
    (\<forall>d. final_response d es = make_runtime_response (run_optimize entries c) c)"
proof -
  have "ra_ok ok_response" by (simp add: ok_response_def empty_response_def)
  moreover have "pw_id (to_proto_workflow c) = wc_id c" by (simp add: to_proto_workflow_def Let_def)
  ultimately show ?thesis
    using workflow_survives [OF assms]
    by (simp add: stream_submit_workflow_def make_submit_request_def local_auth_authorized or_default_def
        final_response_append final_response_none Let_def)
      (simp add: final_response_def make_response_event_def make_event_def planned_event_def)
qed


subsection \<open>Running once\<close>

text \<open>
  A successful run is a feasible plan: if the launcher exits with success on a workflow document, the
  document was loaded into a well-formed workflow with content, no task was left out, and, provided
  identifiers are distinct and dependencies name other tasks, the planned assignments are a feasible schedule
  of that workflow.
\<close>

theorem one_shot_success_is_feasible:
  assumes "run_one_shot_request env r base = Inr 0" and "rf_kind r = WorkflowYaml" and "sound_registry (ax_entries env)"
    and "c = load_config_from_file (ax_yaml env) (resolve_configured_path base (rf_path r))"
  shows "loaded_ok c \<and> workflow_has_content c \<and> rr_unfulfilled_task_ids (run_optimize (ax_entries env) c) = [] \<and>
    (config_wf c \<longrightarrow> feasible_schedule (to_model c) (response_plan (make_runtime_response (run_optimize (ax_entries env) c) c)))"
proof -
  from assms have content: "workflow_has_content c" and code: "exit_code_of_run (run_optimize (ax_entries env) c) = 0"
    by (auto simp: run_one_shot_request_def load_request_workflow_def bind_result_def Let_def split: if_splits)
  from code have ok: "rr_ok (run_optimize (ax_entries env) c)" "\<not> rr_capacity_issue (run_optimize (ax_entries env) c)"
    by (auto simp: exit_code_of_run_def split: if_splits)
  have "c = default_workflow_config \<or> loaded_ok c"
    by (rule loaded_result_ok) (simp add: assms(4) load_config_from_file_def)
  with content have "loaded_ok c" by (auto simp: workflow_has_content_def default_workflow_config_def)
  moreover have "rr_unfulfilled_task_ids (run_optimize (ax_entries env) c) = []"
    using ok(2) by (simp add: run_optimize_def to_run_result_def)
  ultimately show ?thesis
    using content ok(1) run_response_feasible [OF _ assms(3)] by (auto simp: make_runtime_response_def)
qed

subsection \<open>Serving\<close>

lemma stopped_servers [simp]: "\<not> hv_running (http_server_stop h)" "\<not> gv_running (grpc_server_stop g)"
  by (simp_all add: http_server_stop_def grpc_server_stop_def)

lemma cli_loop_code: "run_cli_loop env base sec inputs st = Inr (code, st') \<Longrightarrow> code = 0"
  by (induction env base sec inputs st rule: run_cli_loop.induct)
    (auto simp: bind_result_Inr Let_def split: cli_input.splits if_splits)

definition everything_stopped :: "service_outcome \<Rightarrow> bool" where
  "everything_stopped out \<longleftrightarrow>
     (\<forall>h. so_http out = Some h \<longrightarrow> \<not> hv_running h) \<and> (\<forall>g. so_grpc out = Some g \<longrightarrow> \<not> gv_running g)"

definition feed_stopped :: "service_stack option \<Rightarrow> bool" where
  "feed_stopped st \<longleftrightarrow>
     (\<forall>os fd. st = Some (Console os) \<and> cp_feed (os_plane os) = Some fd \<longrightarrow> fd_shutting_down fd)"

lemma shutdown_stack_feed: "feed_stopped (Some (shutdown_stack st))"
  by (auto simp: feed_stopped_def shutdown_stack_def shutdown_def split: service_stack.splits)

lemma serve_code: "serve env l base inputs st = Inr (code, st') \<Longrightarrow> code = 0"
  by (auto simp: serve_def split: if_splits dest: cli_loop_code)

definition servers_started :: "'n app_env \<Rightarrow> launch_config \<Rightarrow> bool" where
  "servers_started env l \<longleftrightarrow> (hi_enabled (lc_http l) \<longrightarrow> hv_running (the (start_http env l))) \<and>
     (gi_enabled (lc_grpc l) \<longrightarrow> gv_running (the (start_grpc env l)))"

lemma run_servers_stop:
  assumes "run_servers env l base inputs st = Inr out"
  shows "everything_stopped out \<and> (so_exit out = (if servers_started env l then 0 else 1)) \<and>
    (servers_started env l \<longrightarrow> feed_stopped (so_stack out))"
  using assms shutdown_stack_feed
  by (auto simp: run_servers_def everything_stopped_def servers_started_def Let_def bind_result_Inr start_http_def start_grpc_def
      split: if_splits dest!: serve_code)

text \<open>
  No server outlives the launcher, and the exit code tells how it ended: in every run of the service mode that is
  not ended by an exception, whichever server fails to start, the servers are stopped at the end; the
  exit code is success or failure, and success only if every enabled server had started, in which case
  the update feed has been shut down too.
\<close>

theorem service_mode_stops_everything:
  assumes "run_service_mode env l base inputs = Inr out"
  shows "everything_stopped out \<and> so_exit out \<in> {0, 1} \<and>
    (so_exit out = 0 \<longrightarrow> has_enabled_interface l \<and> servers_started env l \<and> feed_stopped (so_stack out))"
proof (cases "has_enabled_interface l")
  case False
  with assms show ?thesis by (auto simp: run_service_mode_def everything_stopped_def)
next
  case True
  with assms show ?thesis
    by (auto simp: run_service_mode_def bind_result_Inr everything_stopped_def Let_def split: option.splits if_splits
        dest!: run_servers_stop)
qed

end
