(* ===== verification/Http_Calls.thy ===== *)
theory Http_Calls
  imports Http_Transport_Correct
begin

text \<open>
  Calls through the HTTP transport: credentials travel in the headers, the server decides whether the
  transport is secure, rejected requests change nothing, and a client's call is the service's.
\<close>

subsection \<open>Credentials\<close>

text \<open>The credentials that arrive at the service: those of the request, or else the client's own.\<close>

definition carried_auth :: "client_options \<Rightarrow> bool \<Rightarrow> client_auth_context \<Rightarrow> client_auth_context" where
  "carried_auth options secure auth =
     auth\<lparr>au_bearer_token := (if au_bearer_token auth = [] then co_bearer_token options else au_bearer_token auth),
          au_api_key := (if au_api_key auth = [] then co_api_key options else au_api_key auth),
          au_secure_transport := secure\<rparr>"

lemma client_headers:
  "header_value kAuthorizationHeader (make_http_client_request options target body ct) =
     (if co_bearer_token options = [] then [] else kBearerPrefix @ co_bearer_token options)"
  "header_value kApiKeyHeader (make_http_client_request options target body ct) = co_api_key options"
  by (simp_all add: header_value_def make_http_client_request_def or_default_def tolower_def kAuthorizationHeader_def kApiKeyHeader_def)

lemma client_auth_carried:
  "apply_transport_auth (make_http_client_request options target body ct) secure auth = carried_auth options secure auth"
  by (simp add: apply_transport_auth_def client_headers carried_auth_def Let_def)

subsection \<open>The transport's security flag\<close>

definition with_flag :: "bool \<Rightarrow> client_auth_context \<Rightarrow> client_auth_context" where
  "with_flag secure auth = auth\<lparr>au_secure_transport := secure\<rparr>"

text \<open>The services with the flag of every request overwritten.\<close>

definition flagged_runtime :: "bool \<Rightarrow> ('e, 's) runtime_endpoint \<Rightarrow> ('e, 's) runtime_endpoint" where
  "flagged_runtime secure svc =
     \<lparr>re_submit_workflow = (\<lambda>q. re_submit_workflow svc (q\<lparr>sw_auth := with_flag secure (sw_auth q)\<rparr>)),
      re_reorchestrate = (\<lambda>q. re_reorchestrate svc (q\<lparr>rq_auth := with_flag secure (rq_auth q)\<rparr>))\<rparr>"

definition flagged_operator :: "bool \<Rightarrow> ('e, 's) operator_endpoint \<Rightarrow> ('e, 's) operator_endpoint" where
  "flagged_operator secure svc =
     \<lparr>oe_get_dashboard = (\<lambda>q. oe_get_dashboard svc (q\<lparr>dq_auth := with_flag secure (dq_auth q)\<rparr>)),
      oe_dashboard_update = (\<lambda>q. oe_dashboard_update svc (q\<lparr>dq_auth := with_flag secure (dq_auth q)\<rparr>)),
      oe_upsert_workflow = (\<lambda>q. oe_upsert_workflow svc (q\<lparr>uw_auth := with_flag secure (uw_auth q)\<rparr>)),
      oe_upsert_task = (\<lambda>q. oe_upsert_task svc (q\<lparr>ut_auth := with_flag secure (ut_auth q)\<rparr>)),
      oe_delete_task = (\<lambda>q. oe_delete_task svc (q\<lparr>dt_auth := with_flag secure (dt_auth q)\<rparr>)),
      oe_pause_workflow = (\<lambda>q. oe_pause_workflow svc (q\<lparr>oa_auth := with_flag secure (oa_auth q)\<rparr>)),
      oe_resume_workflow = (\<lambda>q. oe_resume_workflow svc (q\<lparr>oa_auth := with_flag secure (oa_auth q)\<rparr>)),
      oe_cancel_workflow = (\<lambda>q. oe_cancel_workflow svc (q\<lparr>oa_auth := with_flag secure (oa_auth q)\<rparr>)),
      oe_apply_manual_intervention = (\<lambda>q. oe_apply_manual_intervention svc (q\<lparr>mi_auth := with_flag secure (mi_auth q)\<rparr>))\<rparr>"

lemma transport_auth_flagged [simp]: "with_flag secure (apply_transport_auth r secure auth) = apply_transport_auth r secure auth"
  by (simp add: with_flag_def apply_transport_auth_def Let_def)

lemma dashboard_request_flagged [simp]:
  "(make_operator_dashboard_request query r secure)\<lparr>dq_auth := with_flag secure (dq_auth (make_operator_dashboard_request query r secure))\<rparr> =
     make_operator_dashboard_request query r secure"
  by (simp add: make_operator_dashboard_request_def)

lemmas operator_handlers = handle_upsert_workflow_def handle_upsert_task_def handle_delete_task_def handle_action_def
  handle_intervention_def

lemma task_routes_flagged:
  "handle_upsert_task mc (flagged_operator secure svc) secure r wid s = handle_upsert_task mc svc secure r wid s"
  "handle_delete_task mc (flagged_operator secure svc) secure r route s = handle_delete_task mc svc secure r route s"
  "handle_intervention mc (flagged_operator secure svc) secure r wid s = handle_intervention mc svc secure r wid s"
  by (simp_all add: operator_handlers flagged_operator_def split: option.split)

lemma action_routes_flagged:
  "handle_action mc (oe_pause_workflow (flagged_operator secure svc)) secure r wid s =
     handle_action mc (oe_pause_workflow svc) secure r wid s"
  "handle_action mc (oe_resume_workflow (flagged_operator secure svc)) secure r wid s =
     handle_action mc (oe_resume_workflow svc) secure r wid s"
  "handle_action mc (oe_cancel_workflow (flagged_operator secure svc)) secure r wid s =
     handle_action mc (oe_cancel_workflow svc) secure r wid s"
  by (simp_all add: handle_action_def flagged_operator_def split: option.split)

lemma operator_post_flagged:
  "handle_operator_post mc (flagged_operator secure svc) secure r path s = handle_operator_post mc svc secure r path s"
  by (simp only: handle_operator_post_def task_routes_flagged action_routes_flagged)

lemma operator_request_flagged:
  "handle_operator_http_request mc (map_option (flagged_operator secure) op) secure r path query s =
     handle_operator_http_request mc op secure r path query s"
proof (cases op)
  case (Some svc)
  have "oe_get_dashboard (flagged_operator secure svc) (make_operator_dashboard_request query r secure) s =
      oe_get_dashboard svc (make_operator_dashboard_request query r secure) s"
    by (simp add: flagged_operator_def)
  moreover have "handle_upsert_workflow mc (flagged_operator secure svc) secure r s = handle_upsert_workflow mc svc secure r s"
    by (simp add: handle_upsert_workflow_def flagged_operator_def split: option.split)
  ultimately show ?thesis by (simp add: Some handle_operator_http_request_def operator_post_flagged)
qed (simp add: handle_operator_http_request_def)

lemma request_flagged:
  "handle_http_request mc (flagged_runtime secure svc) (map_option (flagged_operator secure) op) secure r s =
     handle_http_request mc svc op secure r s"
  by (simp add: handle_http_request_def operator_request_flagged flagged_runtime_def split: option.split prod.split)

lemma rounds_flagged:
  assumes "q\<lparr>dq_auth := with_flag secure (dq_auth q)\<rparr> = q"
  shows "dashboard_rounds (flagged_operator secure svc) ev q rounds last_id s = dashboard_rounds svc ev q rounds last_id s"
  by (induction rounds arbitrary: last_id s) (simp_all add: flagged_operator_def assms split: prod.split option.split)

lemma stream_flagged:
  "process_operator_dashboard_stream mc (map_option (flagged_operator secure) op) ev secure headers_ok first_ok rounds r s =
     process_operator_dashboard_stream mc op ev secure headers_ok first_ok rounds r s"
proof (cases op)
  case (Some svc)
  let ?q = "make_operator_dashboard_request (snd (split_target (hr_target r))) r secure"
  have "oe_get_dashboard (flagged_operator secure svc) ?q s = oe_get_dashboard svc ?q s"
    by (simp add: flagged_operator_def)
  then show ?thesis
    by (cases first_ok) (simp_all add: Some process_operator_dashboard_stream_def rounds_flagged [OF dashboard_request_flagged] Let_def split: option.split)
qed (simp add: process_operator_dashboard_stream_def)

text \<open>
  C36. Clients cannot claim a secure transport: in every session the services behave as if the flag of
  each request were overwritten with whether the server uses TLS, whatever the request's body or headers
  say.
\<close>

theorem secure_flag_is_the_servers:
  "process_http_session mc (flagged_runtime (he_use_tls options) service)
     (map_option (flagged_operator (he_use_tls options)) op) ev options headers_ok first_ok rounds received s =
   process_http_session mc service op ev options headers_ok first_ok rounds received s"
  by (simp add: process_http_session_def request_flagged stream_flagged split: sum.split)

subsection \<open>Rejected requests\<close>

lemma mutation_answer_status: "hs_status (mutation_answer mc status r m) \<in> {status, 500}"
  by (simp add: mutation_answer_def make_http_message_response_def split: option.split)

lemma dashboard_answer_status: "hs_status (dashboard_answer mc status r d) \<in> {status, 500}"
  by (simp add: dashboard_answer_def make_http_message_response_def split: option.split)

lemma answered_mutation:
  "answer_mutation mc r res = Inr (resp, s') \<Longrightarrow> hs_status resp \<in> {200, 500}"
  using mutation_answer_status [of mc 200 r]
  by (auto simp: answer_mutation_def bind_result_def split: sum.splits)

lemma rejected_unchanged_post:
  assumes "handle_operator_post mc svc secure r path s = Some (Inr (resp, s'))" and "hs_status resp \<notin> {200, 500}"
  shows "s' = s"
  using assms
  by (auto simp: handle_operator_post_def operator_handlers split: option.splits if_splits dest: answered_mutation)

lemma rejected_unchanged_operator:
  assumes "handle_operator_http_request mc op secure r path query s = Inr (resp, s')" and "hs_status resp \<notin> {200, 500}"
  shows "s' = s"
proof (cases op)
  case None
  with assms show ?thesis by (simp add: handle_operator_http_request_def)
next
  case (Some svc)
  show ?thesis
  proof (cases "hr_method r = Get \<and> path = kHttpOperatorDashboardPath")
    case True
    with Some assms show ?thesis
      using dashboard_answer_status [of mc 200 r]
      by (auto simp: handle_operator_http_request_def bind_result_def split: sum.splits)
  next
    case False
    note not_get = this
    show ?thesis
    proof (cases "hr_method r = Post \<and> path = kHttpOperatorWorkflowsPath")
      case True
      with Some assms not_get show ?thesis
        by (auto simp: handle_operator_http_request_def handle_upsert_workflow_def split: option.splits dest: answered_mutation)
    next
      case False
      with Some assms not_get show ?thesis
        by (auto simp: handle_operator_http_request_def split: option.splits if_splits dest: rejected_unchanged_post)
    qed
  qed
qed

lemma success_status: "hs_status (make_http_success_response mc resp v k) \<in> {200, 500}"
  by (simp add: make_http_success_response_def make_http_message_response_def split: option.split)

text \<open>
  C37. A request that is not answered with success or a failure to encode the answer is rejected
  without effect: whatever the route, a wrong method, an unknown path, a body that cannot be parsed or
  an identifier that contradicts the path leaves the services' state as it was.
\<close>

theorem rejected_requests_change_nothing:
  assumes "handle_http_request mc service op secure r s = Inr (resp, s')" and "hs_status resp \<notin> {200, 500}"
  shows "s' = s"
proof (cases "starts_with (fst (split_target (hr_target r))) ''/v1/operator''")
  case True
  with assms show ?thesis
    by (auto simp: handle_http_request_def split: prod.splits dest: rejected_unchanged_operator)
next
  case False
  with assms show ?thesis
    using success_status
    by (fastforce simp: handle_http_request_def bind_result_def
        split: prod.splits if_splits option.splits sum.splits)
qed

subsection \<open>Remote calls\<close>

text \<open>
  A network that connects a client with a server of this development: it delivers the messages that
  the HTTP library accepts (\<open>accepts\<close>) and speaks TLS with a TLS server only. A server that fails
  closes the connection.
\<close>

record 's loopback_state =
  lb_service :: 's
  lb_tls :: bool
  lb_response :: "http_response option"

definition loopback ::
  "(http_request \<Rightarrow> bool) \<Rightarrow> message_codec \<Rightarrow> ('e, 's) runtime_endpoint \<Rightarrow> ('e, 's) operator_endpoint option \<Rightarrow> http_server
     \<Rightarrow> 's loopback_state http_network" where
  "loopback accepts mc service op server =
     \<lparr>nw_resolve = (\<lambda>host port c. (None, c)),
      nw_connect = (\<lambda>c. (None, c)),
      nw_set_server_name = (\<lambda>peer c. (True, c)),
      nw_handshake = (\<lambda>context peer c. (None, c\<lparr>lb_tls := True\<rparr>)),
      nw_write = (\<lambda>r c.
        if \<not> accepts r \<or> lb_tls c \<noteq> he_use_tls (hv_options server) then (Some ''protocol error'', c)
        else (None,
          case handle_connection mc service op (None :: (unit, 's) event_endpoint option) server True True True [] (Inr r)
                 (lb_service c) of
            Inr (Answer resp, s) \<Rightarrow> c\<lparr>lb_service := s, lb_response := Some resp\<rparr>
          | Inr (_, s) \<Rightarrow> c\<lparr>lb_service := s\<rparr>
          | Inl _ \<Rightarrow> c)),
      nw_read = (\<lambda>c. (case lb_response c of None \<Rightarrow> Inl ''end of stream'' | Some resp \<Rightarrow> Inr resp, c)),
      nw_tls_shutdown = (\<lambda>c. (None, c))\<rparr>"

definition connected :: "'s \<Rightarrow> 's loopback_state" where
  "connected s = \<lparr>lb_service = s, lb_tls = False, lb_response = None\<rparr>"

lemma handle_connection_answer:
  assumes "hv_running server" and "hr_method r = Post"
    and "int (length (hr_body r)) \<le> he_max_body_bytes (hv_options server)"
    and "handle_http_request mc service op (he_use_tls (hv_options server)) r s = Inr (resp, s')"
  shows "handle_connection mc service op ev server True h f rounds (Inr r) s = Inr (Answer resp, s')"
  using assms
  by (simp add: handle_connection_def process_http_session_def is_operator_dashboard_stream_request_def bind_result_def)

lemma loopback_exchange:
  fixes s :: 's
  assumes "hv_running server" and "hx_startup_error client = []"
    and "he_use_tls (hv_options server) = co_use_tls (hx_options client)"
    and "r = make_http_client_request (hx_options client) target body kBinaryProtoContentType" and "accepts r"
    and "int (length body) \<le> he_max_body_bytes (hv_options server)"
    and "handle_http_request mc service op (he_use_tls (hv_options server)) r s = Inr (resp, s')"
  shows "http_invoke mc (loopback accepts mc service op server) client target (Some body) (connected s) =
    (parse_http_runtime_response mc resp,
     \<lparr>lb_service = s', lb_tls = he_use_tls (hv_options server), lb_response = Some resp\<rparr>)"
proof -
  have "handle_connection mc service op (None :: (unit, 's) event_endpoint option) server True True True [] (Inr r) s =
      Inr (Answer resp, s')"
    by (rule handle_connection_answer) (use assms in \<open>simp_all add: make_http_client_request_def\<close>)
  then show ?thesis
    using assms(2-5)
    by (simp add: http_invoke_def invoke_tls_def invoke_plain_def network_step_def configure_tls_server_name_def
        loopback_def connected_def Let_def)
qed

lemma success_parsed:
  assumes "mc_serialize_response mc resp = Some b" and "mc_parse_response mc b = Some resp"
  shows "parse_http_runtime_response mc (make_http_success_response mc resp v k) = resp"
  using assms
  by (simp add: parse_http_runtime_response_def make_http_success_response_def make_http_message_response_def)

lemma submit_route:
  assumes "r = make_http_client_request options kHttpSubmitWorkflowPath body ct" and "mc_parse_submit mc body = Some q"
    and "re_submit_workflow service (q\<lparr>sw_auth := carried_auth options secure (sw_auth q)\<rparr>) s = Inr (resp, s')"
  shows "handle_http_request mc service op secure r s = Inr (make_http_success_response mc resp 11 True, s')"
proof -
  have "split_target kHttpSubmitWorkflowPath = (kHttpSubmitWorkflowPath, [])" by code_simp
  moreover have "\<not> starts_with kHttpSubmitWorkflowPath ''/v1/operator''" by code_simp
  moreover have "hr_method r = Post" "hr_target r = kHttpSubmitWorkflowPath" "hr_body r = body" "hr_version r = 11"
    "hr_keep_alive r"
    using assms(1) by (simp_all add: make_http_client_request_def)
  ultimately show ?thesis
    using assms(2,3) by (simp add: handle_http_request_def bind_result_def assms(1) client_auth_carried)
qed

definition reorchestrate_path :: "string \<Rightarrow> string" where
  "reorchestrate_path wid = kHttpWorkflowsPathPrefix @ wid @ kHttpReorchestratePathSuffix"

lemma reorchestrate_path_plain: "CHR ''?'' \<notin> set wid \<Longrightarrow> split_target (reorchestrate_path wid) = (reorchestrate_path wid, [])"
  by (simp add: split_target_def reorchestrate_path_def kHttpWorkflowsPathPrefix_def kHttpReorchestratePathSuffix_def cut_at_def)

lemma reorchestrate_path_routed:
  "\<not> starts_with (reorchestrate_path wid) ''/v1/operator''" "reorchestrate_path wid \<noteq> kHttpSubmitWorkflowPath"
  by (simp_all add: starts_with_def reorchestrate_path_def kHttpWorkflowsPathPrefix_def kHttpSubmitWorkflowPath_def)

lemma reorchestrate_route:
  assumes "r = make_http_client_request options (reorchestrate_path (rq_workflow_id q)) body ct"
    and "CHR ''?'' \<notin> set (rq_workflow_id q)" and "rq_workflow_id q \<noteq> []"
    and "length (rq_workflow_id q @ kHttpReorchestratePathSuffix) < 2 ^ 64" and "mc_parse_reorchestrate mc body = Some q"
    and "re_reorchestrate service (q\<lparr>rq_auth := carried_auth options secure (rq_auth q)\<rparr>) s = Inr (resp, s')"
  shows "handle_http_request mc service op secure r s = Inr (make_http_success_response mc resp 11 True, s')"
proof -
  have "hr_method r = Post" "hr_target r = reorchestrate_path (rq_workflow_id q)" "hr_body r = body" "hr_version r = 11"
    "hr_keep_alive r"
    using assms(1) by (simp_all add: make_http_client_request_def)
  moreover have "extract_workflow_id_from_target (reorchestrate_path (rq_workflow_id q)) = Some (rq_workflow_id q)"
    using extract_workflow_id_exact [OF assms(4)] assms(3) by (simp add: reorchestrate_path_def)
  moreover have "q\<lparr>rq_workflow_id := rq_workflow_id q\<rparr> = q" by simp
  ultimately show ?thesis
    using assms(5,6) reorchestrate_path_plain [OF assms(2)]
    by (simp add: handle_http_request_def bind_result_def mismatch_def assms(1) client_auth_carried reorchestrate_path_routed)
qed


end
