(* ===== verification/Http_Console.thy ===== *)
theory Http_Console
  imports Http_Calls
begin

text \<open>
  The transport in front of the control plane and the operator console, and what holds of the composed
  system: live dashboards are numbered increasingly, and an endpoint configured for TLS never runs without it.
\<close>

subsection \<open>The services behind the transport\<close>

definition control_plane_endpoint :: "'rt control_env \<Rightarrow> (store_error, 'rt operator_service) runtime_endpoint" where
  "control_plane_endpoint env =
     \<lparr>re_submit_workflow = (\<lambda>q os. bind_result (cp_submit_workflow env q (os_plane os)) (\<lambda>(r, s). Inr (r, os\<lparr>os_plane := s\<rparr>))),
      re_reorchestrate = (\<lambda>q os. bind_result (cp_reorchestrate env q (os_plane os)) (\<lambda>(r, s). Inr (r, os\<lparr>os_plane := s\<rparr>)))\<rparr>"

definition console_endpoint :: "'rt control_env \<Rightarrow> (store_error, 'rt operator_service) operator_endpoint" where
  "console_endpoint env =
     \<lparr>oe_get_dashboard = (\<lambda>q os. Inr (get_dashboard env q os)),
      oe_dashboard_update = (\<lambda>q n os. Inr (get_dashboard_update env q n os)),
      oe_upsert_workflow = op_upsert_workflow env, oe_upsert_task = op_upsert_task env,
      oe_delete_task = op_delete_task env, oe_pause_workflow = op_pause_workflow env,
      oe_resume_workflow = op_resume_workflow env, oe_cancel_workflow = op_cancel_workflow env,
      oe_apply_manual_intervention = op_apply_manual_intervention env\<rparr>"

definition console_events :: "(feed_action list list, 'rt operator_service) event_endpoint" where
  "console_events = \<lparr>ee_latest_dashboard_event_id = latest_dashboard_event_id,
     ee_wait_for_dashboard_update = wait_for_dashboard_update\<rparr>"

subsection \<open>Live dashboards\<close>

primrec event_number :: "sse_event \<Rightarrow> 64 word option" where
  "event_number (SseDashboard i d) = Some i"
| "event_number (SseUpdate i d) = Some i"
| "event_number SseKeepalive = None"

definition event_numbers :: "sse_event list \<Rightarrow> 64 word list" where
  "event_numbers es = List.map_filter event_number es"

lemma event_numbers_simps [simp]:
  "event_numbers [] = []"
  "event_numbers (SseDashboard i d # es) = i # event_numbers es"
  "event_numbers (SseUpdate i d # es) = i # event_numbers es"
  "event_numbers (SseKeepalive # es) = event_numbers es"
  by (simp_all add: event_numbers_def List.map_filter_simps)

text \<open>A source of notifications: what it returns is newer than what the waiter has seen.\<close>

locale event_source =
  fixes ev :: "('w, 's) event_endpoint"
  assumes newer: "ee_wait_for_dashboard_update ev seen w s = (Some n, s') \<Longrightarrow> seen < dn_event_id n"
begin

lemma rounds_increase:
  "dashboard_rounds svc ev q rounds seen s = Inr (es, s') \<Longrightarrow>
     sorted_wrt (<) (event_numbers es) \<and> (\<forall>i\<in>set (event_numbers es). seen < i)"
proof (induction rounds arbitrary: seen s es)
  case (Cons r rounds)
  obtain u s1 where wait: "ee_wait_for_dashboard_update ev seen (sr_wait r) (sr_others r s) = (u, s1)" by fastforce
  show ?case
  proof (cases u)
    case None
    with Cons wait show ?thesis by (auto simp: bind_result_def split: if_splits sum.splits)
  next
    case (Some n)
    with wait have "seen < dn_event_id n" by (auto intro: newer)
    with Cons wait Some show ?thesis
      by (fastforce simp: bind_result_def split: if_splits sum.splits dest: less_trans)
  qed
qed simp

lemma stream_increases:
  "process_operator_dashboard_stream mc (Some svc) (Some ev) secure headers_ok first_ok rounds r s = Inr (Stream es, s') \<Longrightarrow>
     sorted_wrt (<) (event_numbers es)"
  using rounds_increase
  by (fastforce simp: process_operator_dashboard_stream_def Let_def bind_result_def split: if_splits sum.splits)

end

lemma newer_event_newer: "newer_event seen fd = Some u \<Longrightarrow> seen < ue_event_id u"
  by (auto simp: newer_event_def find_Some_iff split: if_splits)

lemma wait_for_update_newer: "wait_for_update seen segs fd = (Some u, fd') \<Longrightarrow> seen < ue_event_id u"
  by (induction segs arbitrary: fd) (auto split: if_splits dest: newer_event_newer)

interpretation console: event_source console_events
proof
  fix seen w s n s'
  assume "ee_wait_for_dashboard_update console_events seen w s = (Some n, s' :: 'rt operator_service)"
  then show "seen < dn_event_id n"
    by (auto simp: console_events_def wait_for_dashboard_update_def split: option.splits prod.splits
        dest: wait_for_update_newer)
qed

text \<open>
  The events of a live dashboard are numbered increasingly: whatever other threads do before and
  during each wait, and whichever writes fail, the identifiers that a client of the stream receives,
  from the first full dashboard on, are strictly increasing, so a client that resumes from the last
  identifier it saw never goes back.
\<close>

theorem live_dashboard_ids_increase:
  assumes "process_http_session mc service (Some svc) (Some console_events) options headers_ok first_ok rounds received s =
    Inr (Stream es, s')"
  shows "sorted_wrt (<) (event_numbers es)"
  using assms
  by (auto simp: process_http_session_def bind_result_def split: sum.splits if_splits intro: console.stream_increases)

subsection \<open>TLS\<close>

lemmas bind_Inr = bind_result_Inr [THEN iffD1] and bind_Inl = bind_result_Inl [THEN iffD1]

lemma configure_tls_identity_context:
  "configure_tls_identity ssl i owner c = Inr c' \<Longrightarrow> c' = c\<lparr>tx_identity := Some i\<rparr>"
  by (auto simp: configure_tls_identity_def dest!: bind_Inr)

lemma configure_tls_trust_context: "configure_tls_trust ssl t owner c = Inr c' \<Longrightarrow> tx_identity c' = tx_identity c"
  by (auto simp: configure_tls_trust_def split: if_splits dest!: bind_Inr)

lemma server_tls_context:
  assumes "http_server_tls read_file ssl options = Inr c" and "he_use_tls options"
  shows "\<exists>cx i. c = Some cx \<and> tx_identity cx = Some i \<and> li_certificate_chain_pem i \<noteq> [] \<and> li_private_key_pem i \<noteq> [] \<and>
    tx_verify_peer cx = tv_require_client_certificate (he_tls options) \<and>
    tx_fail_if_no_peer_cert cx = tv_require_client_certificate (he_tls options)"
  using assms
  by (auto simp: http_server_tls_def make_server_tls_context_def dest!: bind_Inr configure_tls_identity_context
      configure_tls_trust_context load_server_credentials_secure)

lemma start_acceptor_keeps: "hv_options (start_acceptor ap v6 s) = hv_options s \<and> hv_tls_context (start_acceptor ap v6 s) = hv_tls_context s"
  by (auto simp: start_acceptor_def fail_startup_def reset_startup_state_def Let_def split: option.split sum.split)

definition tls_server_runs :: "http_server \<Rightarrow> bool" where
  "tls_server_runs s \<longleftrightarrow>
     (\<exists>cx i. hv_tls_context s = Some cx \<and> tx_identity cx = Some i \<and> li_certificate_chain_pem i \<noteq> [] \<and>
        li_private_key_pem i \<noteq> [] \<and> tx_verify_peer cx = tv_require_client_certificate (he_tls (hv_options s)) \<and>
        tx_fail_if_no_peer_cert cx = tv_require_client_certificate (he_tls (hv_options s)))"

lemma http_server_start_tls:
  assumes "he_use_tls (hv_options s)" and "\<not> hv_running s" and "hv_running (http_server_start read_file ssl ap s)"
  shows "tls_server_runs (http_server_start read_file ssl ap s)"
proof -
  let ?s = "s\<lparr>hv_running := True, hv_startup_error := []\<rparr>"
  from assms obtain c where c: "http_server_tls read_file ssl (hv_options s) = Inr c"
    by (auto simp: http_server_start_def Let_def split: sum.splits)
  let ?t = "?s\<lparr>hv_tls_context := c, hv_worker_threads := Some (max 1 (he_io_threads (hv_options s)))\<rparr>"
  from assms c obtain v6 where "http_server_start read_file ssl ap s = start_acceptor ap v6 ?t"
    by (auto simp: http_server_start_def reset_startup_state_def Let_def split: sum.splits)
  with server_tls_context [OF c assms(1)] show ?thesis
    by (auto simp: tls_server_runs_def start_acceptor_keeps)
qed

lemma load_data_source_error: "load_data_source read_file d label = Inl m \<Longrightarrow> m \<noteq> []"
  by (auto simp: load_data_source_def split: tls_data_source_kind.splits if_splits option.splits)

lemma load_client_error: "load_client_credentials read_file c = Inl m \<Longrightarrow> m \<noteq> []"
  by (auto simp: load_client_credentials_def load_identity_def load_trust_def split: if_splits
      dest!: bind_Inl load_data_source_error)

lemma run_operation_error: "run_operation what err = Inl m \<Longrightarrow> m \<noteq> []"
  by (auto simp: run_operation_def split: option.splits)

lemma client_context_error: "make_client_tls_context ssl l = Inl m \<Longrightarrow> m \<noteq> []"
  by (auto simp: make_client_tls_context_def configure_minimum_tls_version_def configure_tls_trust_def
      configure_tls_identity_def split: if_splits dest!: bind_Inl run_operation_error)

lemma client_context_verifies: "make_client_tls_context ssl l = Inr c \<Longrightarrow> tx_verify_peer c = lt_verify_peer (ln_server_trust l)"
  by (auto simp: make_client_tls_context_def dest!: bind_Inr)

lemma grpc_server_credentials_secure:
  assumes "grpc_server_credentials read_file options = Inr c" and "ge_use_tls options"
  shows "\<exists>k. c = Some k \<and> gk_pem_private_key k \<noteq> [] \<and> gk_pem_cert_chain k \<noteq> [] \<and>
    gk_require_client_certificate k = tv_require_client_certificate (ge_tls options)"
  using assms
  by (auto simp: grpc_server_credentials_def make_server_credentials_def split: if_splits
      dest!: bind_Inr load_server_credentials_secure)

lemma grpc_client_credentials_verify:
  assumes "grpc_client_credentials read_file options = Inr (c, name)" and "co_use_tls options"
  shows "c \<noteq> None \<and> tt_verify_peer (tn_server_trust (co_tls options))"
  using assms
  by (auto simp: grpc_client_credentials_def make_client_credentials_def Let_def split: if_splits
      dest!: bind_Inr load_client_credentials_settings)

lemma http_client_tls:
  assumes "co_use_tls options" and "hx_startup_error (make_http_client read_file ssl options) = []"
  shows "\<exists>l c. hx_tls (make_http_client read_file ssl options) = Some (l, c) \<and>
    tx_verify_peer c = tt_verify_peer (tn_server_trust (co_tls options))"
proof (cases "bind_result (load_client_credentials read_file (co_tls options))
    (\<lambda>l. bind_result (make_client_tls_context ssl l) (\<lambda>c. Inr (l, c)))")
  case (Inl m)
  then have "m \<noteq> []" by (auto dest!: bind_Inl load_client_error client_context_error)
  with assms Inl show ?thesis by (simp add: make_http_client_def)
next
  case (Inr lc)
  then have "tx_verify_peer (snd lc) = tt_verify_peer (tn_server_trust (co_tls options))"
    by (auto dest!: bind_Inr client_context_verifies load_client_credentials_settings)
  with assms Inr show ?thesis by (cases lc) (simp add: make_http_client_def)
qed


end
