(* ===== verification/Control_Plane_Correct.thy ===== *)
theory Control_Plane_Correct
  imports Control_Plane Workflow_Store_Correct Runtime_Service_Correct
begin

text \<open>
  The control plane keeps the histories of the store: rows of a workflow are numbered in
  the order they are written, the counters of its record are the last numbers, and what is written
  stays. On this rest the recording of streams, idempotent replays, the effect of pausing and
  cancelling, and recovery.
\<close>

subsection \<open>Histories\<close>

definition rows_of :: "string \<Rightarrow> (string \<times> int, 'r) umap \<Rightarrow> ((string \<times> int) \<times> 'r) list" where
  "rows_of w rows = filter (\<lambda>r. fst (fst r) = w) rows"

definition row_numbers :: "string \<Rightarrow> (string \<times> int, 'r) umap \<Rightarrow> int list" where
  "row_numbers w rows = map (\<lambda>r. snd (fst r)) (rows_of w rows)"

definition numbers_ok :: "int \<Rightarrow> int list \<Rightarrow> bool" where
  "numbers_ok c ns \<longleftrightarrow> sorted_wrt (<) ns \<and> (\<forall>n\<in>set ns. 1 \<le> n) \<and> (if ns = [] then c = 0 else last ns = c)"

lemma numbers_ok_snoc: "numbers_ok c ns \<Longrightarrow> numbers_ok (c + 1) (ns @ [c + 1])"
proof (cases ns rule: rev_cases)
  case (snoc ms m)
  assume "numbers_ok c ns"
  with snoc show ?thesis by (fastforce simp: numbers_ok_def sorted_wrt_append)
qed (simp add: numbers_ok_def)

lemma numbers_ok_fresh: "numbers_ok c ns \<Longrightarrow> c + 1 \<notin> set ns"
  by (cases ns rule: rev_cases) (fastforce simp: numbers_ok_def sorted_wrt_append)+

lemma rows_of_update_other: "w \<noteq> wid \<Longrightarrow> rows_of w (AList.update (wid, n) v rows) = rows_of w rows"
  by (induction rows) (auto simp: rows_of_def)

lemma update_fresh: "k \<notin> fst ` set xs \<Longrightarrow> AList.update k v xs = xs @ [(k, v)]"
  by (induction xs) auto

lemma rows_of_update_fresh:
  assumes "n \<notin> set (row_numbers wid rows)"
  shows "rows_of wid (AList.update (wid, n) v rows) = rows_of wid rows @ [((wid, n), v)]"
proof -
  have "(wid, n) \<notin> fst ` set rows"
    using assms by (force simp: row_numbers_def rows_of_def)
  then show ?thesis by (simp add: update_fresh rows_of_def)
qed

lemma rows_of_append_number:
  assumes "numbers_ok c (row_numbers wid rows)"
  shows "rows_of wid (AList.update (wid, c + 1) v rows) = rows_of wid rows @ [((wid, c + 1), v)]"
    and "numbers_ok (c + 1) (row_numbers wid (AList.update (wid, c + 1) v rows))"
proof -
  show rows: "rows_of wid (AList.update (wid, c + 1) v rows) = rows_of wid rows @ [((wid, c + 1), v)]"
    using assms by (intro rows_of_update_fresh numbers_ok_fresh)
  show "numbers_ok (c + 1) (row_numbers wid (AList.update (wid, c + 1) v rows))"
    using numbers_ok_snoc [OF assms] by (simp add: row_numbers_def rows)
qed

text \<open>A history in order needs no sorting.\<close>

lemma history_in_order:
  assumes "numbers_ok c (row_numbers w rows)"
  shows "history_of w 0 rows = map (snd \<circ> snd) (rows_of w rows)"
proof -
  have "sorted (map (\<lambda>r. snd (fst r)) (rows_of w rows))"
    using assms by (auto simp: numbers_ok_def row_numbers_def intro: sorted_wrt_mono_rel [of _ "(<)"])
  then have "sort_key (\<lambda>r. snd (fst r)) (rows_of w rows) = rows_of w rows"
    by (rule sort_key_id_if_sorted)
  then show ?thesis by (simp add: history_of_def rows_of_def)
qed

subsection \<open>Invariant of the store\<close>

definition histories_ok :: "(string \<times> int, string \<times> 'r) umap \<Rightarrow> (workflow_summary \<Rightarrow> int) \<Rightarrow> workflow_store \<Rightarrow> bool" where
  "histories_ok rows counter st \<longleftrightarrow> distinct (map fst rows) \<and>
     (\<forall>w. case map_of (st_workflows st) w of
            None \<Rightarrow> rows_of w rows = []
          | Some r \<Rightarrow> numbers_ok (counter (wr_summary r)) (row_numbers w rows))"

text \<open>Plan rows are keyed by their version.\<close>

definition plans_keyed :: "(string \<times> int, string \<times> workflow_plan_version) umap \<Rightarrow> bool" where
  "plans_keyed rows \<longleftrightarrow> (\<forall>((w, n), b, p)\<in>set rows. pv_version p = n)"

definition store_ok :: "workflow_store \<Rightarrow> bool" where
  "store_ok st \<longleftrightarrow> distinct (map fst (st_workflows st)) \<and>
     (\<forall>w r. map_of (st_workflows st) w = Some r \<longrightarrow> ws_workflow_id (wr_summary r) = w \<and> pw_id (wr_config r) = w) \<and>
     histories_ok (st_events st) ws_total_event_count st \<and> histories_ok (st_plans st) ws_latest_plan_version st \<and>
     histories_ok (st_audits st) ws_total_audit_entry_count st \<and> plans_keyed (st_plans st)"

lemma plans_keyed_update:
  assumes "plans_keyed rows"
  shows "plans_keyed (AList.update (w, pv_version p) (b, p) rows)"
proof -
  have "set (AList.update k v xs) \<subseteq> insert (k, v) (set xs)" for k :: 'k and v :: 'v and xs
    by (induction xs) auto
  then show ?thesis using assms unfolding plans_keyed_def by fastforce
qed

text \<open>What was written stays, in order; and only the workflow \<open>wid\<close> changes.\<close>

definition extends_history :: "(string \<times> int, 'r) umap \<Rightarrow> (string \<times> int, 'r) umap \<Rightarrow> bool" where
  "extends_history rows rows' \<longleftrightarrow> (\<forall>w. \<exists>xs. rows_of w rows' = rows_of w rows @ xs)"

definition appends :: "workflow_store \<Rightarrow> workflow_store \<Rightarrow> bool" where
  "appends st st' \<longleftrightarrow> extends_history (st_events st) (st_events st') \<and> extends_history (st_plans st) (st_plans st') \<and>
     extends_history (st_audits st) (st_audits st')"

definition only_changes :: "string \<Rightarrow> workflow_store \<Rightarrow> workflow_store \<Rightarrow> bool" where
  "only_changes wid st st' \<longleftrightarrow> st_boot_id st' = st_boot_id st \<and>
     (\<forall>w. w \<noteq> wid \<longrightarrow> map_of (st_workflows st') w = map_of (st_workflows st) w \<and>
        rows_of w (st_events st') = rows_of w (st_events st) \<and> rows_of w (st_plans st') = rows_of w (st_plans st) \<and>
        rows_of w (st_audits st') = rows_of w (st_audits st)) \<and>
     (\<forall>w. map_of (st_workflows st) w \<noteq> None \<longrightarrow> map_of (st_workflows st') w \<noteq> None)"

lemma extends_history_refl [simp]: "extends_history rows rows"
  by (simp add: extends_history_def)

lemma extends_history_trans: "extends_history a b \<Longrightarrow> extends_history b c \<Longrightarrow> extends_history a c"
  unfolding extends_history_def by (metis append.assoc)

lemma appends_refl [simp]: "appends st st"
  by (simp add: appends_def)

lemma appends_trans: "appends a b \<Longrightarrow> appends b c \<Longrightarrow> appends a c"
  by (auto simp: appends_def intro: extends_history_trans)

lemma only_changes_refl [simp]: "only_changes w st st"
  by (simp add: only_changes_def)

lemma only_changes_trans: "only_changes w a b \<Longrightarrow> only_changes w b c \<Longrightarrow> only_changes w a c"
  by (auto simp: only_changes_def)

lemma extends_history_update:
  assumes "numbers_ok c (row_numbers wid rows)"
  shows "extends_history rows (AList.update (wid, c + 1) v rows)"
  unfolding extends_history_def
proof
  fix w
  show "\<exists>xs. rows_of w (AList.update (wid, c + 1) v rows) = rows_of w rows @ xs"
    using rows_of_append_number(1) [OF assms] rows_of_update_other [of w wid] by (metis append_Nil2)
qed

text \<open>The record of \<open>wid\<close> and one history change together.\<close>

lemma histories_ok_cong:
  "(\<And>w. map_option (\<lambda>r. counter (wr_summary r)) (map_of (st_workflows st') w) =
        map_option (\<lambda>r. counter (wr_summary r)) (map_of (st_workflows st) w)) \<Longrightarrow>
   histories_ok rows counter st' = histories_ok rows counter st"
proof -
  assume eq: "\<And>w. map_option (\<lambda>r. counter (wr_summary r)) (map_of (st_workflows st') w) =
        map_option (\<lambda>r. counter (wr_summary r)) (map_of (st_workflows st) w)"
  have "(case map_of (st_workflows st') w of None \<Rightarrow> rows_of w rows = []
          | Some r \<Rightarrow> numbers_ok (counter (wr_summary r)) (row_numbers w rows)) =
        (case map_of (st_workflows st) w of None \<Rightarrow> rows_of w rows = []
          | Some r \<Rightarrow> numbers_ok (counter (wr_summary r)) (row_numbers w rows))" for w
    using eq [of w] by (auto split: option.splits)
  then show ?thesis by (simp add: histories_ok_def)
qed

lemma histories_ok_append:
  assumes "histories_ok rows counter st" and "map_of (st_workflows st) wid = Some r"
    and "counter (wr_summary r') = counter (wr_summary r) + 1"
    and "\<And>w. map_of (st_workflows st') w = (if w = wid then Some r' else map_of (st_workflows st) w)"
  shows "histories_ok (AList.update (wid, counter (wr_summary r) + 1) v rows) counter st'"
proof -
  have ok: "numbers_ok (counter (wr_summary r)) (row_numbers wid rows)"
    using assms(1,2) by (auto simp: histories_ok_def dest: spec [of _ wid])
  have other: "row_numbers w (AList.update (wid, n) v rows) = row_numbers w rows" if "w \<noteq> wid" for w n
    using that by (simp add: row_numbers_def rows_of_update_other)
  have "case map_of (st_workflows st') w of
      None \<Rightarrow> rows_of w (AList.update (wid, counter (wr_summary r) + 1) v rows) = []
    | Some r' \<Rightarrow> numbers_ok (counter (wr_summary r'))
        (row_numbers w (AList.update (wid, counter (wr_summary r) + 1) v rows))" for w
  proof (cases "w = wid")
    case True
    then show ?thesis using rows_of_append_number(2) [OF ok] assms(3) by (simp add: assms(4))
  next
    case False
    with assms(1) show ?thesis
      by (simp only: histories_ok_def assms(4) other [OF False] rows_of_update_other [OF False] if_False)
  qed
  with assms(1) show ?thesis by (simp add: histories_ok_def)
qed

text \<open>The two kinds of change: the record alone, with its counters kept, and a row with its counter.\<close>

lemma store_ok_fields:
  assumes "store_ok st"
  shows "distinct (map fst (st_workflows st))"
    and "map_of (st_workflows st) w = Some r \<Longrightarrow> ws_workflow_id (wr_summary r) = w"
    and "histories_ok (st_events st) ws_total_event_count st" and "histories_ok (st_plans st) ws_latest_plan_version st"
    and "histories_ok (st_audits st) ws_total_audit_entry_count st"
    and "map_of (st_workflows st) w = Some r \<Longrightarrow> pw_id (wr_config r) = w" and "plans_keyed (st_plans st)"
  using assms by (auto simp: store_ok_def)

definition same_counters :: "workflow_record \<Rightarrow> workflow_record \<Rightarrow> bool" where
  "same_counters r r' \<longleftrightarrow> pw_id (wr_config r) = pw_id (wr_config r') \<and>
     ws_workflow_id (wr_summary r) = ws_workflow_id (wr_summary r') \<and>
     ws_total_event_count (wr_summary r) = ws_total_event_count (wr_summary r') \<and>
     ws_latest_plan_version (wr_summary r) = ws_latest_plan_version (wr_summary r') \<and>
     ws_total_audit_entry_count (wr_summary r) = ws_total_audit_entry_count (wr_summary r')"

lemma upsert_tables [simp]:
  "st_events (upsert_workflow r st) = st_events st" "st_plans (upsert_workflow r st) = st_plans st"
  "st_audits (upsert_workflow r st) = st_audits st" "st_idempotency (upsert_workflow r st) = st_idempotency st"
  "st_boot_id (upsert_workflow r st) = st_boot_id st"
  "map_of (st_workflows (upsert_workflow r st)) w =
     (if w = ws_workflow_id (wr_summary r) then Some r else map_of (st_workflows st) w)"
  by (simp_all add: upsert_workflow_def)

lemma upsert_distinct [simp]:
  "distinct (map fst (st_workflows st)) \<Longrightarrow> distinct (map fst (st_workflows (upsert_workflow r st)))"
  by (simp add: upsert_workflow_def distinct_keys_update)

lemma upsert_same_ok:
  assumes "store_ok st" and "map_of (st_workflows st) wid = Some r" and "same_counters r' r"
  shows "store_ok (upsert_workflow r' st)" "only_changes wid st (upsert_workflow r' st)" "appends st (upsert_workflow r' st)"
proof -
  have id: "ws_workflow_id (wr_summary r') = wid"
    using assms by (auto simp: same_counters_def dest: store_ok_fields(2))
  have "histories_ok rows counter (upsert_workflow r' st) = histories_ok rows counter st"
    if "counter (wr_summary r') = counter (wr_summary r)" for rows :: "(string \<times> int, string \<times> 'r) umap" and counter
    using that assms(2) id by (intro histories_ok_cong) simp
  note same = this
  show "store_ok (upsert_workflow r' st)"
    using assms id unfolding store_ok_def same_counters_def by (simp add: same)
  show "only_changes wid st (upsert_workflow r' st)" by (simp add: only_changes_def id)
  show "appends st (upsert_workflow r' st)" by (simp add: appends_def)
qed

text \<open>A workflow that is new to the store.\<close>

definition new_record :: "string \<Rightarrow> workflow_record" where
  "new_record wid = (update_summary (\<lambda>m. m\<lparr>ws_workflow_id := wid\<rparr>) empty_record)\<lparr>wr_config := empty_config\<lparr>pw_id := wid\<rparr>\<rparr>"

lemma upsert_new_ok:
  assumes "store_ok st" and "map_of (st_workflows st) wid = None"
    and "same_counters r' (new_record wid)"
  shows "store_ok (upsert_workflow r' st)" "only_changes wid st (upsert_workflow r' st)" "appends st (upsert_workflow r' st)"
proof -
  have id: "ws_workflow_id (wr_summary r') = wid" "pw_id (wr_config r') = wid" and zero: "ws_total_event_count (wr_summary r') = 0"
    "ws_latest_plan_version (wr_summary r') = 0" "ws_total_audit_entry_count (wr_summary r') = 0"
    using assms(3) by (simp_all add: same_counters_def new_record_def update_summary_def empty_record_def Let_def)
  have new: "histories_ok rows counter (upsert_workflow r' st)"
    if "histories_ok rows counter st" "counter (wr_summary r') = 0"
    for rows :: "(string \<times> int, string \<times> 'r) umap" and counter
  proof -
    have nil: "rows_of wid rows = []"
      using that(1) assms(2) unfolding histories_ok_def by (auto dest: spec [of _ wid])
    have "case map_of (st_workflows (upsert_workflow r' st)) w of None \<Rightarrow> rows_of w rows = []
        | Some r \<Rightarrow> numbers_ok (counter (wr_summary r)) (row_numbers w rows)" for w
      using that nil by (cases "w = wid") (simp_all add: histories_ok_def id row_numbers_def numbers_ok_def)
    with that(1) show ?thesis by (simp add: histories_ok_def)
  qed
  show "store_ok (upsert_workflow r' st)"
    using store_ok_fields [OF assms(1)] id zero unfolding store_ok_def by (simp add: new)
  show "only_changes wid st (upsert_workflow r' st)" by (simp add: only_changes_def id)
  show "appends st (upsert_workflow r' st)" by (simp add: appends_def)
qed

subsection \<open>Recording an event\<close>

text \<open>The record and the store after the body of the loop, when no call throws.\<close>

definition response_record :: "runtime_api_response \<Rightarrow> workflow_record \<Rightarrow> workflow_record" where
  "response_record resp r = (update_summary (\<lambda>m. m\<lparr>
       ws_last_error_message := (if \<not> ra_ok resp then ra_error_message resp
         else if \<not> pr_result_ok (ra_result resp) then pr_result_error (ra_result resp) else []),
       ws_latest_plan_version := (if ra_ok resp \<and> pr_result_ok (ra_result resp) then ws_latest_plan_version m + 1
         else ws_latest_plan_version m)\<rparr>) r)\<lparr>wr_latest_response := Some resp\<rparr>"

definition counted_record :: "int \<Rightarrow> workflow_event \<Rightarrow> workflow_record \<Rightarrow> workflow_record" where
  "counted_record t e r = update_summary (\<lambda>m. m\<lparr>ws_updated_at := t, ws_total_event_count := ws_total_event_count m + 1,
     ws_state := state_for_event e (ws_state m)\<rparr>) r"

definition event_record :: "int \<Rightarrow> workflow_event \<Rightarrow> workflow_record \<Rightarrow> workflow_record" where
  "event_record t e r = (case we_response e of None \<Rightarrow> counted_record t e r | Some resp \<Rightarrow> response_record resp (counted_record t e r))"

definition add_plan :: "string \<Rightarrow> int \<Rightarrow> runtime_api_response \<Rightarrow> workflow_record \<Rightarrow> workflow_store \<Rightarrow> workflow_store" where
  "add_plan wid t resp r st =
     (if ra_ok resp \<and> pr_result_ok (ra_result resp)
      then st\<lparr>st_plans := AList.update (wid, ws_latest_plan_version (wr_summary r) + 1)
             (st_boot_id st, \<lparr>pv_version = ws_latest_plan_version (wr_summary r) + 1, pv_recorded_at = t, pv_response = resp\<rparr>)
             (st_plans st)\<rparr>
      else st)"

definition add_idempotency :: "string \<Rightarrow> string \<Rightarrow> string \<Rightarrow> int \<Rightarrow> runtime_api_response \<Rightarrow> workflow_store \<Rightarrow> workflow_store" where
  "add_idempotency wid key fp t resp st =
     (if key = [] then st
      else st\<lparr>st_idempotency := AList.update key (st_boot_id st, \<lparr>ir_key = key, ir_workflow_id = wid,
             ir_request_fingerprint = fp, ir_recorded_at = t, ir_cached_response = resp\<rparr>) (st_idempotency st)\<rparr>)"

definition event_row_of :: "string \<Rightarrow> int \<Rightarrow> workflow_event \<Rightarrow> workflow_record \<Rightarrow> (string \<times> int) \<times> workflow_event_record" where
  "event_row_of wid t e r = ((wid, ws_total_event_count (wr_summary r) + 1),
     \<lparr>ev_sequence = ws_total_event_count (wr_summary r) + 1, ev_recorded_at = t, ev_event = e\<rparr>)"

definition event_store ::
  "string \<Rightarrow> string \<Rightarrow> string \<Rightarrow> int \<Rightarrow> workflow_event \<Rightarrow> workflow_record \<Rightarrow> workflow_store \<Rightarrow> workflow_store" where
  "event_store wid key fp t e r st =
     (let st = (case we_response e of None \<Rightarrow> st | Some resp \<Rightarrow> add_idempotency wid key fp t resp (add_plan wid t resp r st))
      in upsert_workflow (event_record t e r)
           (st\<lparr>st_events := AList.update (fst (event_row_of wid t e r)) (st_boot_id st, snd (event_row_of wid t e r))
                (st_events st)\<rparr>))"

lemma on_store_write [simp]:
  assumes "umap_contains (st_workflows (cp_store s)) wid"
  shows "on_store (write_event wid e) s = Inr (s\<lparr>cp_store := (cp_store s)\<lparr>st_events :=
      AList.update (wid, ev_sequence e) (st_boot_id (cp_store s), e) (st_events (cp_store s))\<rparr>\<rparr>)"
    and "on_store (write_plan_version wid p) s = Inr (s\<lparr>cp_store := (cp_store s)\<lparr>st_plans :=
      AList.update (wid, pv_version p) (st_boot_id (cp_store s), p) (st_plans (cp_store s))\<rparr>\<rparr>)"
    and "on_store (write_audit_entry wid a) s = Inr (s\<lparr>cp_store := (cp_store s)\<lparr>st_audits :=
      AList.update (wid, ae_sequence a) (st_boot_id (cp_store s), a) (st_audits (cp_store s))\<rparr>\<rparr>)"
    and "ir_workflow_id i = wid \<Longrightarrow> on_store (put_idempotency_record i) s = Inr (s\<lparr>cp_store := (cp_store s)\<lparr>st_idempotency :=
      AList.update (ir_key i) (st_boot_id (cp_store s), i) (st_idempotency (cp_store s))\<rparr>\<rparr>)"
  using assms by (simp_all add: on_store_def write_event_def write_plan_version_def write_audit_entry_def
      put_idempotency_record_def)

lemma summary_updates [simp]:
  "wr_summary (update_summary f r) = f (wr_summary r)" "wr_config (update_summary f r) = wr_config r"
  "wr_latest_response (update_summary f r) = wr_latest_response r"
  by (simp_all add: update_summary_def)

lemma record_response_eq:
  assumes "umap_contains (st_workflows (cp_store s)) wid"
  shows "record_response wid key fp t resp (r, s) =
    Inr (response_record resp r, s\<lparr>cp_store := add_idempotency wid key fp t resp (add_plan wid t resp r (cp_store s))\<rparr>)"
  using assms
  by (simp add: record_response_def response_record_def add_plan_def add_idempotency_def Let_def update_summary_def)

lemma record_event_unfold:
  "t = ce_now env (cp_reads s) \<Longrightarrow>
   record_event env wid key fp e (r, s) =
     bind_result (case we_response e of
         None \<Rightarrow> Inr (counted_record t e r, s\<lparr>cp_reads := Suc (cp_reads s)\<rparr>)
       | Some resp \<Rightarrow> record_response wid key fp t resp (counted_record t e r, s\<lparr>cp_reads := Suc (cp_reads s)\<rparr>))
     (\<lambda>(r, s). bind_result
        (on_store (write_event wid
           \<lparr>ev_sequence = ws_total_event_count (wr_summary r), ev_recorded_at = t, ev_event = e\<rparr>) s)
        (\<lambda>s. Inr (r, publish_workflow_update wid (save_workflow r s))))"
  unfolding record_event_def unix_time_ms_now_def Let_def counted_record_def by hypsubst simp

lemma event_total:
  "ws_total_event_count (wr_summary (counted_record t e r)) = ws_total_event_count (wr_summary r) + 1"
  "ws_total_event_count (wr_summary (response_record resp (counted_record t e r))) = ws_total_event_count (wr_summary r) + 1"
  "add_plan wid t resp (counted_record t e r) = add_plan wid t resp r"
  by (simp_all add: counted_record_def response_record_def add_plan_def fun_eq_iff)

lemma record_event_eq:
  assumes "umap_contains (st_workflows (cp_store s)) wid" and t: "t = ce_now env (cp_reads s)"
  shows "record_event env wid key fp e (r, s) = Inr (event_record t e r,
    publish_workflow_update wid (s\<lparr>cp_reads := Suc (cp_reads s), cp_store := event_store wid key fp t e r (cp_store s)\<rparr>))"
proof (cases "we_response e")
  case None
  then show ?thesis
    unfolding record_event_unfold [OF t] event_record_def event_store_def event_row_of_def Let_def
    using assms(1) by (simp add: event_total save_workflow_def)
next
  case (Some resp)
  have contains: "umap_contains (st_workflows (add_idempotency wid key fp t resp (add_plan wid t resp r (cp_store s)))) wid"
    using assms(1) by (simp add: add_idempotency_def add_plan_def)
  have "record_response wid key fp t resp (counted_record t e r, s\<lparr>cp_reads := Suc (cp_reads s)\<rparr>) =
      Inr (response_record resp (counted_record t e r), s\<lparr>cp_reads := Suc (cp_reads s),
        cp_store := add_idempotency wid key fp t resp (add_plan wid t resp r (cp_store s))\<rparr>)"
    using assms(1) by (simp add: record_response_eq event_total)
  with Some show ?thesis
    unfolding record_event_unfold [OF t] event_record_def event_store_def event_row_of_def Let_def
    using contains by (simp add: event_total save_workflow_def)
qed

definition new_plan :: "workflow_event \<Rightarrow> runtime_api_response option" where
  "new_plan e = (case we_response e of None \<Rightarrow> None
     | Some resp \<Rightarrow> if ra_ok resp \<and> pr_result_ok (ra_result resp) then Some resp else None)"

lemma event_record_counters:
  "ws_workflow_id (wr_summary (event_record t e r)) = ws_workflow_id (wr_summary r)"
  "wr_config (event_record t e r) = wr_config r"
  "ws_total_event_count (wr_summary (event_record t e r)) = ws_total_event_count (wr_summary r) + 1"
  "ws_total_audit_entry_count (wr_summary (event_record t e r)) = ws_total_audit_entry_count (wr_summary r)"
  "ws_latest_plan_version (wr_summary (event_record t e r)) =
     ws_latest_plan_version (wr_summary r) + (if new_plan e = None then 0 else 1)"
  by (cases "we_response e"; simp add: event_record_def counted_record_def response_record_def new_plan_def)+

lemma event_store_tables:
  "st_boot_id (event_store wid key fp t e r st) = st_boot_id st"
  "st_events (event_store wid key fp t e r st) =
     AList.update (fst (event_row_of wid t e r)) (st_boot_id st, snd (event_row_of wid t e r)) (st_events st)"
  "st_audits (event_store wid key fp t e r st) = st_audits st"
  "st_plans (event_store wid key fp t e r st) = (case new_plan e of None \<Rightarrow> st_plans st
     | Some resp \<Rightarrow> AList.update (wid, ws_latest_plan_version (wr_summary r) + 1)
         (st_boot_id st, \<lparr>pv_version = ws_latest_plan_version (wr_summary r) + 1, pv_recorded_at = t, pv_response = resp\<rparr>)
         (st_plans st))"
  "map_of (st_workflows (event_store wid key fp t e r st)) w =
     (if w = ws_workflow_id (wr_summary r) then Some (event_record t e r) else map_of (st_workflows st) w)"
  "distinct (map fst (st_workflows st)) \<Longrightarrow> distinct (map fst (st_workflows (event_store wid key fp t e r st)))"
  by (cases "we_response e";
      simp add: event_store_def Let_def add_plan_def add_idempotency_def new_plan_def event_record_counters)+

lemma histories_ok_number:
  "histories_ok rows counter st \<Longrightarrow> map_of (st_workflows st) w = Some r \<Longrightarrow>
     numbers_ok (counter (wr_summary r)) (row_numbers w rows)"
  unfolding histories_ok_def by (auto dest: spec [of _ w])

lemma event_store_ok:
  assumes "store_ok st" and "map_of (st_workflows st) wid = Some r" and st'_def: "st' = event_store wid key fp t e r st"
  shows "store_ok st'" and "only_changes wid st st'" and "appends st st'"
    and "map_of (st_workflows st') wid = Some (event_record t e r)"
    and "rows_of wid (st_events st') = rows_of wid (st_events st) @
      [(fst (event_row_of wid t e r), st_boot_id st, snd (event_row_of wid t e r))]"
proof -
  note ok = store_ok_fields [OF assms(1)]
  have id: "ws_workflow_id (wr_summary r) = wid" "pw_id (wr_config (event_record t e r)) = wid"
    using ok(2,6) assms(2) by (simp_all add: event_record_counters)
  have wf: "map_of (st_workflows st') w = (if w = wid then Some (event_record t e r) else map_of (st_workflows st) w)" for w
    by (simp add: st'_def event_store_tables id)
  have row: "fst (event_row_of wid t e r) = (wid, ws_total_event_count (wr_summary r) + 1)" by (simp add: event_row_of_def)
  have ev: "histories_ok (st_events st') ws_total_event_count st'"
    unfolding st'_def event_store_tables row
    by (rule histories_ok_append [OF ok(3) assms(2)]) (simp_all add: event_record_counters wf [unfolded st'_def])
  have au: "histories_ok (st_audits st') ws_total_audit_entry_count st'"
    using ok(5) assms(2) by (subst histories_ok_cong [of _ _ st])
      (simp_all add: wf event_record_counters, simp add: st'_def event_store_tables)
  have pl: "histories_ok (st_plans st') ws_latest_plan_version st'"
  proof (cases "new_plan e")
    case None
    then show ?thesis
      using ok(4) assms(2) by (subst histories_ok_cong [of _ _ st])
        (simp_all add: wf event_record_counters, simp add: st'_def event_store_tables)
  next
    case (Some resp)
    then have "st_plans st' = AList.update (wid, ws_latest_plan_version (wr_summary r) + 1) (st_boot_id st,
        \<lparr>pv_version = ws_latest_plan_version (wr_summary r) + 1, pv_recorded_at = t, pv_response = resp\<rparr>) (st_plans st)"
      by (simp add: st'_def event_store_tables)
    moreover have "ws_latest_plan_version (wr_summary (event_record t e r)) = ws_latest_plan_version (wr_summary r) + 1"
      using Some by (simp add: event_record_counters)
    ultimately show ?thesis
      using histories_ok_append [OF ok(4) assms(2) _ wf] by simp
  qed
  have "plans_keyed (st_plans st')"
    using ok(7) plans_keyed_update [OF ok(7), of wid "\<lparr>pv_version = ws_latest_plan_version (wr_summary r) + 1,
      pv_recorded_at = t, pv_response = the (new_plan e)\<rparr>" "st_boot_id st"]
    by (cases "new_plan e") (simp_all add: st'_def event_store_tables)
  then show "store_ok st'"
    using ok(1) ev au pl ok(2,6) id by (simp add: store_ok_def wf event_record_counters)
      (simp add: st'_def event_store_tables)
  show "map_of (st_workflows st') wid = Some (event_record t e r)" by (simp add: wf)
  note evn = histories_ok_number [OF ok(3) assms(2)] and pln = histories_ok_number [OF ok(4) assms(2)]
  show "rows_of wid (st_events st') = rows_of wid (st_events st) @
      [(fst (event_row_of wid t e r), st_boot_id st, snd (event_row_of wid t e r))]"
    unfolding st'_def event_store_tables row by (rule rows_of_append_number(1) [OF evn])
  show "only_changes wid st st'"
    by (cases "new_plan e") (simp_all add: only_changes_def wf, simp_all add: st'_def event_store_tables row rows_of_update_other)
  show "appends st st'"
    by (cases "new_plan e") (simp_all add: appends_def st'_def event_store_tables row extends_history_update evn pln)
qed

subsection \<open>Recording a stream\<close>

lemma publish_fields [simp]:
  "cp_store (publish_workflow_update wid s) = cp_store s" "cp_runtime (publish_workflow_update wid s) = cp_runtime s"
  "cp_hydrated (publish_workflow_update wid s) = cp_hydrated s" "cp_reads (publish_workflow_update wid s) = cp_reads s"
  by (simp_all add: publish_workflow_update_def split: option.split)

lemma record_stream_ok:
  assumes "store_ok (cp_store s)" and "map_of (st_workflows (cp_store s)) wid = Some r"
  shows "\<exists>r' s'. record_stream env wid key fp evs (r, s) = Inr (r', s') \<and> store_ok (cp_store s') \<and>
    map_of (st_workflows (cp_store s')) wid = Some r' \<and> only_changes wid (cp_store s) (cp_store s') \<and>
    appends (cp_store s) (cp_store s') \<and> cp_runtime s' = cp_runtime s \<and> cp_hydrated s' = cp_hydrated s \<and>
    ws_total_event_count (wr_summary r') = ws_total_event_count (wr_summary r) + int (length evs) \<and>
    map (\<lambda>x. ev_event (snd (snd x))) (rows_of wid (st_events (cp_store s'))) =
      map (\<lambda>x. ev_event (snd (snd x))) (rows_of wid (st_events (cp_store s))) @ evs"
  using assms
proof (induction evs arbitrary: r s)
  case Nil
  then show ?case by simp
next
  case (Cons e evs)
  let ?t = "ce_now env (cp_reads s)"
  let ?s = "publish_workflow_update wid (s\<lparr>cp_reads := Suc (cp_reads s),
    cp_store := event_store wid key fp ?t e r (cp_store s)\<rparr>)"
  have "umap_contains (st_workflows (cp_store s)) wid" using Cons.prems(2) by (simp add: umap_contains_def)
  then have rec: "record_event env wid key fp e (r, s) = Inr (event_record ?t e r, ?s)"
    by (rule record_event_eq) (rule refl)
  note ok = event_store_ok [OF Cons.prems refl, where key = key and fp = fp and t = ?t and e = e]
  obtain r' s' where *: "record_stream env wid key fp evs (event_record ?t e r, ?s) = Inr (r', s')" "store_ok (cp_store s')"
    "map_of (st_workflows (cp_store s')) wid = Some r'" "only_changes wid (cp_store ?s) (cp_store s')"
    "appends (cp_store ?s) (cp_store s')" "cp_runtime s' = cp_runtime ?s" "cp_hydrated s' = cp_hydrated ?s"
    "ws_total_event_count (wr_summary r') = ws_total_event_count (wr_summary (event_record ?t e r)) + int (length evs)"
    "map (\<lambda>x. ev_event (snd (snd x))) (rows_of wid (st_events (cp_store s'))) =
      map (\<lambda>x. ev_event (snd (snd x))) (rows_of wid (st_events (cp_store ?s))) @ evs"
    using Cons.IH [of ?s "event_record ?t e r"] ok by auto
  have "only_changes wid (cp_store s) (cp_store s')" using ok(2) *(4) by (auto intro: only_changes_trans)
  moreover have "appends (cp_store s) (cp_store s')" using ok(3) *(5) by (auto intro: appends_trans)
  ultimately show ?case
    using * ok(5) rec by (simp add: event_record_counters event_row_of_def)
qed

subsection \<open>Audit entries\<close>

definition audited :: "workflow_record \<Rightarrow> workflow_record" where
  "audited r = update_summary (\<lambda>m. m\<lparr>ws_total_audit_entry_count := ws_total_audit_entry_count m + 1\<rparr>) r"

definition add_audit :: "string \<Rightarrow> int \<Rightarrow> string \<Rightarrow> string \<Rightarrow> string \<Rightarrow> workflow_record \<Rightarrow> workflow_store \<Rightarrow> workflow_store" where
  "add_audit wid t actor action detail r st =
     (let n = ws_total_audit_entry_count (wr_summary r) + 1 in
      st\<lparr>st_audits := AList.update (wid, n) (st_boot_id st, \<lparr>ae_sequence = n, ae_recorded_at = t, ae_actor = actor,
        ae_action = action, ae_detail = detail\<rparr>) (st_audits st)\<rparr>)"

lemma write_audit_eq:
  "umap_contains (st_workflows (cp_store s)) wid \<Longrightarrow>
   write_audit wid t actor action detail (r, s) =
     Inr (audited r, s\<lparr>cp_store := add_audit wid t actor action detail r (cp_store s)\<rparr>)"
  by (simp add: write_audit_def audited_def add_audit_def Let_def update_summary_def)

lemma add_audit_tables:
  "st_events (add_audit wid t actor action detail r st) = st_events st"
  "st_plans (add_audit wid t actor action detail r st) = st_plans st"
  "st_workflows (add_audit wid t actor action detail r st) = st_workflows st"
  "st_boot_id (add_audit wid t actor action detail r st) = st_boot_id st"
  "st_idempotency (add_audit wid t actor action detail r st) = st_idempotency st"
  by (simp_all add: add_audit_def Let_def)

lemma audit_store_ok:
  assumes "store_ok st" and "map_of (st_workflows st) wid = Some r"
    and counters: "same_counters r' (audited r)"
    and st': "st' = upsert_workflow r' (add_audit wid t actor action detail r st)"
  shows "store_ok st'" and "only_changes wid st st'" and "appends st st'"
    and "map_of (st_workflows st') wid = Some r'" and "st_events st' = st_events st" and "st_plans st' = st_plans st"
proof -
  note ok = store_ok_fields [OF assms(1)]
  have id: "ws_workflow_id (wr_summary r') = wid" "pw_id (wr_config r') = wid"
    using ok(2,6) assms(2) counters by (simp_all add: same_counters_def audited_def)
  have wf: "map_of (st_workflows st') w = (if w = wid then Some r' else map_of (st_workflows st) w)" for w
    by (simp add: st' id add_audit_tables)
  show same: "st_events st' = st_events st" "st_plans st' = st_plans st" by (simp_all add: st' add_audit_tables)
  have counts: "ws_total_event_count (wr_summary r') = ws_total_event_count (wr_summary r)"
    "ws_latest_plan_version (wr_summary r') = ws_latest_plan_version (wr_summary r)"
    "ws_total_audit_entry_count (wr_summary r') = ws_total_audit_entry_count (wr_summary r) + 1"
    using counters by (simp_all add: same_counters_def audited_def)
  have audits: "\<exists>v. st_audits st' = AList.update (wid, ws_total_audit_entry_count (wr_summary r) + 1) v (st_audits st)"
    by (auto simp: st' add_audit_def Let_def)
  then obtain v where v: "st_audits st' = AList.update (wid, ws_total_audit_entry_count (wr_summary r) + 1) v (st_audits st)" ..
  have "histories_ok (st_events st) ws_total_event_count st'" "histories_ok (st_plans st) ws_latest_plan_version st'"
    using ok(3,4) assms(2) by (subst histories_ok_cong [of _ _ st]; simp add: wf counts)+
  moreover have "histories_ok (st_audits st') ws_total_audit_entry_count st'"
    unfolding v by (rule histories_ok_append [OF ok(5) assms(2) counts(3) wf])
  moreover have "distinct (map fst (st_workflows st'))" using ok(1) by (simp add: st' add_audit_tables)
  ultimately show "store_ok st'" using ok(2,6,7) id by (simp add: store_ok_def wf same)
  show "map_of (st_workflows st') wid = Some r'" by (simp add: wf)
  show "only_changes wid st st'"
    by (simp add: only_changes_def wf same v rows_of_update_other) (simp add: st' add_audit_tables)
  show "appends st st'"
    using histories_ok_number [OF ok(5) assms(2)] by (simp add: appends_def same v extends_history_update)
qed

subsection \<open>Operations\<close>

text \<open>
  What every operation on a workflow guarantees: the invariant, that only this workflow changes, and
  that histories only grow.
\<close>

definition good_step :: "string \<Rightarrow> workflow_store \<Rightarrow> workflow_store \<Rightarrow> bool" where
  "good_step wid st st' \<longleftrightarrow> store_ok st' \<and> only_changes wid st st' \<and> appends st st'"

lemma good_step_refl: "store_ok st \<Longrightarrow> good_step wid st st"
  by (simp add: good_step_def)

lemma good_step_trans: "good_step wid a b \<Longrightarrow> good_step wid b c \<Longrightarrow> good_step wid a c"
  by (auto simp: good_step_def intro: only_changes_trans appends_trans)

lemma operator_action_ok:
  assumes "store_ok (cp_store s)"
  shows "\<exists>resp s'. operator_action new_state action detail env q s = Inr (resp, s') \<and>
    good_step (aq_workflow_id q) (cp_store s) (cp_store s') \<and>
    st_events (cp_store s') = st_events (cp_store s) \<and> st_plans (cp_store s') = st_plans (cp_store s) \<and>
    (case get_workflow (aq_workflow_id q) (cp_store s) of
       None \<Rightarrow> s' = s \<and> \<not> ar_ok resp
     | Some r \<Rightarrow> ar_ok resp \<and> get_workflow (aq_workflow_id q) (cp_store s') = ar_workflow resp \<and>
         map_option (\<lambda>r. ws_state (wr_summary r)) (ar_workflow resp) = Some (new_state r))"
proof (cases "get_workflow (aq_workflow_id q) (cp_store s)")
  case None
  then show ?thesis using assms by (simp add: operator_action_def good_step_refl not_found_def)
next
  case (Some r)
  let ?wid = "aq_workflow_id q" and ?t = "ce_now env (cp_reads s)"
  let ?r = "update_summary (\<lambda>m. m\<lparr>ws_state := new_state r, ws_updated_at := ?t\<rparr>) r"
  let ?st = "upsert_workflow ?r (cp_store s)"
  let ?actor = "or_text (aq_actor q) kInternalControlActor" and ?detail = "or_text (aq_reason q) detail"
  let ?st' = "upsert_workflow (audited ?r) (add_audit ?wid (ce_now env (Suc (cp_reads s))) ?actor action ?detail ?r ?st)"
  have r: "map_of (st_workflows (cp_store s)) ?wid = Some r" using Some by (simp add: get_workflow_def)
  have id: "ws_workflow_id (wr_summary r) = ?wid" using store_ok_fields(2) [OF assms r] .
  note first = upsert_same_ok [OF assms r, of ?r]
  have first: "good_step ?wid (cp_store s) ?st"
    using first by (simp add: good_step_def same_counters_def)
  have stored: "map_of (st_workflows ?st) ?wid = Some ?r" by (simp add: id)
  note second = audit_store_ok [OF _ stored, of "audited ?r" ?st']
  have audit: "good_step ?wid ?st ?st'" "map_of (st_workflows ?st') ?wid = Some (audited ?r)"
    "st_events ?st' = st_events ?st" "st_plans ?st' = st_plans ?st"
    using first second by (simp_all add: good_step_def same_counters_def)
  have "operator_action new_state action detail env q s = Inr (\<lparr>ar_ok = True, ar_workflow = Some (audited ?r), ar_error_message = []\<rparr>,
      publish_workflow_update ?wid (s\<lparr>cp_reads := Suc (Suc (cp_reads s)), cp_store := ?st'\<rparr>))"
    using Some stored by (simp add: operator_action_def unix_time_ms_now_def save_workflow_def write_audit_eq umap_contains_def Let_def)
  then show ?thesis
    using good_step_trans [OF first audit(1)] audit Some
    by (simp add: get_workflow_def) (simp add: audited_def)
qed

text \<open>Submissions that replace a stored workflow say so.\<close>

definition replaces_knowingly :: "submit_workflow_request \<Rightarrow> workflow_store \<Rightarrow> bool" where
  "replaces_knowingly req st \<longleftrightarrow> sw_replace_existing req = Some True \<or> get_workflow (pw_id (sw_config req)) st = None"

lemma submitted_record_saved:
  assumes "store_ok st" and "replaces_knowingly req st"
  shows "good_step (pw_id (sw_config req)) st (upsert_workflow (submitted_record req t st) st)"
    and "map_of (st_workflows (upsert_workflow (submitted_record req t st) st)) (pw_id (sw_config req)) =
      Some (submitted_record req t st)"
proof -
  let ?wid = "pw_id (sw_config req)"
  have id: "ws_workflow_id (wr_summary (submitted_record req t st)) = ?wid"
    using assms store_ok_fields(2) [OF assms(1), of ?wid]
    by (auto simp: submitted_record_def Let_def replaces_knowingly_def or_default_def empty_record_def get_workflow_def
        split: option.splits)
  then show "map_of (st_workflows (upsert_workflow (submitted_record req t st) st)) ?wid = Some (submitted_record req t st)"
    by simp
  show "good_step ?wid st (upsert_workflow (submitted_record req t st) st)"
  proof (cases "map_of (st_workflows st) ?wid")
    case None
    have "same_counters (submitted_record req t st) (new_record ?wid)"
      using None by (simp add: submitted_record_def Let_def or_default_def get_workflow_def same_counters_def new_record_def empty_record_def)
    from upsert_new_ok [OF assms(1) None this] show ?thesis by (simp add: good_step_def)
  next
    case (Some r)
    with assms(2) have "sw_replace_existing req = Some True" by (simp add: replaces_knowingly_def get_workflow_def)
    then have "same_counters (submitted_record req t st) r"
      using Some store_ok_fields(2,6) [OF assms(1)]
      by (auto simp: submitted_record_def Let_def or_default_def get_workflow_def same_counters_def)
    from upsert_same_ok [OF assms(1) Some this] show ?thesis by (simp add: good_step_def)
  qed
qed

text \<open>
  A recorded submission: the events of the runtime are the stream, and they are appended to the
  history of the workflow.
\<close>

lemma stream_submit_cases:
  assumes "store_ok (cp_store s)" and "replaces_knowingly req (cp_store s)"
  obtains (replay) existing where "key_of (sw_idempotency_key req) \<noteq> []"
      "get_idempotency_record (key_of (sw_idempotency_key req)) (cp_store s) = Some existing"
      "cp_stream_submit_workflow env req s = Inr ([if ir_request_fingerprint existing \<noteq> ce_fingerprint_submit env req
         then rejection (pw_id (sw_config req)) (make_runtime_error ''Idempotency key was reused for a different request payload.'')
         else cp_make_response_event RunFinished (pw_id (sw_config req)) (ir_cached_response existing) replay_detail], s)"
  | (fresh) s1 r s' r' where
      "key_of (sw_idempotency_key req) = [] \<or> get_idempotency_record (key_of (sw_idempotency_key req)) (cp_store s) = None"
      "good_step (pw_id (sw_config req)) (cp_store s) (cp_store s1)"
      "st_events (cp_store s1) = st_events (cp_store s)"
      "map_of (st_workflows (cp_store s1)) (pw_id (sw_config req)) = Some r"
      "cp_runtime s1 = snd (rt_stream_submit_workflow (ce_runtime env) req (cp_runtime s))"
      "record_stream env (pw_id (sw_config req)) (key_of (sw_idempotency_key req)) (ce_fingerprint_submit env req)
         (fst (rt_stream_submit_workflow (ce_runtime env) req (cp_runtime s))) (r, s1) = Inr (r', s')"
      "cp_stream_submit_workflow env req s =
         Inr (fst (rt_stream_submit_workflow (ce_runtime env) req (cp_runtime s)), s')"
      "good_step (pw_id (sw_config req)) (cp_store s1) (cp_store s')" "wr_config r = sw_config req"
proof (cases "if key_of (sw_idempotency_key req) = [] then None
    else get_idempotency_record (key_of (sw_idempotency_key req)) (cp_store s)")
  case (Some existing)
  then show ?thesis
    by (intro replay [of existing]) (auto simp: cp_stream_submit_workflow_def Let_def split: if_splits)
next
  case None
  let ?wid = "pw_id (sw_config req)" and ?t = "ce_now env (cp_reads s)"
  let ?r = "submitted_record req ?t (cp_store s)"
  let ?run = "rt_stream_submit_workflow (ce_runtime env) req (cp_runtime s)"
  define s1 where "s1 = (publish_workflow_update ?wid (save_workflow ?r (s\<lparr>cp_reads := Suc (cp_reads s)\<rparr>)))
    \<lparr>cp_hydrated := push_unique (cp_hydrated s) ?wid, cp_runtime := snd ?run\<rparr>"
  have st: "cp_store s1 = upsert_workflow ?r (cp_store s)" by (simp add: s1_def save_workflow_def)
  note saved = submitted_record_saved [OF assms, of ?t, folded st]
  then obtain r' s' where *: "record_stream env ?wid (key_of (sw_idempotency_key req)) (ce_fingerprint_submit env req)
      (fst ?run) (?r, s1) = Inr (r', s')" "good_step ?wid (cp_store s1) (cp_store s')"
    using record_stream_ok [of s1 ?wid ?r env "key_of (sw_idempotency_key req)" "ce_fingerprint_submit env req" "fst ?run"]
    unfolding good_step_def by blast
  have "cp_stream_submit_workflow env req s = bind_result (record_stream env ?wid (key_of (sw_idempotency_key req))
      (ce_fingerprint_submit env req) (fst ?run) (?r, s1)) (\<lambda>(_, s). Inr (fst ?run, s))"
    unfolding cp_stream_submit_workflow_def Let_def None
    by (simp add: unix_time_ms_now_def s1_def save_workflow_def case_prod_unfold)
  with * have run: "cp_stream_submit_workflow env req s = Inr (fst ?run, s')" by simp
  have key: "key_of (sw_idempotency_key req) = [] \<or>
      get_idempotency_record (key_of (sw_idempotency_key req)) (cp_store s) = None"
    using None by (simp split: if_splits)
  have "st_events (cp_store s1) = st_events (cp_store s)" "cp_runtime s1 = snd ?run" by (simp add: st, simp add: s1_def)
  moreover have "wr_config ?r = sw_config req" by (simp add: submitted_record_def Let_def)
  ultimately show ?thesis by (intro fresh [OF key saved(1) _ saved(2) _ *(1) run *(2)])
qed

lemma hydrate_store [simp]:
  "cp_store (snd (hydrate env wid config auth s)) = cp_store s" "cp_feed (snd (hydrate env wid config auth s)) = cp_feed s"
  "cp_reads (snd (hydrate env wid config auth s)) = cp_reads s"
  by (simp_all add: hydrate_def Let_def case_prod_unfold)

definition frozen :: "workflow_record \<Rightarrow> bool" where
  "frozen r \<longleftrightarrow> ws_state (wr_summary r) = Paused \<or> ws_state (wr_summary r) = Cancelled"

lemma stream_reorchestrate_ok:
  assumes "store_ok (cp_store s)"
  shows "\<exists>evs s'. cp_stream_reorchestrate env req s = Inr (evs, s') \<and>
    good_step (rq_workflow_id req) (cp_store s) (cp_store s') \<and>
    (\<forall>r. get_workflow (rq_workflow_id req) (cp_store s) = Some r \<longrightarrow> frozen r \<longrightarrow> s' = s)"
proof (cases "get_workflow (rq_workflow_id req) (cp_store s)")
  case None
  then show ?thesis using assms by (simp add: cp_stream_reorchestrate_def good_step_refl)
next
  case (Some r)
  let ?wid = "rq_workflow_id req"
  show ?thesis
  proof (cases "frozen r")
    case True
    with Some show ?thesis using assms by (auto simp: cp_stream_reorchestrate_def frozen_def good_step_refl)
  next
    case False
    define h where "h = hydrate env ?wid (wr_config r) (rq_auth req) s"
    let ?run = "rt_stream_reorchestrate (ce_runtime env) req (cp_runtime (snd h))"
    have st: "cp_store (snd h) = cp_store s" by (simp add: h_def)
    obtain r' s' where "record_stream env ?wid (key_of (rq_idempotency_key req)) (ce_fingerprint_reorchestrate env req)
        (fst ?run) (r, (snd h)\<lparr>cp_runtime := snd ?run\<rparr>) = Inr (r', s')" "good_step ?wid (cp_store s) (cp_store s')"
      using record_stream_ok [of "(snd h)\<lparr>cp_runtime := snd ?run\<rparr>" ?wid r env "key_of (rq_idempotency_key req)"
          "ce_fingerprint_reorchestrate env req" "fst ?run"] assms Some st
      by (auto simp: good_step_def get_workflow_def)
    then have "\<exists>evs s'. cp_stream_reorchestrate env req s = Inr (evs, s') \<and> good_step ?wid (cp_store s) (cp_store s')"
      using False Some assms st
      by (auto simp: cp_stream_reorchestrate_def frozen_def Let_def case_prod_unfold h_def [symmetric] good_step_refl
          split: option.split)
    with Some False show ?thesis by auto
  qed
qed

lemma reorchestrate_ok:
  assumes "store_ok (cp_store s)"
  shows "\<exists>resp s'. cp_reorchestrate env req s = Inr (resp, s') \<and>
    good_step (rq_workflow_id req) (cp_store s) (cp_store s') \<and>
    (\<forall>r. get_workflow (rq_workflow_id req) (cp_store s) = Some r \<longrightarrow> frozen r \<longrightarrow> s' = s)"
  using stream_reorchestrate_ok [OF assms, of env req] by (auto simp: cp_reorchestrate_def)

lemma intervention_ok:
  assumes "store_ok (cp_store s)"
  shows "\<exists>resp s'. apply_manual_intervention env q s = Inr (resp, s') \<and>
    good_step (mi_workflow_id q) (cp_store s) (cp_store s') \<and>
    (\<forall>r. get_workflow (mi_workflow_id q) (cp_store s) = Some r \<longrightarrow> frozen r \<longrightarrow>
       st_events (cp_store s') = st_events (cp_store s) \<and> st_plans (cp_store s') = st_plans (cp_store s) \<and>
       (\<exists>r'. get_workflow (mi_workflow_id q) (cp_store s') = Some r' \<and> frozen r'))"
proof (cases "get_workflow (mi_workflow_id q) (cp_store s)")
  case None
  then show ?thesis using assms by (simp add: apply_manual_intervention_def good_step_refl)
next
  case (Some r)
  let ?wid = "mi_workflow_id q" and ?t = "ce_now env (cp_reads s)"
  let ?actor = "or_text (mi_actor q) kInternalControlActor" and ?note = "or_text (mi_note q) ''Manual intervention applied.''"
  let ?st = "upsert_workflow (audited r) (add_audit ?wid ?t ?actor ''manual_intervention'' ?note r (cp_store s))"
  define s1 where "s1 = publish_workflow_update ?wid (s\<lparr>cp_reads := Suc (cp_reads s), cp_store := ?st\<rparr>)"
  have st: "cp_store s1 = ?st" by (simp add: s1_def)
  have r: "map_of (st_workflows (cp_store s)) ?wid = Some r" using Some by (simp add: get_workflow_def)
  note audit = audit_store_ok [OF assms r _ refl, of "audited r"]
  have ok: "good_step ?wid (cp_store s) (cp_store s1)" "get_workflow ?wid (cp_store s1) = Some (audited r)"
    "st_events (cp_store s1) = st_events (cp_store s)" "st_plans (cp_store s1) = st_plans (cp_store s)"
    using audit by (simp_all add: st good_step_def same_counters_def get_workflow_def)
  then obtain resp s' where *: "cp_reorchestrate env (intervention_request q) s1 = Inr (resp, s')"
    "good_step ?wid (cp_store s1) (cp_store s')" "frozen (audited r) \<longrightarrow> s' = s1"
    using reorchestrate_ok [of s1 env "intervention_request q"] by (auto simp: good_step_def intervention_request_def)
  have "apply_manual_intervention env q s = Inr (\<lparr>ar_ok = ra_ok resp, ar_workflow = get_workflow ?wid (cp_store s'),
      ar_error_message = (if ra_ok resp then [] else ra_error_message resp)\<rparr>, s')"
    using Some r *(1) by (simp add: apply_manual_intervention_def unix_time_ms_now_def write_audit_eq umap_contains_def
        save_workflow_def Let_def s1_def)
  moreover have "frozen (audited r) = frozen r" by (simp add: frozen_def audited_def)
  ultimately show ?thesis
    using good_step_trans [OF ok(1) *(2)] ok *(3) Some by auto
qed

subsection \<open>Recovery\<close>

definition recoverable :: "workflow_record \<Rightarrow> bool" where
  "recoverable r \<longleftrightarrow> ws_state (wr_summary r) \<notin> {Cancelled, FailedState, StateUnspecified}"

lemma recover_workflow_ok:
  assumes "store_ok (cp_store s)" and "map_of (st_workflows (cp_store s)) (ws_workflow_id (wr_summary r)) = Some r"
  defines "wid \<equiv> ws_workflow_id (wr_summary r)"
  shows "\<exists>s'. recover_workflow env auth r s = Inr s' \<and> good_step wid (cp_store s) (cp_store s') \<and>
    st_events (cp_store s') = st_events (cp_store s) \<and> st_plans (cp_store s') = st_plans (cp_store s) \<and>
    (\<exists>r'. map_of (st_workflows (cp_store s')) wid = Some r' \<and> ws_state (wr_summary r') = ws_state (wr_summary r) \<and>
       wr_config r' = wr_config r) \<and>
    (if recoverable r then cp_runtime s' =
       snd (rt_submit_workflow (ce_runtime env) (replay_request (wr_config r) auth) (cp_runtime s)) \<and> wid \<in> set (cp_hydrated s')
     else cp_runtime s' = cp_runtime s)"
proof (cases "recoverable r")
  case False
  then show ?thesis using assms by (auto simp: recover_workflow_def recoverable_def good_step_refl)
next
  case True
  let ?t = "ce_now env (cp_reads s)"
  let ?r = "update_summary (\<lambda>m. m\<lparr>ws_updated_at := ?t\<rparr>) (audited r)"
  let ?st = "upsert_workflow ?r (add_audit wid ?t kInternalRecoveryActor ''recover''
    ''Rehydrating workflow state into runtime memory.'' r (cp_store s))"
  have contains: "umap_contains (st_workflows (cp_store s)) wid" using assms(2) by (simp add: umap_contains_def wid_def)
  note audit = audit_store_ok [OF assms(1) assms(2) _ refl, of ?r, folded wid_def]
  have ok: "good_step wid (cp_store s) ?st" "map_of (st_workflows ?st) wid = Some ?r"
    "st_events ?st = st_events (cp_store s)" "st_plans ?st = st_plans (cp_store s)"
    using audit by (simp_all add: good_step_def same_counters_def)
  have "recover_workflow env auth r s = Inr ((publish_workflow_update wid (s\<lparr>cp_reads := Suc (cp_reads s), cp_store := ?st\<rparr>))
      \<lparr>cp_runtime := snd (rt_submit_workflow (ce_runtime env) (replay_request (wr_config r) auth) (cp_runtime s)),
       cp_hydrated := push_unique (cp_hydrated s) wid\<rparr>)"
    using True contains
    by (simp add: recover_workflow_def recoverable_def unix_time_ms_now_def write_audit_eq wid_def [symmetric] Let_def
        save_workflow_def case_prod_unfold) (simp add: audited_def)
  then show ?thesis using True ok by (simp add: audited_def)
qed

end
