(* ===== verification/Control_Plane_Props.thy ===== *)
theory Control_Plane_Props
  imports Control_Plane_Correct
begin

text \<open>
  Runs of the control plane: sequences of its operations, pruning and restarts of the process, and
  the theorems about them.
\<close>

subsection \<open>Recovery of all workflows\<close>

definition recovered_runtime ::
  "'rt control_env \<Rightarrow> client_auth_context \<Rightarrow> workflow_record list \<Rightarrow> 'rt \<Rightarrow> 'rt" where
  "recovered_runtime env auth rs rt =
     fold (\<lambda>r rt. snd (rt_submit_workflow (ce_runtime env) (replay_request (wr_config r) auth) rt)) (filter recoverable rs) rt"

definition state_and_config :: "workflow_record \<Rightarrow> workflow_lifecycle_state \<times> pb_workflow_config" where
  "state_and_config r = (ws_state (wr_summary r), wr_config r)"

lemma recover_each_ok:
  assumes "store_ok (cp_store s)" and "distinct (map (\<lambda>r. ws_workflow_id (wr_summary r)) rs)"
    and "\<And>r. r \<in> set rs \<Longrightarrow> map_of (st_workflows (cp_store s)) (ws_workflow_id (wr_summary r)) = Some r"
  shows "\<exists>s'. recover_each env auth rs s = Inr s' \<and> store_ok (cp_store s') \<and> appends (cp_store s) (cp_store s') \<and>
    st_events (cp_store s') = st_events (cp_store s) \<and> st_plans (cp_store s') = st_plans (cp_store s) \<and>
    (\<forall>w. map_option state_and_config (map_of (st_workflows (cp_store s')) w) =
         map_option state_and_config (map_of (st_workflows (cp_store s)) w)) \<and>
    cp_runtime s' = recovered_runtime env auth rs (cp_runtime s)"
  using assms
proof (induction rs arbitrary: s)
  case Nil
  then show ?case by (simp add: recovered_runtime_def)
next
  case (Cons r rs)
  let ?wid = "ws_workflow_id (wr_summary r)"
  have r: "map_of (st_workflows (cp_store s)) ?wid = Some r" using Cons.prems(3) by simp
  obtain s1 r1 where s1: "recover_workflow env auth r s = Inr s1" "good_step ?wid (cp_store s) (cp_store s1)"
    "st_events (cp_store s1) = st_events (cp_store s)" "st_plans (cp_store s1) = st_plans (cp_store s)"
    "map_of (st_workflows (cp_store s1)) ?wid = Some r1" "state_and_config r1 = state_and_config r"
    "cp_runtime s1 = recovered_runtime env auth [r] (cp_runtime s)"
    using recover_workflow_ok [OF Cons.prems(1) r, of env auth]
    by (auto simp: recovered_runtime_def state_and_config_def split: if_splits)
  have same: "map_option state_and_config (map_of (st_workflows (cp_store s1)) w) =
      map_option state_and_config (map_of (st_workflows (cp_store s)) w)" for w
    using s1(2,5,6) r by (cases "w = ?wid") (simp_all add: good_step_def only_changes_def)
  have later: "map_of (st_workflows (cp_store s1)) (ws_workflow_id (wr_summary q)) = Some q" if "q \<in> set rs" for q
  proof -
    have "ws_workflow_id (wr_summary q) \<noteq> ?wid" using Cons.prems(2) that by (auto simp: image_iff)
    then show ?thesis using s1(2) Cons.prems(3) [of q] that by (simp add: good_step_def only_changes_def)
  qed
  obtain s' where s': "recover_each env auth rs s1 = Inr s'" "store_ok (cp_store s')" "appends (cp_store s1) (cp_store s')"
    "st_events (cp_store s') = st_events (cp_store s1)" "st_plans (cp_store s') = st_plans (cp_store s1)"
    "\<forall>w. map_option state_and_config (map_of (st_workflows (cp_store s')) w) =
         map_option state_and_config (map_of (st_workflows (cp_store s1)) w)"
    "cp_runtime s' = recovered_runtime env auth rs (cp_runtime s1)"
    using Cons.IH [of s1] s1(2) Cons.prems(2) later by (auto simp: good_step_def)
  have "appends (cp_store s) (cp_store s')" using s1(2) s'(3) by (auto simp: good_step_def intro: appends_trans)
  with s1 s' same show ?case
    by (simp add: recovered_runtime_def)
qed

lemma recover_active_workflows_ok:
  assumes "store_ok (cp_store s)"
  shows "\<exists>s'. recover_active_workflows env auth s = Inr s' \<and> store_ok (cp_store s') \<and> appends (cp_store s) (cp_store s') \<and>
    st_events (cp_store s') = st_events (cp_store s) \<and> st_plans (cp_store s') = st_plans (cp_store s) \<and>
    (\<forall>w. map_option state_and_config (map_of (st_workflows (cp_store s')) w) =
         map_option state_and_config (map_of (st_workflows (cp_store s)) w)) \<and>
    cp_runtime s' = recovered_runtime env auth (list_all_workflows (cp_store s)) (cp_runtime s)"
proof -
  let ?wfs = "st_workflows (cp_store s)"
  note ok = store_ok_fields [OF assms]
  have key: "ws_workflow_id (wr_summary (snd p)) = fst p" if "p \<in> set ?wfs" for p
    using ok(1,2) that by (cases p) auto
  then have "map (\<lambda>p. ws_workflow_id (wr_summary (snd p))) ?wfs = map fst ?wfs" by simp
  with ok(1) have "distinct (map (\<lambda>r. ws_workflow_id (wr_summary r)) (map snd ?wfs))" by (simp only: map_map comp_def)
  then have "distinct (map (\<lambda>r. ws_workflow_id (wr_summary r)) (list_all_workflows (cp_store s)))"
    unfolding list_all_workflows_def distinct_map set_sort distinct_sort .
  moreover have "map_of ?wfs (ws_workflow_id (wr_summary r)) = Some r" if "r \<in> set (list_all_workflows (cp_store s))" for r
    using that key ok(1) by (auto simp: list_all_workflows_def)
  ultimately show ?thesis
    unfolding recover_active_workflows_def using recover_each_ok [OF assms] by blast
qed

subsection \<open>Pruning\<close>

lemma numbers_ok_filter:
  assumes "numbers_ok c (map f xs)" and "\<And>x. x \<in> set xs \<Longrightarrow> f x = c \<Longrightarrow> P x"
  shows "numbers_ok c (map f (filter P xs))"
proof (cases xs rule: rev_cases)
  case Nil
  then show ?thesis using assms by simp
next
  case (snoc ys y)
  with assms have "f y = c" "P y" by (auto simp: numbers_ok_def)
  moreover have "sorted_wrt (<) (map f (filter P xs))"
    using assms(1) by (auto simp: numbers_ok_def sorted_wrt_map intro: sorted_wrt_filter)
  ultimately show ?thesis using assms(1) snoc by (auto simp: numbers_ok_def)
qed

lemma histories_ok_prune:
  assumes "histories_ok rows counter st" and "\<And>w. map_of (st_workflows st') w = map_of (st_workflows st) w"
  shows "histories_ok (filter (\<lambda>r. \<not> stale_row st cutoff counter recorded r) rows) counter st'"
proof -
  let ?P = "\<lambda>r. \<not> stale_row st cutoff counter recorded r"
  have rows: "rows_of w (filter ?P rows) = filter ?P (rows_of w rows)" for w
    by (simp add: rows_of_def conj_commute)
  have "case map_of (st_workflows st') w of None \<Rightarrow> rows_of w (filter ?P rows) = []
      | Some r \<Rightarrow> numbers_ok (counter (wr_summary r)) (row_numbers w (filter ?P rows))" for w
  proof (cases "map_of (st_workflows st) w")
    case None
    then have "rows_of w rows = []" using assms(1) unfolding histories_ok_def by (auto dest: spec [of _ w])
    with None show ?thesis by (simp add: assms(2) rows)
  next
    case (Some r)
    have "numbers_ok (counter (wr_summary r)) (map (\<lambda>x. snd (fst x)) (rows_of w rows))"
      using histories_ok_number [OF assms(1) Some] by (simp add: row_numbers_def)
    then have "numbers_ok (counter (wr_summary r)) (map (\<lambda>x. snd (fst x)) (filter ?P (rows_of w rows)))"
      by (rule numbers_ok_filter) (auto simp: rows_of_def stale_row_def stale_def Some)
    with Some show ?thesis by (simp add: assms(2) row_numbers_def rows)
  qed
  moreover have "distinct (map fst (filter ?P rows))"
    using assms(1) by (auto simp: histories_ok_def distinct_map inj_on_def)
  ultimately show ?thesis by (simp add: histories_ok_def)
qed

lemma prune_store_ok: "store_ok st \<Longrightarrow> store_ok (snd (prune_stale_boot_data cutoff st))"
  using store_ok_fields [of st] unfolding store_ok_def [of "snd (prune_stale_boot_data cutoff st)"] prune_tables
  by (auto simp: histories_ok_prune prune_tables plans_keyed_def)

text \<open>The rows that pruning must keep are the ones the control plane's counters name.\<close>

lemma store_ok_current_row:
  assumes "histories_ok rows counter st" and "map_of (st_workflows st) wid = Some r" and "0 < counter (wr_summary r)"
  shows "current_row counter wid st rows"
proof -
  let ?ns = "row_numbers wid rows" and ?c = "counter (wr_summary r)"
  have ok: "numbers_ok ?c ?ns" by (rule histories_ok_number [OF assms(1,2)])
  then have ne: "?ns \<noteq> []" and last: "last ?ns = ?c" using assms(3) by (auto simp: numbers_ok_def split: if_splits)
  have "?c \<in> set ?ns" using last_in_set [OF ne] last by simp
  then have "(wid, ?c) \<in> fst ` set rows" by (force simp: row_numbers_def rows_of_def)
  moreover have "n \<le> ?c" if "((wid, n), x) \<in> set rows" for n x
  proof -
    have "n \<in> set ?ns" using that by (force simp: row_numbers_def rows_of_def)
    with ok ne last show ?thesis
      by (cases ?ns rule: rev_cases) (auto simp: numbers_ok_def sorted_wrt_append less_imp_le)
  qed
  ultimately show ?thesis
    using assms(1,2) by (auto simp: current_row_def histories_ok_def map_of_eq_None_iff)
qed

subsection \<open>Runs\<close>

datatype 'rt control_op = Submit submit_workflow_request | Reorchestrate reorchestrate_request
  | Pause action_request | Resume action_request | Cancel action_request | Intervene manual_intervention_request
  | Recover client_auth_context | PruneHistory int | NewProcess 'rt string "update_feed option"

definition drop_reply :: "store_error + 'a \<times> 's \<Rightarrow> store_error + 's" where
  "drop_reply r = bind_result r (\<lambda>(_, s). Inr s)"

text \<open>A new process opens the same database; its runtime and feed are new.\<close>

primrec control_exec :: "'rt control_env \<Rightarrow> 'rt control_op \<Rightarrow> 'rt control_plane \<Rightarrow> store_error + 'rt control_plane" where
  "control_exec env (Submit req) s = drop_reply (cp_submit_workflow env req s)"
| "control_exec env (Reorchestrate req) s = drop_reply (cp_reorchestrate env req s)"
| "control_exec env (Pause q) s = drop_reply (pause_workflow env q s)"
| "control_exec env (Resume q) s = drop_reply (resume_workflow env q s)"
| "control_exec env (Cancel q) s = drop_reply (cancel_workflow env q s)"
| "control_exec env (Intervene q) s = drop_reply (apply_manual_intervention env q s)"
| "control_exec env (Recover auth) s = recover_active_workflows env auth s"
| "control_exec env (PruneHistory days) s =
     (let (now, s) = unix_time_ms_now env s in
      Inr (s\<lparr>cp_store := the (snd (prune_stale_boot_history now days (Some (cp_store s))))\<rparr>))"
| "control_exec env (NewProcess rt boot feed) s =
     Inr ((make_control_plane rt ((cp_store s)\<lparr>st_boot_id := boot\<rparr>) feed)\<lparr>cp_reads := cp_reads s\<rparr>)"

primrec allowed_op :: "workflow_store \<Rightarrow> 'rt control_op \<Rightarrow> bool" where
  "allowed_op st (Submit req) = replaces_knowingly req st"
| "allowed_op st (Reorchestrate req) = True"
| "allowed_op st (Pause q) = True"
| "allowed_op st (Resume q) = True"
| "allowed_op st (Cancel q) = True"
| "allowed_op st (Intervene q) = True"
| "allowed_op st (Recover auth) = True"
| "allowed_op st (PruneHistory days) = True"
| "allowed_op st (NewProcess rt boot feed) = True"

primrec prunes :: "'rt control_op \<Rightarrow> bool" where
  "prunes (Submit req) = False"
| "prunes (Reorchestrate req) = False"
| "prunes (Pause q) = False"
| "prunes (Resume q) = False"
| "prunes (Cancel q) = False"
| "prunes (Intervene q) = False"
| "prunes (Recover auth) = False"
| "prunes (PruneHistory days) = True"
| "prunes (NewProcess rt boot feed) = False"

inductive control_reachable :: "'rt control_env \<Rightarrow> 'rt control_plane \<Rightarrow> bool" for env where
  start: "control_reachable env (make_control_plane rt (empty_store boot) feed)"
| step: "control_reachable env s \<Longrightarrow> allowed_op (cp_store s) oper \<Longrightarrow> control_exec env oper s = Inr s' \<Longrightarrow>
    control_reachable env s'"

lemma submit_ok:
  assumes "store_ok (cp_store s)" and "replaces_knowingly req (cp_store s)"
  shows "\<exists>evs s'. cp_stream_submit_workflow env req s = Inr (evs, s') \<and> good_step (pw_id (sw_config req)) (cp_store s) (cp_store s')"
  using assms
proof (cases rule: stream_submit_cases [where env = env])
  case (replay existing)
  then show ?thesis using assms by (auto simp: good_step_refl)
next
  case (fresh s1 r s' r')
  then show ?thesis by (auto intro: good_step_trans)
qed

lemma store_ok_boot [simp]: "store_ok (st\<lparr>st_boot_id := boot\<rparr>) = store_ok st"
  by (simp add: store_ok_def histories_ok_def)

lemma action_exec_ok:
  "store_ok (cp_store s) \<Longrightarrow> \<exists>s'. drop_reply (operator_action new_state action detail env q s) = Inr s' \<and>
     store_ok (cp_store s') \<and> appends (cp_store s) (cp_store s')"
  using operator_action_ok [of s new_state action detail env q] by (auto simp: drop_reply_def good_step_def)

lemma control_exec_ok:
  assumes "store_ok (cp_store s)" and "allowed_op (cp_store s) oper"
  shows "\<exists>s'. control_exec env oper s = Inr s' \<and> store_ok (cp_store s') \<and>
    (\<not> prunes oper \<longrightarrow> appends (cp_store s) (cp_store s'))"
proof (cases oper)
  case (Submit req)
  then show ?thesis using submit_ok [OF assms(1), of req env] assms(2)
    by (auto simp: cp_submit_workflow_def drop_reply_def good_step_def)
next
  case (Reorchestrate req)
  then show ?thesis using reorchestrate_ok [OF assms(1), of env req] by (auto simp: drop_reply_def good_step_def)
next
  case (Pause q)
  then show ?thesis using assms(1) by (simp add: pause_workflow_def action_exec_ok)
next
  case (Resume q)
  then show ?thesis using assms(1) by (simp add: resume_workflow_def action_exec_ok)
next
  case (Cancel q)
  then show ?thesis using assms(1) by (simp add: cancel_workflow_def action_exec_ok)
next
  case (Intervene q)
  then show ?thesis using intervention_ok [OF assms(1), of env q] by (auto simp: drop_reply_def good_step_def)
next
  case (Recover auth)
  then show ?thesis using recover_active_workflows_ok [OF assms(1), of env auth] by auto
next
  case (PruneHistory days)
  have "snd (prune_stale_boot_history now days (Some st)) =
      Some (if days \<le> 0 then st else snd (prune_stale_boot_data (now - days * kMsPerDay) st))" for now st
    by (simp add: prune_stale_boot_history_def Let_def case_prod_unfold)
  with PruneHistory show ?thesis using assms(1) by (simp add: unix_time_ms_now_def prune_store_ok)
next
  case (NewProcess rt boot feed)
  then show ?thesis using assms(1) by (simp add: make_control_plane_def appends_def)
qed

lemma reachable_store_ok: "control_reachable env s \<Longrightarrow> store_ok (cp_store s)"
proof (induction rule: control_reachable.induct)
  case (start rt boot feed)
  then show ?case by (simp add: make_control_plane_def store_ok_def histories_ok_def empty_store_def rows_of_def plans_keyed_def)
next
  case (step s oper s')
  then show ?case using control_exec_ok [of s oper env] by auto
qed


subsection \<open>Paused and cancelled workflows\<close>

text \<open>The operations that may change the history of a frozen workflow: its submission, its resumption and pruning.\<close>

primrec may_change :: "string \<Rightarrow> 'rt control_op \<Rightarrow> bool" where
  "may_change w (Submit req) = (pw_id (sw_config req) = w)"
| "may_change w (Reorchestrate req) = False"
| "may_change w (Pause q) = False"
| "may_change w (Resume q) = (aq_workflow_id q = w)"
| "may_change w (Cancel q) = False"
| "may_change w (Intervene q) = False"
| "may_change w (Recover auth) = False"
| "may_change w (PruneHistory days) = True"
| "may_change w (NewProcess rt boot feed) = False"

definition frozen_at :: "string \<Rightarrow> workflow_store \<Rightarrow> bool" where
  "frozen_at w st \<longleftrightarrow> (\<exists>r. map_of (st_workflows st) w = Some r \<and> frozen r)"

definition same_history :: "string \<Rightarrow> workflow_store \<Rightarrow> workflow_store \<Rightarrow> bool" where
  "same_history w st st' \<longleftrightarrow> rows_of w (st_events st') = rows_of w (st_events st) \<and> rows_of w (st_plans st') = rows_of w (st_plans st)"

lemma only_changes_frozen:
  "only_changes v st st' \<Longrightarrow> v \<noteq> w \<Longrightarrow> frozen_at w st \<Longrightarrow> frozen_at w st' \<and> same_history w st st'"
  by (simp add: only_changes_def frozen_at_def same_history_def)

lemma action_frozen:
  assumes "operator_action new_state action detail env q s = Inr (resp, s')" and "store_ok (cp_store s)"
    and "frozen_at w (cp_store s)" and "aq_workflow_id q = w \<longrightarrow> (\<forall>r. new_state r \<in> {Paused, Cancelled})"
  shows "frozen_at w (cp_store s') \<and> same_history w (cp_store s) (cp_store s')"
proof -
  note ok = operator_action_ok [OF assms(2), of new_state action detail env q]
  show ?thesis
  proof (cases "aq_workflow_id q = w")
    case True
    obtain r where r: "get_workflow w (cp_store s) = Some r" using assms(3) by (auto simp: frozen_at_def get_workflow_def)
    with ok assms(1,4) True show ?thesis
      by (auto simp: frozen_at_def frozen_def same_history_def get_workflow_def)
  next
    case False
    with ok assms(1,3) show ?thesis by (auto simp: good_step_def dest: only_changes_frozen)
  qed
qed

lemma exec_frozen:
  assumes "store_ok (cp_store s)" and "allowed_op (cp_store s) oper" and "\<not> may_change w oper"
    and "frozen_at w (cp_store s)" and "control_exec env oper s = Inr s'"
  shows "frozen_at w (cp_store s') \<and> same_history w (cp_store s) (cp_store s')"
proof (cases oper)
  case (Submit req)
  then obtain evs where "cp_stream_submit_workflow env req s = Inr (evs, s')"
    using assms(5) by (auto simp: cp_submit_workflow_def drop_reply_def)
  with submit_ok [OF assms(1), of req env] assms(2) Submit have "only_changes (pw_id (sw_config req)) (cp_store s) (cp_store s')"
    by (auto simp: good_step_def)
  with assms(3,4) Submit show ?thesis by (auto dest: only_changes_frozen)
next
  case (Reorchestrate req)
  with assms(5) reorchestrate_ok [OF assms(1), of env req]
  have ok: "good_step (rq_workflow_id req) (cp_store s) (cp_store s')"
    "\<forall>r. get_workflow (rq_workflow_id req) (cp_store s) = Some r \<longrightarrow> frozen r \<longrightarrow> s' = s"
    by (auto simp: drop_reply_def)
  show ?thesis
  proof (cases "rq_workflow_id req = w")
    case True
    with ok(2) assms(4) have "s' = s" by (auto simp: frozen_at_def get_workflow_def)
    with assms(4) show ?thesis by (simp add: same_history_def)
  next
    case False
    with ok(1) assms(4) show ?thesis by (auto simp: good_step_def dest: only_changes_frozen)
  qed
next
  case (Pause q)
  then obtain resp where "pause_workflow env q s = Inr (resp, s')" using assms(5) by (auto simp: drop_reply_def)
  from action_frozen [OF this [unfolded pause_workflow_def] assms(1,4)] show ?thesis by simp
next
  case (Resume q)
  then obtain resp where "resume_workflow env q s = Inr (resp, s')" using assms(5) by (auto simp: drop_reply_def)
  from action_frozen [OF this [unfolded resume_workflow_def] assms(1,4)] assms(3) Resume show ?thesis by simp
next
  case (Cancel q)
  then obtain resp where "cancel_workflow env q s = Inr (resp, s')" using assms(5) by (auto simp: drop_reply_def)
  from action_frozen [OF this [unfolded cancel_workflow_def] assms(1,4)] show ?thesis by simp
next
  case (Intervene q)
  note ok = intervention_ok [OF assms(1), of env q]
  show ?thesis
  proof (cases "mi_workflow_id q = w")
    case True
    with ok assms(4,5) Intervene show ?thesis
      by (auto simp: drop_reply_def frozen_at_def same_history_def get_workflow_def)
  next
    case False
    with ok assms(4,5) Intervene show ?thesis by (auto simp: drop_reply_def good_step_def dest: only_changes_frozen)
  qed
next
  case (Recover auth)
  with recover_active_workflows_ok [OF assms(1), of env auth] assms(5)
  have "map_option state_and_config (map_of (st_workflows (cp_store s')) w) =
      map_option state_and_config (map_of (st_workflows (cp_store s)) w)"
    "st_events (cp_store s') = st_events (cp_store s)" "st_plans (cp_store s') = st_plans (cp_store s)" by auto
  with assms(4) show ?thesis
    by (auto simp: frozen_at_def same_history_def state_and_config_def frozen_def)
next
  case (PruneHistory days)
  then show ?thesis using assms(3) by simp
next
  case (NewProcess rt boot feed)
  then show ?thesis using assms(4,5) by (auto simp: frozen_at_def same_history_def make_control_plane_def)
qed

text \<open>Steps that do not change the history of \<open>w\<close> on purpose.\<close>

inductive quiet_path :: "'rt control_env \<Rightarrow> string \<Rightarrow> 'rt control_plane \<Rightarrow> 'rt control_plane \<Rightarrow> bool" for env w where
  here: "quiet_path env w s s"
| step: "quiet_path env w s s1 \<Longrightarrow> allowed_op (cp_store s1) oper \<Longrightarrow> \<not> may_change w oper \<Longrightarrow>
    control_exec env oper s1 = Inr s' \<Longrightarrow> quiet_path env w s s'"

lemma quiet_path_frozen:
  "quiet_path env w s s' \<Longrightarrow> control_reachable env s \<Longrightarrow> frozen_at w (cp_store s) \<Longrightarrow>
     control_reachable env s' \<and> frozen_at w (cp_store s') \<and> same_history w (cp_store s) (cp_store s')"
proof (induction rule: quiet_path.induct)
  case (here s)
  then show ?case by (simp add: same_history_def)
next
  case (step s s1 oper s')
  then have s1: "control_reachable env s1" "frozen_at w (cp_store s1)" by simp_all
  have "frozen_at w (cp_store s') \<and> same_history w (cp_store s1) (cp_store s')"
    by (rule exec_frozen [OF reachable_store_ok [OF s1(1)] step.hyps(2,3) s1(2) step.hyps(4)])
  with step show ?case by (auto simp: same_history_def intro: control_reachable.step)
qed


subsection \<open>The runtime interface\<close>

text \<open>What the control plane relies on: a stream ends with its response.\<close>

locale runtime_interface =
  fixes api :: "'rt runtime_api"
  assumes submit_ends: "\<exists>evs e resp. fst (rt_stream_submit_workflow api req rt) = evs @ [e] \<and> we_response e = Some resp"
    and reorchestrate_ends: "\<exists>evs e resp. fst (rt_stream_reorchestrate api rreq rt) = evs @ [e] \<and> we_response e = Some resp"
begin

lemma submit_final:
  obtains evs e resp where "fst (rt_stream_submit_workflow api req rt) = evs @ [e]" "we_response e = Some resp"
    "cp_consume_final_response (fst (rt_stream_submit_workflow api req rt)) = resp"
  using submit_ends [of req rt]
  by (auto simp: cp_consume_final_response_def final_response_append final_response_def)

lemma reorchestrate_final:
  obtains evs e resp where "fst (rt_stream_reorchestrate api req rt) = evs @ [e]" "we_response e = Some resp"
    "cp_consume_final_response (fst (rt_stream_reorchestrate api req rt)) = resp"
  using reorchestrate_ends [of req rt]
  by (auto simp: cp_consume_final_response_def final_response_append final_response_def)

end

lemma stream_wf_ends: "stream_wf evs \<Longrightarrow> \<exists>xs e resp. evs = xs @ [e] \<and> we_response e = Some resp"
  by (cases evs rule: rev_cases) (auto simp: stream_wf_def)

interpretation in_memory: runtime_interface "in_memory_api entries" for entries
  by unfold_locales
    (use stream_wf_ends [OF stream_submit_wf] stream_wf_ends [OF stream_reorchestrate_wf] in
      \<open>simp_all only: in_memory_api_def runtime_api.simps\<close>)

subsection \<open>The end of a recorded stream\<close>

lemma record_stream_append:
  "record_stream env wid key fp (xs @ ys) rs =
     bind_result (record_stream env wid key fp xs rs) (record_stream env wid key fp ys)"
  by (induction xs arbitrary: rs) (auto simp: bind_result_def split: sum.split)

lemma event_store_idempotency:
  "st_idempotency (event_store wid key fp t e r st) = (case we_response e of None \<Rightarrow> st_idempotency st
     | Some resp \<Rightarrow> if key = [] then st_idempotency st else
         AList.update key (st_boot_id st, \<lparr>ir_key = key, ir_workflow_id = wid, ir_request_fingerprint = fp,
           ir_recorded_at = t, ir_cached_response = resp\<rparr>) (st_idempotency st))"
  by (cases "we_response e") (simp_all add: event_store_def Let_def add_plan_def add_idempotency_def)

lemma record_stream_end:
  assumes "store_ok (cp_store s)" and "map_of (st_workflows (cp_store s)) wid = Some r"
    and "record_stream env wid key fp (xs @ [e]) (r, s) = Inr (r', s')" and "we_response e = Some resp"
  shows "get_workflow wid (cp_store s') = Some r'" and "wr_latest_response r' = Some resp"
    and "key \<noteq> [] \<Longrightarrow> \<exists>i. get_idempotency_record key (cp_store s') = Some i \<and> ir_request_fingerprint i = fp \<and>
      ir_cached_response i = resp"
    and "ra_ok resp \<Longrightarrow> pr_result_ok (ra_result resp) \<Longrightarrow>
      \<exists>p. list_plan_versions wid 1 (cp_store s') = [p] \<and> pv_response p = resp \<and>
        pv_version p = ws_latest_plan_version (wr_summary r')"
proof -
  obtain r1 s1 where s1: "record_stream env wid key fp xs (r, s) = Inr (r1, s1)" "store_ok (cp_store s1)"
    "map_of (st_workflows (cp_store s1)) wid = Some r1"
    using record_stream_ok [OF assms(1,2), of env key fp xs] by blast
  let ?t = "ce_now env (cp_reads s1)"
  have "umap_contains (st_workflows (cp_store s1)) wid" using s1(3) by (simp add: umap_contains_def)
  from record_event_eq [OF this refl, of env key fp e r1] s1(1) assms(3)
  have r': "r' = event_record ?t e r1" and st': "cp_store s' = event_store wid key fp ?t e r1 (cp_store s1)"
    by (auto simp: record_stream_append)
  note ok = event_store_ok [OF s1(2,3) refl, where key = key and fp = fp and t = ?t and e = e]
  show "get_workflow wid (cp_store s') = Some r'" using ok(4) by (simp add: get_workflow_def st' r')
  show "wr_latest_response r' = Some resp" using assms(4) by (simp add: r' event_record_def response_record_def)
  show "key \<noteq> [] \<Longrightarrow> \<exists>i. get_idempotency_record key (cp_store s') = Some i \<and> ir_request_fingerprint i = fp \<and>
      ir_cached_response i = resp"
    using assms(4) by (simp add: get_idempotency_record_def st' event_store_idempotency)
  show "\<exists>p. list_plan_versions wid 1 (cp_store s') = [p] \<and> pv_response p = resp \<and>
      pv_version p = ws_latest_plan_version (wr_summary r')" if "ra_ok resp" "pr_result_ok (ra_result resp)"
  proof -
    have new: "new_plan e = Some resp" using that assms(4) by (simp add: new_plan_def)
    let ?n = "ws_latest_plan_version (wr_summary r1) + 1"
    let ?p = "\<lparr>pv_version = ?n, pv_recorded_at = ?t, pv_response = resp\<rparr>"
    have plans: "histories_ok (st_plans (cp_store s')) ws_latest_plan_version (cp_store s')"
      "map_of (st_workflows (cp_store s')) wid = Some r'" "ws_latest_plan_version (wr_summary r') = ?n"
      using store_ok_fields(4) [OF ok(1)] ok(4) new by (simp_all add: st' r' event_record_counters)
    have row: "map_of (st_plans (cp_store s')) (wid, ?n) = Some (st_boot_id (cp_store s1), ?p)"
      using new by (simp add: st' event_store_tables)
    have top: "n \<le> ?n" if "((wid, n), x) \<in> set (st_plans (cp_store s'))" for n x
    proof -
      have "n \<in> set (row_numbers wid (st_plans (cp_store s')))" using that by (force simp: row_numbers_def rows_of_def)
      with histories_ok_number [OF plans(1,2)] plans(3) show ?thesis
        by (cases "row_numbers wid (st_plans (cp_store s'))" rule: rev_cases)
          (auto simp: numbers_ok_def sorted_wrt_append less_imp_le)
    qed
    have "history_of wid 1 (st_plans (cp_store s')) = [?p]"
      using plans(1) by (intro history_last [OF _ map_of_SomeD [OF row] top]) (simp_all add: histories_ok_def)
    then show ?thesis using plans(3) by (simp add: list_plan_versions_def)
  qed
qed


text \<open>
  C24. Submissions with an idempotency key happen once: repeating the request in the state the
  first one left returns the same response and changes nothing, neither in the store nor in the runtime
  nor in the feed.
\<close>

theorem submit_is_idempotent:
  assumes "control_reachable env s" and "ce_runtime env = in_memory_api entries"
    and "replaces_knowingly req (cp_store s)" and "key_of (sw_idempotency_key req) \<noteq> []"
    and "cp_submit_workflow env req s = Inr (resp, s')"
  shows "cp_submit_workflow env req s' = Inr (resp, s')"
  using reachable_store_ok [OF assms(1)] assms(3)
proof (cases rule: stream_submit_cases [where env = env])
  case (replay existing)
  with assms(5) have "s' = s" by (auto simp: cp_submit_workflow_def)
  with assms(5) show ?thesis by simp
next
  case (fresh s1 r s2 r')
  let ?key = "key_of (sw_idempotency_key req)"
  let ?evs = "fst (rt_stream_submit_workflow (ce_runtime env) req (cp_runtime s))"
  obtain xs e fin where evs: "?evs = xs @ [e]" "we_response e = Some fin" "cp_consume_final_response ?evs = fin"
    unfolding assms(2) by (rule in_memory.submit_final)
  have s2: "s2 = s'" "resp = fin" using assms(5) fresh(7) evs(3) by (auto simp: cp_submit_workflow_def)
  have "store_ok (cp_store s1)" using fresh(2) by (simp add: good_step_def)
  from record_stream_end(3) [OF this fresh(4) fresh(6) [unfolded evs(1)] evs(2) assms(4)]
  obtain i where "get_idempotency_record ?key (cp_store s') = Some i" "ir_request_fingerprint i = ce_fingerprint_submit env req"
    "ir_cached_response i = fin"
    unfolding s2 by blast
  with assms(4) s2 show ?thesis
    by (simp add: cp_submit_workflow_def cp_stream_submit_workflow_def cp_consume_final_response_def final_response_def
        cp_make_response_event_def)
qed

subsection \<open>Recovery into the in-memory runtime\<close>

lemma replay_submitted:
  assumes "ra_ok (authorize (im_security rs) auth)"
  shows "snd (submit_workflow entries (replay_request config auth) rs) =
    rs\<lparr>im_workflows := AList.update (pw_id config) (to_app_workflow config) (im_workflows rs)\<rparr>"
  using assms by (simp add: submit_workflow_def stream_submit_workflow_def replay_request_def or_default_def Let_def
      case_prod_unfold to_app_workflow_def)

lemma recovered_sessions:
  assumes "ra_ok (authorize (im_security rs) auth)" and "ce_runtime env = in_memory_api entries"
    and "distinct (map (\<lambda>r. pw_id (wr_config r)) qs)"
  shows "map_of (im_workflows (recovered_runtime env auth qs rs)) w =
    (case find (\<lambda>r. recoverable r \<and> pw_id (wr_config r) = w) qs of
       None \<Rightarrow> map_of (im_workflows rs) w
     | Some r \<Rightarrow> Some (to_app_workflow (wr_config r)))"
  using assms(1,3)
proof (induction qs arbitrary: rs)
  case Nil
  then show ?case by (simp add: recovered_runtime_def)
next
  case (Cons q qs)
  let ?rs = "if recoverable q then snd (submit_workflow entries (replay_request (wr_config q) auth) rs) else rs"
  have run: "recovered_runtime env auth (q # qs) rs = recovered_runtime env auth qs ?rs"
    by (simp add: recovered_runtime_def assms(2) in_memory_api_def)
  have "ra_ok (authorize (im_security ?rs) auth)" using Cons.prems(1) by (simp add: replay_submitted)
  with Cons.IH [of ?rs] Cons.prems have ih: "map_of (im_workflows (recovered_runtime env auth qs ?rs)) w =
      (case find (\<lambda>r. recoverable r \<and> pw_id (wr_config r) = w) qs of None \<Rightarrow> map_of (im_workflows ?rs) w
       | Some r \<Rightarrow> Some (to_app_workflow (wr_config r)))" by simp
  show ?case
  proof (cases "recoverable q \<and> pw_id (wr_config q) = w")
    case True
    have "find (\<lambda>r. recoverable r \<and> pw_id (wr_config r) = w) qs = None"
      using Cons.prems(2) True by (auto simp: find_None_iff image_iff)
    with ih have "map_of (im_workflows (recovered_runtime env auth qs ?rs)) w = map_of (im_workflows ?rs) w" by simp
    with True show ?thesis using Cons.prems(1) unfolding run by (simp add: replay_submitted)
  next
    case False
    then have "map_of (im_workflows ?rs) w = map_of (im_workflows rs) w" using Cons.prems(1) by (auto simp: replay_submitted)
    with ih have "map_of (im_workflows (recovered_runtime env auth (q # qs) rs)) w =
        (case find (\<lambda>r. recoverable r \<and> pw_id (wr_config r) = w) qs of None \<Rightarrow> map_of (im_workflows rs) w
         | Some r \<Rightarrow> Some (to_app_workflow (wr_config r)))"
      unfolding run by (simp only:)
    with False show ?thesis by auto
  qed
qed

text \<open>
  Recovery: in a new process, with credentials the runtime accepts, recovering the active workflows
  gives the runtime exactly the workflows of the database that are neither cancelled nor failed, each
  with the configuration it was submitted with, and leaves their states, events and plans in the store
  as they were.
\<close>

theorem recovery_restores_runtime:
  assumes "control_reachable env s" and "ce_runtime env = in_memory_api entries"
    and "cp_runtime s = \<lparr>im_security = sec, im_workflows = []\<rparr>" and "ra_ok (authorize sec auth)"
  shows "\<exists>s'. recover_active_workflows env auth s = Inr s' \<and>
    map_of (im_workflows (cp_runtime s')) w = (case get_workflow w (cp_store s) of
        None \<Rightarrow> None
      | Some r \<Rightarrow> if ws_state (wr_summary r) \<in> {Cancelled, FailedState, StateUnspecified} then None
                  else Some (to_app_workflow (wr_config r))) \<and>
    list_events w 0 (cp_store s') = list_events w 0 (cp_store s) \<and>
    list_plan_versions w 0 (cp_store s') = list_plan_versions w 0 (cp_store s) \<and>
    map_option (\<lambda>r. ws_state (wr_summary r)) (get_workflow w (cp_store s')) =
      map_option (\<lambda>r. ws_state (wr_summary r)) (get_workflow w (cp_store s))"
proof -
  note st = reachable_store_ok [OF assms(1)]
  note ok = store_ok_fields [OF st]
  let ?all = "list_all_workflows (cp_store s)"
  obtain s' where s': "recover_active_workflows env auth s = Inr s'" "st_events (cp_store s') = st_events (cp_store s)"
    "st_plans (cp_store s') = st_plans (cp_store s)"
    "map_option state_and_config (map_of (st_workflows (cp_store s')) w) =
       map_option state_and_config (map_of (st_workflows (cp_store s)) w)"
    "cp_runtime s' = recovered_runtime env auth ?all (cp_runtime s)"
    using recover_active_workflows_ok [OF st, of env auth] by blast
  have mem: "r \<in> set ?all \<longleftrightarrow> map_of (st_workflows (cp_store s)) (pw_id (wr_config r)) = Some r" for r
    using ok(1,6) by (auto simp: list_all_workflows_def) force
  have "distinct (map (\<lambda>r. pw_id (wr_config r)) ?all)"
  proof -
    have "map (\<lambda>p. pw_id (wr_config (snd p))) (st_workflows (cp_store s)) = map fst (st_workflows (cp_store s))"
      using ok(1,6) by (auto simp: map_of_eq_Some_iff)
    with ok(1) have "distinct (map (\<lambda>r. pw_id (wr_config r)) (map snd (st_workflows (cp_store s))))"
      by (simp only: map_map comp_def)
    then show ?thesis unfolding list_all_workflows_def distinct_map set_sort distinct_sort .
  qed
  note sessions = recovered_sessions [OF _ assms(2) this, of "cp_runtime s" auth w]
  have found: "find (\<lambda>r. recoverable r \<and> pw_id (wr_config r) = w) ?all =
      (case map_of (st_workflows (cp_store s)) w of None \<Rightarrow> None | Some r \<Rightarrow> if recoverable r then Some r else None)"
  proof (cases "find (\<lambda>r. recoverable r \<and> pw_id (wr_config r) = w) ?all")
    case None
    then show ?thesis using mem ok(6) [of w] by (auto simp: find_None_iff split: option.split)
  next
    case (Some r)
    then show ?thesis using find_Some_set [OF Some] mem by auto
  qed
  have state: "map_option (\<lambda>r. ws_state (wr_summary r)) (get_workflow w (cp_store s')) =
      map_option (\<lambda>r. ws_state (wr_summary r)) (get_workflow w (cp_store s))"
    using arg_cong [OF s'(4), of "map_option fst"]
    by (simp add: get_workflow_def option.map_comp comp_def state_and_config_def)
  show ?thesis
    using s' sessions assms(3,4) found state
    by (auto simp: list_events_def list_plan_versions_def get_workflow_def recoverable_def split: option.split)
qed

end
