(* ===== verification/Operator_Service_Props.thy ===== *)
theory Operator_Service_Props
  imports Operator_Service Control_Plane_Props
begin

text \<open>
  The operator console above the control plane: its operations keep the histories of the store, task
  edits reach the store and the runtime, and the dashboard shows the stored state.
\<close>

subsection \<open>Auditing\<close>

definition audit_row :: "string \<Rightarrow> int \<Rightarrow> string \<Rightarrow> string \<Rightarrow> string \<Rightarrow> workflow_record \<Rightarrow> audit_entry" where
  "audit_row wid t actor action detail r =
     \<lparr>ae_sequence = ws_total_audit_entry_count (wr_summary r) + 1, ae_recorded_at = t, ae_actor = actor,
      ae_action = action, ae_detail = detail\<rparr>"

lemma append_audit_eq:
  assumes "get_workflow wid (cp_store s) = Some r" and t: "t = ce_now env (cp_reads s)"
  shows "append_audit_entry env wid actor action detail s = Inr (publish_workflow_update wid (s\<lparr>cp_reads := Suc (cp_reads s),
    cp_store := upsert_workflow (update_summary (\<lambda>m. m\<lparr>ws_updated_at := t\<rparr>) (audited r))
      (add_audit wid t (resolve_actor actor) action detail r (cp_store s))\<rparr>))"
  using assms
  by (simp add: append_audit_entry_def unix_time_ms_now_def Let_def get_workflow_def umap_contains_def save_workflow_def
      add_audit_def audited_def update_summary_def)

lemma append_audit_ok:
  assumes "store_ok (cp_store s)"
  shows "\<exists>s'. append_audit_entry env wid actor action detail s = Inr s' \<and> good_step wid (cp_store s) (cp_store s') \<and>
    st_events (cp_store s') = st_events (cp_store s) \<and> st_plans (cp_store s') = st_plans (cp_store s) \<and>
    map_option wr_config (get_workflow wid (cp_store s')) = map_option wr_config (get_workflow wid (cp_store s)) \<and>
    cp_runtime s' = cp_runtime s \<and>
    (\<forall>r. get_workflow wid (cp_store s) = Some r \<longrightarrow> (\<exists>t. rows_of wid (st_audits (cp_store s')) =
       rows_of wid (st_audits (cp_store s)) @ [((wid, ws_total_audit_entry_count (wr_summary r) + 1), st_boot_id (cp_store s),
         audit_row wid t (resolve_actor actor) action detail r)]))"
proof (cases "get_workflow wid (cp_store s)")
  case None
  then show ?thesis using assms by (simp add: append_audit_entry_def good_step_refl)
next
  case (Some r)
  let ?t = "ce_now env (cp_reads s)"
  let ?r = "update_summary (\<lambda>m. m\<lparr>ws_updated_at := ?t\<rparr>) (audited r)"
  let ?st = "upsert_workflow ?r (add_audit wid ?t (resolve_actor actor) action detail r (cp_store s))"
  have r: "map_of (st_workflows (cp_store s)) wid = Some r" using Some by (simp add: get_workflow_def)
  note audit = audit_store_ok [OF assms r _ refl, of ?r]
  have ok: "good_step wid (cp_store s) ?st" "map_of (st_workflows ?st) wid = Some ?r"
    "st_events ?st = st_events (cp_store s)" "st_plans ?st = st_plans (cp_store s)"
    using audit by (simp_all add: good_step_def same_counters_def)
  have "rows_of wid (st_audits ?st) = rows_of wid (st_audits (cp_store s)) @
      [((wid, ws_total_audit_entry_count (wr_summary r) + 1), st_boot_id (cp_store s),
        audit_row wid ?t (resolve_actor actor) action detail r)]"
    using rows_of_append_number(1) [OF histories_ok_number [OF store_ok_fields(5) [OF assms] r]]
    by (simp add: add_audit_def Let_def audit_row_def)
  then show ?thesis
    unfolding append_audit_eq [OF Some refl] using ok r by (auto simp: get_workflow_def audited_def)
qed

subsection \<open>Edits\<close>

lemma record_stream_config:
  "record_stream env wid key fp evs (r, s) = Inr (r', s') \<Longrightarrow> store_ok (cp_store s) \<Longrightarrow>
   map_of (st_workflows (cp_store s)) wid = Some r \<Longrightarrow> wr_config r' = wr_config r"
proof (induction evs arbitrary: r s)
  case Nil
  then show ?case by simp
next
  case (Cons e evs)
  let ?t = "ce_now env (cp_reads s)"
  have "umap_contains (st_workflows (cp_store s)) wid" using Cons.prems(3) by (simp add: umap_contains_def)
  from record_event_eq [OF this refl, of env key fp e r] Cons.prems(1)
  have "record_stream env wid key fp evs (event_record ?t e r, publish_workflow_update wid (s\<lparr>cp_reads := Suc (cp_reads s),
      cp_store := event_store wid key fp ?t e r (cp_store s)\<rparr>)) = Inr (r', s')" by simp
  from Cons.IH [OF this] event_store_ok(1,4) [OF Cons.prems(2,3) refl] show ?case by (simp add: event_record_counters)
qed

definition fresh_key :: "string option \<Rightarrow> workflow_store \<Rightarrow> bool" where
  "fresh_key k st \<longleftrightarrow> key_of k = [] \<or> get_idempotency_record (key_of k) st = None"

definition edit_request ::
  "pb_workflow_config \<Rightarrow> client_auth_context \<Rightarrow> string option \<Rightarrow> submit_workflow_request" where
  "edit_request config auth key =
     \<lparr>sw_config = config, sw_auth = auth, sw_replace_existing = Some True, sw_idempotency_key = key\<rparr>"

lemma edit_request_fields [simp]:
  "sw_config (edit_request config auth key) = config" "sw_auth (edit_request config auth key) = auth"
  "sw_replace_existing (edit_request config auth key) = Some True"
  "sw_idempotency_key (edit_request config auth key) = key"
  by (simp_all add: edit_request_def)

text \<open>
  A submitted edit returns; the stored configuration becomes the edited one and the runtime sees the
  request, unless the edit is the retry of a recorded one; and the audit trail gets its entry.
\<close>

lemma edit_submitted:
  assumes "store_ok (cp_store s)" and "pw_id config = wid"
  obtains resp s' where "cp_submit_workflow env (edit_request config auth key) s = Inr (resp, s')"
    "good_step wid (cp_store s) (cp_store s')"
    "fresh_key key (cp_store s) \<Longrightarrow> map_option wr_config (get_workflow wid (cp_store s')) = Some config \<and>
       cp_runtime s' = snd (rt_stream_submit_workflow (ce_runtime env) (edit_request config auth key) (cp_runtime s))"
proof -
  let ?req = "edit_request config auth key"
  have "replaces_knowingly ?req (cp_store s)" by (simp add: replaces_knowingly_def)
  with assms(1) show ?thesis
  proof (cases rule: stream_submit_cases [where env = env])
    case (replay existing)
    then show ?thesis
      using assms(1) by (intro that) (auto simp: cp_submit_workflow_def fresh_key_def good_step_refl)
  next
    case (fresh s1 r s' r')
    have ok1: "store_ok (cp_store s1)" using fresh(2) by (simp add: good_step_def)
    have "wr_config r' = config" using record_stream_config [OF fresh(6) ok1 fresh(4)] fresh(9) by simp
    moreover have "map_of (st_workflows (cp_store s')) wid = Some r' \<and> cp_runtime s' = cp_runtime s1"
      using record_stream_ok [OF ok1 fresh(4), of env "key_of (sw_idempotency_key ?req)" "ce_fingerprint_submit env ?req"
          "fst (rt_stream_submit_workflow (ce_runtime env) ?req (cp_runtime s))"] fresh(6) assms(2) by auto
    ultimately show ?thesis
      using fresh(2,5,7,8) assms(2)
      by (intro that [where s' = s']) (auto simp: cp_submit_workflow_def get_workflow_def intro: good_step_trans)
  qed
qed

lemma submit_edit_ok:
  assumes "store_ok (cp_store s)" and "pw_id config = wid"
  shows "\<exists>res s'. submit_edit env wid config auth key actor action detail s = Inr (res, s') \<and>
    good_step wid (cp_store s) (cp_store s') \<and>
    (fresh_key key (cp_store s) \<longrightarrow> map_option wr_config (get_workflow wid (cp_store s')) = Some config \<and>
       cp_runtime s' = snd (rt_stream_submit_workflow (ce_runtime env) (edit_request config auth key) (cp_runtime s)))"
proof -
  obtain resp s1 where s1: "cp_submit_workflow env (edit_request config auth key) s = Inr (resp, s1)"
    "good_step wid (cp_store s) (cp_store s1)"
    "fresh_key key (cp_store s) \<Longrightarrow> map_option wr_config (get_workflow wid (cp_store s1)) = Some config \<and>
       cp_runtime s1 = snd (rt_stream_submit_workflow (ce_runtime env) (edit_request config auth key) (cp_runtime s))"
    using edit_submitted [OF assms] by metis
  have "store_ok (cp_store s1)" using s1(2) by (simp add: good_step_def)
  from append_audit_ok [OF this, of env wid actor action detail]
  obtain s' where s': "append_audit_entry env wid actor action detail s1 = Inr s'" "good_step wid (cp_store s1) (cp_store s')"
    "map_option wr_config (get_workflow wid (cp_store s')) = map_option wr_config (get_workflow wid (cp_store s1))"
    "cp_runtime s' = cp_runtime s1" by blast
  then show ?thesis
    using s1 by (auto simp: submit_edit_def edit_request_def [symmetric] Let_def intro: good_step_trans)
qed

subsection \<open>Runs of the console\<close>

datatype operator_op = UpsertWorkflow upsert_operator_workflow_request | UpsertTask upsert_operator_task_request
  | DeleteTask delete_operator_task_request | PauseFromConsole operator_action_request
  | ResumeFromConsole operator_action_request | CancelFromConsole operator_action_request
  | InterveneFromConsole manual_intervention_request | ShowDashboard dashboard_request
  | ShowUpdate dashboard_request dashboard_notification | WaitForUpdate "64 word" "feed_action list list"

primrec operator_exec ::
  "'rt control_env \<Rightarrow> operator_op \<Rightarrow> 'rt operator_service \<Rightarrow> store_error + 'rt operator_service" where
  "operator_exec env (UpsertWorkflow q) os = drop_reply (op_upsert_workflow env q os)"
| "operator_exec env (UpsertTask q) os = drop_reply (op_upsert_task env q os)"
| "operator_exec env (DeleteTask q) os = drop_reply (op_delete_task env q os)"
| "operator_exec env (PauseFromConsole q) os = drop_reply (op_pause_workflow env q os)"
| "operator_exec env (ResumeFromConsole q) os = drop_reply (op_resume_workflow env q os)"
| "operator_exec env (CancelFromConsole q) os = drop_reply (op_cancel_workflow env q os)"
| "operator_exec env (InterveneFromConsole q) os = drop_reply (op_apply_manual_intervention env q os)"
| "operator_exec env (ShowDashboard q) os = Inr (snd (get_dashboard env q os))"
| "operator_exec env (ShowUpdate q n) os = Inr (snd (get_dashboard_update env q n os))"
| "operator_exec env (WaitForUpdate after segs) os = Inr (snd (wait_for_dashboard_update after segs os))"

text \<open>The workflow an operation names; reading names none.\<close>

primrec op_subject :: "operator_op \<Rightarrow> string" where
  "op_subject (UpsertWorkflow q) = pw_id (uw_config q)"
| "op_subject (UpsertTask q) = ut_workflow_id q"
| "op_subject (DeleteTask q) = dt_workflow_id q"
| "op_subject (PauseFromConsole q) = oa_workflow_id q"
| "op_subject (ResumeFromConsole q) = oa_workflow_id q"
| "op_subject (CancelFromConsole q) = oa_workflow_id q"
| "op_subject (InterveneFromConsole q) = mi_workflow_id q"
| "op_subject (ShowDashboard q) = []"
| "op_subject (ShowUpdate q n) = []"
| "op_subject (WaitForUpdate after segs) = []"

abbreviation os_store :: "'rt operator_service \<Rightarrow> workflow_store" where
  "os_store os \<equiv> cp_store (os_plane os)"

inductive operator_reachable :: "'rt control_env \<Rightarrow> 'rt operator_service \<Rightarrow> bool" for env where
  start: "operator_reachable env
    \<lparr>os_plane = make_control_plane rt (empty_store boot) feed, os_connectors = []\<rparr>"
| control: "operator_reachable env os \<Longrightarrow> allowed_op (os_store os) oper \<Longrightarrow>
    control_exec env oper (os_plane os) = Inr s' \<Longrightarrow> operator_reachable env (os\<lparr>os_plane := s'\<rparr>)"
| console: "operator_reachable env os \<Longrightarrow> operator_exec env oper os = Inr os' \<Longrightarrow> operator_reachable env os'"
| connector: "operator_reachable env os \<Longrightarrow>
    operator_reachable env (os\<lparr>os_connectors := upsert_binding b (os_connectors os)\<rparr>)"

text \<open>Building a dashboard reads the clock and nothing else changes.\<close>

lemma build_dashboard_state:
  "snd (build_dashboard env wid query a b c d os) = os\<lparr>os_plane := (os_plane os)\<lparr>cp_reads := Suc (cp_reads (os_plane os))\<rparr>\<rparr>"
  by (simp add: build_dashboard_def operator_now_def unix_time_ms_now_def Let_def)

lemma build_mutation_response_state:
  "snd (build_mutation_response env wid ok msg os) = os\<lparr>os_plane := (os_plane os)\<lparr>cp_reads := Suc (cp_reads (os_plane os))\<rparr>\<rparr>"
  by (simp add: build_mutation_response_def case_prod_unfold build_dashboard_state)

lemma update_state:
  "snd (get_dashboard_update env q n os) = os\<lparr>os_plane := (os_plane os)\<lparr>cp_reads := Suc (cp_reads (os_plane os))\<rparr>\<rparr>"
  by (simp add: get_dashboard_update_def operator_now_def unix_time_ms_now_def Let_def)

lemma wait_store: "os_store (snd (wait_for_dashboard_update after segs os)) = os_store os"
  by (simp add: wait_for_dashboard_update_def case_prod_unfold Let_def split: option.split)

lemmas console_states = build_dashboard_state build_mutation_response_state update_state wait_store

lemma refused_ok:
  "store_ok (os_store os) \<Longrightarrow>
   \<exists>os'. drop_reply (Inr (build_mutation_response env wid' ok msg os)) = Inr os' \<and> good_step wid (os_store os) (os_store os')"
  by (simp add: drop_reply_def case_prod_unfold console_states good_step_refl)

lemma then_dashboard_state:
  "drop_reply (then_dashboard env wid (Inr (x, s)) os) = Inr (os\<lparr>os_plane := s\<lparr>cp_reads := Suc (cp_reads s)\<rparr>\<rparr>)"
  by (simp add: then_dashboard_def drop_reply_def case_prod_unfold console_states)

lemma then_dashboard_ok:
  "\<exists>x s'. res = Inr (x, s') \<and> good_step wid (os_store os) (cp_store s') \<Longrightarrow>
   \<exists>os'. drop_reply (then_dashboard env wid res os) = Inr os' \<and> good_step wid (os_store os) (os_store os')"
  by (auto simp: then_dashboard_state simp del: split_paired_Ex split_paired_All)

lemma edit_exec_ok:
  assumes "store_ok (os_store os)" and "pw_id config = wid"
  shows "\<exists>os'. drop_reply (then_dashboard env wid (submit_edit env wid config auth key actor action detail (os_plane os)) os) = Inr os' \<and>
    good_step wid (os_store os) (os_store os')"
  using submit_edit_ok [OF assms, of env auth key actor action detail] by (intro then_dashboard_ok) blast

lemma console_action_exec_ok:
  assumes "store_ok (os_store os)" and "aq_workflow_id q = wid"
  shows "\<exists>os'. drop_reply (then_dashboard env wid
      (answer_action (operator_action new_state action detail env q (os_plane os))) os) = Inr os' \<and>
    good_step wid (os_store os) (os_store os')"
  using operator_action_ok [OF assms(1), of new_state action detail env q] assms(2)
  by (intro then_dashboard_ok) (auto simp: answer_action_def)

lemma operator_exec_ok:
  assumes "store_ok (os_store os)"
  shows "\<exists>os'. operator_exec env oper os = Inr os' \<and> good_step (op_subject oper) (os_store os) (os_store os')"
proof (cases oper)
  case (UpsertWorkflow q)
  then show ?thesis
    using refused_ok [OF assms] edit_exec_ok [OF assms] by (simp add: op_upsert_workflow_def Let_def)
next
  case (UpsertTask q)
  then show ?thesis
    using refused_ok [OF assms] edit_exec_ok [OF assms] store_ok_fields(6) [OF assms, of "ut_workflow_id q"]
    by (auto simp: op_upsert_task_def Let_def get_workflow_def split: option.split)
next
  case (DeleteTask q)
  then show ?thesis
    using refused_ok [OF assms] edit_exec_ok [OF assms] store_ok_fields(6) [OF assms, of "dt_workflow_id q"]
    by (auto simp: op_delete_task_def Let_def get_workflow_def split: option.split)
next
  case (PauseFromConsole q)
  then show ?thesis using assms
    by (simp add: op_pause_workflow_def pause_workflow_def console_action_exec_ok console_action_def)
next
  case (ResumeFromConsole q)
  then show ?thesis using assms
    by (simp add: op_resume_workflow_def resume_workflow_def console_action_exec_ok console_action_def)
next
  case (CancelFromConsole q)
  then show ?thesis using assms
    by (simp add: op_cancel_workflow_def cancel_workflow_def console_action_exec_ok console_action_def)
next
  case (InterveneFromConsole q)
  have "\<exists>x s'. answer_action (apply_manual_intervention env q (os_plane os)) = Inr (x, s') \<and>
      good_step (mi_workflow_id q) (os_store os) (cp_store s')"
    using intervention_ok [OF assms, of env q] by (auto simp: answer_action_def)
  from then_dashboard_ok [OF this] InterveneFromConsole show ?thesis by (simp add: op_apply_manual_intervention_def)
qed (use assms in \<open>simp_all add: get_dashboard_def console_states good_step_refl\<close>)

lemma operator_reachable_ok: "operator_reachable env os \<Longrightarrow> store_ok (os_store os)"
proof (induction rule: operator_reachable.induct)
  case (start rt boot feed)
  show ?case using reachable_store_ok [OF control_reachable.start] by simp
next
  case (control os oper s')
  from control_exec_ok [OF control.IH control.hyps(2), of env] control.hyps(3) show ?case by auto
next
  case (console os oper os')
  from operator_exec_ok [OF console.IH, of env oper] console.hyps(2) show ?case by (auto simp: good_step_def)
qed simp


subsection \<open>Dashboards\<close>

lemma history_suffix:
  assumes "n < 2 ^ 63" and "0 < n"
  shows "history_of w n rows = drop (length (history_of w 0 rows) - n) (history_of w 0 rows)"
  using assms by (simp add: history_of_def Let_def take_limit_def drop_map rev_take)

lemma size_of_int32_nat: "0 \<le> n \<Longrightarrow> n < 2 ^ 63 \<Longrightarrow> size_of_int32 n = nat n"
  by (simp add: size_of_int32_def unat_eq_nat_uint uint_word_of_int)

text \<open>Versions of a workflow are distinct, so a plan is found by its number.\<close>

lemma plan_found_by_version:
  assumes "store_ok st" and "p \<in> set (list_plan_versions w 0 st)"
  shows "find (\<lambda>x. pv_version x = pv_version p) (list_plan_versions w 0 st) = Some p"
proof -
  let ?rows = "rows_of w (st_plans st)"
  have "list_plan_versions w 0 st = map (snd \<circ> snd) ?rows \<and> sorted_wrt (<) (row_numbers w (st_plans st))"
  proof (cases "map_of (st_workflows st) w")
    case None
    then have "?rows = []" using store_ok_fields(4) [OF assms(1)] unfolding histories_ok_def by (auto dest: spec [of _ w])
    then show ?thesis by (simp add: list_plan_versions_def history_of_def rows_of_def [symmetric] row_numbers_def)
  next
    case (Some r)
    note ok = histories_ok_number [OF store_ok_fields(4) [OF assms(1)] Some]
    from history_in_order [OF ok] ok show ?thesis by (simp add: list_plan_versions_def numbers_ok_def)
  qed
  moreover have "map pv_version (map (snd \<circ> snd) ?rows) = row_numbers w (st_plans st)"
    using store_ok_fields(7) [OF assms(1)] by (auto simp: plans_keyed_def row_numbers_def rows_of_def)
  ultimately have "distinct (map pv_version (list_plan_versions w 0 st))"
    by (simp add: strict_sorted_iff)
  then have "x = p" if "x \<in> set (list_plan_versions w 0 st)" "pv_version x = pv_version p" for x
    using that assms(2) by (auto simp: distinct_map inj_on_def)
  then show ?thesis using assms(2) find_Some_set
    by (cases "find (\<lambda>x. pv_version x = pv_version p) (list_plan_versions w 0 st)") (force simp: find_None_iff)+
qed

lemma selected_workflow_shown:
  assumes "store_ok st" and "get_workflow wid st = Some r" and "wid \<noteq> []" and "n < 2 ^ 31" and st: "st = os_store os"
  defines "plans \<equiv> list_plan_versions wid 0 st"
  defines "shown \<equiv> drop (length plans - nat (positive_or kDefaultHistoryLimit n)) plans"
  obtains h pd where "populate_selected_workflow wid e n a os = (h, pd, None)" "hr_ok h" "hr_workflow h = Some r"
    "hr_plan_versions h = shown" "pd_ok pd"
    "pd_diff pd = (if length shown < 2 then None
       else Some (diff_plan_versions (pv_response (plans ! (length plans - 2))) (pv_response (last plans))))"
proof -
  let ?n = "positive_or kDefaultHistoryLimit n" and ?k = "length shown"
  let ?h = "get_workflow_history \<lparr>hq_workflow_id = wid, hq_max_events = positive_or kDefaultHistoryLimit e,
    hq_max_plan_versions = ?n, hq_max_audit_entries = positive_or kDefaultHistoryLimit a\<rparr> (os_plane os)"
  have n: "0 < ?n" "?n < 2 ^ 63" using assms(4) by (simp_all add: positive_or_def kDefaultHistoryLimit_def)
  have h: "hr_ok ?h" "hr_workflow ?h = Some r" "hr_plan_versions ?h = shown"
    using assms(2) n history_suffix [of "nat ?n" wid "st_plans st"]
    by (simp_all add: get_workflow_history_def Let_def size_of_int32_nat list_plan_versions_def shown_def plans_def
        nat_less_iff st)
  show ?thesis
  proof (cases "?k < 2")
    case True
    then show ?thesis
      using h assms(3) by (intro that [of ?h "empty_plan_diff\<lparr>pd_ok := True\<rparr>"])
        (simp_all add: populate_selected_workflow_def Let_def empty_plan_diff_def)
  next
    case False
    let ?p = "plans ! (length plans - 2)" and ?q = "last plans"
    have len: "2 \<le> length plans" using False by (simp add: shown_def)
    then have ne: "plans \<noteq> []" by auto
    have nths: "shown ! (?k - 2) = ?p" "shown ! (?k - Suc 0) = ?q"
      using False len by (simp_all add: shown_def last_conv_nth [OF ne])
    have mem: "?p \<in> set plans" "?q \<in> set plans" using len by (auto intro!: nth_mem last_in_set)
    have "get_plan_diff wid (pv_version ?p) (pv_version ?q) (os_plane os) = \<lparr>pd_ok = True,
        pd_diff = Some (diff_plan_versions (pv_response ?p) (pv_response ?q)), pd_error_message = []\<rparr>"
      using mem plan_found_by_version [OF assms(1), of _ wid] by (simp add: get_plan_diff_def plans_def st Let_def)
    then show ?thesis
      using h assms(3) False nths by (intro that [of ?h "get_plan_diff wid (pv_version ?p) (pv_version ?q) (os_plane os)"])
        (simp_all add: populate_selected_workflow_def Let_def)
  qed
qed

lemma count_keys:
  assumes "distinct (map fst xs)"
  shows "length (filter (\<lambda>(k, v). P v) xs) = card {k. \<exists>v. map_of xs k = Some v \<and> P v}"
proof -
  have "{k. \<exists>v. map_of xs k = Some v \<and> P v} = set (map fst (filter (\<lambda>(k, v). P v) xs))"
    using assms by (force simp: map_of_eq_Some_iff)
  moreover have "distinct (map fst (filter (\<lambda>(k, v). P v) xs))" using assms by (auto simp: distinct_map inj_on_def)
  ultimately show ?thesis by (metis distinct_card length_map)
qed

text \<open>
  The dashboard shows what is stored. For a stored workflow that the request selects, the dashboard
  has its record, its newest plan versions (as many as asked for, or 32), and the difference between the
  last two of all its plan versions whenever two are shown, without error; the counters are the number
  of workflows and the number of those that are neither cancelled nor failed.
\<close>

theorem dashboard_shows_stored_state:
  assumes "operator_reachable env os" and "get_workflow (dq_selected_workflow_id q) (os_store os) = Some r"
    and "dq_selected_workflow_id q \<noteq> []" and "dq_max_plan_versions q < 2 ^ 31"
  shows "let d = fst (get_dashboard env q os);
      plans = list_plan_versions (dq_selected_workflow_id q) 0 (os_store os);
      n = nat (if dq_max_plan_versions q > 0 then dq_max_plan_versions q else 32)
    in dr_ok d \<and> dr_selected_workflow_id d = dq_selected_workflow_id q \<and>
      ds_workflows_tracked (dr_stats d) = int (card {w. get_workflow w (os_store os) \<noteq> None}) \<and>
      ds_active_workflows (dr_stats d) = int (card {w. \<exists>r. get_workflow w (os_store os) = Some r \<and>
        ws_state (wr_summary r) \<notin> {StateUnspecified, Cancelled, FailedState}}) \<and>
      (\<exists>h pd. dr_selected_workflow d = Some h \<and> hr_workflow h = Some r \<and>
         hr_plan_versions h = drop (length plans - n) plans \<and> dr_selected_plan_diff d = Some pd \<and> pd_ok pd \<and>
         pd_diff pd = (if min n (length plans) < 2 then None
           else Some (diff_plan_versions (pv_response (plans ! (length plans - 2))) (pv_response (last plans)))))"
proof -
  let ?os = "os\<lparr>os_plane := (os_plane os)\<lparr>cp_reads := Suc (cp_reads (os_plane os))\<rparr>\<rparr>"
  let ?wid = "dq_selected_workflow_id q"
  let ?plans = "list_plan_versions ?wid 0 (os_store os)"
  note ok = operator_reachable_ok [OF assms(1)]
  have n: "positive_or kDefaultHistoryLimit (dq_max_plan_versions q) =
      (if dq_max_plan_versions q > 0 then dq_max_plan_versions q else 32)"
    by (simp add: positive_or_def kDefaultHistoryLimit_def)
  obtain h pd where shown: "populate_selected_workflow ?wid (dq_max_events q) (dq_max_plan_versions q)
      (dq_max_audit_entries q) ?os = (h, pd, None)" "hr_workflow h = Some r"
    "hr_plan_versions h = drop (length ?plans - nat (if dq_max_plan_versions q > 0 then dq_max_plan_versions q else 32)) ?plans"
    "pd_ok pd"
    "pd_diff pd = (if length (drop (length ?plans - nat (if dq_max_plan_versions q > 0 then dq_max_plan_versions q else 32)) ?plans) < 2
       then None else Some (diff_plan_versions (pv_response (?plans ! (length ?plans - 2))) (pv_response (last ?plans))))"
    by (rule selected_workflow_shown [OF ok assms(2-4), of ?os "dq_max_events q" "dq_max_audit_entries q", unfolded n]) simp_all
  let ?wfs = "st_workflows (os_store os)"
  note dist = store_ok_fields(1) [OF ok]
  have "length ?wfs = card {w. get_workflow w (os_store os) \<noteq> None}"
    using count_keys [OF dist, of "\<lambda>_. True"] by (simp add: get_workflow_def)
  moreover have "x \<in> set active_states \<longleftrightarrow> x \<notin> {StateUnspecified, Cancelled, FailedState}" for x
    by (cases x) (simp_all add: active_states_def)
  then have "length (filter (\<lambda>(_, r). ws_state (wr_summary r) \<in> set active_states) ?wfs) =
      card {w. \<exists>r. get_workflow w (os_store os) = Some r \<and> ws_state (wr_summary r) \<notin> {StateUnspecified, Cancelled, FailedState}}"
    using count_keys [OF dist, of "\<lambda>r. ws_state (wr_summary r) \<in> set active_states"] by (simp add: get_workflow_def)
  ultimately have stats: "ds_workflows_tracked (populate_dashboard_stats ?os t) = int (card {w. get_workflow w (os_store os) \<noteq> None})"
    "ds_active_workflows (populate_dashboard_stats ?os t) = int (card {w. \<exists>r. get_workflow w (os_store os) = Some r \<and>
       ws_state (wr_summary r) \<notin> {StateUnspecified, Cancelled, FailedState}})" for t
    by (simp_all add: populate_dashboard_stats_def get_storage_metrics_def Let_def)
  have "fst (get_dashboard env q os) = with_selected_workflow (h, pd, None)
      (dashboard_overview ?wid (dq_workflow_query q) (dq_workflow_page_size q) (ce_now env (cp_reads (os_plane os))) ?os)"
    using assms(3) shown(1)
    by (simp add: get_dashboard_def build_dashboard_def operator_now_def unix_time_ms_now_def Let_def dashboard_overview_def
        resolve_selected_workflow_id_def)
  then show ?thesis
    using shown(2-) stats assms(3)
    by (simp add: with_selected_workflow_def dashboard_overview_def resolve_selected_workflow_id_def Let_def
        min_def split: if_splits)
qed

subsection \<open>Editing tasks\<close>

lemma put_task_ids: "map px_id (put_task t ts) = push_unique (map px_id ts) (px_id t)"
  by (induction ts) (auto simp: push_unique_def)

lemma put_task_find:
  "find (\<lambda>x. px_id x = i) (put_task t ts) = (if i = px_id t then Some t else find (\<lambda>x. px_id x = i) ts)"
  by (induction ts) auto

lemma has_task_push: "has_task i ts \<longleftrightarrow> i \<in> set (map px_id ts)"
  by (auto simp: has_task_def)

lemma erase_put_task: "\<not> has_task (px_id t) ts \<Longrightarrow> erase_task (px_id t) (put_task t ts) = ts"
  by (induction ts) (auto simp: has_task_def)

lemma edit_reaches_runtime:
  assumes "ra_ok (authorize (im_security rs) auth)"
  shows "map_of (im_workflows (snd (stream_submit_workflow entries (edit_request config auth key) rs))) (pw_id config) =
      Some (to_app_workflow config)"
    and "im_security (snd (stream_submit_workflow entries (edit_request config auth key) rs)) = im_security rs"
  using assms by (simp_all add: stream_submit_workflow_def or_default_def Let_def to_app_workflow_def)

lemma mutation_reply_shows:
  assumes "get_workflow wid (cp_store s) = Some r" and "wid \<noteq> []"
  shows "map_option hr_workflow (dr_selected_workflow (mr_dashboard (fst (build_mutation_response env wid ok msg (os\<lparr>os_plane := s\<rparr>))))) =
    Some (Some r)"
  using assms
  by (simp add: build_mutation_response_def build_dashboard_def operator_now_def unix_time_ms_now_def Let_def
      dashboard_overview_def resolve_selected_workflow_id_def with_selected_workflow_def populate_selected_workflow_def
      get_workflow_history_def case_prod_unfold split: option.split)

text \<open>A stored edit: the reply shows the record that the edit left, in the store and in the runtime.\<close>

lemma edit_takes_effect:
  assumes "store_ok (os_store os)" and "ce_runtime env = in_memory_api entries" and "pw_id config = wid" and "wid \<noteq> []"
    and "fresh_key key (os_store os)" and "ra_ok (authorize (im_security (cp_runtime (os_plane os))) auth)"
  obtains resp os' r' where
    "then_dashboard env wid (submit_edit env wid config auth key actor action detail (os_plane os)) os = Inr (resp, os')"
    "get_workflow wid (os_store os') = Some r'" "wr_config r' = config"
    "map_of (im_workflows (cp_runtime (os_plane os'))) wid = Some (to_app_workflow config)"
    "im_security (cp_runtime (os_plane os')) = im_security (cp_runtime (os_plane os))"
    "map_option hr_workflow (dr_selected_workflow (mr_dashboard resp)) = Some (Some r')"
proof -
  from submit_edit_ok [OF assms(1,3), of env auth key actor action detail] assms(5)
  obtain ok msg s' r' where s': "submit_edit env wid config auth key actor action detail (os_plane os) = Inr ((ok, msg), s')"
    "get_workflow wid (cp_store s') = Some r'" "wr_config r' = config"
    "cp_runtime s' = snd (stream_submit_workflow entries (edit_request config auth key) (cp_runtime (os_plane os)))"
    by (auto simp: assms(2) in_memory_api_def)
  let ?r = "build_mutation_response env wid ok msg (os\<lparr>os_plane := s'\<rparr>)"
  have "then_dashboard env wid (submit_edit env wid config auth key actor action detail (os_plane os)) os = Inr (fst ?r, snd ?r)"
    by (simp add: then_dashboard_def s'(1))
  moreover have "map_of (im_workflows (cp_runtime s')) wid = Some (to_app_workflow config)"
    unfolding s'(4) assms(3) [symmetric] by (rule edit_reaches_runtime(1) [OF assms(6)])
  ultimately show ?thesis
    using that s' mutation_reply_shows [OF s'(2) assms(4)] edit_reaches_runtime(2) [OF assms(6)]
    by (simp add: console_states)
qed

text \<open>
  C25. A task edit from the console takes effect, and can be taken back. With credentials the runtime
  accepts, and unless it is the retry of a recorded request, an upsert stores the workflow's
  configuration with exactly this task changed: the task with the id is the new one, in place if it was
  there and at the end otherwise, and all others are as they were; the runtime runs that
  configuration, and the reply shows the stored record. If the task is new, deleting it then gives back
  the original configuration, again in the store and in the runtime.
\<close>

theorem operator_task_edit_takes_effect:
  assumes "operator_reachable env os" and "ce_runtime env = in_memory_api entries"
    and "get_workflow (ut_workflow_id q) (os_store os) = Some r" and "ut_workflow_id q \<noteq> []" and "px_id (ut_task q) \<noteq> []"
    and "fresh_key (ut_idempotency_key q) (os_store os)"
    and "ra_ok (authorize (im_security (cp_runtime (os_plane os))) (ut_auth q))"
    and "dt_workflow_id d = ut_workflow_id q" and "dt_task_id d = px_id (ut_task q)" and "dt_idempotency_key d = None"
    and "dt_auth d = ut_auth q"
  shows "\<exists>resp os1 r1. op_upsert_task env q os = Inr (resp, os1) \<and>
    get_workflow (ut_workflow_id q) (os_store os1) = Some r1 \<and>
    map_of (im_workflows (cp_runtime (os_plane os1))) (ut_workflow_id q) = Some (to_app_workflow (wr_config r1)) \<and>
    map_option hr_workflow (dr_selected_workflow (mr_dashboard resp)) = Some (Some r1) \<and>
    (wr_config r1)\<lparr>pw_tasks := []\<rparr> = (wr_config r)\<lparr>pw_tasks := []\<rparr> \<and>
    map px_id (pw_tasks (wr_config r1)) = push_unique (map px_id (pw_tasks (wr_config r))) (px_id (ut_task q)) \<and>
    (\<forall>i. find (\<lambda>t. px_id t = i) (pw_tasks (wr_config r1)) =
       (if i = px_id (ut_task q) then Some (ut_task q) else find (\<lambda>t. px_id t = i) (pw_tasks (wr_config r)))) \<and>
    (px_id (ut_task q) \<notin> set (map px_id (pw_tasks (wr_config r))) \<longrightarrow>
       (\<exists>resp2 os2 r2. op_delete_task env d os1 = Inr (resp2, os2) \<and>
          get_workflow (ut_workflow_id q) (os_store os2) = Some r2 \<and> wr_config r2 = wr_config r \<and>
          map_of (im_workflows (cp_runtime (os_plane os2))) (ut_workflow_id q) = Some (to_app_workflow (wr_config r))))"
proof -
  let ?wid = "ut_workflow_id q" and ?t = "ut_task q" and ?c = "wr_config r"
  let ?c1 = "?c\<lparr>pw_tasks := put_task ?t (pw_tasks ?c)\<rparr>"
  note ok = operator_reachable_ok [OF assms(1)]
  have id: "pw_id ?c = ?wid" using store_ok_fields(6) [OF ok] assms(3) by (simp add: get_workflow_def)
  obtain resp os1 r1 where e1: "op_upsert_task env q os = Inr (resp, os1)" "get_workflow ?wid (os_store os1) = Some r1"
    "wr_config r1 = ?c1" "map_of (im_workflows (cp_runtime (os_plane os1))) ?wid = Some (to_app_workflow ?c1)"
    "im_security (cp_runtime (os_plane os1)) = im_security (cp_runtime (os_plane os))"
    "map_option hr_workflow (dr_selected_workflow (mr_dashboard resp)) = Some (Some r1)"
  proof -
    let ?new = "\<not> has_task (px_id ?t) (pw_tasks ?c)"
    let ?action = "if ?new then ''operator_insert_task'' else ''operator_update_task''"
    let ?detail = "if ut_note q = [] then (if ?new then ''Task schedule inserted from the operator console.''
      else ''Task schedule updated from the operator console.'') @ '' task_id='' @ px_id ?t else ut_note q"
    have "op_upsert_task env q os = then_dashboard env ?wid
        (submit_edit env ?wid ?c1 (ut_auth q) (ut_idempotency_key q) (ut_actor q) ?action ?detail (os_plane os)) os"
      using assms(3-5) by (simp add: op_upsert_task_def Let_def)
    moreover have "pw_id ?c1 = ?wid" using id by simp
    ultimately show ?thesis
      using that edit_takes_effect [OF ok assms(2) _ assms(4,6,7), of ?c1 "ut_actor q" ?action ?detail] by metis
  qed
  have ok1: "store_ok (os_store os1)"
    using operator_exec_ok [OF ok, of env "UpsertTask q"] e1(1) by (auto simp: drop_reply_def good_step_def)
  have "\<exists>resp2 os2 r2. op_delete_task env d os1 = Inr (resp2, os2) \<and> get_workflow ?wid (os_store os2) = Some r2 \<and>
      wr_config r2 = ?c \<and> map_of (im_workflows (cp_runtime (os_plane os2))) ?wid = Some (to_app_workflow ?c)"
    if new: "px_id ?t \<notin> set (map px_id (pw_tasks ?c))"
  proof -
    have auth: "ra_ok (authorize (im_security (cp_runtime (os_plane os1))) (dt_auth d))" using assms(7,11) e1(5) by simp
    have key: "fresh_key (dt_idempotency_key d) (os_store os1)" by (simp add: assms(10) fresh_key_def key_of_def)
    have tasks: "erase_task (dt_task_id d) (pw_tasks ?c1) = pw_tasks ?c" "has_task (dt_task_id d) (pw_tasks ?c1)"
      using new erase_put_task [of ?t "pw_tasks ?c"] by (simp_all add: assms(9) has_task_push put_task_ids push_unique_def)
    let ?res = "submit_edit env ?wid ?c (dt_auth d) (dt_idempotency_key d) (dt_actor d) ''operator_delete_task''
      (if dt_note d = [] then ''Task removed from the operator console. task_id='' @ dt_task_id d else dt_note d) (os_plane os1)"
    have "op_delete_task env d os1 = then_dashboard env ?wid ?res os1"
      using e1(2,3) tasks assms(4,5) by (simp add: op_delete_task_def assms(8,9) Let_def)
    with edit_takes_effect [OF ok1 assms(2) id assms(4) key auth] show ?thesis by metis
  qed
  with e1 show ?thesis by (simp add: put_task_ids put_task_find)
qed

end
