(* ===== verification/Runtime_Service_Examples.thy ===== *)
theory Runtime_Service_Examples
  imports Runtime_Service_Correct Workflow_Optimizer_Examples
begin

text \<open>
  Evaluations of the runtime service: a small workflow submitted and re-orchestrated.
\<close>

definition pb_task :: "string \<Rightarrow> int \<Rightarrow> string list \<Rightarrow> pb_task_config" where
  "pb_task t dur deps = \<lparr>px_id = t, px_requested_time = 0, px_duration = dur, px_latest_start_time = 0,
     px_deadline = 0, px_priority = 1, px_demand = None, px_mandatory = None, px_preemptible = None,
     px_allowed_actor_types = [], px_allowed_actor_ids = [], px_preferred_actor_ids = [],
     px_required_capabilities = [], px_dependency_task_ids = deps, px_mutually_exclusive_task_ids = [],
     px_actor_distances = [], px_tardiness_cost_per_unit = 0, px_early_start_bonus = 0, px_phase_durations = []\<rparr>"

definition pb_actor :: "string \<Rightarrow> pb_actor_config" where
  "pb_actor a = \<lparr>pa_id = a, pa_type = ''robot'', pa_capacity = None,
     pa_windows = [\<lparr>win_start = 0, win_end = 10\<rparr>], pa_capabilities = [], pa_execution_cost_per_unit = None\<rparr>"

definition demo_config :: pb_workflow_config where
  "demo_config = \<lparr>pw_id = ''w'', pw_optimization = None, pw_actors = [pb_actor ''x''],
     pw_tasks = [pb_task ''a'' 2 [], pb_task ''b'' 3 [''a'']]\<rparr>"

definition no_auth :: client_auth_context where
  "no_auth = \<lparr>au_bearer_token = [], au_api_key = [], au_secure_transport = False\<rparr>"

definition demo_submit :: submit_workflow_request where
  "demo_submit = \<lparr>sw_config = demo_config, sw_auth = no_auth, sw_replace_existing = None, sw_idempotency_key = None\<rparr>"

definition complete_override :: "string \<Rightarrow> task_state_override" where
  "complete_override t = \<lparr>to_task_id = t, to_completed = Some True, to_requested_time = None, to_deadline = None,
     to_priority = None, to_pinned_actor_id = None\<rparr>"

definition demo_reorchestrate :: reorchestrate_request where
  "demo_reorchestrate = \<lparr>rq_workflow_id = ''w'', rq_task_overrides = [complete_override ''a''], rq_actor_overrides = [],
     rq_auth = no_auth, rq_trigger_reorchestration = None, rq_idempotency_key = None, rq_expected_plan_version = None\<rparr>"

definition open_security :: security_config where
  "open_security = \<lparr>sc_mode = NoAuth, sc_expected_credential = [], sc_require_secure_transport = False\<rparr>"

definition token_security :: security_config where
  "token_security = \<lparr>sc_mode = BearerToken, sc_expected_credential = ''secret'', sc_require_secure_transport = False\<rparr>"

definition exact_only :: "backend_entry list" where
  "exact_only = [indexed_exact_entry (\<lambda>x. x)]"

definition fresh_service :: runtime_service where
  "fresh_service = \<lparr>im_security = open_security, im_workflows = []\<rparr>"

definition running_service :: runtime_service where
  "running_service = snd (stream_submit_workflow exact_only demo_submit fresh_service)"

lemma demo_stream:
  "map we_type (fst (stream_submit_workflow exact_only demo_submit fresh_service)) =
     [WorkflowAccepted, ReplanningStarted, TaskPlanned, TaskPlanned, RunFinished] \<and>
   map (\<lambda>p. (pg_task_id p, pg_start_time p, pg_end_time p))
     (pr_assignments (ra_result (fst (submit_workflow exact_only demo_submit fresh_service)))) =
     [(''a'', 0, 2), (''b'', 2, 5)]"
  by code_simp

theorem unauthorized_requests_change_nothing_witness:
  "snd (stream_submit_workflow exact_only demo_submit \<lparr>im_security = token_security, im_workflows = []\<rparr>) =
     \<lparr>im_security = token_security, im_workflows = []\<rparr>"
proof -
  have "\<not> authorized (im_security \<lparr>im_security = token_security, im_workflows = []\<rparr>) no_auth"
    by (simp add: authorized_def token_security_def no_auth_def)
  then show ?thesis
    using unauthorized_requests_change_nothing [of _ no_auth demo_submit demo_reorchestrate exact_only]
    by (simp add: demo_submit_def demo_reorchestrate_def)
qed

lemma exact_only_sound: "sound_registry exact_only"
  unfolding sound_registry_def linked_entries_def exact_only_def
  using exhaustive_solver_sound
  by (intro exI [of _ "\<lambda>x. x"] exI [of _ exhaustive_solver] exI [of _ "\<lambda>_. 2"] exI [of _ demo_runtime])
    (simp add: demo_runtime_def)


text \<open>
  A priority outside the range of \<^verbatim>\<open>int32_t\<close> is accepted by the API and wraps around: the task
  with the highest requested priority gets a negative one.
\<close>

theorem priority_wraps_around:
  "tc_priority (to_app_task ((pb_task ''a'' 1 [])\<lparr>px_priority := 2147483648\<rparr>)) = - 2147483648"
  by code_simp

text \<open>
  The runtime API does not validate identifiers: a workflow with two tasks of the same id is
  accepted, and only one of them is planned while none is reported unfulfilled.
\<close>

theorem duplicate_ids_accepted:
  "let r = fst (submit_workflow exact_only
       (demo_submit\<lparr>sw_config := demo_config\<lparr>pw_tasks := [pb_task ''a'' 2 [], pb_task ''a'' 3 []]\<rparr>\<rparr>) fresh_service) in
   ra_ok r \<and> length (pr_assignments (ra_result r)) = 1 \<and> pr_unfulfilled_task_ids (ra_result r) = []"
  by code_simp

end
