(* ===== verification/Control_Plane_Examples.thy ===== *)
theory Control_Plane_Examples
  imports Control_Plane_Props Runtime_Service_Examples
begin

text \<open>
  The control plane above the in-memory runtime with the branch-and-bound back-end: concrete runs that
  instantiate the theorems, and behaviours of the code that its documentation does not promise.
\<close>

definition demo_env :: "runtime_service control_env" where
  "demo_env = \<lparr>ce_runtime = in_memory_api exact_only, ce_now = int, ce_fingerprint_submit = (\<lambda>r. pw_id (sw_config r)),
     ce_fingerprint_reorchestrate = (\<lambda>r. rq_workflow_id r)\<rparr>"

definition demo_plane :: "runtime_service control_plane" where
  "demo_plane = make_control_plane fresh_service (empty_store ''boot-1'') None"

definition keyed_submit :: submit_workflow_request where
  "keyed_submit = demo_submit\<lparr>sw_idempotency_key := Some ''k''\<rparr>"

definition demo_action :: action_request where
  "demo_action = \<lparr>aq_workflow_id = ''w'', aq_actor = [], aq_reason = []\<rparr>"

definition exec_all :: "runtime_service control_op list \<Rightarrow> runtime_service control_plane \<Rightarrow> runtime_service control_plane" where
  "exec_all ops s = foldl (\<lambda>s x. projr (control_exec demo_env x s)) s ops"

lemma demo_plane_reachable: "control_reachable demo_env demo_plane"
  unfolding demo_plane_def by (rule control_reachable.start)

lemma demo_allowed: "allowed_op (cp_store demo_plane) (Submit keyed_submit)" "replaces_knowingly keyed_submit (cp_store demo_plane)"
  by (simp_all add: replaces_knowingly_def demo_plane_def make_control_plane_def empty_store_def get_workflow_def)

lemma demo_env_runtime: "ce_runtime demo_env = in_memory_api exact_only"
  by (simp add: demo_env_def)



theorem submit_is_idempotent_witness:
  "\<exists>resp s'. cp_submit_workflow demo_env keyed_submit demo_plane = Inr (resp, s') \<and> ra_ok resp \<and>
     cp_submit_workflow demo_env keyed_submit s' = Inr (resp, s')"
proof -
  obtain resp s' where run: "cp_submit_workflow demo_env keyed_submit demo_plane = Inr (resp, s')"
    using submit_ok [OF reachable_store_ok [OF demo_plane_reachable] demo_allowed(2), of demo_env]
    by (auto simp: cp_submit_workflow_def)
  have "ra_ok (fst (projr (cp_submit_workflow demo_env keyed_submit demo_plane)))" by code_simp
  moreover have "key_of (sw_idempotency_key keyed_submit) \<noteq> []" by (simp add: keyed_submit_def key_of_def)
  ultimately show ?thesis
    using submit_is_idempotent [OF demo_plane_reachable demo_env_runtime demo_allowed(2) _ run] run by auto
qed

text \<open>The workflow is submitted and paused; a re-orchestration is refused.\<close>

definition paused_plane :: "runtime_service control_plane" where
  "paused_plane = exec_all [Submit keyed_submit, Pause demo_action] demo_plane"

lemma exec_all_reachable:
  "control_reachable demo_env s \<Longrightarrow>
   (\<And>i. i < length ops \<Longrightarrow> allowed_op (cp_store (exec_all (take i ops) s)) (ops ! i)) \<Longrightarrow>
   control_reachable demo_env (exec_all ops s)"
proof (induction ops arbitrary: s)
  case Nil
  then show ?case by (simp add: exec_all_def)
next
  case (Cons x xs)
  have allowed: "allowed_op (cp_store s) x" using Cons.prems(2) [of 0] by (simp add: exec_all_def)
  from control_exec_ok [OF reachable_store_ok [OF Cons.prems(1)] this, of demo_env]
  obtain s1 where "control_exec demo_env x s = Inr s1" by blast
  with Cons.prems(1) allowed have "control_reachable demo_env (projr (control_exec demo_env x s))"
    by (auto intro: control_reachable.step)
  moreover have "exec_all (x # ops) s = exec_all ops (projr (control_exec demo_env x s))" for ops by (simp add: exec_all_def)
  ultimately show ?case using Cons.IH [of "projr (control_exec demo_env x s)"] Cons.prems(2) [of "Suc _"] by simp
qed

lemma paused_plane_reachable: "control_reachable demo_env paused_plane"
  unfolding paused_plane_def using demo_allowed
  by (intro exec_all_reachable demo_plane_reachable) (auto simp: less_Suc_eq exec_all_def)


text \<open>A new process over the same database.\<close>

definition restarted_plane :: "runtime_service control_plane" where
  "restarted_plane = exec_all [Submit keyed_submit, NewProcess fresh_service ''boot-2'' None] demo_plane"

lemma restarted_plane_reachable: "control_reachable demo_env restarted_plane"
  unfolding restarted_plane_def using demo_allowed
  by (intro exec_all_reachable demo_plane_reachable) (auto simp: less_Suc_eq exec_all_def)

theorem recovery_restores_runtime_witness:
  "\<exists>s'. recover_active_workflows demo_env no_auth restarted_plane = Inr s' \<and>
     map_of (im_workflows (cp_runtime s')) ''w'' = Some (to_app_workflow demo_config)"
proof -
  have rt: "cp_runtime restarted_plane = \<lparr>im_security = open_security, im_workflows = []\<rparr>"
    by (simp add: restarted_plane_def exec_all_def make_control_plane_def fresh_service_def)
  have auth: "ra_ok (authorize open_security no_auth)" by code_simp
  have "map_option state_and_config (get_workflow ''w'' (cp_store restarted_plane)) = Some (Planned, demo_config)" by code_simp
  then obtain r where "get_workflow ''w'' (cp_store restarted_plane) = Some r" "ws_state (wr_summary r) = Planned"
    "wr_config r = demo_config"
    by (auto simp: state_and_config_def)
  with recovery_restores_runtime [OF restarted_plane_reachable demo_env_runtime rt auth, of "''w''"]
  show ?thesis by auto
qed

subsection \<open>Behaviours worth knowing\<close>

text \<open>
  A submission that does not mention \<^verbatim>\<open>replace_existing\<close> replaces the workflow in the runtime, whose default
  is to replace, but the control plane starts the counters again: the second submission's events and
  plan overwrite those of the first. Ten events were streamed, five are kept, and the plan version is
  still 1.
\<close>

theorem default_resubmission_overwrites_history:
  "length (list_events ''w'' 0 (cp_store (exec_all [Submit demo_submit, Submit demo_submit] demo_plane))) = 5 \<and>
   length (list_plan_versions ''w'' 0 (cp_store (exec_all [Submit demo_submit, Submit demo_submit] demo_plane))) = 1"
  by code_simp

text \<open>
  The record is stored before the runtime checks the credentials: a caller without the token replaces
  the durable configuration of a workflow, although the answer is a rejection.
\<close>

definition guarded_plane :: "runtime_service control_plane" where
  "guarded_plane = exec_all [Submit keyed_submit, NewProcess \<lparr>im_security = token_security, im_workflows = []\<rparr> ''boot-2'' None]
     demo_plane"

definition intruder_submit :: submit_workflow_request where
  "intruder_submit = demo_submit\<lparr>sw_config := demo_config\<lparr>pw_tasks := []\<rparr>, sw_replace_existing := Some True\<rparr>"

theorem unauthorized_submission_overwrites_record:
  "\<not> ra_ok (fst (projr (cp_submit_workflow demo_env intruder_submit guarded_plane))) \<and>
   map_option (\<lambda>r. length (pw_tasks (wr_config r))) (get_workflow ''w'' (cp_store guarded_plane)) = Some 2 \<and>
   map_option (\<lambda>r. length (pw_tasks (wr_config r)))
     (get_workflow ''w'' (cp_store (exec_all [Submit intruder_submit] guarded_plane))) = Some 0"
  by code_simp

text \<open>Resuming does not look at the state: a cancelled workflow is planned again.\<close>

theorem resume_revives_cancelled:
  "map_option (\<lambda>r. ws_state (wr_summary r))
     (get_workflow ''w'' (cp_store (exec_all [Submit keyed_submit, Cancel demo_action] demo_plane))) = Some Cancelled \<and>
   map_option (\<lambda>r. ws_state (wr_summary r))
     (get_workflow ''w'' (cp_store (exec_all [Submit keyed_submit, Cancel demo_action, Resume demo_action] demo_plane))) =
       Some Planned"
  by code_simp

text \<open>
  A re-orchestration that carries both an idempotency key and the expected plan version cannot be
  retried: the first call creates version 2, and the retry is refused before its key is looked up.
\<close>

definition versioned_request :: reorchestrate_request where
  "versioned_request = demo_reorchestrate\<lparr>rq_idempotency_key := Some ''k2'', rq_expected_plan_version := Some 1\<rparr>"

theorem versioned_retry_rejected:
  "let s = exec_all [Submit keyed_submit] demo_plane; s' = exec_all [Reorchestrate versioned_request] s in
   ra_ok (fst (projr (cp_reorchestrate demo_env versioned_request s))) \<and>
   \<not> ra_ok (fst (projr (cp_reorchestrate demo_env versioned_request s')))"
  by code_simp

text \<open>
  Overrides change the runtime's copy of the workflow only. After a restart the task that was reported
  completed is a task of the workflow again.
\<close>

theorem recovery_forgets_overrides:
  "let ops = [Submit keyed_submit, Reorchestrate demo_reorchestrate] in
   map_option (\<lambda>c. map tc_id (wc_tasks c)) (map_of (im_workflows (cp_runtime (exec_all ops demo_plane))) ''w'') = Some [''b''] \<and>
   map_option (\<lambda>c. map tc_id (wc_tasks c)) (map_of (im_workflows (cp_runtime
     (exec_all (ops @ [NewProcess fresh_service ''boot-2'' None, Recover no_auth]) demo_plane))) ''w'') = Some [''a'', ''b'']"
  by code_simp

text \<open>
  A stream keeps its own copy of the record. When a workflow is paused between two events of a
  running stream, the next event stores the copy: the pause is undone, and the next audit entry takes
  the number of the one the pause wrote.
\<close>

theorem pause_undone_by_running_stream:
  "let s = exec_all [Submit keyed_submit] demo_plane; r = the (get_workflow ''w'' (cp_store s));
       s1 = snd (projr (pause_workflow demo_env demo_action s));
       s2 = snd (projr (record_event demo_env ''w'' [] [] (make_event TaskPlanned ''w'' []) (r, s1)));
       s3 = snd (projr (cancel_workflow demo_env demo_action s2)) in
   map_option (\<lambda>r. ws_state (wr_summary r)) (get_workflow ''w'' (cp_store s1)) = Some Paused \<and>
   map_option (\<lambda>r. ws_state (wr_summary r)) (get_workflow ''w'' (cp_store s2)) = Some Planned \<and>
   map ae_action (list_audit_entries ''w'' 0 (cp_store s1)) = [''pause''] \<and>
   map ae_action (list_audit_entries ''w'' 0 (cp_store s3)) = [''cancel'']"
  by code_simp

end
