(* ===== verification/Operator_Service_Examples.thy ===== *)
theory Operator_Service_Examples
  imports Operator_Service_Props Control_Plane_Examples
begin

text \<open>
  The operator console above the control plane of \<open>Control_Plane_Examples\<close>: runs that instantiate the
  theorems, and behaviours worth knowing.
\<close>

definition console_over :: "runtime_service control_plane \<Rightarrow> runtime_service operator_service" where
  "console_over s = \<lparr>os_plane = s, os_connectors = []\<rparr>"

definition console_all ::
  "operator_op list \<Rightarrow> runtime_service operator_service \<Rightarrow> runtime_service operator_service" where
  "console_all ops os = foldl (\<lambda>os x. projr (operator_exec demo_env x os)) os ops"

lemma console_over_reachable: "control_reachable demo_env s \<Longrightarrow> operator_reachable demo_env (console_over s)"
proof (induction rule: control_reachable.induct)
  case (start rt boot feed)
  show ?case unfolding console_over_def by (rule operator_reachable.start)
next
  case (step s oper s')
  from operator_reachable.control [OF step.IH, of oper s'] step.hyps show ?case by (simp add: console_over_def)
qed

lemma console_all_reachable:
  "operator_reachable demo_env os \<Longrightarrow> operator_reachable demo_env (console_all ops os)"
proof (induction ops arbitrary: os)
  case Nil
  then show ?case by (simp add: console_all_def)
next
  case (Cons x ops)
  from operator_exec_ok [OF operator_reachable_ok [OF Cons.prems], of demo_env x]
  obtain os1 where os1: "operator_exec demo_env x os = Inr os1" by blast
  from Cons.IH [OF operator_reachable.console [OF Cons.prems os1]] os1 show ?case by (simp add: console_all_def)
qed

text \<open>The workflow is submitted from the console, and submitted again: it has two plan versions.\<close>

definition console_upsert :: upsert_operator_workflow_request where
  "console_upsert = \<lparr>uw_config = demo_config, uw_auth = no_auth, uw_actor = [], uw_note = [], uw_idempotency_key = None\<rparr>"

definition console_twice :: "runtime_service operator_service" where
  "console_twice = console_all [UpsertWorkflow console_upsert, UpsertWorkflow console_upsert] (console_over demo_plane)"

definition demo_dashboard :: dashboard_request where
  "demo_dashboard = \<lparr>dq_selected_workflow_id = ''w'', dq_workflow_query = [], dq_auth = no_auth,
     dq_workflow_page_size = 0, dq_max_events = 0, dq_max_plan_versions = 0, dq_max_audit_entries = 0\<rparr>"

lemma console_twice_reachable: "operator_reachable demo_env console_twice"
  unfolding console_twice_def by (intro console_all_reachable console_over_reachable demo_plane_reachable)

lemma console_twice_state:
  "map_option wr_config (get_workflow ''w'' (os_store console_twice)) = Some demo_config"
  "map pv_version (list_plan_versions ''w'' 0 (os_store console_twice)) = [1, 2]"
  "map (\<lambda>a. (ae_actor a, ae_action a)) (list_audit_entries ''w'' 0 (os_store console_twice)) =
     [(''operator_ui'', ''operator_upsert_workflow''), (''operator_ui'', ''operator_upsert_workflow'')]"
  by code_simp+


theorem dashboard_shows_stored_state_witness:
  "dr_ok (fst (get_dashboard demo_env demo_dashboard console_twice)) \<and>
   (\<exists>pd. dr_selected_plan_diff (fst (get_dashboard demo_env demo_dashboard console_twice)) = Some pd \<and> pd_diff pd \<noteq> None)"
proof -
  obtain r where r: "get_workflow ''w'' (os_store console_twice) = Some r" using console_twice_state(1) by blast
  have q: "dq_selected_workflow_id demo_dashboard = ''w''" "dq_max_plan_versions demo_dashboard = 0"
    by (simp_all add: demo_dashboard_def)
  have "length (list_plan_versions ''w'' 0 (os_store console_twice)) = 2"
    using arg_cong [OF console_twice_state(2), of length] by simp
  then show ?thesis
    using dashboard_shows_stored_state [OF console_twice_reachable, of demo_dashboard r] r q by (auto simp: Let_def)
qed

definition console_task :: upsert_operator_task_request where
  "console_task = \<lparr>ut_workflow_id = ''w'', ut_task = pb_task ''c'' 1 [''b''], ut_auth = no_auth, ut_actor = ''ann'',
     ut_note = [], ut_idempotency_key = None\<rparr>"

definition console_removal :: delete_operator_task_request where
  "console_removal = \<lparr>dt_workflow_id = ''w'', dt_task_id = ''c'', dt_auth = no_auth, dt_actor = ''ann'', dt_note = [],
     dt_idempotency_key = None\<rparr>"

theorem operator_task_edit_takes_effect_witness:
  "\<exists>resp os1 r1. op_upsert_task demo_env console_task console_twice = Inr (resp, os1) \<and>
     get_workflow ''w'' (os_store os1) = Some r1 \<and> map px_id (pw_tasks (wr_config r1)) = [''a'', ''b'', ''c''] \<and>
     (\<exists>resp2 os2 r2. op_delete_task demo_env console_removal os1 = Inr (resp2, os2) \<and>
        get_workflow ''w'' (os_store os2) = Some r2 \<and> wr_config r2 = demo_config)"
proof -
  obtain r where r: "get_workflow ''w'' (os_store console_twice) = Some r" "wr_config r = demo_config"
    using console_twice_state(1) by blast
  have ids: "map px_id (pw_tasks demo_config) = [''a'', ''b'']" "px_id (ut_task console_task) = ''c''" by code_simp+
  have auth: "ra_ok (authorize (im_security (cp_runtime (os_plane console_twice))) (ut_auth console_task))" by code_simp
  have q: "ut_workflow_id console_task = ''w''" "fresh_key (ut_idempotency_key console_task) (os_store console_twice)"
    "dt_workflow_id console_removal = ut_workflow_id console_task" "dt_task_id console_removal = ''c''"
    "dt_idempotency_key console_removal = None" "dt_auth console_removal = ut_auth console_task"
    by (simp_all add: console_task_def console_removal_def fresh_key_def key_of_def)
  have "ut_workflow_id console_task \<noteq> []" "px_id (ut_task console_task) \<noteq> []"
    "get_workflow (ut_workflow_id console_task) (os_store console_twice) = Some r"
    "dt_task_id console_removal = px_id (ut_task console_task)"
    using q ids r by simp_all
  note edit = operator_task_edit_takes_effect [OF console_twice_reachable demo_env_runtime this(3,1,2) q(2) auth q(3)
    this(4) q(5,6)]
  have "push_unique [''a'', ''b''] ''c'' = [''a'', ''b'', ''c'']" by code_simp
  then show ?thesis using edit unfolding q(1) ids r(2) by auto
qed

subsection \<open>Behaviours worth knowing\<close>

definition console_cancel :: operator_action_request where
  "console_cancel = \<lparr>oa_workflow_id = ''w'', oa_auth = no_auth, oa_actor = [], oa_reason = []\<rparr>"

text \<open>Editing a task of a cancelled workflow submits the workflow again: it is planned, without a resume.\<close>

definition cancelled_console :: "runtime_service operator_service" where
  "cancelled_console = console_over (exec_all [Submit keyed_submit, Cancel demo_action] demo_plane)"

definition console_task_update :: upsert_operator_task_request where
  "console_task_update = console_task\<lparr>ut_task := pb_task ''b'' 4 [''a'']\<rparr>"

theorem task_edit_revives_cancelled:
  "map_option (\<lambda>r. ws_state (wr_summary r)) (get_workflow ''w'' (os_store cancelled_console)) = Some Cancelled \<and>
   map_option (\<lambda>r. ws_state (wr_summary r))
     (get_workflow ''w'' (os_store (console_all [UpsertTask console_task_update] cancelled_console))) = Some Planned"
  by code_simp

text \<open>
  With a bearer token configured: an edit without it is answered with an error, but the configuration
  is stored and the audit trail says that the task was inserted.
\<close>

definition guarded_console :: "runtime_service operator_service" where
  "guarded_console = console_over guarded_plane"

theorem rejected_edit_is_audited:
  "\<not> mr_ok (fst (projr (op_upsert_task demo_env console_task guarded_console))) \<and>
   (let st = os_store (console_all [UpsertTask console_task] guarded_console) in
    map_option (\<lambda>r. map px_id (pw_tasks (wr_config r))) (get_workflow ''w'' st) = Some [''a'', ''b'', ''c''] \<and>
    map ae_action (list_audit_entries ''w'' 0 st) = [''operator_insert_task''])"
  by code_simp

text \<open>The same caller cancels the workflow and reads the dashboard: these requests' credentials are not used.\<close>

theorem console_actions_ignore_credentials:
  "mr_ok (fst (projr (op_cancel_workflow demo_env console_cancel guarded_console))) \<and>
   dr_ok (fst (get_dashboard demo_env demo_dashboard guarded_console))"
  by code_simp

end
