(* ===== verification/Http_Examples.thy ===== *)
theory Http_Examples
  imports Http_Console Operator_Service_Examples
begin

text \<open>
  The HTTP transport in front of the control plane of \<open>Control_Plane_Examples\<close>: runs that instantiate the
  theorems, and behaviours of the code that its documentation does not promise.
\<close>

subsection \<open>A remote submission\<close>

definition demo_result :: "runtime_api_response \<times> runtime_service operator_service" where
  "demo_result = projr (re_submit_workflow (control_plane_endpoint demo_env)
     (keyed_submit\<lparr>sw_auth := carried_auth (default_client_options kDefaultHttpPort) False (sw_auth keyed_submit)\<rparr>)
     (console_over demo_plane))"

text \<open>A codec that knows one message of each kind.\<close>

definition demo_codec :: message_codec where
  "demo_codec = \<lparr>mc_parse_submit = (\<lambda>b. if b = ''S'' then Some keyed_submit else None),
     mc_parse_reorchestrate = (\<lambda>b. None), mc_parse_response = (\<lambda>b. if b = ''R'' then Some (fst demo_result) else None),
     mc_serialize_submit = (\<lambda>q. Some ''S''), mc_serialize_reorchestrate = (\<lambda>q. None), mc_serialize_response = (\<lambda>q. Some ''R''),
     mc_json_upsert_workflow = (\<lambda>b. None), mc_json_upsert_task = (\<lambda>b. None), mc_json_delete_task = (\<lambda>b. None),
     mc_json_action = (\<lambda>b. None), mc_json_intervention = (\<lambda>b. None), mc_print_dashboard = (\<lambda>d. Some ''D''),
     mc_print_update = (\<lambda>d. Some ''U''), mc_print_mutation = (\<lambda>m. Some ''M'')\<rparr>"

definition demo_server :: http_server where
  "demo_server = (make_http_server default_http_endpoint)\<lparr>hv_running := True\<rparr>"

definition working_ssl :: openssl where
  "working_ssl = \<lparr>sl_set_options = None, sl_set_min_version = True, sl_use_certificate_chain = (\<lambda>_. None),
     sl_use_private_key = (\<lambda>_ _. None), sl_set_default_verify_paths = None, sl_add_certificate_authority = (\<lambda>_. None)\<rparr>"

definition demo_client :: http_client where
  "demo_client = make_http_client (\<lambda>_. None) working_ssl (default_client_options kDefaultHttpPort)"

lemma demo_submission_succeeds:
  "\<exists>resp os. re_submit_workflow (control_plane_endpoint demo_env)
     (keyed_submit\<lparr>sw_auth := carried_auth (default_client_options kDefaultHttpPort) False (sw_auth keyed_submit)\<rparr>)
     (console_over demo_plane) = Inr (resp, os)"
proof -
  let ?q = "keyed_submit\<lparr>sw_auth := carried_auth (default_client_options kDefaultHttpPort) False (sw_auth keyed_submit)\<rparr>"
  have "replaces_knowingly ?q (cp_store demo_plane)"
    using demo_allowed(2) by (simp add: replaces_knowingly_def)
  from submit_ok [OF reachable_store_ok [OF demo_plane_reachable] this, of demo_env]
  obtain resp s' where "cp_submit_workflow demo_env ?q demo_plane = Inr (resp, s')"
    by (auto simp: cp_submit_workflow_def)
  then show ?thesis by (simp add: control_plane_endpoint_def console_over_def bind_result_def)
qed


definition get_request :: "string \<Rightarrow> http_request" where
  "get_request target = \<lparr>hr_method = Get, hr_target = target, hr_version = 11, hr_keep_alive = True, hr_headers = [], hr_body = []\<rparr>"

theorem rejected_requests_change_nothing_witness:
  "\<exists>resp. handle_http_request demo_codec (control_plane_endpoint demo_env) None False (get_request ''/v1/workflows:submit'')
     (console_over demo_plane) = Inr (resp, console_over demo_plane) \<and> hs_status resp = 405"
proof -
  let ?h = "handle_http_request demo_codec (control_plane_endpoint demo_env) None False (get_request ''/v1/workflows:submit'')
     (console_over demo_plane)"
  obtain resp s' where h: "?h = Inr (resp, s')" and status: "hs_status resp = 405"
    by (simp add: handle_http_request_def get_request_def split_target_def cut_at_def starts_with_def make_http_error_def
        demo_codec_def)
  with rejected_requests_change_nothing [OF h] show ?thesis by simp
qed

subsection \<open>A live dashboard\<close>

definition live_console :: "runtime_service operator_service" where
  "live_console = (console_over demo_plane)\<lparr>os_plane := demo_plane\<lparr>cp_feed := Some (make_in_memory_workflow_update_feed 4)\<rparr>\<rparr>"

definition live_rounds :: "(feed_action list list, runtime_service operator_service) sse_round list" where
  "live_rounds = [\<lparr>sr_others = id, sr_wait = [[Publish ''w'', Publish ''v'']], sr_write_ok = True\<rparr>,
     \<lparr>sr_others = id, sr_wait = [], sr_write_ok = True\<rparr>, \<lparr>sr_others = id, sr_wait = [], sr_write_ok = True\<rparr>]"

definition live_session :: "store_error + session_output \<times> runtime_service operator_service" where
  "live_session = process_http_session demo_codec (control_plane_endpoint demo_env) (Some (console_endpoint demo_env))
     (Some console_events) default_http_endpoint True True live_rounds
     (Inr (get_request ''/v1/operator/dashboard:stream'')) live_console"

lemma live_session_streams: "(case live_session of Inr (Stream es, _) \<Rightarrow> event_numbers es | _ \<Rightarrow> []) = [0, 1, 2]"
  by code_simp

theorem live_dashboard_ids_increase_witness:
  "\<exists>es s'. live_session = Inr (Stream es, s') \<and> event_numbers es = [0, 1, 2] \<and> sorted_wrt (<) (event_numbers es)"
proof -
  obtain es s' where es: "live_session = Inr (Stream es, s')" and numbers: "event_numbers es = [0, 1, 2]"
    using live_session_streams by (auto split: sum.splits session_output.splits)
  from live_dashboard_ids_increase [OF es [unfolded live_session_def]] es numbers show ?thesis by blast
qed

subsection \<open>TLS\<close>

definition pem_file :: "string \<Rightarrow> string option" where
  "pem_file path = Some (''PEM of '' @ path)"

definition mutual_tls :: tls_server_config where
  "mutual_tls = \<lparr>tv_identity = default_identity\<lparr>ti_certificate_chain := from_file ''c.pem'', ti_private_key := from_file ''k.pem''\<rparr>,
     tv_client_trust = default_trust, tv_require_client_certificate = True\<rparr>"

definition tls_endpoint :: http_endpoint_options where
  "tls_endpoint = default_http_endpoint\<lparr>he_use_tls := True, he_tls := mutual_tls\<rparr>"

definition working_acceptor :: acceptor_api where
  "working_acceptor = \<lparr>ap_make_address = (\<lambda>_. Inr False), ap_open = (\<lambda>_. None), ap_reuse_address = None,
     ap_bind = (\<lambda>_ _. None), ap_listen = None, ap_non_blocking = None, ap_local_port = Inr 8080\<rparr>"

definition tls_started :: http_server where
  "tls_started = http_server_start pem_file working_ssl working_acceptor (make_http_server tls_endpoint)"


subsection \<open>Behaviours worth knowing\<close>

text \<open>
  The prefix and the suffix of a route may overlap: the size of the identifier between them wraps around, and
  \<^verbatim>\<open>POST /v1/operator/workflows/tasks\<close> adds a task to a workflow named \<^verbatim>\<open>tasks\<close>.
\<close>

theorem overlapping_route_accepted:
  "extract_operator_task_workflow_id ''/v1/operator/workflows/tasks'' = Some ''tasks''"
  by code_simp

text \<open>
  The client puts the workflow's identifier into the path as it is: with a question mark in it the server
  does not find the route.
\<close>

theorem question_mark_breaks_the_route:
  "\<exists>resp. handle_http_request demo_codec (control_plane_endpoint demo_env) None False
     (make_http_client_request (default_client_options kDefaultHttpPort) (reorchestrate_path ''a?b'') [] kBinaryProtoContentType) os =
     Inr (resp, os) \<and> hs_status resp = 404"
proof -
  have "split_target (reorchestrate_path ''a?b'') = (''/v1/workflows/a'', ''b:reorchestrate'')" by code_simp
  moreover have "extract_workflow_id_from_target ''/v1/workflows/a'' = None" "\<not> starts_with ''/v1/workflows/a'' ''/v1/operator''"
    "''/v1/workflows/a'' \<noteq> kHttpSubmitWorkflowPath" by code_simp+
  ultimately show ?thesis
    by (simp add: handle_http_request_def make_http_client_request_def make_http_error_def demo_codec_def)
qed

text \<open>
  A server that could not bind its port cannot be started later: the acceptor stays open, and opening it
  again fails.
\<close>

definition busy_acceptor :: acceptor_api where
  "busy_acceptor = working_acceptor\<lparr>ap_bind := (\<lambda>_ _. Some ''Address already in use'')\<rparr>"

theorem failed_start_cannot_be_retried:
  "hv_startup_error (http_server_start pem_file working_ssl working_acceptor
     (http_server_start pem_file working_ssl busy_acceptor (make_http_server default_http_endpoint))) =
   ''Failed to open HTTP acceptor: Already open''"
  by code_simp

end
