(* ===== verification/Application_Examples.thy ===== *)
theory Application_Examples
  imports Application_Correct Http_Examples
begin

text \<open>
  The launcher and the configuration loader at work: documents that instantiate the theorems, and
  behaviours of the code that its documentation does not promise.
\<close>

subsection \<open>A document\<close>

definition doc_actor :: actor_config where
  "doc_actor = \<lparr>ac_id = ''x'', ac_type = ''robot'', ac_capacity = 1, ac_windows = [\<lparr>win_start = 0, win_end = 10\<rparr>],
     ac_capabilities = [''lift''], ac_execution_cost_per_unit = 1 / 2\<rparr>"

definition doc_task :: "string \<Rightarrow> string list \<Rightarrow> task_config" where
  "doc_task i deps = \<lparr>tc_id = i, tc_requested_time = 0, tc_duration = 2, tc_latest_start_time = 0, tc_deadline = 9,
     tc_priority = 1, tc_demand = 1, tc_mandatory = True, tc_preemptible = False, tc_allowed_actor_types = [],
     tc_allowed_actor_ids = [], tc_preferred_actor_ids = [''x''], tc_required_capabilities = [], tc_dependency_task_ids = deps,
     tc_mutually_exclusive_task_ids = [], tc_actor_distances = [(''x'', 3)], tc_tardiness_cost_per_unit = 0,
     tc_early_start_bonus = 0, tc_phase_durations = []\<rparr>"

definition doc_workflow :: workflow_config where
  "doc_workflow = \<lparr>wc_id = ''w'', wc_optimization = default_optimization_config, wc_actors = [doc_actor],
     wc_tasks = [doc_task ''a'' [], doc_task ''b'' [''a'']]\<rparr>"

definition doc_load :: "string \<Rightarrow> yaml_error + yaml_node" where
  "doc_load text = (if text = ''/cfg/w.yaml'' then Inr (render_workflow doc_workflow) else Inl YamlException)"


subsection \<open>Running and serving it\<close>

definition doc_env :: "yaml_node app_env" where
  "doc_env = \<lparr>ax_yaml = tree_yaml doc_load, ax_stdin = [], ax_read_file = pem_file, ax_stod = (\<lambda>_. Inr 0),
     ax_entries = exact_only, ax_control = demo_env, ax_open_store = (\<lambda>_. Inr (empty_store ''boot-1'')), ax_now = 0,
     ax_current_path = ''/'', ax_absolute_parent = (\<lambda>_. ''/cfg''), ax_ssl = working_ssl, ax_acceptor = working_acceptor,
     ax_valid_address = (\<lambda>_. True), ax_grpc_build = (\<lambda>_ _. Some 9090)\<rparr>"

definition doc_request :: request_file_config where
  "doc_request = \<lparr>rf_kind = WorkflowYaml, rf_path = ''w.yaml''\<rparr>"


theorem one_shot_success_is_feasible_witness:
  "run_one_shot_request doc_env doc_request ''/cfg'' = Inr 0 \<and>
   feasible_schedule (to_model doc_workflow) (response_plan (make_runtime_response (run_optimize exact_only doc_workflow) doc_workflow))"
proof -
  have run: "run_one_shot_request doc_env doc_request ''/cfg'' = Inr 0" by code_simp
  have kind: "rf_kind doc_request = WorkflowYaml" by (simp add: doc_request_def)
  have entries: "ax_entries doc_env = exact_only" by (simp add: doc_env_def)
  have loaded: "doc_workflow = load_config_from_file (ax_yaml doc_env) (resolve_configured_path ''/cfg'' (rf_path doc_request))"
    by code_simp
  have "config_wf doc_workflow" by (simp add: config_wf_def doc_workflow_def doc_task_def)
  with one_shot_success_is_feasible [OF run kind _ loaded] entries exact_only_sound run show ?thesis by simp
qed

definition doc_launch :: launch_config where
  "doc_launch = default_launch_config\<lparr>lc_cli := \<lparr>ci_enabled = True, ci_prompt = ''> ''\<rparr>,
     lc_grpc := \<lparr>gi_enabled = True, gi_endpoint = default_grpc_endpoint\<lparr>ge_port := 9\<rparr>\<rparr>, lc_security := token_security,
     lc_control_plane := \<lparr>cf_enabled = True, cf_database_path = ''/db'', cf_recover_on_start = True, cf_prune_after_days = 30\<rparr>\<rparr>"

definition doc_inputs :: "((service_stack \<Rightarrow> service_stack) \<times> cli_input) list" where
  "doc_inputs = [(id, Timeout), (id, LineReady '' submit-yaml  w.yaml ''), (id, LineReady ''quit'')]"

definition doc_outcome :: "app_error + service_outcome" where
  "doc_outcome = run_service_mode doc_env doc_launch ''/cfg'' doc_inputs"

lemma doc_outcome_stores:
  "(case doc_outcome of
      Inr out \<Rightarrow> so_exit out = 0 \<and>
        (case so_stack out of Some (Console os) \<Rightarrow> map pv_version (list_plan_versions ''w'' 0 (cp_store (os_plane os))) = [1] | _ \<Rightarrow> False)
    | _ \<Rightarrow> False)"
  by code_simp

theorem service_mode_stops_everything_witness:
  "\<exists>out. doc_outcome = Inr out \<and> so_exit out = 0 \<and> everything_stopped out \<and> feed_stopped (so_stack out)"
proof -
  obtain out where out: "doc_outcome = Inr out" "so_exit out = 0" using doc_outcome_stores by (auto split: sum.splits)
  from service_mode_stops_everything [OF out(1) [unfolded doc_outcome_def]] out show ?thesis by blast
qed

subsection \<open>Behaviours worth knowing\<close>

text \<open>
  An authentication mode the loader does not know turns authentication off: a misspelt mode lets every
  client in.
\<close>

definition misspelt_security :: yaml_node where
  "misspelt_security = YMap [(''mode'', YString ''bearer-token''), (''expected_credential'', YString ''secret'')]"

theorem unknown_auth_mode_lets_everyone_in:
  "(case parse_security (tree_yaml doc_load) misspelt_security of
      Inr sec \<Rightarrow> sc_mode sec = NoAuth \<and> ra_ok (authorize sec no_auth) | _ \<Rightarrow> False)"
  by code_simp

text \<open>A bearer-token configuration with no credential accepts requests without a token.\<close>

definition missing_credential :: yaml_node where
  "missing_credential = YMap [(''mode'', YString ''bearer_token'')]"

theorem missing_credential_lets_everyone_in:
  "(case parse_security (tree_yaml doc_load) missing_credential of
      Inr sec \<Rightarrow> sc_mode sec = BearerToken \<and> ra_ok (authorize sec no_auth) | _ \<Rightarrow> False)"
  by code_simp

text \<open>A deadline of zero, which the header documents as no hard deadline, is replaced by one.\<close>

theorem zero_deadline_is_replaced:
  "map_sum id tc_deadline (parse_task (tree_yaml doc_load) (YMap [(''duration'', YInt 5), (''deadline'', YInt 0)])) = Inr 1005"
  by code_simp

text \<open>
  When the other end of a pipe has been closed, \<^verbatim>\<open>poll\<close> reports hang-up together with the data that is still
  to be read: the command line drops it.
\<close>

theorem hang_up_drops_pending_input:
  "poll_cli_input \<lparr>pl_count = 1, pl_failed = True, pl_readable = True, pl_line = Some ''submit-yaml w.yaml''\<rparr> = Closed"
  by code_simp

text \<open>
  The launcher shuts the update feed down before it stops the HTTP server: until then a live dashboard does not wait
  any more, and sends keep-alives in a loop.
\<close>

theorem keepalives_spin_after_shutdown:
  assumes "cp_feed (os_plane os) = Some fd" and "fd_shutting_down fd"
  shows "wait_for_dashboard_update seen segs os = (None, os)"
proof -
  have "wait_for_update seen segs fd = (None, fd)"
    using assms(2) by (cases segs) (simp_all add: feed_ready_def newer_event_def)
  with assms(1) show ?thesis by (simp add: wait_for_dashboard_update_def)
qed

end
