(* ===== verification/Task_Executor.thy ===== *)
theory Task_Executor
  imports Prelude
begin

text \<open>
  \<^verbatim>\<open>utils/src/task_executor.cpp\<close>: the executor, and concurrent calls of a service on it. The thread pool of
  Boost.Asio under the executor is not part of the program: a pool thread may take any function object that was
  posted, no more run at once than there are threads, and none is taken once the pool is stopped. A
  call of a service is two steps: its critical section, which holds the mutex of the service, and the rest, which
  only uses what the critical section left it; calls also come from threads outside the pool (those of the
  transports). The steps of different calls interleave freely.
\<close>

subsection \<open>The executor\<close>

definition kMinimumSharedExecutorWorkerCount :: nat where "kMinimumSharedExecutorWorkerCount = 2"
definition kMinimumExecutorWorkerCount :: nat where "kMinimumExecutorWorkerCount = 1"

definition default_shared_executor_worker_count :: "nat \<Rightarrow> nat" where
  "default_shared_executor_worker_count hardware_concurrency = max kMinimumSharedExecutorWorkerCount hardware_concurrency"

text \<open>\<open>ex_posted\<close>: what was posted and not taken yet; a task is named by the number of its call.\<close>

record task_executor =
  ex_worker_count :: nat
  ex_stopped :: bool
  ex_posted :: "nat list"

definition make_task_executor :: "nat \<Rightarrow> task_executor" where
  "make_task_executor worker_count =
     \<lparr>ex_worker_count = max kMinimumExecutorWorkerCount worker_count, ex_stopped = False, ex_posted = []\<rparr>"

definition shared_task_executor :: "nat \<Rightarrow> task_executor" where
  "shared_task_executor hardware_concurrency = make_task_executor (default_shared_executor_worker_count hardware_concurrency)"

definition try_submit :: "nat \<Rightarrow> task_executor \<Rightarrow> task_executor" where
  "try_submit task ex = ex\<lparr>ex_posted := ex_posted ex @ [task]\<rparr>"

definition stop_executor :: "task_executor \<Rightarrow> task_executor" where
  "stop_executor ex = ex\<lparr>ex_stopped := True\<rparr>"

subsection \<open>Concurrent calls\<close>

text \<open>
  \<open>Done r\<close>: the call has returned \<open>r\<close>; for a call on the executor this is the state of the future of its
  \<^verbatim>\<open>packaged_task\<close>. \<open>cl_earlier\<close> records, for the proofs, which calls had returned when this one was made.
\<close>

datatype ('l, 'r) call_phase = Posted | Running | Entered 'l | Done 'r

record ('q, 'l, 'r) service_call =
  cl_request :: 'q
  cl_pooled :: bool
  cl_phase :: "('l, 'r) call_phase"
  cl_earlier :: "nat list"

text \<open>\<open>sy_order\<close> is the order in which the calls went through their critical sections.\<close>

record ('q, 'l, 'r, 's) call_system =
  sy_service :: 's
  sy_executor :: task_executor
  sy_calls :: "('q, 'l, 'r) service_call list"
  sy_order :: "nat list"

datatype 'q call_action = Call bool 'q | Take nat | Enter nat | Return nat | StopPool

fun is_done :: "('l, 'r) call_phase \<Rightarrow> bool" where
  "is_done (Done r) = True"
| "is_done _ = False"

fun has_entered :: "('l, 'r) call_phase \<Rightarrow> bool" where
  "has_entered (Entered l) = True"
| "has_entered (Done r) = True"
| "has_entered _ = False"

definition returned :: "('q, 'l, 'r) service_call list \<Rightarrow> nat list" where
  "returned cs = filter (\<lambda>i. is_done (cl_phase (cs ! i))) [0..<length cs]"

definition on_worker :: "('q, 'l, 'r) service_call \<Rightarrow> bool" where
  "on_worker c \<longleftrightarrow> cl_pooled c \<and> cl_phase c \<noteq> Posted \<and> \<not> is_done (cl_phase c)"

definition busy_workers :: "('q, 'l, 'r) service_call list \<Rightarrow> nat" where
  "busy_workers cs = length (filter on_worker cs)"

definition set_phase :: "nat \<Rightarrow> ('l, 'r) call_phase \<Rightarrow> ('q, 'l, 'r) service_call list \<Rightarrow> ('q, 'l, 'r) service_call list" where
  "set_phase i ph cs = cs[i := (cs ! i)\<lparr>cl_phase := ph\<rparr>]"

definition call_exec ::
  "('q \<Rightarrow> 's \<Rightarrow> 'l \<times> 's) \<Rightarrow> ('q \<Rightarrow> 'l \<Rightarrow> 'r) \<Rightarrow> 'q call_action \<Rightarrow> ('q, 'l, 'r, 's) call_system \<Rightarrow> ('q, 'l, 'r, 's) call_system option" where
  "call_exec critical rest a sy =
     (let cs = sy_calls sy; ex = sy_executor sy in
      case a of
        Call pooled q \<Rightarrow>
          Some (sy\<lparr>sy_calls := cs @ [\<lparr>cl_request = q, cl_pooled = pooled, cl_phase = (if pooled then Posted else Running),
                     cl_earlier = returned cs\<rparr>],
                   sy_executor := (if pooled then try_submit (length cs) ex else ex)\<rparr>)
      | Take i \<Rightarrow>
          if \<not> ex_stopped ex \<and> i \<in> set (ex_posted ex) \<and> busy_workers cs < ex_worker_count ex
          then Some (sy\<lparr>sy_calls := set_phase i Running cs, sy_executor := ex\<lparr>ex_posted := remove1 i (ex_posted ex)\<rparr>\<rparr>)
          else None
      | Enter i \<Rightarrow>
          if i < length cs \<and> cl_phase (cs ! i) = Running
          then (let (l, s) = critical (cl_request (cs ! i)) (sy_service sy) in
                Some (sy\<lparr>sy_service := s, sy_calls := set_phase i (Entered l) cs, sy_order := sy_order sy @ [i]\<rparr>))
          else None
      | Return i \<Rightarrow>
          if i < length cs
          then (case cl_phase (cs ! i) of
                  Entered l \<Rightarrow> Some (sy\<lparr>sy_calls := set_phase i (Done (rest (cl_request (cs ! i)) l)) cs\<rparr>)
                | _ \<Rightarrow> None)
          else None
      | StopPool \<Rightarrow> Some (sy\<lparr>sy_executor := stop_executor ex\<rparr>))"

definition call_start :: "nat \<Rightarrow> 's \<Rightarrow> ('q, 'l, 'r, 's) call_system" where
  "call_start workers s = \<lparr>sy_service = s, sy_executor = make_task_executor workers, sy_calls = [], sy_order = []\<rparr>"

inductive call_reachable ::
  "('q \<Rightarrow> 's \<Rightarrow> 'l \<times> 's) \<Rightarrow> ('q \<Rightarrow> 'l \<Rightarrow> 'r) \<Rightarrow> nat \<Rightarrow> 's \<Rightarrow> ('q, 'l, 'r, 's) call_system \<Rightarrow> bool"
  for critical rest workers s where
  start: "call_reachable critical rest workers s (call_start workers s)"
| step: "call_reachable critical rest workers s sy \<Longrightarrow> call_exec critical rest a sy = Some sy' \<Longrightarrow>
         call_reachable critical rest workers s sy'"

inductive_cases call_reachable_step: "call_reachable critical rest workers s sy"

subsection \<open>One call after the other\<close>

fun sequential :: "('q \<Rightarrow> 's \<Rightarrow> 'r \<times> 's) \<Rightarrow> 'q list \<Rightarrow> 's \<Rightarrow> 'r list \<times> 's" where
  "sequential call [] s = ([], s)"
| "sequential call (q # qs) s = (let (r, s) = call q s; (rs, s) = sequential call qs s in (r # rs, s))"

lemma sequential_snoc:
  "sequential call (qs @ [q]) s =
     (let (rs, s) = sequential call qs s; (r, s) = call q s in (rs @ [r], s))"
  by (induction qs arbitrary: s) (simp_all add: Let_def split: prod.splits)

lemma length_sequential [simp]: "length (fst (sequential call qs s)) = length qs"
proof (induction qs arbitrary: s)
  case (Cons q qs)
  then show ?case by (simp add: case_prod_beta Let_def)
qed simp

text \<open>The requests of the calls in the order of their critical sections.\<close>

definition ordered_requests :: "('q, 'l, 'r, 's) call_system \<Rightarrow> 'q list" where
  "ordered_requests sy = map (\<lambda>i. cl_request (sy_calls sy ! i)) (sy_order sy)"

text \<open>
  What a call that has entered holds: the given result, or what its computation needs to give it.
\<close>

fun holds :: "('q \<Rightarrow> 'l \<Rightarrow> 'r) \<Rightarrow> 'q \<Rightarrow> 'r \<Rightarrow> ('l, 'r) call_phase \<Rightarrow> bool" where
  "holds rest q r (Entered l) = (rest q l = r)"
| "holds rest q r (Done r') = (r' = r)"
| "holds rest q r _ = False"

text \<open>The state and the results are those of the calls made one after the other.\<close>

definition as_sequential ::
  "('q \<Rightarrow> 's \<Rightarrow> 'r \<times> 's) \<Rightarrow> ('q \<Rightarrow> 'l \<Rightarrow> 'r) \<Rightarrow> 's \<Rightarrow> ('q, 'l, 'r, 's) call_system \<Rightarrow> bool" where
  "as_sequential call rest s sy \<longleftrightarrow>
     sy_service sy = snd (sequential call (ordered_requests sy) s) \<and>
     (\<forall>k < length (sy_order sy).
        holds rest (ordered_requests sy ! k) (fst (sequential call (ordered_requests sy) s) ! k)
          (cl_phase (sy_calls sy ! (sy_order sy ! k))))"

text \<open>The order holds exactly the calls that have entered, the pool exactly those that wait.\<close>

definition numbered :: "('q, 'l, 'r, 's) call_system \<Rightarrow> bool" where
  "numbered sy \<longleftrightarrow>
     distinct (sy_order sy) \<and>
     (\<forall>i. i \<in> set (sy_order sy) \<longleftrightarrow> i < length (sy_calls sy) \<and> has_entered (cl_phase (sy_calls sy ! i))) \<and>
     distinct (ex_posted (sy_executor sy)) \<and>
     (\<forall>i. i \<in> set (ex_posted (sy_executor sy)) \<longleftrightarrow> i < length (sy_calls sy) \<and> cl_phase (sy_calls sy ! i) = Posted)"

text \<open>The steps the calls still have to make.\<close>

fun steps_of_phase :: "('l, 'r) call_phase \<Rightarrow> nat" where
  "steps_of_phase Posted = 3"
| "steps_of_phase Running = 2"
| "steps_of_phase (Entered l) = 1"
| "steps_of_phase (Done r) = 0"

definition steps_to_go :: "('q, 'l, 'r, 's) call_system \<Rightarrow> nat" where
  "steps_to_go sy = (\<Sum>c \<leftarrow> sy_calls sy. steps_of_phase (cl_phase c))"

text \<open>A call that had returned before another was made comes before it in the order.\<close>

definition timely :: "('q, 'l, 'r, 's) call_system \<Rightarrow> bool" where
  "timely sy \<longleftrightarrow>
     (\<forall>j < length (sy_calls sy). \<forall>i \<in> set (cl_earlier (sy_calls sy ! j)).
        i \<in> set (takeWhile (\<lambda>k. k \<noteq> j) (sy_order sy)))"

definition pool_bounded :: "('q, 'l, 'r, 's) call_system \<Rightarrow> bool" where
  "pool_bounded sy \<longleftrightarrow> busy_workers (sy_calls sy) \<le> ex_worker_count (sy_executor sy) \<and> 0 < ex_worker_count (sy_executor sy)"

end
