(* ===== verification/Concurrent_Calls.thy ===== *)
theory Concurrent_Calls
  imports Task_Executor Runtime_Service
begin

text \<open>
  Concurrent calls of the runtime service (\<^verbatim>\<open>submit_workflow_async\<close>, \<^verbatim>\<open>reorchestrate_async\<close>, and the calls of the
  transports' threads) are linearizable: every interleaving of their steps gives the responses and the state of the
  calls made one after the other. The locale \<open>locked_service\<close> is the contract this rests on, that a call is its
  critical section followed by a computation of its own; it is interpreted on the in-memory service.
\<close>

subsection \<open>Phases\<close>

lemma length_set_phase [simp]: "length (set_phase i ph cs) = length cs"
  by (simp add: set_phase_def)

lemma set_phase_nth:
  "i < length cs \<Longrightarrow> set_phase i ph cs ! j = (if i = j then (cs ! i)\<lparr>cl_phase := ph\<rparr> else cs ! j)"
  by (simp add: set_phase_def nth_list_update)

lemma set_phase_request [simp]: "cl_request (set_phase i ph cs ! j) = cl_request (cs ! j)"
  by (cases "i < length cs") (simp_all add: set_phase_def nth_list_update list_update_beyond)

lemma set_phase_earlier [simp]: "cl_earlier (set_phase i ph cs ! j) = cl_earlier (cs ! j)"
  by (cases "i < length cs") (simp_all add: set_phase_def nth_list_update list_update_beyond)

lemma busy_workers_set_phase:
  assumes "i < length cs"
  shows "busy_workers (set_phase i ph cs) + of_bool (on_worker (cs ! i)) =
    busy_workers cs + of_bool (on_worker ((cs ! i)\<lparr>cl_phase := ph\<rparr>))"
proof -
  let ?n = "length (filter on_worker (take i cs)) + length (filter on_worker (drop (Suc i) cs))"
  have "busy_workers (take i cs @ c # drop (Suc i) cs) = ?n + of_bool (on_worker c)" for c
    by (simp add: busy_workers_def)
  from this [of "cs ! i"] this [of "(cs ! i)\<lparr>cl_phase := ph\<rparr>"] show ?thesis
    using assms by (simp add: set_phase_def upd_conv_take_nth_drop id_take_nth_drop [symmetric])
qed

subsection \<open>What every step keeps\<close>

lemma call_exec_simps:
  "call_exec critical rest (Call pooled q) sy =
     Some (sy\<lparr>sy_calls := sy_calls sy @ [\<lparr>cl_request = q, cl_pooled = pooled, cl_phase = (if pooled then Posted else Running),
                cl_earlier = returned (sy_calls sy)\<rparr>],
              sy_executor := (if pooled then try_submit (length (sy_calls sy)) (sy_executor sy) else sy_executor sy)\<rparr>)"
  "call_exec critical rest StopPool sy = Some (sy\<lparr>sy_executor := stop_executor (sy_executor sy)\<rparr>)"
  by (simp_all add: call_exec_def Let_def)

lemma call_exec_Take:
  "call_exec critical rest (Take i) sy = Some sy' \<longleftrightarrow>
     \<not> ex_stopped (sy_executor sy) \<and> i \<in> set (ex_posted (sy_executor sy)) \<and>
     busy_workers (sy_calls sy) < ex_worker_count (sy_executor sy) \<and>
     sy' = sy\<lparr>sy_calls := set_phase i Running (sy_calls sy),
              sy_executor := (sy_executor sy)\<lparr>ex_posted := remove1 i (ex_posted (sy_executor sy))\<rparr>\<rparr>"
  by (auto simp: call_exec_def Let_def)

lemma call_exec_Enter:
  "call_exec critical rest (Enter i) sy = Some sy' \<longleftrightarrow>
     i < length (sy_calls sy) \<and> cl_phase (sy_calls sy ! i) = Running \<and>
     (\<exists>l s. critical (cl_request (sy_calls sy ! i)) (sy_service sy) = (l, s) \<and>
        sy' = sy\<lparr>sy_service := s, sy_calls := set_phase i (Entered l) (sy_calls sy), sy_order := sy_order sy @ [i]\<rparr>)"
  by (auto simp: call_exec_def Let_def split: prod.splits)

lemma call_exec_Return:
  "call_exec critical rest (Return i) sy = Some sy' \<longleftrightarrow>
     i < length (sy_calls sy) \<and>
     (\<exists>l. cl_phase (sy_calls sy ! i) = Entered l \<and>
        sy' = sy\<lparr>sy_calls := set_phase i (Done (rest (cl_request (sy_calls sy ! i)) l)) (sy_calls sy)\<rparr>)"
  by (auto simp: call_exec_def Let_def split: call_phase.splits)

lemmas call_exec_steps = call_exec_simps call_exec_Take call_exec_Enter call_exec_Return

lemma numberedI:
  assumes "distinct (sy_order sy)" and "distinct (ex_posted (sy_executor sy))"
    and "\<And>i. i \<in> set (sy_order sy) \<longleftrightarrow> i < length (sy_calls sy) \<and> has_entered (cl_phase (sy_calls sy ! i))"
    and "\<And>i. i \<in> set (ex_posted (sy_executor sy)) \<longleftrightarrow> i < length (sy_calls sy) \<and> cl_phase (sy_calls sy ! i) = Posted"
  shows "numbered sy"
  using assms by (simp add: numbered_def)

lemma numberedD:
  assumes "numbered sy"
  shows "distinct (sy_order sy)" and "distinct (ex_posted (sy_executor sy))"
    and "i \<in> set (sy_order sy) \<longleftrightarrow> i < length (sy_calls sy) \<and> has_entered (cl_phase (sy_calls sy ! i))"
    and "i \<in> set (ex_posted (sy_executor sy)) \<longleftrightarrow> i < length (sy_calls sy) \<and> cl_phase (sy_calls sy ! i) = Posted"
  using assms by (simp_all add: numbered_def)

lemma numbered_call:
  assumes "numbered sy" and "call_exec critical rest (Call pooled q) sy = Some sy'"
  shows "numbered sy'"
proof (rule numberedI)
  let ?n = "length (sy_calls sy)"
  from assms(2) have sy': "sy_order sy' = sy_order sy" "length (sy_calls sy') = Suc ?n"
    "ex_posted (sy_executor sy') = (if pooled then ex_posted (sy_executor sy) @ [?n] else ex_posted (sy_executor sy))"
    and phases: "\<And>i. i < ?n \<Longrightarrow> cl_phase (sy_calls sy' ! i) = cl_phase (sy_calls sy ! i)"
      "cl_phase (sy_calls sy' ! ?n) = (if pooled then Posted else Running)"
    by (auto simp: call_exec_simps try_submit_def nth_append)
  note old = numberedD [OF assms(1)]
  show "distinct (sy_order sy')" "distinct (ex_posted (sy_executor sy'))" by (simp_all add: sy' old)
  fix i
  show "i \<in> set (sy_order sy') \<longleftrightarrow> i < length (sy_calls sy') \<and> has_entered (cl_phase (sy_calls sy' ! i))"
    using phases by (cases "i < ?n"; cases "i = ?n") (simp_all add: sy' old)
  show "i \<in> set (ex_posted (sy_executor sy')) \<longleftrightarrow> i < length (sy_calls sy') \<and> cl_phase (sy_calls sy' ! i) = Posted"
    using phases by (cases "i < ?n"; cases "i = ?n") (simp_all add: sy' old)
qed

lemma numbered_set_phase:
  assumes "numbered sy" and "i < length (sy_calls sy)" and "sy_calls sy' = set_phase i ph (sy_calls sy)"
    and "sy_order sy' = (if has_entered ph \<and> \<not> has_entered (cl_phase (sy_calls sy ! i)) then sy_order sy @ [i] else sy_order sy)"
    and "ex_posted (sy_executor sy') = remove1 i (ex_posted (sy_executor sy))"
    and "ph \<noteq> Posted" and "has_entered (cl_phase (sy_calls sy ! i)) \<longrightarrow> has_entered ph"
  shows "numbered sy'"
proof (rule numberedI)
  note old = numberedD [OF assms(1)]
  show "distinct (sy_order sy')" "distinct (ex_posted (sy_executor sy'))" by (simp_all add: assms(4,5) old)
  fix j
  show "j \<in> set (sy_order sy') \<longleftrightarrow> j < length (sy_calls sy') \<and> has_entered (cl_phase (sy_calls sy' ! j))"
    using assms(2,7) by (cases "i = j"; cases "has_entered ph"; cases "has_entered (cl_phase (sy_calls sy ! i))")
      (simp_all add: assms(3,4) set_phase_nth old)
  show "j \<in> set (ex_posted (sy_executor sy')) \<longleftrightarrow> j < length (sy_calls sy') \<and> cl_phase (sy_calls sy' ! j) = Posted"
    using assms(2,6) by (cases "i = j") (simp_all add: assms(3,5) set_phase_nth old)
qed

lemma remove1_unposted:
  "numbered sy \<Longrightarrow> cl_phase (sy_calls sy ! i) \<noteq> Posted \<Longrightarrow>
     remove1 i (ex_posted (sy_executor sy)) = ex_posted (sy_executor sy)"
  by (simp add: numbered_def remove1_idem)

lemma numbered_step:
  assumes "numbered sy" and "call_exec critical rest a sy = Some sy'"
  shows "numbered sy'"
proof (cases a)
  case (Call pooled q)
  from assms(2) [unfolded Call] show ?thesis by (rule numbered_call [OF assms(1)])
next
  case (Take i)
  note step = assms(2) [unfolded Take call_exec_Take]
  with numberedD(4) [OF assms(1), of i] show ?thesis
    by (intro numbered_set_phase [OF assms(1), of i sy' Running]) simp_all
next
  case (Enter i)
  from assms(2) [unfolded Enter call_exec_Enter] obtain l where
    "sy_calls sy' = set_phase i (Entered l) (sy_calls sy)" "sy_order sy' = sy_order sy @ [i]"
    "sy_executor sy' = sy_executor sy" "i < length (sy_calls sy)" "cl_phase (sy_calls sy ! i) = Running"
    by auto
  with remove1_unposted [OF assms(1), of i] show ?thesis
    by (intro numbered_set_phase [OF assms(1), of i sy' "Entered l"]) simp_all
next
  case (Return i)
  from assms(2) [unfolded Return call_exec_Return] obtain l r where
    "sy_calls sy' = set_phase i (Done r) (sy_calls sy)" "sy_order sy' = sy_order sy"
    "sy_executor sy' = sy_executor sy" "i < length (sy_calls sy)" "cl_phase (sy_calls sy ! i) = Entered l"
    by auto
  with remove1_unposted [OF assms(1), of i] show ?thesis
    by (intro numbered_set_phase [OF assms(1), of i sy' "Done r"]) simp_all
next
  case StopPool
  from assms(2) [unfolded StopPool] have "sy_order sy' = sy_order sy" "sy_calls sy' = sy_calls sy"
    "ex_posted (sy_executor sy') = ex_posted (sy_executor sy)"
    by (auto simp: call_exec_simps stop_executor_def)
  with assms(1) show ?thesis unfolding numbered_def by simp
qed

lemma takeWhile_extends: "x \<in> set (takeWhile P xs) \<Longrightarrow> x \<in> set (takeWhile P (xs @ ys))"
  by (induction xs) (auto split: if_splits)

lemma timely_call:
  assumes "timely sy" and "numbered sy" and "call_exec critical rest (Call pooled q) sy = Some sy'"
  shows "timely sy'"
proof -
  let ?n = "length (sy_calls sy)"
  have fresh: "takeWhile (\<lambda>k. k \<noteq> ?n) (sy_order sy) = sy_order sy"
    using numberedD(3) [OF assms(2)] by (auto simp: takeWhile_eq_all_conv)
  have entered: "i \<in> set (takeWhile (\<lambda>k. k \<noteq> ?n) (sy_order sy))" if "i \<in> set (returned (sy_calls sy))" for i
    using that numberedD(3) [OF assms(2), of i] unfolding fresh
    by (cases "cl_phase (sy_calls sy ! i)") (auto simp: returned_def)
  from assms(3) have "length (sy_calls sy') = Suc ?n" "sy_order sy' = sy_order sy"
    "\<And>j. j < ?n \<Longrightarrow> sy_calls sy' ! j = sy_calls sy ! j" "cl_earlier (sy_calls sy' ! ?n) = returned (sy_calls sy)"
    by (auto simp: call_exec_simps nth_append)
  with assms(1) entered show ?thesis by (auto simp: timely_def less_Suc_eq)
qed

lemma timely_step:
  assumes "timely sy" and "numbered sy" and "call_exec critical rest a sy = Some sy'"
  shows "timely sy'"
proof (cases a)
  case (Call pooled q)
  with assms timely_call show ?thesis by metis
next
  case (Enter i)
  with assms(3) obtain ph where "sy_calls sy' = set_phase i ph (sy_calls sy)" "sy_order sy' = sy_order sy @ [i]"
    by (auto simp: call_exec_Enter)
  with assms(1) show ?thesis by (simp add: timely_def takeWhile_extends)
qed (use assms in \<open>auto simp: timely_def call_exec_steps\<close>)

lemma pool_bounded_step:
  assumes "pool_bounded sy" and "numbered sy" and "call_exec critical rest a sy = Some sy'"
  shows "pool_bounded sy'"
proof (cases a)
  case (Call pooled q)
  with assms show ?thesis
    by (auto simp: pool_bounded_def call_exec_steps busy_workers_def on_worker_def try_submit_def)
next
  case (Take i)
  with assms have i: "i < length (sy_calls sy)" by (auto simp: numbered_def call_exec_steps)
  with assms Take busy_workers_set_phase [OF i, of Running] show ?thesis
    by (auto simp: pool_bounded_def call_exec_steps on_worker_def of_bool_def split: if_splits)
next
  case (Enter i)
  with assms have i: "i < length (sy_calls sy)" by (auto simp: call_exec_steps)
  from assms Enter obtain l where "sy_calls sy' = set_phase i (Entered l) (sy_calls sy)" "sy_executor sy' = sy_executor sy"
    "cl_phase (sy_calls sy ! i) = Running"
    by (auto simp: call_exec_Enter)
  with assms(1) busy_workers_set_phase [OF i, of "Entered l"] show ?thesis
    by (simp add: pool_bounded_def on_worker_def)
next
  case (Return i)
  with assms have i: "i < length (sy_calls sy)" by (auto simp: call_exec_steps)
  from assms Return obtain r where "sy_calls sy' = set_phase i (Done r) (sy_calls sy)" "sy_executor sy' = sy_executor sy"
    by (auto simp: call_exec_Return)
  with assms(1) busy_workers_set_phase [OF i, of "Done r"] show ?thesis
    by (simp add: pool_bounded_def on_worker_def)
qed (use assms in \<open>auto simp: pool_bounded_def call_exec_steps stop_executor_def\<close>)

lemma worker_count_step:
  "call_exec critical rest a sy = Some sy' \<Longrightarrow> ex_worker_count (sy_executor sy') = ex_worker_count (sy_executor sy)"
  by (cases a) (auto simp: call_exec_steps try_submit_def stop_executor_def)

subsection \<open>Calls come to an end\<close>

lemma steps_to_go_set_phase:
  assumes "i < length (sy_calls sy)" and "sy_calls sy' = set_phase i ph (sy_calls sy)"
  shows "steps_to_go sy' + steps_of_phase (cl_phase (sy_calls sy ! i)) = steps_to_go sy + steps_of_phase ph"
proof -
  let ?cs = "sy_calls sy" and ?w = "\<lambda>c. steps_of_phase (cl_phase c)"
  have "(\<Sum>c \<leftarrow> take i ?cs @ c # drop (Suc i) ?cs. ?w c) =
      (\<Sum>c \<leftarrow> take i ?cs. ?w c) + (\<Sum>c \<leftarrow> drop (Suc i) ?cs. ?w c) + ?w c" for c
    by simp
  from this [of "?cs ! i"] this [of "(?cs ! i)\<lparr>cl_phase := ph\<rparr>"] show ?thesis
    using assms by (simp add: steps_to_go_def set_phase_def upd_conv_take_nth_drop id_take_nth_drop [symmetric])
qed

lemma steps_to_go_step:
  assumes "numbered sy" and "call_exec critical rest a sy = Some sy'" and "a \<in> {Take i, Enter i, Return i}"
  shows "steps_to_go sy = Suc (steps_to_go sy')"
proof -
  consider (take) "a = Take i" | (enter) "a = Enter i" | (return) "a = Return i" using assms(3) by blast
  then show ?thesis
  proof cases
    case take
    with assms numberedD(4) [OF assms(1), of i] have "i < length (sy_calls sy)" "cl_phase (sy_calls sy ! i) = Posted"
      "sy_calls sy' = set_phase i Running (sy_calls sy)" by (auto simp: call_exec_Take)
    with steps_to_go_set_phase [of i sy sy' Running] show ?thesis by simp
  next
    case enter
    with assms(2) obtain l where "i < length (sy_calls sy)" "cl_phase (sy_calls sy ! i) = Running"
      "sy_calls sy' = set_phase i (Entered l) (sy_calls sy)" by (auto simp: call_exec_Enter)
    with steps_to_go_set_phase [of i sy sy' "Entered l"] show ?thesis by simp
  next
    case return
    with assms(2) obtain l r where "i < length (sy_calls sy)" "cl_phase (sy_calls sy ! i) = Entered l"
      "sy_calls sy' = set_phase i (Done r) (sy_calls sy)" by (auto simp: call_exec_Return)
    with steps_to_go_set_phase [of i sy sy' "Done r"] show ?thesis by simp
  qed
qed

text \<open>A call that has begun can go on; if none has, the workers are free and take one that waits.\<close>

lemma begun_call_moves:
  assumes "i < length (sy_calls sy)" and "cl_phase (sy_calls sy ! i) = Running \<or> (\<exists>l. cl_phase (sy_calls sy ! i) = Entered l)"
  shows "call_exec critical rest (Enter i) sy \<noteq> None \<or> call_exec critical rest (Return i) sy \<noteq> None"
  using assms by (auto simp: call_exec_def Let_def split: prod.split)

lemma waiting_call_moves:
  assumes "numbered sy" and "pool_bounded sy" and "\<not> ex_stopped (sy_executor sy)"
    and "i < length (sy_calls sy)" and "cl_phase (sy_calls sy ! i) = Posted" and "busy_workers (sy_calls sy) = 0"
  shows "call_exec critical rest (Take i) sy \<noteq> None"
  using assms numberedD(4) [OF assms(1), of i] by (simp add: call_exec_def Let_def pool_bounded_def)

lemma some_call_moves:
  assumes "numbered sy" and "pool_bounded sy" and "\<not> ex_stopped (sy_executor sy)" and "steps_to_go sy > 0"
  shows "\<exists>i a sy'. a \<in> {Take i, Enter i, Return i} \<and> call_exec critical rest a sy = Some sy'"
proof -
  from assms(4) obtain i where i: "i < length (sy_calls sy)" "steps_of_phase (cl_phase (sy_calls sy ! i)) \<noteq> 0"
    by (auto simp: steps_to_go_def sum_list_eq_0_iff in_set_conv_nth simp flip: neq0_conv)
  show ?thesis
  proof (cases "busy_workers (sy_calls sy) = 0")
    case True
    with waiting_call_moves [OF assms(1-3) i(1)] begun_call_moves [OF i(1)] i(2) show ?thesis
      by (cases "cl_phase (sy_calls sy ! i)") fastforce+
  next
    case False
    then obtain j where j: "j < length (sy_calls sy)" "on_worker (sy_calls sy ! j)"
      by (auto simp: busy_workers_def filter_empty_conv in_set_conv_nth)
    with begun_call_moves [OF j(1)] show ?thesis
      by (cases "cl_phase (sy_calls sy ! j)") (fastforce simp: on_worker_def)+
  qed
qed

lemma calls_go_on:
  assumes "numbered sy" and "pool_bounded sy" and "\<not> ex_stopped (sy_executor sy)" and "steps_to_go sy > 0"
  shows "\<exists>a sy'. call_exec critical rest a sy = Some sy' \<and> steps_to_go sy = Suc (steps_to_go sy')"
  using some_call_moves [OF assms, of critical rest] steps_to_go_step [OF assms(1)] by blast

subsection \<open>The contract\<close>

locale locked_service =
  fixes call :: "'q \<Rightarrow> 's \<Rightarrow> 'r \<times> 's"
    and critical :: "'q \<Rightarrow> 's \<Rightarrow> 'l \<times> 's"
    and rest :: "'q \<Rightarrow> 'l \<Rightarrow> 'r"
  assumes call_split: "call q s = map_prod (rest q) id (critical q s)"
begin

lemma linear_start: "as_sequential call rest s (call_start workers s)"
  by (simp add: as_sequential_def call_start_def ordered_requests_def)

lemma linear_call:
  assumes "as_sequential call rest s sy" and "numbered sy" and "call_exec critical rest (Call pooled q) sy = Some sy'"
  shows "as_sequential call rest s sy'"
proof -
  have kept: "sy_calls sy' ! i = sy_calls sy ! i" if "i \<in> set (sy_order sy)" for i
    using assms(3) that numberedD(3) [OF assms(2), of i] by (auto simp: call_exec_simps nth_append)
  have order: "sy_order sy' = sy_order sy" "sy_service sy' = sy_service sy"
    using assms(3) by (auto simp: call_exec_simps)
  have "ordered_requests sy' = ordered_requests sy"
    by (simp add: ordered_requests_def order kept)
  with assms(1) show ?thesis by (simp add: as_sequential_def order kept)
qed

lemma linear_enter:
  assumes "as_sequential call rest s sy" and "numbered sy" and "call_exec critical rest (Enter i) sy = Some sy'"
  shows "as_sequential call rest s sy'"
proof -
  from assms(3) obtain l s' where i: "i < length (sy_calls sy)" "cl_phase (sy_calls sy ! i) = Running"
    and l: "critical (cl_request (sy_calls sy ! i)) (sy_service sy) = (l, s')"
    and sy': "sy_service sy' = s'" "sy_calls sy' = set_phase i (Entered l) (sy_calls sy)" "sy_order sy' = sy_order sy @ [i]"
    by (auto simp: call_exec_Enter)
  let ?q = "cl_request (sy_calls sy ! i)" and ?n = "length (sy_order sy)"
  have requests: "ordered_requests sy' = ordered_requests sy @ [?q]"
    by (simp add: ordered_requests_def sy')
  have lengths: "length (ordered_requests sy) = ?n" by (simp add: ordered_requests_def)
  from assms(1) obtain rs where rs: "sequential call (ordered_requests sy) s = (rs, sy_service sy)"
    and held: "\<And>k. k < ?n \<Longrightarrow> holds rest (ordered_requests sy ! k) (rs ! k) (cl_phase (sy_calls sy ! (sy_order sy ! k)))"
    by (cases "sequential call (ordered_requests sy) s") (auto simp: as_sequential_def)
  have n: "length rs = ?n" using length_sequential [of call "ordered_requests sy" s] rs lengths by simp
  have run: "sequential call (ordered_requests sy') s = (rs @ [rest ?q l], s')"
    by (simp add: requests sequential_snoc rs call_split l)
  have other: "sy_order sy ! k \<noteq> i" if "k < ?n" for k
    using that i numberedD(3) [OF assms(2), of "sy_order sy ! k"] by (auto simp: in_set_conv_nth)
  show ?thesis
    unfolding as_sequential_def run using held other i
    by (auto simp: sy' requests nth_append n lengths set_phase_nth less_Suc_eq)
qed

lemma linear_return:
  assumes "as_sequential call rest s sy" and "call_exec critical rest (Return i) sy = Some sy'"
  shows "as_sequential call rest s sy'"
proof -
  from assms(2) obtain l where i: "i < length (sy_calls sy)" and l: "cl_phase (sy_calls sy ! i) = Entered l"
    and sy': "sy_calls sy' = set_phase i (Done (rest (cl_request (sy_calls sy ! i)) l)) (sy_calls sy)"
      "sy_order sy' = sy_order sy" "sy_service sy' = sy_service sy"
    by (auto simp: call_exec_Return)
  have requests: "ordered_requests sy' = ordered_requests sy"
    by (simp add: ordered_requests_def sy')
  have at: "ordered_requests sy ! k = cl_request (sy_calls sy ! (sy_order sy ! k))" if "k < length (sy_order sy)" for k
    using that by (simp add: ordered_requests_def)
  show ?thesis using assms(1) l i
    by (auto simp: as_sequential_def sy' requests set_phase_nth at)
qed

lemma linear_take:
  assumes "as_sequential call rest s sy" and "numbered sy" and "call_exec critical rest (Take i) sy = Some sy'"
  shows "as_sequential call rest s sy'"
proof -
  have sy': "sy_calls sy' = set_phase i Running (sy_calls sy)" "sy_order sy' = sy_order sy" "sy_service sy' = sy_service sy"
    and i: "i < length (sy_calls sy)" "cl_phase (sy_calls sy ! i) = Posted"
    using assms(3) numberedD(4) [OF assms(2), of i] by (auto simp: call_exec_Take)
  have other: "sy_order sy ! k \<noteq> i" if "k < length (sy_order sy)" for k
    using that i numberedD(3) [OF assms(2), of "sy_order sy ! k"] by (auto simp: in_set_conv_nth)
  have "ordered_requests sy' = ordered_requests sy"
    by (simp add: ordered_requests_def sy')
  with assms(1) other i show ?thesis by (auto simp: as_sequential_def sy' set_phase_nth)
qed

lemma linear_step:
  assumes "as_sequential call rest s sy" and "numbered sy" and "call_exec critical rest a sy = Some sy'"
  shows "as_sequential call rest s sy'"
proof (cases a)
  case StopPool
  with assms(1,3) show ?thesis by (auto simp: call_exec_simps as_sequential_def ordered_requests_def)
qed (use linear_call [OF assms(1,2)] linear_enter [OF assms(1,2)] linear_return [OF assms(1)] linear_take [OF assms(1,2)]
  assms(3) in blast)+

theorem linearizable:
  assumes "call_reachable critical rest workers s sy"
  shows "as_sequential call rest s sy \<and> numbered sy \<and> timely sy \<and> pool_bounded sy \<and>
    ex_worker_count (sy_executor sy) = max 1 workers"
  using assms
proof (induction rule: call_reachable.induct)
  case start
  show ?case
    by (simp add: linear_start)
      (simp add: numbered_def timely_def pool_bounded_def call_start_def make_task_executor_def busy_workers_def
        kMinimumExecutorWorkerCount_def)
next
  case (step sy a sy')
  then show ?case
    using linear_step numbered_step timely_step pool_bounded_step worker_count_step [OF step.hyps(2)] by metis
qed

text \<open>A call that has returned has the result it has in the order.\<close>

lemma result_in_order:
  assumes "as_sequential call rest s sy" and "numbered sy"
    and "i < length (sy_calls sy)" and "cl_phase (sy_calls sy ! i) = Done r"
  shows "\<exists>k < length (sy_order sy). sy_order sy ! k = i \<and> fst (sequential call (ordered_requests sy) s) ! k = r"
proof -
  have "i \<in> set (sy_order sy)" using assms(3,4) numberedD(3) [OF assms(2), of i] by simp
  then obtain k where "k < length (sy_order sy)" "sy_order sy ! k = i" by (auto simp: in_set_conv_nth)
  with assms(1,4) show ?thesis unfolding as_sequential_def by (metis holds.simps(2))
qed

end

subsection \<open>The in-memory service\<close>

text \<open>
  The calls of the service and what they answer: a response, or the events of a stream. The critical section covers
  everything up to the release of the mutex; the authorization before it reads only the security settings, which
  never change.
\<close>

datatype runtime_call =
    SubmitWorkflow submit_workflow_request
  | Reorchestrate reorchestrate_request
  | StreamSubmitWorkflow submit_workflow_request
  | StreamReorchestrate reorchestrate_request

datatype runtime_answer = Response runtime_api_response | Events "workflow_event list"

text \<open>What a critical section leaves: a refusal, or the copy of the configuration to plan with.\<close>

datatype runtime_local = Refused runtime_api_response | Planning workflow_config

definition submit_critical :: "submit_workflow_request \<Rightarrow> runtime_service \<Rightarrow> runtime_local \<times> runtime_service" where
  "submit_critical req rs =
     (let auth = authorize (im_security rs) (sw_auth req); c = to_app_workflow (sw_config req) in
      if \<not> ra_ok auth then (Refused auth, rs)
      else if \<not> or_default (sw_replace_existing req) True \<and> umap_contains (im_workflows rs) (wc_id c)
      then (Refused (make_runtime_error_response ''Workflow already exists and replace_existing is false.''), rs)
      else (Planning c, rs\<lparr>im_workflows := AList.update (wc_id c) c (im_workflows rs)\<rparr>))"

fun submit_rest :: "backend_entry list \<Rightarrow> submit_workflow_request \<Rightarrow> runtime_local \<Rightarrow> workflow_event list" where
  "submit_rest entries req (Refused r) = [make_response_event RequestRejected (pw_id (sw_config req)) r (ra_error_message r)]"
| "submit_rest entries req (Planning c) =
     (let result = run_optimize entries c in
      [make_event WorkflowAccepted (wc_id c) ''Workflow accepted and stored.'',
       make_event ReplanningStarted (wc_id c) ''Initial optimization started.'']
      @ map (planned_event (wc_id c) c) (rr_assignments result)
      @ [make_response_event RunFinished (wc_id c) (make_runtime_response result c) ''Initial optimization finished.''])"

definition reorchestrate_critical :: "reorchestrate_request \<Rightarrow> runtime_service \<Rightarrow> runtime_local \<times> runtime_service" where
  "reorchestrate_critical req rs =
     (let auth = authorize (im_security rs) (rq_auth req) in
      if \<not> ra_ok auth then (Refused auth, rs)
      else case map_of (im_workflows rs) (rq_workflow_id req) of
        None \<Rightarrow> (Refused (make_runtime_error_response ''Workflow session not found.''), rs)
      | Some stored \<Rightarrow>
          (let c = apply_overrides req stored
           in (Planning c, rs\<lparr>im_workflows := AList.update (rq_workflow_id req) c (im_workflows rs)\<rparr>)))"

fun reorchestrate_rest :: "backend_entry list \<Rightarrow> reorchestrate_request \<Rightarrow> runtime_local \<Rightarrow> workflow_event list" where
  "reorchestrate_rest entries req (Refused r) =
     [make_response_event RequestRejected (rq_workflow_id req) r (ra_error_message r)]"
| "reorchestrate_rest entries req (Planning c) =
     (let wid = rq_workflow_id req;
          evs = map (task_override_event wid) (rq_task_overrides req) @ map (actor_override_event wid) (rq_actor_overrides req)
      in if \<not> or_default (rq_trigger_reorchestration req) True
         then evs @ [make_response_event RunFinished wid ok_response ''Overrides stored without replanning.'']
         else
           (let result = run_optimize entries c in
            evs @ [make_event ReplanningStarted wid ''Replanning started.'']
            @ map (planned_event wid c) (rr_assignments result)
            @ [make_response_event RunFinished wid (make_runtime_response result c) ''Replanning finished.'']))"

fun runtime_critical :: "runtime_call \<Rightarrow> runtime_service \<Rightarrow> runtime_local \<times> runtime_service" where
  "runtime_critical (SubmitWorkflow req) rs = submit_critical req rs"
| "runtime_critical (Reorchestrate req) rs = reorchestrate_critical req rs"
| "runtime_critical (StreamSubmitWorkflow req) rs = submit_critical req rs"
| "runtime_critical (StreamReorchestrate req) rs = reorchestrate_critical req rs"

fun runtime_rest :: "backend_entry list \<Rightarrow> runtime_call \<Rightarrow> runtime_local \<Rightarrow> runtime_answer" where
  "runtime_rest entries (SubmitWorkflow req) l = Response (consume_final_response (submit_rest entries req l))"
| "runtime_rest entries (Reorchestrate req) l = Response (consume_final_response (reorchestrate_rest entries req l))"
| "runtime_rest entries (StreamSubmitWorkflow req) l = Events (submit_rest entries req l)"
| "runtime_rest entries (StreamReorchestrate req) l = Events (reorchestrate_rest entries req l)"

text \<open>The call as one operation, as the rest of the development has it.\<close>

fun runtime_invoke :: "backend_entry list \<Rightarrow> runtime_call \<Rightarrow> runtime_service \<Rightarrow> runtime_answer \<times> runtime_service" where
  "runtime_invoke entries (SubmitWorkflow req) rs = map_prod Response id (submit_workflow entries req rs)"
| "runtime_invoke entries (Reorchestrate req) rs = map_prod Response id (reorchestrate entries req rs)"
| "runtime_invoke entries (StreamSubmitWorkflow req) rs = map_prod Events id (stream_submit_workflow entries req rs)"
| "runtime_invoke entries (StreamReorchestrate req) rs = map_prod Events id (stream_reorchestrate entries req rs)"

lemma stream_submit_splits:
  "stream_submit_workflow entries req rs = map_prod (submit_rest entries req) id (submit_critical req rs)"
  by (simp add: stream_submit_workflow_def submit_critical_def Let_def to_app_workflow_def)

lemma stream_reorchestrate_splits:
  "stream_reorchestrate entries req rs = map_prod (reorchestrate_rest entries req) id (reorchestrate_critical req rs)"
  by (simp add: stream_reorchestrate_def reorchestrate_critical_def Let_def split: option.split)

interpretation rt: locked_service "runtime_invoke entries" runtime_critical "runtime_rest entries" for entries
proof
  fix q rs
  show "runtime_invoke entries q rs = map_prod (runtime_rest entries q) id (runtime_critical q rs)"
    by (cases q) (simp_all add: submit_workflow_def reorchestrate_def stream_submit_splits stream_reorchestrate_splits
      case_prod_beta map_prod_def)
qed

text \<open>
  C17. Concurrent submissions and re-orchestrations are linearizable. Whatever the interleaving of calls on the worker
  pool and on other threads, the stored workflows and all answers given are those of the calls made one after the
  other, in an order that keeps a call after every call that had returned when it was made; no more calls run on the
  pool than it has workers; and as long as the pool is not stopped some call can go on until all have returned.
\<close>

theorem concurrent_calls_linearizable:
  assumes "call_reachable runtime_critical (runtime_rest entries) workers rs sy"
  shows "sy_service sy = snd (sequential (runtime_invoke entries) (ordered_requests sy) rs) \<and>
    (\<forall>i r. i < length (sy_calls sy) \<and> cl_phase (sy_calls sy ! i) = Done r \<longrightarrow>
       (\<exists>k < length (sy_order sy). sy_order sy ! k = i \<and>
          fst (sequential (runtime_invoke entries) (ordered_requests sy) rs) ! k = r)) \<and>
    distinct (sy_order sy) \<and> set (sy_order sy) \<subseteq> {..<length (sy_calls sy)} \<and>
    (\<forall>j < length (sy_calls sy). \<forall>i \<in> set (cl_earlier (sy_calls sy ! j)). i \<in> set (takeWhile (\<lambda>k. k \<noteq> j) (sy_order sy))) \<and>
    busy_workers (sy_calls sy) \<le> max 1 workers \<and>
    (\<not> ex_stopped (sy_executor sy) \<and> steps_to_go sy > 0 \<longrightarrow>
       (\<exists>a sy'. call_exec runtime_critical (runtime_rest entries) a sy = Some sy' \<and> steps_to_go sy = Suc (steps_to_go sy')))"
proof -
  have inv: "as_sequential (runtime_invoke entries) (runtime_rest entries) rs sy" "numbered sy" "timely sy" "pool_bounded sy"
    and workers: "ex_worker_count (sy_executor sy) = max 1 workers"
    using rt.linearizable [OF assms] by blast+
  have state: "sy_service sy = snd (sequential (runtime_invoke entries) (ordered_requests sy) rs)"
    using inv(1) by (simp add: as_sequential_def)
  have order: "set (sy_order sy) \<subseteq> {..<length (sy_calls sy)}" using numberedD(3) [OF inv(2)] by blast
  show ?thesis
    using state rt.result_in_order [OF inv(1,2)] numberedD(1) [OF inv(2)] order inv(3) inv(4) workers
      calls_go_on [OF inv(2,4), of runtime_critical "runtime_rest entries"]
    unfolding timely_def pool_bounded_def by (intro conjI) simp_all
qed

end
