(* ===== verification/Concurrent_Calls_Examples.thy ===== *)
theory Concurrent_Calls_Examples
  imports Concurrent_Calls Runtime_Service_Examples
begin

text \<open>
  A run of three concurrent calls: a submission on the pool, a re-orchestration on another thread that overtakes it
  and is refused, and one on the pool that finds the workflow although the submission is still planning.
\<close>

fun call_run ::
  "('q \<Rightarrow> 's \<Rightarrow> 'l \<times> 's) \<Rightarrow> ('q \<Rightarrow> 'l \<Rightarrow> 'r) \<Rightarrow> 'q call_action list \<Rightarrow> ('q, 'l, 'r, 's) call_system \<Rightarrow>
     ('q, 'l, 'r, 's) call_system option" where
  "call_run critical rest [] sy = Some sy"
| "call_run critical rest (a # as) sy =
     (case call_exec critical rest a sy of None \<Rightarrow> None | Some sy \<Rightarrow> call_run critical rest as sy)"

lemma call_run_reachable:
  "call_run critical rest as sy = Some sy' \<Longrightarrow> call_reachable critical rest workers s sy \<Longrightarrow>
     call_reachable critical rest workers s sy'"
  by (induction as arbitrary: sy) (auto split: option.splits intro: call_reachable.step)

definition overtaking_calls :: "runtime_call call_action list" where
  "overtaking_calls =
     [Call True (SubmitWorkflow demo_submit), Call False (StreamReorchestrate demo_reorchestrate),
      Enter 1, Take 0, Enter 0, Return 1,
      Call True (Reorchestrate demo_reorchestrate), Take 2, Enter 2, Return 2]"

definition overtaken :: "(runtime_call, runtime_local, runtime_answer, runtime_service) call_system" where
  "overtaken = the (call_run runtime_critical (runtime_rest exact_only) overtaking_calls (call_start 2 fresh_service))"

lemma overtaken_run:
  "call_run runtime_critical (runtime_rest exact_only) overtaking_calls (call_start 2 fresh_service) = Some overtaken"
  unfolding overtaken_def by code_simp

lemma overtaken_reachable: "call_reachable runtime_critical (runtime_rest exact_only) 2 fresh_service overtaken"
  by (rule call_run_reachable [OF overtaken_run call_reachable.start])

lemma overtaken_order:
  "sy_order overtaken = [1, 0, 2]" "length (sy_calls overtaken) = 3"
  "map (is_done \<circ> cl_phase) (sy_calls overtaken) = [False, True, True]"
  unfolding overtaken_def by code_simp+

lemma overtaken_requests:
  "ordered_requests overtaken =
     [StreamReorchestrate demo_reorchestrate, SubmitWorkflow demo_submit, Reorchestrate demo_reorchestrate]"
  unfolding overtaken_def by code_simp

lemma overtaken_last: "steps_to_go overtaken = 1" "\<not> ex_stopped (sy_executor overtaken)"
  unfolding overtaken_def by code_simp+

lemma overtaken_earlier: "cl_earlier (sy_calls overtaken ! 2) = [1]"
  unfolding overtaken_def by code_simp

theorem concurrent_calls_linearizable_witness:
  "sy_service overtaken = snd (sequential (runtime_invoke exact_only)
     [StreamReorchestrate demo_reorchestrate, SubmitWorkflow demo_submit, Reorchestrate demo_reorchestrate] fresh_service) \<and>
   1 \<in> set (takeWhile (\<lambda>k. k \<noteq> 2) (sy_order overtaken)) \<and> sy_order overtaken = [1, 0, 2] \<and>
   busy_workers (sy_calls overtaken) \<le> 2 \<and>
   (\<exists>a sy'. call_exec runtime_critical (runtime_rest exact_only) a overtaken = Some sy' \<and> steps_to_go sy' = 0)"
  using concurrent_calls_linearizable [OF overtaken_reachable] overtaken_order overtaken_requests overtaken_last
    overtaken_earlier
  by simp

text \<open>
  A pool that has been stopped takes nothing: a call posted to it stays posted, whatever happens, and its future is
  never ready, although \<^verbatim>\<open>try_submit\<close> accepted it.
\<close>

lemma stopped_step:
  assumes "call_exec critical rest a sy = Some sy'" and "ex_stopped (sy_executor sy)"
    and "i < length (sy_calls sy)" and "cl_phase (sy_calls sy ! i) = Posted"
  shows "ex_stopped (sy_executor sy') \<and> i < length (sy_calls sy') \<and> cl_phase (sy_calls sy' ! i) = Posted"
  using assms
  by (cases a) (auto simp: call_exec_steps try_submit_def stop_executor_def nth_append set_phase_nth)

theorem stopped_pool_never_answers:
  assumes "call_run critical rest as sy = Some sy'" and "ex_stopped (sy_executor sy)"
    and "i < length (sy_calls sy)" and "cl_phase (sy_calls sy ! i) = Posted"
  shows "cl_phase (sy_calls sy' ! i) = Posted"
  using assms
proof (induction as arbitrary: sy)
  case (Cons a as)
  then show ?case using stopped_step [of critical rest a sy _ i] by (auto split: option.splits)
qed simp

end
