(* ===== verification/Spec2Isabelle.thy ===== *)
theory Spec2Isabelle
  imports Core_Props Orchestrator_Examples Workflow_Optimizer_Examples Sim_Clock
    Sqlite_Store_Refines Grpc_Transport_Examples Application_Examples Concurrent_Calls_Examples
begin

text \<open>
  \<^bold>\<open>Verification of the task orchestrator.\<close>

  The program (C++, under \<^verbatim>\<open>src/\<close>) assigns the tasks of workflows to actors over time. It has six parts.
  \<^enum> The \<^emph>\<open>core\<close> (\<^verbatim>\<open>task_orchestrator/src/core\<close>): workflows of phases and processes, actors with
    availability windows, a planner state machine, the greedy runtime scheduler, and the orchestrator
    that plans, dispatches and follows completions and failures.
  \<^enum> The \<^emph>\<open>optimizer\<close> (\<^verbatim>\<open>task_orchestrator/src/optimizer\<close>, \<^verbatim>\<open>optimizer_backend\<close>): a model of tasks and
    actors, a branch-and-bound back-end, a discrete-time formulation solved by CP-SAT or a MIP engine, a
    registry that chooses among the linked back-ends, and a controlled-language front end.
  \<^enum> The \<^emph>\<open>runtime service\<close> (\<^verbatim>\<open>application/runner\<close>, \<^verbatim>\<open>application/runtime_service\<close>): the API that stores
    workflows in memory, applies overrides and answers with optimized plans as event streams.
  \<^enum> The \<^emph>\<open>control plane\<close> (\<^verbatim>\<open>control_plane\<close>): records of workflows, events, plan versions and audit entries
    in an SQLite store above the runtime service, idempotent requests, operator actions, recovery,
    plan differences, an update feed, pruning of history; and the operator service
    (\<^verbatim>\<open>application/operator\<close>) above it, which edits tasks and builds dashboards.
  \<^enum> The \<^emph>\<open>transports\<close> (\<^verbatim>\<open>protocol\<close>): an asynchronous gRPC server and client for the runtime API, an HTTP server
    and client for it and for the operator console with live dashboards, TLS credentials for both.
  \<^enum> The \<^emph>\<open>launcher\<close> (\<^verbatim>\<open>application/runner/src/application.cpp\<close>, \<^verbatim>\<open>application/config\<close>): it reads a YAML
    configuration and runs one request, or puts services and transports together, serves, and reads commands.

  \<^bold>\<open>Theories and what they model.\<close>
  \<^item> \<open>Prelude\<close>: identifiers, times, windows (\<^verbatim>\<open>utils/types.hpp\<close>), unordered maps as association lists,
    comparator sorts, generic lemmas. \<open>Text_Input\<close>: the string functions of the standard library
    that are used, number readers with their exceptions as values.
  \<^item> \<open>Workflow\<close>, \<open>Actor\<close>, \<open>Strategy\<close>, \<open>Planner_Fsm\<close>: \<^verbatim>\<open>core/workflow.cpp\<close>, \<^verbatim>\<open>core/actor.cpp\<close>, the four ordering
    strategies, \<^verbatim>\<open>core/planner_fsm.cpp\<close> with the state-machine back-end as parameter.
  \<^item> \<open>Scheduler\<close>: \<^verbatim>\<open>core/scheduler.cpp\<close>, one definition per function. \<open>Scheduler_Correct\<close>: capacity,
    soundness of assignments, dependencies, exclusions, least start, best candidate.
    \<open>Scheduler_Loop\<close>: the planning loop returns, its plan is maximal, does not depend on iteration
    orders (total strategies), and fails closed. \<open>Core_Props\<close>: the theorems on the small components.
  \<^item> \<open>Orchestrator\<close>: \<^verbatim>\<open>core/orchestrator.cpp\<close> as state transformers and a step relation; dispatch
    safety, consistency of the task sets, conservation of load.
  \<^item> \<open>Opt_Model\<close>, \<open>Indexed_Exact\<close>, \<open>Indexed_Exact_Correct\<close>: \<^verbatim>\<open>optimizer/model.hpp\<close>, the constraint index and the
    branch-and-bound search; its solutions are feasible and, where the pruning bound is admissible,
    optimal among the leaves of the unpruned search.
  \<^item> \<open>Discrete_Time\<close>, \<open>Solver_Backends\<close>, \<open>Discrete_Time_Correct\<close>: the formulation, the rows handed to the
    solvers and the decoding; what a solver that respects the rows returns is a correct solution, and
    both encodings have the same solutions.
  \<^item> \<open>Nlp_Parser\<close>, \<open>Workflow_Optimizer\<close>: the front end, the registry and \<^verbatim>\<open>WorkflowOptimizer\<close>; the locale
    \<open>sound_backend\<close> is the contract of a back-end, interpreted on the three models.
  \<^item> \<open>Sim_Clock\<close>: \<^verbatim>\<open>utils/src/sim_clock.cpp\<close>.
  \<^item> \<open>Protocol_Types\<close>, \<open>Runner\<close>, \<open>Runtime_Service\<close>, \<open>Runtime_Service_Correct\<close>: messages, translation of
    configurations, the in-memory service; its plans are feasible schedules of what it stores.
  \<^item> \<open>Task_Executor\<close>, \<open>Concurrent_Calls\<close>: \<^verbatim>\<open>utils/src/task_executor.cpp\<close> and the calls that run on it at the same
    time. A call waits on the pool, runs, passes its critical section and returns, and these steps interleave freely; the
    locale \<open>locked_service\<close> (a call is its critical section followed by a computation of its own) makes every
    interleaving equal to calls made one after the other, and is interpreted on the in-memory service.
  \<^item> \<open>Update_Feed\<close>, \<open>Plan_Diff\<close>: the feed with its waiters, plan differences (applying a difference
    gives the newer plan), the connector registry.
  \<^item> \<open>Workflow_Store\<close>, \<open>Workflow_Store_Correct\<close>: the store as its interface promises it, paging, pruning.
    \<open>Sqlite_Store\<close>, \<open>Sqlite_Store_Refines\<close>: rows and statements of
    \<^verbatim>\<open>control_plane/src/store/sqlite_workflow_store.cpp\<close>; every sequence of calls gives the replies of the
    store of messages.
  \<^item> \<open>Control_Plane\<close>, \<open>Control_Plane_Correct\<close>, \<open>Control_Plane_Props\<close>:
    \<^verbatim>\<open>control_plane/src/service/control_plan_service.cpp\<close>; every operation succeeds and keeps the numbered
    histories, a recorded submission is what the client saw, keyed submissions happen once,
    paused and cancelled workflows are frozen, recovery restores the runtime. The locale
    \<open>runtime_interface\<close> is the contract of the runtime, interpreted on the in-memory service.
  \<^item> \<open>Operator_Service\<close>, \<open>Operator_Service_Props\<close>: \<^verbatim>\<open>application/operator/src/operator_service.cpp\<close>, the service
    behind the console, above the control plane and its store; it keeps the histories, its task edits
    reach store and runtime and can be taken back, its dashboard shows the stored state.
  \<^item> \<open>Generator\<close>: \<^verbatim>\<open>utils/generator.hpp\<close>, the coroutine behind every stream; a loop over it is a loop over the
    list of its values.
  \<^item> \<open>Tls_Credentials\<close>: \<^verbatim>\<open>protocol/src/tls_credentials.cpp\<close>, endpoint and client options, credentials for gRPC.
  \<^item> \<open>Grpc_Transport\<close>, \<open>Grpc_Transport_Correct\<close>: \<^verbatim>\<open>protocol/src/grpc_transport.cpp\<close>. Server and client calls are state
    machines; a system is a call with its operations in flight and its worker, its steps are the
    completions (in any order) and the critical sections of the worker, and undefined behaviour is recorded. Streams are
    sent in order and once; unary calls never touch a freed object; streaming calls neither, and end, as long as
    no notification overlaps another operation (the examples show the runs where one does); the
    client hands out what it received and closes once.
  \<^item> \<open>Http_Transport\<close>, \<open>Http_Session\<close>: \<^verbatim>\<open>protocol/src/detail/http_transport_detail.hpp\<close> (routes, query strings,
    requests, replies, client requests) and \<^verbatim>\<open>protocol/src/http_transport.cpp\<close> (TLS contexts, start and stop,
    sessions, live dashboards, client). \<open>Http_Transport_Correct\<close>: query strings round trip.
    \<open>Http_Calls\<close>: a call through client and server is a direct call, error replies change nothing, the secure flag is
    the server's. \<open>Http_Console\<close>: the numbers of a live dashboard increase (the locale \<open>event_source\<close>, interpreted on
    the operator service), TLS is never dropped.
  \<^item> \<open>Config_Loader\<close>, \<open>Config_Loader_Correct\<close>: \<^verbatim>\<open>application/config/config_loader.cpp\<close> over an abstract YAML library;
    what is loaded is well formed, and a rendered workflow is read back.
  \<^item> \<open>Application\<close>, \<open>Application_Correct\<close>: \<^verbatim>\<open>application/runner/src/application.cpp\<close>; a workflow submitted to the
    service gets the plan of the one-shot mode, a successful run is a feasible plan, no server outlives the launcher.
  \<^item> The theories ending in \<open>_Examples\<close> hold the concrete instances of the theorems and counterexamples to
    claims of comments and documents.

  \<^bold>\<open>Conventions.\<close> Signed integers are mathematical integers (overflow is undefined in C++); unsigned
  counters that wrap and narrowing conversions are words or \<open>signed_take_bit\<close>; \<^verbatim>\<open>double\<close> is a rational
  with the rounding as parameter; exceptions and rejected requests are values; \<^verbatim>\<open>std::ranges::sort\<close> is a stable
  sort (one of the results the standard allows); the iteration order of unordered containers is a
  parameter or the order of an association list. A coroutine stream is the list of the events it
  yields to a caller that drains it, with the state it leaves; \<open>Generator\<close> justifies this for the loops over it. Operations that hold a mutex are
  atomic, and \<open>Concurrent_Calls\<close> shows that for the runtime service this is no restriction; the interleavings that matter are explicit (waiters of the feed, a pause during a
  stream, completions and workers of a gRPC call, other clients beside a live dashboard or the command line). Parameters stand for code outside the repository: Boost.MSM, OR-Tools and the MIP engines,
  the protobuf codec, the YAML library, OpenSSL, sockets and acceptor, the gRPC runtime, files, \<^verbatim>\<open>std::stod\<close>,
  the system clock, hashes; what is assumed of them is a named
  hypothesis with a concrete instance. Loops are total functions with termination proofs (the planning
  loop, the search, the readers); the event loop of the clock, which a callback can keep alive, is a
  partial function with a theorem that it returns. The only fuel is in \<open>collect_pages\<close>, a client that
  follows page tokens: one more page than there are results is proved to be enough.

  \<^bold>\<open>Not modelled.\<close> Wire formats and generated stubs; sockets below the HTTP sessions and the accept loop, which only
  hands sockets to them; logging; the thread pool of Boost.Asio under the task executor, of which only
  what its workers may do is used (take anything posted, at most one task each, nothing after a stop); the state a stream leaves when the store throws inside it (no store operation
  throws in the states the control plane reaches); the user interface; benchmarks; SQLite pragmas and
  indexes (no effect on the tables).
\<close>

end
